(* ===== verification/Prelude.thy ===== *)
theory Prelude
  imports Main "HOL-Library.AList" "HOL-Library.Char_ord" "HOL-Library.List_Lexorder"
begin

text \<open>
  Shared vocabulary of the development: the errors of the Foundry code and the
  result type that carries them, the checks of its validators, and the JavaScript
  string operations it calls (\<open>trim\<close>, \<open>startsWith\<close>, \<open>endsWith\<close>, decimal and
  hexadecimal text, the digest patterns).  A JavaScript string is a list of code
  units; the model's alphabet is the units below 256 (\<open>char\<close>).
\<close>

section \<open>Errors and results\<close>

text \<open>
  The errors the code distinguishes: \<open>FrameworkContractError\<close> with code
  \<open>contract_shape_invalid\<close> (every \<open>fail\<close> of the modelled files),
  \<open>FoundryTransientActivityError\<close>, \<open>FoundryOperationResultUnavailableError\<close> and any
  other \<open>Error\<close>.  The diagnostic \<open>details\<close> object is not modelled.
\<close>

datatype ferror =
    ContractError string
  | TransientActivityError string
  | OperationResultUnavailable string
  | RuntimeError string

type_synonym 'a res = "ferror + 'a"

definition fail :: "string \<Rightarrow> 'a res" where
  "fail msg = Inl (ContractError msg)"

fun bindE :: "'a res \<Rightarrow> ('a \<Rightarrow> 'b res) \<Rightarrow> 'b res" where
  "bindE (Inl e) f = Inl e"
| "bindE (Inr a) f = f a"

fun mapE :: "('a \<Rightarrow> 'b) \<Rightarrow> 'a res \<Rightarrow> 'b res" where
  "mapE f (Inl e) = Inl e"
| "mapE f (Inr a) = Inr (f a)"

fun isOk :: "'a res \<Rightarrow> bool" where
  "isOk (Inr a) = True"
| "isOk (Inl e) = False"

text \<open>Run a list of fallible computations left to right, stopping at the first error.\<close>

fun seqE :: "'a res list \<Rightarrow> 'a list res" where
  "seqE [] = Inr []"
| "seqE (r # rs) = (case r of Inl e \<Rightarrow> Inl e
     | Inr a \<Rightarrow> (case seqE rs of Inl e \<Rightarrow> Inl e | Inr as \<Rightarrow> Inr (a # as)))"

text \<open>
  A validator of the code is a sequence of guards, each throwing its own message.  It
  is a list of (what must hold, the message thrown otherwise), read in order.
\<close>

type_synonym check = "bool \<times> string"

fun runChecks :: "check list \<Rightarrow> unit res" where
  "runChecks [] = Inr ()"
| "runChecks (c # cs) = (if fst c then runChecks cs else fail (snd c))"

text \<open>The checks of \<open>map((entry, index) => ...)\<close> over an array, in index order.\<close>

definition checksEach :: "(nat \<Rightarrow> 'a \<Rightarrow> check list) \<Rightarrow> 'a list \<Rightarrow> check list" where
  "checksEach f xs = concat (map (\<lambda>(i, x). f i x) (enumerate 0 xs))"

lemma bindE_Inr_iff [simp]: "bindE m f = Inr b \<longleftrightarrow> (\<exists>a. m = Inr a \<and> f a = Inr b)"
  by (cases m) auto

lemma mapE_Inr_iff [simp]: "mapE f m = Inr b \<longleftrightarrow> (\<exists>a. m = Inr a \<and> f a = b)"
  by (cases m) auto

lemma fail_not_Inr [simp]: "fail m \<noteq> Inr a" "Inr a \<noteq> fail m"
  by (simp_all add: fail_def)

lemma fail_eq_iff [simp]: "(fail m :: 'a res) = fail n \<longleftrightarrow> m = n"
  by (simp add: fail_def)

lemma bindE_fail [simp]: "bindE (fail m) f = fail m" "mapE g (fail m) = fail m"
  by (simp_all add: fail_def)

lemma isOk_iff: "isOk r \<longleftrightarrow> (\<exists>a. r = Inr a)"
  by (cases r) auto

text \<open>Proofs read a check list through \<open>list_all fst\<close>, not by running it.\<close>

lemma runChecks_iff [simp]: "runChecks cs = Inr u \<longleftrightarrow> list_all fst cs"
  by (induction cs) auto

lemma runChecks_ok: "list_all fst cs \<Longrightarrow> runChecks cs = Inr ()"
  by simp

lemma runChecks_append:
  "runChecks (cs @ ds) = (case runChecks cs of Inl e \<Rightarrow> Inl e | Inr u \<Rightarrow> runChecks ds)"
  by (induction cs) (auto simp: fail_def)

lemma runChecks_Inl: "runChecks cs = Inl e \<Longrightarrow> \<exists>m. e = ContractError m \<and> (False, m) \<in> set cs"
  by (induction cs) (force simp: fail_def split: if_splits)+

declare runChecks.simps [simp del]

lemma set_enumerate: "set (enumerate 0 xs) = (\<lambda>i. (i, xs ! i)) ` {..<length xs}"
  by (force simp: enumerate_eq_zip set_zip)

lemma list_all_checksEach [simp]:
  "list_all fst (checksEach f xs) \<longleftrightarrow> (\<forall>i < length xs. list_all fst (f i (xs ! i)))"
proof -
  have "list_all fst (checksEach f xs) \<longleftrightarrow>
      (\<forall>p \<in> set (enumerate 0 xs). list_all fst (f (fst p) (snd p)))"
    by (auto simp: checksEach_def list_all_iff split_beta)
  also have "\<dots> \<longleftrightarrow> (\<forall>i < length xs. list_all fst (f i (xs ! i)))"
    by (auto simp: set_enumerate)
  finally show ?thesis .
qed

lemma seqE_Inr_iff: "seqE rs = Inr as \<longleftrightarrow> rs = map Inr as"
proof (induction rs arbitrary: as)
  case (Cons r rs)
  show ?case
  proof (cases "seqE rs")
    case (Inl e)
    with Cons.IH have "rs \<noteq> map Inr bs" for bs by force
    with Inl show ?thesis by (cases as) (auto split: sum.splits)
  next
    case (Inr bs)
    with Cons.IH [of bs] show ?thesis by (cases as) (auto split: sum.splits simp: inj_map_eq_map)
  qed
qed auto

section \<open>Strings\<close>

text \<open>White space that \<open>String.prototype.trim\<close> strips, below code unit 256.\<close>

definition isWs :: "char \<Rightarrow> bool" where
  "isWs c \<longleftrightarrow> c \<in> {CHR 0x09, CHR 0x0A, CHR 0x0B, CHR 0x0C, CHR 0x0D, CHR 0x20, CHR 0xA0}"

definition trim :: "string \<Rightarrow> string" where
  "trim s = rev (dropWhile isWs (rev (dropWhile isWs s)))"

definition startsWith :: "string \<Rightarrow> string \<Rightarrow> bool" where
  "startsWith s p \<longleftrightarrow> take (length p) s = p"

definition endsWith :: "string \<Rightarrow> string \<Rightarrow> bool" where
  "endsWith s p \<longleftrightarrow> startsWith (rev s) (rev p)"

definition isDigit :: "char \<Rightarrow> bool" where
  "isDigit c \<longleftrightarrow> CHR ''0'' \<le> c \<and> c \<le> CHR ''9''"

definition isLowerHex :: "char \<Rightarrow> bool" where
  "isLowerHex c \<longleftrightarrow> isDigit c \<or> (CHR ''a'' \<le> c \<and> c \<le> CHR ''f'')"

text \<open>The pattern \<open>[a-f0-9]{64}\<close> and the refs built on it.\<close>

definition isHex64 :: "string \<Rightarrow> bool" where
  "isHex64 s \<longleftrightarrow> length s = 64 \<and> list_all isLowerHex s"

definition matchesPrefixHex64 :: "string \<Rightarrow> string \<Rightarrow> bool" where
  "matchesPrefixHex64 p s \<longleftrightarrow> startsWith s p \<and> isHex64 (drop (length p) s)"

text \<open>\<open>/^sha256:[a-f0-9]{64}$/\<close>, the digest pattern of every modelled file.\<close>

definition isDigest :: "string \<Rightarrow> bool" where
  "isDigest s \<longleftrightarrow> matchesPrefixHex64 ''sha256:'' s"

definition digitChar :: "nat \<Rightarrow> char" where
  "digitChar n = char_of (48 + n)"

text \<open>Decimal text of a non-negative integer, and of any integer, as \<open>String(n)\<close> prints it.\<close>

function dec :: "int \<Rightarrow> string" where
  "dec n = (if n < 10 then [digitChar (nat n)]
     else dec (n div 10) @ [digitChar (nat (n mod 10))])"
  by pat_completeness auto
termination
  by (relation "measure nat") auto

declare dec.simps [simp del]

definition showInt :: "int \<Rightarrow> string" where
  "showInt i = (if i < 0 then ''-'' @ dec (- i) else dec i)"

definition readDigits :: "string \<Rightarrow> int" where
  "readDigits s = foldl (\<lambda>a c. 10 * a + (of_char c - 48)) 0 s"

lemma trim_empty [simp]: "trim [] = []"
  by (simp add: trim_def)

lemma startsWith_append [simp]: "startsWith (p @ s) p"
  by (simp add: startsWith_def)

lemma matchesPrefixHex64_append [simp]: "matchesPrefixHex64 p (p @ h) \<longleftrightarrow> isHex64 h"
  by (simp add: matchesPrefixHex64_def)

lemma matchesPrefixHex64_E:
  assumes "matchesPrefixHex64 p s"
  obtains h where "s = p @ h" "isHex64 h"
  using assms by (metis matchesPrefixHex64_def startsWith_def append_take_drop_id)

lemma isDigest_append [simp]: "isDigest (''sha256:'' @ h) \<longleftrightarrow> isHex64 h"
  unfolding isDigest_def by (rule matchesPrefixHex64_append)

lemma of_char_digitChar: "n < 10 \<Longrightarrow> of_char (digitChar n) = (48 + n :: nat)"
  by (simp add: digitChar_def)

lemma digitChar_isDigit: "n < 10 \<Longrightarrow> isDigit (digitChar n)"
  by (auto simp: isDigit_def less_eq_char_def of_char_digitChar)

lemma int_of_char_digitChar: "n < 10 \<Longrightarrow> of_char (digitChar n) = (48 + int n :: int)"
  using arg_cong [OF of_char_digitChar, of n int] by (simp only: of_nat_of_char of_nat_add of_nat_numeral)

lemma dec_nonempty [simp]: "dec n \<noteq> []"
  by (subst dec.simps) simp

lemma dec_digits: "list_all isDigit (dec n)"
proof (induction n rule: dec.induct)
  case (1 n)
  then show ?case
    by (subst dec.simps) (auto simp: digitChar_isDigit nat_less_iff)
qed

lemma readDigits_dec [simp]: "0 \<le> n \<Longrightarrow> readDigits (dec n) = n"
proof (induction n rule: dec.induct)
  case (1 n)
  show ?case
  proof (cases "n < 10")
    case True
    with 1 show ?thesis
      by (subst dec.simps) (simp add: readDigits_def int_of_char_digitChar nat_less_iff)
  next
    case False
    with 1 have "readDigits (dec (n div 10)) = n div 10" by simp
    with False show ?thesis
      by (subst dec.simps) (simp add: readDigits_def int_of_char_digitChar nat_less_iff)
  qed
qed

lemma dec_inj: "0 \<le> m \<Longrightarrow> 0 \<le> n \<Longrightarrow> dec m = dec n \<longleftrightarrow> m = n"
  by (metis readDigits_dec)

lemma showInt_inj [simp]: "showInt i = showInt j \<longleftrightarrow> i = j"
proof -
  have minus: "dec n \<noteq> CHR ''-'' # s" for n s
    using dec_digits [of n] by (auto simp: isDigit_def less_eq_char_def)
  show ?thesis
    by (auto simp: showInt_def minus minus [symmetric] dec_inj)
qed

text \<open>
  Joining with a separator that no part holds is injective: the code's composed keys
  (\<open>agent NUL domain\<close>, \<open>run/generation/phase/digest\<close>) rely on it.
\<close>

lemma append_sep_inj:
  assumes "c \<notin> set a" "c \<notin> set a'" "a @ c # b = a' @ c # b'"
  shows "a = a' \<and> b = b'"
  using assms
proof (induction a arbitrary: a')
  case Nil
  then show ?case by (cases a') auto
next
  case (Cons x xs)
  then show ?case by (cases a') auto
qed

section \<open>Lists and association lists\<close>

lemma find_Some_iff2: "find P xs = Some x \<Longrightarrow> x \<in> set xs \<and> P x"
  by (auto simp: find_Some_iff)

lemma find_None_D: "find P xs = None \<Longrightarrow> x \<in> set xs \<Longrightarrow> \<not> P x"
  by (auto simp: find_None_iff)

lemma distinct_map_fst_map_of: "distinct (map fst kvs) \<Longrightarrow> (k, v) \<in> set kvs \<Longrightarrow> map_of kvs k = Some v"
  by simp

end
