(* ===== verification/JsNumber.thy ===== *)
theory JsNumber
  imports Prelude Complex_Main "HOL-Library.Log_Nat"
begin

text \<open>
  The JavaScript number: an IEEE 754 binary64.  A finite number is the rational it
  denotes (the sign of zero is not kept: nothing in the modelled code can observe it),
  and an arithmetic result is the exact rational rounded to nearest, ties to even, or
  an infinity when it overflows.  \<open>numText\<close> is \<open>Number::toString\<close> of the language:
  the shortest decimal that reads back as the same number.
\<close>

section \<open>Rounding to binary64\<close>

datatype jsnum = Fin rat | PInf | NInf | NaN

definition roundHalfEven :: "rat \<Rightarrow> int" where
  "roundHalfEven x = (let f = \<lfloor>x\<rfloor>; r = x - of_int f in
     if r < 1/2 then f else if 1/2 < r then f + 1 else if even f then f else f + 1)"

text \<open>The binary exponent of a positive rational: \<open>2^e \<le> q < 2^(e+1)\<close>.\<close>

definition ilog2 :: "rat \<Rightarrow> int" where
  "ilog2 q = (case quotient_of q of (a, b) \<Rightarrow>
     let l = bitlen a - bitlen b in
     if 2 powi l \<le> q then l else l - 1)"

text \<open>The exponent of the unit in the last place (53 bits, subnormals from \<open>2^-1074\<close>).\<close>

definition ulpExp :: "rat \<Rightarrow> int" where
  "ulpExp q = max (ilog2 q - 52) (-1074)"

definition rndPos :: "rat \<Rightarrow> rat" where
  "rndPos q = of_int (roundHalfEven (q / 2 powi ulpExp q)) * 2 powi ulpExp q"

definition rnd :: "rat \<Rightarrow> jsnum" where
  "rnd q = (if q = 0 then Fin 0
     else if 0 < q then (let r = rndPos q in if r < 2 ^ 1024 then Fin r else PInf)
     else (let r = rndPos (- q) in if r < 2 ^ 1024 then Fin (- r) else NInf))"

text \<open>A rational is a JavaScript number when rounding keeps it.\<close>

definition isDouble :: "rat \<Rightarrow> bool" where
  "isDouble q \<longleftrightarrow> rnd q = Fin q"

section \<open>The operations the code uses\<close>

definition isFinite :: "jsnum \<Rightarrow> bool" where
  "isFinite x = (case x of Fin q \<Rightarrow> True | _ \<Rightarrow> False)"

definition ratOf :: "jsnum \<Rightarrow> rat" where
  "ratOf x = (case x of Fin q \<Rightarrow> q | _ \<Rightarrow> 0)"

definition isInteger :: "jsnum \<Rightarrow> bool" where
  "isInteger x = (case x of Fin q \<Rightarrow> of_int \<lfloor>q\<rfloor> = q | _ \<Rightarrow> False)"

definition isSafeInteger :: "jsnum \<Rightarrow> bool" where
  "isSafeInteger x = (case x of Fin q \<Rightarrow> of_int \<lfloor>q\<rfloor> = q \<and> \<bar>q\<bar> < 2 ^ 53 | _ \<Rightarrow> False)"

fun jadd :: "jsnum \<Rightarrow> jsnum \<Rightarrow> jsnum" where
  "jadd (Fin p) (Fin q) = rnd (p + q)"
| "jadd NaN y = NaN"
| "jadd x NaN = NaN"
| "jadd PInf NInf = NaN"
| "jadd NInf PInf = NaN"
| "jadd PInf y = PInf"
| "jadd NInf y = NInf"
| "jadd (Fin p) y = y"

definition sgnInf :: "rat \<Rightarrow> jsnum" where
  "sgnInf q = (if 0 < q then PInf else if q < 0 then NInf else NaN)"

fun jmul :: "jsnum \<Rightarrow> jsnum \<Rightarrow> jsnum" where
  "jmul (Fin p) (Fin q) = rnd (p * q)"
| "jmul NaN y = NaN"
| "jmul x NaN = NaN"
| "jmul PInf (Fin q) = sgnInf q"
| "jmul (Fin q) PInf = sgnInf q"
| "jmul NInf (Fin q) = sgnInf (- q)"
| "jmul (Fin q) NInf = sgnInf (- q)"
| "jmul PInf PInf = PInf"
| "jmul NInf NInf = PInf"
| "jmul PInf NInf = NInf"
| "jmul NInf PInf = NInf"

text \<open>Division; a zero divisor is taken as \<open>+0\<close>, which is the only zero the code divides by.\<close>

fun jdiv :: "jsnum \<Rightarrow> jsnum \<Rightarrow> jsnum" where
  "jdiv (Fin p) (Fin q) = (if q = 0 then sgnInf p else rnd (p / q))"
| "jdiv NaN y = NaN"
| "jdiv x NaN = NaN"
| "jdiv (Fin p) PInf = Fin 0"
| "jdiv (Fin p) NInf = Fin 0"
| "jdiv PInf (Fin q) = (if q < 0 then NInf else PInf)"
| "jdiv NInf (Fin q) = (if q < 0 then PInf else NInf)"
| "jdiv PInf y = NaN"
| "jdiv NInf y = NaN"

fun jlt :: "jsnum \<Rightarrow> jsnum \<Rightarrow> bool" where
  "jlt (Fin p) (Fin q) = (p < q)"
| "jlt NaN y = False"
| "jlt x NaN = False"
| "jlt NInf y = (y \<noteq> NInf)"
| "jlt x PInf = (x \<noteq> PInf)"
| "jlt x y = False"

fun jle :: "jsnum \<Rightarrow> jsnum \<Rightarrow> bool" where
  "jle (Fin p) (Fin q) = (p \<le> q)"
| "jle NaN y = False"
| "jle x NaN = False"
| "jle NInf y = True"
| "jle x PInf = True"
| "jle x y = False"

text \<open>\<open>===\<close> on numbers: \<open>NaN\<close> is not equal to itself.\<close>

definition jeq :: "jsnum \<Rightarrow> jsnum \<Rightarrow> bool" where
  "jeq x y \<longleftrightarrow> x \<noteq> NaN \<and> x = y"

definition jint :: "int \<Rightarrow> jsnum" where
  "jint i = Fin (of_int i)"

section \<open>Number text\<close>

text \<open>
  \<open>Number::toString\<close>: the least number of digits \<open>k\<close> for which a decimal \<open>s * 10^x\<close> with
  \<open>k\<close> digits rounds to the number, and the closest such decimal.  A binary64 needs at
  most 17 digits, so 17 rounds of the search are enough; \<open>None\<close> would say otherwise.
\<close>

definition decExp :: "rat \<Rightarrow> int" where
  "decExp q = (let est = \<lfloor>of_int (ilog2 q) * (30103 / 100000 :: rat)\<rfloor> in
     if 10 powi (est + 2) \<le> q then est + 3
     else if 10 powi (est + 1) \<le> q then est + 2 else if 10 powi est \<le> q then est + 1 else est)"

text \<open>
  The shortest decimal of a number, trying one digit more each time.  Seventeen digits are
  enough for every binary64; \<open>numOk\<close> below says of a number that the search found its text.
\<close>

fun shortestFrom :: "nat \<Rightarrow> rat \<Rightarrow> int \<Rightarrow> nat \<Rightarrow> (int \<times> int) option" where
  "shortestFrom 0 q n k = None"
| "shortestFrom (Suc fuel) q n k =
     (let x = n - int k; y = q / 10 powi x; lo = \<lfloor>y\<rfloor>;
          good = (\<lambda>s. rnd (of_int s * 10 powi x) = Fin q) in
      if good lo \<and> (\<not> good (lo + 1) \<or> y - of_int lo \<le> 1/2) then Some (lo, x)
      else if good (lo + 1) then Some (lo + 1, x)
      else shortestFrom fuel q n (Suc k))"

fun stripZeros :: "string \<Rightarrow> string" where
  "stripZeros s = rev (dropWhile (\<lambda>c. c = CHR ''0'') (rev s))"

text \<open>The four layouts of \<open>Number::toString\<close> for digits \<open>ds\<close> with the point after \<open>n\<close> digits.\<close>

definition layoutNumber :: "string \<Rightarrow> int \<Rightarrow> string" where
  "layoutNumber ds n = (let k = int (length ds) in
     if k \<le> n \<and> n \<le> 21 then ds @ replicate (nat (n - k)) CHR ''0''
     else if 0 < n \<and> n \<le> 21 then take (nat n) ds @ ''.'' @ drop (nat n) ds
     else if -6 < n \<and> n \<le> 0 then ''0.'' @ replicate (nat (- n)) CHR ''0'' @ ds
     else (let e = n - 1;
               expo = ''e'' @ (if 0 \<le> e then ''+'' else ''-'') @ dec \<bar>e\<bar> in
       (case ds of [] \<Rightarrow> expo | [d] \<Rightarrow> d # expo | d # rest \<Rightarrow> d # ''.'' @ rest @ expo)))"

text \<open>Safe integers print their exact digits; every other number its shortest decimal.\<close>

definition numTextPos :: "rat \<Rightarrow> string" where
  "numTextPos q = (if of_int \<lfloor>q\<rfloor> = q \<and> q < 2 ^ 53 then dec \<lfloor>q\<rfloor>
     else (case shortestFrom 17 q (decExp q) 1 of
         None \<Rightarrow> ''''
       | Some (s, x) \<Rightarrow>
           (let full = dec s; ds = stripZeros full in
            layoutNumber ds (int (length full) + x))))"

definition numText :: "rat \<Rightarrow> string" where
  "numText q = (if q < 0 then ''-'' @ numTextPos (- q) else numTextPos q)"

text \<open>Reading decimal text back: sign, digits, fraction, exponent.\<close>

definition readPlain :: "string \<Rightarrow> rat" where
  "readPlain s = (let i = takeWhile (\<lambda>c. c \<noteq> CHR ''.'') s; f = drop (Suc (length i)) s in
     of_int (readDigits (i @ f)) / 10 ^ length f)"

definition readPos :: "string \<Rightarrow> rat" where
  "readPos s = (let m = takeWhile (\<lambda>c. c \<noteq> CHR ''e'') s; e = drop (Suc (length m)) s in
     readPlain m * (case e of [] \<Rightarrow> 1
       | c # ds \<Rightarrow> if c = CHR ''-'' then 10 powi (- readDigits ds) else 10 powi (readDigits (filter isDigit ds))))"

definition readNum :: "string \<Rightarrow> rat" where
  "readNum s = (case s of [] \<Rightarrow> 0
     | c # r \<Rightarrow> if c = CHR ''-'' then - ratOf (rnd (readPos r)) else ratOf (rnd (readPos s)))"

text \<open>
  What the language guarantees of number text (\<open>Number(String(x)) = x\<close>), as a predicate
  a proof can assume of the numbers in a value and a witness can evaluate.
\<close>

definition numOk :: "rat \<Rightarrow> bool" where
  "numOk q \<longleftrightarrow> readNum (numText q) = q \<and> numText q \<noteq> [] \<and>
     list_all (\<lambda>c. isDigit c \<or> c \<in> set ''+-.e'') (numText q)"

lemma numOk_inj: "numOk p \<Longrightarrow> numOk q \<Longrightarrow> numText p = numText q \<longleftrightarrow> p = q"
  by (metis numOk_def)

section \<open>Rounding is monotone and keeps safe integers\<close>

lemma roundHalfEven_mono: "x \<le> y \<Longrightarrow> roundHalfEven x \<le> roundHalfEven y"
proof (cases "\<lfloor>x\<rfloor> = \<lfloor>y\<rfloor>")
  case True
  moreover assume "x \<le> y"
  ultimately show ?thesis by (auto simp: roundHalfEven_def Let_def)
next
  case False
  assume "x \<le> y"
  with False have "\<lfloor>x\<rfloor> + 1 \<le> \<lfloor>y\<rfloor>" using floor_mono by fastforce
  then show ?thesis by (auto simp: roundHalfEven_def Let_def)
qed

lemma roundHalfEven_of_int [simp]: "roundHalfEven (of_int n) = n"
  by (simp add: roundHalfEven_def)

lemma bitlen_le_powi:
  assumes a: "0 < a"
  shows "2 powi (bitlen a - 1) \<le> (of_int a :: rat)"
proof -
  have "1 \<le> bitlen a" using a bitlen_nonneg [of a] bitlen_eq_zero_iff [of a] by linarith
  then have "(2::rat) powi (bitlen a - 1) = of_int (2 ^ nat (bitlen a - 1))"
    by (simp add: power_int_def)
  moreover have "2 ^ nat (bitlen a - 1) \<le> a" using bitlen_bounds [OF a] by simp
  ultimately show ?thesis by (simp only: of_int_le_iff)
qed

lemma bitlen_powi_less:
  assumes a: "0 < a"
  shows "(of_int a :: rat) < 2 powi bitlen a"
proof -
  have "(2::rat) powi bitlen a = of_int (2 ^ nat (bitlen a))"
    by (simp add: power_int_def bitlen_nonneg)
  moreover have "a < 2 ^ nat (bitlen a)" using bitlen_bounds [OF a] by simp
  ultimately show ?thesis by (simp only: of_int_less_iff)
qed

lemma ilog2_bounds:
  assumes "0 < q"
  shows "2 powi ilog2 q \<le> q" "q < 2 powi (ilog2 q + 1)"
proof -
  obtain a b where ab: "quotient_of q = (a, b)" by force
  have b: "0 < b" using quotient_of_denom_pos ab by blast
  have q: "q = of_int a / of_int b" using quotient_of_div ab by blast
  have a: "0 < a" using assms q b by (simp add: zero_less_divide_iff)
  define l where "l = bitlen a - bitlen b"
  have lo: "2 powi (l - 1) \<le> q"
  proof -
    have "2 powi (l - 1) * of_int b \<le> (2 powi (l - 1) * 2 powi bitlen b :: rat)"
      using bitlen_powi_less [OF b] by (simp add: less_imp_le)
    also have "\<dots> = 2 powi (bitlen a - 1)"
      by (simp add: l_def flip: power_int_add)
    also have "\<dots> \<le> of_int a" by (rule bitlen_le_powi [OF a])
    finally show ?thesis using b by (simp add: q field_simps)
  qed
  have hi: "q < 2 powi (l + 1)"
  proof -
    have "of_int a < (2 powi bitlen a :: rat)" by (rule bitlen_powi_less [OF a])
    also have "\<dots> = 2 powi (l + 1) * 2 powi (bitlen b - 1)"
      by (simp add: l_def flip: power_int_add)
    also have "\<dots> \<le> 2 powi (l + 1) * of_int b"
      using bitlen_le_powi [OF b] by simp
    finally show ?thesis using b by (simp add: q field_simps)
  qed
  have il: "ilog2 q = (if 2 powi l \<le> q then l else l - 1)"
    by (simp add: ilog2_def ab l_def)
  show "2 powi ilog2 q \<le> q" "q < 2 powi (ilog2 q + 1)"
    using lo hi by (auto simp: il)
qed

lemma powi2_strict: "m < n \<Longrightarrow> (2::rat) powi m < 2 powi n"
  by (rule power_int_strict_increasing) simp_all

lemma powi2_less_iff [simp]: "(2::rat) powi m < 2 powi n \<longleftrightarrow> m < n"
  using powi2_strict [of m n] powi2_strict [of n m] by (metis less_asym less_irrefl linorder_neqE)

lemma powi2_le_iff [simp]: "(2::rat) powi m \<le> 2 powi n \<longleftrightarrow> m \<le> n"
  by (metis powi2_less_iff not_less)

lemma ilog2_mono:
  assumes "0 < p" "p \<le> q"
  shows "ilog2 p \<le> ilog2 q"
proof -
  have "2 powi ilog2 p \<le> p" using ilog2_bounds assms by blast
  also have "p < 2 powi (ilog2 q + 1)" using ilog2_bounds [of q] assms by linarith
  finally have "(2::rat) powi ilog2 p < 2 powi (ilog2 q + 1)" .
  then show ?thesis by (simp only: powi2_less_iff)
qed

lemma ilog2_eqI:
  assumes "2 powi e \<le> q" "q < 2 powi (e + 1)"
  shows "ilog2 q = e"
proof -
  have q: "0 < q" using assms(1) by (meson less_le_trans zero_less_power_int zero_less_numeral)
  have "(2::rat) powi ilog2 q < 2 powi (e + 1)" "(2::rat) powi e < 2 powi (ilog2 q + 1)"
    using ilog2_bounds [OF q] assms by linarith+
  then show ?thesis by (simp only: powi2_less_iff)
qed

lemma roundHalfEven_ge: "of_int n \<le> x \<Longrightarrow> n \<le> roundHalfEven x"
  using roundHalfEven_mono [of "of_int n" x] by simp

lemma roundHalfEven_le: "x \<le> of_int n \<Longrightarrow> roundHalfEven x \<le> n"
  using roundHalfEven_mono [of x "of_int n"] by simp

lemma rndPos_mono:
  assumes p: "0 < p" and pq: "p \<le> q"
  shows "rndPos p \<le> rndPos q"
proof (cases "ulpExp p = ulpExp q")
  case True
  have "p / 2 powi ulpExp q \<le> q / 2 powi ulpExp q"
    using pq by (simp add: divide_right_mono)
  then show ?thesis
    by (simp add: rndPos_def True roundHalfEven_mono)
next
  case False
  have le: "ilog2 p \<le> ilog2 q" using ilog2_mono p pq by blast
  with False have lt: "ilog2 p < ilog2 q" and uq: "ulpExp q = ilog2 q - 52"
    and up: "ulpExp p < ulpExp q"
    by (auto simp: ulpExp_def max_def split: if_splits)
  have q: "0 < q" using p pq by linarith
  have "rndPos p \<le> 2 powi ilog2 q"
  proof -
    have "p < 2 powi (ilog2 p + 1)" by (rule ilog2_bounds [OF p])
    also have "\<dots> \<le> 2 powi ilog2 q" using lt by simp
    finally have "p / 2 powi ulpExp p \<le> 2 powi (ilog2 q - ulpExp p)"
      by (simp add: power_int_diff divide_right_mono)
    also have "\<dots> = of_int (2 ^ nat (ilog2 q - ulpExp p))"
      using up uq by (simp add: power_int_def)
    finally have "roundHalfEven (p / 2 powi ulpExp p) \<le> 2 ^ nat (ilog2 q - ulpExp p)"
      by (rule roundHalfEven_le)
    then have "rndPos p \<le> of_int (2 ^ nat (ilog2 q - ulpExp p)) * 2 powi ulpExp p"
      unfolding rndPos_def by (intro mult_right_mono) (auto simp only: of_int_le_iff, simp)
    also have "\<dots> = 2 powi (ilog2 q - ulpExp p) * 2 powi ulpExp p"
      using up uq by (simp add: power_int_def)
    also have "\<dots> = 2 powi ilog2 q" by (simp flip: power_int_add)
    finally show ?thesis .
  qed
  also have "2 powi ilog2 q \<le> rndPos q"
  proof -
    have "2 powi ilog2 q \<le> q" by (rule ilog2_bounds [OF q])
    then have "of_int (2 ^ 52) * 2 powi ulpExp q \<le> q"
      by (simp add: uq power_int_diff)
    then have "of_int (2 ^ 52) \<le> q / 2 powi ulpExp q"
      by (simp add: field_simps)
    then have "2 ^ 52 \<le> roundHalfEven (q / 2 powi ulpExp q)" by (rule roundHalfEven_ge)
    then have "of_int (2 ^ 52) * 2 powi ulpExp q \<le> rndPos q"
      unfolding rndPos_def by (intro mult_right_mono) (auto simp only: of_int_le_iff, simp)
    then show ?thesis by (simp add: uq power_int_diff)
  qed
  finally show ?thesis .
qed

lemma rndPos_nonneg: "0 < q \<Longrightarrow> 0 \<le> rndPos q"
  by (auto simp: rndPos_def intro!: mult_nonneg_nonneg roundHalfEven_ge)

lemma rnd_nonneg: "0 \<le> q \<Longrightarrow> rnd q = PInf \<or> (\<exists>r. rnd q = Fin r \<and> 0 \<le> r)"
  using rndPos_nonneg [of q] by (simp add: rnd_def Let_def)

lemma rnd_mono:
  assumes "0 \<le> p" "p \<le> q"
  shows "jle (rnd p) (rnd q)"
proof (cases "p = 0")
  case True
  with assms rnd_nonneg [of q] show ?thesis by (auto simp: rnd_def [of 0])
next
  case False
  with assms have "rndPos p \<le> rndPos q" by (intro rndPos_mono) auto
  with False assms show ?thesis by (auto simp: rnd_def Let_def)
qed

lemma rndPos_of_int:
  assumes n: "0 < n" "n < 2 ^ 53"
  shows "rndPos (of_int n) = of_int n"
proof -
  have "(of_int n :: rat) < of_int (2 ^ 53)" using n by (simp only: of_int_less_iff)
  then have "(of_int n :: rat) < 2 powi 53" by (simp add: power_int_def)
  moreover have "2 powi ilog2 (of_int n) \<le> (of_int n :: rat)" using n by (intro ilog2_bounds) simp
  ultimately have "(2::rat) powi ilog2 (of_int n) < 2 powi 53" by linarith
  then have hi: "ilog2 (of_int n) < 53" by (simp only: powi2_less_iff)
  have "(2::rat) powi 0 \<le> of_int n" using n by simp
  also have "(of_int n :: rat) < 2 powi (ilog2 (of_int n) + 1)" using n by (intro ilog2_bounds) simp
  finally have "0 < ilog2 (of_int n) + 1" by (simp only: powi2_less_iff)
  with hi have u: "ulpExp (of_int n) = ilog2 (of_int n) - 52" "ulpExp (of_int n) \<le> 0"
    by (auto simp: ulpExp_def)
  have "(of_int n :: rat) / 2 powi ulpExp (of_int n) = of_int n * 2 powi (- ulpExp (of_int n))"
    by (simp add: power_int_minus divide_inverse)
  also have "\<dots> = of_int (n * 2 ^ nat (- ulpExp (of_int n)))"
    using u by (simp add: power_int_def)
  finally have "roundHalfEven (of_int n / 2 powi ulpExp (of_int n)) = n * 2 ^ nat (- ulpExp (of_int n))"
    by (simp only: roundHalfEven_of_int)
  then have "rndPos (of_int n) = of_int n * (2 powi (- ulpExp (of_int n)) * 2 powi ulpExp (of_int n))"
    using u by (simp add: rndPos_def power_int_def)
  also have "\<dots> = of_int n" by (simp flip: power_int_add)
  finally show ?thesis .
qed

lemma rnd_of_int:
  assumes "\<bar>n\<bar> < 2 ^ 53"
  shows "rnd (of_int n) = jint n"
proof -
  have big: "(of_int m :: rat) < 2 ^ 1024" if "m < 2 ^ 53" for m
  proof -
    have "m < 2 ^ 1024" using that by (rule less_trans) simp
    then have "(of_int m :: rat) < of_int (2 ^ 1024)" by (simp only: of_int_less_iff)
    then show ?thesis by simp
  qed
  consider "n = 0" | "0 < n" | "n < 0" by linarith
  then show ?thesis
  proof cases
    case 1 then show ?thesis by (simp add: rnd_def jint_def)
  next
    case 2
    with assms rndPos_of_int [of n] big [of n] show ?thesis by (simp add: rnd_def jint_def)
  next
    case 3
    with assms rndPos_of_int [of "- n"] big [of "- n"] show ?thesis by (simp add: rnd_def jint_def)
  qed
qed

lemma rnd_0 [simp]: "rnd 0 = Fin 0" and rnd_1 [simp]: "rnd 1 = Fin 1"
  using rnd_of_int [of 0] rnd_of_int [of 1] by (simp_all add: jint_def)

lemma isSafeInteger_jint [simp]: "isSafeInteger (jint i) \<longleftrightarrow> \<bar>i\<bar> < 2 ^ 53"
proof -
  have "\<bar>of_int i :: rat\<bar> < 2 ^ 53 \<longleftrightarrow> (of_int \<bar>i\<bar> :: rat) < of_int (2 ^ 53)" by simp
  then show ?thesis by (simp only: isSafeInteger_def jint_def jsnum.case floor_of_int of_int_less_iff) simp
qed

lemma isFinite_Fin [simp]: "isFinite (Fin q)" "ratOf (Fin q) = q"
  by (simp_all add: isFinite_def ratOf_def)

lemma jint_inj [simp]: "jint i = jint j \<longleftrightarrow> i = j"
  by (simp add: jint_def)

text \<open>Safe integers print as their digits and always read back.\<close>

lemma numText_jint:
  assumes "\<bar>i\<bar> < 2 ^ 53"
  shows "numText (of_int i) = showInt i"
proof -
  have "(of_int \<bar>i\<bar> :: rat) < of_int (2 ^ 53)" using assms by (simp only: of_int_less_iff)
  then show ?thesis by (auto simp: numText_def numTextPos_def showInt_def)
qed

lemma takeWhile_digits: "list_all isDigit s \<Longrightarrow> \<not> isDigit c \<Longrightarrow> takeWhile (\<lambda>d. d \<noteq> c) s = s"
  by (induction s) auto

lemma readPos_dec:
  assumes "0 \<le> i"
  shows "readPos (dec i) = of_int i"
proof -
  have "\<not> isDigit CHR ''.''" "\<not> isDigit CHR ''e''" by (simp_all add: isDigit_def less_eq_char_def)
  then show ?thesis
    using assms by (simp add: readPos_def readPlain_def takeWhile_digits [OF dec_digits])
qed

lemma numOk_int:
  assumes i: "\<bar>i\<bar> < 2 ^ 53"
  shows "numOk (of_int i)"
proof -
  have d: "list_all isDigit (dec \<bar>i\<bar>)" by (rule dec_digits)
  have nm: "\<not> isDigit CHR ''-''" by (simp add: isDigit_def less_eq_char_def)
  obtain c r where cr: "dec \<bar>i\<bar> = c # r" by (meson dec_nonempty neq_Nil_conv)
  with d nm have c: "c \<noteq> CHR ''-''" by auto
  have rd: "readPos (dec \<bar>i\<bar>) = of_int \<bar>i\<bar>" by (rule readPos_dec) simp
  have "readNum (showInt i) = of_int i"
    using rnd_of_int [of "\<bar>i\<bar>"] i c rd cr
    by (auto simp: readNum_def showInt_def jint_def split: if_splits)
  moreover have "list_all (\<lambda>c. isDigit c \<or> c \<in> set ''+-.e'') (showInt i)"
    using d by (auto simp: showInt_def list_all_iff split: if_splits)
  moreover have "showInt i \<noteq> []" by (simp add: showInt_def)
  ultimately show ?thesis unfolding numOk_def numText_jint [OF i] by blast
qed

lemma rnd_2_53: "rnd (of_int 9007199254740992) = Fin (of_int 9007199254740992)"
proof -
  have "ilog2 (9007199254740992 :: rat) = 53"
    by (rule ilog2_eqI) (simp_all add: power_int_def)
  then have u: "ulpExp 9007199254740992 = 1" by (simp add: ulpExp_def)
  have "rndPos 9007199254740992 = of_int (roundHalfEven (of_int 4503599627370496)) * 2"
    by (simp add: rndPos_def u)
  then have r: "rndPos 9007199254740992 = 9007199254740992" unfolding roundHalfEven_of_int by simp
  have "(9007199254740992 :: rat) < 2 ^ 1024" by simp
  with r show ?thesis by (simp add: rnd_def)
qed

text \<open>Counting up by one stays exact on safe integers.\<close>

lemma jadd_jint: "\<bar>a + b\<bar> < 2 ^ 53 \<Longrightarrow> jadd (jint a) (jint b) = jint (a + b)"
  using rnd_of_int [of "a + b"] by (simp add: jint_def)

lemma jadd_0_1 [simp]: "jadd (jint 0) (jint 1) = jint 1"
  using jadd_jint [of 0 1] by simp

lemma safe_intE:
  assumes "isSafeInteger x"
  obtains i where "x = jint i" "\<bar>i\<bar> < 2 ^ 53"
proof (cases x)
  case (Fin q)
  with assms have "x = jint \<lfloor>q\<rfloor>" by (auto simp: isSafeInteger_def jint_def)
  with assms that show ?thesis by (metis isSafeInteger_jint)
qed (use assms in \<open>simp_all add: isSafeInteger_def\<close>)

lemma safe_succ:
  assumes "isSafeInteger x" "isSafeInteger y" "jeq y (jadd x (jint 1))"
  shows "\<exists>i. x = jint i \<and> y = jint (i + 1)"
proof -
  from assms(1) obtain i where i: "x = jint i" "\<bar>i\<bar> < 2 ^ 53" by (rule safe_intE)
  show ?thesis
  proof (cases "\<bar>i + 1\<bar> < 2 ^ 53")
    case True
    with assms(3) i have "y = jint (i + 1)" by (simp add: jadd_jint jeq_def)
    with i show ?thesis by blast
  next
    case False
    with i have "i + 1 = 9007199254740992" by auto
    then have "jadd x (jint 1) = jint 9007199254740992"
      using rnd_2_53 i(1) by (simp add: jint_def)
    with assms(2,3) have "isSafeInteger (jint 9007199254740992)" by (simp add: jeq_def)
    then show ?thesis unfolding isSafeInteger_jint by simp
  qed
qed

end
