(* ===== verification/JsonText.thy ===== *)
theory JsonText
  imports JsNumber
begin

text \<open>
  JSON values as the JavaScript code sees them, and \<open>src/src/kernel/canonical-json.ts\<close>:
  the canonical text every digest of the Foundry is computed from.  An object is the
  list of its own entries; \<open>JUndef\<close> is \<open>undefined\<close> (a missing property, or a property
  holding it).  Sparse arrays, symbols, accessors and class instances are not values of
  the model.  The main result: canonical texts are equal exactly when the values are
  equal up to the order of object keys.
\<close>

section \<open>Values\<close>

datatype json =
    JUndef
  | JNull
  | JBool bool
  | JNum jsnum
  | JStr string
  | JArr "json list"
  | JObj "(string \<times> json) list"

definition isRecord :: "json \<Rightarrow> bool" where
  "isRecord v = (case v of JObj kvs \<Rightarrow> True | _ \<Rightarrow> False)"

definition entriesOf :: "json \<Rightarrow> (string \<times> json) list" where
  "entriesOf v = (case v of JObj kvs \<Rightarrow> kvs | _ \<Rightarrow> [])"

definition objKeys :: "json \<Rightarrow> string list" where
  "objKeys v = map fst (entriesOf v)"

definition hasOwn :: "json \<Rightarrow> string \<Rightarrow> bool" where
  "hasOwn v k \<longleftrightarrow> k \<in> set (objKeys v)"

text \<open>Property access: \<open>undefined\<close> when the object has no such entry.\<close>

definition fld :: "string \<Rightarrow> json \<Rightarrow> json" where
  "fld k v = (case map_of (entriesOf v) k of Some w \<Rightarrow> w | None \<Rightarrow> JUndef)"

definition isStr :: "json \<Rightarrow> bool" where
  "isStr v = (case v of JStr s \<Rightarrow> True | _ \<Rightarrow> False)"

definition strOf :: "json \<Rightarrow> string" where
  "strOf v = (case v of JStr s \<Rightarrow> s | _ \<Rightarrow> [])"

definition isArr :: "json \<Rightarrow> bool" where
  "isArr v = (case v of JArr vs \<Rightarrow> True | _ \<Rightarrow> False)"

definition arrOf :: "json \<Rightarrow> json list" where
  "arrOf v = (case v of JArr vs \<Rightarrow> vs | _ \<Rightarrow> [])"

definition isBool :: "json \<Rightarrow> bool" where
  "isBool v = (case v of JBool b \<Rightarrow> True | _ \<Rightarrow> False)"

definition boolOf :: "json \<Rightarrow> bool" where
  "boolOf v = (case v of JBool b \<Rightarrow> b | _ \<Rightarrow> False)"

text \<open>The number tests of the code: \<open>Number.isFinite\<close> and the like are false off numbers.\<close>

definition numOf :: "json \<Rightarrow> jsnum" where
  "numOf v = (case v of JNum x \<Rightarrow> x | _ \<Rightarrow> NaN)"

definition intOf :: "json \<Rightarrow> int" where
  "intOf v = (case numOf v of Fin q \<Rightarrow> \<lfloor>q\<rfloor> | _ \<Rightarrow> 0)"

definition optStr :: "json \<Rightarrow> string option" where
  "optStr v = (case v of JStr s \<Rightarrow> Some s | _ \<Rightarrow> None)"

definition ofOptStr :: "string option \<Rightarrow> json" where
  "ofOptStr o' = (case o' of Some s \<Rightarrow> JStr s | None \<Rightarrow> JNull)"

definition jStrs :: "string list \<Rightarrow> json" where
  "jStrs ss = JArr (map JStr ss)"

definition strsOf :: "json \<Rightarrow> string list" where
  "strsOf v = map strOf (arrOf v)"

definition jInt :: "int \<Rightarrow> json" where
  "jInt i = JNum (jint i)"

text \<open>A JSON value as a condition of \<open>if\<close>.\<close>

definition jsTruthy :: "json \<Rightarrow> bool" where
  "jsTruthy v = (case v of JNull \<Rightarrow> False | JUndef \<Rightarrow> False | JBool b \<Rightarrow> b | JStr s \<Rightarrow> s \<noteq> []
     | JNum x \<Rightarrow> x \<noteq> NaN \<and> \<not> jeq x (jint 0) | _ \<Rightarrow> True)"

text \<open>A string that may be absent or \<open>null\<close>, as a condition.\<close>

definition truthy :: "string option \<Rightarrow> bool" where
  "truthy s \<longleftrightarrow> s \<noteq> None \<and> s \<noteq> Some []"

text \<open>\<open>String(value)\<close>, which also turns an array into its joined elements.\<close>

fun joinWith :: "string \<Rightarrow> string list \<Rightarrow> string" where
  "joinWith sep [] = []"
| "joinWith sep [s] = s"
| "joinWith sep (s # t # ts) = s @ sep @ joinWith sep (t # ts)"

fun jsToString :: "json \<Rightarrow> string" where
  "jsToString JUndef = ''undefined''"
| "jsToString JNull = ''null''"
| "jsToString (JBool b) = (if b then ''true'' else ''false'')"
| "jsToString (JNum x) = (case x of Fin q \<Rightarrow> numText q | PInf \<Rightarrow> ''Infinity''
     | NInf \<Rightarrow> ''-Infinity'' | NaN \<Rightarrow> ''NaN'')"
| "jsToString (JStr s) = s"
| "jsToString (JArr vs) = joinWith '',''
     (map (\<lambda>v. if v = JNull \<or> v = JUndef then [] else jsToString v) vs)"
| "jsToString (JObj kvs) = ''[object Object]''"

section \<open>Unicode scalar check\<close>

text \<open>\<open>assertUnicodeScalarString\<close> over the UTF-16 code units of the string.\<close>

fun assertUnicodeScalarString :: "nat list \<Rightarrow> unit res" where
  "assertUnicodeScalarString [] = Inr ()"
| "assertUnicodeScalarString [u] =
     (if 0xD800 \<le> u \<and> u \<le> 0xDFFF
      then fail ''Canonical JSON does not allow lone Unicode surrogates.'' else Inr ())"
| "assertUnicodeScalarString (u # v # us) =
     (if 0xD800 \<le> u \<and> u \<le> 0xDBFF then
        (if v < 0xDC00 \<or> 0xDFFF < v
         then fail ''Canonical JSON does not allow lone Unicode surrogates.''
         else assertUnicodeScalarString us)
      else if 0xDC00 \<le> u \<and> u \<le> 0xDFFF
      then fail ''Canonical JSON does not allow lone Unicode surrogates.''
      else assertUnicodeScalarString (v # us))"

definition codeUnits :: "string \<Rightarrow> nat list" where
  "codeUnits s = map of_char s"

section \<open>Canonical text\<close>

definition hexDigit :: "nat \<Rightarrow> char" where
  "hexDigit n = (if n < 10 then char_of (48 + n) else char_of (87 + n))"

text \<open>One code unit inside a \<open>JSON.stringify\<close> string literal.\<close>

definition quoteChar :: "char \<Rightarrow> string" where
  "quoteChar c = (let n = of_char c :: nat in
     if n = 0x22 then [CHR 0x5C, CHR 0x22]
     else if n = 0x5C then [CHR 0x5C, CHR 0x5C]
     else if n = 8 then [CHR 0x5C, CHR ''b'']
     else if n = 9 then [CHR 0x5C, CHR ''t'']
     else if n = 10 then [CHR 0x5C, CHR ''n'']
     else if n = 12 then [CHR 0x5C, CHR ''f'']
     else if n = 13 then [CHR 0x5C, CHR ''r'']
     else if n < 32 then CHR 0x5C # ''u00'' @ [hexDigit (n div 16), hexDigit (n mod 16)]
     else [c])"

definition quoteStr :: "string \<Rightarrow> string" where
  "quoteStr s = CHR 0x22 # concat (map quoteChar s) @ [CHR 0x22]"

fun canonicalJsonText :: "json \<Rightarrow> string res" where
  "canonicalJsonText JUndef = fail ''Canonical JSON contains an unsupported value.''"
| "canonicalJsonText JNull = Inr ''null''"
| "canonicalJsonText (JBool b) = Inr (if b then ''true'' else ''false'')"
| "canonicalJsonText (JStr s) =
     bindE (assertUnicodeScalarString (codeUnits s)) (\<lambda>u. Inr (quoteStr s))"
| "canonicalJsonText (JNum x) = (case x of Fin q \<Rightarrow> Inr (numText q)
     | _ \<Rightarrow> fail ''Canonical JSON does not allow non-finite numbers.'')"
| "canonicalJsonText (JArr vs) =
     mapE (\<lambda>ts. ''['' @ joinWith '','' ts @ '']'') (seqE (map canonicalJsonText vs))"
| "canonicalJsonText (JObj kvs) =
     bindE (seqE (map (\<lambda>kv. assertUnicodeScalarString (codeUnits (fst kv))) kvs)) (\<lambda>u.
     mapE (\<lambda>ts. ''{'' @ joinWith '','' ts @ ''}'')
       (seqE (map snd (sort_key fst (map (\<lambda>(k, v). (k,
          if v = JUndef then fail ''Canonical JSON contains an unsupported value.''
          else mapE (\<lambda>t. quoteStr k @ '':'' @ t) (canonicalJsonText v))) kvs)))))"

section \<open>The scalar check accepts exactly UTF-16\<close>

definition isScalar :: "nat \<Rightarrow> bool" where
  "isScalar p \<longleftrightarrow> p < 0x110000 \<and> \<not> (0xD800 \<le> p \<and> p \<le> 0xDFFF)"

definition utf16Encode :: "nat \<Rightarrow> nat list" where
  "utf16Encode p = (if p < 0x10000 then [p]
     else [0xD800 + (p - 0x10000) div 1024, 0xDC00 + (p - 0x10000) mod 1024])"

lemma assertUnicode_basic:
  "u < 0xD800 \<or> 0xDFFF < u \<Longrightarrow>
     assertUnicodeScalarString (u # us) = assertUnicodeScalarString us"
  by (cases us) auto

lemma assertUnicode_pair:
  "0xD800 \<le> u \<Longrightarrow> u \<le> 0xDBFF \<Longrightarrow> 0xDC00 \<le> v \<Longrightarrow> v \<le> 0xDFFF \<Longrightarrow>
     assertUnicodeScalarString (u # v # us) = assertUnicodeScalarString us"
  by auto

lemma assertUnicode_encode:
  assumes "isScalar p"
  shows "assertUnicodeScalarString (utf16Encode p @ us) = assertUnicodeScalarString us"
proof (cases "p < 0x10000")
  case True
  with assms have "p < 0xD800 \<or> 0xDFFF < p" by (auto simp: isScalar_def)
  with True show ?thesis by (simp add: utf16Encode_def assertUnicode_basic)
next
  case False
  with assms have "(p - 0x10000) div 1024 \<le> 0x3FF" by (simp add: isScalar_def)
  with False show ?thesis
    unfolding utf16Encode_def if_not_P [OF False] append_Cons append_Nil
    by (intro assertUnicode_pair) auto
qed

lemma assertUnicode_complete:
  "(\<forall>p \<in> set ps. isScalar p) \<Longrightarrow> assertUnicodeScalarString (concat (map utf16Encode ps)) = Inr ()"
  by (induction ps) (auto simp: assertUnicode_encode)

lemma utf16_pair:
  assumes "0xD800 \<le> u" "u \<le> 0xDBFF" "0xDC00 \<le> v" "v \<le> 0xDFFF"
  shows "\<exists>p. isScalar p \<and> utf16Encode p = [u, v]"
proof -
  define a where "a = u - 0xD800"
  define b where "b = v - 0xDC00"
  have ab: "u = 0xD800 + a" "v = 0xDC00 + b" "a < 1024" "b < 1024"
    using assms by (simp_all add: a_def b_def)
  have q: "(a * 1024 + b) div 1024 = a" using ab(4) by simp
  have s: "0x10000 + (a * 1024 + b) < 0x110000" using ab(3, 4) by linarith
  have "isScalar (0x10000 + (a * 1024 + b))" using s by (simp add: isScalar_def)
  moreover have "utf16Encode (0x10000 + (a * 1024 + b)) = [u, v]"
    unfolding utf16Encode_def ab(1, 2) using mod_less [OF ab(4)] by (simp add: q)
  ultimately show ?thesis by blast
qed

lemma assertUnicode_sound:
  "assertUnicodeScalarString us = Inr () \<Longrightarrow> \<forall>u \<in> set us. u < 0x10000 \<Longrightarrow>
     \<exists>ps. (\<forall>p \<in> set ps. isScalar p) \<and> us = concat (map utf16Encode ps)"
proof (induction us rule: assertUnicodeScalarString.induct)
  case 1
  then show ?case by (intro exI [of _ "[]"]) simp
next
  case (2 u)
  then show ?case
    by (intro exI [of _ "[u]"]) (auto simp: isScalar_def utf16Encode_def split: if_splits)
next
  case (3 u v us)
  show ?case
  proof (cases "0xD800 \<le> u \<and> u \<le> 0xDBFF")
    case True
    with "3.prems"(1) have v: "0xDC00 \<le> v" "v \<le> 0xDFFF" and ok: "assertUnicodeScalarString us = Inr ()"
      by (simp_all split: if_splits)
    with "3.IH"(1) True "3.prems"(2) obtain ps where
      ps: "\<forall>p \<in> set ps. isScalar p" "us = concat (map utf16Encode ps)" by fastforce
    obtain p where "isScalar p" "utf16Encode p = [u, v]" using True v utf16_pair by blast
    with ps have "(\<forall>q \<in> set (p # ps). isScalar q) \<and> u # v # us = concat (map utf16Encode (p # ps))"
      by simp
    then show ?thesis by blast
  next
    case False
    with "3.prems"(1) have u: "u < 0xD800 \<or> 0xDFFF < u" and ok: "assertUnicodeScalarString (v # us) = Inr ()"
      by (simp_all split: if_splits) linarith+
    with "3.IH"(2) False "3.prems"(2) obtain ps where
      ps: "\<forall>p \<in> set ps. isScalar p" "v # us = concat (map utf16Encode ps)" by fastforce
    have "isScalar u" "utf16Encode u = [u]" using u "3.prems"(2) by (auto simp: isScalar_def utf16Encode_def)
    with ps have "(\<forall>q \<in> set (u # ps). isScalar q) \<and> u # v # us = concat (map utf16Encode (u # ps))"
      by simp
    then show ?thesis by blast
  qed
qed

lemma codeUnits_scalar [simp]: "assertUnicodeScalarString (codeUnits s) = Inr ()"
proof -
  have "assertUnicodeScalarString us = Inr ()" if "\<forall>u \<in> set us. u < 256" for us
    using that by (induction us) (auto simp: assertUnicode_basic)
  then show ?thesis by (simp add: codeUnits_def)
qed

section \<open>Texts are uniquely readable\<close>

definition hexVal :: "char \<Rightarrow> nat" where
  "hexVal c = (let n = of_char c in if n < 58 then n - 48 else n - 87)"

text \<open>Read one quoted code unit back.\<close>

definition unquoteChar :: "string \<Rightarrow> char \<times> string" where
  "unquoteChar s = (if hd s \<noteq> CHR 0x5C then (hd s, tl s)
     else let e = s ! 1; r = drop 2 s in
       if e = CHR ''u'' then (char_of (16 * hexVal (r ! 2) + hexVal (r ! 3)), drop 4 r)
       else if e = CHR ''b'' then (char_of (8::nat), r)
       else if e = CHR ''t'' then (char_of (9::nat), r)
       else if e = CHR ''n'' then (char_of (10::nat), r)
       else if e = CHR ''f'' then (char_of (12::nat), r)
       else if e = CHR ''r'' then (char_of (13::nat), r)
       else (e, r))"

lemma hexVal_hexDigit: "n < 16 \<Longrightarrow> hexVal (hexDigit n) = n"
  by (auto simp: hexVal_def hexDigit_def Let_def)

lemma char_of_eqI: "of_char c = (n::nat) \<Longrightarrow> char_of n = c"
  by (metis char_of_char)

lemma unquoteChar_quoteChar: "unquoteChar (quoteChar c @ r) = (c, r)"
proof -
  define n where "n = (of_char c :: nat)"
  have c: "char_of n = c" by (simp add: n_def)
  consider "n = 0x22" | "n = 0x5C" | "n \<in> {8, 9, 10, 12, 13}" | "n < 32" "n \<notin> {8, 9, 10, 12, 13}"
    | "n \<ge> 32" "n \<noteq> 0x22" "n \<noteq> 0x5C" by fastforce
  then show ?thesis
  proof cases
    case 1
    then have "of_char c = (of_char (CHR 0x22) :: nat)" by (simp add: n_def)
    then have "c = CHR 0x22" by (simp only: of_char_eq_iff)
    then show ?thesis by (simp add: unquoteChar_def quoteChar_def)
  next
    case 2
    then have "of_char c = (of_char (CHR 0x5C) :: nat)" by (simp add: n_def)
    then have "c = CHR 0x5C" by (simp only: of_char_eq_iff)
    then show ?thesis by (simp add: unquoteChar_def quoteChar_def)
  next
    case 3
    then show ?thesis
      using c by (elim insertE emptyE) (simp_all add: unquoteChar_def quoteChar_def n_def [symmetric])
  next
    case 4
    then have "quoteChar c = CHR 0x5C # ''u00'' @ [hexDigit (n div 16), hexDigit (n mod 16)]"
      by (auto simp: quoteChar_def n_def [symmetric] Let_def)
    with 4 c show ?thesis by (simp add: unquoteChar_def hexVal_hexDigit)
  next
    case 5
    then have q: "quoteChar c = [c]" by (auto simp: quoteChar_def n_def [symmetric] Let_def)
    have "c \<noteq> CHR 0x5C" using 5 by (auto simp: n_def)
    then show ?thesis by (simp add: q unquoteChar_def)
  qed
qed

lemma quoteChar_start: "\<exists>d ds. quoteChar c = d # ds \<and> d \<noteq> CHR 0x22"
  by (auto simp: quoteChar_def Let_def)

lemma quoteBody_inj:
  "concat (map quoteChar s) @ CHR 0x22 # r = concat (map quoteChar s') @ CHR 0x22 # r' \<Longrightarrow>
     s = s' \<and> r = r'"
proof (induction s arbitrary: s')
  case Nil
  then show ?case
  proof (cases s')
    case (Cons d t)
    with Nil quoteChar_start [of d] show ?thesis by auto
  qed simp
next
  case (Cons c s)
  show ?case
  proof (cases s')
    case Nil
    with Cons.prems quoteChar_start [of c] show ?thesis by auto
  next
    case (Cons d t)
    let ?X = "concat (map quoteChar s) @ CHR 0x22 # r"
    let ?Y = "concat (map quoteChar t) @ CHR 0x22 # r'"
    have "quoteChar c @ ?X = quoteChar d @ ?Y" using Cons.prems Cons by simp
    then have "(c, ?X) = (d, ?Y)" by (metis unquoteChar_quoteChar)
    with Cons.IH [of t] Cons show ?thesis by simp
  qed
qed

lemma quoteStr_append_inj: "quoteStr s @ r = quoteStr s' @ r' \<Longrightarrow> s = s' \<and> r = r'"
  using quoteBody_inj [of s r s' r'] by (simp add: quoteStr_def)

section \<open>Canonical text identifies values up to key order\<close>

text \<open>The text of a value whose keys are in order already.\<close>

fun jtext :: "json \<Rightarrow> string" where
  "jtext JUndef = []"
| "jtext JNull = ''null''"
| "jtext (JBool b) = (if b then ''true'' else ''false'')"
| "jtext (JStr s) = quoteStr s"
| "jtext (JNum x) = numText (ratOf x)"
| "jtext (JArr vs) = ''['' @ joinWith '','' (map jtext vs) @ '']''"
| "jtext (JObj kvs) = ''{'' @ joinWith '','' (map (\<lambda>(k, v). quoteStr k @ '':'' @ jtext v) kvs) @ ''}''"

text \<open>Sort the keys of every object.\<close>

fun norm :: "json \<Rightarrow> json" where
  "norm (JArr vs) = JArr (map norm vs)"
| "norm (JObj kvs) = JObj (sort_key fst (map (\<lambda>(k, v). (k, norm v)) kvs))"
| "norm v = v"

text \<open>Values the canonical text accepts: no \<open>undefined\<close>, finite numbers.\<close>

fun plain :: "json \<Rightarrow> bool" where
  "plain JUndef = False"
| "plain (JNum x) = (isFinite x \<and> numOk (ratOf x))"
| "plain (JArr vs) = (\<forall>v \<in> set vs. plain v)"
| "plain (JObj kvs) = (\<forall>kv \<in> set kvs. plain (snd kv))"
| "plain v = True"

lemma insort_key_map: "insort_key f (h x) (map h xs) = map h (insort_key (\<lambda>y. f (h y)) x xs)"
  by (induction xs) auto

lemma sort_key_map: "sort_key f (map h xs) = map h (sort_key (\<lambda>y. f (h y)) xs)"
  by (induction xs) (auto simp: insort_key_map)

lemma sort_key_entries:
  "sort_key fst (map (\<lambda>(k, v). (k, g v)) kvs) = map (\<lambda>(k, v). (k, g v)) (sort_key fst kvs)"
  by (simp add: sort_key_map split_beta)

lemma seqE_Inr [simp]: "seqE (map (\<lambda>x. Inr (f x)) xs) = Inr (map f xs)"
  by (simp add: seqE_Inr_iff)

lemma seqE_cong_Inr: "(\<And>x. x \<in> set xs \<Longrightarrow> g x = Inr (f x)) \<Longrightarrow> seqE (map g xs) = Inr (map f xs)"
  by (simp add: seqE_Inr_iff)

lemma canonicalJsonText_plain: "plain v \<Longrightarrow> canonicalJsonText v = Inr (jtext (norm v))"
proof (induction v rule: canonicalJsonText.induct)
  case (5 x)
  then show ?case by (cases x) (auto simp: isFinite_def)
next
  case (6 vs)
  have "seqE (map canonicalJsonText vs) = Inr (map (\<lambda>v. jtext (norm v)) vs)"
    using 6 by (intro seqE_cong_Inr) auto
  then show ?case by (simp add: o_def)
next
  case (7 kvs)
  define g where "g kv = (if snd kv = JUndef then fail ''Canonical JSON contains an unsupported value.''
          else mapE (\<lambda>t. quoteStr (fst kv) @ '':'' @ t) (canonicalJsonText (snd kv)))" for kv
  define h where "h kv = quoteStr (fst kv) @ '':'' @ jtext (norm (snd kv))" for kv :: "string \<times> json"
  have "g kv = Inr (h kv)" if kv: "kv \<in> set kvs" for kv
  proof -
    have p: "plain (snd kv)" using "7.prems" kv by simp
    then have u: "snd kv \<noteq> JUndef" by auto
    from "7.IH" [OF kv, of "fst kv" "snd kv"] p u
    have "canonicalJsonText (snd kv) = Inr (jtext (norm (snd kv)))" by simp
    then show ?thesis using u by (simp add: g_def h_def)
  qed
  then have "seqE (map g (sort_key fst kvs)) = Inr (map h (sort_key fst kvs))"
    by (intro seqE_cong_Inr) simp
  then show ?case
    by (simp add: sort_key_map split_beta o_def g_def [symmetric] h_def [abs_def])
qed auto


text \<open>What may follow a value inside a text.\<close>

definition delimited :: "string \<Rightarrow> bool" where
  "delimited r \<longleftrightarrow> r = [] \<or> hd r \<in> {CHR '','', CHR '']'', CHR ''}''}"

lemma takeWhile_prefix:
  "list_all P s \<Longrightarrow> r = [] \<or> \<not> P (hd r) \<Longrightarrow> takeWhile P (s @ r) = s"
  by (induction s) (cases r, auto)

lemma numText_append_inj:
  assumes "numOk p" "numOk q" "delimited r" "delimited r'" "numText p @ r = numText q @ r'"
  shows "p = q \<and> r = r'"
proof -
  let ?P = "\<lambda>c. isDigit c \<or> c \<in> set ''+-.e''"
  have d: "r = [] \<or> \<not> ?P (hd r)" "r' = [] \<or> \<not> ?P (hd r')"
    using assms(3,4) by (auto simp: delimited_def isDigit_def less_eq_char_def)
  have "takeWhile ?P (numText p @ r) = numText p" "takeWhile ?P (numText q @ r') = numText q"
    using assms(1,2) d by (intro takeWhile_prefix; simp add: numOk_def)+
  with assms(5) have "numText p = numText q" by simp
  with assms show ?thesis by (simp add: numOk_inj)
qed

text \<open>A text never starts with a delimiter.\<close>

lemma jtext_start:
  assumes "plain v"
  shows "\<exists>c cs. jtext v = c # cs \<and> c \<notin> {CHR '','', CHR '']'', CHR ''}''}"
proof (cases v)
  case (JNum x)
  with assms have "numOk (ratOf x)" by simp
  then have "list_all (\<lambda>c. isDigit c \<or> c \<in> set ''+-.e'') (numText (ratOf x))" "numText (ratOf x) \<noteq> []"
    by (simp_all add: numOk_def)
  with JNum show ?thesis
    by (cases "numText (ratOf x)") (auto simp: isDigit_def less_eq_char_def)
qed (use assms in \<open>auto simp: quoteStr_def\<close>)

lemma numOk_start:
  "numOk q \<Longrightarrow> \<exists>c cs. numText q = c # cs \<and> c \<notin> {CHR ''n'', CHR ''t'', CHR ''f'', CHR 0x22, CHR ''['', CHR ''{''}"
  by (cases "numText q") (auto simp: numOk_def isDigit_def less_eq_char_def)

text \<open>The first character tells which kind of value a text is of.\<close>

definition headKind :: "char \<Rightarrow> nat" where
  "headKind c = (if c = CHR ''n'' then 0 else if c = CHR ''t'' then 1 else if c = CHR ''f'' then 2
     else if c = CHR 0x22 then 3 else if c = CHR ''['' then 4 else if c = CHR ''{'' then 5 else 6)"

definition kindOf :: "json \<Rightarrow> nat" where
  "kindOf v = (case v of JUndef \<Rightarrow> 7 | JNull \<Rightarrow> 0 | JBool b \<Rightarrow> if b then 1 else 2 | JStr s \<Rightarrow> 3
     | JArr vs \<Rightarrow> 4 | JObj kvs \<Rightarrow> 5 | JNum x \<Rightarrow> 6)"

lemma headKind_jtext: "plain v \<Longrightarrow> headKind (hd (jtext v @ r)) = kindOf v"
  by (cases v) (auto simp: headKind_def kindOf_def quoteStr_def dest!: numOk_start)

lemma jtext_kind: "plain v \<Longrightarrow> plain w \<Longrightarrow> jtext v @ r = jtext w @ r' \<Longrightarrow> kindOf v = kindOf w"
  by (metis headKind_jtext)

definition readable :: "('a \<Rightarrow> string) \<Rightarrow> ('a \<Rightarrow> bool) \<Rightarrow> 'a \<Rightarrow> bool" where
  "readable f P x \<longleftrightarrow> P x \<and> (\<forall>y r r'. P y \<longrightarrow> delimited r \<longrightarrow> delimited r' \<longrightarrow>
      f x @ r = f y @ r' \<longrightarrow> x = y \<and> r = r')"

lemma readableD:
  "readable f P x \<Longrightarrow> f x @ r = f y @ r' \<Longrightarrow> P y \<Longrightarrow> delimited r \<Longrightarrow> delimited r' \<Longrightarrow> x = y \<and> r = r'"
  unfolding readable_def by blast

lemma joinWith_Cons: "joinWith sep (s # ts) = s @ (if ts = [] then [] else sep @ joinWith sep ts)"
  by (cases ts) auto

lemma joinWith_inj:
  assumes start: "\<And>x. P x \<Longrightarrow> \<exists>c cs. f x = c # cs \<and> c \<notin> {CHR '','', CHR '']'', CHR ''}''}"
    and cl: "cl \<in> {CHR '']'', CHR ''}''}"
  shows "\<forall>x \<in> set xs. readable f P x \<Longrightarrow> \<forall>y \<in> set ys. P y \<Longrightarrow>
    joinWith '','' (map f xs) @ cl # r = joinWith '','' (map f ys) @ cl # r' \<Longrightarrow> xs = ys \<and> r = r'"
proof (induction xs arbitrary: ys)
  case Nil
  then show ?case
  proof (cases ys)
    case (Cons y ys')
    with Nil start [of y] cl show ?thesis by (auto simp: joinWith_Cons)
  qed simp
next
  case (Cons x xs)
  from Cons.prems(1) have px: "P x" and rx: "readable f P x" by (simp_all add: readable_def)
  show ?case
  proof (cases ys)
    case Nil
    with Cons.prems(3) start [OF px] cl show ?thesis by (auto simp: joinWith_Cons)
  next
    case (Cons y ys')
    define tl where "tl zs q = (if zs = [] then [] else '','' @ joinWith '','' (map f zs)) @ cl # q" for zs q
    have dl: "delimited (tl zs q)" for zs q using cl by (auto simp: tl_def delimited_def)
    have "f x @ tl xs r = f y @ tl ys' r'"
      using Cons.prems(3) Cons by (simp add: tl_def joinWith_Cons split: if_splits)
    with rx Cons Cons.prems(2) dl have xy: "x = y" and t: "tl xs r = tl ys' r'"
      by (auto dest!: readableD)
    have "xs = ys' \<and> r = r'"
    proof (cases "xs = [] \<or> ys' = []")
      case True
      with t cl show ?thesis by (auto simp: tl_def split: if_splits)
    next
      case False
      with t have "joinWith '','' (map f xs) @ cl # r = joinWith '','' (map f ys') @ cl # r'"
        by (simp add: tl_def)
      with Cons.IH [of ys'] Cons.prems Cons show ?thesis by simp
    qed
    with xy Cons show ?thesis by simp
  qed
qed


lemma readableI:
  "P x \<Longrightarrow> (\<And>y r r'. P y \<Longrightarrow> delimited r \<Longrightarrow> delimited r' \<Longrightarrow> f x @ r = f y @ r' \<Longrightarrow> x = y \<and> r = r') \<Longrightarrow>
     readable f P x"
  unfolding readable_def by blast

lemma readable_jtext: "plain v \<Longrightarrow> readable jtext plain v"
proof (induction v)
  case JUndef
  then show ?case by simp
next
  case JNull
  show ?case
  proof (rule readableI)
    fix y r r'
    assume y: "plain y" "jtext JNull @ r = jtext y @ r'"
    then have "kindOf y = 0" using jtext_kind [of JNull y] by (simp add: kindOf_def)
    then have "y = JNull" by (simp add: kindOf_def split: json.splits if_splits)
    with y show "JNull = y \<and> r = r'" by simp
  qed simp
next
  case (JBool b)
  show ?case
  proof (rule readableI)
    fix y r r'
    assume y: "plain y" "jtext (JBool b) @ r = jtext y @ r'"
    then have "kindOf y = (if b then 1 else 2)" using jtext_kind [of "JBool b" y] by (simp add: kindOf_def)
    then have "y = JBool b" by (simp add: kindOf_def split: json.splits if_splits)
    with y show "JBool b = y \<and> r = r'" by simp
  qed simp
next
  case (JNum x)
  show ?case
  proof (rule readableI)
    fix y r r'
    assume y: "plain y" "delimited r" "delimited r'" "jtext (JNum x) @ r = jtext y @ r'"
    then have "kindOf y = 6" using jtext_kind [of "JNum x" y] JNum by (simp add: kindOf_def)
    then obtain z where z: "y = JNum z" by (auto simp add: kindOf_def split: json.splits if_splits)
    with y JNum have "ratOf x = ratOf z \<and> r = r'" using numText_append_inj by auto
    moreover have "isFinite x" "isFinite z" using JNum y z by simp_all
    ultimately show "JNum x = y \<and> r = r'"
      using z by (auto simp: isFinite_def ratOf_def split: jsnum.splits)
  qed (rule JNum)
next
  case (JStr s)
  show ?case
  proof (rule readableI)
    fix y r r'
    assume y: "plain y" "jtext (JStr s) @ r = jtext y @ r'"
    then have "kindOf y = 3" using jtext_kind [of "JStr s" y] by (simp add: kindOf_def)
    then obtain t where t: "y = JStr t" by (auto simp add: kindOf_def split: json.splits if_splits)
    with y have "s = t \<and> r = r'" by (intro quoteStr_append_inj) simp
    with t show "JStr s = y \<and> r = r'" by simp
  qed simp
next
  case (JArr vs)
  then have vs: "\<forall>v \<in> set vs. readable jtext plain v" by auto
  show ?case
  proof (rule readableI)
    fix y r r'
    assume y: "plain y" "jtext (JArr vs) @ r = jtext y @ r'"
    then have "kindOf y = 4" using jtext_kind [of "JArr vs" y] JArr by (simp add: kindOf_def)
    then obtain ws where ws: "y = JArr ws" by (auto simp add: kindOf_def split: json.splits if_splits)
    have "joinWith '','' (map jtext vs) @ CHR '']'' # r = joinWith '','' (map jtext ws) @ CHR '']'' # r'"
      "\<forall>w \<in> set ws. plain w" using y ws by simp_all
    then have "vs = ws \<and> r = r'"
      by (intro joinWith_inj [where P = plain and f = jtext]) (use vs jtext_start in auto)
    with ws show "JArr vs = y \<and> r = r'" by simp
  qed (rule JArr)
next
  case (JObj kvs)
  let ?f = "\<lambda>(k, v). quoteStr k @ '':'' @ jtext v"
  let ?P = "\<lambda>kv. plain (snd kv)"
  have kv: "\<forall>kv \<in> set kvs. readable ?f ?P kv"
  proof
    fix kv assume kv: "kv \<in> set kvs"
    have "snd kv \<in> Basic_BNFs.snds kv" by (cases kv) simp
    with JObj kv have r: "readable jtext plain (snd kv)" by simp
    show "readable ?f ?P kv"
    proof (rule readableI)
      fix y r r'
      assume y: "plain (snd y)" "delimited r" "delimited r'" "?f kv @ r = ?f y @ r'"
      then have "quoteStr (fst kv) @ (CHR '':'' # jtext (snd kv) @ r) =
          quoteStr (fst y) @ (CHR '':'' # jtext (snd y) @ r')" by (simp add: split_beta)
      from quoteStr_append_inj [OF this] have k: "fst kv = fst y" and "jtext (snd kv) @ r = jtext (snd y) @ r'"
        by simp_all
      from readableD [OF r this(2)] y k show "kv = y \<and> r = r'" by (simp add: prod_eq_iff)
    qed (use r in \<open>simp add: readable_def\<close>)
  qed
  show ?case
  proof (rule readableI)
    fix y r r'
    assume y: "plain y" "jtext (JObj kvs) @ r = jtext y @ r'"
    then have "kindOf y = 5" using jtext_kind [of "JObj kvs" y] JObj by (simp add: kindOf_def)
    then obtain ws where ws: "y = JObj ws" by (auto simp add: kindOf_def split: json.splits if_splits)
    have "joinWith '','' (map ?f kvs) @ CHR ''}'' # r = joinWith '','' (map ?f ws) @ CHR ''}'' # r'"
      "\<forall>w \<in> set ws. ?P w" using y ws by simp_all
    then have "kvs = ws \<and> r = r'"
      by (intro joinWith_inj [where P = ?P and f = ?f])
        (use kv in \<open>auto simp add: split_beta quoteStr_def\<close>)
    with ws show "JObj kvs = y \<and> r = r'" by simp
  qed (rule JObj)
qed

lemma plain_norm [simp]: "plain (norm v) \<longleftrightarrow> plain v"
  by (induction v rule: norm.induct) (auto simp: split_beta)

lemma jtext_inj: "plain v \<Longrightarrow> plain w \<Longrightarrow> jtext v = jtext w \<Longrightarrow> v = w"
  using readableD [OF readable_jtext, of v "[]" w "[]"] by (auto simp: delimited_def)

lemma canonicalJsonText_inj:
  "plain v \<Longrightarrow> plain w \<Longrightarrow> canonicalJsonText v = canonicalJsonText w \<longleftrightarrow> norm v = norm w"
  using jtext_inj [of "norm v" "norm w"] by (auto simp: canonicalJsonText_plain)

text \<open>Equal canonical texts have equal fields.\<close>

lemma map_of_sort_key:
  "distinct (map fst kvs) \<Longrightarrow> map_of (sort_key fst kvs) = map_of kvs"
  by (intro map_of_inject_set [THEN iffD2]) (simp_all add: distinct_map)

lemma fld_norm:
  assumes "distinct (objKeys v)"
  shows "fld k (norm v) = norm (fld k v)"
proof (cases v)
  case (JObj kvs)
  have "map_of (sort_key fst (map (\<lambda>(k, v). (k, norm v)) kvs)) = map_of (map (\<lambda>(k, v). (k, norm v)) kvs)"
    using assms JObj by (intro map_of_sort_key) (simp add: objKeys_def entriesOf_def split_beta comp_def)
  with JObj show ?thesis
    by (simp add: fld_def entriesOf_def map_of_map comp_def split: option.splits)
qed (simp_all add: fld_def entriesOf_def)

lemma norm_JStr [simp]: "norm v = JStr s \<longleftrightarrow> v = JStr s" "norm v = JNull \<longleftrightarrow> v = JNull"
  "norm v = JNum x \<longleftrightarrow> v = JNum x" "norm v = JBool b \<longleftrightarrow> v = JBool b" "norm v = JUndef \<longleftrightarrow> v = JUndef"
  by (cases v; simp)+

lemma norm_fld_eq:
  "norm v = norm w \<Longrightarrow> distinct (objKeys v) \<Longrightarrow> distinct (objKeys w) \<Longrightarrow> norm (fld k v) = norm (fld k w)"
  using fld_norm by metis

end
