(* ===== verification/Sha256.thy ===== *)
theory Sha256
  imports JsonText "HOL-Library.Word"
begin

text \<open>
  \<open>createHash('sha256').update(text).digest('hex')\<close>, which every digest of the Foundry
  is: UTF-8 of the text, the padded message, sixty-four rounds on 32-bit words, lower
  case hexadecimal.  Proofs keep the function opaque; what they use is that its value is
  always 64 hexadecimal digits, and theorems about tampering name the collision
  (two texts of equal hash) that would be needed.
\<close>

unbundle bit_operations_syntax

text \<open>UTF-8 of code units below 256.\<close>

definition utf8 :: "string \<Rightarrow> 8 word list" where
  "utf8 s = concat (map (\<lambda>c. let n = of_char c :: nat in
     if n < 128 then [of_nat n] else [of_nat (192 + n div 64), of_nat (128 + n mod 64)]) s)"

text \<open>The standard's round constants and initial words, as decimal numbers.\<close>

definition roundConstants :: "32 word list" where
  "roundConstants = map of_int
   [1116352408, 1899447441, 3049323471, 3921009573, 961987163, 1508970993, 2453635748,
    2870763221, 3624381080, 310598401, 607225278, 1426881987, 1925078388, 2162078206,
    2614888103, 3248222580, 3835390401, 4022224774, 264347078, 604807628, 770255983,
    1249150122, 1555081692, 1996064986, 2554220882, 2821834349, 2952996808, 3210313671,
    3336571891, 3584528711, 113926993, 338241895, 666307205, 773529912, 1294757372,
    1396182291, 1695183700, 1986661051, 2177026350, 2456956037, 2730485921, 2820302411,
    3259730800, 3345764771, 3516065817, 3600352804, 4094571909, 275423344, 430227734,
    506948616, 659060556, 883997877, 958139571, 1322822218, 1537002063, 1747873779,
    1955562222, 2024104815, 2227730452, 2361852424, 2428436474, 2756734187, 3204031479,
    3329325298]"

definition initialHash :: "32 word list" where
  "initialHash = map of_int
   [1779033703, 3144134277, 1013904242, 2773480762, 1359893119, 2600822924, 528734635,
    1541459225]"

definition padMessage :: "8 word list \<Rightarrow> 8 word list" where
  "padMessage bs = (let n = length bs; z = (119 - n mod 64) mod 64 in
     bs @ 0x80 # replicate z 0 @ map (\<lambda>i. of_int (8 * int n div 256 ^ (7 - i))) [0..<8])"

definition wordBE :: "8 word list \<Rightarrow> 32 word" where
  "wordBE bs = foldl (\<lambda>a b. push_bit 8 a OR ucast b) 0 bs"

fun chunksOf :: "nat \<Rightarrow> 'a list \<Rightarrow> 'a list list" where
  "chunksOf n [] = []"
| "chunksOf n (x # xs) = (if n = 0 then [x # xs] else take n (x # xs) # chunksOf n (drop n (x # xs)))"

text \<open>The message schedule, newest word first.\<close>

fun schedule :: "nat \<Rightarrow> 32 word list \<Rightarrow> 32 word list" where
  "schedule 0 ws = ws"
| "schedule (Suc n) ws = (let w2 = ws ! 1; w7 = ws ! 6; w15 = ws ! 14; w16 = ws ! 15;
     s0 = word_rotr 7 w15 XOR word_rotr 18 w15 XOR drop_bit 3 w15;
     s1 = word_rotr 17 w2 XOR word_rotr 19 w2 XOR drop_bit 10 w2 in
     schedule n ((w16 + s0 + w7 + s1) # ws))"

definition hashRound :: "32 word list \<Rightarrow> 32 word \<times> 32 word \<Rightarrow> 32 word list" where
  "hashRound v kw = (let a = v ! 0; b = v ! 1; c = v ! 2; d = v ! 3; e = v ! 4; f = v ! 5; g = v ! 6; h = v ! 7;
     s1 = word_rotr 6 e XOR word_rotr 11 e XOR word_rotr 25 e;
     ch = (e AND f) XOR (NOT e AND g);
     t1 = h + s1 + ch + fst kw + snd kw;
     s0 = word_rotr 2 a XOR word_rotr 13 a XOR word_rotr 22 a;
     maj = (a AND b) XOR (a AND c) XOR (b AND c) in
     [t1 + s0 + maj, a, b, c, d + t1, e, f, g])"

definition hashBlock :: "32 word list \<Rightarrow> 8 word list \<Rightarrow> 32 word list" where
  "hashBlock h bs = (let ws = rev (schedule 48 (rev (map wordBE (chunksOf 4 bs)))) in
     map2 (+) h (foldl hashRound h (zip roundConstants ws)))"

definition sha256Words :: "8 word list \<Rightarrow> 32 word list" where
  "sha256Words bs = foldl hashBlock initialHash (chunksOf 64 (padMessage bs))"

definition hexWord :: "32 word \<Rightarrow> string" where
  "hexWord w = map (\<lambda>i. hexDigit (unat (drop_bit (28 - 4 * i) w AND 15))) [0..<8]"

definition sha256Hex :: "string \<Rightarrow> string" where
  "sha256Hex s = concat (map hexWord (sha256Words (utf8 s)))"

lemma hexDigit_lower: "n < 16 \<Longrightarrow> isLowerHex (hexDigit n)"
  by (auto simp: hexDigit_def isLowerHex_def isDigit_def less_eq_char_def)

lemma hexWord_hex: "length (hexWord w) = 8 \<and> list_all isLowerHex (hexWord w)"
proof -
  have "unat (x AND 15) < 16" for x :: "32 word"
    using word_and_le1 [of x 15] by (simp add: word_le_nat_alt)
  then show ?thesis by (auto simp: hexWord_def list_all_iff intro!: hexDigit_lower)
qed

lemma length_sha256Words: "length (sha256Words bs) = 8"
proof -
  have r: "length (hashRound v kw) = 8" for v kw by (simp add: hashRound_def Let_def)
  have "length (foldl hashRound h kws) = 8" if "length h = 8" for h kws
    using that by (induction kws arbitrary: h) (simp_all add: r)
  then have b: "length (hashBlock h blk) = 8" if "length h = 8" for h blk
    using that by (simp add: hashBlock_def Let_def)
  have "length (foldl hashBlock h blks) = 8" if "length h = 8" for h blks
    using that by (induction blks arbitrary: h) (simp_all add: b)
  then show ?thesis by (simp add: sha256Words_def initialHash_def)
qed

lemma isHex64_sha256Hex [simp]: "isHex64 (sha256Hex s)"
proof -
  have "length (concat (map hexWord ws)) = 8 * length ws" for ws
    by (induction ws) (simp_all add: hexWord_hex)
  then show ?thesis
    using hexWord_hex by (auto simp: isHex64_def sha256Hex_def length_sha256Words list_all_iff)
qed

definition collision :: "string \<Rightarrow> string \<Rightarrow> bool" where
  "collision s t \<longleftrightarrow> s \<noteq> t \<and> sha256Hex s = sha256Hex t"

lemma sha256Hex_eqD: "sha256Hex s = sha256Hex t \<Longrightarrow> s = t \<or> collision s t"
  by (auto simp: collision_def)

end
