(* ===== verification/Protocol.thy ===== *)
theory Protocol
  imports Sha256
begin

text \<open>
  \<open>src/src/authority/evolution/protocol.ts\<close>: the four documents of the Foundry protocol
  (DesignRequest, AgentBlueprint, EvidenceBundle, EvolutionProposal), their validators,
  the purity scan and the content digest.  A document is the JSON value the code is
  handed; a validator is the list of its guards in source order, each with the message
  it throws.  Results are used through the lemmas at the end, which say what an
  accepted document satisfies.
\<close>

section \<open>Guards shared by the validators\<close>

text \<open>\<open>field[index]\<close> in messages.\<close>

definition idx :: "string \<Rightarrow> nat \<Rightarrow> string" where
  "idx f i = f @ ''['' @ showInt (int i) @ '']''"

definition trimmed :: "json \<Rightarrow> string" where
  "trimmed v = trim (strOf v)"

definition trimmedList :: "json \<Rightarrow> string list" where
  "trimmedList v = map trimmed (arrOf v)"

definition nonBlank :: "json \<Rightarrow> bool" where
  "nonBlank v \<longleftrightarrow> isStr v \<and> trimmed v \<noteq> []"

definition requiredString :: "json \<Rightarrow> string \<Rightarrow> check list" where
  "requiredString v f = [(nonBlank v, f @ '' must be a non-empty string.'')]"

definition requiredStringList :: "json \<Rightarrow> string \<Rightarrow> check list" where
  "requiredStringList v f = (isArr v, f @ '' must be an array.'')
     # checksEach (\<lambda>i e. requiredString e (idx f i)) (arrOf v)"

definition requiredUniqueStringList :: "json \<Rightarrow> string \<Rightarrow> nat \<Rightarrow> check list" where
  "requiredUniqueStringList v f n = requiredStringList v f @
     [(n \<le> length (arrOf v), f @ '' must contain at least '' @ showInt (int n) @ '' item(s).''),
      (distinct (trimmedList v), f @ '' must contain unique values.'')]"

definition assertExactKeys :: "json \<Rightarrow> string \<Rightarrow> string list \<Rightarrow> check list" where
  "assertExactKeys v f keys =
     [(list_all (\<lambda>k. k \<in> set (objKeys v)) keys \<and> list_all (\<lambda>k. k \<in> set keys) (objKeys v),
       f @ '' must use the closed protocol shape.'')]"

definition assertNumericMap :: "json \<Rightarrow> string \<Rightarrow> check list" where
  "assertNumericMap v f = (isRecord v, f @ '' must be an object.'')
     # map (\<lambda>(k, e). (trim k \<noteq> [] \<and> isFinite (numOf e), f @ ''.'' @ k @ '' must be a finite number.''))
         (entriesOf v)"

definition assertNonNegativeNumericMap :: "json \<Rightarrow> string \<Rightarrow> check list" where
  "assertNonNegativeNumericMap v f = assertNumericMap v f @
     map (\<lambda>(k, e). (\<not> jlt (numOf e) (jint 0), f @ ''.'' @ k @ '' must be a non-negative limit.''))
       (entriesOf v)"

text \<open>\<open>Date.parse\<close> on text outside the ISO form is up to the engine: \<open>dp\<close> says which text it reads.\<close>

definition assertDateTime :: "(string \<Rightarrow> bool) \<Rightarrow> json \<Rightarrow> string \<Rightarrow> check list" where
  "assertDateTime dp v f = requiredString v f @
     [(dp (trimmed v), f @ '' must be an RFC 3339 date-time.'')]"

definition assertDigest :: "json \<Rightarrow> string \<Rightarrow> check list" where
  "assertDigest v f = requiredString v f @
     [(isDigest (trimmed v), f @ '' must be a SHA-256 content digest.'')]"

definition isContentRef :: "string \<Rightarrow> bool" where
  "isContentRef s \<longleftrightarrow> matchesPrefixHex64 ''opl-content://sha256/'' s"

definition assertContentRef :: "json \<Rightarrow> string \<Rightarrow> check list" where
  "assertContentRef v f = requiredString v f @
     [(isContentRef (trimmed v), f @ '' must be an exact opl-content SHA-256 ref.'')]"

definition requiredUniqueContentRefList :: "json \<Rightarrow> string \<Rightarrow> nat \<Rightarrow> check list" where
  "requiredUniqueContentRefList v f n = requiredUniqueStringList v f n @
     checksEach (\<lambda>i e. assertContentRef e (idx f i)) (arrOf v)"

text \<open>\<open>[...].includes(String(value))\<close>\<close>

definition oneOf :: "string list \<Rightarrow> json \<Rightarrow> bool" where
  "oneOf ss v \<longleftrightarrow> jsToString v \<in> set ss"

text \<open>Strict equality \<open>===\<close> of two separately built values: objects and arrays are never the same one.\<close>

definition jsSame :: "json \<Rightarrow> json \<Rightarrow> bool" where
  "jsSame v w = (case v of JNum x \<Rightarrow> (case w of JNum y \<Rightarrow> jeq x y | _ \<Rightarrow> False)
     | JArr vs \<Rightarrow> False | JObj kvs \<Rightarrow> False | _ \<Rightarrow> v = w)"

text \<open>Assignment to a property: an existing entry keeps its place.\<close>

definition setFld :: "string \<Rightarrow> json \<Rightarrow> json \<Rightarrow> json" where
  "setFld k w v = JObj (AList.update k w (entriesOf v))"

section \<open>Purity\<close>

definition FORBIDDEN_FIELD_NAMES :: "string list" where
  "FORBIDDEN_FIELD_NAMES = [''repo_path'', ''repo_dir'', ''repo_root'', ''repository_path'', ''file_path'',
     ''worktree'', ''worktree_path'', ''branch'', ''branch_name'', ''cli'', ''command'', ''commands'',
     ''queue'', ''queue_id'', ''lease'', ''lease_id'', ''attempt'', ''attempt_id'', ''overwrite_policy'',
     ''promotion_ledger'', ''hidden_test_body'', ''hidden_test_bodies'', ''protected_test_body'',
     ''protected_test_bodies'', ''protected_case_body'', ''protected_case_bodies'', ''patch'', ''patches'',
     ''work_order'', ''work_orders'']"

definition isUpperAscii :: "char \<Rightarrow> bool" where
  "isUpperAscii c \<longleftrightarrow> CHR ''A'' \<le> c \<and> c \<le> CHR ''Z''"

definition isLowerAscii :: "char \<Rightarrow> bool" where
  "isLowerAscii c \<longleftrightarrow> CHR ''a'' \<le> c \<and> c \<le> CHR ''z''"

text \<open>\<open>toLowerCase\<close> on the units below 256: ASCII and the Latin-1 capitals.\<close>

definition lowerChar :: "char \<Rightarrow> char" where
  "lowerChar c = (let n = of_char c :: nat in
     if isUpperAscii c \<or> (192 \<le> n \<and> n \<le> 222 \<and> n \<noteq> 215) then char_of (n + 32) else c)"

definition toLowerCase :: "string \<Rightarrow> string" where
  "toLowerCase s = map lowerChar s"

text \<open>\<open>key.replace(/([a-z0-9])([A-Z])/g, '$1_$2')\<close>\<close>

fun splitCamel :: "string \<Rightarrow> string" where
  "splitCamel (c # d # s) = (if (isLowerAscii c \<or> isDigit c) \<and> isUpperAscii d
     then c # CHR ''_'' # splitCamel (d # s) else c # splitCamel (d # s))"
| "splitCamel s = s"

definition normalizedKey :: "string \<Rightarrow> string" where
  "normalizedKey k = toLowerCase (map (\<lambda>c. if c = CHR ''-'' then CHR ''_'' else c) (splitCamel k))"

fun splitOn :: "char \<Rightarrow> string \<Rightarrow> string list" where
  "splitOn c [] = [[]]"
| "splitOn c (d # s) = (case splitOn c s of
     [] \<Rightarrow> [[]] | w # ws \<Rightarrow> if d = c then [] # w # ws else (d # w) # ws)"

definition looksLikePhysicalPath :: "string \<Rightarrow> bool" where
  "looksLikePhysicalPath s \<longleftrightarrow> startsWith s ''/'' \<or> startsWith s ''./'' \<or> startsWith s ''../''
     \<or> startsWith s ''file:''
     \<or> (case s of c # d # e # r \<Rightarrow> (isUpperAscii c \<or> isLowerAscii c) \<and> d = CHR '':''
          \<and> (e = CHR 0x5C \<or> e = CHR ''/'') | _ \<Rightarrow> False)"

definition forbiddenKey :: "string \<Rightarrow> bool" where
  "forbiddenKey k \<longleftrightarrow> normalizedKey k \<in> set FORBIDDEN_FIELD_NAMES
     \<or> ''attempt'' \<in> set (splitOn CHR ''_'' (normalizedKey k))"

definition scanString :: "string \<Rightarrow> string \<Rightarrow> string list" where
  "scanString loc s = (let t = trim s in
     (if \<not> endsWith loc ''/semantic_path'' \<and> looksLikePhysicalPath t then [loc @ '':physical_path''] else []) @
     (if startsWith (toLowerCase t) ''attempt:'' then [loc @ '':forbidden_attempt_ref''] else []))"

lemma size_zip_elem [termination_simp]:
  "(i, v) \<in> set (zip ns vs) \<Longrightarrow> size v < Suc (size_list size vs)"
  by (meson le_imp_less_Suc order_refl set_zip_rightD size_list_estimation')

fun scanForbidden :: "json \<Rightarrow> string \<Rightarrow> string list" where
  "scanForbidden (JStr s) loc = scanString loc s"
| "scanForbidden (JArr vs) loc =
     concat (map (\<lambda>(i, v). scanForbidden v (loc @ ''/'' @ showInt (int i))) (zip [0..<length vs] vs))"
| "scanForbidden (JObj kvs) loc = concat (map (\<lambda>(k, v).
     (if forbiddenKey k then [loc @ ''/'' @ k @ '':forbidden_field''] else []) @
     scanForbidden v (loc @ ''/'' @ k)) kvs)"
| "scanForbidden v loc = []"

definition assertFoundryProtocolPurity :: "json \<Rightarrow> string \<Rightarrow> check list" where
  "assertFoundryProtocolPurity v label =
     [(scanForbidden v ''$'' = [], label @ '' crosses the Foundry semantic protocol boundary.'')]"

section \<open>Content digest\<close>

definition foundryContentDigest :: "json \<Rightarrow> string res" where
  "foundryContentDigest v =
     bindE (runChecks (assertFoundryProtocolPurity v ''Foundry protocol object'')) (\<lambda>u.
     mapE (\<lambda>t. ''sha256:'' @ sha256Hex t) (canonicalJsonText v))"

section \<open>DesignRequest\<close>

definition FOUNDRY_PROTOCOL_VERSION :: string where
  "FOUNDRY_PROTOCOL_VERSION = ''opl-foundry-protocol.v1''"

definition assertIdentity :: "json \<Rightarrow> string \<Rightarrow> check list" where
  "assertIdentity v label =
     requiredString (fld ''target_agent_id'' v) (label @ ''.target_agent_id'') @
     requiredString (fld ''target_domain_id'' v) (label @ ''.target_domain_id'') @
     (if fld ''target_version_ref'' v \<noteq> JNull
      then assertDigest (fld ''target_version_ref'' v) (label @ ''.target_version_ref'') else [])"

definition assertBase :: "json \<Rightarrow> string \<Rightarrow> string \<Rightarrow> check list" where
  "assertBase v surfaceKind label =
     [(isRecord v, label @ '' must be an object.''),
      (fld ''surface_kind'' v = JStr surfaceKind, label @ ''.surface_kind must be '' @ surfaceKind @ ''.''),
      (fld ''version'' v = JStr FOUNDRY_PROTOCOL_VERSION,
       label @ ''.version must be '' @ FOUNDRY_PROTOCOL_VERSION @ ''.'')] @
     assertIdentity v label @
     assertFoundryProtocolPurity v label"

definition baselineAdoptionKeys :: "string list" where
  "baselineAdoptionKeys = [''surface_kind'', ''version'', ''owner_authorization_ref'', ''evidence_refs'',
     ''qualification_obligation_refs'']"

definition isOwnerAuthorizationRef :: "string \<Rightarrow> bool" where
  "isOwnerAuthorizationRef s \<longleftrightarrow>
     matchesPrefixHex64 ''opl://foundry/owner-authority-receipts/sha256:'' s"

definition baselineAdoptionChecks :: "json \<Rightarrow> check list" where
  "baselineAdoptionChecks v =
     (isRecord v, ''DesignRequest.baseline_adoption must be an object.'') #
     assertExactKeys v ''DesignRequest.baseline_adoption'' baselineAdoptionKeys @
     [(fld ''surface_kind'' v = JStr ''opl_foundry_baseline_adoption_request''
        \<and> fld ''version'' v = JStr ''opl-foundry-baseline-adoption-request.v1'',
       ''DesignRequest.baseline_adoption identity is invalid.'')] @
     requiredString (fld ''owner_authorization_ref'' v)
       ''DesignRequest.baseline_adoption.owner_authorization_ref'' @
     [(isOwnerAuthorizationRef (trimmed (fld ''owner_authorization_ref'' v)),
       ''DesignRequest.baseline_adoption.owner_authorization_ref must bind an exact OwnerGate receipt.'')] @
     requiredUniqueContentRefList (fld ''evidence_refs'' v)
       ''DesignRequest.baseline_adoption.evidence_refs'' 1 @
     requiredUniqueContentRefList (fld ''qualification_obligation_refs'' v)
       ''DesignRequest.baseline_adoption.qualification_obligation_refs'' 1"

text \<open>The rebuilt object, with its strings trimmed.\<close>

definition validateBaselineAdoptionRequest :: "json \<Rightarrow> json res" where
  "validateBaselineAdoptionRequest v = bindE (runChecks (baselineAdoptionChecks v)) (\<lambda>u. Inr (JObj
     [(''surface_kind'', JStr ''opl_foundry_baseline_adoption_request''),
      (''version'', JStr ''opl-foundry-baseline-adoption-request.v1''),
      (''owner_authorization_ref'', JStr (trimmed (fld ''owner_authorization_ref'' v))),
      (''evidence_refs'', jStrs (trimmedList (fld ''evidence_refs'' v))),
      (''qualification_obligation_refs'', jStrs (trimmedList (fld ''qualification_obligation_refs'' v)))]))"

definition designRequestKeys :: "json \<Rightarrow> string list" where
  "designRequestKeys v = [''surface_kind'', ''version'', ''request_id'', ''mode'', ''target_agent_id'',
     ''target_domain_id'', ''target_version_ref'', ''objective'', ''acceptance_criteria'', ''non_goals'',
     ''source_refs'', ''constraints'', ''delivery_policy''] @
     (if hasOwn v ''baseline_adoption'' then [''baseline_adoption''] else [])"

definition constraintKeys :: "string list" where
  "constraintKeys = [''capability_refs'', ''permission_refs'', ''privacy_requirements'', ''cost_limits'',
     ''latency_limits'']"

definition constraintChecks :: "json \<Rightarrow> check list" where
  "constraintChecks c =
     (isRecord c, ''DesignRequest.constraints must be an object.'') #
     assertExactKeys c ''DesignRequest.constraints'' constraintKeys @
     requiredUniqueStringList (fld ''capability_refs'' c) ''DesignRequest.constraints.capability_refs'' 0 @
     requiredUniqueStringList (fld ''permission_refs'' c) ''DesignRequest.constraints.permission_refs'' 0 @
     requiredUniqueStringList (fld ''privacy_requirements'' c)
       ''DesignRequest.constraints.privacy_requirements'' 0 @
     assertNonNegativeNumericMap (fld ''cost_limits'' c) ''DesignRequest.constraints.cost_limits'' @
     assertNonNegativeNumericMap (fld ''latency_limits'' c) ''DesignRequest.constraints.latency_limits''"

definition deliveryPolicyChecks :: "json \<Rightarrow> check list" where
  "deliveryPolicyChecks d =
     (isRecord d, ''DesignRequest.delivery_policy must be an object.'') #
     assertExactKeys d ''DesignRequest.delivery_policy'' [''activation_mode'', ''max_generations''] @
     [(oneOf [''qualify_only'', ''activate''] (fld ''activation_mode'' d),
       ''DesignRequest.delivery_policy.activation_mode is invalid.''),
      (isInteger (numOf (fld ''max_generations'' d))
        \<and> \<not> jlt (numOf (fld ''max_generations'' d)) (jint 1)
        \<and> \<not> jlt (jint 5) (numOf (fld ''max_generations'' d)),
       ''DesignRequest.delivery_policy.max_generations must be an integer from 1 to 5.'')]"

definition designRequestChecks :: "json \<Rightarrow> check list" where
  "designRequestChecks v =
     assertBase v ''opl_foundry_design_request'' ''DesignRequest'' @
     assertExactKeys v ''DesignRequest'' (designRequestKeys v) @
     [(oneOf [''create'', ''takeover'', ''improve''] (fld ''mode'' v), ''DesignRequest.mode is invalid.''),
      (fld ''mode'' v = JStr ''create'' \<longrightarrow> fld ''target_version_ref'' v = JNull,
       ''Create DesignRequest must not bind a target version.''),
      (fld ''mode'' v \<noteq> JStr ''create'' \<longrightarrow> fld ''target_version_ref'' v \<noteq> JNull,
       ''Takeover and improve DesignRequest must bind an exact target version digest.'')] @
     requiredString (fld ''request_id'' v) ''DesignRequest.request_id'' @
     requiredString (fld ''objective'' v) ''DesignRequest.objective'' @
     requiredUniqueStringList (fld ''acceptance_criteria'' v) ''DesignRequest.acceptance_criteria'' 0 @
     requiredUniqueStringList (fld ''non_goals'' v) ''DesignRequest.non_goals'' 0 @
     requiredUniqueStringList (fld ''source_refs'' v) ''DesignRequest.source_refs'' 0 @
     constraintChecks (fld ''constraints'' v) @
     deliveryPolicyChecks (fld ''delivery_policy'' v) @
     (if hasOwn v ''baseline_adoption'' then
       [(fld ''mode'' v = JStr ''improve'', ''Baseline adoption requires DesignRequest.mode=improve.''),
        (fld ''target_version_ref'' v \<noteq> JNull,
         ''Baseline adoption requires an exact target AgentVersion digest.'')] @
       requiredUniqueContentRefList (fld ''source_refs'' v) ''DesignRequest.source_refs'' 1 @
       requiredUniqueStringList (fld ''permission_refs'' (fld ''constraints'' v))
         ''DesignRequest.constraints.permission_refs'' 1
      else [])"

definition validateDesignRequest :: "json \<Rightarrow> json res" where
  "validateDesignRequest v = bindE (runChecks (designRequestChecks v)) (\<lambda>u.
     if hasOwn v ''baseline_adoption''
     then mapE (\<lambda>b. setFld ''baseline_adoption'' b v)
       (validateBaselineAdoptionRequest (fld ''baseline_adoption'' v))
     else Inr v)"

section \<open>EvalSpec and evaluation results\<close>

definition publicCaseChecks :: "string \<Rightarrow> nat \<Rightarrow> json \<Rightarrow> check list" where
  "publicCaseChecks label i e = (let f = idx (label @ ''.public_cases'') i in
     (isRecord e, f @ '' must be an object.'') #
     assertExactKeys e f [''case_id'', ''test_ref'', ''weight'', ''required''] @
     requiredString (fld ''case_id'' e) (f @ ''.case_id'') @
     requiredString (fld ''test_ref'' e) (f @ ''.test_ref'') @
     [(isFinite (numOf (fld ''weight'' e)) \<and> \<not> jlt (numOf (fld ''weight'' e)) (jint 0)
        \<and> isBool (fld ''required'' e), f @ '' has invalid weight or required fields.'')])"

definition protectedRequirementChecks :: "string \<Rightarrow> nat \<Rightarrow> json \<Rightarrow> check list" where
  "protectedRequirementChecks label i e = (let f = idx (label @ ''.protected_requirements'') i in
     (isRecord e, f @ '' must be an object.'') #
     assertExactKeys e f [''category'', ''minimum_case_count''] @
     requiredString (fld ''category'' e) (f @ ''.category'') @
     [(isSafeInteger (numOf (fld ''minimum_case_count'' e))
        \<and> \<not> jlt (numOf (fld ''minimum_case_count'' e)) (jint 1),
       f @ ''.minimum_case_count must be a positive integer.'')])"

definition gateChecks :: "string \<Rightarrow> nat \<Rightarrow> json \<Rightarrow> check list" where
  "gateChecks label i e = (let f = idx (label @ ''.gates'') i in
     (isRecord e, f @ '' must be an object.'') #
     assertExactKeys e f [''gate_id'', ''metric'', ''operator'', ''threshold'', ''required''] @
     requiredString (fld ''gate_id'' e) (f @ ''.gate_id'') @
     requiredString (fld ''metric'' e) (f @ ''.metric'') @
     [(oneOf [''gte'', ''lte'', ''eq''] (fld ''operator'' e), f @ ''.operator is invalid.''),
      (isFinite (numOf (fld ''threshold'' e)) \<and> isBool (fld ''required'' e),
       f @ '' has invalid threshold or required fields.'')])"

text \<open>The trimmed values of one field over an array, as \<open>map\<close> collects them.\<close>

definition idsOf :: "string \<Rightarrow> json \<Rightarrow> string list" where
  "idsOf k v = map (\<lambda>e. trimmed (fld k e)) (arrOf v)"

definition totalWeight :: "json \<Rightarrow> jsnum" where
  "totalWeight cases = foldl (\<lambda>s e. jadd s (numOf (fld ''weight'' e))) (jint 0) (arrOf cases)"

definition validateEvalSpec :: "json \<Rightarrow> string \<Rightarrow> check list" where
  "validateEvalSpec v label = (let bc = fld ''baseline_comparison'' v in
     (isRecord v, label @ '' must be an object.'') #
     assertExactKeys v label [''eval_spec_id'', ''public_cases'', ''protected_requirements'', ''gates'',
       ''baseline_comparison'', ''independent_evaluator_required''] @
     requiredString (fld ''eval_spec_id'' v) (label @ ''.eval_spec_id'') @
     [(isArr (fld ''public_cases'' v) \<and> isArr (fld ''protected_requirements'' v) \<and> isArr (fld ''gates'' v),
       label @ '' must declare public_cases, protected_requirements, and gates arrays.'')] @
     checksEach (publicCaseChecks label) (arrOf (fld ''public_cases'' v)) @
     [(distinct (idsOf ''case_id'' (fld ''public_cases'' v)), label @ ''.public_cases case ids must be unique.''),
      (\<not> jle (totalWeight (fld ''public_cases'' v)) (jint 0),
       label @ ''.public_cases must have positive total weight.'')] @
     checksEach (protectedRequirementChecks label) (arrOf (fld ''protected_requirements'' v)) @
     [(distinct (idsOf ''category'' (fld ''protected_requirements'' v)),
       label @ ''.protected_requirements categories must be unique.'')] @
     checksEach (gateChecks label) (arrOf (fld ''gates'' v)) @
     [(idsOf ''gate_id'' (fld ''gates'' v) \<noteq> [] \<and> distinct (idsOf ''gate_id'' (fld ''gates'' v)),
       label @ ''.gates must contain unique gate ids.''),
      (isRecord bc \<and> isBool (fld ''required'' bc) \<and> isFinite (numOf (fld ''regression_tolerance'' bc))
        \<and> \<not> jlt (numOf (fld ''regression_tolerance'' bc)) (jint 0),
       label @ ''.baseline_comparison is invalid.'')] @
     assertExactKeys bc (label @ ''.baseline_comparison'') [''required'', ''regression_tolerance''] @
     [(fld ''independent_evaluator_required'' v = JBool True,
       label @ ''.independent_evaluator_required must be true.'')])"

text \<open>A score: a finite number from 0 to 1.\<close>

definition unitScore :: "json \<Rightarrow> bool" where
  "unitScore v \<longleftrightarrow> isFinite (numOf v) \<and> \<not> jlt (numOf v) (jint 0) \<and> \<not> jlt (jint 1) (numOf v)"

definition publicResultChecks :: "string \<Rightarrow> nat \<Rightarrow> json \<Rightarrow> check list" where
  "publicResultChecks label i e = (let f = idx label i in
     (isRecord e, f @ '' must be an object.'') #
     assertExactKeys e f [''case_id'', ''status'', ''score'', ''evidence_refs''] @
     requiredString (fld ''case_id'' e) (f @ ''.case_id'') @
     [(oneOf [''pass'', ''fail'', ''blocked''] (fld ''status'' e), f @ ''.status is invalid.''),
      (unitScore (fld ''score'' e), f @ ''.score must be a finite number from 0 to 1.'')] @
     requiredUniqueStringList (fld ''evidence_refs'' e) (f @ ''.evidence_refs'') 1)"

definition validatePublicResults :: "json \<Rightarrow> string \<Rightarrow> check list" where
  "validatePublicResults v label =
     (isArr v, label @ '' must be an array.'') # checksEach (publicResultChecks label) (arrOf v)"

definition protectedAggregateChecks :: "string \<Rightarrow> nat \<Rightarrow> json \<Rightarrow> check list" where
  "protectedAggregateChecks label i e = (let f = idx label i in
     (isRecord e, f @ '' must be an object.'') #
     assertExactKeys e f [''category'', ''total'', ''passed'', ''failed'', ''score''] @
     requiredString (fld ''category'' e) (f @ ''.category'') @
     map (\<lambda>k. (isSafeInteger (numOf (fld k e)) \<and> \<not> jlt (numOf (fld k e)) (jint 0),
         f @ ''.'' @ k @ '' must be a non-negative integer.'')) [''total'', ''passed'', ''failed''] @
     [(jeq (jadd (numOf (fld ''passed'' e)) (numOf (fld ''failed'' e))) (numOf (fld ''total'' e)),
       f @ '' counts must sum to total.''),
      (unitScore (fld ''score'' e), f @ ''.score must be a finite number from 0 to 1.'')])"

definition validateProtectedAggregates :: "json \<Rightarrow> string \<Rightarrow> check list" where
  "validateProtectedAggregates v label =
     (isArr v, label @ '' must be an array.'') #
     checksEach (protectedAggregateChecks label) (arrOf v) @
     [(distinct (map (\<lambda>e. strOf (fld ''category'' e)) (arrOf v)), label @ '' categories must be unique.'')]"

section \<open>AgentBlueprint\<close>

definition blueprintKeys :: "string list" where
  "blueprintKeys = [''surface_kind'', ''version'', ''blueprint_id'', ''target_agent_id'', ''target_domain_id'',
     ''target_version_ref'', ''design_request_digest'', ''generation'', ''stage_graph'', ''actions'',
     ''artifact_contracts'', ''content_refs'', ''capability_requirements'', ''authority_policy'',
     ''memory_policy'', ''assumptions'', ''design_evidence_refs'', ''eval_spec'', ''risk_hint'']"

definition stageKeys :: "string list" where
  "stageKeys = [''stage_id'', ''stage_kind'', ''goal'', ''input_artifact_types'', ''output_artifact_types'',
     ''prompt_ref'', ''skill_refs'', ''knowledge_refs'', ''capability_refs'', ''next_stage_ids'']"

definition stageLabel :: "nat \<Rightarrow> string" where
  "stageLabel i = idx ''AgentBlueprint.stage_graph.stages'' i"

definition stageChecks :: "nat \<Rightarrow> json \<Rightarrow> check list" where
  "stageChecks i st = (let f = stageLabel i in
     (isRecord st, f @ '' must be an object.'') #
     assertExactKeys st f stageKeys @
     requiredString (fld ''stage_id'' st) (f @ ''.stage_id'') @
     requiredString (fld ''stage_kind'' st) (f @ ''.stage_kind'') @
     requiredString (fld ''goal'' st) (f @ ''.goal'') @
     requiredUniqueStringList (fld ''input_artifact_types'' st) (f @ ''.input_artifact_types'') 0 @
     requiredUniqueStringList (fld ''output_artifact_types'' st) (f @ ''.output_artifact_types'') 0 @
     requiredString (fld ''prompt_ref'' st) (f @ ''.prompt_ref'') @
     requiredUniqueStringList (fld ''skill_refs'' st) (f @ ''.skill_refs'') 0 @
     requiredUniqueStringList (fld ''knowledge_refs'' st) (f @ ''.knowledge_refs'') 0 @
     requiredUniqueStringList (fld ''capability_refs'' st) (f @ ''.capability_refs'') 0 @
     requiredUniqueStringList (fld ''next_stage_ids'' st) (f @ ''.next_stage_ids'') 0)"

definition stagesOf :: "json \<Rightarrow> json list" where
  "stagesOf v = arrOf (fld ''stages'' (fld ''stage_graph'' v))"

definition stageIds :: "json \<Rightarrow> string list" where
  "stageIds v = idsOf ''stage_id'' (fld ''stages'' (fld ''stage_graph'' v))"

definition stageGraphChecks :: "json \<Rightarrow> check list" where
  "stageGraphChecks v = (let g = fld ''stage_graph'' v in
     (isRecord g \<and> isArr (fld ''stages'' g), ''AgentBlueprint.stage_graph is invalid.'') #
     requiredString (fld ''entry_stage_id'' g) ''AgentBlueprint.stage_graph.entry_stage_id'' @
     assertExactKeys g ''AgentBlueprint.stage_graph'' [''entry_stage_id'', ''stages''] @
     checksEach stageChecks (stagesOf v) @
     [(stageIds v \<noteq> [] \<and> trimmed (fld ''entry_stage_id'' g) \<in> set (stageIds v) \<and> distinct (stageIds v),
       ''AgentBlueprint.stage_graph must contain one unique entry stage.'')] @
     checksEach (\<lambda>i st. map (\<lambda>n. (n \<in> set (stageIds v), stageLabel i @ '' references an unknown next Stage.''))
       (strsOf (fld ''next_stage_ids'' st))) (stagesOf v))"

definition actionChecks :: "json \<Rightarrow> nat \<Rightarrow> json \<Rightarrow> check list" where
  "actionChecks v i a = (let f = idx ''AgentBlueprint.actions'' i in
     (isRecord a, f @ '' must be an object.'') #
     assertExactKeys a f [''action_id'', ''summary'', ''entry_stage_id'', ''input_schema_ref'', ''output_schema_ref''] @
     requiredString (fld ''action_id'' a) (f @ ''.action_id'') @
     requiredString (fld ''summary'' a) (f @ ''.summary'') @
     requiredString (fld ''entry_stage_id'' a) (f @ ''.entry_stage_id'') @
     [(trimmed (fld ''entry_stage_id'' a) \<in> set (stageIds v), f @ ''.entry_stage_id references an unknown Stage.'')] @
     requiredString (fld ''input_schema_ref'' a) (f @ ''.input_schema_ref'') @
     requiredString (fld ''output_schema_ref'' a) (f @ ''.output_schema_ref''))"

definition artifactChecks :: "nat \<Rightarrow> json \<Rightarrow> check list" where
  "artifactChecks i a = (let f = idx ''AgentBlueprint.artifact_contracts'' i in
     (isRecord a, f @ '' must be an object.'') #
     assertExactKeys a f [''artifact_type'', ''schema_ref'', ''authority_owner_ref''] @
     requiredString (fld ''artifact_type'' a) (f @ ''.artifact_type'') @
     requiredString (fld ''schema_ref'' a) (f @ ''.schema_ref'') @
     requiredString (fld ''authority_owner_ref'' a) (f @ ''.authority_owner_ref''))"

definition surfaceChecks :: "json \<Rightarrow> check list" where
  "surfaceChecks v =
     [(isArr (fld ''actions'' v) \<and> arrOf (fld ''actions'' v) \<noteq> [], ''AgentBlueprint.actions must not be empty.'')] @
     checksEach (actionChecks v) (arrOf (fld ''actions'' v)) @
     [(distinct (idsOf ''action_id'' (fld ''actions'' v)), ''AgentBlueprint action ids must be unique.''),
      (isArr (fld ''artifact_contracts'' v), ''AgentBlueprint.artifact_contracts must be an array.'')] @
     checksEach artifactChecks (arrOf (fld ''artifact_contracts'' v)) @
     [(distinct (idsOf ''artifact_type'' (fld ''artifact_contracts'' v)),
       ''AgentBlueprint artifact types must be unique.'')]"

definition contentRefKeys :: "string list" where
  "contentRefKeys = [''prompt_refs'', ''skill_refs'', ''knowledge_refs'', ''helper_refs'', ''model_refs'',
     ''tool_refs'', ''schema_refs'']"

text \<open>The trimmed reference lists the document declares.\<close>

definition contentRefs :: "string \<Rightarrow> json \<Rightarrow> string list" where
  "contentRefs k v = trimmedList (fld k (fld ''content_refs'' v))"

definition contentRefChecks :: "json \<Rightarrow> check list" where
  "contentRefChecks v = (let c = fld ''content_refs'' v in
     (isRecord c \<and> isRecord (fld ''authority_policy'' v) \<and> isRecord (fld ''memory_policy'' v),
       ''AgentBlueprint content, authority, and memory policies are required.'') #
     assertExactKeys c ''AgentBlueprint.content_refs'' contentRefKeys @
     concat (map (\<lambda>k. requiredUniqueStringList (fld k c) (''AgentBlueprint.content_refs.'' @ k) 0) contentRefKeys) @
     checksEach (\<lambda>i ref. [(isContentRef ref,
         idx ''AgentBlueprint.content_refs.schema_refs'' i @ '' must be an exact opl-content ref.'')])
       (contentRefs ''schema_refs'' v) @
     checksEach (\<lambda>i a. map (\<lambda>k. (jsToString (fld k a) \<in> set (contentRefs ''schema_refs'' v),
         idx ''AgentBlueprint.actions'' i @ ''.'' @ k @ '' is not declared in content_refs.schema_refs.''))
         [''input_schema_ref'', ''output_schema_ref'']) (arrOf (fld ''actions'' v)) @
     checksEach (\<lambda>i a. [(jsToString (fld ''schema_ref'' a) \<in> set (contentRefs ''schema_refs'' v),
         idx ''AgentBlueprint.artifact_contracts'' i
           @ ''.schema_ref is not declared in content_refs.schema_refs.'')])
       (arrOf (fld ''artifact_contracts'' v)))"

definition stageRefChecks :: "json \<Rightarrow> check list" where
  "stageRefChecks v =
     requiredUniqueStringList (fld ''capability_requirements'' v) ''AgentBlueprint.capability_requirements'' 0 @
     checksEach (\<lambda>i st.
       (jsToString (fld ''prompt_ref'' st) \<in> set (contentRefs ''prompt_refs'' v),
         stageLabel i @ ''.prompt_ref is not declared in content_refs.prompt_refs.'') #
       concat (map (\<lambda>(k, declared).
           map (\<lambda>ref. (ref \<in> set declared, stageLabel i @ ''.'' @ k @ '' contains an undeclared ref.''))
             (strsOf (fld k st)))
         [(''skill_refs'', contentRefs ''skill_refs'' v),
          (''knowledge_refs'', contentRefs ''knowledge_refs'' v),
          (''capability_refs'', trimmedList (fld ''capability_requirements'' v))])) (stagesOf v)"

definition modifyFlags :: "string list" where
  "modifyFlags = [''generated_agent_can_modify_versions'', ''generated_agent_can_modify_evaluation'',
     ''generated_agent_can_modify_permissions'', ''generated_agent_can_modify_activation'']"

definition policyChecks :: "json \<Rightarrow> check list" where
  "policyChecks v = (let a = fld ''authority_policy'' v; m = fld ''memory_policy'' v in
     assertExactKeys a ''AgentBlueprint.authority_policy''
       ([''truth_owner_ref'', ''artifact_owner_ref'', ''quality_owner_ref'', ''permission_refs''] @ modifyFlags) @
     requiredString (fld ''truth_owner_ref'' a) ''AgentBlueprint.authority_policy.truth_owner_ref'' @
     requiredString (fld ''artifact_owner_ref'' a) ''AgentBlueprint.authority_policy.artifact_owner_ref'' @
     requiredString (fld ''quality_owner_ref'' a) ''AgentBlueprint.authority_policy.quality_owner_ref'' @
     requiredUniqueStringList (fld ''permission_refs'' a) ''AgentBlueprint.authority_policy.permission_refs'' 0 @
     map (\<lambda>k. (fld k a = JBool False, ''AgentBlueprint.authority_policy.'' @ k @ '' must be false.'')) modifyFlags @
     assertExactKeys m ''AgentBlueprint.memory_policy'' [''memory_classes'', ''retention_refs'', ''write_authority_refs''] @
     requiredUniqueStringList (fld ''memory_classes'' m) ''AgentBlueprint.memory_policy.memory_classes'' 0 @
     requiredUniqueStringList (fld ''retention_refs'' m) ''AgentBlueprint.memory_policy.retention_refs'' 0 @
     requiredUniqueStringList (fld ''write_authority_refs'' m)
       ''AgentBlueprint.memory_policy.write_authority_refs'' 0)"

definition agentBlueprintChecks :: "json \<Rightarrow> check list" where
  "agentBlueprintChecks v =
     assertBase v ''opl_foundry_agent_blueprint'' ''AgentBlueprint'' @
     assertExactKeys v ''AgentBlueprint'' blueprintKeys @
     requiredString (fld ''blueprint_id'' v) ''AgentBlueprint.blueprint_id'' @
     assertDigest (fld ''design_request_digest'' v) ''AgentBlueprint.design_request_digest'' @
     [(isInteger (numOf (fld ''generation'' v)) \<and> \<not> jlt (numOf (fld ''generation'' v)) (jint 0),
       ''AgentBlueprint.generation is invalid.'')] @
     stageGraphChecks v @ surfaceChecks v @ contentRefChecks v @ stageRefChecks v @ policyChecks v @
     requiredUniqueStringList (fld ''assumptions'' v) ''AgentBlueprint.assumptions'' 0 @
     requiredUniqueStringList (fld ''design_evidence_refs'' v) ''AgentBlueprint.design_evidence_refs'' 0 @
     validateEvalSpec (fld ''eval_spec'' v) ''AgentBlueprint.eval_spec'' @
     [(oneOf [''low'', ''medium'', ''high''] (fld ''risk_hint'' v), ''AgentBlueprint.risk_hint is invalid.'')]"

definition validateAgentBlueprint :: "json \<Rightarrow> json res" where
  "validateAgentBlueprint v = bindE (runChecks (agentBlueprintChecks v)) (\<lambda>u. Inr v)"

section \<open>EvidenceBundle\<close>

definition evidenceKeys :: "string list" where
  "evidenceKeys = [''surface_kind'', ''version'', ''evidence_id'', ''target_agent_id'', ''target_domain_id'',
     ''target_version_ref'', ''blueprint_digest'', ''candidate_digest'', ''baseline_version_digest'',
     ''frozen_test_plan_digest'', ''public_results'', ''baseline_public_results'',
     ''baseline_protected_aggregates'', ''protected_aggregates'', ''independent_review'',
     ''candidate_cost_observations'', ''candidate_latency_observations'', ''safety_observations'',
     ''safety_delta'', ''cost_delta'', ''latency_delta'', ''failure_classification'', ''qualified'',
     ''gate_score'', ''provenance'']"

definition evidenceResultChecks :: "json \<Rightarrow> check list" where
  "evidenceResultChecks v =
     requiredString (fld ''evidence_id'' v) ''EvidenceBundle.evidence_id'' @
     assertDigest (fld ''blueprint_digest'' v) ''EvidenceBundle.blueprint_digest'' @
     assertDigest (fld ''candidate_digest'' v) ''EvidenceBundle.candidate_digest'' @
     (if fld ''baseline_version_digest'' v \<noteq> JNull
      then assertDigest (fld ''baseline_version_digest'' v) ''EvidenceBundle.baseline_version_digest'' else []) @
     assertDigest (fld ''frozen_test_plan_digest'' v) ''EvidenceBundle.frozen_test_plan_digest'' @
     validatePublicResults (fld ''public_results'' v) ''EvidenceBundle.public_results'' @
     [(arrOf (fld ''public_results'' v) \<noteq> [], ''EvidenceBundle.public_results must not be empty.'')] @
     (if fld ''baseline_public_results'' v \<noteq> JNull
      then validatePublicResults (fld ''baseline_public_results'' v) ''EvidenceBundle.baseline_public_results'' @
        [(arrOf (fld ''baseline_public_results'' v) \<noteq> [],
          ''EvidenceBundle.baseline_public_results must not be empty when present.'')] else []) @
     validateProtectedAggregates (fld ''protected_aggregates'' v) ''EvidenceBundle.protected_aggregates'' @
     (if fld ''baseline_protected_aggregates'' v \<noteq> JNull
      then validateProtectedAggregates (fld ''baseline_protected_aggregates'' v)
        ''EvidenceBundle.baseline_protected_aggregates'' else []) @
     [((fld ''baseline_version_digest'' v \<noteq> JNull) = (fld ''baseline_public_results'' v \<noteq> JNull)
        \<and> (fld ''baseline_version_digest'' v \<noteq> JNull) = (fld ''baseline_protected_aggregates'' v \<noteq> JNull),
       ''EvidenceBundle baseline version, public results, and protected aggregates must be present or null together.'')]"

definition independentReviewChecks :: "json \<Rightarrow> check list" where
  "independentReviewChecks r =
     (isRecord r, ''EvidenceBundle.independent_review is required.'') #
     assertExactKeys r ''EvidenceBundle.independent_review'' [''evaluator_ref'', ''evaluation_execution_ref'',
       ''review_execution_ref'', ''verdict'', ''findings'', ''evidence_refs''] @
     requiredString (fld ''evaluator_ref'' r) ''EvidenceBundle.independent_review.evaluator_ref'' @
     requiredString (fld ''evaluation_execution_ref'' r)
       ''EvidenceBundle.independent_review.evaluation_execution_ref'' @
     requiredString (fld ''review_execution_ref'' r) ''EvidenceBundle.independent_review.review_execution_ref'' @
     [(\<not> jsSame (fld ''evaluation_execution_ref'' r) (fld ''review_execution_ref'' r),
       ''EvidenceBundle evaluation and independent review must use different executions.''),
      (oneOf [''pass'', ''fail'', ''blocked''] (fld ''verdict'' r),
       ''EvidenceBundle.independent_review.verdict is invalid.'')] @
     requiredUniqueStringList (fld ''findings'' r) ''EvidenceBundle.independent_review.findings'' 0 @
     requiredUniqueStringList (fld ''evidence_refs'' r) ''EvidenceBundle.independent_review.evidence_refs'' 1"

definition safetyObservationChecks :: "nat \<Rightarrow> json \<Rightarrow> check list" where
  "safetyObservationChecks i e = (let f = idx ''EvidenceBundle.safety_observations'' i in
     (isRecord e, f @ '' must be an object.'') #
     assertExactKeys e f [''observation_id'', ''event_type'', ''severity'', ''evidence_refs''] @
     requiredString (fld ''observation_id'' e) (f @ ''.observation_id'') @
     requiredString (fld ''event_type'' e) (f @ ''.event_type'') @
     [(oneOf [''low'', ''medium'', ''high'', ''critical''] (fld ''severity'' e), f @ ''.severity is invalid.'')] @
     requiredUniqueStringList (fld ''evidence_refs'' e) (f @ ''.evidence_refs'') 1)"

definition failureChecks :: "nat \<Rightarrow> json \<Rightarrow> check list" where
  "failureChecks i e = (let f = idx ''EvidenceBundle.failure_classification'' i in
     (isRecord e, f @ '' must be an object.'') #
     assertExactKeys e f [''failure_class'', ''gate_id'', ''severity'', ''evidence_refs''] @
     requiredString (fld ''failure_class'' e) (f @ ''.failure_class'') @
     requiredString (fld ''gate_id'' e) (f @ ''.gate_id'') @
     [(oneOf [''low'', ''medium'', ''high'', ''critical''] (fld ''severity'' e), f @ ''.severity is invalid.'')] @
     requiredUniqueStringList (fld ''evidence_refs'' e) (f @ ''.evidence_refs'') 0)"

definition observationChecks :: "json \<Rightarrow> check list" where
  "observationChecks v =
     assertNonNegativeNumericMap (fld ''candidate_cost_observations'' v)
       ''EvidenceBundle.candidate_cost_observations'' @
     assertNonNegativeNumericMap (fld ''candidate_latency_observations'' v)
       ''EvidenceBundle.candidate_latency_observations'' @
     [(isArr (fld ''safety_observations'' v), ''EvidenceBundle.safety_observations must be an array.'')] @
     checksEach safetyObservationChecks (arrOf (fld ''safety_observations'' v)) @
     [(distinct (idsOf ''observation_id'' (fld ''safety_observations'' v)),
       ''EvidenceBundle.safety_observations observation ids must be unique.'')] @
     assertNumericMap (fld ''safety_delta'' v) ''EvidenceBundle.safety_delta'' @
     assertNumericMap (fld ''cost_delta'' v) ''EvidenceBundle.cost_delta'' @
     assertNumericMap (fld ''latency_delta'' v) ''EvidenceBundle.latency_delta'' @
     [(isArr (fld ''failure_classification'' v), ''EvidenceBundle.failure_classification must be an array.'')] @
     checksEach failureChecks (arrOf (fld ''failure_classification'' v)) @
     [(isBool (fld ''qualified'' v) \<and> unitScore (fld ''gate_score'' v),
       ''EvidenceBundle qualification fields are invalid.'')]"

definition provenanceChecks :: "(string \<Rightarrow> bool) \<Rightarrow> json \<Rightarrow> check list" where
  "provenanceChecks dp p =
     [(isRecord p \<and> isSafeInteger (numOf (fld ''generation'' p)) \<and> \<not> jlt (numOf (fld ''generation'' p)) (jint 0),
       ''EvidenceBundle.provenance is required.'')] @
     assertExactKeys p ''EvidenceBundle.provenance''
       [''foundry_run_id'', ''generation'', ''producer_id'', ''evaluated_at'', ''source_refs''] @
     requiredString (fld ''foundry_run_id'' p) ''EvidenceBundle.provenance.foundry_run_id'' @
     requiredString (fld ''producer_id'' p) ''EvidenceBundle.provenance.producer_id'' @
     assertDateTime dp (fld ''evaluated_at'' p) ''EvidenceBundle.provenance.evaluated_at'' @
     requiredUniqueStringList (fld ''source_refs'' p) ''EvidenceBundle.provenance.source_refs'' 0"

definition evidenceBundleChecks :: "(string \<Rightarrow> bool) \<Rightarrow> json \<Rightarrow> check list" where
  "evidenceBundleChecks dp v =
     assertBase v ''opl_foundry_evidence_bundle'' ''EvidenceBundle'' @
     assertExactKeys v ''EvidenceBundle'' evidenceKeys @
     evidenceResultChecks v @ independentReviewChecks (fld ''independent_review'' v) @
     observationChecks v @ provenanceChecks dp (fld ''provenance'' v)"

definition validateEvidenceBundle :: "(string \<Rightarrow> bool) \<Rightarrow> json \<Rightarrow> json res" where
  "validateEvidenceBundle dp v = bindE (runChecks (evidenceBundleChecks dp v)) (\<lambda>u. Inr v)"

section \<open>EvolutionProposal\<close>

definition proposalKeys :: "string list" where
  "proposalKeys = [''surface_kind'', ''version'', ''proposal_id'', ''target_agent_id'', ''target_domain_id'',
     ''target_version_ref'', ''blueprint_digest'', ''evidence_digest'', ''root_causes'', ''next_blueprint'',
     ''semantic_diff'', ''expected_benefits'', ''new_tests'', ''trade_offs'', ''risk_hints'']"

definition rootCauseChecks :: "nat \<Rightarrow> json \<Rightarrow> check list" where
  "rootCauseChecks i e = (let f = idx ''EvolutionProposal.root_causes'' i in
     (isRecord e, f @ '' must be an object.'') #
     assertExactKeys e f [''failure_class'', ''explanation'', ''evidence_refs''] @
     requiredString (fld ''failure_class'' e) (f @ ''.failure_class'') @
     requiredString (fld ''explanation'' e) (f @ ''.explanation'') @
     requiredUniqueStringList (fld ''evidence_refs'' e) (f @ ''.evidence_refs'') 0)"

definition semanticDiffChecks :: "nat \<Rightarrow> json \<Rightarrow> check list" where
  "semanticDiffChecks i e = (let f = idx ''EvolutionProposal.semantic_diff'' i in
     (isRecord e \<and> oneOf [''add'', ''replace'', ''remove''] (fld ''operation'' e), f @ '' is invalid.'') #
     assertExactKeys e f [''operation'', ''semantic_path'', ''rationale''] @
     requiredString (fld ''semantic_path'' e) (f @ ''.semantic_path'') @
     [(startsWith (trimmed (fld ''semantic_path'' e)) ''/'',
       ''EvolutionProposal semantic paths must be JSON pointers.'')] @
     requiredString (fld ''rationale'' e) (f @ ''.rationale''))"

definition newTestChecks :: "nat \<Rightarrow> json \<Rightarrow> check list" where
  "newTestChecks i e = (let f = idx ''EvolutionProposal.new_tests'' i in
     (isRecord e, f @ '' must be an object.'') #
     assertExactKeys e f [''case_id'', ''test_ref'', ''rationale''] @
     requiredString (fld ''case_id'' e) (f @ ''.case_id'') @
     requiredString (fld ''test_ref'' e) (f @ ''.test_ref'') @
     requiredString (fld ''rationale'' e) (f @ ''.rationale''))"

definition proposalHeadChecks :: "json \<Rightarrow> check list" where
  "proposalHeadChecks v =
     assertBase v ''opl_foundry_evolution_proposal'' ''EvolutionProposal'' @
     assertExactKeys v ''EvolutionProposal'' proposalKeys @
     requiredString (fld ''proposal_id'' v) ''EvolutionProposal.proposal_id'' @
     assertDigest (fld ''blueprint_digest'' v) ''EvolutionProposal.blueprint_digest'' @
     assertDigest (fld ''evidence_digest'' v) ''EvolutionProposal.evidence_digest'' @
     [(isArr (fld ''root_causes'' v) \<and> arrOf (fld ''root_causes'' v) \<noteq> [],
       ''EvolutionProposal.root_causes must not be empty.'')] @
     checksEach rootCauseChecks (arrOf (fld ''root_causes'' v))"

definition proposalTailChecks :: "json \<Rightarrow> check list" where
  "proposalTailChecks v =
     (isArr (fld ''semantic_diff'' v), ''EvolutionProposal.semantic_diff must be an array.'') #
     checksEach semanticDiffChecks (arrOf (fld ''semantic_diff'' v)) @
     requiredUniqueStringList (fld ''expected_benefits'' v) ''EvolutionProposal.expected_benefits'' 0 @
     [(isArr (fld ''new_tests'' v), ''EvolutionProposal.new_tests must be an array.'')] @
     checksEach newTestChecks (arrOf (fld ''new_tests'' v)) @
     [(distinct (idsOf ''case_id'' (fld ''new_tests'' v)), ''EvolutionProposal.new_tests case ids must be unique.'')] @
     requiredUniqueStringList (fld ''trade_offs'' v) ''EvolutionProposal.trade_offs'' 0 @
     requiredUniqueStringList (fld ''risk_hints'' v) ''EvolutionProposal.risk_hints'' 0 @
     [(list_all (\<lambda>s. s \<in> {''low'', ''medium'', ''high''}) (trimmedList (fld ''risk_hints'' v)),
       ''EvolutionProposal.risk_hints contains an invalid risk tier.'')]"

definition validateEvolutionProposal :: "json \<Rightarrow> json res" where
  "validateEvolutionProposal v =
     bindE (runChecks (proposalHeadChecks v)) (\<lambda>u.
     bindE (validateAgentBlueprint (fld ''next_blueprint'' v)) (\<lambda>nxt.
     bindE (runChecks (proposalTailChecks v)) (\<lambda>u. Inr (setFld ''next_blueprint'' nxt v))))"

definition assertSameTarget :: "json \<Rightarrow> json \<Rightarrow> string \<Rightarrow> check list" where
  "assertSameTarget l r label =
     [(jsSame (fld ''target_agent_id'' l) (fld ''target_agent_id'' r)
        \<and> jsSame (fld ''target_domain_id'' l) (fld ''target_domain_id'' r)
        \<and> jsSame (fld ''target_version_ref'' l) (fld ''target_version_ref'' r),
       label @ '' target identity is stale or mismatched.'')]"

end
