(* ===== verification/State_Machine.thy ===== *)
theory State_Machine
  imports Protocol "HOL-Library.Sublist" "HOL-Library.Multiset"
begin

text \<open>
  \<open>src/src/authority/evolution/state-machine.ts\<close>: the states of a FoundryRun, the
  transition and event-type tables, the event constructor, the verifier of an event
  chain and the snapshot folded from it.  Events are JSON values, as read back from an
  event store.  The transition tables are also given as a step relation, which the
  verifier is shown to refine; safety of a run is proved by rule induction over it.
\<close>

section \<open>States and tables\<close>

datatype run_state =
    Accepted | Designing | Materializing | Evaluating | Evidence_Ready | Diagnosing | Qualified
  | Awaiting_Owner_Canary | Canary | Awaiting_Owner_Active | Activating | Completed_Active
  | Completed_Qualified | Completed_Unqualified | Rejected | Cancelled | Failed | Quarantined

definition allStates :: "run_state list" where
  "allStates = [Accepted, Designing, Materializing, Evaluating, Evidence_Ready, Diagnosing, Qualified,
     Awaiting_Owner_Canary, Canary, Awaiting_Owner_Active, Activating, Completed_Active,
     Completed_Qualified, Completed_Unqualified, Rejected, Cancelled, Failed, Quarantined]"

fun stateName :: "run_state \<Rightarrow> string" where
  "stateName Accepted = ''accepted''"
| "stateName Designing = ''designing''"
| "stateName Materializing = ''materializing''"
| "stateName Evaluating = ''evaluating''"
| "stateName Evidence_Ready = ''evidence_ready''"
| "stateName Diagnosing = ''diagnosing''"
| "stateName Qualified = ''qualified''"
| "stateName Awaiting_Owner_Canary = ''awaiting_owner_canary''"
| "stateName Canary = ''canary''"
| "stateName Awaiting_Owner_Active = ''awaiting_owner_active''"
| "stateName Activating = ''activating''"
| "stateName Completed_Active = ''completed_active''"
| "stateName Completed_Qualified = ''completed_qualified''"
| "stateName Completed_Unqualified = ''completed_unqualified''"
| "stateName Rejected = ''rejected''"
| "stateName Cancelled = ''cancelled''"
| "stateName Failed = ''failed''"
| "stateName Quarantined = ''quarantined''"

definition stateOf :: "string \<Rightarrow> run_state option" where
  "stateOf s = find (\<lambda>st. stateName st = s) allStates"

definition FOUNDRY_TERMINAL_STATES :: "run_state list" where
  "FOUNDRY_TERMINAL_STATES = [Completed_Active, Completed_Qualified, Completed_Unqualified, Rejected,
     Cancelled, Failed, Quarantined]"

definition isTerminal :: "run_state \<Rightarrow> bool" where
  "isTerminal s \<longleftrightarrow> s \<in> set FOUNDRY_TERMINAL_STATES"

fun ALLOWED_TRANSITIONS :: "run_state \<Rightarrow> run_state list" where
  "ALLOWED_TRANSITIONS Accepted = [Designing, Rejected, Cancelled, Failed, Quarantined]"
| "ALLOWED_TRANSITIONS Designing = [Materializing, Cancelled, Failed, Quarantined]"
| "ALLOWED_TRANSITIONS Materializing = [Evaluating, Cancelled, Failed, Quarantined]"
| "ALLOWED_TRANSITIONS Evaluating =
     [Qualified, Evidence_Ready, Completed_Unqualified, Cancelled, Failed, Quarantined]"
| "ALLOWED_TRANSITIONS Evidence_Ready = [Diagnosing, Completed_Unqualified, Cancelled, Failed, Quarantined]"
| "ALLOWED_TRANSITIONS Diagnosing = [Materializing, Completed_Unqualified, Cancelled, Failed, Quarantined]"
| "ALLOWED_TRANSITIONS Qualified =
     [Canary, Awaiting_Owner_Canary, Completed_Qualified, Cancelled, Failed, Quarantined]"
| "ALLOWED_TRANSITIONS Awaiting_Owner_Canary = [Canary, Rejected, Cancelled]"
| "ALLOWED_TRANSITIONS Canary =
     [Activating, Awaiting_Owner_Active, Evidence_Ready, Completed_Unqualified, Cancelled, Failed, Quarantined]"
| "ALLOWED_TRANSITIONS Awaiting_Owner_Active = [Activating, Rejected, Cancelled]"
| "ALLOWED_TRANSITIONS Activating = [Completed_Active, Failed, Quarantined]"
| "ALLOWED_TRANSITIONS Completed_Active = []"
| "ALLOWED_TRANSITIONS Completed_Qualified = []"
| "ALLOWED_TRANSITIONS Completed_Unqualified = []"
| "ALLOWED_TRANSITIONS Rejected = []"
| "ALLOWED_TRANSITIONS Cancelled = []"
| "ALLOWED_TRANSITIONS Failed = []"
| "ALLOWED_TRANSITIONS Quarantined = []"

text \<open>The event types a transition may carry, by its two states (each set has one element).\<close>

definition EVENT_TYPES_BY_TRANSITION :: "((run_state \<times> run_state) \<times> string) list" where
  "EVENT_TYPES_BY_TRANSITION =
    [((Accepted, Designing), ''design_started''),
     ((Designing, Materializing), ''blueprint_admitted''),
     ((Materializing, Evaluating), ''candidate_materialized''),
     ((Evaluating, Qualified), ''candidate_qualified''),
     ((Evaluating, Evidence_Ready), ''evaluation_failed''),
     ((Evaluating, Completed_Unqualified), ''evolution_budget_exhausted''),
     ((Evidence_Ready, Diagnosing), ''diagnosis_started''),
     ((Evidence_Ready, Completed_Unqualified), ''evolution_budget_exhausted''),
     ((Diagnosing, Materializing), ''evolution_proposal_admitted''),
     ((Diagnosing, Completed_Unqualified), ''evolution_no_change''),
     ((Qualified, Canary), ''canary_started''),
     ((Qualified, Awaiting_Owner_Canary), ''owner_canary_required''),
     ((Qualified, Completed_Qualified), ''qualification_completed''),
     ((Awaiting_Owner_Canary, Canary), ''owner_approved''),
     ((Canary, Activating), ''canary_passed''),
     ((Canary, Awaiting_Owner_Active), ''canary_passed''),
     ((Canary, Evidence_Ready), ''canary_regression_rolled_back''),
     ((Canary, Completed_Unqualified), ''evolution_budget_exhausted''),
     ((Awaiting_Owner_Active, Activating), ''owner_approved''),
     ((Activating, Completed_Active), ''activation_completed'')]"

definition genericTerminalType :: "run_state \<Rightarrow> string option" where
  "genericTerminalType s = (case s of
       Cancelled \<Rightarrow> Some ''foundry_run_cancelled''
     | Failed \<Rightarrow> Some ''foundry_run_failed''
     | Quarantined \<Rightarrow> Some ''foundry_output_quarantined''
     | Rejected \<Rightarrow> Some ''owner_rejected''
     | _ \<Rightarrow> None)"

definition EVENT_FIELDS :: "string list" where
  "EVENT_FIELDS = [''surface_kind'', ''version'', ''event_id'', ''run_id'', ''revision'', ''event_type'',
     ''from_state'', ''to_state'', ''occurred_at'', ''idempotency_key'', ''previous_event_hash'',
     ''payload'', ''event_hash'']"

text \<open>The tables as a step relation: a run steps from a state to a state under an event type.\<close>

definition assertFoundryTransition :: "run_state \<Rightarrow> run_state \<Rightarrow> check list" where
  "assertFoundryTransition a b = [(b \<in> set (ALLOWED_TRANSITIONS a),
     ''FoundryRun transition '' @ stateName a @ '' -> '' @ stateName b @ '' is not allowed.'')]"

definition eventTypeAllowed :: "run_state \<Rightarrow> run_state \<Rightarrow> string \<Rightarrow> bool" where
  "eventTypeAllowed a b ty \<longleftrightarrow> genericTerminalType b = Some ty
     \<or> map_of EVENT_TYPES_BY_TRANSITION (a, b) = Some ty"

inductive run_step :: "run_state \<Rightarrow> string \<Rightarrow> run_state \<Rightarrow> bool" where
  step: "b \<in> set (ALLOWED_TRANSITIONS a) \<Longrightarrow> eventTypeAllowed a b ty \<Longrightarrow> run_step a ty b"

code_pred run_step .

inductive_simps run_step_iff: "run_step a ty b"
inductive_cases run_stepE [elim]: "run_step a ty b"

section \<open>Timestamps\<close>

text \<open>
  \<open>new Date(Date.parse(s)).toISOString() === s\<close>: \<open>s\<close> is the ISO text of an instant, with
  a four digit year, or a signed six digit one, inside the range of \<open>Date\<close>.
\<close>

definition isLeap :: "int \<Rightarrow> bool" where
  "isLeap y \<longleftrightarrow> (y mod 4 = 0 \<and> y mod 100 \<noteq> 0) \<or> y mod 400 = 0"

definition daysInMonth :: "int \<Rightarrow> int \<Rightarrow> int" where
  "daysInMonth y m = (if m = 2 then (if isLeap y then 29 else 28)
     else if m \<in> {4, 6, 9, 11} then 30 else 31)"

definition isoRest :: "int \<Rightarrow> string \<Rightarrow> bool" where
  "isoRest y r \<longleftrightarrow> length r = 20
     \<and> r ! 0 = CHR ''-'' \<and> r ! 3 = CHR ''-'' \<and> r ! 6 = CHR ''T'' \<and> r ! 9 = CHR '':'' \<and> r ! 12 = CHR '':''
     \<and> r ! 15 = CHR ''.'' \<and> r ! 19 = CHR ''Z''
     \<and> list_all (\<lambda>i. isDigit (r ! i)) [1, 2, 4, 5, 7, 8, 10, 11, 13, 14, 16, 17, 18]
     \<and> (let num = (\<lambda>i. readDigits [r ! i, r ! Suc i]) in
          1 \<le> num 1 \<and> num 1 \<le> 12 \<and> 1 \<le> num 4 \<and> num 4 \<le> daysInMonth y (num 1)
          \<and> num 7 \<le> 23 \<and> num 10 \<le> 59 \<and> num 13 \<le> 59)"

definition isoCanonical :: "string \<Rightarrow> bool" where
  "isoCanonical s \<longleftrightarrow>
     (length s = 24 \<and> list_all isDigit (take 4 s) \<and> isoRest (readDigits (take 4 s)) (drop 4 s)) \<or>
     (length s = 27 \<and> list_all isDigit (take 6 (tl s)) \<and>
       (let y = readDigits (take 6 (tl s)); r = drop 7 s in
         (hd s = CHR ''+'' \<and> 10000 \<le> y \<and> isoRest y r
           \<and> (y < 275760 \<or> (y = 275760 \<and> r \<le> ''-09-13T00:00:00.000Z''))) \<or>
         (hd s = CHR ''-'' \<and> 1 \<le> y \<and> isoRest (- y) r
           \<and> (y < 271821 \<or> (y = 271821 \<and> ''-04-20T00:00:00.000Z'' \<le> r)))))"

section \<open>Events\<close>

text \<open>The sorted key lists of an envelope and of the closed shape it must have.\<close>

definition sameKeys :: "json \<Rightarrow> string list \<Rightarrow> bool" where
  "sameKeys v keys \<longleftrightarrow> canonicalJsonText (jStrs (sort (objKeys v))) = canonicalJsonText (jStrs (sort keys))"

definition assertFoundryEventTransition :: "json \<Rightarrow> check list" where
  "assertFoundryEventTransition e = (let ty = strOf (fld ''event_type'' e) in
     case fld ''from_state'' e of
       JNull \<Rightarrow> [(fld ''to_state'' e = JStr ''accepted'' \<and> ty = ''foundry_run_accepted'',
           ''FoundryRun first event must be the canonical acceptance event.'')]
     | _ \<Rightarrow> (case (stateOf (strOf (fld ''from_state'' e)), stateOf (strOf (fld ''to_state'' e))) of
           (Some a, Some b) \<Rightarrow> assertFoundryTransition a b @
             [(eventTypeAllowed a b ty, ''FoundryRun event type does not match its exact transition.'')]
         | _ \<Rightarrow> [(False, ''FoundryRun transition uses an unknown state.'')]))"

definition acceptanceKeys :: "string list" where
  "acceptanceKeys = [''activation_revision_at_start'', ''generation'', ''request_digest'', ''target_agent_id'',
     ''target_domain_id'']"

definition assertAcceptancePayload :: "json \<Rightarrow> check list" where
  "assertAcceptancePayload e = (let p = fld ''payload'' e in
     [(sameKeys p acceptanceKeys, ''FoundryRun acceptance payload is open or incomplete.''),
      (isStr (fld ''target_agent_id'' p) \<and> strOf (fld ''target_agent_id'' p) \<noteq> []
        \<and> isStr (fld ''target_domain_id'' p) \<and> strOf (fld ''target_domain_id'' p) \<noteq> []
        \<and> isStr (fld ''request_digest'' p) \<and> isDigest (strOf (fld ''request_digest'' p))
        \<and> isSafeInteger (numOf (fld ''activation_revision_at_start'' p))
        \<and> \<not> jlt (numOf (fld ''activation_revision_at_start'' p)) (jint 0)
        \<and> fld ''generation'' p = jInt 0,
       ''FoundryRun acceptance payload identity is invalid.'')])"

definition withoutKey :: "string \<Rightarrow> json \<Rightarrow> json" where
  "withoutKey k v = JObj (filter (\<lambda>kv. fst kv \<noteq> k) (entriesOf v))"

definition eventHash :: "json \<Rightarrow> string res" where
  "eventHash v = mapE (\<lambda>t. ''sha256:'' @ sha256Hex t) (canonicalJsonText v)"

definition eventBody :: "string \<Rightarrow> int \<Rightarrow> string \<Rightarrow> run_state option \<Rightarrow> run_state \<Rightarrow> string \<Rightarrow> string \<Rightarrow>
    string option \<Rightarrow> json \<Rightarrow> json" where
  "eventBody runId revision eventType fromState toState occurredAt idempotencyKey previousEventHash payload =
     JObj [(''surface_kind'', JStr ''opl_foundry_run_event''),
      (''version'', JStr ''opl-foundry-run-event.v1''),
      (''event_id'', JStr (runId @ '':'' @ showInt revision)),
      (''run_id'', JStr runId),
      (''revision'', jInt revision),
      (''event_type'', JStr eventType),
      (''from_state'', ofOptStr (map_option stateName fromState)),
      (''to_state'', JStr (stateName toState)),
      (''occurred_at'', JStr occurredAt),
      (''idempotency_key'', JStr idempotencyKey),
      (''previous_event_hash'', ofOptStr previousEventHash),
      (''payload'', payload)]"

definition buildFoundryEvent :: "string \<Rightarrow> int \<Rightarrow> string \<Rightarrow> run_state option \<Rightarrow> run_state \<Rightarrow> string \<Rightarrow> string \<Rightarrow>
    string option \<Rightarrow> json \<Rightarrow> json res" where
  "buildFoundryEvent runId revision eventType fromState toState occurredAt idempotencyKey previousEventHash payload =
     bindE (runChecks (case fromState of
         Some a \<Rightarrow> assertFoundryTransition a toState
       | None \<Rightarrow> [(toState = Accepted \<and> revision = 1, ''The first FoundryRun event must accept revision 1.'')]))
       (\<lambda>u. let body = eventBody runId revision eventType fromState toState occurredAt idempotencyKey
              previousEventHash payload in
         mapE (\<lambda>h. JObj (entriesOf body @ [(''event_hash'', JStr h)])) (eventHash body))"

text \<open>The part of one verification step before the hash, given the first and the previous event.\<close>

definition eventIdentityChecks :: "json \<Rightarrow> json option \<Rightarrow> json \<Rightarrow> check list" where
  "eventIdentityChecks first prev e =
     [(isRecord e, ''FoundryRun event must be an object.''),
      (sameKeys e EVENT_FIELDS, ''FoundryRun event uses an open or incomplete envelope.''),
      (fld ''surface_kind'' e = JStr ''opl_foundry_run_event'' \<and> fld ''version'' e = JStr ''opl-foundry-run-event.v1'',
       ''FoundryRun event surface identity is invalid.''),
      (isStr (fld ''event_id'' e) \<and> isStr (fld ''run_id'' e) \<and> isStr (fld ''event_type'' e)
        \<and> isStr (fld ''occurred_at'' e) \<and> isStr (fld ''idempotency_key'' e) \<and> isStr (fld ''event_hash'' e)
        \<and> (fld ''from_state'' e = JNull \<or> isStr (fld ''from_state'' e)) \<and> isStr (fld ''to_state'' e)
        \<and> (fld ''previous_event_hash'' e = JNull \<or> isStr (fld ''previous_event_hash'' e)),
       ''FoundryRun event identity fields have invalid types.''),
      (trimmed (fld ''run_id'' e) \<noteq> [] \<and> jsSame (fld ''run_id'' e)
         (case prev of Some p \<Rightarrow> fld ''run_id'' p | None \<Rightarrow> fld ''run_id'' first),
       ''FoundryRun event chain mixes run identities.''),
      (strOf (fld ''event_id'' e) = strOf (fld ''run_id'' e) @ '':'' @ jsToString (fld ''revision'' e),
       ''FoundryRun event id is not canonical.''),
      (isSafeInteger (numOf (fld ''revision'' e)) \<and> \<not> jle (numOf (fld ''revision'' e)) (jint 0),
       ''FoundryRun event revision is invalid.''),
      (trimmed (fld ''event_type'' e) \<noteq> [], ''FoundryRun event type is empty.''),
      (trimmed (fld ''idempotency_key'' e) \<noteq> [], ''FoundryRun event idempotency key is empty.''),
      (isoCanonical (strOf (fld ''occurred_at'' e)), ''FoundryRun event timestamp is invalid.''),
      (isRecord (fld ''payload'' e), ''FoundryRun event payload must be an object.''),
      (jeq (numOf (fld ''revision'' e))
         (jadd (case prev of Some p \<Rightarrow> numOf (fld ''revision'' p) | None \<Rightarrow> jint 0) (jint 1)),
       ''FoundryRun event revisions are not contiguous.''),
      (jsSame (fld ''previous_event_hash'' e) (case prev of Some p \<Rightarrow> fld ''event_hash'' p | None \<Rightarrow> JNull),
       ''FoundryRun event hash chain is broken.'')]"

text \<open>The part after it; \<open>seen\<close> holds the idempotency keys of the earlier events.\<close>

definition eventHistoryChecks :: "json option \<Rightarrow> string list \<Rightarrow> json \<Rightarrow> string \<Rightarrow> check list" where
  "eventHistoryChecks prev seen e h =
     [(h = strOf (fld ''event_hash'' e), ''FoundryRun event hash is invalid.''),
      (strOf (fld ''idempotency_key'' e) \<notin> set seen, ''FoundryRun event idempotency key is duplicated.'')] @
     (case prev of
        Some p \<Rightarrow> (jsSame (fld ''from_state'' e) (fld ''to_state'' p),
            ''FoundryRun event from_state does not match history.'') # assertFoundryEventTransition e
      | None \<Rightarrow> (jeq (numOf (fld ''revision'' e)) (jint 1) \<and> fld ''from_state'' e = JNull,
            ''FoundryRun first event must be the canonical acceptance event.'')
          # assertFoundryEventTransition e @ assertAcceptancePayload e)"

definition verifyEvent :: "json \<Rightarrow> json option \<Rightarrow> string list \<Rightarrow> json \<Rightarrow> unit res" where
  "verifyEvent first prev seen e =
     bindE (runChecks (eventIdentityChecks first prev e)) (\<lambda>u.
     bindE (eventHash (withoutKey ''event_hash'' e)) (\<lambda>h.
     runChecks (eventHistoryChecks prev seen e h)))"

fun verifyFrom :: "json \<Rightarrow> json option \<Rightarrow> string list \<Rightarrow> json list \<Rightarrow> unit res" where
  "verifyFrom first prev seen [] = Inr ()"
| "verifyFrom first prev seen (e # es) = bindE (verifyEvent first prev seen e) (\<lambda>u.
     verifyFrom first (Some e) (strOf (fld ''idempotency_key'' e) # seen) es)"

definition verifyFoundryEventChain :: "json list \<Rightarrow> unit res" where
  "verifyFoundryEventChain es = (case es of
       [] \<Rightarrow> fail ''FoundryRun event chain must not be empty.''
     | e # r \<Rightarrow> verifyFrom e None [] es)"

text \<open>The logical content of an event: what a replayed append must repeat (no time, no hash).\<close>

definition logicalEvent :: "json \<Rightarrow> json" where
  "logicalEvent e = JObj (map (\<lambda>k. (k, fld k e)) [''surface_kind'', ''version'', ''event_id'', ''run_id'',
     ''revision'', ''event_type'', ''from_state'', ''to_state'', ''idempotency_key'', ''previous_event_hash'',
     ''payload''])"

definition assertFoundryEventReplay :: "json \<Rightarrow> json \<Rightarrow> int \<Rightarrow> json res" where
  "assertFoundryEventReplay existing candidate expectedRevision =
     bindE (runChecks [(jeq (numOf (fld ''revision'' existing)) (jint (expectedRevision + 1))
         \<and> jeq (numOf (fld ''revision'' candidate)) (jint (expectedRevision + 1)),
         ''FoundryRun event replay revision is inconsistent.'')]) (\<lambda>u.
     bindE (canonicalJsonText (logicalEvent existing)) (\<lambda>a.
     bindE (canonicalJsonText (logicalEvent candidate)) (\<lambda>b.
     bindE (runChecks [(a = b, ''FoundryRun idempotency replay conflicts with immutable history.'')]) (\<lambda>u.
     Inr existing))))"

section \<open>Snapshot\<close>

text \<open>\<open>Number(value)\<close>: literals are read exactly and rounded; anything else is NaN.\<close>

definition readUnsigned :: "string \<Rightarrow> jsnum" where
  "readUnsigned s = (let m = takeWhile (\<lambda>c. c \<noteq> CHR ''e'' \<and> c \<noteq> CHR ''E'') s; e = drop (Suc (length m)) s;
       i = takeWhile isDigit m; f = drop (Suc (length i)) m;
       ds = (case e of [] \<Rightarrow> [] | c # r \<Rightarrow> if c = CHR ''+'' \<or> c = CHR ''-'' then r else e) in
     if s = ''Infinity'' then PInf
     else if i @ f = [] \<or> (drop (length i) m \<noteq> [] \<and> hd (drop (length i) m) \<noteq> CHR ''.'') \<or> \<not> list_all isDigit f
       \<or> (length m < length s \<and> (ds = [] \<or> \<not> list_all isDigit ds)) then NaN
     else (let q = of_int (readDigits (i @ f)) * 10 powi
         ((if hd (e @ ''0'') = CHR ''-'' then - readDigits ds else readDigits ds) - int (length f)) in
       if q = 0 then Fin 0 else rnd q))"

definition readRadix :: "int \<Rightarrow> string \<Rightarrow> jsnum" where
  "readRadix b s = (let ds = map (\<lambda>c. int (hexVal c)) (toLowerCase s) in
     if s \<noteq> [] \<and> list_all isLowerHex (toLowerCase s) \<and> list_all (\<lambda>d. d < b) ds
     then (let q = of_int (foldl (\<lambda>a d. b * a + d) 0 ds) in if q = 0 then Fin 0 else rnd q) else NaN)"

definition stringToNumber :: "string \<Rightarrow> jsnum" where
  "stringToNumber s = (case trim s of
       [] \<Rightarrow> Fin 0
     | c # r \<Rightarrow> if c = CHR ''0'' \<and> r \<noteq> [] \<and> lowerChar (hd r) \<in> set ''xob''
         then readRadix (if lowerChar (hd r) = CHR ''x'' then 16 else if lowerChar (hd r) = CHR ''o'' then 8 else 2) (tl r)
         else if c = CHR ''-'' then jmul (jint (- 1)) (readUnsigned r)
         else if c = CHR ''+'' then readUnsigned r else readUnsigned (c # r))"

definition jsNumber :: "json \<Rightarrow> jsnum" where
  "jsNumber v = (case v of JNum x \<Rightarrow> x | JNull \<Rightarrow> Fin 0 | JUndef \<Rightarrow> NaN
     | JBool b \<Rightarrow> (if b then Fin 1 else Fin 0) | _ \<Rightarrow> stringToNumber (jsToString v))"

text \<open>\<open>value ?? default\<close>\<close>

definition orElse :: "json \<Rightarrow> json \<Rightarrow> json" where
  "orElse v d = (if v = JNull \<or> v = JUndef then d else v)"

record run_snapshot =
  sn_run_id :: string
  sn_target_agent_id :: string
  sn_target_domain_id :: string
  sn_request_digest :: string
  sn_activation_revision_at_start :: int
  sn_run_state :: run_state
  sn_revision :: int
  sn_generation :: jsnum
  sn_blueprint_digest :: "string option"
  sn_previous_blueprint_digest :: "string option"
  sn_candidate_digest :: "string option"
  sn_candidate_record_digest :: "string option"
  sn_evidence_digest :: "string option"
  sn_frozen_test_plan_digest :: "string option"
  sn_proposal_digest :: "string option"
  sn_version_digest :: "string option"
  sn_risk_tier :: json
  sn_gate_score :: "jsnum option"
  sn_no_improvement_generations :: jsnum
  sn_last_event_hash :: string
  sn_created_at :: string
  sn_updated_at :: string

text \<open>\<open>events.reduce((state, event) => ({ ...state, ...event.payload }), {})\<close>\<close>

definition accumulated :: "json list \<Rightarrow> json" where
  "accumulated es = JObj (foldl (\<lambda>acc e. AList.updates (map fst (entriesOf (fld ''payload'' e)))
     (map snd (entriesOf (fld ''payload'' e))) acc) [] es)"

definition numOpt :: "json \<Rightarrow> jsnum option" where
  "numOpt v = (case v of JNum x \<Rightarrow> Some x | _ \<Rightarrow> None)"

text \<open>
  The state is the decoded name; after the chain is verified it is always a known one
  (\<open>verify_known_state\<close>), so the last error is dead code of the model, not a guard of
  the program.
\<close>

definition snapshotFromEvents :: "json list \<Rightarrow> run_snapshot res" where
  "snapshotFromEvents es = (if es = [] then fail ''FoundryRun requires at least one event.''
     else bindE (verifyFoundryEventChain es) (\<lambda>u.
       let f = hd es; l = last es; acc = accumulated es; p = fld ''payload'' f in
       case stateOf (strOf (fld ''to_state'' l)) of
         None \<Rightarrow> fail ''unknown state''
       | Some st \<Rightarrow> Inr \<lparr>
           sn_run_id = strOf (fld ''run_id'' l),
           sn_target_agent_id = jsToString (orElse (fld ''target_agent_id'' p) (JStr [])),
           sn_target_domain_id = jsToString (orElse (fld ''target_domain_id'' p) (JStr [])),
           sn_request_digest = jsToString (orElse (fld ''request_digest'' p) (JStr [])),
           sn_activation_revision_at_start = intOf (fld ''activation_revision_at_start'' p),
           sn_run_state = st,
           sn_revision = intOf (fld ''revision'' l),
           sn_generation = jsNumber (orElse (fld ''generation'' acc) (jInt 0)),
           sn_blueprint_digest = optStr (fld ''blueprint_digest'' acc),
           sn_previous_blueprint_digest = optStr (fld ''previous_blueprint_digest'' acc),
           sn_candidate_digest = optStr (fld ''candidate_digest'' acc),
           sn_candidate_record_digest = optStr (fld ''candidate_record_digest'' acc),
           sn_evidence_digest = optStr (fld ''evidence_digest'' acc),
           sn_frozen_test_plan_digest = optStr (fld ''frozen_test_plan_digest'' acc),
           sn_proposal_digest = optStr (fld ''proposal_digest'' acc),
           sn_version_digest = optStr (fld ''version_digest'' acc),
           sn_risk_tier = (if oneOf [''low'', ''medium'', ''high''] (fld ''risk_tier'' acc)
             then fld ''risk_tier'' acc else JNull),
           sn_gate_score = numOpt (fld ''gate_score'' acc),
           sn_no_improvement_generations = jsNumber (orElse (fld ''no_improvement_generations'' acc) (jInt 0)),
           sn_last_event_hash = strOf (fld ''event_hash'' l),
           sn_created_at = strOf (fld ''occurred_at'' f),
           sn_updated_at = strOf (fld ''occurred_at'' l) \<rparr>))"

section \<open>The tables\<close>

lemma stateOf_stateName [simp]: "stateOf (stateName s) = Some s"
  by (cases s) (simp_all add: stateOf_def allStates_def)

lemma stateOf_SomeD: "stateOf n = Some s \<Longrightarrow> n = stateName s"
  unfolding stateOf_def by (drule find_Some_iff2) simp

lemma stateName_inj [simp]: "stateName a = stateName b \<longleftrightarrow> a = b"
  by (metis option.inject stateOf_stateName)

lemma isTerminal_iff: "isTerminal s \<longleftrightarrow> ALLOWED_TRANSITIONS s = []"
  by (cases s) (simp_all add: isTerminal_def FOUNDRY_TERMINAL_STATES_def)

lemma terminal_no_step: "isTerminal s \<Longrightarrow> \<not> run_step s ty s'"
  by (simp add: isTerminal_iff run_step_iff)

text \<open>The two tables cover the same transitions.\<close>

lemma every_transition_has_type: "b \<in> set (ALLOWED_TRANSITIONS a) \<Longrightarrow> \<exists>ty. run_step a ty b"
  by (cases a) (auto simp: run_step_iff eventTypeAllowed_def genericTerminalType_def
      EVENT_TYPES_BY_TRANSITION_def)

lemma every_type_is_transition:
  "map_of EVENT_TYPES_BY_TRANSITION (a, b) = Some ty \<Longrightarrow> run_step a ty b"
  by (frule map_of_SomeD) (auto simp: run_step_iff eventTypeAllowed_def EVENT_TYPES_BY_TRANSITION_def)

section \<open>Histories a run can have\<close>

inductive run_path :: "string list \<Rightarrow> run_state \<Rightarrow> bool" where
  start: "run_path [''foundry_run_accepted''] Accepted"
| extend: "run_path tys a \<Longrightarrow> run_step a ty b \<Longrightarrow> run_path (tys @ [ty]) b"

text \<open>What must have happened, in this order, for a run to be in a state.\<close>

fun milestones :: "run_state \<Rightarrow> string list" where
  "milestones Designing = [''design_started'']"
| "milestones Materializing = [''design_started'', ''blueprint_admitted'']"
| "milestones Evaluating = [''design_started'', ''blueprint_admitted'', ''candidate_materialized'']"
| "milestones Evidence_Ready = [''design_started'', ''blueprint_admitted'', ''candidate_materialized'']"
| "milestones Diagnosing = [''design_started'', ''blueprint_admitted'', ''candidate_materialized'']"
| "milestones Qualified =
     [''design_started'', ''blueprint_admitted'', ''candidate_materialized'', ''candidate_qualified'']"
| "milestones Awaiting_Owner_Canary =
     [''design_started'', ''blueprint_admitted'', ''candidate_materialized'', ''candidate_qualified'', ''owner_canary_required'']"
| "milestones Canary =
     [''design_started'', ''blueprint_admitted'', ''candidate_materialized'', ''candidate_qualified'']"
| "milestones Awaiting_Owner_Active =
     [''design_started'', ''blueprint_admitted'', ''candidate_materialized'', ''candidate_qualified'', ''canary_passed'']"
| "milestones Activating =
     [''design_started'', ''blueprint_admitted'', ''candidate_materialized'', ''candidate_qualified'', ''canary_passed'']"
| "milestones Completed_Active =
     [''design_started'', ''blueprint_admitted'', ''candidate_materialized'', ''candidate_qualified'', ''canary_passed'', ''activation_completed'']"
| "milestones Completed_Qualified =
     [''design_started'', ''blueprint_admitted'', ''candidate_materialized'', ''candidate_qualified'', ''qualification_completed'']"
| "milestones Completed_Unqualified =
     [''design_started'', ''blueprint_admitted'', ''candidate_materialized'']"
| "milestones s = []"

lemma milestones_step: "run_step a ty b \<Longrightarrow> subseq (milestones b) (milestones a @ [ty])"
  by (cases a; auto simp: run_step_iff eventTypeAllowed_def genericTerminalType_def
      EVENT_TYPES_BY_TRANSITION_def)

lemma run_path_milestones: "run_path tys s \<Longrightarrow> subseq (milestones s) tys"
proof (induction rule: run_path.induct)
  case (extend tys a ty b)
  have "subseq (milestones a @ [ty]) (tys @ [ty])" using extend.IH by simp
  with milestones_step [OF extend.hyps(2)] show ?case by (rule subseq_order.trans)
qed simp

section \<open>What a verified chain is\<close>

definition evState :: "json \<Rightarrow> string" where
  "evState e = strOf (fld ''to_state'' e)"

definition evType :: "json \<Rightarrow> string" where
  "evType e = strOf (fld ''event_type'' e)"

definition evKey :: "json \<Rightarrow> string" where
  "evKey e = strOf (fld ''idempotency_key'' e)"

definition evHash :: "json \<Rightarrow> string" where
  "evHash e = strOf (fld ''event_hash'' e)"

definition evRevision :: "json \<Rightarrow> int" where
  "evRevision e = intOf (fld ''revision'' e)"

lemma verifyFrom_append:
  "verifyFrom f p seen (es @ fs) = bindE (verifyFrom f p seen es) (\<lambda>u.
     verifyFrom f (if es = [] then p else Some (last es)) (rev (map evKey es) @ seen) fs)"
proof (induction es arbitrary: p seen)
  case (Cons e es)
  show ?case
    by (cases "verifyEvent f p seen e") (simp_all add: Cons.IH evKey_def)
qed (simp add: evKey_def)

lemma verify_append:
  "es \<noteq> [] \<Longrightarrow> verifyFoundryEventChain (es @ fs) = bindE (verifyFoundryEventChain es) (\<lambda>u.
     verifyFrom (hd es) (Some (last es)) (rev (map evKey es)) fs)"
  by (cases es) (simp_all add: verifyFoundryEventChain_def verifyFrom_append [of _ _ _ "_ # _", simplified])

lemma verify_snoc:
  "es \<noteq> [] \<Longrightarrow> verifyFoundryEventChain (es @ [e]) = Inr () \<longleftrightarrow>
     verifyFoundryEventChain es = Inr () \<and> verifyEvent (hd es) (Some (last es)) (rev (map evKey es)) e = Inr ()"
  by (simp add: verify_append)

lemma verify_single: "verifyFoundryEventChain [e] = verifyEvent e None [] e"
  by (cases "verifyEvent e None [] e") (simp_all add: verifyFoundryEventChain_def)

lemma verify_nonempty: "verifyFoundryEventChain es = Inr u \<Longrightarrow> es \<noteq> []"
  by (auto simp: verifyFoundryEventChain_def)

text \<open>Induction over verified chains, one event at a time.\<close>

lemma verify_induct [consumes 1, case_names first step]:
  assumes "verifyFoundryEventChain es = Inr ()"
    and "\<And>e. verifyEvent e None [] e = Inr () \<Longrightarrow> P [e]"
    and "\<And>es e. es \<noteq> [] \<Longrightarrow> verifyFoundryEventChain es = Inr () \<Longrightarrow> P es \<Longrightarrow>
      verifyEvent (hd es) (Some (last es)) (rev (map evKey es)) e = Inr () \<Longrightarrow> P (es @ [e])"
  shows "P es"
  using assms(1)
proof (induction es rule: rev_induct)
  case Nil
  then show ?case by (simp add: verifyFoundryEventChain_def)
next
  case (snoc e es)
  then show ?case
    using assms(2, 3) by (cases "es = []") (simp_all add: verify_single verify_snoc)
qed

lemma plain_jStrs [simp]: "plain (jStrs ss)" "norm (jStrs ss) = jStrs ss"
  by (simp_all add: jStrs_def comp_def)

lemma jStrs_inj [simp]: "jStrs ss = jStrs ts \<longleftrightarrow> ss = ts"
  by (simp add: jStrs_def inj_map_eq_map inj_def)

lemma sameKeys_iff: "sameKeys v keys \<longleftrightarrow> mset (objKeys v) = mset keys"
  unfolding sameKeys_def
  by (simp add: canonicalJsonText_inj) (metis mset_sort properties_for_sort sorted_sort)

lemma sameKeys_distinct: "sameKeys v keys \<Longrightarrow> distinct keys \<Longrightarrow> distinct (objKeys v)"
  unfolding sameKeys_iff by (metis mset_eq_imp_distinct_iff)

lemma EVENT_FIELDS_distinct: "distinct EVENT_FIELDS"
  by (simp add: EVENT_FIELDS_def)

text \<open>The facts of one verified event.\<close>

lemma verifyEvent_identity:
  assumes "verifyEvent f p seen e = Inr ()"
  shows "isRecord e" "sameKeys e EVENT_FIELDS" "isStr (fld ''run_id'' e)" "isStr (fld ''event_hash'' e)"
    "isStr (fld ''to_state'' e)" "isStr (fld ''event_type'' e)" "isStr (fld ''idempotency_key'' e)"
    "isRecord (fld ''payload'' e)" "isoCanonical (strOf (fld ''occurred_at'' e))"
    "trimmed (fld ''run_id'' e) \<noteq> []" "trimmed (fld ''idempotency_key'' e) \<noteq> []"
    "isSafeInteger (numOf (fld ''revision'' e))"
    "eventHash (withoutKey ''event_hash'' e) = Inr (evHash e)"
    "evKey e \<notin> set seen"
  using assms unfolding verifyEvent_def
  by (simp_all add: eventIdentityChecks_def eventHistoryChecks_def evHash_def evKey_def del: One_nat_def)

lemma jsSame_JStr [simp]: "jsSame v (JStr s) \<longleftrightarrow> v = JStr s" "jsSame v JNull \<longleftrightarrow> v = JNull"
  by (cases v; simp add: jsSame_def)+

lemma isStr_JStr: "isStr v \<longleftrightarrow> v = JStr (strOf v)"
  by (cases v) (simp_all add: isStr_def strOf_def)

lemma isStrE: "isStr v \<Longrightarrow> (\<And>s. v = JStr s \<Longrightarrow> P) \<Longrightarrow> P"
  by (metis isStr_JStr)

lemma strOf_JStr [simp]: "strOf (JStr s) = s" "isStr (JStr s)" "numOf (JNum x) = x"
  by (simp_all add: strOf_def isStr_def numOf_def)

lemma verifyEvent_first:
  assumes "verifyEvent f None seen e = Inr ()"
  shows "fld ''from_state'' e = JNull" "fld ''to_state'' e = JStr ''accepted''"
    "evType e = ''foundry_run_accepted''" "numOf (fld ''revision'' e) = jint 1"
    "fld ''previous_event_hash'' e = JNull" "list_all fst (assertAcceptancePayload e)"
proof -
  from assms have i: "list_all fst (eventIdentityChecks f None e)"
    and h: "list_all fst (eventHistoryChecks None seen e (evHash e))"
    unfolding verifyEvent_def by (auto simp: eventHistoryChecks_def evHash_def)
  show n: "fld ''from_state'' e = JNull" using h by (simp add: eventHistoryChecks_def)
  show "fld ''to_state'' e = JStr ''accepted''" "evType e = ''foundry_run_accepted''"
    "list_all fst (assertAcceptancePayload e)"
    using h n by (simp_all add: eventHistoryChecks_def assertFoundryEventTransition_def evType_def)
  show "numOf (fld ''revision'' e) = jint 1" "fld ''previous_event_hash'' e = JNull"
    using i by (simp_all add: eventIdentityChecks_def jeq_def)
qed

lemma verifyEvent_next:
  assumes v: "verifyEvent f (Some p) seen e = Inr ()"
    and p: "isStr (fld ''run_id'' p)" "isStr (fld ''event_hash'' p)" "isStr (fld ''to_state'' p)"
  shows "fld ''run_id'' e = fld ''run_id'' p" "fld ''previous_event_hash'' e = JStr (evHash p)"
    "jeq (numOf (fld ''revision'' e)) (jadd (numOf (fld ''revision'' p)) (jint 1))"
    "fld ''from_state'' e = fld ''to_state'' p"
    "list_all fst (assertFoundryEventTransition e)"
proof -
  from v have i: "list_all fst (eventIdentityChecks f (Some p) e)"
    and h: "list_all fst (eventHistoryChecks (Some p) seen e (evHash e))"
    unfolding verifyEvent_def by (auto simp: eventHistoryChecks_def evHash_def)
  from p obtain r hs t where *: "fld ''run_id'' p = JStr r" "fld ''event_hash'' p = JStr hs" "fld ''to_state'' p = JStr t"
    by (auto elim!: isStrE)
  show "fld ''run_id'' e = fld ''run_id'' p" "fld ''previous_event_hash'' e = JStr (evHash p)"
    "jeq (numOf (fld ''revision'' e)) (jadd (numOf (fld ''revision'' p)) (jint 1))"
    using i by (simp_all add: eventIdentityChecks_def * evHash_def)
  show "fld ''from_state'' e = fld ''to_state'' p" "list_all fst (assertFoundryEventTransition e)"
    using h by (simp_all add: eventHistoryChecks_def *)
qed

lemma eventTransition_step:
  assumes "list_all fst (assertFoundryEventTransition e)" "fld ''from_state'' e = JStr (stateName a)"
  shows "\<exists>b. stateOf (evState e) = Some b \<and> run_step a (evType e) b"
  using assms by (auto simp: assertFoundryEventTransition_def Let_def evState_def evType_def
      assertFoundryTransition_def run_step_iff split: option.splits)

section \<open>The verified chain refines the step relation\<close>

text \<open>What the events of a verified chain say together.\<close>

definition chainSpec :: "json list \<Rightarrow> bool" where
  "chainSpec es \<longleftrightarrow> es \<noteq> [] \<and>
     map (\<lambda>e. numOf (fld ''revision'' e)) es = map (\<lambda>i. jint (int i + 1)) [0..<length es] \<and>
     (\<forall>e \<in> set es. fld ''run_id'' e = fld ''run_id'' (hd es)) \<and>
     distinct (map evKey es) \<and>
     (\<forall>i. Suc i < length es \<longrightarrow> fld ''previous_event_hash'' (es ! Suc i) = JStr (evHash (es ! i))) \<and>
     (\<exists>st. fld ''to_state'' (last es) = JStr (stateName st) \<and> run_path (map evType es) st)"

lemma verify_last:
  "verifyFoundryEventChain es = Inr () \<Longrightarrow>
     isStr (fld ''run_id'' (last es)) \<and> isStr (fld ''event_hash'' (last es)) \<and> isStr (fld ''to_state'' (last es))
     \<and> isSafeInteger (numOf (fld ''revision'' (last es)))"
  by (induction es rule: verify_induct) (simp_all add: verifyEvent_identity)

lemma nth_snoc_link:
  "xs \<noteq> [] \<Longrightarrow> (\<forall>i. Suc i < length (xs @ [x]) \<longrightarrow> R ((xs @ [x]) ! i) ((xs @ [x]) ! Suc i)) \<longleftrightarrow>
     (\<forall>i. Suc i < length xs \<longrightarrow> R (xs ! i) (xs ! Suc i)) \<and> R (last xs) x"
proof -
  assume "xs \<noteq> []"
  then obtain n where n: "length xs = Suc n" by (cases xs) auto
  with \<open>xs \<noteq> []\<close> have l: "last xs = xs ! n" by (simp add: last_conv_nth)
  have "(\<forall>i. Suc i < length (xs @ [x]) \<longrightarrow> Q i) \<longleftrightarrow> (\<forall>i. Suc i < length xs \<longrightarrow> Q i) \<and> Q n" for Q
    using n by (auto simp: less_Suc_eq)
  then show ?thesis by (simp add: n l nth_append)
qed

lemma verify_chainSpec: "verifyFoundryEventChain es = Inr () \<Longrightarrow> chainSpec es"
proof (induction es rule: verify_induct)
  case (first e)
  then show ?case
    by (auto simp: chainSpec_def verifyEvent_first run_path.start
        intro!: exI [of _ Accepted])
next
  case (step es e)
  note v = step.hyps(3)
  from verify_last [OF step.hyps(2)] have ok: "isStr (fld ''run_id'' (last es))" "isStr (fld ''event_hash'' (last es))"
    "isStr (fld ''to_state'' (last es))" "isSafeInteger (numOf (fld ''revision'' (last es)))" by simp_all
  note nx = verifyEvent_next [OF v ok(1-3)]
  from step.IH obtain st where st: "fld ''to_state'' (last es) = JStr (stateName st)" "run_path (map evType es) st"
    unfolding chainSpec_def by blast
  have "fld ''from_state'' e = JStr (stateName st)" using nx(4) st(1) by simp
  from eventTransition_step [OF nx(5) this] obtain b where
    b: "stateOf (evState e) = Some b" "run_step st (evType e) b" by blast
  have to: "fld ''to_state'' e = JStr (stateName b)"
    using stateOf_SomeD [OF b(1)] verifyEvent_identity(5) [OF v] by (simp add: evState_def isStr_JStr)
  have "\<exists>i. numOf (fld ''revision'' (last es)) = jint i \<and> numOf (fld ''revision'' e) = jint (i + 1)"
    by (rule safe_succ [OF ok(4) verifyEvent_identity(12) [OF v] nx(3)])
  moreover have "numOf (fld ''revision'' (last es)) = jint (int (length es))"
  proof -
    from step.IH have "map (\<lambda>e. numOf (fld ''revision'' e)) es ! (length es - 1) =
        map (\<lambda>i. jint (int i + 1)) [0..<length es] ! (length es - 1)" by (simp add: chainSpec_def)
    with step.hyps(1) show ?thesis by (cases es rule: rev_cases) (simp_all add: nth_append)
  qed
  ultimately have rev: "numOf (fld ''revision'' e) = jint (int (length es) + 1)" by simp
  from step.IH have spec:
    "map (\<lambda>e. numOf (fld ''revision'' e)) es = map (\<lambda>i. jint (int i + 1)) [0..<length es]"
    "\<forall>x \<in> set es. fld ''run_id'' x = fld ''run_id'' (hd es)" "distinct (map evKey es)"
    "\<forall>i. Suc i < length es \<longrightarrow> fld ''previous_event_hash'' (es ! Suc i) = JStr (evHash (es ! i))"
    unfolding chainSpec_def by blast+
  have run: "fld ''run_id'' e = fld ''run_id'' (hd es)"
    using nx(1) bspec [OF spec(2) last_in_set [OF step.hyps(1)]] by (rule trans)
  have key: "evKey e \<notin> set (map evKey es)" using verifyEvent_identity(14) [OF v] by simp
  show ?case unfolding chainSpec_def
  proof (intro conjI)
    show "map (\<lambda>e. numOf (fld ''revision'' e)) (es @ [e]) = map (\<lambda>i. jint (int i + 1)) [0..<length (es @ [e])]"
      using spec(1) rev by simp
    show "\<forall>x \<in> set (es @ [e]). fld ''run_id'' x = fld ''run_id'' (hd (es @ [e]))"
      using spec(2) run step.hyps(1) by (metis hd_append2 insert_iff list.simps(15) rotate1.simps(2) set_rotate1)
    show "distinct (map evKey (es @ [e]))" using spec(3) key by simp
    show "\<forall>i. Suc i < length (es @ [e]) \<longrightarrow>
        fld ''previous_event_hash'' ((es @ [e]) ! Suc i) = JStr (evHash ((es @ [e]) ! i))"
      unfolding nth_snoc_link [OF step.hyps(1), where R = "\<lambda>a b. fld ''previous_event_hash'' b = JStr (evHash a)"]
      using spec(4) nx(2) by blast
    show "\<exists>st. fld ''to_state'' (last (es @ [e])) = JStr (stateName st) \<and> run_path (map evType (es @ [e])) st"
      using to run_path.extend [OF st(2) b(2)] by auto
  qed simp
qed

section \<open>Building and appending\<close>

lemma fld_JObj [simp]:
  "fld k (JObj []) = JUndef"
  "fld k (JObj ((k', v) # kvs)) = (if k = k' then v else fld k (JObj kvs))"
  by (auto simp: fld_def entriesOf_def)

lemma isRecord_JObj [simp]: "isRecord (JObj kvs)" "entriesOf (JObj kvs) = kvs" "objKeys (JObj kvs) = map fst kvs"
  by (simp_all add: isRecord_def entriesOf_def objKeys_def)

lemma jInt_simps [simp]: "numOf (jInt i) = jint i" "jInt i = jInt j \<longleftrightarrow> i = j" "isStr (jInt i) = False"
  by (simp_all add: jInt_def numOf_def isStr_def)

lemma jsToString_jInt: "\<bar>i\<bar> < 2 ^ 53 \<Longrightarrow> jsToString (jInt i) = showInt i"
  by (simp add: jInt_def jint_def numText_jint)

lemma trimmed_JStr [simp]: "trimmed (JStr s) = trim s"
  by (simp add: trimmed_def)

lemma ofOptStr_simps [simp]: "ofOptStr (Some s) = JStr s" "ofOptStr None = JNull"
  by (simp_all add: ofOptStr_def)

definition withHash :: "json \<Rightarrow> string \<Rightarrow> json" where
  "withHash body h = JObj (entriesOf body @ [(''event_hash'', JStr h)])"

lemma buildFoundryEvent_Inr:
  assumes "buildFoundryEvent run n ty from to ts key prev payload = Inr e"
  shows "\<exists>h. e = withHash (eventBody run n ty from to ts key prev payload) h
    \<and> eventHash (eventBody run n ty from to ts key prev payload) = Inr h"
  using assms by (auto simp: buildFoundryEvent_def withHash_def Let_def)

lemma built_simps:
  "fld ''surface_kind'' (withHash (eventBody run n ty from to ts key prev payload) h) = JStr ''opl_foundry_run_event''"
    "fld ''version'' (withHash (eventBody run n ty from to ts key prev payload) h) = JStr ''opl-foundry-run-event.v1''"
    "fld ''event_id'' (withHash (eventBody run n ty from to ts key prev payload) h) = JStr (run @ '':'' @ showInt n)"
    "fld ''run_id'' (withHash (eventBody run n ty from to ts key prev payload) h) = JStr run"
    "fld ''revision'' (withHash (eventBody run n ty from to ts key prev payload) h) = jInt n"
    "fld ''event_type'' (withHash (eventBody run n ty from to ts key prev payload) h) = JStr ty"
    "fld ''from_state'' (withHash (eventBody run n ty from to ts key prev payload) h) = ofOptStr (map_option stateName from)"
    "fld ''to_state'' (withHash (eventBody run n ty from to ts key prev payload) h) = JStr (stateName to)"
    "fld ''occurred_at'' (withHash (eventBody run n ty from to ts key prev payload) h) = JStr ts"
    "fld ''idempotency_key'' (withHash (eventBody run n ty from to ts key prev payload) h) = JStr key"
    "fld ''previous_event_hash'' (withHash (eventBody run n ty from to ts key prev payload) h) = ofOptStr prev"
    "fld ''payload'' (withHash (eventBody run n ty from to ts key prev payload) h) = payload"
    "fld ''event_hash'' (withHash (eventBody run n ty from to ts key prev payload) h) = JStr h"
    "withoutKey ''event_hash'' (withHash (eventBody run n ty from to ts key prev payload) h) = eventBody run n ty from to ts key prev payload"
    "sameKeys (withHash (eventBody run n ty from to ts key prev payload) h) EVENT_FIELDS"
    "isRecord (withHash (eventBody run n ty from to ts key prev payload) h)"
  by (simp_all add: withHash_def eventBody_def withoutKey_def sameKeys_iff EVENT_FIELDS_def)

lemma event_types_nonblank:
  assumes "run_step a ty b"
  shows "trim ty \<noteq> []"
proof -
  let ?tys = "map snd EVENT_TYPES_BY_TRANSITION @
    [''foundry_run_cancelled'', ''foundry_run_failed'', ''foundry_output_quarantined'', ''owner_rejected'']"
  have all: "list_all (\<lambda>ty. trim ty \<noteq> []) ?tys" by code_simp
  from assms have "genericTerminalType b = Some ty \<or> map_of EVENT_TYPES_BY_TRANSITION (a, b) = Some ty"
    by (simp add: run_step_iff eventTypeAllowed_def)
  then have "ty \<in> set ?tys"
  proof
    assume "genericTerminalType b = Some ty"
    then show ?thesis by (cases b) (auto simp: genericTerminalType_def)
  next
    assume "map_of EVENT_TYPES_BY_TRANSITION (a, b) = Some ty"
    from map_of_SomeD [OF this] have "ty \<in> snd ` set EVENT_TYPES_BY_TRANSITION" by (rule rev_image_eqI) simp
    then show ?thesis by simp
  qed
  then show ?thesis using all unfolding list_all_iff by blast
qed

lemma built_identity:
  assumes "\<bar>n\<bar> < 2 ^ 53" "0 < n" "trim run \<noteq> []" "trim ty \<noteq> []" "trim key \<noteq> []" "isoCanonical ts" "isRecord payload"
    and "case p of Some q \<Rightarrow> fld ''run_id'' q = JStr run \<and> fld ''event_hash'' q = ofOptStr prev
         \<and> numOf (fld ''revision'' q) = jint (n - 1)
       | None \<Rightarrow> fld ''run_id'' f = JStr run \<and> prev = None \<and> n = 1"
  shows "list_all fst (eventIdentityChecks f p (withHash (eventBody run n ty from to ts key prev payload) h))"
proof -
  have f: "ofOptStr (map_option stateName from) = JNull \<or> isStr (ofOptStr (map_option stateName from))"
    "ofOptStr prev = JNull \<or> isStr (ofOptStr prev)"
    by (cases "from"; simp) (cases prev; simp)
  have j: "jadd (jint (n - 1)) (jint 1) = jint n" using jadd_jint [of "n - 1" 1] assms(1) by simp
  have c: "\<not> jle (jint n) (jint 0)" "jint n \<noteq> NaN" using assms(2) by (simp_all add: jint_def)
  have q: "jsSame (ofOptStr o') (ofOptStr o')" for o' by (cases o') simp_all
  show ?thesis
    using assms f j c q
    by (cases p) (simp_all add: eventIdentityChecks_def built_simps jsToString_jInt jeq_def)
qed

lemma verify_append_built:
  assumes v: "verifyFoundryEventChain es = Inr ()"
    and b: "buildFoundryEvent run (int (length es) + 1) ty (Some a) s ts key (Some (evHash (last es))) payload = Inr e"
    and r: "fld ''run_id'' (hd es) = JStr run" and a: "evState (last es) = stateName a"
    and st: "run_step a ty s" and at: "isoCanonical ts"
    and key: "trim key \<noteq> []" "key \<notin> set (map evKey es)"
    and p: "isRecord payload" and n: "int (length es) + 1 < 2 ^ 53"
  shows "verifyFoundryEventChain (es @ [e]) = Inr ()"
proof -
  note ne = verify_nonempty [OF v] and cs = verify_chainSpec [OF v]
  obtain h where e: "e = withHash (eventBody run (int (length es) + 1) ty (Some a) s ts key (Some (evHash (last es))) payload) h"
    and h: "eventHash (eventBody run (int (length es) + 1) ty (Some a) s ts key (Some (evHash (last es))) payload) = Inr h"
    using buildFoundryEvent_Inr [OF b] by blast
  from verify_last [OF v] have l: "fld ''event_hash'' (last es) = JStr (evHash (last es))"
    "fld ''to_state'' (last es) = JStr (evState (last es))"
    by (simp_all add: isStr_JStr evHash_def evState_def)
  have run: "fld ''run_id'' (last es) = JStr run" using cs ne r unfolding chainSpec_def by (metis last_in_set)
  have rev: "numOf (fld ''revision'' (last es)) = jint (int (length es))"
    using cs ne unfolding chainSpec_def by (cases es rule: rev_cases) (simp_all add: add.commute)
  have "trim run \<noteq> []"
    using v run by (induction es rule: verify_induct) (auto dest: verifyEvent_identity(10))
  then have "list_all fst (eventIdentityChecks (hd es) (Some (last es)) e)"
    unfolding e using n key(1) at p run l rev event_types_nonblank [OF st] by (intro built_identity) simp_all
  moreover have "list_all fst (eventHistoryChecks (Some (last es)) (rev (map evKey es)) e h)"
    using key(2) l a st
    by (simp add: eventHistoryChecks_def e built_simps assertFoundryEventTransition_def
        assertFoundryTransition_def run_step_iff)
  ultimately have "verifyEvent (hd es) (Some (last es)) (rev (map evKey es)) e = Inr ()"
    unfolding verifyEvent_def by (simp add: e built_simps h)
  with v ne show ?thesis by (simp add: verify_snoc)
qed

section \<open>Tamper evidence\<close>

lemma plain_withoutKey: "plain v \<Longrightarrow> plain (withoutKey k v)"
  by (cases v) (auto simp: withoutKey_def entriesOf_def)

text \<open>The text whose hash an event carries, and two events that exhibit a SHA-256 collision.\<close>

definition hashedText :: "json \<Rightarrow> string" where
  "hashedText e = (case canonicalJsonText (withoutKey ''event_hash'' e) of Inr t \<Rightarrow> t | Inl x \<Rightarrow> [])"

definition eventsCollide :: "json \<Rightarrow> json \<Rightarrow> bool" where
  "eventsCollide e g \<longleftrightarrow> collision (hashedText e) (hashedText g)"

lemma eventHash_eqD:
  assumes "plain e" "plain g" "eventHash (withoutKey ''event_hash'' e) = Inr h"
    "eventHash (withoutKey ''event_hash'' g) = Inr h"
  shows "norm (withoutKey ''event_hash'' e) = norm (withoutKey ''event_hash'' g) \<or> eventsCollide e g"
proof -
  let ?v = "norm (withoutKey ''event_hash'' e)" and ?w = "norm (withoutKey ''event_hash'' g)"
  have p: "plain ?v" "plain ?w" using assms(1, 2) by (simp_all add: plain_withoutKey)
  have t: "hashedText e = jtext ?v" "hashedText g = jtext ?w"
    using p by (simp_all add: hashedText_def canonicalJsonText_plain)
  have "sha256Hex (jtext ?v) = sha256Hex (jtext ?w)"
    using assms(3, 4) p by (auto simp: eventHash_def canonicalJsonText_plain)
  with sha256Hex_eqD have "jtext ?v = jtext ?w \<or> eventsCollide e g"
    unfolding eventsCollide_def t by blast
  with p jtext_inj show ?thesis by blast
qed

lemma norm_JObj_eq:
  assumes "mset (map (\<lambda>(k, v). (k, norm v)) kvs) = mset (map (\<lambda>(k, v). (k, norm v)) kvs')"
    "distinct (map fst kvs)"
  shows "norm (JObj kvs) = norm (JObj kvs')"
proof -
  let ?n = "map (\<lambda>(k, v). (k, norm v))"
  have "distinct (map fst (?n kvs))" using assms(2) by (simp add: split_beta comp_def)
  then have "inj_on fst (set (?n kvs))" unfolding distinct_map by blast
  then have "sort_key fst (?n kvs) = sort_key fst (?n kvs')"
    using assms(1) by (intro sort_key_inj_key_eq) simp_all
  then show ?thesis by simp
qed

lemma mset_pull_key:
  "distinct (map fst xs) \<Longrightarrow> k \<in> fst ` set xs \<Longrightarrow>
     mset xs = add_mset (k, fld k (JObj xs)) (mset (filter (\<lambda>kv. fst kv \<noteq> k) xs))"
proof (induction xs)
  case (Cons a xs)
  obtain k' v where a: "a = (k', v)" by (cases a)
  show ?case
  proof (cases "k' = k")
    case True
    with Cons.prems(1) a have "k \<notin> fst ` set xs" by simp
    then have "filter (\<lambda>kv. fst kv \<noteq> k) xs = xs" by (intro filter_True) blast
    with True a show ?thesis by simp
  next
    case False
    with Cons.prems a have "distinct (map fst xs)" "k \<in> fst ` set xs" by simp_all
    from Cons.IH [OF this] False a show ?thesis by simp
  qed
qed simp

text \<open>Putting the hash entry back.\<close>

lemma norm_from_withoutKey:
  assumes d: "distinct (objKeys v)" "distinct (objKeys w)" and r: "isRecord v" "isRecord w"
    and k: "k \<in> set (objKeys v)" "k \<in> set (objKeys w)" "fld k v = fld k w"
    and n: "norm (withoutKey k v) = norm (withoutKey k w)"
  shows "norm v = norm w"
proof -
  from r obtain kvs kvs' where vw: "v = JObj kvs" "w = JObj kvs'"
    by (auto simp: isRecord_def split: json.splits)
  let ?n = "\<lambda>(k, v). (k, norm v)"
  let ?f = "filter (\<lambda>kv. fst kv \<noteq> k)"
  have "sort_key fst (map ?n (?f kvs)) = sort_key fst (map ?n (?f kvs'))"
    using n by (simp add: vw withoutKey_def)
  from arg_cong [OF this, of mset] have rest: "mset (map ?n (?f kvs)) = mset (map ?n (?f kvs'))" by simp
  have pull: "mset (map ?n xs) = add_mset (k, norm (fld k (JObj xs))) (mset (map ?n (?f xs)))"
    if "distinct (map fst xs)" "k \<in> fst ` set xs" for xs
    unfolding mset_map by (subst mset_pull_key [OF that]) (simp del: mset_filter)
  have "mset (map ?n kvs) = mset (map ?n kvs')"
    using pull [of kvs] pull [of kvs'] rest d k vw by simp
  then show ?thesis unfolding vw using d(1) vw by (intro norm_JObj_eq) simp_all
qed

lemma event_tamper:
  assumes e: "verifyEvent f p seen e = Inr ()" and g: "verifyEvent f' p' seen' g = Inr ()"
    and pl: "plain e" "plain g" and h: "evHash e = evHash g"
  shows "norm e = norm g \<or> eventsCollide e g"
proof -
  note ie = verifyEvent_identity [OF e] and ig = verifyEvent_identity [OF g]
  have d: "distinct (objKeys e)" "distinct (objKeys g)"
    using ie(2) ig(2) EVENT_FIELDS_distinct by (blast intro: sameKeys_distinct)+
  have m: "set (objKeys e) = set EVENT_FIELDS" "set (objKeys g) = set EVENT_FIELDS"
    using ie(2) ig(2) unfolding sameKeys_iff by (metis set_mset_mset)+
  have k: "''event_hash'' \<in> set (objKeys e)" "''event_hash'' \<in> set (objKeys g)"
    unfolding m by (simp_all add: EVENT_FIELDS_def)
  have f: "fld ''event_hash'' e = fld ''event_hash'' g"
    using ie(4) ig(4) h by (simp add: evHash_def isStr_JStr)
  have "norm (withoutKey ''event_hash'' e) = norm (withoutKey ''event_hash'' g) \<or> eventsCollide e g"
    by (rule eventHash_eqD [OF pl ie(13)]) (simp add: h ig(13))
  then show ?thesis using norm_from_withoutKey [OF d ie(1) ig(1) k f] by blast
qed

lemma norm_eq_fld:
  assumes "norm e = norm g" "distinct (objKeys e)" "distinct (objKeys g)"
  shows "fld k e = JStr s \<longleftrightarrow> fld k g = JStr s" "numOf (fld k e) = numOf (fld k g)"
proof -
  have n: "norm (fld k e) = norm (fld k g)" using norm_fld_eq assms by blast
  then show "fld k e = JStr s \<longleftrightarrow> fld k g = JStr s" by (metis norm_JStr(1))
  from n show "numOf (fld k e) = numOf (fld k g)"
    by (cases "fld k e"; cases "fld k g") (auto simp: numOf_def)
qed

lemma verified_revision:
  "verifyFoundryEventChain es = Inr () \<Longrightarrow> numOf (fld ''revision'' (last es)) = jint (int (length es))"
  using verify_chainSpec [of es] verify_nonempty [of es] unfolding chainSpec_def
  by (cases es rule: rev_cases) (simp_all add: add.commute)

text \<open>The last event of a verified chain, with what came before it.\<close>

lemma verify_last_event:
  assumes "verifyFoundryEventChain es = Inr ()"
  shows "\<exists>p seen. verifyEvent (hd es) p seen (last es) = Inr ()"
  using assms
proof (cases es rule: rev_cases)
  case (snoc xs x)
  with assms show ?thesis
    by (cases "xs = []") (auto simp: verify_single verify_snoc)
qed (simp add: verifyFoundryEventChain_def)

lemma chain_last_eq:
  assumes es: "verifyFoundryEventChain es = Inr ()" and fs: "verifyFoundryEventChain fs = Inr ()"
    and pl: "plain (last es)" "plain (last fs)" and h: "evHash (last es) = evHash (last fs)"
    and nc: "\<not> eventsCollide (last es) (last fs)"
  shows "norm (last es) = norm (last fs)" "length es = length fs"
    "fld ''previous_event_hash'' (last es) = JStr s \<longleftrightarrow> fld ''previous_event_hash'' (last fs) = JStr s"
proof -
  obtain p seen where e: "verifyEvent (hd es) p seen (last es) = Inr ()" using verify_last_event [OF es] by blast
  obtain q seen' where f: "verifyEvent (hd fs) q seen' (last fs) = Inr ()" using verify_last_event [OF fs] by blast
  show n: "norm (last es) = norm (last fs)" using event_tamper [OF e f pl h] nc by blast
  have d: "distinct (objKeys (last es))" "distinct (objKeys (last fs))"
    using verifyEvent_identity(2) [OF e] verifyEvent_identity(2) [OF f] EVENT_FIELDS_distinct sameKeys_distinct
    by blast+
  from norm_eq_fld(2) [OF n d, of "''revision''"]
  show "length es = length fs" by (simp add: verified_revision [OF es] verified_revision [OF fs])
  show "fld ''previous_event_hash'' (last es) = JStr s \<longleftrightarrow> fld ''previous_event_hash'' (last fs) = JStr s"
    by (rule norm_eq_fld(1) [OF n d])
qed

lemma verify_tamper:
  assumes "verifyFoundryEventChain es = Inr ()" "verifyFoundryEventChain fs = Inr ()"
    "\<forall>e \<in> set es \<union> set fs. plain e" "evHash (last es) = evHash (last fs)"
  shows "map norm es = map norm fs \<or> (\<exists>(e, f) \<in> set (zip (rev es) (rev fs)). eventsCollide e f)"
  using assms
proof (induction es arbitrary: fs rule: verify_induct)
  case (first e)
  have v: "verifyFoundryEventChain [e] = Inr ()" using first.hyps by (simp add: verify_single)
  obtain gs g where fs: "fs = gs @ [g]" using verify_nonempty [OF first.prems(1)] by (meson rev_exhaust)
  show ?case
  proof (cases "eventsCollide e g")
    case False
    with first.prems fs have pl: "plain (last [e])" "plain (last fs)" "\<not> eventsCollide (last [e]) (last fs)" by simp_all
    note c = chain_last_eq [OF v first.prems(1) pl(1, 2) first.prems(3) pl(3)]
    with fs show ?thesis by simp
  qed (simp add: fs)
next
  case (step es e)
  have v: "verifyFoundryEventChain (es @ [e]) = Inr ()" using step.hyps by (simp add: verify_snoc)
  obtain gs g where fs: "fs = gs @ [g]" using verify_nonempty [OF step.prems(1)] by (meson rev_exhaust)
  show ?case
  proof (cases "eventsCollide e g")
    case False
    with step.prems fs have pl: "plain (last (es @ [e]))" "plain (last fs)" "\<not> eventsCollide (last (es @ [e])) (last fs)" by simp_all
    note c = chain_last_eq [OF v step.prems(1) pl(1, 2) step.prems(3) pl(3)]
    from c(2) fs have "length gs = length es" by simp
    with step.hyps(1) have gne: "gs \<noteq> []" by auto
    from step.prems(1) fs gne have gv: "verifyFoundryEventChain gs = Inr ()" by (simp add: verify_snoc)
    have link: "fld ''previous_event_hash'' (last (xs @ [x])) = JStr (evHash (last xs))"
      if "verifyFoundryEventChain (xs @ [x]) = Inr ()" "xs \<noteq> []" for xs x
    proof -
      from that have "verifyFoundryEventChain xs = Inr ()"
        "verifyEvent (hd xs) (Some (last xs)) (rev (map evKey xs)) x = Inr ()" by (simp_all add: verify_snoc)
      from verifyEvent_next(2) [OF this(2)] verify_last [OF this(1)] show ?thesis by simp
    qed
    have "JStr (evHash (last es)) = JStr (evHash (last gs))"
      using link [OF v step.hyps(1)] link [OF step.prems(1) [unfolded fs] gne] c(3) fs by metis
    then have "map norm es = map norm gs \<or> (\<exists>(e, f) \<in> set (zip (rev es) (rev gs)). eventsCollide e f)"
      using step.IH [OF gv] step.prems(2) fs by simp
    with c(1) fs show ?thesis by auto
  qed (simp add: fs)
qed

section \<open>The first event, snapshots and replays\<close>

definition acceptancePayload :: "string \<Rightarrow> string \<Rightarrow> string \<Rightarrow> int \<Rightarrow> json" where
  "acceptancePayload agent domain digest revision = JObj [(''target_agent_id'', JStr agent),
     (''target_domain_id'', JStr domain), (''request_digest'', JStr digest),
     (''activation_revision_at_start'', jInt revision), (''generation'', jInt 0)]"

lemma plain_jInt [simp]: "plain (jInt i) \<longleftrightarrow> numOk (of_int i)"
  by (simp add: jInt_def jint_def)

lemma plain_eventBody:
  "plain payload \<Longrightarrow> \<bar>n\<bar> < 2 ^ 53 \<Longrightarrow> plain (eventBody run n ty from to ts key prev payload)"
  by (cases "from"; cases prev) (simp_all add: eventBody_def numOk_int)

lemma plain_built:
  "plain payload \<Longrightarrow> \<bar>n\<bar> < 2 ^ 53 \<Longrightarrow>
     plain (withHash (eventBody run n ty from to ts key prev payload) h)"
  using plain_eventBody [of payload n run ty "from" to ts key prev] by (auto simp: withHash_def eventBody_def)

lemma buildFoundryEvent_total:
  assumes "plain payload" "\<bar>n\<bar> < 2 ^ 53"
    "case from of Some a \<Rightarrow> to \<in> set (ALLOWED_TRANSITIONS a) | None \<Rightarrow> to = Accepted \<and> n = 1"
  shows "\<exists>h. buildFoundryEvent run n ty from to ts key prev payload =
    Inr (withHash (eventBody run n ty from to ts key prev payload) h)"
proof -
  have c: "list_all fst (case from of Some a \<Rightarrow> assertFoundryTransition a to
      | None \<Rightarrow> [(to = Accepted \<and> n = 1, ''The first FoundryRun event must accept revision 1.'')])"
    using assms(3) by (auto simp: assertFoundryTransition_def split: option.splits)
  show ?thesis
    using canonicalJsonText_plain [OF plain_eventBody [OF assms(1, 2)]]
    by (simp add: buildFoundryEvent_def runChecks_ok [OF c] eventHash_def withHash_def Let_def)
qed

lemma verify_first_built:
  assumes b: "buildFoundryEvent run 1 ''foundry_run_accepted'' None Accepted ts key None payload = Inr e"
    and p: "payload = acceptancePayload agent domain digest r"
    and "trim run \<noteq> []" "trim key \<noteq> []" "isoCanonical ts"
    and a: "agent \<noteq> []" "domain \<noteq> []" "isDigest digest" "0 \<le> r" "r < 2 ^ 53"
  shows "verifyFoundryEventChain [e] = Inr ()"
proof -
  obtain h where e: "e = withHash (eventBody run 1 ''foundry_run_accepted'' None Accepted ts key None payload) h"
    and h: "eventHash (eventBody run 1 ''foundry_run_accepted'' None Accepted ts key None payload) = Inr h"
    using buildFoundryEvent_Inr [OF b] by blast
  have "trim ''foundry_run_accepted'' \<noteq> []" by code_simp
  with assms have "list_all fst (eventIdentityChecks e None e)"
    unfolding e by (intro built_identity) (simp_all add: acceptancePayload_def built_simps)
  moreover have "list_all fst (assertAcceptancePayload e)"
    using a by (simp add: assertAcceptancePayload_def e built_simps p Let_def acceptancePayload_def
        sameKeys_iff acceptanceKeys_def jint_def) (simp add: jint_def [symmetric])
  then have "list_all fst (eventHistoryChecks None [] e h)"
    by (simp add: eventHistoryChecks_def e built_simps assertFoundryEventTransition_def jeq_def)
      (simp add: jint_def)
  ultimately show ?thesis
    unfolding verify_single verifyEvent_def by (simp add: e built_simps h)
qed

lemma snapshot_verified:
  assumes v: "verifyFoundryEventChain es = Inr ()"
  shows "\<exists>s. snapshotFromEvents es = Inr s \<and> sn_revision s = int (length es)
    \<and> run_path (map evType es) (sn_run_state s) \<and> evState (last es) = stateName (sn_run_state s)
    \<and> JStr (sn_run_id s) = fld ''run_id'' (last es) \<and> sn_last_event_hash s = evHash (last es)
    \<and> sn_updated_at s = strOf (fld ''occurred_at'' (last es))"
proof -
  obtain st where st: "fld ''to_state'' (last es) = JStr (stateName st)" "run_path (map evType es) st"
    using verify_chainSpec [OF v] unfolding chainSpec_def by blast
  have rev: "intOf (fld ''revision'' (last es)) = int (length es)"
    using verified_revision [OF v] by (simp add: intOf_def jint_def)
  have "isStr (fld ''run_id'' (last es))" using verify_last [OF v] by blast
  then have r: "JStr (strOf (fld ''run_id'' (last es))) = fld ''run_id'' (last es)" by (simp add: isStr_JStr)
  show ?thesis
    using verify_nonempty [OF v] v st rev r by (simp add: snapshotFromEvents_def Let_def evState_def evHash_def)
qed

lemma snapshot_Inr_verified: "snapshotFromEvents es = Inr s \<Longrightarrow> verifyFoundryEventChain es = Inr ()"
  by (auto simp: snapshotFromEvents_def split: if_splits)

text \<open>A terminal run never advances: no event extends its chain.\<close>

lemma terminal_no_append:
  assumes "es \<noteq> []" "evState (last es) = stateName s" "isTerminal s" "verifyFoundryEventChain es = Inr ()"
  shows "verifyFoundryEventChain (es @ [e]) \<noteq> Inr ()"
proof
  assume "verifyFoundryEventChain (es @ [e]) = Inr ()"
  then have v: "verifyEvent (hd es) (Some (last es)) (rev (map evKey es)) e = Inr ()"
    using assms(1) by (simp add: verify_snoc)
  from verify_last [OF assms(4)] have l: "isStr (fld ''run_id'' (last es))" "isStr (fld ''event_hash'' (last es))"
    "isStr (fld ''to_state'' (last es))" by blast+
  note n = verifyEvent_next [OF v l]
  have "fld ''from_state'' e = JStr (stateName s)" using n(4) l(3) assms(2) by (simp add: isStr_JStr evState_def)
  from eventTransition_step [OF n(5) this] assms(3) show False using terminal_no_step by blast
qed

lemma replay_Inr:
  assumes "assertFoundryEventReplay existing candidate n = Inr r"
  shows "r = existing" "canonicalJsonText (logicalEvent existing) = canonicalJsonText (logicalEvent candidate)"
    "numOf (fld ''revision'' candidate) = jint (n + 1)"
  using assms by (auto simp: assertFoundryEventReplay_def jeq_def)

lemma replay_self:
  assumes "numOf (fld ''revision'' e) = jint (n + 1)" "plain (logicalEvent e)"
  shows "assertFoundryEventReplay e e n = Inr e"
  using assms by (simp add: assertFoundryEventReplay_def canonicalJsonText_plain runChecks_ok jeq_def) (simp add: jint_def)

end
