(* ===== verification/Owner_Gate.thy ===== *)
theory Owner_Gate
  imports State_Machine
begin

text \<open>
  \<open>src/src/authority/evolution/owner-gate.ts\<close>: the request an owner decision is checked
  for, the authority receipt it must be covered by, and the verification record that
  binds them.  A validator reads an untrusted JSON value and rebuilds a typed record.
  \<open>dp\<close> says which text \<open>Date.parse\<close> reads.
\<close>

section \<open>Actions and decisions\<close>

datatype gate_action = Authorize_Improve | Approve_Canary | Reject_Canary | Approve_Active | Reject_Active
  | Cancel_Run | Rollback

datatype gate_decision = Approve | Reject | Cancel | Roll_Back

definition allActions :: "gate_action list" where
  "allActions = [Authorize_Improve, Approve_Canary, Reject_Canary, Approve_Active, Reject_Active, Cancel_Run,
     Rollback]"

fun actionName :: "gate_action \<Rightarrow> string" where
  "actionName Authorize_Improve = ''authorize_improve''"
| "actionName Approve_Canary = ''approve_canary''"
| "actionName Reject_Canary = ''reject_canary''"
| "actionName Approve_Active = ''approve_active''"
| "actionName Reject_Active = ''reject_active''"
| "actionName Cancel_Run = ''cancel''"
| "actionName Rollback = ''rollback''"

fun decisionName :: "gate_decision \<Rightarrow> string" where
  "decisionName Approve = ''approve''"
| "decisionName Reject = ''reject''"
| "decisionName Cancel = ''cancel''"
| "decisionName Roll_Back = ''rollback''"

definition actionOf :: "string \<Rightarrow> gate_action option" where
  "actionOf s = find (\<lambda>a. actionName a = s) allActions"

definition decisionOf :: "string \<Rightarrow> gate_decision option" where
  "decisionOf s = find (\<lambda>d. decisionName d = s) [Approve, Reject, Cancel, Roll_Back]"

fun ACTION_DECISIONS :: "gate_action \<Rightarrow> gate_decision" where
  "ACTION_DECISIONS Authorize_Improve = Approve"
| "ACTION_DECISIONS Approve_Canary = Approve"
| "ACTION_DECISIONS Reject_Canary = Reject"
| "ACTION_DECISIONS Approve_Active = Approve"
| "ACTION_DECISIONS Reject_Active = Reject"
| "ACTION_DECISIONS Cancel_Run = Cancel"
| "ACTION_DECISIONS Rollback = Roll_Back"

section \<open>Records\<close>

record gate_context =
  cx_authority_receipt_ref :: string
  cx_action :: gate_action
  cx_decision :: gate_decision
  cx_target_agent_id :: string
  cx_target_domain_id :: string
  cx_run_id :: "string option"
  cx_version_digest :: "string option"
  cx_expected_revision :: int

record receipt_statement =
  rs_receipt_id :: string
  rs_authority_ref :: string
  rs_action :: gate_action
  rs_decision :: gate_decision
  rs_target_agent_id :: string
  rs_target_domain_id :: string
  rs_run_id :: "string option"
  rs_version_digest :: "string option"
  rs_expected_revision :: int
  rs_issued_at :: string

record owner_receipt = receipt_statement +
  or_receipt_digest :: string
  or_receipt_ref :: string

record gate_verification =
  gv_verifier_id :: string
  gv_verification_ref :: string
  gv_authority_policy_ref :: string
  gv_verified_at :: string
  gv_covered_authority_ref :: string
  gv_receipt :: owner_receipt

section \<open>Guards\<close>

definition nullableString :: "json \<Rightarrow> string \<Rightarrow> check list" where
  "nullableString v f = (if v = JNull then [] else requiredString v f)"

definition nullableTrimmed :: "json \<Rightarrow> string option" where
  "nullableTrimmed v = (if v = JNull then None else Some (trimmed v))"

definition expectedRevision :: "json \<Rightarrow> string \<Rightarrow> check list" where
  "expectedRevision v f = [(isSafeInteger (numOf v) \<and> \<not> jlt (numOf v) (jint 0),
     f @ '' must be a non-negative safe integer.'')]"

definition timestamp :: "(string \<Rightarrow> bool) \<Rightarrow> json \<Rightarrow> string \<Rightarrow> check list" where
  "timestamp dp v f = requiredString v f @ [(dp (trimmed v), f @ '' must be an ISO-compatible timestamp.'')]"

definition optionalDigest :: "json \<Rightarrow> string \<Rightarrow> check list" where
  "optionalDigest v f = (if v = JNull then []
     else requiredString v f @ [(isDigest (trimmed v), f @ '' must be a SHA-256 digest.'')])"

definition actionCheck :: "json \<Rightarrow> string \<Rightarrow> check list" where
  "actionCheck v f = requiredString v f @ [(actionOf (trimmed v) \<noteq> None, f @ '' is invalid.'')]"

definition decisionCheck :: "json \<Rightarrow> string \<Rightarrow> check list" where
  "decisionCheck v f = requiredString v f @ [(decisionOf (trimmed v) \<noteq> None, f @ '' is invalid.'')]"

definition assertActionDecision :: "json \<Rightarrow> json \<Rightarrow> string \<Rightarrow> check list" where
  "assertActionDecision a d label =
     [(map_option ACTION_DECISIONS (actionOf (trimmed a)) = decisionOf (trimmed d),
       label @ '' action and decision do not agree.'')]"

definition assertRunVersionShape :: "json \<Rightarrow> json \<Rightarrow> json \<Rightarrow> string \<Rightarrow> check list" where
  "assertRunVersionShape a run version label =
     (if trimmed a = ''rollback''
      then [(run = JNull \<and> version \<noteq> JNull,
        label @ '' rollback must bind one version digest and no FoundryRun id.'')]
      else [(run \<noteq> JNull, label @ '' '' @ trimmed a @ '' must bind one FoundryRun id.''),
        (trimmed a = ''cancel'' \<or> version \<noteq> JNull,
         label @ '' '' @ trimmed a @ '' must bind the qualified AgentVersion digest.'')])"

text \<open>Shared by the context and the statement: action, decision, run and version.\<close>

definition mutationChecks :: "string \<Rightarrow> string \<Rightarrow> string \<Rightarrow> json \<Rightarrow> check list" where
  "mutationChecks label shapeLabel f v =
     actionCheck (fld ''action'' v) (f @ '' action'') @
     decisionCheck (fld ''decision'' v) (f @ '' decision'') @
     assertActionDecision (fld ''action'' v) (fld ''decision'' v) label @
     nullableString (fld ''run_id'' v) (f @ '' run_id'') @
     optionalDigest (fld ''version_digest'' v) (f @ '' version_digest'') @
     assertRunVersionShape (fld ''action'' v) (fld ''run_id'' v) (fld ''version_digest'' v) shapeLabel"

definition gateDigest :: "json \<Rightarrow> string res" where
  "gateDigest v = mapE (\<lambda>t. ''sha256:'' @ sha256Hex t) (canonicalJsonText v)"

definition ownerAuthorityReceiptRef :: "string \<Rightarrow> string res" where
  "ownerAuthorityReceiptRef d = bindE (runChecks [(isDigest d, ''Owner authority receipt digest is invalid.'')])
     (\<lambda>u. Inr (''opl://foundry/owner-authority-receipts/'' @ d))"

section \<open>Validators\<close>

definition contextKeys :: "string list" where
  "contextKeys = [''surface_kind'', ''version'', ''authority_receipt_ref'', ''action'', ''decision'',
     ''target_agent_id'', ''target_domain_id'', ''run_id'', ''version_digest'', ''expected_revision'']"

definition contextChecks :: "json \<Rightarrow> check list" where
  "contextChecks v =
     [(isRecord v, ''Owner gate verification context must be an object.''),
      (sameKeys v contextKeys, ''Owner gate verification context has unknown or missing fields.''),
      (fld ''surface_kind'' v = JStr ''opl_foundry_owner_gate_verification_context''
        \<and> fld ''version'' v = JStr ''opl-foundry-owner-gate-verification-context.v1'',
       ''Owner gate verification context identity is invalid.'')] @
     mutationChecks ''Owner gate verification context'' ''Owner gate context'' ''Owner gate context'' v @
     requiredString (fld ''authority_receipt_ref'' v) ''Owner gate context authority_receipt_ref'' @
     requiredString (fld ''target_agent_id'' v) ''Owner gate context target_agent_id'' @
     requiredString (fld ''target_domain_id'' v) ''Owner gate context target_domain_id'' @
     expectedRevision (fld ''expected_revision'' v) ''Owner gate context expected_revision''"

definition validateOwnerGateVerificationContext :: "json \<Rightarrow> gate_context res" where
  "validateOwnerGateVerificationContext v = bindE (runChecks (contextChecks v)) (\<lambda>u. Inr \<lparr>
     cx_authority_receipt_ref = trimmed (fld ''authority_receipt_ref'' v),
     cx_action = the (actionOf (trimmed (fld ''action'' v))),
     cx_decision = the (decisionOf (trimmed (fld ''decision'' v))),
     cx_target_agent_id = trimmed (fld ''target_agent_id'' v),
     cx_target_domain_id = trimmed (fld ''target_domain_id'' v),
     cx_run_id = nullableTrimmed (fld ''run_id'' v),
     cx_version_digest = nullableTrimmed (fld ''version_digest'' v),
     cx_expected_revision = intOf (fld ''expected_revision'' v) \<rparr>)"

definition statementKeys :: "string list" where
  "statementKeys = [''surface_kind'', ''version'', ''receipt_id'', ''authority_ref'', ''action'', ''decision'',
     ''target_agent_id'', ''target_domain_id'', ''run_id'', ''version_digest'', ''expected_revision'', ''issued_at'']"

definition statementChecks :: "(string \<Rightarrow> bool) \<Rightarrow> json \<Rightarrow> check list" where
  "statementChecks dp v =
     [(isRecord v, ''Owner authority receipt statement must be an object.''),
      (sameKeys v statementKeys, ''Owner authority receipt statement has unknown or missing fields.''),
      (fld ''surface_kind'' v = JStr ''opl_foundry_owner_authority_receipt''
        \<and> fld ''version'' v = JStr ''opl-foundry-owner-authority-receipt.v1'',
       ''Owner authority receipt identity is invalid.'')] @
     mutationChecks ''Owner authority receipt'' ''Owner authority receipt'' ''Owner authority receipt'' v @
     requiredString (fld ''receipt_id'' v) ''Owner authority receipt receipt_id'' @
     requiredString (fld ''authority_ref'' v) ''Owner authority receipt authority_ref'' @
     requiredString (fld ''target_agent_id'' v) ''Owner authority receipt target_agent_id'' @
     requiredString (fld ''target_domain_id'' v) ''Owner authority receipt target_domain_id'' @
     expectedRevision (fld ''expected_revision'' v) ''Owner authority receipt expected_revision'' @
     timestamp dp (fld ''issued_at'' v) ''Owner authority receipt issued_at''"

definition validateOwnerAuthorityReceiptStatement :: "(string \<Rightarrow> bool) \<Rightarrow> json \<Rightarrow> receipt_statement res" where
  "validateOwnerAuthorityReceiptStatement dp v = bindE (runChecks (statementChecks dp v)) (\<lambda>u. Inr \<lparr>
     rs_receipt_id = trimmed (fld ''receipt_id'' v),
     rs_authority_ref = trimmed (fld ''authority_ref'' v),
     rs_action = the (actionOf (trimmed (fld ''action'' v))),
     rs_decision = the (decisionOf (trimmed (fld ''decision'' v))),
     rs_target_agent_id = trimmed (fld ''target_agent_id'' v),
     rs_target_domain_id = trimmed (fld ''target_domain_id'' v),
     rs_run_id = nullableTrimmed (fld ''run_id'' v),
     rs_version_digest = nullableTrimmed (fld ''version_digest'' v),
     rs_expected_revision = intOf (fld ''expected_revision'' v),
     rs_issued_at = trimmed (fld ''issued_at'' v) \<rparr>)"

text \<open>The object a statement is digested as.\<close>

definition statementJson :: "'a receipt_statement_scheme \<Rightarrow> json" where
  "statementJson s = JObj
     [(''surface_kind'', JStr ''opl_foundry_owner_authority_receipt''),
      (''version'', JStr ''opl-foundry-owner-authority-receipt.v1''),
      (''receipt_id'', JStr (rs_receipt_id s)),
      (''authority_ref'', JStr (rs_authority_ref s)),
      (''action'', JStr (actionName (rs_action s))),
      (''decision'', JStr (decisionName (rs_decision s))),
      (''target_agent_id'', JStr (rs_target_agent_id s)),
      (''target_domain_id'', JStr (rs_target_domain_id s)),
      (''run_id'', ofOptStr (rs_run_id s)),
      (''version_digest'', ofOptStr (rs_version_digest s)),
      (''expected_revision'', jInt (rs_expected_revision s)),
      (''issued_at'', JStr (rs_issued_at s))]"

definition receiptJson :: "owner_receipt \<Rightarrow> json" where
  "receiptJson r = JObj (entriesOf (statementJson r) @
     [(''receipt_digest'', JStr (or_receipt_digest r)), (''receipt_ref'', JStr (or_receipt_ref r))])"

definition materializeOwnerAuthorityReceipt :: "(string \<Rightarrow> bool) \<Rightarrow> json \<Rightarrow> owner_receipt res" where
  "materializeOwnerAuthorityReceipt dp v =
     bindE (validateOwnerAuthorityReceiptStatement dp v) (\<lambda>s.
     bindE (gateDigest (statementJson s)) (\<lambda>d.
     mapE (\<lambda>ref. receipt_statement.extend s (owner_receipt.fields d ref)) (ownerAuthorityReceiptRef d)))"

definition validateOwnerAuthorityReceipt :: "(string \<Rightarrow> bool) \<Rightarrow> json \<Rightarrow> owner_receipt res" where
  "validateOwnerAuthorityReceipt dp v =
     bindE (runChecks [(isRecord v, ''Owner authority receipt must be an object.''),
       (sameKeys v (statementKeys @ [''receipt_digest'', ''receipt_ref'']),
        ''Owner authority receipt has unknown or missing fields.'')]) (\<lambda>u.
     bindE (materializeOwnerAuthorityReceipt dp (withoutKey ''receipt_ref'' (withoutKey ''receipt_digest'' v))) (\<lambda>r.
     bindE (runChecks [(fld ''receipt_digest'' v = JStr (or_receipt_digest r)
         \<and> fld ''receipt_ref'' v = JStr (or_receipt_ref r),
       ''Owner authority receipt ref or digest does not match its canonical statement.'')]) (\<lambda>u. Inr r)))"

definition verificationKeys :: "string list" where
  "verificationKeys = [''surface_kind'', ''version'', ''verifier_id'', ''verification_ref'', ''authority_policy_ref'',
     ''verified_at'', ''covered_authority_ref'', ''receipt'']"

definition coversContext :: "gate_context \<Rightarrow> owner_receipt \<Rightarrow> string \<Rightarrow> bool" where
  "coversContext c r covered \<longleftrightarrow>
     or_receipt_ref r = cx_authority_receipt_ref c \<and> rs_action r = cx_action c
     \<and> rs_decision r = cx_decision c \<and> rs_target_agent_id r = cx_target_agent_id c
     \<and> rs_target_domain_id r = cx_target_domain_id c \<and> rs_run_id r = cx_run_id c
     \<and> rs_version_digest r = cx_version_digest c \<and> rs_expected_revision r = cx_expected_revision c
     \<and> rs_authority_ref r = covered"

definition validateOwnerGateVerification :: "(string \<Rightarrow> bool) \<Rightarrow> json \<Rightarrow> json \<Rightarrow> gate_verification res" where
  "validateOwnerGateVerification dp cv v =
     bindE (validateOwnerGateVerificationContext cv) (\<lambda>c.
     bindE (runChecks [(isRecord v, ''Owner gate verification must be an object.''),
       (sameKeys v verificationKeys, ''Owner gate verification has unknown or missing fields.''),
       (fld ''surface_kind'' v = JStr ''opl_foundry_owner_gate_verification''
         \<and> fld ''version'' v = JStr ''opl-foundry-owner-gate-verification.v1'',
        ''Owner gate verification identity is invalid.'')]) (\<lambda>u.
     bindE (validateOwnerAuthorityReceipt dp (fld ''receipt'' v)) (\<lambda>r.
     bindE (runChecks (requiredString (fld ''covered_authority_ref'' v) ''Owner gate verification covered_authority_ref'' @
       [(coversContext c r (trimmed (fld ''covered_authority_ref'' v)),
         ''Owner gate verification does not cover the exact requested authority mutation.'')] @
       requiredString (fld ''verifier_id'' v) ''Owner gate verification verifier_id'' @
       requiredString (fld ''verification_ref'' v) ''Owner gate verification verification_ref'' @
       requiredString (fld ''authority_policy_ref'' v) ''Owner gate verification authority_policy_ref'' @
       timestamp dp (fld ''verified_at'' v) ''Owner gate verification verified_at'')) (\<lambda>u.
     Inr \<lparr> gv_verifier_id = trimmed (fld ''verifier_id'' v),
       gv_verification_ref = trimmed (fld ''verification_ref'' v),
       gv_authority_policy_ref = trimmed (fld ''authority_policy_ref'' v),
       gv_verified_at = trimmed (fld ''verified_at'' v),
       gv_covered_authority_ref = trimmed (fld ''covered_authority_ref'' v),
       gv_receipt = r \<rparr>))))"

text \<open>\<open>FailClosedOwnerGate.verify\<close>: every request is refused with the configured reason.\<close>

definition failClosedVerify :: "string \<Rightarrow> gate_context \<Rightarrow> gate_verification res" where
  "failClosedVerify reason c = fail reason"

section \<open>Trimming\<close>

lemma dropWhile_id: "xs = [] \<or> \<not> P (hd xs) \<Longrightarrow> dropWhile P xs = xs"
  by (cases xs) auto

lemma hd_dropWhile': "dropWhile P xs = [] \<or> \<not> P (hd (dropWhile P xs))"
  by (metis hd_dropWhile)

lemma trim_trim [simp]: "trim (trim s) = trim s"
proof -
  define t where "t = dropWhile isWs s"
  define r where "r = rev (dropWhile isWs (rev t))"
  have tr: "trim s = r" by (simp add: trim_def t_def r_def)
  have t: "t = [] \<or> \<not> isWs (hd t)" unfolding t_def by (rule hd_dropWhile')
  have "t = r @ rev (takeWhile isWs (rev t))"
    unfolding r_def by (metis rev_append rev_rev_ident takeWhile_dropWhile_id)
  then have h: "r = [] \<or> \<not> isWs (hd r)" using t by (metis append_is_Nil_conv hd_append2)
  have "rev r = [] \<or> \<not> isWs (hd (rev r))" unfolding r_def rev_rev_ident by (rule hd_dropWhile')
  then have "dropWhile isWs (rev r) = rev r" by (rule dropWhile_id)
  then show ?thesis unfolding tr by (simp add: trim_def dropWhile_id [of r isWs, OF h])
qed

lemma not_ws: "isLowerHex c \<Longrightarrow> \<not> isWs c"
  by (auto simp: isLowerHex_def isDigit_def isWs_def less_eq_char_def)

lemma trim_id: "s \<noteq> [] \<Longrightarrow> \<not> isWs (hd s) \<Longrightarrow> \<not> isWs (last s) \<Longrightarrow> trim s = s"
  by (simp add: trim_def dropWhile_id hd_rev)

section \<open>Statements\<close>

lemma actionOf_actionName [simp]: "actionOf (actionName a) = Some a"
  by (cases a) (simp_all add: actionOf_def allActions_def)

lemma decisionOf_decisionName [simp]: "decisionOf (decisionName d) = Some d"
  by (cases d) (simp_all add: decisionOf_def)

lemma actionOf_Some: "actionOf s = Some a \<longleftrightarrow> s = actionName a"
proof
  assume "actionOf s = Some a"
  then show "s = actionName a" unfolding actionOf_def by - (drule find_Some_iff2, simp)
qed simp

lemma decisionOf_Some: "decisionOf s = Some d \<longleftrightarrow> s = decisionName d"
proof
  assume "decisionOf s = Some d"
  then show "s = decisionName d" unfolding decisionOf_def by - (drule find_Some_iff2, simp)
qed simp

text \<open>The statements the validator can return.\<close>

definition wfStatement :: "(string \<Rightarrow> bool) \<Rightarrow> 'a receipt_statement_scheme \<Rightarrow> bool" where
  "wfStatement dp s \<longleftrightarrow>
     (\<forall>t \<in> {rs_receipt_id s, rs_authority_ref s, rs_target_agent_id s, rs_target_domain_id s, rs_issued_at s}.
        trim t = t \<and> t \<noteq> []) \<and>
     (\<forall>t. rs_run_id s = Some t \<longrightarrow> trim t = t \<and> t \<noteq> []) \<and>
     (\<forall>t. rs_version_digest s = Some t \<longrightarrow> trim t = t \<and> isDigest t) \<and>
     rs_decision s = ACTION_DECISIONS (rs_action s) \<and>
     (rs_action s = Rollback \<longrightarrow> rs_run_id s = None \<and> rs_version_digest s \<noteq> None) \<and>
     (rs_action s \<noteq> Rollback \<longrightarrow> rs_run_id s \<noteq> None \<and> (rs_action s = Cancel_Run \<or> rs_version_digest s \<noteq> None)) \<and>
     0 \<le> rs_expected_revision s \<and> rs_expected_revision s < 2 ^ 53 \<and> dp (rs_issued_at s)"

lemma safe_nonneg:
  "isSafeInteger x \<Longrightarrow> \<not> jlt x (jint 0) \<Longrightarrow> \<exists>i. x = jint i \<and> 0 \<le> i \<and> i < 2 ^ 53"
  by (erule safe_intE) (auto simp: jint_def)

lemma intOf_safe:
  "isSafeInteger (numOf v) \<Longrightarrow> \<not> jlt (numOf v) (jint 0) \<Longrightarrow> 0 \<le> intOf v \<and> intOf v < 2 ^ 53"
  by (drule (1) safe_nonneg) (auto simp: intOf_def jint_def)

lemma actionName_special: "actionName a = ''rollback'' \<longleftrightarrow> a = Rollback" "actionName a = ''cancel'' \<longleftrightarrow> a = Cancel_Run"
  by (cases a; simp)+

lemma mutationChecks_facts:
  assumes "list_all fst (mutationChecks l l' f v)"
  shows "\<exists>a. actionOf (trimmed (fld ''action'' v)) = Some a
      \<and> decisionOf (trimmed (fld ''decision'' v)) = Some (ACTION_DECISIONS a)
      \<and> (a = Rollback \<longrightarrow> fld ''run_id'' v = JNull \<and> fld ''version_digest'' v \<noteq> JNull)
      \<and> (a \<noteq> Rollback \<longrightarrow> fld ''run_id'' v \<noteq> JNull \<and> (a = Cancel_Run \<or> fld ''version_digest'' v \<noteq> JNull))"
proof -
  from assms obtain a where a: "actionOf (trimmed (fld ''action'' v)) = Some a"
    by (auto simp: mutationChecks_def actionCheck_def)
  then have n: "trimmed (fld ''action'' v) = actionName a" by (simp add: actionOf_Some)
  show ?thesis
    using assms a n
    by (auto simp: mutationChecks_def assertActionDecision_def assertRunVersionShape_def actionName_special
        split: if_splits)
qed

lemma nullable_facts:
  "list_all fst (nullableString v f) \<Longrightarrow> nullableTrimmed v = Some t \<Longrightarrow> trim t = t \<and> t \<noteq> []"
  "list_all fst (optionalDigest v f) \<Longrightarrow> nullableTrimmed v = Some t \<Longrightarrow> trim t = t \<and> isDigest t"
  "nullableTrimmed v = None \<longleftrightarrow> v = JNull"
  by (auto simp: nullableString_def optionalDigest_def nullableTrimmed_def requiredString_def nonBlank_def trimmed_def
      split: if_splits)

lemma requiredString_facts:
  "list_all fst (requiredString v f) \<Longrightarrow> trimmed v \<noteq> [] \<and> trim (trimmed v) = trimmed v \<and> isStr v"
  by (simp add: requiredString_def nonBlank_def trimmed_def)

lemma validateStatement_wf:
  assumes "validateOwnerAuthorityReceiptStatement dp v = Inr s"
  shows "wfStatement dp s"
proof -
  from assms have c: "list_all fst (statementChecks dp v)"
    and s: "s = \<lparr> rs_receipt_id = trimmed (fld ''receipt_id'' v), rs_authority_ref = trimmed (fld ''authority_ref'' v),
      rs_action = the (actionOf (trimmed (fld ''action'' v))), rs_decision = the (decisionOf (trimmed (fld ''decision'' v))),
      rs_target_agent_id = trimmed (fld ''target_agent_id'' v), rs_target_domain_id = trimmed (fld ''target_domain_id'' v),
      rs_run_id = nullableTrimmed (fld ''run_id'' v), rs_version_digest = nullableTrimmed (fld ''version_digest'' v),
      rs_expected_revision = intOf (fld ''expected_revision'' v), rs_issued_at = trimmed (fld ''issued_at'' v) \<rparr>"
    by (auto simp: validateOwnerAuthorityReceiptStatement_def)
  have m: "list_all fst (mutationChecks ''Owner authority receipt'' ''Owner authority receipt'' ''Owner authority receipt'' v)"
    and r: "list_all fst (requiredString (fld ''receipt_id'' v) ''Owner authority receipt receipt_id'')"
      "list_all fst (requiredString (fld ''authority_ref'' v) ''Owner authority receipt authority_ref'')"
      "list_all fst (requiredString (fld ''target_agent_id'' v) ''Owner authority receipt target_agent_id'')"
      "list_all fst (requiredString (fld ''target_domain_id'' v) ''Owner authority receipt target_domain_id'')"
      "list_all fst (requiredString (fld ''issued_at'' v) ''Owner authority receipt issued_at'')"
    and e: "list_all fst (expectedRevision (fld ''expected_revision'' v) ''Owner authority receipt expected_revision'')"
    and t: "dp (trimmed (fld ''issued_at'' v))"
    using c by (simp_all add: statementChecks_def timestamp_def)
  obtain a where mf: "actionOf (trimmed (fld ''action'' v)) = Some a"
      "decisionOf (trimmed (fld ''decision'' v)) = Some (ACTION_DECISIONS a)"
      "a = Rollback \<longrightarrow> fld ''run_id'' v = JNull \<and> fld ''version_digest'' v \<noteq> JNull"
      "a \<noteq> Rollback \<longrightarrow> fld ''run_id'' v \<noteq> JNull \<and> (a = Cancel_Run \<or> fld ''version_digest'' v \<noteq> JNull)"
    using mutationChecks_facts [OF m] by blast
  have n: "list_all fst (nullableString (fld ''run_id'' v) (''Owner authority receipt'' @ '' run_id''))"
    "list_all fst (optionalDigest (fld ''version_digest'' v) (''Owner authority receipt'' @ '' version_digest''))"
    using m unfolding mutationChecks_def list_all_append by blast+
  have i: "0 \<le> intOf (fld ''expected_revision'' v)" "intOf (fld ''expected_revision'' v) < 2 ^ 53"
    using e intOf_safe by (simp_all add: expectedRevision_def)
  show ?thesis
    unfolding wfStatement_def s
    using mf(3, 4) i t nullable_facts(1) [OF n(1)] nullable_facts(2) [OF n(2)] r [THEN requiredString_facts]
    by (simp add: mf(1, 2) nullable_facts(3))
qed

lemma isDigest_nonempty: "isDigest t \<Longrightarrow> t \<noteq> []"
  by (auto simp: isDigest_def matchesPrefixHex64_def startsWith_def)

lemma statementJson_fld:
  "fld ''surface_kind'' (statementJson s) = JStr ''opl_foundry_owner_authority_receipt''"
  "fld ''version'' (statementJson s) = JStr ''opl-foundry-owner-authority-receipt.v1''"
  "fld ''receipt_id'' (statementJson s) = JStr (rs_receipt_id s)"
  "fld ''authority_ref'' (statementJson s) = JStr (rs_authority_ref s)"
  "fld ''action'' (statementJson s) = JStr (actionName (rs_action s))"
  "fld ''decision'' (statementJson s) = JStr (decisionName (rs_decision s))"
  "fld ''target_agent_id'' (statementJson s) = JStr (rs_target_agent_id s)"
  "fld ''target_domain_id'' (statementJson s) = JStr (rs_target_domain_id s)"
  "fld ''run_id'' (statementJson s) = ofOptStr (rs_run_id s)"
  "fld ''version_digest'' (statementJson s) = ofOptStr (rs_version_digest s)"
  "fld ''expected_revision'' (statementJson s) = jInt (rs_expected_revision s)"
  "fld ''issued_at'' (statementJson s) = JStr (rs_issued_at s)"
  "isRecord (statementJson s)" "sameKeys (statementJson s) statementKeys"
  by (simp_all add: statementJson_def sameKeys_iff statementKeys_def)

lemma nonBlank_JStr [simp]: "nonBlank (JStr s) \<longleftrightarrow> trim s \<noteq> []"
  by (simp add: nonBlank_def)

lemma requiredString_JStr [simp]: "list_all fst (requiredString (JStr s) f) \<longleftrightarrow> trim s \<noteq> []"
  by (simp add: requiredString_def)

lemma nullable_ofOptStr [simp]:
  "list_all fst (nullableString (ofOptStr o') f) \<longleftrightarrow> (\<forall>t. o' = Some t \<longrightarrow> trim t \<noteq> [])"
  "list_all fst (optionalDigest (ofOptStr o') f) \<longleftrightarrow> (\<forall>t. o' = Some t \<longrightarrow> trim t \<noteq> [] \<and> isDigest (trim t))"
  "nullableTrimmed (ofOptStr o') = map_option trim o'" "ofOptStr o' = JNull \<longleftrightarrow> o' = None"
  by (cases o'; simp add: nullableString_def optionalDigest_def nullableTrimmed_def)+

lemma intOf_jInt [simp]: "intOf (jInt i) = i"
  by (simp add: intOf_def jint_def)

lemma actionName_trim [simp]: "trim (actionName a) = actionName a" "trim (decisionName d) = decisionName d"
    "actionName a \<noteq> []" "decisionName d \<noteq> []"
proof -
  have "list_all (\<lambda>a. trim (actionName a) = actionName a \<and> actionName a \<noteq> []) allActions"
    "list_all (\<lambda>d. trim (decisionName d) = decisionName d \<and> decisionName d \<noteq> []) [Approve, Reject, Cancel, Roll_Back]"
    by code_simp+
  moreover have "a \<in> set allActions" by (cases a) (simp_all add: allActions_def)
  moreover have "d \<in> set [Approve, Reject, Cancel, Roll_Back]" by (cases d) simp_all
  ultimately show "trim (actionName a) = actionName a" "trim (decisionName d) = decisionName d"
    "actionName a \<noteq> []" "decisionName d \<noteq> []"
    unfolding list_all_iff by blast+
qed

lemma mutationChecks_statement:
  assumes "wfStatement dp s"
  shows "list_all fst (mutationChecks l l' f (statementJson s))"
proof -
  have v: "trim t \<noteq> [] \<and> isDigest (trim t)" if "rs_version_digest s = Some t" for t
    using assms that isDigest_nonempty [of t] by (simp add: wfStatement_def)
  then show ?thesis
    using assms
    by (auto simp: mutationChecks_def statementJson_fld actionCheck_def decisionCheck_def assertActionDecision_def
        assertRunVersionShape_def actionName_special wfStatement_def)
qed

lemma trim_option_id: "(\<forall>t. o' = Some t \<longrightarrow> trim t = t) \<Longrightarrow> map_option trim o' = o'"
  by (cases o') simp_all

text \<open>A statement the validator returned validates to itself.\<close>

lemma validateStatement_statementJson:
  fixes s :: receipt_statement
  assumes w: "wfStatement dp s"
  shows "validateOwnerAuthorityReceiptStatement dp (statementJson s) = Inr s"
proof -
  have r: "\<not> jlt (jint (rs_expected_revision s)) (jint 0)" "\<bar>rs_expected_revision s\<bar> < 2 ^ 53"
    using w by (simp_all add: wfStatement_def jint_def)
  have "list_all fst (statementChecks dp (statementJson s))"
    using mutationChecks_statement [OF w] r w
    by (simp add: statementChecks_def statementJson_fld expectedRevision_def timestamp_def wfStatement_def)
  moreover have "map_option trim (rs_run_id s) = rs_run_id s" "map_option trim (rs_version_digest s) = rs_version_digest s"
    using w by (simp_all add: trim_option_id wfStatement_def)
  ultimately show ?thesis
    using w by (simp add: validateOwnerAuthorityReceiptStatement_def statementJson_fld runChecks_ok wfStatement_def)
qed

lemma plain_statementJson: "wfStatement dp s \<Longrightarrow> plain (statementJson s)"
  by (cases "rs_run_id s"; cases "rs_version_digest s")
    (simp_all add: statementJson_def wfStatement_def numOk_int)

section \<open>Receipts\<close>

lemma materialize_Inr:
  assumes "materializeOwnerAuthorityReceipt dp v = Inr r"
  shows "wfStatement dp r"
    "or_receipt_digest r = ''sha256:'' @ sha256Hex (jtext (norm (statementJson r)))"
    "or_receipt_ref r = ''opl://foundry/owner-authority-receipts/'' @ or_receipt_digest r"
    "validateOwnerAuthorityReceiptStatement dp v = Inr (receipt_statement.truncate r)"
proof -
  from assms obtain s d ref where s: "validateOwnerAuthorityReceiptStatement dp v = Inr s"
    and d: "gateDigest (statementJson s) = Inr d" and ref: "ownerAuthorityReceiptRef d = Inr ref"
    and r: "r = receipt_statement.extend s (owner_receipt.fields d ref)"
    by (auto simp: materializeOwnerAuthorityReceipt_def)
  note w = validateStatement_wf [OF s]
  have j: "statementJson r = statementJson s" by (simp add: r statementJson_def receipt_statement.defs owner_receipt.defs)
  show "wfStatement dp r" using w by (simp add: r wfStatement_def receipt_statement.defs owner_receipt.defs)
  show "or_receipt_digest r = ''sha256:'' @ sha256Hex (jtext (norm (statementJson r)))"
    unfolding j using d canonicalJsonText_plain [OF plain_statementJson [OF w]]
    by (simp add: r gateDigest_def receipt_statement.defs owner_receipt.defs)
  show "or_receipt_ref r = ''opl://foundry/owner-authority-receipts/'' @ or_receipt_digest r"
    using ref by (simp add: r ownerAuthorityReceiptRef_def receipt_statement.defs owner_receipt.defs)
  show "validateOwnerAuthorityReceiptStatement dp v = Inr (receipt_statement.truncate r)"
    using s by (simp add: r receipt_statement.defs owner_receipt.defs)
qed

lemma materialize_total:
  assumes "wfStatement dp s"
  shows "\<exists>r. materializeOwnerAuthorityReceipt dp (statementJson s) = Inr r
    \<and> receipt_statement.truncate r = receipt_statement.truncate s"
proof -
  let ?t = "receipt_statement.truncate s"
  have j: "statementJson s = statementJson ?t" by (simp add: statementJson_def receipt_statement.defs)
  have w: "wfStatement dp ?t" using assms by (simp add: wfStatement_def receipt_statement.defs)
  define d where "d = ''sha256:'' @ sha256Hex (jtext (norm (statementJson ?t)))"
  have "isDigest d" unfolding d_def isDigest_append by simp
  then have ref: "ownerAuthorityReceiptRef d = Inr (''opl://foundry/owner-authority-receipts/'' @ d)"
    by (simp add: ownerAuthorityReceiptRef_def runChecks_ok)
  have "gateDigest (statementJson ?t) = Inr d"
    by (simp add: gateDigest_def canonicalJsonText_plain plain_statementJson [OF w] d_def)
  then have "materializeOwnerAuthorityReceipt dp (statementJson ?t) = Inr (receipt_statement.extend ?t
      (owner_receipt.fields d (''opl://foundry/owner-authority-receipts/'' @ d)))"
    using ref validateStatement_statementJson [OF w] by (simp only: materializeOwnerAuthorityReceipt_def bindE.simps mapE.simps)
  then show ?thesis unfolding j by (intro exI conjI) (assumption, simp add: receipt_statement.defs owner_receipt.defs)
qed

lemma receiptJson_fld:
  "fld ''receipt_digest'' (receiptJson r) = JStr (or_receipt_digest r)"
  "fld ''receipt_ref'' (receiptJson r) = JStr (or_receipt_ref r)"
  "isRecord (receiptJson r)" "sameKeys (receiptJson r) (statementKeys @ [''receipt_digest'', ''receipt_ref''])"
  "withoutKey ''receipt_ref'' (withoutKey ''receipt_digest'' (receiptJson r)) = statementJson r"
  by (simp_all add: receiptJson_def statementJson_def sameKeys_iff statementKeys_def withoutKey_def)

text \<open>What was materialised is accepted, unchanged, by the receipt validator.\<close>

lemma receipt_roundtrip:
  assumes "materializeOwnerAuthorityReceipt dp v = Inr r"
  shows "validateOwnerAuthorityReceipt dp (receiptJson r) = Inr r"
proof -
  note m = materialize_Inr [OF assms]
  obtain r' where r': "materializeOwnerAuthorityReceipt dp (statementJson r) = Inr r'"
    "receipt_statement.truncate r' = receipt_statement.truncate r"
    using materialize_total [OF m(1)] by blast
  note m' = materialize_Inr [OF r'(1)]
  have j: "statementJson r' = statementJson r"
    using arg_cong [OF r'(2), of statementJson] by (simp add: statementJson_def receipt_statement.defs)
  have "or_receipt_digest r' = or_receipt_digest r" "or_receipt_ref r' = or_receipt_ref r"
    using m(2, 3) m'(2, 3) j by simp_all
  with r'(2) have "r' = r"
    by (cases r; cases r') (simp add: receipt_statement.defs)
  with r'(1) show ?thesis
    by (simp add: validateOwnerAuthorityReceipt_def receiptJson_fld runChecks_ok)
qed

text \<open>A receipt reference names one statement, unless two statement texts collide.\<close>

definition receiptsCollide :: "owner_receipt \<Rightarrow> owner_receipt \<Rightarrow> bool" where
  "receiptsCollide r q \<longleftrightarrow> collision (jtext (norm (statementJson r))) (jtext (norm (statementJson q)))"

lemma ofOptStr_inj [simp]: "ofOptStr a = ofOptStr b \<longleftrightarrow> a = b"
  by (cases a; cases b) simp_all

lemma names_inj [simp]: "actionName a = actionName b \<longleftrightarrow> a = b" "decisionName c = decisionName d \<longleftrightarrow> c = d"
  by (metis actionOf_actionName option.inject, metis decisionOf_decisionName option.inject)

lemma statementJson_inj:
  assumes n: "norm (statementJson r) = norm (statementJson q)"
  shows "receipt_statement.truncate r = receipt_statement.truncate q"
proof -
  have d: "distinct (objKeys (statementJson x))" for x :: "'z receipt_statement_scheme"
    by (simp add: statementJson_def)
  have opt: "norm (ofOptStr x) = ofOptStr x" "norm (jInt i) = jInt i" for x i
    by (cases x; simp) (simp add: jInt_def)
  have f: "norm (fld k (statementJson r)) = norm (fld k (statementJson q))" for k
    by (rule norm_fld_eq [OF n d d])
  from f [of "''receipt_id''"] f [of "''authority_ref''"] f [of "''action''"] f [of "''decision''"]
    f [of "''target_agent_id''"] f [of "''target_domain_id''"] f [of "''run_id''"] f [of "''version_digest''"]
    f [of "''expected_revision''"] f [of "''issued_at''"]
  show ?thesis by (simp add: statementJson_fld opt receipt_statement.defs)
qed

lemma receipt_ref_binds:
  assumes "materializeOwnerAuthorityReceipt dp v = Inr r" "materializeOwnerAuthorityReceipt dp w = Inr q"
    "or_receipt_ref r = or_receipt_ref q"
  shows "r = q \<or> receiptsCollide r q"
proof -
  note m = materialize_Inr [OF assms(1)] and m' = materialize_Inr [OF assms(2)]
  have h: "or_receipt_digest r = or_receipt_digest q" using assms(3) m(3) m'(3) by simp
  then have "sha256Hex (jtext (norm (statementJson r))) = sha256Hex (jtext (norm (statementJson q)))"
    using m(2) m'(2) by simp
  then have "jtext (norm (statementJson r)) = jtext (norm (statementJson q)) \<or> receiptsCollide r q"
    unfolding receiptsCollide_def by (rule sha256Hex_eqD)
  then show ?thesis
  proof
    assume "jtext (norm (statementJson r)) = jtext (norm (statementJson q))"
    then have "norm (statementJson r) = norm (statementJson q)"
      using plain_statementJson m(1) m'(1) by (intro jtext_inj) simp_all
    from statementJson_inj [OF this] h assms(3) show ?thesis
      by (cases r; cases q) (simp add: receipt_statement.defs)
  qed simp
qed

section \<open>Verification\<close>

lemma validateReceipt_materialized:
  "validateOwnerAuthorityReceipt dp v = Inr r \<Longrightarrow>
     materializeOwnerAuthorityReceipt dp (withoutKey ''receipt_ref'' (withoutKey ''receipt_digest'' v)) = Inr r"
  by (auto simp: validateOwnerAuthorityReceipt_def)

lemma verification_facts:
  assumes "validateOwnerGateVerification dp cv v = Inr g"
  shows "\<exists>c. validateOwnerGateVerificationContext cv = Inr c
    \<and> coversContext c (gv_receipt g) (gv_covered_authority_ref g)"
    "wfStatement dp (gv_receipt g)"
    "or_receipt_digest (gv_receipt g) = ''sha256:'' @ sha256Hex (jtext (norm (statementJson (gv_receipt g))))"
    "or_receipt_ref (gv_receipt g) = ''opl://foundry/owner-authority-receipts/'' @ or_receipt_digest (gv_receipt g)"
proof -
  from assms have r: "validateOwnerAuthorityReceipt dp (fld ''receipt'' v) = Inr (gv_receipt g)"
    and c: "\<exists>c. validateOwnerGateVerificationContext cv = Inr c
      \<and> coversContext c (gv_receipt g) (gv_covered_authority_ref g)"
    by (auto simp: validateOwnerGateVerification_def)
  show "\<exists>c. validateOwnerGateVerificationContext cv = Inr c
    \<and> coversContext c (gv_receipt g) (gv_covered_authority_ref g)" by (rule c)
  from materialize_Inr [OF validateReceipt_materialized [OF r]]
  show "wfStatement dp (gv_receipt g)"
    "or_receipt_digest (gv_receipt g) = ''sha256:'' @ sha256Hex (jtext (norm (statementJson (gv_receipt g))))"
    "or_receipt_ref (gv_receipt g) = ''opl://foundry/owner-authority-receipts/'' @ or_receipt_digest (gv_receipt g)"
    by blast+
qed

end
