(* ===== verification/Operation_Result.thy ===== *)
theory Operation_Result
  imports State_Machine
begin

text \<open>
  \<open>src/src/authority/evolution/operation-result.ts\<close>: the identity of one evaluation
  (run, generation, phase, input), the key it is journalled under, and the result
  record whose digest covers it.  The key is shown to determine the identity, and
  what is materialised is shown to validate to itself.
\<close>

section \<open>encodeURIComponent\<close>

definition uriUnreserved :: "char \<Rightarrow> bool" where
  "uriUnreserved c \<longleftrightarrow> isUpperAscii c \<or> isLowerAscii c \<or> isDigit c
     \<or> c \<in> {CHR ''-'', CHR ''_'', CHR ''.'', CHR ''!'', CHR ''~'', CHR ''*'', CHR 0x27, CHR ''('', CHR '')''}"

definition upperHexDigit :: "nat \<Rightarrow> char" where
  "upperHexDigit n = (if n < 10 then char_of (48 + n) else char_of (55 + n))"

definition percentByte :: "nat \<Rightarrow> string" where
  "percentByte n = [CHR ''%'', upperHexDigit (n div 16), upperHexDigit (n mod 16)]"

definition encodeURIChar :: "char \<Rightarrow> string" where
  "encodeURIChar c = (let n = of_char c :: nat in
     if uriUnreserved c then [c]
     else if n < 128 then percentByte n
     else percentByte (192 + n div 64) @ percentByte (128 + n mod 64))"

definition encodeURIComponent :: "string \<Rightarrow> string" where
  "encodeURIComponent s = concat (map encodeURIChar s)"

section \<open>Identities\<close>

datatype op_phase = Evaluate_Phase | Canary_Phase

fun phaseName :: "op_phase \<Rightarrow> string" where
  "phaseName Evaluate_Phase = ''evaluate''"
| "phaseName Canary_Phase = ''canary''"

record op_identity =
  oi_run_id :: string
  oi_generation :: int
  oi_phase :: op_phase
  oi_input_digest :: string
  oi_operation_key :: string

record op_result = op_identity +
  ox_result_digest :: string
  ox_evidence_digest :: string
  ox_evidence_ref :: string
  ox_completed_at :: string

text \<open>This module's own guards: a non-empty string need not be trimmed.\<close>

definition opRequiredString :: "json \<Rightarrow> string \<Rightarrow> check list" where
  "opRequiredString v f = [(isStr v \<and> strOf v \<noteq> [], f @ '' must be a non-empty string.'')]"

definition opRequiredDigest :: "json \<Rightarrow> string \<Rightarrow> check list" where
  "opRequiredDigest v f = opRequiredString v f @ [(isDigest (strOf v), f @ '' must be a SHA-256 digest.'')]"

definition operationKey :: "string \<Rightarrow> int \<Rightarrow> op_phase \<Rightarrow> string \<Rightarrow> string" where
  "operationKey run g ph d = joinWith ''/''
     [''opl-foundry-evaluation.v1'', encodeURIComponent run, showInt g, phaseName ph, d]"

definition identityChecks :: "json \<Rightarrow> check list" where
  "identityChecks v =
     opRequiredString (fld ''run_id'' v) ''operation.run_id'' @
     [(isSafeInteger (numOf (fld ''generation'' v)) \<and> \<not> jlt (numOf (fld ''generation'' v)) (jint 0),
       ''operation.generation must be a non-negative safe integer.''),
      (fld ''phase'' v = JStr ''evaluate'' \<or> fld ''phase'' v = JStr ''canary'', ''operation.phase is invalid.'')] @
     opRequiredDigest (fld ''input_digest'' v) ''operation.input_digest''"

definition identityOf :: "json \<Rightarrow> op_identity" where
  "identityOf v = (let run = strOf (fld ''run_id'' v); g = intOf (fld ''generation'' v);
       ph = (if fld ''phase'' v = JStr ''evaluate'' then Evaluate_Phase else Canary_Phase);
       d = strOf (fld ''input_digest'' v) in
     \<lparr> oi_run_id = run, oi_generation = g, oi_phase = ph, oi_input_digest = d,
       oi_operation_key = operationKey run g ph d \<rparr>)"

definition foundryEvaluationOperationIdentity :: "json \<Rightarrow> op_identity res" where
  "foundryEvaluationOperationIdentity v = bindE (runChecks (identityChecks v)) (\<lambda>u. Inr (identityOf v))"

definition identityJson :: "'a op_identity_scheme \<Rightarrow> json" where
  "identityJson i = JObj [(''run_id'', JStr (oi_run_id i)), (''generation'', jInt (oi_generation i)),
     (''phase'', JStr (phaseName (oi_phase i))), (''input_digest'', JStr (oi_input_digest i)),
     (''operation_key'', JStr (oi_operation_key i))]"

definition identityKeys :: "string list" where
  "identityKeys = [''run_id'', ''generation'', ''phase'', ''input_digest'', ''operation_key'']"

definition validateFoundryEvaluationOperationIdentity :: "json \<Rightarrow> op_identity res" where
  "validateFoundryEvaluationOperationIdentity v =
     bindE (runChecks [(isRecord v, ''Foundry evaluation operation identity must be an object.''),
       (sameKeys v identityKeys, ''Foundry evaluation operation identity fields are invalid.'')]) (\<lambda>u.
     bindE (foundryEvaluationOperationIdentity v) (\<lambda>i.
     bindE (runChecks [(fld ''operation_key'' v = JStr (oi_operation_key i),
       ''Foundry evaluation operation key is not canonical.'')]) (\<lambda>u. Inr i)))"

section \<open>Results\<close>

definition resultBaseJson :: "'a op_identity_scheme \<Rightarrow> string \<Rightarrow> string \<Rightarrow> string \<Rightarrow> json" where
  "resultBaseJson i d ref t = JObj ([(''surface_kind'', JStr ''opl_foundry_operation_result''),
      (''version'', JStr ''opl-foundry-operation-result.v1'')] @ entriesOf (identityJson i) @
     [(''evidence_digest'', JStr d), (''evidence_ref'', JStr ref), (''completed_at'', JStr t)])"

definition materializeFoundryOperationResult :: "json \<Rightarrow> json \<Rightarrow> json \<Rightarrow> json \<Rightarrow> op_result res" where
  "materializeFoundryOperationResult identity d ref t =
     bindE (validateFoundryEvaluationOperationIdentity identity) (\<lambda>i.
     bindE (runChecks (opRequiredDigest d ''operation_result.evidence_digest'' @
       opRequiredString ref ''operation_result.evidence_ref'' @
       opRequiredString t ''operation_result.completed_at'')) (\<lambda>u.
     mapE (\<lambda>h. op_identity.extend i (op_result.fields h (strOf d) (strOf ref) (strOf t)))
       (foundryContentDigest (resultBaseJson i (strOf d) (strOf ref) (strOf t)))))"

definition resultJson :: "op_result \<Rightarrow> json" where
  "resultJson r = JObj (entriesOf (resultBaseJson r (ox_evidence_digest r) (ox_evidence_ref r) (ox_completed_at r)) @
     [(''result_digest'', JStr (ox_result_digest r))])"

definition resultKeys :: "string list" where
  "resultKeys = [''surface_kind'', ''version'', ''result_digest'', ''run_id'', ''generation'', ''phase'',
     ''input_digest'', ''operation_key'', ''evidence_digest'', ''evidence_ref'', ''completed_at'']"

text \<open>The identity part of a result value, as the validator rebuilds it.\<close>

definition identityPart :: "json \<Rightarrow> json" where
  "identityPart v = JObj (map (\<lambda>k. (k, fld k v)) identityKeys)"

definition validateFoundryOperationResult :: "json \<Rightarrow> json option \<Rightarrow> op_result res" where
  "validateFoundryOperationResult v expectedIdentity =
     bindE (runChecks [(isRecord v, ''Foundry operation result must be an object.''),
       (sameKeys v resultKeys, ''Foundry operation result fields are invalid.''),
       (fld ''surface_kind'' v = JStr ''opl_foundry_operation_result''
         \<and> fld ''version'' v = JStr ''opl-foundry-operation-result.v1'',
        ''Foundry operation result surface is invalid.'')]) (\<lambda>u.
     bindE (materializeFoundryOperationResult (identityPart v) (fld ''evidence_digest'' v)
       (fld ''evidence_ref'' v) (fld ''completed_at'' v)) (\<lambda>r.
     bindE (runChecks [(fld ''result_digest'' v = JStr (ox_result_digest r),
       ''Foundry operation result digest does not match its canonical content.'')]) (\<lambda>u.
     case expectedIdentity of
       None \<Rightarrow> Inr r
     | Some ei \<Rightarrow> bindE (validateFoundryEvaluationOperationIdentity ei) (\<lambda>e.
         bindE (canonicalJsonText (identityJson e)) (\<lambda>a.
         bindE (canonicalJsonText (identityJson r)) (\<lambda>b.
         bindE (runChecks [(a = b, ''Foundry operation result does not match the requested operation identity.'')])
           (\<lambda>u. Inr r)))))))"

section \<open>The key determines the identity\<close>

definition upperHexVal :: "char \<Rightarrow> nat" where
  "upperHexVal c = (let n = of_char c in if n < 58 then n - 48 else n - 55)"

definition byteAt :: "string \<Rightarrow> nat" where
  "byteAt s = 16 * upperHexVal (s ! 1) + upperHexVal (s ! 2)"

definition decodeURIChar :: "string \<Rightarrow> char \<times> string" where
  "decodeURIChar s = (if hd s \<noteq> CHR ''%'' then (hd s, tl s)
     else if byteAt s < 128 then (char_of (byteAt s), drop 3 s)
     else (char_of ((byteAt s - 192) * 64 + (byteAt (drop 3 s) - 128)), drop 6 s))"

lemma upperHexVal_digit: "n < 16 \<Longrightarrow> upperHexVal (upperHexDigit n) = n"
  by (auto simp: upperHexDigit_def upperHexVal_def Let_def)

lemma byteAt_percent: "m < 256 \<Longrightarrow> byteAt (percentByte m @ r) = m"
proof -
  assume "m < 256"
  then have "m div 16 < 16" by auto
  then have "byteAt (percentByte m @ r) = 16 * (m div 16) + m mod 16"
    by (simp add: byteAt_def percentByte_def upperHexVal_digit)
  then show ?thesis by (simp only: mult_div_mod_eq)
qed

lemma percentByte_shape [simp]: "hd (percentByte m @ r) = CHR ''%''" "length (percentByte m) = 3"
  by (simp_all add: percentByte_def)

lemma decode_encode: "decodeURIChar (encodeURIChar c @ r) = (c, r)"
proof -
  define n where "n = (of_char c :: nat)"
  have c: "char_of n = c" by (simp add: n_def)
  have n: "n < 256" unfolding n_def by simp
  consider "uriUnreserved c" | "\<not> uriUnreserved c" "n < 128" | "\<not> uriUnreserved c" "128 \<le> n" by linarith
  then show ?thesis
  proof cases
    case 1
    then have "c \<noteq> CHR ''%''" by (auto simp: uriUnreserved_def isUpperAscii_def isLowerAscii_def isDigit_def less_eq_char_def)
    with 1 show ?thesis by (simp add: encodeURIChar_def decodeURIChar_def)
  next
    case 2
    then have e: "encodeURIChar c = percentByte n" by (simp add: encodeURIChar_def n_def Let_def)
    have "drop 3 (percentByte n @ r) = r" by simp
    with 2 c show ?thesis unfolding e decodeURIChar_def by (simp add: byteAt_percent)
  next
    case 3
    let ?a = "192 + n div 64" and ?b = "128 + n mod 64"
    have e: "encodeURIChar c = percentByte ?a @ percentByte ?b"
      using 3 by (simp add: encodeURIChar_def n_def [symmetric] Let_def)
    have ab: "?a < 256" "?b < 256" using n by auto
    have d: "drop 3 (percentByte ?a @ percentByte ?b @ r) = percentByte ?b @ r" by simp
    have m: "(?a - 192) * 64 + (?b - 128) = n" by simp
    have d6: "drop 6 (percentByte ?a @ percentByte ?b @ r) = r" by simp
    show ?thesis
      unfolding e append_assoc decodeURIChar_def d byteAt_percent [OF ab(1)] byteAt_percent [OF ab(2)] m c d6 by simp
  qed
qed

lemma encodeURIChar_nonempty: "encodeURIChar c \<noteq> []"
  by (simp add: encodeURIChar_def percentByte_def Let_def)

lemma encodeURIComponent_inj: "encodeURIComponent s = encodeURIComponent t \<longleftrightarrow> s = t"
proof (induction s arbitrary: t)
  case Nil
  then show ?case using encodeURIChar_nonempty by (cases t) (auto simp: encodeURIComponent_def)
next
  case (Cons c s)
  show ?case
  proof (cases t)
    case Nil
    then show ?thesis by (simp add: encodeURIComponent_def encodeURIChar_nonempty)
  next
    case (Cons d t')
    have "encodeURIComponent (c # s) = encodeURIComponent (d # t') \<Longrightarrow> c = d \<and> encodeURIComponent s = encodeURIComponent t'"
      by (simp add: encodeURIComponent_def) (metis decode_encode prod.inject)
    with Cons Cons.IH show ?thesis by auto
  qed
qed

lemma encodeURIComponent_no_slash: "CHR ''/'' \<notin> set (encodeURIComponent s)"
proof -
  have h: "upperHexDigit n \<noteq> CHR ''/''" if "n < 16" for n
  proof
    assume "upperHexDigit n = CHR ''/''"
    then have "of_char (upperHexDigit n) = (47 :: nat)" by simp
    then show False using that by (auto simp: upperHexDigit_def split: if_splits)
  qed
  have p: "CHR ''/'' \<notin> set (percentByte m)" if "m < 256" for m
  proof -
    have "m div 16 < 16" using that by auto
    then show ?thesis using h [of "m div 16"] h [of "m mod 16"] by (auto simp: percentByte_def)
  qed
  have "CHR ''/'' \<notin> set (encodeURIChar c)" for c
  proof (cases "uriUnreserved c")
    case True
    then show ?thesis by (auto simp: encodeURIChar_def uriUnreserved_def isUpperAscii_def isLowerAscii_def isDigit_def less_eq_char_def)
  next
    case False
    have b: "n < 256 \<Longrightarrow> 192 + n div 64 < 256" "128 + n mod 64 < 256" for n :: nat by auto
    have n: "of_char c < (256::nat)" by simp
    from False show ?thesis
      using p [OF n] p [OF b(1) [OF n]] p [OF b(2)] by (simp add: encodeURIChar_def Let_def)
  qed
  then show ?thesis by (auto simp: encodeURIComponent_def)
qed

lemma showInt_no_slash: "CHR ''/'' \<notin> set (showInt i)"
proof -
  have "CHR ''/'' \<notin> set (dec n)" for n
    using dec_digits [of n] by (auto simp: list_all_iff isDigit_def less_eq_char_def)
  then show ?thesis by (simp add: showInt_def)
qed

lemma operationKey_inj:
  assumes "operationKey r g p d = operationKey r' g' p' d'"
  shows "r = r' \<and> g = g' \<and> p = p' \<and> d = d'"
proof -
  have ph: "CHR ''/'' \<notin> set (phaseName q)" for q by (cases q) simp_all
  have "encodeURIComponent r @ CHR ''/'' # showInt g @ CHR ''/'' # phaseName p @ CHR ''/'' # d =
      encodeURIComponent r' @ CHR ''/'' # showInt g' @ CHR ''/'' # phaseName p' @ CHR ''/'' # d'"
    using assms by (simp add: operationKey_def)
  from append_sep_inj [OF encodeURIComponent_no_slash encodeURIComponent_no_slash this]
  have r: "r = r'" and "showInt g @ CHR ''/'' # phaseName p @ CHR ''/'' # d =
      showInt g' @ CHR ''/'' # phaseName p' @ CHR ''/'' # d'" by (simp_all add: encodeURIComponent_inj)
  from append_sep_inj [OF showInt_no_slash showInt_no_slash this(2)]
  have g: "g = g'" and "phaseName p @ CHR ''/'' # d = phaseName p' @ CHR ''/'' # d'" by simp_all
  from append_sep_inj [OF ph ph this(2)] have "phaseName p = phaseName p'" "d = d'" by simp_all
  with r g show ?thesis by (cases p; cases p') simp_all
qed

section \<open>Validation accepts exactly what was built\<close>

definition wfIdentity :: "'a op_identity_scheme \<Rightarrow> bool" where
  "wfIdentity i \<longleftrightarrow> oi_run_id i \<noteq> [] \<and> 0 \<le> oi_generation i \<and> oi_generation i < 2 ^ 53
     \<and> isDigest (oi_input_digest i)
     \<and> oi_operation_key i = operationKey (oi_run_id i) (oi_generation i) (oi_phase i) (oi_input_digest i)"

lemma safe_nonneg_int:
  "isSafeInteger x \<Longrightarrow> \<not> jlt x (jint 0) \<Longrightarrow> \<exists>i. x = jint i \<and> 0 \<le> i \<and> i < 2 ^ 53"
  by (erule safe_intE) (auto simp: jint_def)

lemma intOf_jint: "numOf v = jint i \<Longrightarrow> intOf v = i"
  by (simp add: intOf_def jint_def)

lemma phaseName_inj [simp]: "phaseName a = phaseName b \<longleftrightarrow> a = b"
  by (cases a; cases b) simp_all

lemma phase_cases: "phaseName p = ''evaluate'' \<or> phaseName p = ''canary''" "phaseName p = ''evaluate'' \<longleftrightarrow> p = Evaluate_Phase"
  by (cases p; simp)+

lemma identity_Inr_wf: "foundryEvaluationOperationIdentity v = Inr i \<Longrightarrow> wfIdentity i"
proof -
  assume a: "foundryEvaluationOperationIdentity v = Inr i"
  then have c: "list_all fst (identityChecks v)" and i: "i = identityOf v"
    by (auto simp: foundryEvaluationOperationIdentity_def)
  from c have "isSafeInteger (numOf (fld ''generation'' v))" "\<not> jlt (numOf (fld ''generation'' v)) (jint 0)"
    by (simp_all add: identityChecks_def)
  from safe_nonneg_int [OF this] have "0 \<le> intOf (fld ''generation'' v)" "intOf (fld ''generation'' v) < 2 ^ 53"
    by (auto simp: intOf_jint)
  with c show "wfIdentity i"
    by (simp add: wfIdentity_def i identityOf_def Let_def identityChecks_def opRequiredString_def opRequiredDigest_def)
qed

lemma identityJson_fld:
  "fld ''run_id'' (identityJson i) = JStr (oi_run_id i)" "fld ''generation'' (identityJson i) = jInt (oi_generation i)"
  "fld ''phase'' (identityJson i) = JStr (phaseName (oi_phase i))"
  "fld ''input_digest'' (identityJson i) = JStr (oi_input_digest i)"
  "fld ''operation_key'' (identityJson i) = JStr (oi_operation_key i)"
  "isRecord (identityJson i)" "sameKeys (identityJson i) identityKeys"
  by (simp_all add: identityJson_def sameKeys_iff identityKeys_def)

lemma validateIdentity_identityJson:
  fixes i :: "'a op_identity_scheme"
  assumes w: "wfIdentity i"
  shows "validateFoundryEvaluationOperationIdentity (identityJson i) = Inr (op_identity.truncate i)"
proof -
  have g: "\<not> jlt (jint (oi_generation i)) (jint 0)" "\<bar>oi_generation i\<bar> < 2 ^ 53" using w by (simp_all add: wfIdentity_def jint_def)
  have d: "oi_input_digest i \<noteq> []" using w by (auto simp: wfIdentity_def isDigest_def matchesPrefixHex64_def startsWith_def)
  have "list_all fst (identityChecks (identityJson i))"
    using w g d phase_cases(1) [of "oi_phase i"]
    by (simp add: identityChecks_def identityJson_fld wfIdentity_def opRequiredString_def opRequiredDigest_def)
  moreover have "identityOf (identityJson i) = op_identity.truncate i"
    using w by (cases "oi_phase i")
      (simp_all add: identityOf_def Let_def identityJson_fld intOf_jint wfIdentity_def op_identity.defs)
  ultimately have "foundryEvaluationOperationIdentity (identityJson i) = Inr (op_identity.truncate i)"
    by (simp add: foundryEvaluationOperationIdentity_def runChecks_ok)
  then show ?thesis
    by (simp add: validateFoundryEvaluationOperationIdentity_def identityJson_fld runChecks_ok op_identity.defs)
qed

lemma plain_identityJson: "wfIdentity i \<Longrightarrow> plain (identityJson i)"
  by (simp add: identityJson_def wfIdentity_def numOk_int)

lemma validateIdentity_wf: "validateFoundryEvaluationOperationIdentity v = Inr i \<Longrightarrow> wfIdentity i"
  by (auto simp: validateFoundryEvaluationOperationIdentity_def dest: identity_Inr_wf)

lemma materializeResult_Inr:
  assumes "materializeFoundryOperationResult idv d ref t = Inr r"
  shows "wfIdentity r" "validateFoundryEvaluationOperationIdentity idv = Inr (op_identity.truncate r)"
    "d = JStr (ox_evidence_digest r)" "ref = JStr (ox_evidence_ref r)" "t = JStr (ox_completed_at r)"
    "isDigest (ox_evidence_digest r)" "ox_evidence_ref r \<noteq> []" "ox_completed_at r \<noteq> []"
    "foundryContentDigest (resultBaseJson r (ox_evidence_digest r) (ox_evidence_ref r) (ox_completed_at r))
       = Inr (ox_result_digest r)"
proof -
  from assms obtain i h where i: "validateFoundryEvaluationOperationIdentity idv = Inr i"
    and c: "isStr d" "isDigest (strOf d)" "isStr ref" "strOf ref \<noteq> []" "isStr t" "strOf t \<noteq> []"
    and h: "foundryContentDigest (resultBaseJson i (strOf d) (strOf ref) (strOf t)) = Inr h"
    and r: "r = op_identity.extend i (op_result.fields h (strOf d) (strOf ref) (strOf t))"
    by (auto simp: materializeFoundryOperationResult_def opRequiredString_def opRequiredDigest_def)
  have j: "resultBaseJson r a b e = resultBaseJson i a b e" for a b e
    by (simp add: resultBaseJson_def identityJson_def r op_identity.defs op_result.defs)
  show "wfIdentity r" using validateIdentity_wf [OF i]
    by (simp add: r wfIdentity_def op_identity.defs op_result.defs)
  show "validateFoundryEvaluationOperationIdentity idv = Inr (op_identity.truncate r)"
    using i by (simp add: r op_identity.defs op_result.defs)
  show "foundryContentDigest (resultBaseJson r (ox_evidence_digest r) (ox_evidence_ref r) (ox_completed_at r))
       = Inr (ox_result_digest r)"
    using h unfolding j by (simp add: r op_identity.defs op_result.defs)
  show "d = JStr (ox_evidence_digest r)" "ref = JStr (ox_evidence_ref r)" "t = JStr (ox_completed_at r)"
    "isDigest (ox_evidence_digest r)" "ox_evidence_ref r \<noteq> []" "ox_completed_at r \<noteq> []"
    using c by (simp_all add: r op_identity.defs op_result.defs isStr_JStr)
qed

lemma resultJson_fld:
  "fld ''surface_kind'' (resultJson r) = JStr ''opl_foundry_operation_result''"
  "fld ''version'' (resultJson r) = JStr ''opl-foundry-operation-result.v1''"
  "fld ''evidence_digest'' (resultJson r) = JStr (ox_evidence_digest r)"
  "fld ''evidence_ref'' (resultJson r) = JStr (ox_evidence_ref r)"
  "fld ''completed_at'' (resultJson r) = JStr (ox_completed_at r)"
  "fld ''result_digest'' (resultJson r) = JStr (ox_result_digest r)"
  "identityPart (resultJson r) = identityJson r" "isRecord (resultJson r)" "sameKeys (resultJson r) resultKeys"
  by (simp_all add: resultJson_def resultBaseJson_def identityJson_def identityPart_def identityKeys_def
      sameKeys_iff resultKeys_def)

lemma result_roundtrip:
  assumes "materializeFoundryOperationResult idv d ref t = Inr r"
  shows "validateFoundryOperationResult (resultJson r) (Some (identityJson r)) = Inr r"
proof -
  note m = materializeResult_Inr [OF assms]
  note v = validateIdentity_identityJson [OF m(1)]
  have j: "identityJson (op_identity.truncate r) = identityJson r"
    "resultBaseJson (op_identity.truncate r) a b c = resultBaseJson r a b c" for a b c
    by (simp_all add: identityJson_def resultBaseJson_def op_identity.defs)
  have e: "ox_evidence_digest r \<noteq> []" using m(6) by (auto simp: isDigest_def matchesPrefixHex64_def startsWith_def)
  have "materializeFoundryOperationResult (identityJson r) (JStr (ox_evidence_digest r)) (JStr (ox_evidence_ref r))
      (JStr (ox_completed_at r)) = Inr r"
    unfolding materializeFoundryOperationResult_def v bindE.simps strOf_JStr j m(9)
    using m(6-8) e by (cases r) (simp add: runChecks_ok opRequiredString_def opRequiredDigest_def op_identity.defs op_result.defs)
  then show ?thesis
    using v canonicalJsonText_plain [OF plain_identityJson [OF m(1)]]
    by (simp add: validateFoundryOperationResult_def resultJson_fld runChecks_ok j)
qed

text \<open>A result that validates against an expected identity carries that identity.\<close>

lemma result_identity:
  assumes "validateFoundryOperationResult v (Some ei) = Inr r"
  shows "validateFoundryEvaluationOperationIdentity ei = Inr (op_identity.truncate r)"
proof -
  from assms obtain e where m: "materializeFoundryOperationResult (identityPart v) (fld ''evidence_digest'' v)
       (fld ''evidence_ref'' v) (fld ''completed_at'' v) = Inr r"
    and e: "validateFoundryEvaluationOperationIdentity ei = Inr e"
    and c: "canonicalJsonText (identityJson e) = canonicalJsonText (identityJson r)"
    unfolding validateFoundryOperationResult_def option.case bindE_Inr_iff runChecks_iff by auto
  note we = validateIdentity_wf [OF e] and wr = materializeResult_Inr(1) [OF m]
  have n: "norm (identityJson e) = norm (identityJson r)"
    using canonicalJsonText_inj [OF plain_identityJson [OF we] plain_identityJson [OF wr]] c by simp
  have d: "distinct (objKeys (identityJson x))" for x :: "'z op_identity_scheme" by (simp add: identityJson_def)
  have f: "norm (fld k (identityJson e)) = norm (fld k (identityJson r))" for k by (rule norm_fld_eq [OF n d d])
  have ni: "norm (jInt i) = jInt i" for i by (simp add: jInt_def)
  from f [of "''run_id''"] f [of "''generation''"] f [of "''phase''"] f [of "''input_digest''"] f [of "''operation_key''"]
  have "e = op_identity.truncate r" by (simp add: identityJson_fld ni op_identity.defs)
  with e show ?thesis by simp
qed

end
