(* ===== verification/Risk_Policy.thy ===== *)
theory Risk_Policy
  imports Protocol
begin

text \<open>
  \<open>src/src/authority/evolution/risk-policy.ts\<close>: the risk tier the Foundry computes for a
  blueprint from its difference to the previous one, the owner gates the tier asks for,
  and the check that an evolution never weakens the frozen evaluation policy.  Tiers are
  the JSON values the code compares, because \<open>RISK_ORDER[tier]\<close> accepts any value whose
  text is a tier name while \<open>===\<close> does not.
\<close>

section \<open>Tiers\<close>

text \<open>\<open>RISK_ORDER[tier]\<close>; \<open>undefined\<close>, as a number, for anything else.\<close>

definition RISK_ORDER :: "json \<Rightarrow> jsnum" where
  "RISK_ORDER t = (let s = jsToString t in
     if s = ''low'' then jint 0 else if s = ''medium'' then jint 1 else if s = ''high'' then jint 2 else NaN)"

definition maximumRiskTier :: "json list \<Rightarrow> json" where
  "maximumRiskTier ts = foldl (\<lambda>h t. if jlt (RISK_ORDER h) (RISK_ORDER t) then t else h) (JStr ''low'') ts"

record gate_policy =
  canary_owner_required :: bool
  active_owner_required :: bool

definition ownerGatePolicy :: "json \<Rightarrow> gate_policy" where
  "ownerGatePolicy t = \<lparr> canary_owner_required = (t = JStr ''high''),
     active_owner_required = (t \<noteq> JStr ''low'') \<rparr>"

section \<open>Projections that are compared\<close>

definition changed :: "json \<Rightarrow> json \<Rightarrow> bool res" where
  "changed l r = bindE (canonicalJsonText l) (\<lambda>a. mapE (\<lambda>b. a \<noteq> b) (canonicalJsonText r))"

text \<open>\<open>array.map(entry => ({ keys of the entry }))\<close>\<close>

definition pick :: "string list \<Rightarrow> json \<Rightarrow> json" where
  "pick ks e = JObj (map (\<lambda>k. (k, fld k e)) ks)"

definition pickEach :: "string list \<Rightarrow> json \<Rightarrow> json" where
  "pickEach ks v = JArr (map (pick ks) (arrOf v))"

definition stageStructure :: "json \<Rightarrow> json" where
  "stageStructure b = JObj [(''entry_stage_id'', fld ''entry_stage_id'' (fld ''stage_graph'' b)),
     (''stages'', pickEach [''stage_id'', ''stage_kind'', ''input_artifact_types'', ''output_artifact_types'',
       ''next_stage_ids''] (fld ''stages'' (fld ''stage_graph'' b)))]"

definition actionIo :: "json \<Rightarrow> json" where
  "actionIo b = pickEach [''action_id'', ''input_schema_ref'', ''output_schema_ref''] (fld ''actions'' b)"

definition actionRouting :: "json \<Rightarrow> json" where
  "actionRouting b = pickEach [''action_id'', ''entry_stage_id''] (fld ''actions'' b)"

datatype binding_kind = Prompt | Skill | Knowledge | Capability

fun boundRefs :: "binding_kind \<Rightarrow> json \<Rightarrow> json" where
  "boundRefs Prompt st = JArr [fld ''prompt_ref'' st]"
| "boundRefs Skill st = fld ''skill_refs'' st"
| "boundRefs Knowledge st = fld ''knowledge_refs'' st"
| "boundRefs Capability st = fld ''capability_refs'' st"

definition stageBindings :: "binding_kind \<Rightarrow> json \<Rightarrow> json" where
  "stageBindings kind b = JArr (map (\<lambda>st. JObj [(''stage_id'', fld ''stage_id'' st), (''refs'', boundRefs kind st)])
     (arrOf (fld ''stages'' (fld ''stage_graph'' b))))"

text \<open>Assign several properties, in order.\<close>

definition setFlds :: "(string \<times> json) list \<Rightarrow> json \<Rightarrow> json" where
  "setFlds kvs v = foldl (\<lambda>w (k, x). setFld k x w) v kvs"

lemma fld_setFld [simp]: "fld k (setFld k' w v) = (if k = k' then w else fld k v)"
  by (simp add: setFld_def fld_def entriesOf_def update_conv)

definition projectStage :: "json \<Rightarrow> json" where
  "projectStage st = setFlds [(''stage_id'', JStr ''<classified-stage-structure>''),
     (''stage_kind'', JStr ''<classified-stage-structure>''), (''input_artifact_types'', JArr []),
     (''output_artifact_types'', JArr []), (''prompt_ref'', JStr ''<classified-prompt-binding>''),
     (''skill_refs'', JArr []), (''knowledge_refs'', JArr []), (''capability_refs'', JArr []),
     (''next_stage_ids'', JArr [])] st"

definition projectAction :: "json \<Rightarrow> json" where
  "projectAction a = setFlds [(''action_id'', JStr ''<classified-action-identity>''),
     (''entry_stage_id'', JStr ''<classified-action-routing>''), (''input_schema_ref'', JStr ''<classified-action-io>''),
     (''output_schema_ref'', JStr ''<classified-action-io>'')] a"

definition emptyRefs :: "string list \<Rightarrow> json" where
  "emptyRefs ks = JObj (map (\<lambda>k. (k, JArr [])) ks)"

definition unclassifiedRiskProjection :: "json \<Rightarrow> json" where
  "unclassifiedRiskProjection b = (let g = fld ''stage_graph'' b; es = fld ''eval_spec'' b in
     setFlds [(''blueprint_id'', JStr ''<classified-generation-identity>''),
       (''target_version_ref'', JNull),
       (''design_request_digest'', JStr (''sha256:'' @ replicate 64 CHR ''0'')),
       (''generation'', jInt 0), (''risk_hint'', JStr ''low''),
       (''stage_graph'', setFlds [(''entry_stage_id'', JStr ''<classified-stage-structure>''),
          (''stages'', JArr (map projectStage (arrOf (fld ''stages'' g))))] g),
       (''actions'', JArr (map projectAction (arrOf (fld ''actions'' b)))),
       (''artifact_contracts'', JArr []),
       (''content_refs'', emptyRefs contentRefKeys),
       (''capability_requirements'', JArr []),
       (''authority_policy'', setFlds [(''truth_owner_ref'', JStr ''<classified-authority-policy>''),
          (''artifact_owner_ref'', JStr ''<classified-authority-policy>''),
          (''quality_owner_ref'', JStr ''<classified-authority-policy>''), (''permission_refs'', JArr [])]
          (fld ''authority_policy'' b)),
       (''memory_policy'', emptyRefs [''memory_classes'', ''retention_refs'', ''write_authority_refs'']),
       (''eval_spec'', setFlds [(''public_cases'', JArr []), (''protected_requirements'', JArr []), (''gates'', JArr []),
          (''baseline_comparison'', JObj [(''required'', JBool True), (''regression_tolerance'', jInt 0)])] es)] b)"

section \<open>The rules, in source order\<close>

text \<open>One rule: its condition, the tier it raises to (if any), and the reason it gives.\<close>

type_synonym risk_rule = "bool res \<times> string option \<times> string"

text \<open>\<open>array.some(predicate)\<close> with a predicate that may throw.\<close>

fun anyE :: "('a \<Rightarrow> bool res) \<Rightarrow> 'a list \<Rightarrow> bool res" where
  "anyE f [] = Inr False"
| "anyE f (x # xs) = bindE (f x) (\<lambda>b. if b then Inr True else anyE f xs)"

definition publicCases :: "json \<Rightarrow> json list" where
  "publicCases b = arrOf (fld ''public_cases'' (fld ''eval_spec'' b))"

definition protectedReqs :: "json \<Rightarrow> json list" where
  "protectedReqs b = arrOf (fld ''protected_requirements'' (fld ''eval_spec'' b))"

definition gatesOf :: "json \<Rightarrow> json list" where
  "gatesOf b = arrOf (fld ''gates'' (fld ''eval_spec'' b))"

definition baselineOf :: "json \<Rightarrow> json" where
  "baselineOf b = fld ''baseline_comparison'' (fld ''eval_spec'' b)"

definition findBy :: "string \<Rightarrow> json \<Rightarrow> json list \<Rightarrow> json option" where
  "findBy k e xs = find (\<lambda>x. jsSame (fld k x) (fld k e)) xs"

definition baselineDisabled :: "json \<Rightarrow> json \<Rightarrow> bool" where
  "baselineDisabled p n \<longleftrightarrow> boolOf (fld ''required'' (baselineOf p)) \<and> \<not> boolOf (fld ''required'' (baselineOf n))"

definition toleranceWeakened :: "json \<Rightarrow> json \<Rightarrow> bool" where
  "toleranceWeakened p n \<longleftrightarrow> jlt (numOf (fld ''regression_tolerance'' (baselineOf p)))
     (numOf (fld ''regression_tolerance'' (baselineOf n)))"

definition evaluationRules :: "json \<Rightarrow> json \<Rightarrow> risk_rule list" where
  "evaluationRules p n =
    [(anyE (\<lambda>e. case findBy ''case_id'' e (publicCases n) of None \<Rightarrow> Inr True | Some c \<Rightarrow> changed e c) (publicCases p),
       Some ''high'', ''existing_evaluation_case_removed_or_changed''),
     (Inr (list_ex (\<lambda>e. findBy ''case_id'' e (publicCases p) = None) (publicCases n)),
       None, ''public_evaluation_cases_added''),
     (Inr (list_ex (\<lambda>e. case findBy ''category'' e (protectedReqs n) of None \<Rightarrow> True
          | Some c \<Rightarrow> jlt (numOf (fld ''minimum_case_count'' c)) (numOf (fld ''minimum_case_count'' e))) (protectedReqs p)),
       Some ''high'', ''protected_evaluation_requirement_removed_or_weakened''),
     (Inr (list_ex (\<lambda>e. case findBy ''category'' e (rev (protectedReqs p)) of None \<Rightarrow> True
          | Some c \<Rightarrow> jlt (numOf (fld ''minimum_case_count'' c)) (numOf (fld ''minimum_case_count'' e))) (protectedReqs n)),
       None, ''protected_evaluation_requirements_strengthened''),
     (changed (fld ''gates'' (fld ''eval_spec'' p)) (fld ''gates'' (fld ''eval_spec'' n)),
       Some ''high'', ''evaluation_gate_changed''),
     (Inr (baselineDisabled p n), Some ''high'', ''baseline_comparison_disabled''),
     (Inr (toleranceWeakened p n), Some ''high'', ''baseline_regression_tolerance_weakened''),
     (changed (unclassifiedRiskProjection p) (unclassifiedRiskProjection n), Some ''high'', ''unclassified_blueprint_change'')]"

definition riskRules :: "json \<Rightarrow> json \<Rightarrow> risk_rule list" where
  "riskRules p n = (let c = (\<lambda>k b. fld k (fld ''content_refs'' b)) in
    [(changed (stageStructure p) (stageStructure n), Some ''high'', ''stage_topology_or_io_changed''),
     (changed (actionIo p) (actionIo n), Some ''high'', ''action_io_schema_changed''),
     (changed (actionRouting p) (actionRouting n), Some ''medium'', ''action_routing_changed''),
     (changed (fld ''artifact_contracts'' p) (fld ''artifact_contracts'' n), Some ''high'', ''artifact_schema_changed''),
     (changed (fld ''authority_policy'' p) (fld ''authority_policy'' n), Some ''high'', ''authority_policy_changed''),
     (changed (fld ''memory_policy'' p) (fld ''memory_policy'' n), Some ''high'', ''memory_policy_changed''),
     (changed (c ''tool_refs'' p) (c ''tool_refs'' n), Some ''high'', ''tool_binding_changed''),
     (changed (c ''model_refs'' p) (c ''model_refs'' n), Some ''high'', ''model_binding_changed''),
     (changed (fld ''capability_requirements'' p) (fld ''capability_requirements'' n),
       Some ''high'', ''capability_or_permission_changed''),
     (changed (stageBindings Capability p) (stageBindings Capability n),
       Some ''high'', ''stage_capability_binding_changed''),
     (changed (c ''skill_refs'' p) (c ''skill_refs'' n), Some ''medium'', ''skill_content_changed''),
     (changed (c ''helper_refs'' p) (c ''helper_refs'' n), Some ''medium'', ''helper_content_changed''),
     (changed (stageBindings Skill p) (stageBindings Skill n), Some ''medium'', ''stage_skill_binding_changed''),
     (changed (c ''prompt_refs'' p) (c ''prompt_refs'' n), None, ''prompt_content_changed''),
     (changed (c ''knowledge_refs'' p) (c ''knowledge_refs'' n), None, ''knowledge_content_changed''),
     (changed (stageBindings Prompt p) (stageBindings Prompt n), None, ''stage_prompt_binding_changed''),
     (changed (stageBindings Knowledge p) (stageBindings Knowledge n), None, ''stage_knowledge_binding_changed'')] @
    evaluationRules p n)"

fun evalRules :: "risk_rule list \<Rightarrow> json \<Rightarrow> string list \<Rightarrow> (json \<times> string list) res" where
  "evalRules [] computed reasons = Inr (computed, reasons)"
| "evalRules ((cond, tier, reason) # rs) computed reasons = bindE cond (\<lambda>b.
     if b then evalRules rs (case tier of Some t \<Rightarrow> maximumRiskTier [computed, JStr t] | None \<Rightarrow> computed)
       (reasons @ [reason])
     else evalRules rs computed reasons)"

text \<open>\<open>[...new Set(values)]\<close>: the first occurrence of each.\<close>

definition uniqueFirst :: "string list \<Rightarrow> string list" where
  "uniqueFirst ss = rev (remdups (rev ss))"

definition recomputeBlueprintRisk :: "json option \<Rightarrow> json \<Rightarrow> (json \<times> string list) res" where
  "recomputeBlueprintRisk previous nxt =
     bindE (case previous of
         None \<Rightarrow> evalRules [(Inr True, Some ''high'', ''new_agent_topology_and_authority_activation'')] (JStr ''low'') []
       | Some p \<Rightarrow> evalRules (riskRules p nxt) (JStr ''low'') []) (\<lambda>(computed, reasons).
       let hint = fld ''risk_hint'' nxt in
       Inr (maximumRiskTier [computed, hint],
         uniqueFirst (reasons @ (if jlt (RISK_ORDER computed) (RISK_ORDER hint)
           then [''provider_risk_hint_elevated''] else []))))"

section \<open>Non-weakening\<close>

definition caseViolations :: "json \<Rightarrow> json \<Rightarrow> string list res" where
  "caseViolations n e = (let i = jsToString (fld ''case_id'' e) in
     case findBy ''case_id'' e (publicCases n) of
       None \<Rightarrow> Inr [''public_case_removed:'' @ i]
     | Some c \<Rightarrow> mapE (\<lambda>b. if b then [''public_case_changed:'' @ i] else []) (changed e c))"

definition requirementViolations :: "json \<Rightarrow> json \<Rightarrow> string list" where
  "requirementViolations n e = (let i = jsToString (fld ''category'' e) in
     case findBy ''category'' e (protectedReqs n) of
       None \<Rightarrow> [''protected_requirement_removed:'' @ i]
     | Some c \<Rightarrow> if jlt (numOf (fld ''minimum_case_count'' c)) (numOf (fld ''minimum_case_count'' e))
         then [''protected_requirement_weakened:'' @ i] else [])"

definition thresholdWeakened :: "json \<Rightarrow> json \<Rightarrow> bool" where
  "thresholdWeakened g c = (let t = numOf (fld ''threshold'' g); u = numOf (fld ''threshold'' c) in
     if fld ''operator'' g = JStr ''gte'' then jlt u t
     else if fld ''operator'' g = JStr ''lte'' then jlt t u
     else \<not> jeq u t)"

definition gateViolations :: "json \<Rightarrow> json \<Rightarrow> string list" where
  "gateViolations n g = (let i = jsToString (fld ''gate_id'' g) in
     case findBy ''gate_id'' g (gatesOf n) of
       None \<Rightarrow> [''gate_removed:'' @ i]
     | Some c \<Rightarrow>
         if \<not> jsSame (fld ''metric'' c) (fld ''metric'' g) \<or> \<not> jsSame (fld ''operator'' c) (fld ''operator'' g)
           \<or> \<not> jsSame (fld ''required'' c) (fld ''required'' g)
         then [''gate_semantics_changed:'' @ i]
         else if thresholdWeakened g c then [''gate_threshold_weakened:'' @ i] else [])"

definition policyViolations :: "json \<Rightarrow> json \<Rightarrow> string list res" where
  "policyViolations p n = mapE (\<lambda>cs. concat cs @ concat (map (requirementViolations n) (protectedReqs p)) @
       concat (map (gateViolations n) (gatesOf p)) @
       (if baselineDisabled p n then [''baseline_comparison_disabled''] else []) @
       (if toleranceWeakened p n then [''baseline_regression_tolerance_weakened''] else []))
     (seqE (map (caseViolations n) (publicCases p)))"

definition assertEvaluationPolicyNonWeakening :: "json \<Rightarrow> json \<Rightarrow> unit res" where
  "assertEvaluationPolicyNonWeakening p n = bindE (policyViolations p n) (\<lambda>vs.
     runChecks [(vs = [], ''EvolutionProposal deletes or weakens frozen evaluation policy.'')])"

section \<open>Tiers\<close>

text \<open>The rank of a tier; a value that names no tier has none.\<close>

definition tierRank :: "json \<Rightarrow> int" where
  "tierRank t = (let s = jsToString t in
     if s = ''low'' then 0 else if s = ''medium'' then 1 else if s = ''high'' then 2 else -1)"

lemma tierRank_JStr [simp]: "tierRank (JStr ''low'') = 0" "tierRank (JStr ''medium'') = 1" "tierRank (JStr ''high'') = 2"
  by (simp_all add: tierRank_def)

lemma RISK_ORDER_less: "0 \<le> tierRank h \<Longrightarrow> jlt (RISK_ORDER h) (RISK_ORDER t) \<longleftrightarrow> tierRank h < tierRank t"
  by (auto simp: RISK_ORDER_def tierRank_def Let_def jint_def split: if_splits)

lemma maximumRiskTier_foldl:
  assumes "0 \<le> tierRank h"
  defines "f \<equiv> \<lambda>h t. if jlt (RISK_ORDER h) (RISK_ORDER t) then t else h"
  shows "foldl f h ts \<in> insert h (set ts)" "tierRank h \<le> tierRank (foldl f h ts)"
    "\<forall>t \<in> set ts. tierRank t \<le> tierRank (foldl f h ts)"
proof -
  have "foldl f h ts \<in> insert h (set ts) \<and> tierRank h \<le> tierRank (foldl f h ts)
      \<and> (\<forall>t \<in> set ts. tierRank t \<le> tierRank (foldl f h ts))"
    using assms(1)
  proof (induction ts arbitrary: h)
    case (Cons t ts)
    have m: "0 \<le> tierRank (f h t)" "tierRank h \<le> tierRank (f h t)" "tierRank t \<le> tierRank (f h t)"
      "f h t \<in> {h, t}"
      using Cons.prems by (auto simp: f_def RISK_ORDER_less)
    from Cons.IH [OF m(1)] m show ?case by (auto intro: order_trans)
  qed simp
  then show "foldl f h ts \<in> insert h (set ts)" "tierRank h \<le> tierRank (foldl f h ts)"
    "\<forall>t \<in> set ts. tierRank t \<le> tierRank (foldl f h ts)" by blast+
qed

lemma maximumRiskTier_props:
  "maximumRiskTier ts \<in> insert (JStr ''low'') (set ts)"
  "0 \<le> tierRank (maximumRiskTier ts)"
  "t \<in> set ts \<Longrightarrow> tierRank t \<le> tierRank (maximumRiskTier ts)"
  unfolding maximumRiskTier_def using maximumRiskTier_foldl [of "JStr ''low''" ts] by simp_all

section \<open>What a tier promises\<close>

lemma evalRules_sound:
  "evalRules rs c r = Inr (c', r') \<Longrightarrow> 0 \<le> tierRank c \<Longrightarrow>
     tierRank c \<le> tierRank c' \<and> set r \<subseteq> set r' \<and>
     (\<forall>(cond, tier, reason) \<in> set rs. cond = Inr False \<or>
        cond = Inr True \<and> reason \<in> set r' \<and> (\<forall>t. tier = Some t \<longrightarrow> tierRank (JStr t) \<le> tierRank c'))"
proof (induction rs c r rule: evalRules.induct)
  case (2 cond tier reason rs computed reasons)
  from "2.prems"(1) obtain b where b: "cond = Inr b" by auto
  show ?case
  proof (cases b)
    case False
    with 2 b show ?thesis by auto
  next
    case True
    let ?c = "case tier of Some t \<Rightarrow> maximumRiskTier [computed, JStr t] | None \<Rightarrow> computed"
    have m: "0 \<le> tierRank ?c" "tierRank computed \<le> tierRank ?c" "\<forall>t. tier = Some t \<longrightarrow> tierRank (JStr t) \<le> tierRank ?c"
      using "2.prems"(2) maximumRiskTier_props by (auto split: option.splits)
    from "2.IH"(1) [OF True] "2.prems" b True m(1)
    have IH: "tierRank ?c \<le> tierRank c' \<and> set (reasons @ [reason]) \<subseteq> set r' \<and>
     (\<forall>(cond, tier, reason) \<in> set rs. cond = Inr False \<or>
        cond = Inr True \<and> reason \<in> set r' \<and> (\<forall>t. tier = Some t \<longrightarrow> tierRank (JStr t) \<le> tierRank c'))"
      by simp
    with m b True show ?thesis by (auto intro: order_trans)
  qed
qed simp

lemma set_uniqueFirst [simp]: "set (uniqueFirst ss) = set ss"
  by (simp add: uniqueFirst_def)

lemma risk_sound:
  assumes "recomputeBlueprintRisk (Some p) n = Inr (tier, reasons)"
  shows "(cond, t, reason) \<in> set (riskRules p n) \<Longrightarrow> cond = Inr False \<or>
      cond = Inr True \<and> reason \<in> set reasons \<and> (\<forall>s. t = Some s \<longrightarrow> tierRank (JStr s) \<le> tierRank tier)"
    "tierRank (fld ''risk_hint'' n) \<le> tierRank tier"
proof -
  from assms obtain c r where e: "evalRules (riskRules p n) (JStr ''low'') [] = Inr (c, r)"
    and t: "tier = maximumRiskTier [c, fld ''risk_hint'' n]" and r: "set r \<subseteq> set reasons"
    by (auto simp: recomputeBlueprintRisk_def Let_def)
  note s = evalRules_sound [OF e]
  have c: "tierRank c \<le> tierRank tier" unfolding t by (rule maximumRiskTier_props) simp
  show "tierRank (fld ''risk_hint'' n) \<le> tierRank tier" unfolding t by (rule maximumRiskTier_props) simp
  assume "(cond, t, reason) \<in> set (riskRules p n)"
  with s have "cond = Inr False \<or> cond = Inr True \<and> reason \<in> set r \<and>
      (\<forall>s. t = Some s \<longrightarrow> tierRank (JStr s) \<le> tierRank c)" by fastforce
  with r c show "cond = Inr False \<or> cond = Inr True \<and> reason \<in> set reasons \<and>
      (\<forall>s. t = Some s \<longrightarrow> tierRank (JStr s) \<le> tierRank tier)" by (auto intro: order_trans)
qed

lemma changed_False:
  "changed l r = Inr False \<Longrightarrow> canonicalJsonText l = canonicalJsonText r"
  by (auto simp: changed_def)

lemma changed_plain: "plain l \<Longrightarrow> plain r \<Longrightarrow> changed l r = Inr (norm l \<noteq> norm r)"
  using canonicalJsonText_inj [of l r] by (auto simp: changed_def canonicalJsonText_plain)

text \<open>The parts of a blueprint a low tier says did not change, as (old, new) pairs.\<close>

definition guardedParts :: "json \<Rightarrow> json \<Rightarrow> (json \<times> json) list" where
  "guardedParts p n = (let c = (\<lambda>k b. fld k (fld ''content_refs'' b)) in
    [(stageStructure p, stageStructure n), (actionIo p, actionIo n), (actionRouting p, actionRouting n),
     (fld ''artifact_contracts'' p, fld ''artifact_contracts'' n),
     (fld ''authority_policy'' p, fld ''authority_policy'' n), (fld ''memory_policy'' p, fld ''memory_policy'' n),
     (c ''tool_refs'' p, c ''tool_refs'' n), (c ''model_refs'' p, c ''model_refs'' n),
     (fld ''capability_requirements'' p, fld ''capability_requirements'' n),
     (stageBindings Capability p, stageBindings Capability n),
     (c ''skill_refs'' p, c ''skill_refs'' n), (c ''helper_refs'' p, c ''helper_refs'' n),
     (stageBindings Skill p, stageBindings Skill n),
     (fld ''gates'' (fld ''eval_spec'' p), fld ''gates'' (fld ''eval_spec'' n)),
     (unclassifiedRiskProjection p, unclassifiedRiskProjection n)])"

lemma guardedParts_rules:
  assumes "(l, r) \<in> set (guardedParts p n)"
  shows "\<exists>t reason. (changed l r, Some t, reason) \<in> set (riskRules p n) \<and> 0 < tierRank (JStr t)"
proof -
  let ?raising = "filter (\<lambda>(c, t, reason). t = Some ''high'' \<or> t = Some ''medium'') (riskRules p n)"
  have "set (map (\<lambda>(l, r). changed l r) (guardedParts p n)) \<subseteq> set (map fst ?raising)"
    unfolding guardedParts_def riskRules_def evaluationRules_def Let_def by simp
  then have "changed l r \<in> set (map fst ?raising)" using assms by force
  then obtain t reason where "(changed l r, t, reason) \<in> set (riskRules p n)" "t = Some ''high'' \<or> t = Some ''medium''"
    by auto
  then show ?thesis using tierRank_JStr by fastforce
qed

lemma low_risk_unchanged:
  assumes "recomputeBlueprintRisk (Some p) n = Inr (tier, reasons)" "tierRank tier = 0"
    "(l, r) \<in> set (guardedParts p n)"
  shows "canonicalJsonText l = canonicalJsonText r"
proof -
  from guardedParts_rules [OF assms(3)] obtain t reason where
    t: "(changed l r, Some t, reason) \<in> set (riskRules p n)" "0 < tierRank (JStr t)" by blast
  from risk_sound(1) [OF assms(1) t(1)] assms(2) t(2) have "changed l r = Inr False" by auto
  then show ?thesis by (rule changed_False)
qed

section \<open>What non-weakening promises\<close>

lemma findBy_Some: "findBy k e xs = Some c \<Longrightarrow> c \<in> set xs \<and> jsSame (fld k c) (fld k e)"
  unfolding findBy_def by (drule find_Some_iff2) simp

lemma nonWeakening_Inr:
  assumes "assertEvaluationPolicyNonWeakening p n = Inr u"
  shows "e \<in> set (publicCases p) \<Longrightarrow> caseViolations n e = Inr []"
    "q \<in> set (protectedReqs p) \<Longrightarrow> requirementViolations n q = []"
    "g \<in> set (gatesOf p) \<Longrightarrow> gateViolations n g = []"
    "\<not> baselineDisabled p n" "\<not> toleranceWeakened p n"
proof -
  from assms obtain cs where cs: "map (caseViolations n) (publicCases p) = map Inr cs"
    and v: "concat cs = []" "concat (map (requirementViolations n) (protectedReqs p)) = []"
      "concat (map (gateViolations n) (gatesOf p)) = []" "\<not> baselineDisabled p n" "\<not> toleranceWeakened p n"
    by (auto simp: assertEvaluationPolicyNonWeakening_def policyViolations_def seqE_Inr_iff split: if_splits)
  show "caseViolations n e = Inr []" if "e \<in> set (publicCases p)"
  proof -
    have "caseViolations n e \<in> set (map Inr cs)" unfolding cs [symmetric] using that by simp
    with v(1) show ?thesis by auto
  qed
  show "q \<in> set (protectedReqs p) \<Longrightarrow> requirementViolations n q = []" using v(2) by auto
  show "g \<in> set (gatesOf p) \<Longrightarrow> gateViolations n g = []" using v(3) by auto
  show "\<not> baselineDisabled p n" "\<not> toleranceWeakened p n" by (fact v)+
qed

lemma nonWeakening_case:
  assumes "assertEvaluationPolicyNonWeakening p n = Inr u" "e \<in> set (publicCases p)"
  shows "\<exists>c \<in> set (publicCases n). canonicalJsonText e = canonicalJsonText c"
  using nonWeakening_Inr(1) [OF assms]
  by (auto simp: caseViolations_def Let_def split: option.splits if_splits dest!: findBy_Some changed_False)

lemma nonWeakening_requirement:
  assumes "assertEvaluationPolicyNonWeakening p n = Inr u" "q \<in> set (protectedReqs p)"
  shows "\<exists>c \<in> set (protectedReqs n). jsSame (fld ''category'' c) (fld ''category'' q)
    \<and> \<not> jlt (numOf (fld ''minimum_case_count'' c)) (numOf (fld ''minimum_case_count'' q))"
  using nonWeakening_Inr(2) [OF assms]
  by (auto simp: requirementViolations_def Let_def split: option.splits if_splits dest!: findBy_Some)

lemma nonWeakening_gate:
  assumes "assertEvaluationPolicyNonWeakening p n = Inr u" "g \<in> set (gatesOf p)"
  shows "\<exists>c \<in> set (gatesOf n). jsSame (fld ''gate_id'' c) (fld ''gate_id'' g)
    \<and> jsSame (fld ''metric'' c) (fld ''metric'' g) \<and> jsSame (fld ''operator'' c) (fld ''operator'' g)
    \<and> jsSame (fld ''required'' c) (fld ''required'' g) \<and> \<not> thresholdWeakened g c"
  using nonWeakening_Inr(3) [OF assms]
  by (auto simp: gateViolations_def Let_def split: option.splits if_splits dest!: findBy_Some)

end
