(* ===== verification/Evaluation.thy ===== *)
theory Evaluation
  imports Risk_Policy State_Machine
begin

text \<open>
  \<open>src/src/authority/evolution/evaluation-runtime.ts\<close>: the checks on a set of evaluation
  results, the weighted score, gates, resource limits and safety events that decide
  qualification, the re-check of an EvidenceBundle against them, and the runtime that
  produces the bundle.  The case executor and the reviewer are outside the repository's
  control: they are records of functions, and any of them may fail.  \<open>ck\<close> is the
  collation key \<open>localeCompare\<close> orders by.
\<close>

section \<open>Results of a frozen plan\<close>

definition evalDigest :: "json \<Rightarrow> string res" where
  "evalDigest v = mapE (\<lambda>t. ''sha256:'' @ sha256Hex t) (canonicalJsonText v)"

text \<open>\<open>v?.trim()\<close> on what an executor or reviewer returned: only a string has the method.\<close>

definition trimmable :: "json \<Rightarrow> unit res" where
  "trimmable v = (if isStr v \<or> v = JUndef \<or> v = JNull then Inr () else Inl (RuntimeError ''trim is not a function''))"

definition verifiedProtectedRequirementExecution :: "string \<Rightarrow> json \<Rightarrow> (json \<times> string) res" where
  "verifiedProtectedRequirementExecution label ex = (let ref = trimmed (fld ''receipt_ref'' ex) in
     bindE (trimmable (fld ''receipt_ref'' ex)) (\<lambda>u.
     bindE (evalDigest (fld ''aggregate'' ex)) (\<lambda>d.
     bindE (runChecks [(ref \<noteq> [] \<and> fld ''aggregate_digest'' ex = JStr d,
         label @ '' must bind the protected aggregate to a direct receipt ref and exact digest.'')]) (\<lambda>u.
     Inr (fld ''aggregate'' ex, ref)))))"

definition foundryFrozenEvaluationPlanDigest :: "json \<Rightarrow> string res" where
  "foundryFrozenEvaluationPlanDigest spec = evalDigest (JObj
     [(''surface_kind'', JStr ''opl_foundry_frozen_evaluation_plan''),
      (''version'', JStr ''opl-foundry-frozen-evaluation-plan.v1''),
      (''public_cases'', fld ''public_cases'' spec),
      (''protected_requirements'', fld ''protected_requirements'' spec),
      (''gates'', fld ''gates'' spec),
      (''baseline_comparison'', fld ''baseline_comparison'' spec)])"

definition specCases :: "json \<Rightarrow> json list" where
  "specCases spec = arrOf (fld ''public_cases'' spec)"

definition specReqs :: "json \<Rightarrow> json list" where
  "specReqs spec = arrOf (fld ''protected_requirements'' spec)"

definition specGates :: "json \<Rightarrow> json list" where
  "specGates spec = arrOf (fld ''gates'' spec)"

definition nonBlankList :: "json \<Rightarrow> bool" where
  "nonBlankList v \<longleftrightarrow> isArr v \<and> arrOf v \<noteq> [] \<and> list_all nonBlank (arrOf v)"

definition validStatus :: "json \<Rightarrow> bool" where
  "validStatus v \<longleftrightarrow> v \<in> {JStr ''pass'', JStr ''fail'', JStr ''blocked''}"

text \<open>One step of the loop over results; \<open>seen\<close> are the results already in the map.\<close>

definition publicResultStep :: "json \<Rightarrow> string \<Rightarrow> json list \<Rightarrow> json \<Rightarrow> check list" where
  "publicResultStep spec label seen r =
     [(findBy ''case_id'' r seen = None \<and> findBy ''case_id'' r (specCases spec) \<noteq> None,
       label @ '' contains an unknown or duplicate public case.''),
      (validStatus (fld ''status'' r) \<and> unitScore (fld ''score'' r) \<and> nonBlankList (fld ''evidence_refs'' r),
       label @ '' contains invalid public result facts.'')]"

definition assertPublicResultSet :: "json \<Rightarrow> json list \<Rightarrow> string \<Rightarrow> check list" where
  "assertPublicResultSet spec rs label =
     (length rs = length (specCases spec), label @ '' must contain exactly one result for every frozen public case.'') #
     checksEach (\<lambda>i r. publicResultStep spec label (take i rs) r) rs"

definition aggregateStep :: "json \<Rightarrow> string \<Rightarrow> json list \<Rightarrow> json \<Rightarrow> check list" where
  "aggregateStep spec label seen a = (let total = numOf (fld ''total'' a); passed = numOf (fld ''passed'' a);
       failed = numOf (fld ''failed'' a); score = numOf (fld ''score'' a) in
     [(findBy ''category'' a (specReqs spec) \<noteq> None \<and> findBy ''category'' a seen = None,
       label @ '' contains an unknown or duplicate category.''),
      (isSafeInteger total \<and> isSafeInteger passed \<and> isSafeInteger failed
        \<and> \<not> jlt total (numOf (fld ''minimum_case_count'' (the (findBy ''category'' a (specReqs spec)))))
        \<and> \<not> jlt passed (jint 0) \<and> \<not> jlt failed (jint 0) \<and> jeq (jadd passed failed) total
        \<and> unitScore (fld ''score'' a) \<and> jeq score (jdiv passed total),
       label @ '' counts or score are inconsistent with the frozen requirement.'')])"

definition assertProtectedAggregateSet :: "json \<Rightarrow> json list \<Rightarrow> string \<Rightarrow> check list" where
  "assertProtectedAggregateSet spec as label =
     (length as = length (specReqs spec), label @ '' must contain exactly one aggregate for every frozen requirement.'') #
     checksEach (\<lambda>i a. aggregateStep spec label (take i as) a) as"

section \<open>Score, gates, limits\<close>

definition scoreOf :: "json list \<Rightarrow> json \<Rightarrow> jsnum" where
  "scoreOf rs c = (case findBy ''case_id'' c rs of Some r \<Rightarrow> numOf (fld ''score'' r) | None \<Rightarrow> jint 0)"

definition weightedSum :: "json list \<Rightarrow> json list \<Rightarrow> jsnum" where
  "weightedSum rs cs = foldl (\<lambda>s c. jadd s (jmul (scoreOf rs c) (numOf (fld ''weight'' c)))) (jint 0) cs"

definition weightedScore :: "json \<Rightarrow> json list \<Rightarrow> jsnum res" where
  "weightedScore spec rs = (let total = totalWeight (fld ''public_cases'' spec) in
     bindE (runChecks [(isFinite total \<and> \<not> jle total (jint 0), ''Frozen public cases must have positive total weight.'')])
       (\<lambda>u. Inr (jdiv (weightedSum rs (specCases spec)) total)))"

definition sumField :: "string \<Rightarrow> json list \<Rightarrow> jsnum" where
  "sumField k as = foldl (\<lambda>s a. jadd s (numOf (fld k a))) (jint 0) as"

definition gateObserved :: "json \<Rightarrow> jsnum \<Rightarrow> json list \<Rightarrow> jsnum res" where
  "gateObserved metric score as =
     (if metric = JStr ''score'' then Inr score
      else if metric = JStr ''protected_pass_rate'' then
        (let total = sumField ''total'' as; passed = sumField ''passed'' as in
         Inr (if jeq total (jint 0) then jint 0 else jdiv passed total))
      else fail ''Evaluation gate metric is not supported by the generic Evaluation Runtime.'')"

definition gatePassed :: "json \<Rightarrow> jsnum \<Rightarrow> bool" where
  "gatePassed g x = (let t = numOf (fld ''threshold'' g) in
     if fld ''operator'' g = JStr ''gte'' then jle t x
     else if fld ''operator'' g = JStr ''lte'' then jle x t
     else jeq x t)"

definition missingRefs :: "json list \<Rightarrow> json list \<Rightarrow> json list" where
  "missingRefs required declared = filter (\<lambda>r. \<not> list_ex (jsSame r) declared) required"

definition assertBlueprintSatisfiesDesignRequest :: "json \<Rightarrow> json \<Rightarrow> check list" where
  "assertBlueprintSatisfiesDesignRequest request b = (let c = fld ''constraints'' request;
       reqPerms = arrOf (fld ''permission_refs'' c);
       perms = arrOf (fld ''permission_refs'' (fld ''authority_policy'' b)) in
     [(missingRefs (arrOf (fld ''capability_refs'' c)) (arrOf (fld ''capability_requirements'' b)) = []
        \<and> missingRefs reqPerms perms = [] \<and> missingRefs perms reqPerms = []
        \<and> missingRefs (arrOf (fld ''privacy_requirements'' c)) (map (fld ''category'') (protectedReqs b)) = [],
       ''AgentBlueprint violates the DesignRequest capability, permission, or privacy boundary.'')])"

record constraint_result =
  cr_kind :: string
  cr_metric :: string
  cr_limit :: jsnum
  cr_observed :: jsnum
  cr_passed :: bool

definition resourceConstraintResults :: "string \<Rightarrow> json \<Rightarrow> json \<Rightarrow> constraint_result list res" where
  "resourceConstraintResults kind limits obs =
     bindE (runChecks ((list_all (hasOwn obs) (objKeys limits),
         ''EvidenceBundle is missing required '' @ kind @ '' observations.'') #
       map (\<lambda>(m, l). (isFinite (numOf l) \<and> isFinite (numOf (fld m obs)) \<and> \<not> jlt (numOf (fld m obs)) (jint 0),
         ''EvidenceBundle '' @ kind @ '' observations and DesignRequest limits must be finite.'')) (entriesOf limits)))
       (\<lambda>u. Inr (map (\<lambda>(m, l). \<lparr> cr_kind = kind, cr_metric = m, cr_limit = numOf l, cr_observed = numOf (fld m obs),
          cr_passed = jle (numOf (fld m obs)) (numOf l) \<rparr>) (entriesOf limits)))"

definition evaluateDesignRequestResourceConstraints ::
    "json \<Rightarrow> json \<Rightarrow> json \<Rightarrow> (constraint_result list \<times> bool) res" where
  "evaluateDesignRequestResourceConstraints request cost latency = (let c = fld ''constraints'' request in
     bindE (resourceConstraintResults ''cost'' (fld ''cost_limits'' c) cost) (\<lambda>a.
     bindE (resourceConstraintResults ''latency'' (fld ''latency_limits'' c) latency) (\<lambda>b.
     Inr (a @ b, list_all cr_passed (a @ b)))))"

section \<open>Safety\<close>

definition severe :: "json \<Rightarrow> bool" where
  "severe e \<longleftrightarrow> fld ''severity'' e \<in> {JStr ''high'', JStr ''critical''}"

definition safetyFailureClassifications :: "json list \<Rightarrow> json list" where
  "safetyFailureClassifications os = map (\<lambda>e. JObj [(''failure_class'', JStr ''safety_event''),
     (''gate_id'', JStr (''safety_observation:'' @ jsToString (fld ''observation_id'' e))),
     (''severity'', fld ''severity'' e),
     (''evidence_refs'', JArr (arrOf (fld ''evidence_refs'' e)))]) (filter severe os)"

definition sortedFailureClassifications :: "(string \<Rightarrow> string) \<Rightarrow> json list \<Rightarrow> json list" where
  "sortedFailureClassifications ck es =
     sort_key (\<lambda>e. ck (case canonicalJsonText e of Inr t \<Rightarrow> t | Inl x \<Rightarrow> [])) es"

definition assertSafetyFailureClassifications :: "(string \<Rightarrow> string) \<Rightarrow> json list \<Rightarrow> json list \<Rightarrow> unit res" where
  "assertSafetyFailureClassifications ck os cs =
     bindE (canonicalJsonText (JArr (sortedFailureClassifications ck
       (filter (\<lambda>e. fld ''failure_class'' e = JStr ''safety_event'') cs)))) (\<lambda>a.
     bindE (canonicalJsonText (JArr (sortedFailureClassifications ck (safetyFailureClassifications os)))) (\<lambda>b.
     runChecks [(a = b, ''EvidenceBundle safety failure classifications do not match high and critical safety observations.'')]))"

section \<open>Qualification\<close>

record gate_result =
  gr_gate_id :: json
  gr_passed :: bool
  gr_observed :: jsnum

record eval_facts =
  ef_gateScore :: jsnum
  ef_baselineScore :: "jsnum option"
  ef_gateResults :: "gate_result list"
  ef_baselinePublicPassed :: bool
  ef_baselineProtectedPassed :: bool
  ef_baselinePassed :: bool
  ef_resourceConstraintResults :: "constraint_result list"
  ef_resourceConstraintsPassed :: bool
  ef_safetyFailureClassifications :: "json list"
  ef_safetyPassed :: bool
  ef_qualified :: bool

record eval_results =
  er_public :: json
  er_baseline_public :: json
  er_protected :: json
  er_baseline_protected :: json
  er_verdict :: json
  er_baseline_present :: bool
  er_cost :: json
  er_latency :: json
  er_safety :: json

definition gateResultsOf :: "json \<Rightarrow> jsnum \<Rightarrow> json list \<Rightarrow> gate_result list res" where
  "gateResultsOf spec score as = seqE (map (\<lambda>g. mapE (\<lambda>x.
     \<lparr> gr_gate_id = fld ''gate_id'' g, gr_passed = gatePassed g x, gr_observed = x \<rparr>)
     (gateObserved (fld ''metric'' g) score as)) (specGates spec))"

definition requiredPublicPassed :: "json \<Rightarrow> json list \<Rightarrow> bool" where
  "requiredPublicPassed spec rs = list_all (\<lambda>c. \<not> boolOf (fld ''required'' c) \<or>
     (case findBy ''case_id'' c rs of Some r \<Rightarrow> fld ''status'' r = JStr ''pass'' | None \<Rightarrow> False)) (specCases spec)"

definition protectedPassed :: "json \<Rightarrow> json list \<Rightarrow> bool" where
  "protectedPassed spec as = list_all (\<lambda>q. case findBy ''category'' q as of
       Some a \<Rightarrow> jeq (numOf (fld ''failed'' a)) (jint 0)
         \<and> jle (numOf (fld ''minimum_case_count'' q)) (numOf (fld ''total'' a))
     | None \<Rightarrow> False) (specReqs spec)"

definition requiredGatesPassed :: "json \<Rightarrow> gate_result list \<Rightarrow> bool" where
  "requiredGatesPassed spec grs = list_all (\<lambda>g. \<not> boolOf (fld ''required'' g) \<or>
     (case find (\<lambda>r. jsSame (gr_gate_id r) (fld ''gate_id'' g)) grs of Some r \<Rightarrow> gr_passed r | None \<Rightarrow> False))
     (specGates spec)"

text \<open>\<open>score + tolerance >= baseline\<close>\<close>

definition notRegressed :: "json \<Rightarrow> jsnum \<Rightarrow> jsnum \<Rightarrow> bool" where
  "notRegressed spec score base =
     jle base (jadd score (numOf (fld ''regression_tolerance'' (fld ''baseline_comparison'' spec))))"

definition fieldBy :: "string \<Rightarrow> json \<Rightarrow> string \<Rightarrow> json list \<Rightarrow> jsnum" where
  "fieldBy k q f xs = (case findBy k q xs of Some a \<Rightarrow> numOf (fld f a) | None \<Rightarrow> NaN)"

definition baselineProtectedOk :: "json \<Rightarrow> json list \<Rightarrow> json list \<Rightarrow> bool" where
  "baselineProtectedOk spec as bas = list_all (\<lambda>q.
     notRegressed spec (fieldBy ''category'' q ''score'' as) (fieldBy ''category'' q ''score'' bas)) (specReqs spec)"

definition resultSetChecks :: "json \<Rightarrow> eval_results \<Rightarrow> check list" where
  "resultSetChecks spec r = (let bp = er_baseline_public r; bq = er_baseline_protected r in
     assertPublicResultSet spec (arrOf (er_public r)) ''EvidenceBundle.public_results'' @
     assertProtectedAggregateSet spec (arrOf (er_protected r)) ''EvidenceBundle.protected_aggregates'' @
     [(er_baseline_present r = (bp \<noteq> JNull) \<and> er_baseline_present r = (bq \<noteq> JNull),
       ''Baseline public and protected results must exist exactly when an exact baseline version is bound.''),
      (er_baseline_present r \<or> \<not> boolOf (fld ''required'' (fld ''baseline_comparison'' spec)),
       ''A required baseline comparison cannot run without an exact baseline version.'')] @
     (if bp = JNull then [] else assertPublicResultSet spec (arrOf bp) ''EvidenceBundle.baseline_public_results'') @
     (if bq = JNull then []
      else assertProtectedAggregateSet spec (arrOf bq) ''EvidenceBundle.baseline_protected_aggregates''))"

definition recomputeEvaluationQualification :: "json \<Rightarrow> json \<Rightarrow> eval_results \<Rightarrow> eval_facts res" where
  "recomputeEvaluationQualification request spec r =
     (let rs = arrOf (er_public r); as = arrOf (er_protected r); bp = er_baseline_public r;
          bq = er_baseline_protected r; need = boolOf (fld ''required'' (fld ''baseline_comparison'' spec)) in
     bindE (runChecks (resultSetChecks spec r)) (\<lambda>u.
     bindE (weightedScore spec rs) (\<lambda>score.
     bindE (if bp = JNull then Inr None else mapE Some (weightedScore spec (arrOf bp))) (\<lambda>base.
     bindE (gateResultsOf spec score as) (\<lambda>grs.
     bindE (evaluateDesignRequestResourceConstraints request (er_cost r) (er_latency r)) (\<lambda>(crs, crsPassed).
     let publicOk = (\<not> need \<or> (case base of Some b \<Rightarrow> notRegressed spec score b | None \<Rightarrow> False));
         protectedOk = (\<not> need \<or> (bq \<noteq> JNull \<and> baselineProtectedOk spec as (arrOf bq)));
         safety = safetyFailureClassifications (arrOf (er_safety r)) in
     Inr \<lparr> ef_gateScore = score, ef_baselineScore = base, ef_gateResults = grs,
       ef_baselinePublicPassed = publicOk, ef_baselineProtectedPassed = protectedOk,
       ef_baselinePassed = (publicOk \<and> protectedOk),
       ef_resourceConstraintResults = crs, ef_resourceConstraintsPassed = crsPassed,
       ef_safetyFailureClassifications = safety, ef_safetyPassed = (safety = []),
       ef_qualified = (requiredPublicPassed spec rs \<and> protectedPassed spec as \<and> requiredGatesPassed spec grs
         \<and> (publicOk \<and> protectedOk) \<and> crsPassed \<and> safety = [] \<and> er_verdict r = JStr ''pass'') \<rparr>))))))"

definition resultsOfEvidence :: "json \<Rightarrow> bool \<Rightarrow> eval_results" where
  "resultsOfEvidence e present = \<lparr> er_public = fld ''public_results'' e,
     er_baseline_public = fld ''baseline_public_results'' e,
     er_protected = fld ''protected_aggregates'' e,
     er_baseline_protected = fld ''baseline_protected_aggregates'' e,
     er_verdict = fld ''verdict'' (fld ''independent_review'' e),
     er_baseline_present = present,
     er_cost = fld ''candidate_cost_observations'' e,
     er_latency = fld ''candidate_latency_observations'' e,
     er_safety = fld ''safety_observations'' e \<rparr>"

definition assertEvaluationEvidenceFacts :: "(string \<Rightarrow> string) \<Rightarrow> json \<Rightarrow> json \<Rightarrow> json \<Rightarrow> bool \<Rightarrow> eval_facts res" where
  "assertEvaluationEvidenceFacts ck request spec e present =
     bindE (recomputeEvaluationQualification request spec (resultsOfEvidence e present)) (\<lambda>f.
     bindE (runChecks [(jsSame (fld ''gate_score'' e) (JNum (ef_gateScore f))
         \<and> fld ''qualified'' e = JBool (ef_qualified f),
         ''EvidenceBundle qualification or gate score does not match independently recomputed facts.'')]) (\<lambda>u.
     bindE (assertSafetyFailureClassifications ck (arrOf (fld ''safety_observations'' e))
       (arrOf (fld ''failure_classification'' e))) (\<lambda>u. Inr f)))"

section \<open>The runtime that produces the bundle\<close>

datatype subject = Candidate_Subject json | Baseline_Subject json

text \<open>What one evaluation is asked to do (\<open>EvaluationExecutor.evaluate\<close>'s input).\<close>

record eval_input =
  ei_run_id :: string
  ei_request :: json
  ei_blueprint :: json
  ei_blueprint_digest :: string
  ei_candidate :: json
  ei_baseline_version :: json

record case_executor =
  ce_executor_id :: string
  ce_executionRef :: "string \<Rightarrow> json \<Rightarrow> string \<Rightarrow> string"
  ce_runPublicCase :: "string \<Rightarrow> json \<Rightarrow> string \<Rightarrow> subject \<Rightarrow> json \<Rightarrow> json res"
  ce_runProtectedRequirement :: "string \<Rightarrow> json \<Rightarrow> string \<Rightarrow> subject \<Rightarrow> json \<Rightarrow> json res"
  ce_observeResourceObservations :: "string \<Rightarrow> json \<Rightarrow> string \<Rightarrow> json \<Rightarrow> json \<Rightarrow> json res"

record eval_runtime =
  rt_evaluator_id :: string
  rt_executor :: case_executor
  rt_reviewer_id :: string
  rt_review :: "eval_input \<Rightarrow> string \<Rightarrow> json list \<Rightarrow> json list \<Rightarrow> gate_result list \<Rightarrow> json \<Rightarrow> constraint_result list \<Rightarrow> json res"
  rt_now :: string

definition newFrozenPlanRuntime :: "eval_runtime \<Rightarrow> eval_runtime res" where
  "newFrozenPlanRuntime rt = (let ids = [rt_evaluator_id rt, ce_executor_id (rt_executor rt), rt_reviewer_id rt] in
     bindE (runChecks
       [(list_all (\<lambda>s. trim s \<noteq> []) ids, ''Evaluator, case executor, and independent reviewer identities must not be empty.''),
        (distinct ids, ''Evaluator, case executor, and independent reviewer must use distinct identities.'')])
       (\<lambda>u. Inr rt))"

text \<open>Run every frozen case and requirement on one subject.\<close>

definition runSubject :: "case_executor \<Rightarrow> eval_input \<Rightarrow> string \<Rightarrow> subject \<Rightarrow> json list res" where
  "runSubject ce i phase subj = (let b = ei_blueprint i in
     seqE (map (ce_runPublicCase ce (ei_run_id i) (fld ''generation'' b) phase subj) (specCases (fld ''eval_spec'' b))))"

definition runProtected :: "case_executor \<Rightarrow> eval_input \<Rightarrow> string \<Rightarrow> subject \<Rightarrow> string \<Rightarrow> (json \<times> string) list res" where
  "runProtected ce i phase subj label = (let b = ei_blueprint i in
     bindE (seqE (map (ce_runProtectedRequirement ce (ei_run_id i) (fld ''generation'' b) phase subj)
       (specReqs (fld ''eval_spec'' b)))) (\<lambda>exs.
     seqE (map (verifiedProtectedRequirementExecution label) exs)))"

definition runBaseline :: "case_executor \<Rightarrow> eval_input \<Rightarrow> string \<Rightarrow> (json \<times> json \<times> string list) res" where
  "runBaseline ce i phase = (let v = ei_baseline_version i; spec = fld ''eval_spec'' (ei_blueprint i) in
     if v = JNull then Inr (JNull, JNull, [])
     else bindE (runSubject ce i phase (Baseline_Subject v)) (\<lambda>rs.
       bindE (runChecks (assertPublicResultSet spec rs ''Evaluation baseline public results'')) (\<lambda>u.
       bindE (runProtected ce i phase (Baseline_Subject v) ''Evaluation baseline protected requirement execution'') (\<lambda>ps.
       bindE (runChecks (assertProtectedAggregateSet spec (map fst ps) ''Evaluation baseline protected aggregates'')) (\<lambda>u.
       Inr (JArr rs, JArr (map fst ps), map snd ps))))))"

definition reviewChecks :: "json \<Rightarrow> check list" where
  "reviewChecks rv = [(trimmed (fld ''execution_ref'' rv) \<noteq> [] \<and> validStatus (fld ''verdict'' rv)
       \<and> nonBlankList (fld ''evidence_refs'' rv),
     ''Independent evaluation review must return an execution ref and direct evidence refs.'')]"

definition failureEntry :: "string \<Rightarrow> string \<Rightarrow> json list \<Rightarrow> json" where
  "failureEntry cls gate rs = JObj [(''failure_class'', JStr cls), (''gate_id'', JStr gate), (''severity'', JStr ''high''),
     (''evidence_refs'', JArr (concat (map (\<lambda>r. arrOf (fld ''evidence_refs'' r)) rs)))]"

definition failureClassification :: "gate_result list \<Rightarrow> eval_facts \<Rightarrow> json list \<Rightarrow> json list" where
  "failureClassification grs f rs =
     map (\<lambda>g. failureEntry ''quality_gate'' (jsToString (gr_gate_id g)) rs) (filter (\<lambda>g. \<not> gr_passed g) grs) @
     (if ef_baselinePassed f then [] else [failureEntry ''baseline_regression'' ''baseline_comparison'' rs]) @
     map (\<lambda>c. failureEntry (cr_kind c @ ''_constraint_exceeded'')
         (''request_constraint:'' @ cr_kind c @ '':'' @ cr_metric c) rs)
       (filter (\<lambda>c. \<not> cr_passed c) (ef_resourceConstraintResults f)) @
     ef_safetyFailureClassifications f"

definition evidenceBundle :: "eval_runtime \<Rightarrow> eval_input \<Rightarrow> string \<Rightarrow> json list \<Rightarrow> (json \<times> string) list \<Rightarrow>
    (json \<times> json \<times> string list) \<Rightarrow> json \<Rightarrow> json \<Rightarrow> string \<Rightarrow> gate_result list \<Rightarrow> eval_facts \<Rightarrow> string \<Rightarrow> json" where
  "evidenceBundle rt i phase rs ps base obs rv execRef grs f planDigest = (let req = ei_request i; b = ei_blueprint i in JObj
     [(''surface_kind'', JStr ''opl_foundry_evidence_bundle''),
      (''version'', JStr ''opl-foundry-protocol.v1''),
      (''evidence_id'', JStr (''evidence:'' @ ei_run_id i @ '':'' @ jsToString (fld ''generation'' b) @ '':'' @ phase)),
      (''target_agent_id'', fld ''target_agent_id'' req),
      (''target_domain_id'', fld ''target_domain_id'' req),
      (''target_version_ref'', fld ''target_version_ref'' req),
      (''blueprint_digest'', JStr (ei_blueprint_digest i)),
      (''candidate_digest'', fld ''candidate_digest'' (ei_candidate i)),
      (''baseline_version_digest'', if ei_baseline_version i = JNull then JNull
         else fld ''version_digest'' (ei_baseline_version i)),
      (''frozen_test_plan_digest'', JStr planDigest),
      (''public_results'', JArr rs),
      (''baseline_public_results'', fst base),
      (''baseline_protected_aggregates'', fst (snd base)),
      (''protected_aggregates'', JArr (map fst ps)),
      (''independent_review'', JObj [(''evaluator_ref'', JStr (rt_reviewer_id rt)),
         (''evaluation_execution_ref'', JStr execRef),
         (''review_execution_ref'', JStr (trimmed (fld ''execution_ref'' rv))),
         (''verdict'', fld ''verdict'' rv), (''findings'', fld ''findings'' rv), (''evidence_refs'', fld ''evidence_refs'' rv)]),
      (''candidate_cost_observations'', fld ''candidate_cost_observations'' obs),
      (''candidate_latency_observations'', fld ''candidate_latency_observations'' obs),
      (''safety_observations'', fld ''safety_observations'' obs),
      (''safety_delta'', fld ''safety_delta'' obs),
      (''cost_delta'', fld ''cost_delta'' obs),
      (''latency_delta'', fld ''latency_delta'' obs),
      (''failure_classification'', JArr (failureClassification grs f rs)),
      (''qualified'', JBool (ef_qualified f)),
      (''gate_score'', JNum (ef_gateScore f)),
      (''provenance'', JObj [(''foundry_run_id'', JStr (ei_run_id i)), (''generation'', fld ''generation'' b),
         (''producer_id'', JStr (rt_evaluator_id rt)), (''evaluated_at'', JStr (rt_now rt)),
         (''source_refs'', jStrs ((''opl://foundry/frozen-plan/'' @ planDigest) # execRef #
            map snd ps @ snd (snd base)))])])"

definition runFrozenPlan :: "eval_runtime \<Rightarrow> eval_input \<Rightarrow> string \<Rightarrow> json res" where
  "runFrozenPlan rt i phase = (let ce = rt_executor rt; b = ei_blueprint i; spec = fld ''eval_spec'' b;
       subj = Candidate_Subject (ei_candidate i) in
     bindE (runSubject ce i phase subj) (\<lambda>rs.
     bindE (runProtected ce i phase subj ''Evaluation candidate protected requirement execution'') (\<lambda>ps.
     bindE (runChecks (assertPublicResultSet spec rs ''Evaluation public results'' @
       assertProtectedAggregateSet spec (map fst ps) ''Evaluation candidate protected aggregates'')) (\<lambda>u.
     bindE (weightedScore spec rs) (\<lambda>score.
     bindE (gateResultsOf spec score (map fst ps)) (\<lambda>grs.
     bindE (runBaseline ce i phase) (\<lambda>base.
     bindE (ce_observeResourceObservations ce (ei_run_id i) (fld ''generation'' b) phase (ei_candidate i)
       (ei_baseline_version i)) (\<lambda>obs.
     bindE (evaluateDesignRequestResourceConstraints (ei_request i) (fld ''candidate_cost_observations'' obs)
       (fld ''candidate_latency_observations'' obs)) (\<lambda>(crs, ok).
     bindE (rt_review rt i phase rs (map fst ps) grs obs crs) (\<lambda>rv.
     bindE (trimmable (fld ''execution_ref'' rv)) (\<lambda>u.
     bindE (runChecks (reviewChecks rv)) (\<lambda>u.
     let execRef = trim (ce_executionRef ce (ei_run_id i) (fld ''generation'' b) phase) in
     bindE (runChecks [(execRef \<noteq> [] \<and> execRef \<noteq> trimmed (fld ''execution_ref'' rv),
         ''Evaluation and independent review must expose different execution refs.'')]) (\<lambda>u.
     bindE (recomputeEvaluationQualification (ei_request i) spec
       \<lparr> er_public = JArr rs, er_baseline_public = fst base, er_protected = JArr (map fst ps),
         er_baseline_protected = fst (snd base), er_verdict = fld ''verdict'' rv,
         er_baseline_present = (ei_baseline_version i \<noteq> JNull),
         er_cost = fld ''candidate_cost_observations'' obs, er_latency = fld ''candidate_latency_observations'' obs,
         er_safety = fld ''safety_observations'' obs \<rparr>) (\<lambda>f.
     bindE (foundryFrozenEvaluationPlanDigest spec) (\<lambda>d.
     Inr (evidenceBundle rt i phase rs ps base obs rv execRef grs f d))))))))))))))))"

section \<open>The gate score is between 0 and 1\<close>

definition nonNeg :: "jsnum \<Rightarrow> bool" where
  "nonNeg x \<longleftrightarrow> x = PInf \<or> (\<exists>q. x = Fin q \<and> 0 \<le> q)"

lemma nonNeg_simps [simp]: "nonNeg PInf" "nonNeg (Fin q) \<longleftrightarrow> 0 \<le> q" "\<not> nonNeg NInf" "\<not> nonNeg NaN"
  by (simp_all add: nonNeg_def)

lemma nonNegE: "nonNeg x \<Longrightarrow> (x = PInf \<Longrightarrow> P) \<Longrightarrow> (\<And>q. x = Fin q \<Longrightarrow> 0 \<le> q \<Longrightarrow> P) \<Longrightarrow> P"
  by (auto simp: nonNeg_def)

lemma nonNeg_rnd: "0 \<le> q \<Longrightarrow> nonNeg (rnd q)"
  using rnd_nonneg [of q] by auto

lemma jadd_nonNeg: "nonNeg x \<Longrightarrow> nonNeg y \<Longrightarrow> nonNeg (jadd x y)"
  by (erule nonNegE; erule nonNegE) (auto intro: nonNeg_rnd)

lemma jle_PInf: "nonNeg x \<Longrightarrow> jle x PInf"
  by (erule nonNegE) simp_all

lemma jle_FinE: "nonNeg x \<Longrightarrow> jle x (Fin q) \<Longrightarrow> \<exists>p. x = Fin p \<and> 0 \<le> p \<and> p \<le> q"
  by (erule nonNegE) simp_all

lemma jle_nonNeg: "nonNeg x \<Longrightarrow> jle x y \<Longrightarrow> nonNeg y"
  by (erule nonNegE; cases y; simp)

lemma jadd_PInf: "nonNeg x \<Longrightarrow> jadd PInf x = PInf" "nonNeg x \<Longrightarrow> jadd x PInf = PInf"
  by (erule nonNegE; simp)+

lemma jadd_mono:
  assumes x: "nonNeg x" and y: "nonNeg y" and xx: "jle x x'" and yy: "jle y y'"
  shows "jle (jadd x y) (jadd x' y')"
proof -
  note n = jle_nonNeg [OF x xx] jle_nonNeg [OF y yy] jadd_nonNeg [OF x y]
  consider "x' = PInf" | "y' = PInf" | q r where "x' = Fin q" "y' = Fin r"
    using n(1, 2) by (auto simp: nonNeg_def)
  then show ?thesis
  proof cases
    case 3
    obtain p where p: "x = Fin p" "0 \<le> p" "p \<le> q" using jle_FinE [OF x, of q] xx 3 by auto
    obtain s where s: "y = Fin s" "0 \<le> s" "s \<le> r" using jle_FinE [OF y, of r] yy 3 by auto
    have "jle (rnd (p + s)) (rnd (q + r))" using p s by (intro rnd_mono) simp_all
    with 3 p(1) s(1) show ?thesis by simp
  qed (simp_all add: jadd_PInf n jle_PInf)
qed

lemma jmul_le:
  assumes "0 \<le> s" "s \<le> 1" "0 \<le> w" "isDouble w"
  shows "nonNeg (jmul (Fin s) (Fin w))" "jle (jmul (Fin s) (Fin w)) (Fin w)"
proof -
  have m: "0 \<le> s * w" "s * w \<le> w" using assms by (simp_all add: mult_left_le_one_le)
  then show "nonNeg (jmul (Fin s) (Fin w))" by (simp add: nonNeg_rnd)
  have "jle (rnd (s * w)) (rnd w)" using m by (intro rnd_mono)
  then show "jle (jmul (Fin s) (Fin w)) (Fin w)" using assms(4) by (simp add: isDouble_def)
qed

text \<open>A spec whose weights are non-negative doubles, and results whose scores are in the unit interval.\<close>

definition goodWeights :: "json \<Rightarrow> bool" where
  "goodWeights spec \<longleftrightarrow> list_all (\<lambda>c. \<exists>w. fld ''weight'' c = JNum (Fin w) \<and> 0 \<le> w \<and> isDouble w) (specCases spec)"

lemma unitScoreE: "unitScore v \<Longrightarrow> \<exists>s. numOf v = Fin s \<and> 0 \<le> s \<and> s \<le> 1"
  by (cases "numOf v") (auto simp: unitScore_def isFinite_def jint_def)

lemma scoreOf_unit:
  assumes "\<forall>r \<in> set rs. unitScore (fld ''score'' r)"
  shows "\<exists>s. scoreOf rs c = Fin s \<and> 0 \<le> s \<and> s \<le> 1"
proof (cases "findBy ''case_id'' c rs")
  case (Some r)
  with findBy_Some assms have "unitScore (fld ''score'' r)" by blast
  with Some unitScoreE show ?thesis by (simp add: scoreOf_def)
qed (simp add: scoreOf_def jint_def)

lemma weighted_le:
  assumes "\<forall>r \<in> set rs. unitScore (fld ''score'' r)"
  shows "\<forall>c \<in> set cs. \<exists>w. fld ''weight'' c = JNum (Fin w) \<and> 0 \<le> w \<and> isDouble w \<Longrightarrow> nonNeg a \<Longrightarrow> jle a b \<Longrightarrow>
    nonNeg (foldl (\<lambda>s c. jadd s (jmul (scoreOf rs c) (numOf (fld ''weight'' c)))) a cs) \<and>
    jle (foldl (\<lambda>s c. jadd s (jmul (scoreOf rs c) (numOf (fld ''weight'' c)))) a cs)
      (foldl (\<lambda>s c. jadd s (numOf (fld ''weight'' c))) b cs)"
proof (induction cs arbitrary: a b)
  case (Cons c cs)
  from Cons.prems(1) obtain w where w: "fld ''weight'' c = JNum (Fin w)" "0 \<le> w" "isDouble w" by auto
  from scoreOf_unit [OF assms] obtain s where s: "scoreOf rs c = Fin s" "0 \<le> s" "s \<le> 1" by blast
  note m = jmul_le [OF s(2, 3) w(2, 3)]
  have "nonNeg (jadd a (jmul (Fin s) (Fin w)))" using Cons.prems(2) m(1) by (rule jadd_nonNeg)
  moreover have "jle (jadd a (jmul (Fin s) (Fin w))) (jadd b (Fin w))"
    using Cons.prems(2) m(1) Cons.prems(3) m(2) by (rule jadd_mono)
  ultimately show ?case using Cons.IH Cons.prems(1) s(1) w(1) by simp
qed simp

lemma weightedScore_unit:
  assumes "weightedScore spec rs = Inr x" "goodWeights spec" "\<forall>r \<in> set rs. unitScore (fld ''score'' r)"
  shows "\<exists>q. x = Fin q \<and> 0 \<le> q \<and> q \<le> 1"
proof -
  let ?t = "totalWeight (fld ''public_cases'' spec)"
  from assms(1) have t: "isFinite ?t" "\<not> jle ?t (jint 0)" and x: "x = jdiv (weightedSum rs (specCases spec)) ?t"
    by (auto simp: weightedScore_def Let_def)
  have g: "\<forall>c \<in> set (specCases spec). \<exists>w. fld ''weight'' c = JNum (Fin w) \<and> 0 \<le> w \<and> isDouble w"
    using assms(2) by (simp add: goodWeights_def list_all_iff)
  have z: "nonNeg (jint 0)" "jle (jint 0) (jint 0)" by (simp_all add: jint_def)
  from weighted_le [OF assms(3) g z] have "nonNeg (weightedSum rs (specCases spec))"
    "jle (weightedSum rs (specCases spec)) ?t"
    by (simp_all add: weightedSum_def totalWeight_def specCases_def)
  with t obtain n d where nd: "weightedSum rs (specCases spec) = Fin n" "?t = Fin d" "0 \<le> n" "n \<le> d" "0 < d"
    by (cases ?t; cases "weightedSum rs (specCases spec)") (auto simp: isFinite_def jint_def)
  then have q: "0 \<le> n / d" "n / d \<le> 1" by simp_all
  have "jle (rnd (n / d)) (rnd 1)" using q by (intro rnd_mono)
  with q x nd rnd_nonneg [of "n / d"] show ?thesis by auto
qed

section \<open>What qualification means\<close>

lemma isFiniteE: "isFinite x \<Longrightarrow> \<exists>q. x = Fin q"
  by (cases x) (simp_all add: isFinite_def)

lemma numOf_FinD: "numOf v = Fin q \<Longrightarrow> v = JNum (Fin q)"
  by (cases v) (simp_all add: numOf_def)

lemma goodWeights_validated:
  assumes "list_all fst (validateEvalSpec spec label)"
    and "\<forall>c \<in> set (specCases spec). isDouble (ratOf (numOf (fld ''weight'' c)))"
  shows "goodWeights spec"
proof -
  have c: "list_all fst (checksEach (publicCaseChecks label) (arrOf (fld ''public_cases'' spec)))"
    using assms(1) by (simp add: validateEvalSpec_def Let_def)
  have "\<exists>w. fld ''weight'' e = JNum (Fin w) \<and> 0 \<le> w \<and> isDouble w" if e: "e \<in> set (specCases spec)" for e
  proof -
    obtain i where "i < length (specCases spec)" "specCases spec ! i = e" using e by (auto simp: in_set_conv_nth)
    with c have "list_all fst (publicCaseChecks label i e)" by (auto simp: specCases_def)
    then have w: "isFinite (numOf (fld ''weight'' e))" "\<not> jlt (numOf (fld ''weight'' e)) (jint 0)"
      by (simp_all add: publicCaseChecks_def Let_def)
    then obtain q where q: "numOf (fld ''weight'' e) = Fin q" using isFiniteE by blast
    then have "fld ''weight'' e = JNum (Fin q)" by (rule numOf_FinD)
    moreover have "isDouble q" using assms(2) e q by force
    moreover have "0 \<le> q" using w(2) q by (simp add: jint_def)
    ultimately show ?thesis by blast
  qed
  then show ?thesis by (simp add: goodWeights_def list_all_iff)
qed

lemma resultSet_unit:
  assumes "list_all fst (assertPublicResultSet spec rs label)"
  shows "\<forall>r \<in> set rs. unitScore (fld ''score'' r)"
proof
  fix r assume "r \<in> set rs"
  then obtain i where "i < length rs" "rs ! i = r" by (auto simp: in_set_conv_nth)
  with assms have "list_all fst (publicResultStep spec label (take i rs) r)" by (auto simp: assertPublicResultSet_def)
  then show "unitScore (fld ''score'' r)" by (simp add: publicResultStep_def)
qed

lemma recompute_Inr:
  assumes "recomputeEvaluationQualification request spec r = Inr f"
  shows "list_all fst (resultSetChecks spec r)"
    "weightedScore spec (arrOf (er_public r)) = Inr (ef_gateScore f)"
    "gateResultsOf spec (ef_gateScore f) (arrOf (er_protected r)) = Inr (ef_gateResults f)"
    "evaluateDesignRequestResourceConstraints request (er_cost r) (er_latency r) =
       Inr (ef_resourceConstraintResults f, ef_resourceConstraintsPassed f)"
    "ef_safetyFailureClassifications f = safetyFailureClassifications (arrOf (er_safety r))"
    "ef_qualified f \<longleftrightarrow> requiredPublicPassed spec (arrOf (er_public r)) \<and> protectedPassed spec (arrOf (er_protected r))
       \<and> requiredGatesPassed spec (ef_gateResults f) \<and> ef_baselinePublicPassed f \<and> ef_baselineProtectedPassed f
       \<and> ef_resourceConstraintsPassed f \<and> safetyFailureClassifications (arrOf (er_safety r)) = []
       \<and> er_verdict r = JStr ''pass''"
  using assms by (auto simp: recomputeEvaluationQualification_def Let_def split: prod.splits)

lemma gateScore_unit:
  assumes "recomputeEvaluationQualification request spec r = Inr f" "goodWeights spec"
  shows "\<exists>q. ef_gateScore f = Fin q \<and> 0 \<le> q \<and> q \<le> 1"
proof -
  note m = recompute_Inr [OF assms(1)]
  have "list_all fst (assertPublicResultSet spec (arrOf (er_public r)) ''EvidenceBundle.public_results'')"
    using m(1) by (simp add: resultSetChecks_def Let_def)
  from weightedScore_unit [OF m(2) assms(2) resultSet_unit [OF this]] show ?thesis .
qed

lemma constraints_passed:
  "evaluateDesignRequestResourceConstraints req c l = Inr (crs, ok) \<Longrightarrow> ok \<Longrightarrow> x \<in> set crs \<Longrightarrow> cr_passed x"
  by (auto simp: evaluateDesignRequestResourceConstraints_def Let_def list_all_iff)

text \<open>A qualified bundle: what each part of the conjunction says of the frozen plan.\<close>

lemma qualified_facts:
  assumes "recomputeEvaluationQualification request spec r = Inr f" "ef_qualified f"
  shows "c \<in> set (specCases spec) \<Longrightarrow> boolOf (fld ''required'' c) \<Longrightarrow>
      \<exists>x \<in> set (arrOf (er_public r)). jsSame (fld ''case_id'' x) (fld ''case_id'' c) \<and> fld ''status'' x = JStr ''pass''"
    "q \<in> set (specReqs spec) \<Longrightarrow> \<exists>a \<in> set (arrOf (er_protected r)).
      jsSame (fld ''category'' a) (fld ''category'' q) \<and> numOf (fld ''failed'' a) = jint 0
      \<and> jle (numOf (fld ''minimum_case_count'' q)) (numOf (fld ''total'' a))"
    "x \<in> set (arrOf (er_safety r)) \<Longrightarrow> \<not> severe x"
    "y \<in> set (ef_resourceConstraintResults f) \<Longrightarrow> cr_passed y"
    "er_verdict r = JStr ''pass''"
proof -
  note m = recompute_Inr [OF assms(1)]
  from m(6) assms(2) have q: "requiredPublicPassed spec (arrOf (er_public r))" "protectedPassed spec (arrOf (er_protected r))"
    "ef_resourceConstraintsPassed f" "safetyFailureClassifications (arrOf (er_safety r)) = []" by blast+
  show "er_verdict r = JStr ''pass''" using m(6) assms(2) by blast
  show "\<exists>x \<in> set (arrOf (er_public r)). jsSame (fld ''case_id'' x) (fld ''case_id'' c) \<and> fld ''status'' x = JStr ''pass''"
    if "c \<in> set (specCases spec)" "boolOf (fld ''required'' c)"
    using q(1) that by (fastforce simp: requiredPublicPassed_def list_all_iff split: option.splits dest: findBy_Some)
  show "\<exists>a \<in> set (arrOf (er_protected r)).
      jsSame (fld ''category'' a) (fld ''category'' q) \<and> numOf (fld ''failed'' a) = jint 0
      \<and> jle (numOf (fld ''minimum_case_count'' q)) (numOf (fld ''total'' a))"
    if "q \<in> set (specReqs spec)"
    using q(2) that by (fastforce simp: protectedPassed_def list_all_iff jeq_def split: option.splits dest: findBy_Some)
  show "\<not> severe x" if "x \<in> set (arrOf (er_safety r))"
    using q(4) that by (auto simp: safetyFailureClassifications_def filter_empty_conv)
  show "cr_passed y" if "y \<in> set (ef_resourceConstraintResults f)"
    using constraints_passed m(4) q(3) that by blast
qed

section \<open>The runtime's bundle passes the re-check\<close>

lemma failureEntry_class: "fld ''failure_class'' (failureEntry cls g rs) = JStr cls"
  by (simp add: failureEntry_def)

lemma constraint_kinds:
  "evaluateDesignRequestResourceConstraints req c l = Inr (crs, ok) \<Longrightarrow> x \<in> set crs \<Longrightarrow> cr_kind x \<in> {''cost'', ''latency''}"
  by (auto simp: evaluateDesignRequestResourceConstraints_def resourceConstraintResults_def Let_def)

lemma safety_part:
  assumes "\<forall>x \<in> set (ef_resourceConstraintResults f). cr_kind x \<in> {''cost'', ''latency''}"
    and s: "ef_safetyFailureClassifications f = safetyFailureClassifications os"
  shows "filter (\<lambda>e. fld ''failure_class'' e = JStr ''safety_event'') (failureClassification grs f rs) =
    safetyFailureClassifications os"
proof -
  have all: "filter (\<lambda>e. fld ''failure_class'' e = JStr ''safety_event'') (safetyFailureClassifications os) =
      safetyFailureClassifications os"
    by (rule filter_True) (auto simp: safetyFailureClassifications_def)
  have "filter (\<lambda>e. fld ''failure_class'' e = JStr ''safety_event'')
      (map (\<lambda>c. failureEntry (cr_kind c @ ''_constraint_exceeded'') (g c) rs)
        (filter (\<lambda>c. \<not> cr_passed c) (ef_resourceConstraintResults f))) = []" for g
    using assms(1) by (auto simp: filter_empty_conv failureEntry_class)
  then show ?thesis
    unfolding failureClassification_def filter_append s all
    by (simp add: filter_empty_conv failureEntry_class)
qed

lemma plain_safety:
  assumes "\<forall>x \<in> set os. plain (JArr (arrOf (fld ''evidence_refs'' x)))"
  shows "plain (JArr (sortedFailureClassifications ck (safetyFailureClassifications os)))"
  using assms by (auto simp: sortedFailureClassifications_def safetyFailureClassifications_def severe_def)

lemma runFrozenPlan_Inr:
  assumes "runFrozenPlan rt i phase = Inr ev"
  shows "\<exists>rs ps base obs rv execRef grs f d.
    ev = evidenceBundle rt i phase rs ps base obs rv execRef grs f d \<and>
    recomputeEvaluationQualification (ei_request i) (fld ''eval_spec'' (ei_blueprint i))
       \<lparr> er_public = JArr rs, er_baseline_public = fst base, er_protected = JArr (map fst ps),
         er_baseline_protected = fst (snd base), er_verdict = fld ''verdict'' rv,
         er_baseline_present = (ei_baseline_version i \<noteq> JNull),
         er_cost = fld ''candidate_cost_observations'' obs, er_latency = fld ''candidate_latency_observations'' obs,
         er_safety = fld ''safety_observations'' obs \<rparr> = Inr f \<and>
    execRef \<noteq> [] \<and> execRef \<noteq> trimmed (fld ''execution_ref'' rv) \<and>
    foundryFrozenEvaluationPlanDigest (fld ''eval_spec'' (ei_blueprint i)) = Inr d"
  using assms
  unfolding runFrozenPlan_def Let_def bindE_Inr_iff split_beta runChecks_iff sum.inject list.pred_inject fst_conv
  by (elim exE conjE) blast

lemma evidenceBundle_results:
  "resultsOfEvidence (evidenceBundle rt i phase rs ps base obs rv execRef grs f d) p =
     \<lparr> er_public = JArr rs, er_baseline_public = fst base, er_protected = JArr (map fst ps),
       er_baseline_protected = fst (snd base), er_verdict = fld ''verdict'' rv, er_baseline_present = p,
       er_cost = fld ''candidate_cost_observations'' obs, er_latency = fld ''candidate_latency_observations'' obs,
       er_safety = fld ''safety_observations'' obs \<rparr>"
  by (simp add: resultsOfEvidence_def evidenceBundle_def Let_def)

lemma evidenceBundle_fld:
  "fld ''gate_score'' (evidenceBundle rt i phase rs ps base obs rv execRef grs f d) = JNum (ef_gateScore f)"
  "fld ''qualified'' (evidenceBundle rt i phase rs ps base obs rv execRef grs f d) = JBool (ef_qualified f)"
  "fld ''safety_observations'' (evidenceBundle rt i phase rs ps base obs rv execRef grs f d) = fld ''safety_observations'' obs"
  "fld ''failure_classification'' (evidenceBundle rt i phase rs ps base obs rv execRef grs f d) =
     JArr (failureClassification grs f rs)"
  by (simp_all add: evidenceBundle_def Let_def)

lemma arrOf_JArr [simp]: "arrOf (JArr vs) = vs"
  by (simp add: arrOf_def)

lemma runtime_bundle_accepted:
  assumes run: "runFrozenPlan rt i phase = Inr ev"
    and w: "goodWeights (fld ''eval_spec'' (ei_blueprint i))"
    and pl: "\<forall>x \<in> set (arrOf (fld ''safety_observations'' ev)). plain (JArr (arrOf (fld ''evidence_refs'' x)))"
  shows "\<exists>f. assertEvaluationEvidenceFacts ck (ei_request i) (fld ''eval_spec'' (ei_blueprint i)) ev
      (ei_baseline_version i \<noteq> JNull) = Inr f
    \<and> fld ''gate_score'' ev = JNum (ef_gateScore f) \<and> fld ''qualified'' ev = JBool (ef_qualified f)"
proof -
  from runFrozenPlan_Inr [OF run] obtain rs ps base obs rv execRef grs f d where
    ev: "ev = evidenceBundle rt i phase rs ps base obs rv execRef grs f d" and
    rc: "recomputeEvaluationQualification (ei_request i) (fld ''eval_spec'' (ei_blueprint i))
      (resultsOfEvidence ev (ei_baseline_version i \<noteq> JNull)) = Inr f"
    using evidenceBundle_results by metis
  from gateScore_unit [OF rc w] have "jsSame (JNum (ef_gateScore f)) (JNum (ef_gateScore f))"
    by (auto simp: jsSame_def jeq_def)
  then have g: "list_all fst [(jsSame (fld ''gate_score'' ev) (JNum (ef_gateScore f))
      \<and> fld ''qualified'' ev = JBool (ef_qualified f),
      ''EvidenceBundle qualification or gate score does not match independently recomputed facts.'')]"
    by (simp add: ev evidenceBundle_fld)
  let ?os = "arrOf (fld ''safety_observations'' ev)"
  note m = recompute_Inr [OF rc]
  have "filter (\<lambda>e. fld ''failure_class'' e = JStr ''safety_event'') (arrOf (fld ''failure_classification'' ev)) =
      safetyFailureClassifications ?os"
    unfolding ev evidenceBundle_fld arrOf_JArr
    using m(4, 5) by (intro safety_part) (auto dest: constraint_kinds simp: ev evidenceBundle_results)
  then have "assertSafetyFailureClassifications ck ?os (arrOf (fld ''failure_classification'' ev)) = Inr ()"
    unfolding assertSafetyFailureClassifications_def
    by (simp only: canonicalJsonText_plain [OF plain_safety [OF pl]] bindE.simps runChecks_ok list.pred_inject fst_conv
        refl simp_thms)
  then have "assertEvaluationEvidenceFacts ck (ei_request i) (fld ''eval_spec'' (ei_blueprint i)) ev
      (ei_baseline_version i \<noteq> JNull) = Inr f"
    unfolding assertEvaluationEvidenceFacts_def rc bindE.simps runChecks_ok [OF g] by simp
  then show ?thesis by (auto simp: ev evidenceBundle_fld)
qed

end
