(* ===== verification/Event_Store.thy ===== *)
theory Event_Store
  imports State_Machine
begin

text \<open>
  \<open>InMemoryFoundryEventStore\<close> of \<open>src/src/authority/evolution/in-memory-adapters.ts\<close>: the
  event chains of all runs and the write lock of each target.  The interface a client
  relies on is the locale \<open>append_log\<close>; the store is its interpretation.  The
  invariant says that every stored chain verifies and that the runs which are not
  terminal are exactly the holders of their target's lock.
\<close>

section \<open>State and operations\<close>

record event_store =
  es_runs :: "(string \<times> json list) list"
  es_locks :: "(string \<times> string) list"

definition newEventStore :: event_store where
  "newEventStore = \<lparr> es_runs = [], es_locks = [] \<rparr>"

definition runIdOf :: "json \<Rightarrow> string" where
  "runIdOf e = strOf (fld ''run_id'' e)"

definition readRun :: "event_store \<Rightarrow> string \<Rightarrow> json list" where
  "readRun s r = (case map_of (es_runs s) r of Some es \<Rightarrow> es | None \<Rightarrow> [])"

definition createRun :: "event_store \<Rightarrow> string \<Rightarrow> json \<Rightarrow> event_store res" where
  "createRun s target e =
     bindE (runChecks [(map_of (es_runs s) (runIdOf e) = None, ''FoundryRun already exists.''),
       (case map_of (es_locks s) target of Some r \<Rightarrow> r = [] | None \<Rightarrow> True,
        ''Target Agent already has an active write FoundryRun.'')]) (\<lambda>u.
     bindE (verifyFoundryEventChain [e]) (\<lambda>u.
     Inr (s\<lparr> es_runs := AList.update (runIdOf e) [e] (es_runs s),
        es_locks := AList.update target (runIdOf e) (es_locks s) \<rparr>)))"

definition isTerminalName :: "json \<Rightarrow> bool" where
  "isTerminalName v \<longleftrightarrow> (case v of JStr n \<Rightarrow> n \<in> stateName ` set FOUNDRY_TERMINAL_STATES | _ \<Rightarrow> False)"

definition appendEvent :: "event_store \<Rightarrow> string \<Rightarrow> int \<Rightarrow> json \<Rightarrow> (event_store \<times> json) res" where
  "appendEvent s target expectedRevision e = (case map_of (es_runs s) (runIdOf e) of
       None \<Rightarrow> fail ''FoundryRun does not exist.''
     | Some es \<Rightarrow> (case find (\<lambda>x. jsSame (fld ''idempotency_key'' x) (fld ''idempotency_key'' e)) es of
         Some replay \<Rightarrow> mapE (\<lambda>x. (s, x)) (assertFoundryEventReplay replay e expectedRevision)
       | None \<Rightarrow>
           bindE (runChecks [(jeq (numOf (fld ''revision'' (last es))) (jint expectedRevision),
             ''FoundryRun revision compare-and-swap failed.'')]) (\<lambda>u.
           bindE (verifyFoundryEventChain (es @ [e])) (\<lambda>u.
           Inr (s\<lparr> es_runs := AList.update (runIdOf e) (es @ [e]) (es_runs s),
              es_locks := (if isTerminalName (fld ''to_state'' e) then AList.delete target (es_locks s)
                else es_locks s) \<rparr>, e)))))"

definition listRuns :: "event_store \<Rightarrow> run_snapshot list res" where
  "listRuns s = seqE (map (\<lambda>(r, es). snapshotFromEvents es) (es_runs s))"

section \<open>Invariant\<close>

definition targetKey :: "string \<Rightarrow> string \<Rightarrow> string" where
  "targetKey agent domain = agent @ CHR 0x00 # domain"

text \<open>The target a chain was accepted for.\<close>

definition chainTarget :: "json list \<Rightarrow> string" where
  "chainTarget es = (let p = fld ''payload'' (hd es) in
     targetKey (strOf (fld ''target_agent_id'' p)) (strOf (fld ''target_domain_id'' p)))"

definition chainTerminal :: "json list \<Rightarrow> bool" where
  "chainTerminal es \<longleftrightarrow> isTerminalName (fld ''to_state'' (last es))"

definition storeInv :: "event_store \<Rightarrow> bool" where
  "storeInv s \<longleftrightarrow> distinct (map fst (es_runs s)) \<and>
     (\<forall>r es. map_of (es_runs s) r = Some es \<longrightarrow>
        verifyFoundryEventChain es = Inr () \<and> fld ''run_id'' (hd es) = JStr r) \<and>
     (\<forall>k r. map_of (es_locks s) k = Some r \<longleftrightarrow>
        (\<exists>es. map_of (es_runs s) r = Some es \<and> \<not> chainTerminal es \<and> chainTarget es = k))"

lemma storeInv_new: "storeInv newEventStore"
  by (simp add: storeInv_def newEventStore_def)

lemma storeInv_chain:
  "storeInv s \<Longrightarrow> map_of (es_runs s) r = Some es \<Longrightarrow> verifyFoundryEventChain es = Inr () \<and> fld ''run_id'' (hd es) = JStr r"
  by (simp add: storeInv_def)

lemma storeInv_lock:
  "storeInv s \<Longrightarrow> map_of (es_locks s) k = Some r \<longleftrightarrow>
     (\<exists>es. map_of (es_runs s) r = Some es \<and> \<not> chainTerminal es \<and> chainTarget es = k)"
  by (simp add: storeInv_def)

lemma storeInvI:
  assumes "distinct (map fst (es_runs s))"
    and "\<And>r es. map_of (es_runs s) r = Some es \<Longrightarrow> verifyFoundryEventChain es = Inr () \<and> fld ''run_id'' (hd es) = JStr r"
    and "\<And>k r. map_of (es_locks s) k = Some r \<longleftrightarrow>
      (\<exists>es. map_of (es_runs s) r = Some es \<and> \<not> chainTerminal es \<and> chainTarget es = k)"
  shows "storeInv s"
  using assms unfolding storeInv_def by blast

lemma storeInv_distinct: "storeInv s \<Longrightarrow> distinct (map fst (es_runs s))"
  by (simp add: storeInv_def)

text \<open>Two runs of one target are never both unfinished.\<close>

lemma one_active_run:
  assumes "storeInv s" "map_of (es_runs s) r = Some es" "map_of (es_runs s) r' = Some es'"
    "\<not> chainTerminal es" "\<not> chainTerminal es'" "chainTarget es = chainTarget es'"
  shows "r = r'"
proof -
  have "map_of (es_locks s) (chainTarget es) = Some r"
    unfolding storeInv_lock [OF assms(1)] using assms(2, 4) by (intro exI [of _ es]) simp
  moreover have "map_of (es_locks s) (chainTarget es) = Some r'"
    unfolding storeInv_lock [OF assms(1)] using assms(3, 5, 6) by (intro exI [of _ es']) simp
  ultimately show ?thesis by simp
qed

lemma verified_first_run_id:
  "verifyFoundryEventChain es = Inr () \<Longrightarrow> fld ''run_id'' (hd es) = JStr (runIdOf (hd es)) \<and> runIdOf (hd es) \<noteq> []"
proof (induction es rule: verify_induct)
  case (first e)
  have "fld ''run_id'' e = JStr (runIdOf e)" using verifyEvent_identity(3) [OF first] by (simp add: isStr_JStr runIdOf_def)
  moreover from this have "runIdOf e \<noteq> []" using verifyEvent_identity(10) [OF first] by auto
  ultimately show ?case by simp
next
  case (step es e)
  then show ?case by simp
qed

lemma terminal_iff_stateOf:
  "chainTerminal es \<longleftrightarrow> (\<exists>s. isTerminal s \<and> fld ''to_state'' (last es) = JStr (stateName s))"
  by (auto simp: chainTerminal_def isTerminalName_def isTerminal_def split: json.splits)

lemma accepted_not_terminal:
  assumes "verifyFoundryEventChain [e] = Inr ()"
  shows "\<not> chainTerminal [e]"
proof -
  have "fld ''to_state'' e = JStr (stateName Accepted)"
    using verifyEvent_first(2) [of e "[]" e] assms by (simp add: verify_single)
  then show ?thesis by (auto simp: terminal_iff_stateOf isTerminal_def FOUNDRY_TERMINAL_STATES_def simp del: stateName.simps)
qed

lemma terminal_chain_closed:
  assumes "verifyFoundryEventChain es = Inr ()" "chainTerminal es"
  shows "verifyFoundryEventChain (es @ [e]) \<noteq> Inr ()"
proof -
  obtain s where "isTerminal s" "evState (last es) = stateName s"
    using assms(2) by (auto simp: terminal_iff_stateOf evState_def)
  then show ?thesis using terminal_no_append [OF verify_nonempty [OF assms(1)]] assms(1) by blast
qed

section \<open>The operations keep the invariant\<close>

lemma createRun_Inr:
  assumes "createRun s k e = Inr s'"
  shows "map_of (es_runs s) (runIdOf e) = None" "\<And>r. map_of (es_locks s) k = Some r \<Longrightarrow> r = []"
    "verifyFoundryEventChain [e] = Inr ()"
    "s' = s\<lparr> es_runs := AList.update (runIdOf e) [e] (es_runs s), es_locks := AList.update k (runIdOf e) (es_locks s) \<rparr>"
  using assms by (auto simp: createRun_def)

lemma appendEvent_Inr:
  assumes "appendEvent s k n e = Inr (s', x)"
  obtains es where "map_of (es_runs s) (runIdOf e) = Some es" "s' = s" "x \<in> set es"
      "jsSame (fld ''idempotency_key'' x) (fld ''idempotency_key'' e)" "assertFoundryEventReplay x e n = Inr x"
  | es where "map_of (es_runs s) (runIdOf e) = Some es" "x = e" "verifyFoundryEventChain (es @ [e]) = Inr ()"
      "jeq (numOf (fld ''revision'' (last es))) (jint n)"
      "s' = s\<lparr> es_runs := AList.update (runIdOf e) (es @ [e]) (es_runs s),
         es_locks := (if chainTerminal [e] then AList.delete k (es_locks s) else es_locks s) \<rparr>"
proof (cases "map_of (es_runs s) (runIdOf e)")
  case None
  with assms show ?thesis by (simp add: appendEvent_def)
next
  case (Some es)
  show ?thesis
  proof (cases "find (\<lambda>x. jsSame (fld ''idempotency_key'' x) (fld ''idempotency_key'' e)) es")
    case None
    show ?thesis
    proof (rule that(2) [of es])
      show "map_of (es_runs s) (runIdOf e) = Some es" by (rule Some)
    qed (use assms Some None in \<open>auto simp: appendEvent_def chainTerminal_def\<close>)
  next
    case (Some y)
    note y = this
    from assms y \<open>map_of (es_runs s) (runIdOf e) = Some es\<close>
    obtain z where z: "assertFoundryEventReplay y e n = Inr z" "s' = s" "x = z"
      by (auto simp: appendEvent_def mapE_Inr_iff)
    have "y \<in> set es" "jsSame (fld ''idempotency_key'' y) (fld ''idempotency_key'' e)"
      using y by (auto simp: find_Some_iff)
    then show ?thesis
      using that(1) [OF \<open>map_of (es_runs s) (runIdOf e) = Some es\<close> z(2)] z replay_Inr(1) [OF z(1)] by simp
  qed
qed

lemma distinct_update [simp]: "distinct (map fst al) \<Longrightarrow> distinct (map fst (AList.update k v al))"
  by (rule distinct_update)

lemma storeInv_create:
  assumes inv: "storeInv s" and c: "createRun s k e = Inr s'" and k: "k = chainTarget [e]"
  shows "storeInv s'"
proof -
  note f = createRun_Inr [OF c]
  have rid: "fld ''run_id'' e = JStr (runIdOf e)" "runIdOf e \<noteq> []" using verified_first_run_id [OF f(3)] by simp_all
  have nt: "\<not> chainTerminal [e]" by (rule accepted_not_terminal [OF f(3)])
  have free: "map_of (es_locks s) k = None"
  proof (rule ccontr)
    assume "map_of (es_locks s) k \<noteq> None"
    then obtain r where r: "map_of (es_locks s) k = Some r" by blast
    from storeInv_lock [OF inv] r obtain es where "map_of (es_runs s) r = Some es" by blast
    then have "runIdOf (hd es) = r" "runIdOf (hd es) \<noteq> []"
      using storeInv_chain [OF inv] verified_first_run_id [of es] by auto
    with f(2) [OF r] show False by simp
  qed
  have runs: "map_of (es_runs s') r = (if r = runIdOf e then Some [e] else map_of (es_runs s) r)" for r
    unfolding f(4) by (simp add: update_conv)
  have locks: "map_of (es_locks s') j = (if j = k then Some (runIdOf e) else map_of (es_locks s) j)" for j
    unfolding f(4) by (simp add: update_conv)
  show ?thesis
  proof (rule storeInvI)
    show "distinct (map fst (es_runs s'))" using storeInv_distinct [OF inv] by (simp add: f(4))
    show "verifyFoundryEventChain es = Inr () \<and> fld ''run_id'' (hd es) = JStr r" if "map_of (es_runs s') r = Some es" for r es
      using that f(3) rid(1) storeInv_chain [OF inv, of r es] by (cases "r = runIdOf e") (simp_all only: runs if_True if_False option.inject list.sel simp_thms, auto)
    show "map_of (es_locks s') j = Some r \<longleftrightarrow>
        (\<exists>es. map_of (es_runs s') r = Some es \<and> \<not> chainTerminal es \<and> chainTarget es = j)" for j r
      using storeInv_lock [OF inv, of j r] free nt k f(1) by (auto simp: runs locks)
  qed
qed

lemma storeInv_append:
  assumes inv: "storeInv s" and a: "appendEvent s k n e = Inr (s', x)"
    and k: "\<And>es. map_of (es_runs s) (runIdOf e) = Some es \<Longrightarrow> k = chainTarget es"
  shows "storeInv s'"
  using a
proof (cases rule: appendEvent_Inr)
  case (1 es)
  with inv show ?thesis by simp
next
  case (2 es)
  note v = storeInv_chain [OF inv 2(1)]
  then have ne: "es \<noteq> []" using verify_nonempty by blast
  have live: "\<not> chainTerminal es" using terminal_chain_closed [of es e] v 2(3) by auto
  have tgt: "chainTarget (es @ [e]) = chainTarget es" using ne by (simp add: chainTarget_def)
  have final: "chainTerminal (es @ [e]) = chainTerminal [e]" by (simp add: chainTerminal_def)
  have kk: "k = chainTarget es" using k 2(1) by blast
  have runs: "map_of (es_runs s') r = (if r = runIdOf e then Some (es @ [e]) else map_of (es_runs s) r)" for r
    unfolding 2(5) by (simp add: update_conv)
  have locks: "map_of (es_locks s') j = (if j = k \<and> chainTerminal [e] then None else map_of (es_locks s) j)" for j
    unfolding 2(5) by (simp add: delete_conv)
  have held: "map_of (es_locks s) j = Some (runIdOf e) \<longleftrightarrow> j = k" for j
    using storeInv_lock [OF inv, of j "runIdOf e"] 2(1) live kk by auto
  show ?thesis
  proof (rule storeInvI)
    show "distinct (map fst (es_runs s'))" using storeInv_distinct [OF inv] by (simp add: 2(5))
    show "verifyFoundryEventChain fs = Inr () \<and> fld ''run_id'' (hd fs) = JStr r" if "map_of (es_runs s') r = Some fs" for r fs
    proof (cases "r = runIdOf e")
      case True
      with that have "fs = es @ [e]" by (simp add: runs)
      with True v 2(3) ne show ?thesis by simp
    next
      case False
      with that storeInv_chain [OF inv, of r fs] show ?thesis by (simp only: runs if_False)
    qed
    show "map_of (es_locks s') j = Some r \<longleftrightarrow>
        (\<exists>es. map_of (es_runs s') r = Some es \<and> \<not> chainTerminal es \<and> chainTarget es = j)" for j r
    proof (cases "r = runIdOf e")
      case True
      then show ?thesis using held [of j] kk by (auto simp: runs locks tgt final)
    next
      case False
      then have "map_of (es_locks s) k \<noteq> Some r" using held [of k] by auto
      with False show ?thesis using storeInv_lock [OF inv, of j r] by (auto simp: runs locks)
    qed
  qed
qed

section \<open>The interface of an event log\<close>

text \<open>
  What the kernel relies on: reading, creating and appending, with the laws that chains
  verify, that creation is fresh and excludes a second live run of the target, and that
  an append either replays a stored event or extends the chain by its event.
\<close>

datatype log_op = Create json | Append int json

locale append_log =
  fixes inv :: "'s \<Rightarrow> bool"
    and rd :: "'s \<Rightarrow> string \<Rightarrow> json list"
    and create :: "'s \<Rightarrow> string \<Rightarrow> json \<Rightarrow> 's res"
    and append :: "'s \<Rightarrow> string \<Rightarrow> int \<Rightarrow> json \<Rightarrow> ('s \<times> json) res"
  assumes chain: "inv s \<Longrightarrow> rd s r \<noteq> [] \<Longrightarrow>
      verifyFoundryEventChain (rd s r) = Inr () \<and> fld ''run_id'' (hd (rd s r)) = JStr r"
    and exclusive: "inv s \<Longrightarrow> rd s r \<noteq> [] \<Longrightarrow> rd s r' \<noteq> [] \<Longrightarrow> \<not> chainTerminal (rd s r) \<Longrightarrow>
      \<not> chainTerminal (rd s r') \<Longrightarrow> chainTarget (rd s r) = chainTarget (rd s r') \<Longrightarrow> r = r'"
    and create_inv: "inv s \<Longrightarrow> create s (chainTarget [e]) e = Inr s' \<Longrightarrow> inv s'"
    and create_read: "inv s \<Longrightarrow> create s k e = Inr s' \<Longrightarrow>
      rd s (runIdOf e) = [] \<and> rd s' = (rd s)(runIdOf e := [e])"
    and append_inv: "inv s \<Longrightarrow> append s (chainTarget (rd s (runIdOf e))) n e = Inr (s', x) \<Longrightarrow> inv s'"
    and append_read: "inv s \<Longrightarrow> append s k n e = Inr (s', x) \<Longrightarrow>
      (s' = s \<and> x \<in> set (rd s (runIdOf e))) \<or>
      (x = e \<and> rd s (runIdOf e) \<noteq> [] \<and> rd s' = (rd s)(runIdOf e := rd s (runIdOf e) @ [e]))"
begin

text \<open>One operation, called with the target key of its run, and a sequence of them, up to the first error.\<close>

fun exec :: "'s \<Rightarrow> log_op \<Rightarrow> 's res" where
  "exec s (Create e) = create s (chainTarget [e]) e"
| "exec s (Append n e) = mapE fst (append s (chainTarget (rd s (runIdOf e))) n e)"

fun execs :: "'s \<Rightarrow> log_op list \<Rightarrow> 's res" where
  "execs s [] = Inr s"
| "execs s (c # cs) = bindE (exec s c) (\<lambda>s'. execs s' cs)"

lemma exec_inv: "inv s \<Longrightarrow> exec s c = Inr s' \<Longrightarrow> inv s'"
  by (cases c) (auto intro: create_inv append_inv)

lemma exec_prefix: "inv s \<Longrightarrow> exec s c = Inr s' \<Longrightarrow> prefix (rd s r) (rd s' r)"
proof (cases c)
  case (Create e)
  assume "inv s" "exec s c = Inr s'"
  then have "rd s (runIdOf e) = []" "rd s' = (rd s)(runIdOf e := [e])"
    using create_read [of s "chainTarget [e]" e s'] Create by simp_all
  then show ?thesis by simp
next
  case (Append n e)
  assume "inv s" "exec s c = Inr s'"
  then obtain x where "append s (chainTarget (rd s (runIdOf e))) n e = Inr (s', x)" using Append by auto
  from append_read [OF \<open>inv s\<close> this] show ?thesis by (elim disjE conjE) simp_all
qed

text \<open>Histories only grow: whatever is executed, what was read before is a prefix of what is read after.\<close>

lemma execs_prefix: "inv s \<Longrightarrow> execs s cs = Inr s' \<Longrightarrow> inv s' \<and> prefix (rd s r) (rd s' r)"
proof (induction cs arbitrary: s)
  case (Cons c cs)
  from Cons.prems obtain t where t: "exec s c = Inr t" "execs t cs = Inr s'" by auto
  from Cons.IH [OF exec_inv [OF Cons.prems(1) t(1)] t(2)] exec_prefix [OF Cons.prems(1) t(1), of r]
  show ?case by (blast intro: prefix_order.trans)
qed simp

text \<open>A terminal run is frozen.\<close>

lemma execs_terminal:
  assumes "inv s" "execs s cs = Inr s'" "rd s r \<noteq> []" "chainTerminal (rd s r)"
  shows "rd s' r = rd s r"
proof -
  from execs_prefix [OF assms(1, 2)] obtain fs where fs: "inv s'" "rd s' r = rd s r @ fs" by (auto simp: prefix_def)
  have v: "verifyFoundryEventChain (rd s r) = Inr ()" "verifyFoundryEventChain (rd s' r) = Inr ()"
    using chain [OF assms(1, 3)] chain [OF fs(1), of r] fs(2) assms(3) by simp_all
  show ?thesis
  proof (cases fs)
    case (Cons f gs)
    then have "verifyFoundryEventChain ((rd s r @ [f]) @ gs) = Inr ()" using v(2) fs(2) by simp
    then have "verifyFoundryEventChain (rd s r @ [f]) = Inr ()" by (subst (asm) verify_append) auto
    with terminal_chain_closed [OF v(1) assms(4)] show ?thesis by blast
  qed (simp add: fs)
qed

end

lemma readRun_Some: "storeInv s \<Longrightarrow> readRun s r \<noteq> [] \<longleftrightarrow> (\<exists>es. map_of (es_runs s) r = Some es)"
  using storeInv_chain [of s r] verify_nonempty by (fastforce simp: readRun_def split: option.splits)

lemma readRun_eq: "map_of (es_runs s) r = Some es \<Longrightarrow> readRun s r = es"
  by (simp add: readRun_def)

interpretation store: append_log storeInv readRun createRun appendEvent
proof
  fix s :: event_store and s' k r r' e n x
  assume inv: "storeInv s"
  show "readRun s r \<noteq> [] \<Longrightarrow> verifyFoundryEventChain (readRun s r) = Inr () \<and> fld ''run_id'' (hd (readRun s r)) = JStr r"
    using storeInv_chain [OF inv, of r] by (auto simp: readRun_def split: option.splits)
  show "readRun s r \<noteq> [] \<Longrightarrow> readRun s r' \<noteq> [] \<Longrightarrow> \<not> chainTerminal (readRun s r) \<Longrightarrow>
      \<not> chainTerminal (readRun s r') \<Longrightarrow> chainTarget (readRun s r) = chainTarget (readRun s r') \<Longrightarrow> r = r'"
    using one_active_run [OF inv, of r _ r'] by (auto simp: readRun_Some [OF inv] readRun_def split: option.splits)
  show "createRun s (chainTarget [e]) e = Inr s' \<Longrightarrow> storeInv s'"
    by (rule storeInv_create [OF inv _ refl])
  show "createRun s k e = Inr s' \<Longrightarrow> readRun s (runIdOf e) = [] \<and> readRun s' = (readRun s)(runIdOf e := [e])"
    by (frule createRun_Inr(1), drule createRun_Inr(4)) (auto simp: readRun_def update_conv fun_eq_iff)
  show "appendEvent s (chainTarget (readRun s (runIdOf e))) n e = Inr (s', x) \<Longrightarrow> storeInv s'"
    by (erule storeInv_append [OF inv]) (simp add: readRun_eq)
  assume "appendEvent s k n e = Inr (s', x)"
  then show "(s' = s \<and> x \<in> set (readRun s (runIdOf e))) \<or> (x = e \<and> readRun s (runIdOf e) \<noteq> [] \<and>
      readRun s' = (readRun s)(runIdOf e := readRun s (runIdOf e) @ [e]))"
  proof (cases rule: appendEvent_Inr)
    case (1 es)
    then show ?thesis by (simp add: readRun_eq)
  next
    case (2 es)
    then show ?thesis
      using readRun_Some [OF inv, of "runIdOf e"] by (auto simp: readRun_def update_conv fun_eq_iff)
  qed
qed

text \<open>Listing a store that satisfies the invariant succeeds: every chain folds to a snapshot.\<close>

lemma listRuns_total: "storeInv s \<Longrightarrow> \<exists>ss. listRuns s = Inr ss \<and> map sn_run_id ss = map fst (es_runs s)"
proof -
  assume inv: "storeInv s"
  have "\<exists>ss. seqE (map (\<lambda>(r, es). snapshotFromEvents es) al) = Inr ss \<and> map sn_run_id ss = map fst al"
    if "set al \<subseteq> set (es_runs s)" for al
    using that
  proof (induction al)
    case (Cons x al)
    obtain r es where x: "x = (r, es)" by force
    then have "map_of (es_runs s) r = Some es" using Cons.prems storeInv_distinct [OF inv] by simp
    from storeInv_chain [OF inv this] have v: "verifyFoundryEventChain es = Inr ()" "fld ''run_id'' (hd es) = JStr r" by blast+
    from snapshot_verified [OF v(1)] obtain sn where sn: "snapshotFromEvents es = Inr sn" "JStr (sn_run_id sn) = fld ''run_id'' (last es)" by blast
    have "fld ''run_id'' (last es) = fld ''run_id'' (hd es)"
      using verify_chainSpec [OF v(1)] last_in_set [of es] unfolding chainSpec_def by blast
    then have "sn_run_id sn = r" using sn(2) v(2) by simp
    with Cons sn(1) x show ?case by auto
  qed simp
  then show ?thesis unfolding listRuns_def by blast
qed

end
