(* ===== verification/Version_Registry.thy ===== *)
theory Version_Registry
  imports State_Machine
begin

text \<open>
  \<open>InMemoryVersionRegistry\<close> of \<open>src/src/authority/evolution/in-memory-adapters.ts\<close> with the
  record types of \<open>ports.ts\<close>: the qualified versions of each target, the pointer to
  the active one and the history of activation transactions.  The pointer is a
  compare-and-swap register over an append-only history; the abstract register is
  \<open>specActivate\<close> and the registry is shown to refine it.  A runtime binding
  verification comes from outside and is a JSON value; the registry's own records are
  typed.  Target keys join the two identities with a NUL, as the code does.
\<close>

section \<open>Records\<close>

record agent_version =
  av_version_id :: string
  av_version_digest :: string
  av_target_agent_id :: string
  av_target_domain_id :: string
  av_blueprint_digest :: string
  av_candidate_digest :: string
  av_candidate_ref :: string
  av_qualification_digest :: string
  av_created_at :: string

record qualification =
  ql_qualification_id :: string
  ql_qualification_digest :: string
  ql_target_agent_id :: string
  ql_target_domain_id :: string
  ql_blueprint_digest :: string
  ql_candidate_digest :: string
  ql_evidence_digest :: string
  ql_risk_tier :: json
  ql_qualified_at :: string

record activation_pointer =
  ap_target_agent_id :: string
  ap_target_domain_id :: string
  ap_active_version_digest :: "string option"
  ap_revision :: int
  ap_updated_at :: "string option"

datatype tx_kind = Activate_Tx | Rollback_Tx

fun kindName :: "tx_kind \<Rightarrow> string" where
  "kindName Activate_Tx = ''activate''"
| "kindName Rollback_Tx = ''rollback''"

record activation_transaction =
  tx_id :: string
  tx_kind :: tx_kind
  tx_target_agent_id :: string
  tx_target_domain_id :: string
  tx_from :: "string option"
  tx_to :: string
  tx_previous_revision :: int
  tx_next_revision :: int
  tx_receipt :: "string option"
  tx_occurred_at :: string
  tx_binding :: json

record registry_state =
  rg_versions :: "agent_version list"
  rg_qualifications :: "qualification list"
  rg_activation :: activation_pointer
  rg_transactions :: "activation_transaction list"

type_synonym registry = "(string \<times> registry_state) list"

section \<open>Lookup and registration\<close>

definition internalDigest :: "json \<Rightarrow> string res" where
  "internalDigest v = mapE (\<lambda>t. ''sha256:'' @ sha256Hex t) (canonicalJsonText v)"

definition registryKey :: "string \<Rightarrow> string \<Rightarrow> string" where
  "registryKey agent domain = agent @ CHR 0x00 # domain"

definition emptyState :: "string \<Rightarrow> string \<Rightarrow> registry_state" where
  "emptyState agent domain = \<lparr> rg_versions = [], rg_qualifications = [],
     rg_activation = \<lparr> ap_target_agent_id = agent, ap_target_domain_id = domain,
       ap_active_version_digest = None, ap_revision = 0, ap_updated_at = None \<rparr>,
     rg_transactions = [] \<rparr>"

definition regState :: "registry \<Rightarrow> string \<Rightarrow> string \<Rightarrow> registry_state" where
  "regState g agent domain = (case map_of g (registryKey agent domain) of
       Some st \<Rightarrow> st | None \<Rightarrow> emptyState agent domain)"

definition putState :: "string \<Rightarrow> string \<Rightarrow> registry_state \<Rightarrow> registry \<Rightarrow> registry" where
  "putState agent domain st g = AList.update (registryKey agent domain) st g"

definition listVersions :: "registry \<Rightarrow> string \<Rightarrow> string \<Rightarrow> agent_version list" where
  "listVersions g agent domain = rg_versions (regState g agent domain)"

text \<open>\<open>!ref\<close> holds for \<open>null\<close> and for the empty string.\<close>

definition resolveVersion :: "registry \<Rightarrow> string option \<Rightarrow> string \<Rightarrow> string \<Rightarrow> agent_version option" where
  "resolveVersion g ref agent domain = (let st = regState g agent domain in
     if ref = None \<or> ref = Some [] then
       (case ap_active_version_digest (rg_activation st) of None \<Rightarrow> None
        | Some d \<Rightarrow> find (\<lambda>v. av_version_digest v = d) (rg_versions st))
     else find (\<lambda>v. Some (av_version_digest v) = ref) (rg_versions st))"

definition activationOf :: "registry \<Rightarrow> string \<Rightarrow> string \<Rightarrow> activation_pointer" where
  "activationOf g agent domain = rg_activation (regState g agent domain)"

definition activationHistory :: "registry \<Rightarrow> string \<Rightarrow> string \<Rightarrow> activation_transaction list" where
  "activationHistory g agent domain = rg_transactions (regState g agent domain)"

definition qualificationBase :: "qualification \<Rightarrow> json" where
  "qualificationBase q = JObj [(''surface_kind'', JStr ''opl_foundry_qualification_record''),
     (''qualification_id'', JStr (ql_qualification_id q)),
     (''target_agent_id'', JStr (ql_target_agent_id q)), (''target_domain_id'', JStr (ql_target_domain_id q)),
     (''blueprint_digest'', JStr (ql_blueprint_digest q)), (''candidate_digest'', JStr (ql_candidate_digest q)),
     (''evidence_digest'', JStr (ql_evidence_digest q)), (''risk_tier'', ql_risk_tier q),
     (''qualified_at'', JStr (ql_qualified_at q))]"

definition qualificationJson :: "qualification \<Rightarrow> json" where
  "qualificationJson q = JObj (entriesOf (qualificationBase q) @
     [(''qualification_digest'', JStr (ql_qualification_digest q))])"

definition versionBase :: "agent_version \<Rightarrow> json" where
  "versionBase v = JObj [(''surface_kind'', JStr ''opl_foundry_agent_version''),
     (''version_id'', JStr (av_version_id v)),
     (''target_agent_id'', JStr (av_target_agent_id v)), (''target_domain_id'', JStr (av_target_domain_id v)),
     (''blueprint_digest'', JStr (av_blueprint_digest v)), (''candidate_digest'', JStr (av_candidate_digest v)),
     (''candidate_ref'', JStr (av_candidate_ref v)), (''qualification_digest'', JStr (av_qualification_digest v)),
     (''created_at'', JStr (av_created_at v))]"

definition versionJson :: "agent_version \<Rightarrow> json" where
  "versionJson v = JObj (entriesOf (versionBase v) @ [(''version_digest'', JStr (av_version_digest v))])"

record registration =
  ri_target_agent_id :: string
  ri_target_domain_id :: string
  ri_blueprint_digest :: string
  ri_candidate_digest :: string
  ri_candidate_ref :: string
  ri_evidence_digest :: string
  ri_risk_tier :: json
  ri_qualified_at :: string

definition registeredQualification :: "registration \<Rightarrow> qualification res" where
  "registeredQualification i = (let q = \<lparr>
       ql_qualification_id = ''qualification:'' @ ri_target_agent_id i @ '':'' @ ri_candidate_digest i,
       ql_qualification_digest = [], ql_target_agent_id = ri_target_agent_id i,
       ql_target_domain_id = ri_target_domain_id i, ql_blueprint_digest = ri_blueprint_digest i,
       ql_candidate_digest = ri_candidate_digest i, ql_evidence_digest = ri_evidence_digest i,
       ql_risk_tier = ri_risk_tier i, ql_qualified_at = ri_qualified_at i \<rparr> in
     mapE (\<lambda>d. q\<lparr> ql_qualification_digest := d \<rparr>) (internalDigest (qualificationBase q)))"

definition registeredVersion :: "registration \<Rightarrow> string \<Rightarrow> agent_version res" where
  "registeredVersion i qualificationDigest = (let v = \<lparr>
       av_version_id = ''version:'' @ ri_target_agent_id i @ '':'' @ ri_candidate_digest i,
       av_version_digest = [], av_target_agent_id = ri_target_agent_id i,
       av_target_domain_id = ri_target_domain_id i, av_blueprint_digest = ri_blueprint_digest i,
       av_candidate_digest = ri_candidate_digest i, av_candidate_ref = ri_candidate_ref i,
       av_qualification_digest = qualificationDigest, av_created_at = ri_qualified_at i \<rparr> in
     mapE (\<lambda>d. v\<lparr> av_version_digest := d \<rparr>) (internalDigest (versionBase v)))"

definition registerVersion :: "registry \<Rightarrow> registration \<Rightarrow> (registry \<times> agent_version \<times> qualification) res" where
  "registerVersion g i = (let st = regState g (ri_target_agent_id i) (ri_target_domain_id i) in
     bindE (registeredQualification i) (\<lambda>q.
     bindE (registeredVersion i (ql_qualification_digest q)) (\<lambda>v.
     case find (\<lambda>x. av_candidate_digest x = ri_candidate_digest i) (rg_versions st) of
       Some old \<Rightarrow>
         (case find (\<lambda>x. ql_qualification_digest x = av_qualification_digest old) (rg_qualifications st) of
            None \<Rightarrow> fail ''Version qualification record is missing.''
          | Some oldq \<Rightarrow>
              bindE (canonicalJsonText (versionJson old)) (\<lambda>a. bindE (canonicalJsonText (versionJson v)) (\<lambda>b.
              bindE (canonicalJsonText (qualificationJson oldq)) (\<lambda>c. bindE (canonicalJsonText (qualificationJson q)) (\<lambda>d.
              bindE (runChecks [(a = b \<and> c = d,
                ''Candidate digest is already registered with different immutable metadata.'')]) (\<lambda>u.
              Inr (g, old, oldq)))))))
     | None \<Rightarrow> Inr (putState (ri_target_agent_id i) (ri_target_domain_id i)
         (st\<lparr> rg_versions := rg_versions st @ [v], rg_qualifications := rg_qualifications st @ [q] \<rparr>) g, v, q))))"

section \<open>Activation\<close>

definition bindingFields :: "string list" where
  "bindingFields = [''surface_kind'', ''version'', ''verification_phase'', ''transaction_kind'', ''target_agent_id'',
     ''target_domain_id'', ''version_id'', ''version_digest'', ''candidate_digest'', ''candidate_ref'',
     ''expected_activation_revision'', ''preflight_ref'', ''runtime_binding_ref'']"

definition assertActivationRuntimeBindingVerification :: "json \<Rightarrow> tx_kind \<Rightarrow> int \<Rightarrow> agent_version \<Rightarrow> check list" where
  "assertActivationRuntimeBindingVerification b k n v =
     [(isRecord b, ''Activation runtime binding verification must be an object.''),
      (sameKeys b bindingFields, ''Activation runtime binding verification fields are invalid.''),
      (fld ''surface_kind'' b = JStr ''opl_foundry_activation_runtime_binding_verification''
        \<and> fld ''version'' b = JStr ''opl-foundry-activation-runtime-binding-verification.v1''
        \<and> fld ''verification_phase'' b = JStr ''pre_commit'',
       ''Activation runtime binding verification surface is invalid.''),
      (fld ''transaction_kind'' b = JStr (kindName k),
       ''Activation runtime binding verification transaction kind is invalid.''),
      (fld ''target_agent_id'' b = JStr (av_target_agent_id v) \<and> fld ''target_domain_id'' b = JStr (av_target_domain_id v),
       ''Activation runtime binding verification target identity is invalid.''),
      (fld ''version_id'' b = JStr (av_version_id v) \<and> fld ''version_digest'' b = JStr (av_version_digest v)
        \<and> fld ''candidate_digest'' b = JStr (av_candidate_digest v) \<and> fld ''candidate_ref'' b = JStr (av_candidate_ref v),
       ''Activation runtime binding verification does not match the exact AgentVersion.''),
      (jsSame (fld ''expected_activation_revision'' b) (jInt n),
       ''Activation runtime binding verification expected revision is invalid.''),
      (isStr (fld ''preflight_ref'' b) \<and> strOf (fld ''preflight_ref'' b) \<noteq> []
        \<and> isStr (fld ''runtime_binding_ref'' b) \<and> strOf (fld ''runtime_binding_ref'' b) \<noteq> [],
       ''Activation runtime binding verification prepared runtime binding ref is invalid.'')]"

record activation_input =
  ai_kind :: tx_kind
  ai_target_agent_id :: string
  ai_target_domain_id :: string
  ai_expected_revision :: int
  ai_version_digest :: string
  ai_occurred_at :: string
  ai_receipt :: "string option"
  ai_binding :: json

definition replayChecks :: "activation_transaction \<Rightarrow> activation_input \<Rightarrow> string res \<Rightarrow> unit res" where
  "replayChecks t i b = (let conflict = ''Activation transaction replay conflicts with immutable history.'' in
     bindE (runChecks [(tx_kind t = ai_kind i \<and> tx_to t = ai_version_digest i \<and> tx_receipt t = ai_receipt i, conflict)]) (\<lambda>u.
     bindE (canonicalJsonText (tx_binding t)) (\<lambda>x. bindE b (\<lambda>y. runChecks [(x = y, conflict)]))))"

definition rollbackChecks :: "registry_state \<Rightarrow> activation_input \<Rightarrow> check list" where
  "rollbackChecks st i = (if ai_kind i = Rollback_Tx then
       [(ap_active_version_digest (rg_activation st) \<noteq> Some (ai_version_digest i),
         ''Rollback target version is already active.''),
        (list_ex (\<lambda>t. tx_to t = ai_version_digest i) (rg_transactions st),
         ''Rollback target version has never been active.'')]
     else [])"

definition newTransaction :: "registry_state \<Rightarrow> activation_input \<Rightarrow> activation_transaction" where
  "newTransaction st i = \<lparr>
     tx_id = ''activation:'' @ ai_target_agent_id i @ '':'' @ showInt (int (length (rg_transactions st)) + 1),
     tx_kind = ai_kind i, tx_target_agent_id = ai_target_agent_id i, tx_target_domain_id = ai_target_domain_id i,
     tx_from = ap_active_version_digest (rg_activation st), tx_to = ai_version_digest i,
     tx_previous_revision = ap_revision (rg_activation st), tx_next_revision = ap_revision (rg_activation st) + 1,
     tx_receipt = ai_receipt i, tx_occurred_at = ai_occurred_at i, tx_binding = ai_binding i \<rparr>"

definition activateState :: "registry_state \<Rightarrow> activation_input \<Rightarrow> (registry_state \<times> activation_transaction) res" where
  "activateState st i = (case find (\<lambda>v. av_version_digest v = ai_version_digest i) (rg_versions st) of
       None \<Rightarrow> fail ''Activation target version does not exist.''
     | Some v \<Rightarrow>
         bindE (runChecks (assertActivationRuntimeBindingVerification (ai_binding i) (ai_kind i) (ai_expected_revision i) v)) (\<lambda>u.
         case find (\<lambda>t. tx_previous_revision t = ai_expected_revision i) (rg_transactions st) of
           Some t \<Rightarrow> bindE (replayChecks t i (canonicalJsonText (ai_binding i))) (\<lambda>u. Inr (st, t))
         | None \<Rightarrow>
             bindE (runChecks ((ap_revision (rg_activation st) = ai_expected_revision i,
               ''ActivationPointer compare-and-swap failed.'') # rollbackChecks st i)) (\<lambda>u.
             let t = newTransaction st i in
             Inr (st\<lparr> rg_activation := (rg_activation st)\<lparr> ap_active_version_digest := Some (ai_version_digest i),
                    ap_revision := tx_next_revision t, ap_updated_at := Some (ai_occurred_at i) \<rparr>,
                  rg_transactions := rg_transactions st @ [t] \<rparr>, t))))"

definition activateVersion :: "registry \<Rightarrow> activation_input \<Rightarrow> (registry \<times> activation_transaction) res" where
  "activateVersion g i = mapE (\<lambda>(st, t). (putState (ai_target_agent_id i) (ai_target_domain_id i) st g, t))
     (activateState (regState g (ai_target_agent_id i) (ai_target_domain_id i)) i)"

definition compareAndSwapActivation :: "registry \<Rightarrow> activation_input \<Rightarrow> (registry \<times> activation_transaction) res" where
  "compareAndSwapActivation g i = activateVersion g (i\<lparr> ai_kind := Activate_Tx \<rparr>)"

definition rollbackVersion :: "registry \<Rightarrow> activation_input \<Rightarrow> (registry \<times> activation_transaction) res" where
  "rollbackVersion g i = activateVersion g (i\<lparr> ai_kind := Rollback_Tx \<rparr>)"

section \<open>Invariant of one target\<close>

text \<open>
  The history is numbered from 0 without gaps, each transaction starts from the version
  the one before it activated, a rollback goes back to a version that was active, and
  every transaction carries the verification of a registered version.
\<close>

definition txOk :: "agent_version list \<Rightarrow> activation_transaction list \<Rightarrow> activation_transaction \<Rightarrow> bool" where
  "txOk vs before t \<longleftrightarrow> tx_previous_revision t = int (length before)
     \<and> tx_next_revision t = int (length before) + 1
     \<and> tx_from t = (if before = [] then None else Some (tx_to (last before)))
     \<and> (tx_kind t = Rollback_Tx \<longrightarrow> tx_from t \<noteq> Some (tx_to t) \<and> tx_to t \<in> tx_to ` set before)
     \<and> (\<exists>v \<in> set vs. av_version_digest v = tx_to t \<and>
          list_all fst (assertActivationRuntimeBindingVerification (tx_binding t) (tx_kind t) (tx_previous_revision t) v))"

fun historyOk :: "agent_version list \<Rightarrow> activation_transaction list \<Rightarrow> activation_transaction list \<Rightarrow> bool" where
  "historyOk vs before [] \<longleftrightarrow> True"
| "historyOk vs before (t # ts) \<longleftrightarrow> txOk vs before t \<and> historyOk vs (before @ [t]) ts"

definition regStateInv :: "registry_state \<Rightarrow> bool" where
  "regStateInv st \<longleftrightarrow> historyOk (rg_versions st) [] (rg_transactions st)
     \<and> ap_revision (rg_activation st) = int (length (rg_transactions st))
     \<and> ap_active_version_digest (rg_activation st) =
         (if rg_transactions st = [] then None else Some (tx_to (last (rg_transactions st))))
     \<and> distinct (map av_candidate_digest (rg_versions st))
     \<and> list_all2 (\<lambda>v q. av_qualification_digest v = ql_qualification_digest q
           \<and> av_candidate_digest v = ql_candidate_digest q
           \<and> internalDigest (qualificationBase q) = Inr (ql_qualification_digest q)
           \<and> internalDigest (versionBase v) = Inr (av_version_digest v))
         (rg_versions st) (rg_qualifications st)"

definition registryInv :: "registry \<Rightarrow> bool" where
  "registryInv g \<longleftrightarrow> (\<forall>a d. regStateInv (regState g a d))"

lemma historyOk_append:
  "historyOk vs before (ts @ us) \<longleftrightarrow> historyOk vs before ts \<and> historyOk vs (before @ ts) us"
  by (induction ts arbitrary: before) auto

lemma historyOk_more: "historyOk vs before ts \<Longrightarrow> historyOk (vs @ ws) before ts"
  by (induction ts arbitrary: before) (auto simp: txOk_def)

lemma historyOk_nth: "historyOk vs before ts \<Longrightarrow> i < length ts \<Longrightarrow> txOk vs (before @ take i ts) (ts ! i)"
proof (induction ts arbitrary: before i)
  case (Cons t ts)
  then show ?case using Cons.IH [of "before @ [t]"] by (cases i) auto
qed simp

lemma historyOk_previous: "historyOk vs [] ts \<Longrightarrow> i < length ts \<Longrightarrow> tx_previous_revision (ts ! i) = int i"
  using historyOk_nth [of vs "[]" ts i] by (simp add: txOk_def)

lemma emptyState_inv: "regStateInv (emptyState a d)"
  by (simp add: regStateInv_def emptyState_def)

lemma registryInv_empty: "registryInv []"
  by (simp add: registryInv_def regState_def emptyState_inv)

lemma regState_putState:
  "regState (putState a d st g) a' d' = (if registryKey a' d' = registryKey a d then st else regState g a' d')"
  by (simp add: regState_def putState_def update_conv)

lemma registryInv_put: "registryInv g \<Longrightarrow> regStateInv st \<Longrightarrow> registryInv (putState a d st g)"
  by (simp add: registryInv_def regState_putState)

lemma find_previous:
  assumes "historyOk vs [] ts"
  shows "find (\<lambda>t. tx_previous_revision t = n) ts =
     (if 0 \<le> n \<and> n < int (length ts) then Some (ts ! nat n) else None)"
proof (cases "0 \<le> n \<and> n < int (length ts)")
  case True
  then have "find (\<lambda>t. tx_previous_revision t = n) ts = Some (ts ! nat n)"
    unfolding find_Some_iff using historyOk_previous [OF assms]
    by (intro exI [of _ "nat n"]) (auto simp: zless_nat_eq_int_zless)
  with True show ?thesis by simp
next
  case False
  then have "\<forall>t \<in> set ts. tx_previous_revision t \<noteq> n"
    using historyOk_previous [OF assms] by (auto simp: in_set_conv_nth)
  then have "find (\<lambda>t. tx_previous_revision t = n) ts = None" by (simp add: find_None_iff)
  then show ?thesis by (simp only: False if_False)
qed

section \<open>The operations keep it\<close>

lemma activateState_Inr:
  assumes "activateState st i = Inr (st', t)"
  obtains v where "v \<in> set (rg_versions st)" "av_version_digest v = ai_version_digest i"
    "list_all fst (assertActivationRuntimeBindingVerification (ai_binding i) (ai_kind i) (ai_expected_revision i) v)"
    "find (\<lambda>t. tx_previous_revision t = ai_expected_revision i) (rg_transactions st) = Some t" "st' = st"
    "replayChecks t i (canonicalJsonText (ai_binding i)) = Inr ()"
  | v where "v \<in> set (rg_versions st)" "av_version_digest v = ai_version_digest i"
    "list_all fst (assertActivationRuntimeBindingVerification (ai_binding i) (ai_kind i) (ai_expected_revision i) v)"
    "find (\<lambda>t. tx_previous_revision t = ai_expected_revision i) (rg_transactions st) = None"
    "ap_revision (rg_activation st) = ai_expected_revision i" "list_all fst (rollbackChecks st i)"
    "t = newTransaction st i"
    "st' = st\<lparr> rg_activation := (rg_activation st)\<lparr> ap_active_version_digest := Some (ai_version_digest i),
        ap_revision := tx_next_revision t, ap_updated_at := Some (ai_occurred_at i) \<rparr>,
      rg_transactions := rg_transactions st @ [t] \<rparr>"
proof (cases "find (\<lambda>v. av_version_digest v = ai_version_digest i) (rg_versions st)")
  case None
  with assms show ?thesis by (simp add: activateState_def)
next
  case (Some v)
  then have v: "v \<in> set (rg_versions st)" "av_version_digest v = ai_version_digest i"
    by (auto simp: find_Some_iff)
  have b: "list_all fst (assertActivationRuntimeBindingVerification (ai_binding i) (ai_kind i) (ai_expected_revision i) v)"
    using assms Some by (simp add: activateState_def)
  show ?thesis
  proof (cases "find (\<lambda>t. tx_previous_revision t = ai_expected_revision i) (rg_transactions st)")
    case None
    from assms Some None have t: "newTransaction st i = t" and "ap_revision (rg_activation st) = ai_expected_revision i"
      "list_all fst (rollbackChecks st i)" by (simp_all add: activateState_def Let_def)
    with assms Some None show ?thesis
      by (intro that(2) [OF v b None]) (simp_all add: activateState_def t)
  next
    case (Some t')
    from assms \<open>find _ (rg_versions st) = Some v\<close> Some
    have "st' = st" "t' = t" "replayChecks t' i (canonicalJsonText (ai_binding i)) = Inr ()"
      by (auto simp: activateState_def)
    with Some show ?thesis by (intro that(1) [OF v b]) simp_all
  qed
qed

lemma activateState_inv:
  assumes inv: "regStateInv st" and a: "activateState st i = Inr (st', t)"
  shows "regStateInv st'"
  using a
proof (cases rule: activateState_Inr)
  case (1 v)
  with inv show ?thesis by simp
next
  case (2 v)
  have "txOk (rg_versions st) (rg_transactions st) t"
    using inv 2(1-3, 5, 6) unfolding txOk_def 2(7)
    by (auto simp: newTransaction_def regStateInv_def rollbackChecks_def list_ex_iff intro!: bexI [of _ v])
      (force simp: image_iff)
  then show ?thesis
    using inv unfolding 2(8) by (simp add: regStateInv_def historyOk_append 2(7) newTransaction_def)
qed

lemma activateVersion_Inr:
  assumes "activateVersion g i = Inr (g', t)"
  obtains st where "activateState (regState g (ai_target_agent_id i) (ai_target_domain_id i)) i = Inr (st, t)"
    "g' = putState (ai_target_agent_id i) (ai_target_domain_id i) st g"
  using assms by (auto simp: activateVersion_def)

lemma activateVersion_inv:
  assumes "registryInv g" "activateVersion g i = Inr (g', t)"
  shows "registryInv g'"
proof -
  from assms(2) obtain st where st:
    "activateState (regState g (ai_target_agent_id i) (ai_target_domain_id i)) i = Inr (st, t)"
    "g' = putState (ai_target_agent_id i) (ai_target_domain_id i) st g" by (rule activateVersion_Inr)
  have "regStateInv st" using assms(1) by (intro activateState_inv [OF _ st(1)]) (simp add: registryInv_def)
  then show ?thesis using assms(1) st(2) by (simp add: registryInv_put)
qed

lemma registerVersion_Inr:
  assumes "registerVersion g i = Inr (g', v, q)"
  obtains "g' = g" "v \<in> set (listVersions g (ri_target_agent_id i) (ri_target_domain_id i))"
  | "registeredQualification i = Inr q" "registeredVersion i (ql_qualification_digest q) = Inr v"
    "\<forall>x \<in> set (listVersions g (ri_target_agent_id i) (ri_target_domain_id i)). av_candidate_digest x \<noteq> ri_candidate_digest i"
    "g' = (let st = regState g (ri_target_agent_id i) (ri_target_domain_id i) in
       putState (ri_target_agent_id i) (ri_target_domain_id i)
         (st\<lparr> rg_versions := rg_versions st @ [v], rg_qualifications := rg_qualifications st @ [q] \<rparr>) g)"
proof -
  define st where "st = regState g (ri_target_agent_id i) (ri_target_domain_id i)"
  from assms obtain q' v' where qv: "registeredQualification i = Inr q'"
    "registeredVersion i (ql_qualification_digest q') = Inr v'"
    by (auto simp: registerVersion_def Let_def)
  show ?thesis
  proof (cases "find (\<lambda>x. av_candidate_digest x = ri_candidate_digest i) (rg_versions st)")
    case None
    with assms qv that(2) show ?thesis
      by (auto simp: registerVersion_def Let_def st_def [symmetric] listVersions_def find_None_iff)
  next
    case (Some old)
    then have "old \<in> set (rg_versions st)" by (auto simp: find_Some_iff)
    moreover from assms qv Some have "g' = g \<and> v = old"
      by (auto simp: registerVersion_def Let_def st_def [symmetric] split: option.splits)
    ultimately show ?thesis using that(1) by (simp add: listVersions_def st_def)
  qed
qed

lemma registered_facts:
  assumes "registeredQualification i = Inr q" "registeredVersion i (ql_qualification_digest q) = Inr v"
  shows "internalDigest (qualificationBase q) = Inr (ql_qualification_digest q)"
    "internalDigest (versionBase v) = Inr (av_version_digest v)" "av_candidate_digest v = ri_candidate_digest i"
    "ql_candidate_digest q = ri_candidate_digest i" "av_qualification_digest v = ql_qualification_digest q"
    "av_target_agent_id v = ri_target_agent_id i" "av_target_domain_id v = ri_target_domain_id i"
    "av_blueprint_digest v = ri_blueprint_digest i" "av_candidate_ref v = ri_candidate_ref i"
    "ql_target_agent_id q = ri_target_agent_id i" "ql_target_domain_id q = ri_target_domain_id i"
    "ql_blueprint_digest q = ri_blueprint_digest i" "ql_evidence_digest q = ri_evidence_digest i"
  using assms by (auto simp: registeredQualification_def registeredVersion_def Let_def qualificationBase_def versionBase_def)

lemma registerVersion_inv:
  assumes inv: "registryInv g" and r: "registerVersion g i = Inr (g', v, q)"
  shows "registryInv g'"
  using r
proof (cases rule: registerVersion_Inr)
  case 1
  with inv show ?thesis by simp
next
  case 2
  note f = registered_facts [OF 2(1, 2)]
  define st where "st = regState g (ri_target_agent_id i) (ri_target_domain_id i)"
  have "regStateInv st" using inv by (simp add: registryInv_def st_def)
  moreover have "ri_candidate_digest i \<notin> av_candidate_digest ` set (rg_versions st)"
    using 2(3) by (auto simp: listVersions_def st_def)
  ultimately have "regStateInv (st\<lparr> rg_versions := rg_versions st @ [v], rg_qualifications := rg_qualifications st @ [q] \<rparr>)"
    using f by (auto simp: regStateInv_def historyOk_more list_all2_appendI)
  then show ?thesis using inv unfolding 2(4) by (simp add: st_def Let_def registryInv_put)
qed

section \<open>Refinement of an abstract register\<close>

text \<open>
  The abstract register of a target is the list of what was activated: kind, version,
  receipt and the canonical text of the runtime verification.  Writing at revision \<open>n\<close>
  appends at the end, repeats what is already there, or fails.
\<close>

type_synonym activation_act = "tx_kind \<times> string \<times> string option \<times> string res"

definition absHistory :: "registry_state \<Rightarrow> activation_act list" where
  "absHistory st = map (\<lambda>t. (tx_kind t, tx_to t, tx_receipt t, canonicalJsonText (tx_binding t))) (rg_transactions st)"

definition absAct :: "activation_input \<Rightarrow> activation_act" where
  "absAct i = (ai_kind i, ai_version_digest i, ai_receipt i, canonicalJsonText (ai_binding i))"

definition specActivate :: "activation_act list \<Rightarrow> int \<Rightarrow> activation_act \<Rightarrow> activation_act list res" where
  "specActivate h n a = (if 0 \<le> n \<and> n < int (length h) then
       (if h ! nat n = a then Inr h else fail ''Activation transaction replay conflicts with immutable history.'')
     else if n \<noteq> int (length h) then fail ''ActivationPointer compare-and-swap failed.''
     else if fst a = Rollback_Tx \<and> h \<noteq> [] \<and> fst (snd (last h)) = fst (snd a) then
       fail ''Rollback target version is already active.''
     else if fst a = Rollback_Tx \<and> \<not> (\<exists>b \<in> set h. fst (snd b) = fst (snd a)) then
       fail ''Rollback target version has never been active.''
     else Inr (h @ [a]))"

text \<open>A verification that passes has a canonical text.\<close>

lemma binding_text:
  assumes "list_all fst (assertActivationRuntimeBindingVerification b k n v)" "\<bar>n\<bar> < 2 ^ 53"
  shows "plain b"
proof -
  from assms(1) have r: "isRecord b" and k: "mset (objKeys b) = mset bindingFields"
    and f: "fld ''surface_kind'' b = JStr ''opl_foundry_activation_runtime_binding_verification''"
      "fld ''version'' b = JStr ''opl-foundry-activation-runtime-binding-verification.v1''"
      "fld ''verification_phase'' b = JStr ''pre_commit''" "fld ''transaction_kind'' b = JStr (kindName k)"
      "fld ''target_agent_id'' b = JStr (av_target_agent_id v)" "fld ''target_domain_id'' b = JStr (av_target_domain_id v)"
      "fld ''version_id'' b = JStr (av_version_id v)" "fld ''version_digest'' b = JStr (av_version_digest v)"
      "fld ''candidate_digest'' b = JStr (av_candidate_digest v)" "fld ''candidate_ref'' b = JStr (av_candidate_ref v)"
      "jsSame (fld ''expected_activation_revision'' b) (jInt n)"
      "isStr (fld ''preflight_ref'' b)" "isStr (fld ''runtime_binding_ref'' b)"
    unfolding assertActivationRuntimeBindingVerification_def sameKeys_iff by simp_all
  from r obtain kvs where b: "b = JObj kvs" by (cases b) (simp_all add: isRecord_def)
  have d: "distinct (map fst kvs)" using k mset_eq_imp_distinct_iff [OF k] by (simp add: b bindingFields_def)
  have keys: "fst ` set kvs = set bindingFields" using mset_eq_setD [OF k] by (simp add: b)
  have num: "plain (fld ''expected_activation_revision'' b)"
  proof -
    obtain x where x: "fld ''expected_activation_revision'' b = JNum x" "jeq x (jint n)"
      using f(11) by (cases "fld ''expected_activation_revision'' b") (auto simp: jsSame_def jInt_def)
    then show ?thesis using numOk_int [OF assms(2)] by (cases x) (auto simp: jeq_def jint_def)
  qed
  have "plain (snd kv)" if kv: "kv \<in> set kvs" for kv
  proof -
    have "fld (fst kv) b = snd kv" using d kv by (cases kv) (simp add: b fld_def)
    moreover have "fst kv \<in> set bindingFields" using keys kv by auto
    ultimately show ?thesis
      using f num isStr_JStr [of "fld ''preflight_ref'' b"] isStr_JStr [of "fld ''runtime_binding_ref'' b"]
      by (auto simp: bindingFields_def) (metis plain.simps)+
  qed
  then show ?thesis by (simp add: b)
qed

lemma absHistory_simps [simp]:
  "length (absHistory st) = length (rg_transactions st)" "absHistory st = [] \<longleftrightarrow> rg_transactions st = []"
  by (simp_all add: absHistory_def)

lemma replayChecks_abs:
  assumes "canonicalJsonText (ai_binding i) = Inr y" "canonicalJsonText (tx_binding t) = Inr x"
  shows "replayChecks t i (canonicalJsonText (ai_binding i)) =
    (if (tx_kind t, tx_to t, tx_receipt t, canonicalJsonText (tx_binding t)) = absAct i then Inr ()
     else fail ''Activation transaction replay conflicts with immutable history.'')"
  using assms by (simp add: replayChecks_def absAct_def Let_def runChecks.simps)

theorem activate_refines:
  assumes inv: "regStateInv st"
    and v: "find (\<lambda>v. av_version_digest v = ai_version_digest i) (rg_versions st) = Some v"
    and b: "list_all fst (assertActivationRuntimeBindingVerification (ai_binding i) (ai_kind i) (ai_expected_revision i) v)"
    and n: "0 \<le> ai_expected_revision i" "ai_expected_revision i < 2 ^ 53"
  shows "mapE (\<lambda>r. absHistory (fst r)) (activateState st i) = specActivate (absHistory st) (ai_expected_revision i) (absAct i)"
proof -
  define ts where "ts = rg_transactions st"
  define m where "m = ai_expected_revision i"
  have h: "historyOk (rg_versions st) [] ts" and rev: "ap_revision (rg_activation st) = int (length ts)"
    and act: "ap_active_version_digest (rg_activation st) = (if ts = [] then None else Some (tx_to (last ts)))"
    using inv by (simp_all add: regStateInv_def ts_def)
  obtain y where y: "canonicalJsonText (ai_binding i) = Inr y"
    using canonicalJsonText_plain [OF binding_text [OF b]] n by simp
  show ?thesis
  proof (cases "m < int (length ts)")
    case True
    define t where "t = ts ! nat m"
    have "nat m < length ts" using True n by (simp add: m_def nat_less_iff)
    then have "txOk (rg_versions st) (take (nat m) ts) t" "tx_previous_revision t = m"
      using historyOk_nth [OF h] historyOk_previous [OF h] n by (simp_all add: t_def m_def)
    then obtain w where "list_all fst (assertActivationRuntimeBindingVerification (tx_binding t) (tx_kind t) m w)"
      by (auto simp: txOk_def)
    from canonicalJsonText_plain [OF binding_text [OF this]] obtain x where x: "canonicalJsonText (tx_binding t) = Inr x"
      using n by (auto simp: m_def)
    have "find (\<lambda>t. tx_previous_revision t = m) ts = Some t" using find_previous [OF h, of m] True n by (simp add: m_def t_def)
    moreover have "absHistory st ! nat m = (tx_kind t, tx_to t, tx_receipt t, canonicalJsonText (tx_binding t))"
      using \<open>nat m < length ts\<close> by (simp add: absHistory_def ts_def t_def)
    ultimately show ?thesis
      using True n v b replayChecks_abs [OF y x]
      by (simp add: activateState_def specActivate_def ts_def m_def runChecks_ok fail_def)
  next
    case False
    then have none: "find (\<lambda>t. tx_previous_revision t = m) ts = None" using find_previous [OF h, of m] by simp
    have last: "ts \<noteq> [] \<Longrightarrow> fst (snd (last (absHistory st))) = tx_to (last ts)" by (simp add: absHistory_def ts_def last_map)
    have ex: "(\<exists>b \<in> set (absHistory st). fst (snd b) = d) \<longleftrightarrow> list_ex (\<lambda>t. tx_to t = d) ts" for d
      by (auto simp: absHistory_def ts_def list_ex_iff)
    have new: "absHistory (st\<lparr> rg_activation := z, rg_transactions := ts @ [newTransaction st i] \<rparr>) = absHistory st @ [absAct i]" for z
      by (simp add: absHistory_def ts_def absAct_def newTransaction_def)
    show ?thesis
      using False n v b none last new ex [of "ai_version_digest i"] rev act
      by (auto simp: activateState_def specActivate_def m_def ts_def [symmetric] absAct_def rollbackChecks_def
          runChecks.simps runChecks_ok fail_def Let_def)
  qed
qed

section \<open>The interface of a version pointer\<close>

text \<open>
  What the kernel relies on: the pointer of a target is the end of its history, a write
  at a revision happens at most once, and writing one target leaves the others alone.
\<close>

locale version_pointer =
  fixes inv :: "'s \<Rightarrow> bool"
    and history :: "'s \<Rightarrow> string \<Rightarrow> string \<Rightarrow> activation_transaction list"
    and pointer :: "'s \<Rightarrow> string \<Rightarrow> string \<Rightarrow> activation_pointer"
    and activate :: "'s \<Rightarrow> activation_input \<Rightarrow> ('s \<times> activation_transaction) res"
  assumes pointer_revision: "inv s \<Longrightarrow> ap_revision (pointer s a d) = int (length (history s a d))"
    and pointer_active: "inv s \<Longrightarrow> ap_active_version_digest (pointer s a d) =
      (if history s a d = [] then None else Some (tx_to (last (history s a d))))"
    and history_numbered: "inv s \<Longrightarrow> j < length (history s a d) \<Longrightarrow> tx_previous_revision (history s a d ! j) = int j"
    and activate_inv: "inv s \<Longrightarrow> activate s i = Inr (s', t) \<Longrightarrow> inv s'"
    and activate_history: "inv s \<Longrightarrow> activate s i = Inr (s', t) \<Longrightarrow>
      tx_to t = ai_version_digest i \<and> tx_previous_revision t = ai_expected_revision i \<and>
      t \<in> set (history s' (ai_target_agent_id i) (ai_target_domain_id i)) \<and>
      prefix (history s a d) (history s' a d) \<and> length (history s' a d) \<le> Suc (length (history s a d))"
begin

fun activates :: "'s \<Rightarrow> activation_input list \<Rightarrow> 's res" where
  "activates s [] = Inr s"
| "activates s (i # is) = bindE (activate s i) (\<lambda>r. activates (fst r) is)"

lemma activates_prefix: "inv s \<Longrightarrow> activates s is = Inr s' \<Longrightarrow> inv s' \<and> prefix (history s a d) (history s' a d)"
proof (induction "is" arbitrary: s)
  case (Cons i "is")
  from Cons.prems(2) obtain r t where r: "activate s i = Inr (r, t)" "activates r is = Inr s'" by auto
  from activate_history [OF Cons.prems(1) r(1), of a d] Cons.IH [OF activate_inv [OF Cons.prems(1) r(1)] r(2)]
  show ?case by (blast intro: prefix_order.trans)
qed simp

lemma same_revision: "inv s \<Longrightarrow> t \<in> set (history s a d) \<Longrightarrow> u \<in> set (history s a d) \<Longrightarrow>
    tx_previous_revision t = tx_previous_revision u \<Longrightarrow> t = u"
  using history_numbered by (auto simp: in_set_conv_nth)

text \<open>
  One winner per revision: a write that succeeds after others at the same expected
  revision of the target returns the transaction of the first.
\<close>

lemma one_winner:
  assumes "inv s" "activate s i = Inr (s1, t)" "activates s1 is = Inr s2" "activate s2 j = Inr (s3, u)"
    and "ai_target_agent_id i = ai_target_agent_id j" "ai_target_domain_id i = ai_target_domain_id j"
    and "ai_expected_revision i = ai_expected_revision j"
  shows "t = u"
proof -
  let ?h = "\<lambda>s. history s (ai_target_agent_id j) (ai_target_domain_id j)"
  have i1: "inv s1" by (rule activate_inv [OF assms(1, 2)])
  have i2: "inv s2" and p: "prefix (?h s1) (?h s2)" using activates_prefix [OF i1 assms(3)] by blast+
  have i3: "inv s3" by (rule activate_inv [OF i2 assms(4)])
  have t: "t \<in> set (?h s1)" "tx_previous_revision t = ai_expected_revision j"
    using activate_history [OF assms(1, 2)] assms(5-7) by auto
  have u: "u \<in> set (?h s3)" "tx_previous_revision u = ai_expected_revision j" "prefix (?h s2) (?h s3)"
    using activate_history [OF i2 assms(4)] by blast+
  have "t \<in> set (?h s3)" using t(1) p u(3) by (auto dest!: set_mono_prefix)
  from same_revision [OF i3 this u(1)] t(2) u(2) show ?thesis by simp
qed

end

lemma activateState_history:
  assumes inv: "regStateInv st" and a: "activateState st i = Inr (st', t)"
  shows "tx_to t = ai_version_digest i \<and> tx_previous_revision t = ai_expected_revision i \<and> t \<in> set (rg_transactions st') \<and>
    prefix (rg_transactions st) (rg_transactions st') \<and> length (rg_transactions st') \<le> Suc (length (rg_transactions st))"
  using a
proof (cases rule: activateState_Inr)
  case (1 v)
  then show ?thesis by (auto simp: find_Some_iff replayChecks_def Let_def)
next
  case (2 v)
  then show ?thesis by (simp add: newTransaction_def)
qed

interpretation registry: version_pointer registryInv activationHistory activationOf activateVersion
proof
  fix g :: registry and g' a d i t and j :: nat
  assume inv: "registryInv g"
  then have s: "regStateInv (regState g a d)" for a d by (simp add: registryInv_def)
  show "ap_revision (activationOf g a d) = int (length (activationHistory g a d))"
    "ap_active_version_digest (activationOf g a d) =
      (if activationHistory g a d = [] then None else Some (tx_to (last (activationHistory g a d))))"
    using s [of a d] by (simp_all add: regStateInv_def activationOf_def activationHistory_def)
  show "j < length (activationHistory g a d) \<Longrightarrow> tx_previous_revision (activationHistory g a d ! j) = int j"
    using s [of a d] historyOk_previous by (auto simp: regStateInv_def activationHistory_def)
  assume a: "activateVersion g i = Inr (g', t)"
  show "registryInv g'" by (rule activateVersion_inv [OF inv a])
  from a obtain st where st: "activateState (regState g (ai_target_agent_id i) (ai_target_domain_id i)) i = Inr (st, t)"
    "g' = putState (ai_target_agent_id i) (ai_target_domain_id i) st g" by (rule activateVersion_Inr)
  have k: "registryKey a d = registryKey (ai_target_agent_id i) (ai_target_domain_id i) \<Longrightarrow>
      rg_transactions (regState g a d) = rg_transactions (regState g (ai_target_agent_id i) (ai_target_domain_id i))"
    by (cases "map_of g (registryKey a d)") (simp_all add: regState_def emptyState_def)
  show "tx_to t = ai_version_digest i \<and> tx_previous_revision t = ai_expected_revision i \<and>
      t \<in> set (activationHistory g' (ai_target_agent_id i) (ai_target_domain_id i)) \<and>
      prefix (activationHistory g a d) (activationHistory g' a d) \<and>
      length (activationHistory g' a d) \<le> Suc (length (activationHistory g a d))"
    using activateState_history [OF s st(1)] k by (auto simp: activationHistory_def st(2) regState_putState)
qed

end
