(* ===== verification/Object_Store.thy ===== *)
theory Object_Store
  imports Operation_Result
begin

text \<open>
  \<open>InMemoryFoundryObjectStore\<close> and \<open>InMemoryFoundryOperationResultJournal\<close> of
  \<open>src/src/authority/evolution/in-memory-adapters.ts\<close>: content addressed objects, and the
  journal of finished evaluations by operation key.  Both write a key once: the locale
  \<open>write_once\<close> states that and is interpreted on each of them.
\<close>

section \<open>Objects\<close>

type_synonym object_store = "(string \<times> json) list"

definition putObject :: "object_store \<Rightarrow> json \<Rightarrow> (object_store \<times> string \<times> string) res" where
  "putObject s v =
     bindE (foundryContentDigest v) (\<lambda>d.
     bindE (case map_of s d of None \<Rightarrow> Inr ()
       | Some old \<Rightarrow> bindE (canonicalJsonText old) (\<lambda>a. bindE (canonicalJsonText v) (\<lambda>b.
           runChecks [(a = b, ''Content-addressed Foundry object collision.'')]))) (\<lambda>u.
     Inr (AList.update d v s, d, ''foundry-object:'' @ d)))"

definition getObject :: "object_store \<Rightarrow> string \<Rightarrow> json option" where
  "getObject s d = map_of s d"

section \<open>Journal\<close>

type_synonym result_journal = "(string \<times> op_result) list"

definition readResult :: "result_journal \<Rightarrow> json \<Rightarrow> op_result option res" where
  "readResult j identity =
     bindE (validateFoundryEvaluationOperationIdentity identity) (\<lambda>i.
     case map_of j (oi_operation_key i) of None \<Rightarrow> Inr None
     | Some r \<Rightarrow> mapE Some (validateFoundryOperationResult (resultJson r) (Some (identityJson i))))"

definition commitResult :: "result_journal \<Rightarrow> json \<Rightarrow> json \<Rightarrow> json \<Rightarrow> json \<Rightarrow> (result_journal \<times> op_result) res" where
  "commitResult j identity d ref t =
     bindE (materializeFoundryOperationResult identity d ref t) (\<lambda>r.
     case map_of j (oi_operation_key r) of
       None \<Rightarrow> Inr (AList.update (oi_operation_key r) r j, r)
     | Some old \<Rightarrow>
         bindE (canonicalJsonText (resultJson old)) (\<lambda>a. bindE (canonicalJsonText (resultJson r)) (\<lambda>b.
         bindE (runChecks [(a = b, ''Foundry operation key is already committed with a different result.'')]) (\<lambda>u.
         Inr (j, old)))))"

section \<open>Invariants\<close>

definition objectsInv :: "object_store \<Rightarrow> bool" where
  "objectsInv s \<longleftrightarrow> (\<forall>d v. getObject s d = Some v \<longrightarrow> foundryContentDigest v = Inr d)"

definition journalInv :: "result_journal \<Rightarrow> bool" where
  "journalInv j \<longleftrightarrow> (\<forall>k r. map_of j k = Some r \<longrightarrow> oi_operation_key r = k \<and>
     (\<exists>idv d ref t. materializeFoundryOperationResult idv d ref t = Inr r))"

lemma objectsInv_empty: "objectsInv []" and journalInv_empty: "journalInv []"
  by (simp_all add: objectsInv_def getObject_def journalInv_def)

lemma putObject_Inr:
  assumes "putObject s v = Inr (s', d, ref)"
  shows "foundryContentDigest v = Inr d" "ref = ''foundry-object:'' @ d" "getObject s' = (getObject s)(d := Some v)"
    "getObject s d = Some w \<Longrightarrow> canonicalJsonText w = canonicalJsonText v"
  using assms by (auto simp: putObject_def getObject_def update_conv fun_eq_iff split: option.splits)

lemma objectsInv_put: "objectsInv s \<Longrightarrow> putObject s v = Inr (s', d, ref) \<Longrightarrow> objectsInv s'"
  using putObject_Inr(1, 3) [of s v s' d ref] by (auto simp: objectsInv_def)

lemma commitResult_Inr:
  assumes "commitResult j idv d ref t = Inr (j', r)"
  obtains "materializeFoundryOperationResult idv d ref t = Inr r" "map_of j (oi_operation_key r) = None"
      "j' = AList.update (oi_operation_key r) r j"
  | m where "materializeFoundryOperationResult idv d ref t = Inr m" "map_of j (oi_operation_key m) = Some r" "j' = j"
      "canonicalJsonText (resultJson r) = canonicalJsonText (resultJson m)"
proof -
  from assms obtain m where m: "materializeFoundryOperationResult idv d ref t = Inr m"
    by (auto simp: commitResult_def)
  show ?thesis
  proof (cases "map_of j (oi_operation_key m)")
    case None
    with assms m have "j' = AList.update (oi_operation_key m) m j" "r = m" by (auto simp: commitResult_def)
    with m None show ?thesis by (intro that(1)) simp_all
  next
    case (Some old)
    with assms m have "j' = j" "r = old" "canonicalJsonText (resultJson old) = canonicalJsonText (resultJson m)"
      by (auto simp: commitResult_def)
    with m Some show ?thesis by (intro that(2)) simp_all
  qed
qed

lemma journalInv_commit: "journalInv j \<Longrightarrow> commitResult j idv d ref t = Inr (j', r) \<Longrightarrow> journalInv j'"
  by (erule commitResult_Inr) (auto simp: journalInv_def update_conv)

section \<open>Write once\<close>

locale write_once =
  fixes inv :: "'s \<Rightarrow> bool"
    and look :: "'s \<Rightarrow> string \<Rightarrow> 'v option"
    and put :: "'s \<Rightarrow> 'i \<Rightarrow> ('s \<times> string) res"
    and same :: "'v \<Rightarrow> 'v \<Rightarrow> bool"
  assumes same_refl: "same v v"
    and same_trans: "same u v \<Longrightarrow> same v w \<Longrightarrow> same u w"
    and put_inv: "inv s \<Longrightarrow> put s i = Inr (s', k) \<Longrightarrow> inv s'"
    and put_present: "inv s \<Longrightarrow> put s i = Inr (s', k) \<Longrightarrow> look s' k \<noteq> None"
    and put_other: "inv s \<Longrightarrow> put s i = Inr (s', k) \<Longrightarrow> j \<noteq> k \<Longrightarrow> look s' j = look s j"
    and put_same: "inv s \<Longrightarrow> put s i = Inr (s', k) \<Longrightarrow> look s k = Some v \<Longrightarrow> look s' k = Some w \<Longrightarrow> same v w"
begin

fun writes :: "'s \<Rightarrow> 'i list \<Rightarrow> 's res" where
  "writes s [] = Inr s"
| "writes s (i # is) = bindE (put s i) (\<lambda>r. writes (fst r) is)"

text \<open>What a key holds is never lost and never becomes another value.\<close>

lemma writes_stable: "inv s \<Longrightarrow> writes s is = Inr s' \<Longrightarrow> look s k = Some v \<Longrightarrow> \<exists>w. look s' k = Some w \<and> same v w"
proof (induction "is" arbitrary: s v)
  case (Cons i "is")
  from Cons.prems(2) obtain r j where r: "put s i = Inr (r, j)" "writes r is = Inr s'" by auto
  have "\<exists>w. look r k = Some w \<and> same v w"
  proof (cases "k = j")
    case True
    then show ?thesis
      using put_present [OF Cons.prems(1) r(1)] put_same [OF Cons.prems(1) r(1), of v] Cons.prems(3) by auto
  next
    case False
    then show ?thesis using put_other [OF Cons.prems(1) r(1)] Cons.prems(3) same_refl by simp
  qed
  then obtain w where "look r k = Some w" "same v w" by blast
  with Cons.IH [OF put_inv [OF Cons.prems(1) r(1)] r(2)] same_trans show ?case by blast
qed (simp add: same_refl)

end

definition writeObject :: "object_store \<Rightarrow> json \<Rightarrow> (object_store \<times> string) res" where
  "writeObject s v = mapE (\<lambda>(s', d, ref). (s', d)) (putObject s v)"

definition sameText :: "json \<Rightarrow> json \<Rightarrow> bool" where
  "sameText v w \<longleftrightarrow> canonicalJsonText v = canonicalJsonText w"

interpretation objects: write_once objectsInv getObject writeObject sameText
proof
  fix s s' :: object_store and i d j v w
  assume inv: "objectsInv s" and "writeObject s i = Inr (s', d)"
  then obtain ref where p: "putObject s i = Inr (s', d, ref)" by (auto simp: writeObject_def)
  show "objectsInv s'" by (rule objectsInv_put [OF inv p])
  show "getObject s' d \<noteq> None" "j \<noteq> d \<Longrightarrow> getObject s' j = getObject s j"
    using putObject_Inr(3) [OF p] by simp_all
  show "getObject s d = Some v \<Longrightarrow> getObject s' d = Some w \<Longrightarrow> sameText v w"
    using putObject_Inr(3, 4) [OF p] by (simp add: sameText_def)
qed (simp_all add: sameText_def)

type_synonym commit_input = "json \<times> json \<times> json \<times> json"

definition writeResult :: "result_journal \<Rightarrow> commit_input \<Rightarrow> (result_journal \<times> string) res" where
  "writeResult j i = (case i of (idv, d, ref, t) \<Rightarrow>
     mapE (\<lambda>(j', r). (j', oi_operation_key r)) (commitResult j idv d ref t))"

interpretation journal: write_once journalInv map_of writeResult "(=)"
proof
  fix j j' :: result_journal and i k k' v w
  assume inv: "journalInv j" and "writeResult j i = Inr (j', k)"
  then obtain idv d ref t r where c: "commitResult j idv d ref t = Inr (j', r)" and k: "k = oi_operation_key r"
    by (cases i) (auto simp: writeResult_def)
  show "journalInv j'" by (rule journalInv_commit [OF inv c])
  have "map_of j' k = Some r \<and> (\<forall>k'. k' \<noteq> k \<longrightarrow> map_of j' k' = map_of j k') \<and> (map_of j k = None \<or> map_of j k = Some r)"
    using c
  proof (cases rule: commitResult_Inr)
    case 1
    then show ?thesis by (simp add: k update_conv)
  next
    case (2 m)
    then have "oi_operation_key r = oi_operation_key m" using inv by (simp add: journalInv_def)
    with 2 show ?thesis by (simp add: k)
  qed
  then show "map_of j' k \<noteq> None" "k' \<noteq> k \<Longrightarrow> map_of j' k' = map_of j k'"
    "map_of j k = Some v \<Longrightarrow> map_of j' k = Some w \<Longrightarrow> v = w" by auto
qed simp_all

section \<open>Reading back\<close>

text \<open>A committed result is read back under the identity it was committed for.\<close>

lemma key_identity:
  fixes i :: "'a op_identity_scheme" and r :: "'b op_identity_scheme"
  assumes "wfIdentity i" "wfIdentity r" "oi_operation_key i = oi_operation_key r"
  shows "op_identity.truncate i = op_identity.truncate r"
  using operationKey_inj [of "oi_run_id i" "oi_generation i" "oi_phase i" "oi_input_digest i"
      "oi_run_id r" "oi_generation r" "oi_phase r" "oi_input_digest r"] assms
  by (simp add: wfIdentity_def op_identity.defs)

lemma identityJson_truncate [simp]: "identityJson (op_identity.truncate i) = identityJson i"
  by (simp add: identityJson_def op_identity.defs)

lemma truncate_key [simp]:
  fixes i :: "'a op_identity_scheme"
  shows "oi_operation_key (op_identity.truncate i) = oi_operation_key i"
  by (cases i) (simp add: op_identity.defs)

lemma journalInvD:
  "journalInv j \<Longrightarrow> map_of j k = Some r \<Longrightarrow>
     oi_operation_key r = k \<and> (\<exists>idv d ref t. materializeFoundryOperationResult idv d ref t = Inr r)"
  by (simp add: journalInv_def)

lemma read_stored:
  assumes inv: "journalInv j" and i: "validateFoundryEvaluationOperationIdentity idv = Inr i"
    and r: "map_of j (oi_operation_key i) = Some r"
  shows "readResult j idv = Inr (Some r)"
proof -
  from inv r obtain idv' d ref t where m: "materializeFoundryOperationResult idv' d ref t = Inr r"
    and k: "oi_operation_key r = oi_operation_key i" using journalInvD [OF inv] by blast
  have "op_identity.truncate i = op_identity.truncate r"
    by (rule key_identity [OF validateIdentity_wf [OF i] materializeResult_Inr(1) [OF m] k [symmetric]])
  from arg_cong [OF this, of identityJson] have "identityJson i = identityJson r" by simp
  with result_roundtrip [OF m] i r show ?thesis by (simp add: readResult_def)
qed

lemma read_after_commit:
  assumes inv: "journalInv j" and c: "commitResult j idv d ref t = Inr (j', r)"
  shows "readResult j' idv = Inr (Some r)"
  using c
proof (cases rule: commitResult_Inr)
  case 1
  have "map_of j' (oi_operation_key (op_identity.truncate r)) = Some r" by (simp add: 1(3) update_conv)
  then show ?thesis by (rule read_stored [OF journalInv_commit [OF inv c] materializeResult_Inr(2) [OF 1(1)]])
next
  case (2 m)
  have "map_of j (oi_operation_key (op_identity.truncate m)) = Some r" by (simp add: 2(2))
  then show ?thesis unfolding 2(3) by (rule read_stored [OF inv materializeResult_Inr(2) [OF 2(1)]])
qed

end
