(* ===== verification/Memory_Gate.thy ===== *)
theory Memory_Gate
  imports Owner_Gate
begin

text \<open>
  \<open>InMemoryOwnerGate\<close> of \<open>src/src/authority/evolution/in-memory-adapters.ts\<close>: registered
  receipts and the authority policy of each target.  What a client relies on is the
  locale \<open>owner_gate\<close>: an answer the client's validator accepts covers the exact request.
\<close>

section \<open>Contexts and verifications as values\<close>

definition contextJson :: "gate_context \<Rightarrow> json" where
  "contextJson c = JObj [(''surface_kind'', JStr ''opl_foundry_owner_gate_verification_context''),
     (''version'', JStr ''opl-foundry-owner-gate-verification-context.v1''),
     (''authority_receipt_ref'', JStr (cx_authority_receipt_ref c)),
     (''action'', JStr (actionName (cx_action c))), (''decision'', JStr (decisionName (cx_decision c))),
     (''target_agent_id'', JStr (cx_target_agent_id c)), (''target_domain_id'', JStr (cx_target_domain_id c)),
     (''run_id'', ofOptStr (cx_run_id c)), (''version_digest'', ofOptStr (cx_version_digest c)),
     (''expected_revision'', jInt (cx_expected_revision c))]"

section \<open>State and operations\<close>

record authority_policy =
  po_policy_ref :: string
  po_authority_refs :: "string list"

record owner_gate_state =
  og_receipts :: "(string \<times> owner_receipt) list"
  og_policies :: "(string \<times> authority_policy) list"

definition newOwnerGate :: owner_gate_state where
  "newOwnerGate = \<lparr> og_receipts = [], og_policies = [] \<rparr>"

definition policyJson :: "authority_policy \<Rightarrow> json" where
  "policyJson p = JObj [(''policy_ref'', JStr (po_policy_ref p)), (''authority_refs'', jStrs (po_authority_refs p))]"

definition policyKey :: "string \<Rightarrow> string \<Rightarrow> string" where
  "policyKey agent domain = agent @ CHR 0x00 # domain"

definition registerAuthorityPolicy :: "owner_gate_state \<Rightarrow> string \<Rightarrow> string \<Rightarrow> string \<Rightarrow> string list \<Rightarrow>
    (owner_gate_state \<times> authority_policy) res" where
  "registerAuthorityPolicy s policyRef agent domain refs =
     (let refs' = filter (\<lambda>r. r \<noteq> []) (map trim refs); key = policyKey (trim agent) (trim domain);
          p = \<lparr> po_policy_ref = trim policyRef, po_authority_refs = refs' \<rparr> in
      bindE (runChecks
        [(trim policyRef \<noteq> [] \<and> trim agent \<noteq> [] \<and> trim domain \<noteq> [] \<and> refs' \<noteq> [],
          ''In-memory OwnerGate authority policy is incomplete.''),
         (length refs' = length refs \<and> distinct refs',
          ''In-memory OwnerGate authority policy refs must be non-empty and unique.'')]) (\<lambda>u.
      bindE (case map_of (og_policies s) key of None \<Rightarrow> Inr ()
        | Some old \<Rightarrow> bindE (canonicalJsonText (policyJson old)) (\<lambda>a. bindE (canonicalJsonText (policyJson p)) (\<lambda>b.
            runChecks [(a = b, ''In-memory OwnerGate target already has a different Framework authority policy.'')]))) (\<lambda>u.
      Inr (s\<lparr> og_policies := AList.update key p (og_policies s) \<rparr>, p))))"

definition registerReceipt :: "(string \<Rightarrow> bool) \<Rightarrow> owner_gate_state \<Rightarrow> json \<Rightarrow> (owner_gate_state \<times> owner_receipt) res" where
  "registerReceipt dp s v = mapE (\<lambda>r. (s\<lparr> og_receipts := AList.update (or_receipt_ref r) r (og_receipts s) \<rparr>, r))
     (materializeOwnerAuthorityReceipt dp v)"

definition verificationRef :: "string \<Rightarrow> owner_receipt \<Rightarrow> string res" where
  "verificationRef policyRef r = mapE (\<lambda>d. ''opl://foundry/owner-gate-verifications/'' @ d)
     (gateDigest (JObj [(''verifier_id'', JStr ''foundry-owner-gate:in-memory''),
       (''authority_policy_ref'', JStr policyRef), (''receipt_digest'', JStr (or_receipt_digest r))]))"

definition verificationValue :: "string \<Rightarrow> string \<Rightarrow> string \<Rightarrow> owner_receipt \<Rightarrow> json" where
  "verificationValue ref policyRef now r = JObj
     [(''surface_kind'', JStr ''opl_foundry_owner_gate_verification''),
      (''version'', JStr ''opl-foundry-owner-gate-verification.v1''),
      (''verifier_id'', JStr ''foundry-owner-gate:in-memory''),
      (''verification_ref'', JStr ref), (''authority_policy_ref'', JStr policyRef),
      (''verified_at'', JStr now), (''covered_authority_ref'', JStr (rs_authority_ref r)),
      (''receipt'', receiptJson r)]"

definition verifyOwnerGate :: "(string \<Rightarrow> bool) \<Rightarrow> string \<Rightarrow> owner_gate_state \<Rightarrow> json \<Rightarrow> gate_verification res" where
  "verifyOwnerGate dp now s cv =
     bindE (validateOwnerGateVerificationContext cv) (\<lambda>c.
     case map_of (og_receipts s) (cx_authority_receipt_ref c) of
       None \<Rightarrow> fail ''Owner authority receipt is not registered with the in-memory OwnerGate.''
     | Some r \<Rightarrow> (case map_of (og_policies s) (policyKey (cx_target_agent_id c) (cx_target_domain_id c)) of
         None \<Rightarrow> fail ''Framework-owned target authority policy is not registered with the in-memory OwnerGate.''
       | Some p \<Rightarrow>
           bindE (runChecks [(rs_authority_ref r \<in> set (po_authority_refs p),
             ''Owner authority receipt is not allowed by the Framework-owned target authority policy.'')]) (\<lambda>u.
           bindE (verificationRef (po_policy_ref p) r) (\<lambda>ref.
           validateOwnerGateVerification dp (contextJson c) (verificationValue ref (po_policy_ref p) now r)))))"

definition verificationJson :: "gate_verification \<Rightarrow> json" where
  "verificationJson g = JObj [(''surface_kind'', JStr ''opl_foundry_owner_gate_verification''),
     (''version'', JStr ''opl-foundry-owner-gate-verification.v1''),
     (''verifier_id'', JStr (gv_verifier_id g)), (''verification_ref'', JStr (gv_verification_ref g)),
     (''authority_policy_ref'', JStr (gv_authority_policy_ref g)), (''verified_at'', JStr (gv_verified_at g)),
     (''covered_authority_ref'', JStr (gv_covered_authority_ref g)), (''receipt'', receiptJson (gv_receipt g))]"

text \<open>A context names the same mutation as a statement would; the shape lemmas are reused through that.\<close>

definition contextStatement :: "gate_context \<Rightarrow> receipt_statement" where
  "contextStatement c = \<lparr> rs_receipt_id = cx_authority_receipt_ref c, rs_authority_ref = cx_authority_receipt_ref c,
     rs_action = cx_action c, rs_decision = cx_decision c, rs_target_agent_id = cx_target_agent_id c,
     rs_target_domain_id = cx_target_domain_id c, rs_run_id = cx_run_id c, rs_version_digest = cx_version_digest c,
     rs_expected_revision = cx_expected_revision c, rs_issued_at = cx_authority_receipt_ref c \<rparr>"

definition wfContext :: "gate_context \<Rightarrow> bool" where
  "wfContext c \<longleftrightarrow> wfStatement (\<lambda>_. True) (contextStatement c)"

lemma mutationChecks_cong:
  "(\<And>k. k \<in> {''action'', ''decision'', ''run_id'', ''version_digest''} \<Longrightarrow> fld k v = fld k w) \<Longrightarrow>
     mutationChecks l l' f v = mutationChecks l l' f w"
  by (simp add: mutationChecks_def)

lemma contextJson_fld:
  "fld ''surface_kind'' (contextJson c) = JStr ''opl_foundry_owner_gate_verification_context''"
  "fld ''version'' (contextJson c) = JStr ''opl-foundry-owner-gate-verification-context.v1''"
  "fld ''authority_receipt_ref'' (contextJson c) = JStr (cx_authority_receipt_ref c)"
  "fld ''action'' (contextJson c) = JStr (actionName (cx_action c))"
  "fld ''decision'' (contextJson c) = JStr (decisionName (cx_decision c))"
  "fld ''target_agent_id'' (contextJson c) = JStr (cx_target_agent_id c)"
  "fld ''target_domain_id'' (contextJson c) = JStr (cx_target_domain_id c)"
  "fld ''run_id'' (contextJson c) = ofOptStr (cx_run_id c)"
  "fld ''version_digest'' (contextJson c) = ofOptStr (cx_version_digest c)"
  "fld ''expected_revision'' (contextJson c) = jInt (cx_expected_revision c)"
  "isRecord (contextJson c)" "sameKeys (contextJson c) contextKeys"
  by (simp_all add: contextJson_def sameKeys_iff contextKeys_def)

lemma validateContext_contextJson:
  assumes "wfContext c"
  shows "validateOwnerGateVerificationContext (contextJson c) = Inr c"
proof -
  let ?s = "contextStatement c"
  have w: "wfStatement (\<lambda>_. True) ?s" using assms by (simp add: wfContext_def)
  have m: "list_all fst (mutationChecks l l' f (contextJson c))" for l l' f
  proof -
    have "mutationChecks l l' f (contextJson c) = mutationChecks l l' f (statementJson ?s)"
      by (rule mutationChecks_cong) (auto simp: contextJson_fld statementJson_fld contextStatement_def)
    with mutationChecks_statement [OF w] show ?thesis by simp
  qed
  have r: "\<not> jlt (jint (cx_expected_revision c)) (jint 0)" "\<bar>cx_expected_revision c\<bar> < 2 ^ 53"
    using w by (simp_all add: wfStatement_def contextStatement_def jint_def)
  have "list_all fst (contextChecks (contextJson c))"
    using m r w by (simp add: contextChecks_def contextJson_fld expectedRevision_def wfStatement_def contextStatement_def)
  moreover have "map_option trim (cx_run_id c) = cx_run_id c" "map_option trim (cx_version_digest c) = cx_version_digest c"
    using w by (simp_all add: trim_option_id wfStatement_def contextStatement_def)
  ultimately show ?thesis
    using w by (simp add: validateOwnerGateVerificationContext_def contextJson_fld runChecks_ok wfStatement_def contextStatement_def)
qed

lemma validateContext_wf:
  assumes "validateOwnerGateVerificationContext v = Inr c"
  shows "wfContext c"
proof -
  from assms have k: "list_all fst (contextChecks v)"
    and c: "c = \<lparr> cx_authority_receipt_ref = trimmed (fld ''authority_receipt_ref'' v),
      cx_action = the (actionOf (trimmed (fld ''action'' v))), cx_decision = the (decisionOf (trimmed (fld ''decision'' v))),
      cx_target_agent_id = trimmed (fld ''target_agent_id'' v), cx_target_domain_id = trimmed (fld ''target_domain_id'' v),
      cx_run_id = nullableTrimmed (fld ''run_id'' v), cx_version_digest = nullableTrimmed (fld ''version_digest'' v),
      cx_expected_revision = intOf (fld ''expected_revision'' v) \<rparr>"
    by (auto simp: validateOwnerGateVerificationContext_def)
  have m: "list_all fst (mutationChecks ''Owner gate verification context'' ''Owner gate context'' ''Owner gate context'' v)"
    and r: "list_all fst (requiredString (fld ''authority_receipt_ref'' v) ''Owner gate context authority_receipt_ref'')"
      "list_all fst (requiredString (fld ''target_agent_id'' v) ''Owner gate context target_agent_id'')"
      "list_all fst (requiredString (fld ''target_domain_id'' v) ''Owner gate context target_domain_id'')"
    and e: "list_all fst (expectedRevision (fld ''expected_revision'' v) ''Owner gate context expected_revision'')"
    using k unfolding contextChecks_def by simp_all
  obtain a where mf: "actionOf (trimmed (fld ''action'' v)) = Some a"
      "decisionOf (trimmed (fld ''decision'' v)) = Some (ACTION_DECISIONS a)"
      "a = Rollback \<longrightarrow> fld ''run_id'' v = JNull \<and> fld ''version_digest'' v \<noteq> JNull"
      "a \<noteq> Rollback \<longrightarrow> fld ''run_id'' v \<noteq> JNull \<and> (a = Cancel_Run \<or> fld ''version_digest'' v \<noteq> JNull)"
    using mutationChecks_facts [OF m] by blast
  have n: "list_all fst (nullableString (fld ''run_id'' v) (''Owner gate context'' @ '' run_id''))"
    "list_all fst (optionalDigest (fld ''version_digest'' v) (''Owner gate context'' @ '' version_digest''))"
    using m unfolding mutationChecks_def list_all_append by blast+
  have i: "0 \<le> intOf (fld ''expected_revision'' v)" "intOf (fld ''expected_revision'' v) < 2 ^ 53"
    using e intOf_safe by (simp_all add: expectedRevision_def)
  show ?thesis
    unfolding wfContext_def wfStatement_def contextStatement_def c
    using mf(3, 4) i nullable_facts(1) [OF n(1)] nullable_facts(2) [OF n(2)] r [THEN requiredString_facts]
    by (simp add: mf(1, 2) nullable_facts(3))
qed

section \<open>What the in-memory gate answers\<close>

definition gateInv :: "(string \<Rightarrow> bool) \<Rightarrow> owner_gate_state \<Rightarrow> bool" where
  "gateInv dp s \<longleftrightarrow>
     (\<forall>k r. map_of (og_receipts s) k = Some r \<longrightarrow> or_receipt_ref r = k \<and> (\<exists>v. materializeOwnerAuthorityReceipt dp v = Inr r)) \<and>
     (\<forall>k p. map_of (og_policies s) k = Some p \<longrightarrow> po_policy_ref p \<noteq> [] \<and> trim (po_policy_ref p) = po_policy_ref p
        \<and> po_authority_refs p \<noteq> [] \<and> distinct (po_authority_refs p))"

lemma gateInv_new: "gateInv dp newOwnerGate"
  by (simp add: gateInv_def newOwnerGate_def)

lemma filter_length_eq: "length (filter P xs) = length xs \<Longrightarrow> filter P xs = xs"
proof (rule filter_True, rule ballI, rule ccontr)
  fix x assume "length (filter P xs) = length xs" "x \<in> set xs" "\<not> P x"
  with length_filter_less [of x xs P] show False by simp
qed

lemma registerPolicy_Inr:
  assumes "registerAuthorityPolicy s pr a d refs = Inr (s', p)"
  shows "po_policy_ref p = trim pr" "trim pr \<noteq> []" "po_authority_refs p = map trim refs" "distinct (map trim refs)"
    "refs \<noteq> []" "s' = s\<lparr> og_policies := AList.update (policyKey (trim a) (trim d)) p (og_policies s) \<rparr>"
    "map_of (og_policies s) (policyKey (trim a) (trim d)) = Some q \<Longrightarrow>
       canonicalJsonText (policyJson q) = canonicalJsonText (policyJson p)"
proof -
  define rs where "rs = filter (\<lambda>r. r \<noteq> []) (map trim refs)"
  define q' where "q' = \<lparr> po_policy_ref = trim pr, po_authority_refs = rs \<rparr>"
  define k where "k = policyKey (trim a) (trim d)"
  note * = assms [unfolded registerAuthorityPolicy_def Let_def, folded rs_def k_def, folded q'_def, unfolded bindE_Inr_iff runChecks_iff]
  from * have f: "trim pr \<noteq> []" "rs \<noteq> []" "length rs = length refs" "distinct rs" "p = q'"
    "s' = s\<lparr> og_policies := AList.update k p (og_policies s) \<rparr>" by auto
  from * have same: "map_of (og_policies s) k = Some q \<Longrightarrow> canonicalJsonText (policyJson q) = canonicalJsonText (policyJson q')"
    by auto
  have "rs = map trim refs" using f(3) unfolding rs_def by (intro filter_length_eq) simp
  then show "po_policy_ref p = trim pr" "po_authority_refs p = map trim refs" "distinct (map trim refs)" "refs \<noteq> []"
    using f(2, 4, 5) by (auto simp: q'_def)
  show "trim pr \<noteq> []" "s' = s\<lparr> og_policies := AList.update (policyKey (trim a) (trim d)) p (og_policies s) \<rparr>"
    using f(1, 6) by (simp_all add: k_def)
  show "map_of (og_policies s) (policyKey (trim a) (trim d)) = Some q \<Longrightarrow>
      canonicalJsonText (policyJson q) = canonicalJsonText (policyJson p)"
    using same f(5) by (simp add: k_def)
qed

lemma gateInv_policy:
  assumes "gateInv dp s" "registerAuthorityPolicy s pr a d refs = Inr (s', p)"
  shows "gateInv dp s'"
  using assms(1) registerPolicy_Inr(1-5) [OF assms(2)] unfolding registerPolicy_Inr(6) [OF assms(2)] gateInv_def
  by (simp add: update_conv)

lemma gateInv_receipt: "gateInv dp s \<Longrightarrow> registerReceipt dp s v = Inr (s', r) \<Longrightarrow> gateInv dp s'"
  by (auto simp: registerReceipt_def gateInv_def update_conv split: if_splits)

lemma gateInvD:
  assumes "gateInv dp s"
  shows "map_of (og_receipts s) k = Some r \<Longrightarrow> \<exists>v. materializeOwnerAuthorityReceipt dp v = Inr r"
    "map_of (og_policies s) k = Some p \<Longrightarrow> po_policy_ref p \<noteq> [] \<and> trim (po_policy_ref p) = po_policy_ref p"
  using assms unfolding gateInv_def by blast+

text \<open>A policy once registered for a target is not replaced by a different one.\<close>

lemma policy_stable:
  assumes "registerAuthorityPolicy s pr a d refs = Inr (s', p)" "map_of (og_policies s) k = Some q"
  shows "map_of (og_policies s') k = Some q"
proof (cases "k = policyKey (trim a) (trim d)")
  case True
  with assms(2) have e: "canonicalJsonText (policyJson q) = canonicalJsonText (policyJson p)"
    and k: "map_of (og_policies s') k = Some p"
    using registerPolicy_Inr(7) [OF assms(1)] by (simp_all add: registerPolicy_Inr(6) [OF assms(1)] update_conv)
  have n: "norm (policyJson x) = JObj [(''authority_refs'', jStrs (po_authority_refs x)), (''policy_ref'', JStr (po_policy_ref x))]" for x
    by (simp add: policyJson_def)
  have "norm (policyJson q) = norm (policyJson p)"
    using e by (subst (asm) canonicalJsonText_inj) (simp_all add: policyJson_def)
  then have "q = p" by (simp add: n)
  with k show ?thesis by simp
next
  case False
  with assms(2) show ?thesis by (simp add: registerPolicy_Inr(6) [OF assms(1)] update_conv)
qed

lemma verificationValue_fld:
  "fld ''verifier_id'' (verificationValue ref pr now r) = JStr ''foundry-owner-gate:in-memory''"
  "fld ''surface_kind'' (verificationValue ref pr now r) = JStr ''opl_foundry_owner_gate_verification''"
  "fld ''version'' (verificationValue ref pr now r) = JStr ''opl-foundry-owner-gate-verification.v1''"
  "fld ''verification_ref'' (verificationValue ref pr now r) = JStr ref"
  "fld ''authority_policy_ref'' (verificationValue ref pr now r) = JStr pr"
  "fld ''verified_at'' (verificationValue ref pr now r) = JStr now"
  "fld ''covered_authority_ref'' (verificationValue ref pr now r) = JStr (rs_authority_ref r)"
  "fld ''receipt'' (verificationValue ref pr now r) = receiptJson r"
  "isRecord (verificationValue ref pr now r)" "sameKeys (verificationValue ref pr now r) verificationKeys"
  by (simp_all add: verificationValue_def sameKeys_iff verificationKeys_def)

lemma verify_gate_steps:
  assumes v: "verifyOwnerGate dp now s cv = Inr g"
  obtains c r p ref where "validateOwnerGateVerificationContext cv = Inr c"
    "map_of (og_receipts s) (cx_authority_receipt_ref c) = Some r"
    "map_of (og_policies s) (policyKey (cx_target_agent_id c) (cx_target_domain_id c)) = Some p"
    "rs_authority_ref r \<in> set (po_authority_refs p)"
    "validateOwnerGateVerification dp (contextJson c) (verificationValue ref (po_policy_ref p) now r) = Inr g"
proof -
  from v obtain c where c: "validateOwnerGateVerificationContext cv = Inr c"
    by (auto simp: verifyOwnerGate_def)
  from v c obtain r where r: "map_of (og_receipts s) (cx_authority_receipt_ref c) = Some r"
    by (cases "map_of (og_receipts s) (cx_authority_receipt_ref c)") (simp_all add: verifyOwnerGate_def)
  from v c r obtain p where p: "map_of (og_policies s) (policyKey (cx_target_agent_id c) (cx_target_domain_id c)) = Some p"
    by (cases "map_of (og_policies s) (policyKey (cx_target_agent_id c) (cx_target_domain_id c))") (simp_all add: verifyOwnerGate_def)
  from v c r p obtain ref where "rs_authority_ref r \<in> set (po_authority_refs p)"
    "validateOwnerGateVerification dp (contextJson c) (verificationValue ref (po_policy_ref p) now r) = Inr g"
    by (auto simp: verifyOwnerGate_def)
  with c r p that show ?thesis by blast
qed

lemma verify_gate_Inr:
  assumes inv: "gateInv dp s" and v: "verifyOwnerGate dp now s cv = Inr g"
  obtains c p where "validateOwnerGateVerificationContext cv = Inr c"
    "map_of (og_receipts s) (cx_authority_receipt_ref c) = Some (gv_receipt g)"
    "map_of (og_policies s) (policyKey (cx_target_agent_id c) (cx_target_domain_id c)) = Some p"
    "rs_authority_ref (gv_receipt g) \<in> set (po_authority_refs p)" "gv_authority_policy_ref g = po_policy_ref p"
    "coversContext c (gv_receipt g) (gv_covered_authority_ref g)"
proof -
  from v obtain c r p ref where c: "validateOwnerGateVerificationContext cv = Inr c"
    and r: "map_of (og_receipts s) (cx_authority_receipt_ref c) = Some r"
    and p: "map_of (og_policies s) (policyKey (cx_target_agent_id c) (cx_target_domain_id c)) = Some p"
    and a: "rs_authority_ref r \<in> set (po_authority_refs p)"
    and g: "validateOwnerGateVerification dp (contextJson c) (verificationValue ref (po_policy_ref p) now r) = Inr g"
    by (rule verify_gate_steps)
  from gateInvD(1) [OF inv r] obtain w where m: "materializeOwnerAuthorityReceipt dp w = Inr r" ..
  have po: "trim (po_policy_ref p) = po_policy_ref p" using gateInvD(2) [OF inv p] by blast
  have gr: "gv_receipt g = r" "gv_authority_policy_ref g = po_policy_ref p"
    using g receipt_roundtrip [OF m] po
    by (auto simp: validateOwnerGateVerification_def verificationValue_fld)
  have "coversContext c (gv_receipt g) (gv_covered_authority_ref g)"
    using verification_facts(1) [OF g] validateContext_contextJson [OF validateContext_wf [OF c]] by simp
  with c r p a gr that show ?thesis by simp
qed

lemma trim_Cons: "\<not> isWs c \<Longrightarrow> trim (c # s) \<noteq> []"
  by (auto simp: trim_def dropWhile_eq_Nil_conv)

text \<open>It answers every request a registered, allowed receipt covers.\<close>

lemma verify_gate_total:
  assumes inv: "gateInv dp s" and c: "validateOwnerGateVerificationContext cv = Inr c"
    and r: "map_of (og_receipts s) (cx_authority_receipt_ref c) = Some r" "coversContext c r (rs_authority_ref r)"
    and p: "map_of (og_policies s) (policyKey (cx_target_agent_id c) (cx_target_domain_id c)) = Some p"
      "rs_authority_ref r \<in> set (po_authority_refs p)"
    and now: "dp (trim now)" "trim now \<noteq> []"
  shows "\<exists>g. verifyOwnerGate dp now s cv = Inr g \<and> gv_receipt g = r"
proof -
  obtain w where m: "materializeOwnerAuthorityReceipt dp w = Inr r" using gateInvD(1) [OF inv r(1)] ..
  obtain d where d: "verificationRef (po_policy_ref p) r = Inr (''opl://foundry/owner-gate-verifications/'' @ ''sha256:'' @ d)"
    by (simp add: verificationRef_def gateDigest_def canonicalJsonText_plain)
  have tr: "trim (''opl://foundry/owner-gate-verifications/'' @ ''sha256:'' @ d) \<noteq> []"
    by (simp add: trim_Cons isWs_def)
  have w: "wfStatement dp r" by (rule materialize_Inr(1) [OF m])
  have po: "trim (po_policy_ref p) = po_policy_ref p" "po_policy_ref p \<noteq> []" using gateInvD(2) [OF inv p(1)] by blast+
  have id: "trim ''foundry-owner-gate:in-memory'' \<noteq> []" by code_simp
  have cc: "validateOwnerGateVerificationContext (contextJson c) = Inr c"
    by (rule validateContext_contextJson [OF validateContext_wf [OF c]])
  have ra: "trim (rs_authority_ref r) = rs_authority_ref r" "rs_authority_ref r \<noteq> []" using w by (simp_all add: wfStatement_def)
  show ?thesis
    using c r p d tr cc receipt_roundtrip [OF m] po id ra now
    by (simp add: verifyOwnerGate_def validateOwnerGateVerification_def verificationValue_fld runChecks_ok timestamp_def)
qed

section \<open>The interface of an owner gate\<close>

lemma verificationJson_fld:
  "fld ''verifier_id'' (verificationJson g) = JStr (gv_verifier_id g)"
  "fld ''surface_kind'' (verificationJson g) = JStr ''opl_foundry_owner_gate_verification''"
  "fld ''version'' (verificationJson g) = JStr ''opl-foundry-owner-gate-verification.v1''"
  "fld ''verification_ref'' (verificationJson g) = JStr (gv_verification_ref g)"
  "fld ''authority_policy_ref'' (verificationJson g) = JStr (gv_authority_policy_ref g)"
  "fld ''verified_at'' (verificationJson g) = JStr (gv_verified_at g)"
  "fld ''covered_authority_ref'' (verificationJson g) = JStr (gv_covered_authority_ref g)"
  "fld ''receipt'' (verificationJson g) = receiptJson (gv_receipt g)"
  "isRecord (verificationJson g)" "sameKeys (verificationJson g) verificationKeys"
  by (simp_all add: verificationJson_def sameKeys_iff verificationKeys_def)

text \<open>An accepted verification is accepted again, unchanged, when it is sent on as a value.\<close>

lemma verification_roundtrip:
  assumes "validateOwnerGateVerification dp cv v = Inr g"
  shows "validateOwnerGateVerification dp cv (verificationJson g) = Inr g"
proof -
  from assms have r: "validateOwnerAuthorityReceipt dp (fld ''receipt'' v) = Inr (gv_receipt g)"
    by (auto simp: validateOwnerGateVerification_def)
  note rr = receipt_roundtrip [OF validateReceipt_materialized [OF r]]
  obtain c where c: "validateOwnerGateVerificationContext cv = Inr c" "coversContext c (gv_receipt g) (gv_covered_authority_ref g)"
    using verification_facts(1) [OF assms] by blast
  have t: "trim (gv_verifier_id g) = gv_verifier_id g" "gv_verifier_id g \<noteq> []"
    "trim (gv_verification_ref g) = gv_verification_ref g" "gv_verification_ref g \<noteq> []"
    "trim (gv_authority_policy_ref g) = gv_authority_policy_ref g" "gv_authority_policy_ref g \<noteq> []"
    "trim (gv_verified_at g) = gv_verified_at g" "gv_verified_at g \<noteq> []" "dp (gv_verified_at g)"
    "trim (gv_covered_authority_ref g) = gv_covered_authority_ref g" "gv_covered_authority_ref g \<noteq> []"
    using assms by (auto simp: validateOwnerGateVerification_def timestamp_def dest!: requiredString_facts)
  show ?thesis
    using rr c t by (simp add: validateOwnerGateVerification_def verificationJson_fld runChecks_ok timestamp_def)
qed

locale owner_gate =
  fixes inv :: "'s \<Rightarrow> bool"
    and verify :: "'s \<Rightarrow> gate_context \<Rightarrow> json res"
    and registered :: "'s \<Rightarrow> owner_receipt set"
    and dp :: "string \<Rightarrow> bool"
  assumes answer: "inv s \<Longrightarrow> wfContext c \<Longrightarrow> verify s c = Inr v \<Longrightarrow>
      \<exists>g. validateOwnerGateVerification dp (contextJson c) v = Inr g \<and> gv_receipt g \<in> registered s"
    and one_receipt: "inv s \<Longrightarrow> r \<in> registered s \<Longrightarrow> r' \<in> registered s \<Longrightarrow> or_receipt_ref r = or_receipt_ref r' \<Longrightarrow> r = r'"
begin

lemma answer_covers:
  assumes "inv s" "wfContext c" "verify s c = Inr v"
  shows "\<exists>g. validateOwnerGateVerification dp (contextJson c) v = Inr g \<and> gv_receipt g \<in> registered s
    \<and> coversContext c (gv_receipt g) (gv_covered_authority_ref g)"
proof -
  from answer [OF assms] obtain g where g: "validateOwnerGateVerification dp (contextJson c) v = Inr g" "gv_receipt g \<in> registered s"
    by blast
  with verification_facts(1) [OF g(1)] validateContext_contextJson [OF assms(2)] show ?thesis by auto
qed

text \<open>One receipt authorises one mutation: two requests answered with the same receipt are the same request.\<close>

lemma one_mutation:
  assumes "inv s" "wfContext c" "wfContext c'" "verify s c = Inr v" "verify s c' = Inr v'"
    and "cx_authority_receipt_ref c = cx_authority_receipt_ref c'"
  shows "c = c'"
proof -
  from answer_covers [OF assms(1, 2, 4)] obtain g :: gate_verification where g: "gv_receipt g \<in> registered s" "coversContext c (gv_receipt g) (gv_covered_authority_ref g)" by blast
  from answer_covers [OF assms(1, 3, 5)] obtain g' :: gate_verification where g': "gv_receipt g' \<in> registered s" "coversContext c' (gv_receipt g') (gv_covered_authority_ref g')" by blast
  have "gv_receipt g = gv_receipt g'"
    using g g' assms(6) by (intro one_receipt [OF assms(1)]) (simp_all add: coversContext_def)
  with g(2) g'(2) assms(6) show ?thesis by (cases c; cases c') (simp add: coversContext_def)
qed

end

definition memoryVerify :: "(string \<Rightarrow> bool) \<Rightarrow> string \<Rightarrow> owner_gate_state \<Rightarrow> gate_context \<Rightarrow> json res" where
  "memoryVerify dp now s c = mapE verificationJson (verifyOwnerGate dp now s (contextJson c))"

definition registeredReceipts :: "owner_gate_state \<Rightarrow> owner_receipt set" where
  "registeredReceipts s = {r. \<exists>k. map_of (og_receipts s) k = Some r}"

interpretation memory_gate: owner_gate "gateInv dp" "memoryVerify dp now" registeredReceipts dp
proof
  fix s c v
  assume inv: "gateInv dp s" and c: "wfContext c" and v: "memoryVerify dp now s c = Inr v"
  from v obtain g where g: "verifyOwnerGate dp now s (contextJson c) = Inr g" "v = verificationJson g"
    by (auto simp: memoryVerify_def)
  obtain w where "validateOwnerGateVerification dp (contextJson c) w = Inr g"
    using g(1) validateContext_contextJson [OF c] by (elim verify_gate_steps) auto
  note r = verification_roundtrip [OF this]
  obtain c' :: gate_context where "map_of (og_receipts s) (cx_authority_receipt_ref c') = Some (gv_receipt g)"
    using inv g(1) by (rule verify_gate_Inr) (rule that)
  with r show "\<exists>g. validateOwnerGateVerification dp (contextJson c) v = Inr g \<and> gv_receipt g \<in> registeredReceipts s"
    by (intro exI [of _ g]) (auto simp: g(2) registeredReceipts_def)
next
  fix s r r'
  assume "gateInv dp s" "r \<in> registeredReceipts s" "r' \<in> registeredReceipts s" "or_receipt_ref r = or_receipt_ref r'"
  then obtain k k' where "map_of (og_receipts s) k = Some r" "map_of (og_receipts s) k' = Some r'"
      "or_receipt_ref r = k" "or_receipt_ref r' = k'"
    unfolding gateInv_def registeredReceipts_def by blast
  with \<open>or_receipt_ref r = or_receipt_ref r'\<close> show "r = r'" by simp
qed

text \<open>The fail-closed gate answers nothing, so it meets the interface too.\<close>

interpretation closed_gate: owner_gate "\<lambda>_. True" "\<lambda>reason c. mapE verificationJson (failClosedVerify reason c)" "\<lambda>_. {}" dp
  by unfold_locales (simp_all add: failClosedVerify_def)

end
