(* ===== verification/Activation.thy ===== *)
theory Activation
  imports Version_Registry
begin

text \<open>
  Materialised candidates and the activation runtime: \<open>kernel-parts/validation.ts\<close>,
  \<open>kernel-parts/activation-verification.ts\<close>, and of \<open>in-memory-adapters.ts\<close> the
  deterministic compiler and the in-memory activation runtime
  (\<open>src/src/authority/evolution/\<close>).  The lemmas show that the pieces fit: what the
  in-memory runtime prepares is accepted by the kernel's check and by the registry, and
  what the registry commits is accepted by the kernel's check of the transaction.
\<close>

section \<open>Guards of the kernel\<close>

definition requiredRef :: "json \<Rightarrow> string \<Rightarrow> string res" where
  "requiredRef v f = bindE (runChecks [(isStr v \<and> trimmed v \<noteq> [], f @ '' must be a non-empty authority ref.'')])
     (\<lambda>u. Inr (trimmed v))"

definition expectedRevisionOf :: "json \<Rightarrow> int res" where
  "expectedRevisionOf v = bindE (runChecks [(isSafeInteger (numOf v) \<and> \<not> jlt (numOf v) (jint 0),
     ''expected_revision must be a non-negative safe integer.'')]) (\<lambda>u. Inr (intOf v))"

definition requiredDigest :: "json \<Rightarrow> string \<Rightarrow> string res" where
  "requiredDigest v f = bindE (requiredRef v f) (\<lambda>d.
     bindE (runChecks [(isDigest d, f @ '' must be a SHA-256 digest.'')]) (\<lambda>u. Inr d))"

section \<open>Candidates\<close>

record materialized_candidate =
  mc_surface_kind :: string
  mc_target_agent_id :: string
  mc_target_domain_id :: string
  mc_blueprint_digest :: string
  mc_candidate_digest :: string
  mc_candidate_ref :: string
  mc_manifest_digest :: string

definition candidateJson :: "materialized_candidate \<Rightarrow> json" where
  "candidateJson c = JObj [(''surface_kind'', JStr (mc_surface_kind c)),
     (''target_agent_id'', JStr (mc_target_agent_id c)), (''target_domain_id'', JStr (mc_target_domain_id c)),
     (''blueprint_digest'', JStr (mc_blueprint_digest c)), (''candidate_digest'', JStr (mc_candidate_digest c)),
     (''candidate_ref'', JStr (mc_candidate_ref c)), (''manifest_digest'', JStr (mc_manifest_digest c))]"

text \<open>A candidate record read back from the object store.\<close>

definition candidateOf :: "json \<Rightarrow> materialized_candidate" where
  "candidateOf v = \<lparr> mc_surface_kind = strOf (fld ''surface_kind'' v),
     mc_target_agent_id = strOf (fld ''target_agent_id'' v), mc_target_domain_id = strOf (fld ''target_domain_id'' v),
     mc_blueprint_digest = strOf (fld ''blueprint_digest'' v), mc_candidate_digest = strOf (fld ''candidate_digest'' v),
     mc_candidate_ref = strOf (fld ''candidate_ref'' v), mc_manifest_digest = strOf (fld ''manifest_digest'' v) \<rparr>"

lemma candidateOf_candidateJson [simp]: "candidateOf (candidateJson c) = c"
  by (simp add: candidateOf_def candidateJson_def)

text \<open>\<open>DeterministicInMemoryCandidateCompiler\<close>\<close>

definition candidateManifest :: "json \<Rightarrow> string \<Rightarrow> json" where
  "candidateManifest b digest = JObj [(''surface_kind'', JStr ''opl_materialized_agent_manifest''),
     (''target_agent_id'', fld ''target_agent_id'' b), (''target_domain_id'', fld ''target_domain_id'' b),
     (''blueprint_digest'', JStr digest), (''stages'', fld ''stages'' (fld ''stage_graph'' b)),
     (''actions'', fld ''actions'' b), (''artifact_contracts'', fld ''artifact_contracts'' b),
     (''content_refs'', fld ''content_refs'' b), (''authority_policy'', fld ''authority_policy'' b),
     (''memory_policy'', fld ''memory_policy'' b)]"

definition memoryCompile :: "json \<Rightarrow> string \<Rightarrow> materialized_candidate res" where
  "memoryCompile b digest =
     bindE (internalDigest (candidateManifest b digest)) (\<lambda>m.
     bindE (internalDigest (JObj [(''manifest_digest'', JStr m), (''manifest'', candidateManifest b digest)])) (\<lambda>c.
     Inr \<lparr> mc_surface_kind = ''opl_foundry_materialized_candidate'',
       mc_target_agent_id = strOf (fld ''target_agent_id'' b), mc_target_domain_id = strOf (fld ''target_domain_id'' b),
       mc_blueprint_digest = digest, mc_candidate_digest = c, mc_candidate_ref = ''foundry-candidate:'' @ c,
       mc_manifest_digest = m \<rparr>))"

section \<open>Preflight, binding and transaction\<close>

record activation_preflight =
  pf_surface_kind :: string
  pf_version :: string
  pf_kind :: tx_kind
  pf_target_agent_id :: string
  pf_target_domain_id :: string
  pf_version_id :: string
  pf_version_digest :: string
  pf_candidate_digest :: string
  pf_candidate_ref :: string
  pf_expected_revision :: int
  pf_preflight_ref :: string
  pf_runtime_binding_ref :: "string option"

definition assertActivationPreflight :: "activation_preflight \<Rightarrow> tx_kind \<Rightarrow> agent_version \<Rightarrow> int \<Rightarrow> check list" where
  "assertActivationPreflight p k v n =
     [(pf_surface_kind p = ''opl_foundry_activation_runtime_preflight''
       \<and> pf_version p = ''opl-foundry-activation-runtime-preflight.v1'' \<and> pf_kind p = k
       \<and> pf_target_agent_id p = av_target_agent_id v \<and> pf_target_domain_id p = av_target_domain_id v
       \<and> pf_version_id p = av_version_id v \<and> pf_version_digest p = av_version_digest v
       \<and> pf_candidate_digest p = av_candidate_digest v \<and> pf_candidate_ref p = av_candidate_ref v
       \<and> pf_expected_revision p = n \<and> trim (pf_preflight_ref p) \<noteq> []
       \<and> (case pf_runtime_binding_ref p of None \<Rightarrow> True | Some r \<Rightarrow> trim r \<noteq> []),
      ''Activation runtime preflight does not bind the exact target AgentVersion and revision.'')]"

definition buildRuntimeBindingVerification :: "activation_preflight \<Rightarrow> json" where
  "buildRuntimeBindingVerification p = JObj
     [(''surface_kind'', JStr ''opl_foundry_activation_runtime_binding_verification''),
      (''version'', JStr ''opl-foundry-activation-runtime-binding-verification.v1''),
      (''verification_phase'', JStr ''pre_commit''), (''transaction_kind'', JStr (kindName (pf_kind p))),
      (''target_agent_id'', JStr (pf_target_agent_id p)), (''target_domain_id'', JStr (pf_target_domain_id p)),
      (''version_id'', JStr (pf_version_id p)), (''version_digest'', JStr (pf_version_digest p)),
      (''candidate_digest'', JStr (pf_candidate_digest p)), (''candidate_ref'', JStr (pf_candidate_ref p)),
      (''expected_activation_revision'', jInt (pf_expected_revision p)),
      (''preflight_ref'', JStr (pf_preflight_ref p)),
      (''runtime_binding_ref'', JStr (case pf_runtime_binding_ref p of Some r \<Rightarrow> r | None \<Rightarrow> pf_preflight_ref p))]"

definition assertActivationTransaction :: "(string \<Rightarrow> bool) \<Rightarrow> activation_transaction \<Rightarrow> tx_kind \<Rightarrow> agent_version \<Rightarrow>
    int \<Rightarrow> string option \<Rightarrow> json \<Rightarrow> unit res" where
  "assertActivationTransaction dp t k v n receipt b =
     (let message = ''Version registry returned an invalid activation transaction.'' in
      bindE (runChecks [(tx_kind t = k \<and> tx_target_agent_id t = av_target_agent_id v
        \<and> tx_target_domain_id t = av_target_domain_id v \<and> tx_to t = av_version_digest v
        \<and> tx_previous_revision t = n \<and> tx_next_revision t = n + 1 \<and> tx_receipt t = receipt, message)]) (\<lambda>u.
      bindE (foundryContentDigest (tx_binding t)) (\<lambda>x.
      bindE (foundryContentDigest b) (\<lambda>y.
      runChecks [(x = y \<and> trim (tx_id t) \<noteq> [] \<and> dp (tx_occurred_at t), message)]))))"

section \<open>The in-memory runtime\<close>

definition assertExactAgentVersion :: "agent_version \<Rightarrow> agent_version option \<Rightarrow> string \<Rightarrow> unit res" where
  "assertExactAgentVersion expected actual label = (case actual of
       None \<Rightarrow> fail (label @ '' does not resolve the exact AgentVersion identity.'')
     | Some a \<Rightarrow> bindE (canonicalJsonText (versionJson a)) (\<lambda>x. bindE (canonicalJsonText (versionJson expected)) (\<lambda>y.
         runChecks [(x = y, label @ '' does not resolve the exact AgentVersion identity.'')])))"

definition preflightRecord :: "tx_kind \<Rightarrow> agent_version \<Rightarrow> int \<Rightarrow> json" where
  "preflightRecord k v n = JObj [(''surface_kind'', JStr ''opl_foundry_activation_runtime_preflight''),
     (''version'', JStr ''opl-foundry-activation-runtime-preflight.v1''), (''transaction_kind'', JStr (kindName k)),
     (''target_agent_id'', JStr (av_target_agent_id v)), (''target_domain_id'', JStr (av_target_domain_id v)),
     (''version_id'', JStr (av_version_id v)), (''version_digest'', JStr (av_version_digest v)),
     (''candidate_digest'', JStr (av_candidate_digest v)), (''candidate_ref'', JStr (av_candidate_ref v)),
     (''expected_activation_revision'', jInt n)]"

definition memoryPreflight :: "registry \<Rightarrow> tx_kind \<Rightarrow> agent_version \<Rightarrow> int \<Rightarrow> activation_preflight res" where
  "memoryPreflight g k v n =
     bindE (assertExactAgentVersion v
       (resolveVersion g (Some (av_version_digest v)) (av_target_agent_id v) (av_target_domain_id v))
       ''Activation runtime preflight'') (\<lambda>u.
     bindE (internalDigest (preflightRecord k v n)) (\<lambda>d.
     Inr \<lparr> pf_surface_kind = ''opl_foundry_activation_runtime_preflight'',
       pf_version = ''opl-foundry-activation-runtime-preflight.v1'', pf_kind = k,
       pf_target_agent_id = av_target_agent_id v, pf_target_domain_id = av_target_domain_id v,
       pf_version_id = av_version_id v, pf_version_digest = av_version_digest v,
       pf_candidate_digest = av_candidate_digest v, pf_candidate_ref = av_candidate_ref v,
       pf_expected_revision = n, pf_preflight_ref = ''opl://foundry/in-memory-activation-preflights/'' @ d,
       pf_runtime_binding_ref = None \<rparr>))"

record activation_readback =
  rb_kind :: tx_kind
  rb_target_agent_id :: string
  rb_target_domain_id :: string
  rb_active_version_id :: string
  rb_active_version_digest :: string
  rb_candidate_digest :: string
  rb_candidate_ref :: string
  rb_activation_revision :: int
  rb_runtime_binding_ref :: string

definition readbackRecord :: "activation_transaction \<Rightarrow> agent_version \<Rightarrow> json" where
  "readbackRecord t v = JObj [(''surface_kind'', JStr ''opl_foundry_activation_runtime_readback''),
     (''version'', JStr ''opl-foundry-activation-runtime-readback.v1''),
     (''transaction_kind'', JStr (kindName (tx_kind t))),
     (''target_agent_id'', JStr (av_target_agent_id v)), (''target_domain_id'', JStr (av_target_domain_id v)),
     (''active_version_id'', JStr (av_version_id v)), (''active_version_digest'', JStr (av_version_digest v)),
     (''candidate_digest'', JStr (av_candidate_digest v)), (''candidate_ref'', JStr (av_candidate_ref v)),
     (''activation_revision'', jInt (tx_next_revision t))]"

definition memoryReadback :: "registry \<Rightarrow> activation_transaction \<Rightarrow> agent_version \<Rightarrow> activation_readback res" where
  "memoryReadback g t v =
     bindE (assertExactAgentVersion v
       (resolveVersion g (Some (av_version_digest v)) (av_target_agent_id v) (av_target_domain_id v))
       ''Activation runtime readback'') (\<lambda>u.
     let a = activationOf g (av_target_agent_id v) (av_target_domain_id v) in
     bindE (runChecks [(tx_target_agent_id t = av_target_agent_id v \<and> tx_target_domain_id t = av_target_domain_id v
         \<and> tx_to t = av_version_digest v
         \<and> ap_target_agent_id a = av_target_agent_id v \<and> ap_target_domain_id a = av_target_domain_id v
         \<and> ap_active_version_digest a = Some (av_version_digest v) \<and> ap_revision a = tx_next_revision t
         \<and> ap_updated_at a = Some (tx_occurred_at t),
       ''Activation runtime readback does not match the exact committed transaction.'')]) (\<lambda>u.
     bindE (internalDigest (readbackRecord t v)) (\<lambda>d.
     Inr \<lparr> rb_kind = tx_kind t, rb_target_agent_id = av_target_agent_id v, rb_target_domain_id = av_target_domain_id v,
       rb_active_version_id = av_version_id v, rb_active_version_digest = av_version_digest v,
       rb_candidate_digest = av_candidate_digest v, rb_candidate_ref = av_candidate_ref v,
       rb_activation_revision = tx_next_revision t,
       rb_runtime_binding_ref = ''opl://foundry/in-memory-runtime-bindings/'' @ d \<rparr>)))"

text \<open>\<open>FailClosedActivationRuntime\<close>\<close>

definition failClosedPreflight :: "registry \<Rightarrow> tx_kind \<Rightarrow> agent_version \<Rightarrow> int \<Rightarrow> activation_preflight res" where
  "failClosedPreflight g k v n = fail ''Foundry activation requires an explicit hosted ActivationRuntime.''"

section \<open>The pieces fit\<close>

lemma built_binding_ok:
  assumes "list_all fst (assertActivationPreflight p k v n)" "\<bar>n\<bar> < 2 ^ 53"
  shows "list_all fst (assertActivationRuntimeBindingVerification (buildRuntimeBindingVerification p) k n v)"
proof -
  have ne: "trim s \<noteq> [] \<Longrightarrow> s \<noteq> []" for s by (auto simp: trim_def)
  have "jsSame (jInt n) (jInt n)" by (simp add: jsSame_def jInt_def jeq_def jint_def)
  with assms ne show ?thesis
    by (auto simp: assertActivationPreflight_def assertActivationRuntimeBindingVerification_def
        buildRuntimeBindingVerification_def sameKeys_iff bindingFields_def split: option.splits)
qed

lemma plain_versionJson: "plain (versionJson v)"
  by (simp add: versionJson_def versionBase_def)

lemma memoryPreflight_ok:
  assumes "memoryPreflight g k v n = Inr p"
  shows "list_all fst (assertActivationPreflight p k v n)" "pf_runtime_binding_ref p = None"
proof -
  have t: "trim (''opl://foundry/in-memory-activation-preflights/'' @ d) \<noteq> []" for d
    by (auto simp: trim_def isWs_def dropWhile_eq_Nil_conv)
  show "list_all fst (assertActivationPreflight p k v n)" "pf_runtime_binding_ref p = None"
    using assms t by (auto simp: memoryPreflight_def assertActivationPreflight_def)
qed

lemma memoryPreflight_total:
  assumes "resolveVersion g (Some (av_version_digest v)) (av_target_agent_id v) (av_target_domain_id v) = Some v" "\<bar>n\<bar> < 2 ^ 53"
  shows "\<exists>p. memoryPreflight g k v n = Inr p"
proof -
  have "plain (preflightRecord k v n)" using assms(2) by (simp add: preflightRecord_def jInt_def jint_def isFinite_def numOk_int)
  then show ?thesis
    using assms(1) by (simp add: memoryPreflight_def assertExactAgentVersion_def canonicalJsonText_plain plain_versionJson
        runChecks_ok internalDigest_def)
qed

text \<open>
  Right after a version is activated, reading it back succeeds and names the version and
  the revision of the transaction.
\<close>

lemma readback_after_activate:
  assumes inv: "registryInv g" and a: "activateVersion g i = Inr (g', t)"
    and new: "tx_previous_revision t = ap_revision (activationOf g (ai_target_agent_id i) (ai_target_domain_id i))"
    and v: "resolveVersion g (Some (ai_version_digest i)) (ai_target_agent_id i) (ai_target_domain_id i) = Some v"
      "av_target_agent_id v = ai_target_agent_id i" "av_target_domain_id v = ai_target_domain_id i"
    and p: "ap_target_agent_id (activationOf g (ai_target_agent_id i) (ai_target_domain_id i)) = ai_target_agent_id i"
      "ap_target_domain_id (activationOf g (ai_target_agent_id i) (ai_target_domain_id i)) = ai_target_domain_id i"
    and d: "ai_version_digest i \<noteq> []" and n: "tx_previous_revision t < 2 ^ 53 - 1"
  shows "\<exists>b. memoryReadback g' t v = Inr b \<and> rb_active_version_digest b = ai_version_digest i
    \<and> rb_activation_revision b = ai_expected_revision i + 1"
proof -
  let ?a = "ai_target_agent_id i" and ?d = "ai_target_domain_id i"
  obtain st where st: "activateState (regState g ?a ?d) i = Inr (st, t)" "g' = putState ?a ?d st g"
    using a by (rule activateVersion_Inr)
  have s: "regStateInv (regState g ?a ?d)" using inv by (simp add: registryInv_def)
  have vd: "av_version_digest v = ai_version_digest i"
    using v(1) d by (auto simp: resolveVersion_def Let_def find_Some_iff)
  have nn: "0 \<le> tx_previous_revision t"
    using new s by (simp add: activationOf_def regStateInv_def)
  from st(1) have e: "ai_expected_revision i = tx_previous_revision t \<and> tx_next_revision t = tx_previous_revision t + 1
    \<and> tx_to t = ai_version_digest i \<and> tx_target_agent_id t = ?a \<and> tx_target_domain_id t = ?d
    \<and> rg_versions st = rg_versions (regState g ?a ?d)
    \<and> rg_activation st = (rg_activation (regState g ?a ?d))\<lparr> ap_active_version_digest := Some (ai_version_digest i),
        ap_revision := tx_next_revision t, ap_updated_at := Some (tx_occurred_at t) \<rparr>"
  proof (cases rule: activateState_Inr)
    case (1 w)
    then have "t \<in> set (rg_transactions (regState g ?a ?d))" by (auto simp: find_Some_iff)
    with new s historyOk_previous have False
      by (auto simp: regStateInv_def activationOf_def in_set_conv_nth)
    then show ?thesis ..
  next
    case (2 w)
    then show ?thesis by (simp add: newTransaction_def)
  qed
  have "numOk (of_int (tx_next_revision t))" using nn n e by (intro numOk_int) simp
  then have "plain (readbackRecord t v)" by (simp add: readbackRecord_def jInt_def jint_def isFinite_def)
  moreover have "resolveVersion g' (Some (av_version_digest v)) ?a ?d = Some v"
    using v(1) d e by (simp add: resolveVersion_def Let_def st(2) regState_putState vd)
  ultimately show ?thesis
    using e p vd v(2, 3)
    by (simp add: memoryReadback_def assertExactAgentVersion_def canonicalJsonText_plain plain_versionJson runChecks_ok
        internalDigest_def activationOf_def st(2) regState_putState Let_def)
qed

end
