(* ===== verification/Output_Checks.thy ===== *)
theory Output_Checks
  imports Evaluation Owner_Gate Activation Risk_Policy
begin

text \<open>
  What the kernel accepts from the components it calls, and how a run is read back:
  \<open>kernel-parts/output-validation.ts\<close> and \<open>kernel-parts/terminal-readback.ts\<close> of
  \<open>src/src/authority/evolution/\<close>.
\<close>

section \<open>Outputs of compiler, evaluator and registry\<close>

definition assertMaterializedCandidate :: "json \<Rightarrow> run_snapshot \<Rightarrow> materialized_candidate \<Rightarrow> check list" where
  "assertMaterializedCandidate request run c =
     [(mc_surface_kind c = ''opl_foundry_materialized_candidate''
       \<and> JStr (mc_target_agent_id c) = fld ''target_agent_id'' request
       \<and> JStr (mc_target_domain_id c) = fld ''target_domain_id'' request
       \<and> Some (mc_blueprint_digest c) = sn_blueprint_digest run
       \<and> (sn_candidate_digest run = None \<or> sn_candidate_digest run = Some (mc_candidate_digest c))
       \<and> isDigest (mc_candidate_digest c) \<and> isDigest (mc_manifest_digest c) \<and> trim (mc_candidate_ref c) \<noteq> [],
      ''Materialized candidate identity does not match the FoundryRun.'')]"

definition evidenceBindingOk :: "run_snapshot \<Rightarrow> json \<Rightarrow> materialized_candidate \<Rightarrow> agent_version option \<Rightarrow> string \<Rightarrow>
    string \<Rightarrow> string \<Rightarrow> bool" where
  "evidenceBindingOk run e c baseline planDigest designer evaluator =
     (let review = fld ''independent_review'' e; prov = fld ''provenance'' e;
          reviewer = trimmed (fld ''evaluator_ref'' review) in
      fld ''blueprint_digest'' e = ofOptStr (sn_blueprint_digest run)
      \<and> fld ''candidate_digest'' e = JStr (mc_candidate_digest c)
      \<and> fld ''baseline_version_digest'' e = ofOptStr (map_option av_version_digest baseline)
      \<and> fld ''frozen_test_plan_digest'' e = JStr planDigest
      \<and> fld ''foundry_run_id'' prov = JStr (sn_run_id run)
      \<and> jsSame (fld ''generation'' prov) (JNum (sn_generation run))
      \<and> fld ''producer_id'' prov = JStr evaluator
      \<and> reviewer \<noteq> trim designer \<and> reviewer \<noteq> trim evaluator
      \<and> trimmed (fld ''evaluation_execution_ref'' review) \<noteq> trimmed (fld ''review_execution_ref'' review))"

definition assertEvaluationEvidence :: "(string \<Rightarrow> string) \<Rightarrow> json \<Rightarrow> run_snapshot \<Rightarrow> json \<Rightarrow> json \<Rightarrow>
    materialized_candidate \<Rightarrow> agent_version option \<Rightarrow> string \<Rightarrow> string \<Rightarrow> eval_facts res" where
  "assertEvaluationEvidence ck request run blueprint e c baseline designer evaluator =
     bindE (runChecks (assertSameTarget request e ''EvidenceBundle'')) (\<lambda>u.
     bindE (foundryFrozenEvaluationPlanDigest (fld ''eval_spec'' blueprint)) (\<lambda>plan.
     bindE (runChecks [(evidenceBindingOk run e c baseline plan designer evaluator,
         ''EvidenceBundle provenance or content binding is stale.''),
       (case sn_frozen_test_plan_digest run of None \<Rightarrow> True
          | Some d \<Rightarrow> d = [] \<or> fld ''frozen_test_plan_digest'' e = JStr d,
         ''EvidenceBundle changed the frozen test plan during a FoundryRun.'')]) (\<lambda>u.
     assertEvaluationEvidenceFacts ck request (fld ''eval_spec'' blueprint) e (baseline \<noteq> None))))"

definition assertRegisteredCandidate :: "json \<Rightarrow> run_snapshot \<Rightarrow> materialized_candidate \<Rightarrow> agent_version \<Rightarrow>
    qualification \<Rightarrow> unit res" where
  "assertRegisteredCandidate request run c v q =
     (let message = ''Version registry changed the qualified materialized candidate binding.'' in
      bindE (runChecks [(JStr (av_target_agent_id v) = fld ''target_agent_id'' request
        \<and> JStr (av_target_domain_id v) = fld ''target_domain_id'' request
        \<and> Some (av_blueprint_digest v) = sn_blueprint_digest run
        \<and> av_candidate_digest v = mc_candidate_digest c \<and> av_candidate_ref v = mc_candidate_ref c
        \<and> JStr (ql_target_agent_id q) = fld ''target_agent_id'' request
        \<and> JStr (ql_target_domain_id q) = fld ''target_domain_id'' request
        \<and> Some (ql_blueprint_digest q) = sn_blueprint_digest run
        \<and> ql_candidate_digest q = mc_candidate_digest c
        \<and> av_qualification_digest v = ql_qualification_digest q, message)]) (\<lambda>u.
      bindE (foundryContentDigest (versionBase v)) (\<lambda>d.
      bindE (runChecks [(d = av_version_digest v, message)]) (\<lambda>u.
      bindE (foundryContentDigest (qualificationBase q)) (\<lambda>d'.
      runChecks [(d' = ql_qualification_digest q, message)])))))"

section \<open>Owner decisions in a history\<close>

record owner_decision_readback =
  od_event_id :: string
  od_event_revision :: int
  od_expected_revision :: int
  od_action :: string
  od_decision :: string
  od_receipt_ref :: string
  od_receipt_digest :: string
  od_authority_ref :: string
  od_verifier_id :: string
  od_verification_ref :: string
  od_authority_policy_ref :: string

definition decisionMatches :: "string \<Rightarrow> string \<Rightarrow> string \<Rightarrow> bool" where
  "decisionMatches ty action decision \<longleftrightarrow>
     (if ty = ''owner_approved'' then decision = ''approve'' \<and> action \<in> {''approve_canary'', ''approve_active''}
      else if ty = ''owner_rejected'' then decision = ''reject'' \<and> action \<in> {''reject_canary'', ''reject_active''}
      else decision = ''cancel'' \<and> action = ''cancel'')"

definition isDecisionEvent :: "json \<Rightarrow> bool" where
  "isDecisionEvent e \<longleftrightarrow> evType e \<in> {''owner_approved'', ''owner_rejected'', ''foundry_run_cancelled''}"

definition ownerDecisionReadback :: "json \<Rightarrow> owner_decision_readback res" where
  "ownerDecisionReadback e = (let p = fld ''payload'' e in
     bindE (requiredRef (fld ''owner_gate_action'' p) ''owner_gate_action'') (\<lambda>action.
     bindE (requiredRef (fld ''owner_gate_decision'' p) ''owner_gate_decision'') (\<lambda>decision.
     bindE (runChecks [(decisionMatches (evType e) action decision,
       ''FoundryRun owner decision event does not match its verified action.'')]) (\<lambda>u.
     bindE (requiredDigest (fld ''owner_authority_receipt_digest'' p) ''owner_authority_receipt_digest'') (\<lambda>digest.
     bindE (requiredRef (fld ''owner_authority_receipt_ref'' p) ''owner_authority_receipt_ref'') (\<lambda>ref.
     bindE (ownerAuthorityReceiptRef digest) (\<lambda>expected.
     bindE (runChecks [(expected = ref, ''FoundryRun owner decision receipt ref does not match its verified digest.'')]) (\<lambda>u.
     bindE (requiredRef (fld ''owner_authority_ref'' p) ''owner_authority_ref'') (\<lambda>authority.
     bindE (requiredRef (fld ''owner_authority_verifier_id'' p) ''owner_authority_verifier_id'') (\<lambda>verifier.
     bindE (requiredRef (fld ''owner_authority_verification_ref'' p) ''owner_authority_verification_ref'') (\<lambda>vref.
     bindE (requiredRef (fld ''owner_authority_policy_ref'' p) ''owner_authority_policy_ref'') (\<lambda>policy.
     Inr \<lparr> od_event_id = strOf (fld ''event_id'' e), od_event_revision = evRevision e,
       od_expected_revision = evRevision e - 1, od_action = action, od_decision = decision,
       od_receipt_ref = ref, od_receipt_digest = digest, od_authority_ref = authority, od_verifier_id = verifier,
       od_verification_ref = vref, od_authority_policy_ref = policy \<rparr>))))))))))))"

definition ownerDecisionReadbacks :: "json list \<Rightarrow> owner_decision_readback list res" where
  "ownerDecisionReadbacks es = seqE (map ownerDecisionReadback (filter isDecisionEvent es))"

definition carriesAuthority :: "json \<Rightarrow> bool" where
  "carriesAuthority e \<longleftrightarrow> evType e = ''owner_approved''
     \<and> isStr (fld ''owner_authority_receipt_ref'' (fld ''payload'' e))
     \<and> isStr (fld ''owner_authority_receipt_digest'' (fld ''payload'' e))"

text \<open>The last approval of the history: its receipt reference and digest.\<close>

definition latestOwnerAuthority :: "json list \<Rightarrow> (string \<times> string) option res" where
  "latestOwnerAuthority es = (case find carriesAuthority (rev es) of
       None \<Rightarrow> Inr None
     | Some e \<Rightarrow>
         bindE (requiredDigest (fld ''owner_authority_receipt_digest'' (fld ''payload'' e)) ''owner_authority_receipt_digest'') (\<lambda>d.
         bindE (requiredRef (fld ''owner_authority_receipt_ref'' (fld ''payload'' e)) ''owner_authority_receipt_ref'') (\<lambda>ref.
         bindE (ownerAuthorityReceiptRef d) (\<lambda>expected.
         bindE (runChecks [(expected = ref, ''Owner approval event receipt ref does not match its verified digest.'')]) (\<lambda>u.
         Inr (Some (ref, d)))))))"

section \<open>Terminal readback\<close>

record terminal_readback =
  tr_terminal :: bool
  tr_state :: run_state
  tr_qualified_agent_version :: "agent_version option"
  tr_owner_decisions :: "owner_decision_readback list"
  tr_activation_transaction :: "activation_transaction option"
  tr_current_activation :: activation_pointer
  tr_active_version_matches_run :: "bool option"

definition qualifiedVersion :: "registry \<Rightarrow> run_snapshot \<Rightarrow> agent_version option res" where
  "qualifiedVersion g run = (if truthy (sn_version_digest run) then
       (let v = resolveVersion g (sn_version_digest run) (sn_target_agent_id run) (sn_target_domain_id run) in
        bindE (runChecks [(case v of None \<Rightarrow> False | Some x \<Rightarrow> Some (av_version_digest x) = sn_version_digest run
          \<and> av_target_agent_id x = sn_target_agent_id run \<and> av_target_domain_id x = sn_target_domain_id run,
          ''FoundryRun terminal readback cannot resolve its exact qualified AgentVersion.'')]) (\<lambda>u. Inr v))
     else Inr None)"

text \<open>The transaction an activation event names, with all that must agree about it.\<close>

definition activationReceipt :: "registry \<Rightarrow> run_snapshot \<Rightarrow> owner_decision_readback list \<Rightarrow> json \<Rightarrow>
    activation_transaction res" where
  "activationReceipt g run decisions e = (let p = fld ''payload'' e;
       message = ''FoundryRun activation receipt does not resolve to its exact activation transaction.'';
       binding = ''FoundryRun activation receipt does not bind its exact runtime verification.'' in
     bindE (requiredRef (fld ''activation_transaction_id'' p) ''activation_transaction_id'') (\<lambda>tid.
     case find (\<lambda>t. tx_id t = tid) (activationHistory g (sn_target_agent_id run) (sn_target_domain_id run)) of
       None \<Rightarrow> fail message
     | Some t \<Rightarrow>
         bindE (runChecks [(Some (tx_to t) = sn_version_digest run \<and> tx_target_agent_id t = sn_target_agent_id run
             \<and> tx_target_domain_id t = sn_target_domain_id run, message),
           (isRecord (fld ''activation_runtime_binding_verification'' p), binding)]) (\<lambda>u.
         bindE (foundryContentDigest (fld ''activation_runtime_binding_verification'' p)) (\<lambda>a.
         bindE (foundryContentDigest (tx_binding t)) (\<lambda>b.
         bindE (runChecks [(a = b
             \<and> jsSame (fld ''activation_runtime_preflight_ref'' p) (fld ''preflight_ref'' (tx_binding t))
             \<and> jsSame (fld ''activation_runtime_binding_ref'' p) (fld ''runtime_binding_ref'' (tx_binding t)), binding),
           (\<not> active_owner_required (ownerGatePolicy (sn_risk_tier run))
             \<or> tx_receipt t = map_option od_receipt_ref (find (\<lambda>d. od_action d = ''approve_active'') (rev decisions))
               \<and> tx_receipt t \<noteq> None,
             ''FoundryRun activation transaction does not bind its verified active approval receipt.'')]) (\<lambda>u. Inr t))))))"

definition buildFoundryRunTerminalReadback :: "registry \<Rightarrow> run_snapshot \<Rightarrow> json list \<Rightarrow> activation_pointer \<Rightarrow>
    terminal_readback res" where
  "buildFoundryRunTerminalReadback g run es act =
     bindE (qualifiedVersion g run) (\<lambda>version.
     bindE (ownerDecisionReadbacks es) (\<lambda>decisions.
     let activations = filter (\<lambda>e. evType e = ''activation_completed'') es in
     bindE (runChecks [(length activations \<le> 1, ''FoundryRun has more than one activation completion event.''),
       ((sn_run_state run = Completed_Active) = (activations \<noteq> []),
        ''FoundryRun terminal state and activation completion receipt disagree.'')]) (\<lambda>u.
     bindE (if activations = [] then Inr None
       else mapE Some (activationReceipt g run decisions (hd activations))) (\<lambda>t.
     Inr \<lparr> tr_terminal = isTerminal (sn_run_state run), tr_state = sn_run_state run,
       tr_qualified_agent_version = version, tr_owner_decisions = decisions, tr_activation_transaction = t,
       tr_current_activation = act,
       tr_active_version_matches_run = (if truthy (sn_version_digest run)
         then Some (ap_active_version_digest act = sn_version_digest run) else None) \<rparr>))))"

end
