(* ===== verification/Kernel_Base.thy ===== *)
theory Kernel_Base
  imports Output_Checks Event_Store Object_Store Memory_Gate
begin

text \<open>
  The state the kernel works on, the components it calls as parameters, and the two
  helpers that call them: \<open>#activity\<close> of \<open>src/src/authority/evolution/kernel.ts\<close> and
  \<open>commitFoundryActivation\<close> of \<open>kernel-parts/activation-transaction.ts\<close>.

  The event store, the version registry, the object store and the result journal are the
  in-memory ones.  Designer, compiler, evaluator, owner gate, activation runtime, content
  resolver, clock and run ids are functions of the call number \<open>wd_tick\<close>, which every call
  increments, so two calls may answer differently and any of them may fail.  A kernel
  operation is a state transformer that also returns a result or an error; what was
  written before an error stays written.
\<close>

section \<open>World and operations\<close>

record world =
  wd_events :: event_store
  wd_registry :: registry
  wd_objects :: object_store
  wd_journal :: result_journal
  wd_tick :: nat

type_synonym 'a kern = "world \<Rightarrow> 'a res \<times> world"

definition retK :: "'a \<Rightarrow> 'a kern" where
  "retK x w = (Inr x, w)"

definition throwK :: "ferror \<Rightarrow> 'a kern" where
  "throwK e w = (Inl e, w)"

definition failK :: "string \<Rightarrow> 'a kern" where
  "failK m w = (fail m, w)"

definition liftK :: "'a res \<Rightarrow> 'a kern" where
  "liftK r w = (r, w)"

definition bindK :: "'a kern \<Rightarrow> ('a \<Rightarrow> 'b kern) \<Rightarrow> 'b kern" where
  "bindK m f w = (case m w of (Inl e, w') \<Rightarrow> (Inl e, w') | (Inr x, w') \<Rightarrow> f x w')"

definition catchK :: "'a kern \<Rightarrow> (ferror \<Rightarrow> 'a kern) \<Rightarrow> 'a kern" where
  "catchK m h w = (case m w of (Inl e, w') \<Rightarrow> h e w' | (Inr x, w') \<Rightarrow> (Inr x, w'))"

definition readK :: "(world \<Rightarrow> 'a) \<Rightarrow> 'a kern" where
  "readK f w = (Inr (f w), w)"

definition checkK :: "bool \<Rightarrow> string \<Rightarrow> unit kern" where
  "checkK b m = liftK (runChecks [(b, m)])"

definition portK :: "(nat \<Rightarrow> 'a res) \<Rightarrow> 'a kern" where
  "portK f w = (f (wd_tick w), w\<lparr> wd_tick := Suc (wd_tick w) \<rparr>)"

text \<open>The in-memory components as operations on the world.\<close>

definition putK :: "json \<Rightarrow> (string \<times> string) kern" where
  "putK v w = (case putObject (wd_objects w) v of Inl e \<Rightarrow> (Inl e, w)
     | Inr (s, d, ref) \<Rightarrow> (Inr (d, ref), w\<lparr> wd_objects := s \<rparr>))"

definition createK :: "string \<Rightarrow> json \<Rightarrow> unit kern" where
  "createK k e w = (case createRun (wd_events w) k e of Inl x \<Rightarrow> (Inl x, w)
     | Inr s \<Rightarrow> (Inr (), w\<lparr> wd_events := s \<rparr>))"

definition appendK :: "string \<Rightarrow> int \<Rightarrow> json \<Rightarrow> json kern" where
  "appendK k n e w = (case appendEvent (wd_events w) k n e of Inl x \<Rightarrow> (Inl x, w)
     | Inr (s, r) \<Rightarrow> (Inr r, w\<lparr> wd_events := s \<rparr>))"

definition registerK :: "registration \<Rightarrow> (agent_version \<times> qualification) kern" where
  "registerK i w = (case registerVersion (wd_registry w) i of Inl x \<Rightarrow> (Inl x, w)
     | Inr (g, v, q) \<Rightarrow> (Inr (v, q), w\<lparr> wd_registry := g \<rparr>))"

definition activateK :: "activation_input \<Rightarrow> activation_transaction kern" where
  "activateK i w = (case (if ai_kind i = Activate_Tx then compareAndSwapActivation (wd_registry w) i
       else rollbackVersion (wd_registry w) i) of Inl x \<Rightarrow> (Inl x, w)
     | Inr (g, t) \<Rightarrow> (Inr t, w\<lparr> wd_registry := g \<rparr>))"

definition readResultK :: "json \<Rightarrow> op_result option kern" where
  "readResultK i w = (readResult (wd_journal w) i, w)"

definition commitResultK :: "json \<Rightarrow> json \<Rightarrow> json \<Rightarrow> json \<Rightarrow> op_result kern" where
  "commitResultK i d ref t w = (case commitResult (wd_journal w) i d ref t of Inl x \<Rightarrow> (Inl x, w)
     | Inr (j, r) \<Rightarrow> (Inr r, w\<lparr> wd_journal := j \<rparr>))"

section \<open>The components outside\<close>

record ports =
  pt_producer_id :: string
  pt_evaluator_id :: string
  pt_design :: "nat \<Rightarrow> json \<Rightarrow> json \<Rightarrow> json res"
  pt_diagnose :: "nat \<Rightarrow> json \<Rightarrow> json res"
  pt_materialize :: "nat \<Rightarrow> string \<Rightarrow> json \<Rightarrow> string \<Rightarrow> materialized_candidate res"
  pt_evaluate :: "nat \<Rightarrow> json \<Rightarrow> json res"
  pt_canary :: "nat \<Rightarrow> json \<Rightarrow> json res"
  pt_verify :: "nat \<Rightarrow> gate_context \<Rightarrow> json res"
  pt_preflight :: "nat \<Rightarrow> registry \<Rightarrow> tx_kind \<Rightarrow> agent_version \<Rightarrow> int \<Rightarrow> activation_preflight res"
  pt_content :: "(nat \<Rightarrow> string \<Rightarrow> bool res) option"
  pt_now :: "nat \<Rightarrow> string"
  pt_run_id :: "nat \<Rightarrow> string"
  pt_max_attempts :: nat
  pt_propagate :: bool
  pt_date_ok :: "string \<Rightarrow> bool"
  pt_collation :: "string \<Rightarrow> string"

definition nowK :: "ports \<Rightarrow> string kern" where
  "nowK pt = portK (\<lambda>n. Inr (pt_now pt n))"

text \<open>The constructor: who may work together, and the retry budget.\<close>

definition kernelDependencies :: "ports \<Rightarrow> unit res" where
  "kernelDependencies pt = runChecks
     [(pt_producer_id pt \<noteq> pt_evaluator_id pt,
       ''Foundry designer and evaluator must use independent producer identities.''),
      (1 \<le> pt_max_attempts pt \<and> pt_max_attempts pt \<le> 3,
       ''Foundry activity retry budget must be an integer from 1 to 3.'')]"

section \<open>Activities\<close>

fun isTransient :: "ferror \<Rightarrow> bool" where
  "isTransient (TransientActivityError m) = True"
| "isTransient e = False"

fun isContractFailure :: "ferror \<Rightarrow> bool" where
  "isContractFailure (ContractError m) = True"
| "isContractFailure e = False"

fun errorMessage :: "ferror \<Rightarrow> string" where
  "errorMessage (ContractError m) = m"
| "errorMessage (TransientActivityError m) = m"
| "errorMessage (OperationResultUnavailable k) =
     ''Foundry operation result '' @ k @ '' is not durably journaled.''"
| "errorMessage (RuntimeError m) = m"

text \<open>The attempts that are left; the last transient error is thrown on when they are used up.\<close>

fun attemptK :: "ports \<Rightarrow> string \<Rightarrow> 'a kern \<Rightarrow> nat \<Rightarrow> ferror \<Rightarrow> 'a kern" where
  "attemptK pt operation m 0 lastError w =
     (if pt_propagate pt \<and> isTransient lastError then (Inl lastError, w)
      else (Inl (RuntimeError (''Foundry '' @ operation @ '' exhausted the transient infrastructure retry budget.'')), w))"
| "attemptK pt operation m (Suc n) lastError w = (case m w of
       (Inr x, w') \<Rightarrow> (Inr x, w')
     | (Inl e, w') \<Rightarrow> if isContractFailure e \<or> \<not> isTransient e then (Inl e, w')
         else attemptK pt operation m n e w')"

definition activityK :: "ports \<Rightarrow> string \<Rightarrow> 'a kern \<Rightarrow> 'a kern" where
  "activityK pt operation m = attemptK pt operation m (pt_max_attempts pt) (RuntimeError [])"

section \<open>Committing an activation\<close>

definition commitFoundryActivation :: "ports \<Rightarrow> tx_kind \<Rightarrow> agent_version \<Rightarrow> int \<Rightarrow> string option \<Rightarrow>
    (activation_transaction \<times> activation_preflight) kern" where
  "commitFoundryActivation pt k v n receipt =
     bindK (checkK (\<not> (k = Rollback_Tx \<and> \<not> truthy receipt))
       ''Rollback activation transaction requires an Owner authority receipt.'') (\<lambda>u.
     bindK (activityK pt (kindName k @ ''_runtime_preflight'')
       (\<lambda>w. portK (\<lambda>c. pt_preflight pt c (wd_registry w) k v n) w)) (\<lambda>p.
     bindK (liftK (runChecks (assertActivationPreflight p k v n))) (\<lambda>u.
     let b = buildRuntimeBindingVerification p in
     bindK (nowK pt) (\<lambda>occurredAt.
     bindK (activityK pt (kindName k) (activateK \<lparr> ai_kind = k, ai_target_agent_id = av_target_agent_id v,
       ai_target_domain_id = av_target_domain_id v, ai_expected_revision = n, ai_version_digest = av_version_digest v,
       ai_occurred_at = occurredAt, ai_receipt = receipt, ai_binding = b \<rparr>)) (\<lambda>t.
     bindK (liftK (assertActivationTransaction (pt_date_ok pt) t k v n receipt b)) (\<lambda>u.
     retK (t, p)))))))"

section \<open>Reasoning about operations\<close>

text \<open>
  A predicate of the world is kept when it holds after the operation, whether it returned
  or failed.
\<close>

definition keeps :: "(world \<Rightarrow> bool) \<Rightarrow> 'a kern \<Rightarrow> bool" where
  "keeps P m \<longleftrightarrow> (\<forall>w. P w \<longrightarrow> P (snd (m w)))"

named_theorems keeps_intros

lemma keepsD: "keeps P m \<Longrightarrow> P w \<Longrightarrow> P (snd (m w))"
  by (simp add: keeps_def)

lemma keepsI: "(\<And>w. P w \<Longrightarrow> P (snd (m w))) \<Longrightarrow> keeps P m"
  by (simp add: keeps_def)

lemma keeps_ret [keeps_intros]: "keeps P (retK x)" and keeps_throw [keeps_intros]: "keeps P (throwK e)"
  and keeps_fail [keeps_intros]: "keeps P (failK s)" and keeps_lift [keeps_intros]: "keeps P (liftK r)"
  and keeps_read [keeps_intros]: "keeps P (readK f)" and keeps_check [keeps_intros]: "keeps P (checkK b s)"
  and keeps_readResult [keeps_intros]: "keeps P (readResultK j)"
  by (simp_all add: keeps_def retK_def throwK_def failK_def liftK_def readK_def checkK_def readResultK_def)

lemma keeps_bind [keeps_intros]: "keeps P m \<Longrightarrow> (\<And>x. keeps P (f x)) \<Longrightarrow> keeps P (bindK m f)"
  by (auto simp: keeps_def bindK_def split: prod.splits sum.splits)

lemma keeps_catch [keeps_intros]: "keeps P m \<Longrightarrow> (\<And>x. keeps P (h x)) \<Longrightarrow> keeps P (catchK m h)"
  by (auto simp: keeps_def catchK_def split: prod.splits sum.splits)

lemma keeps_if [keeps_intros]: "(b \<Longrightarrow> keeps P m) \<Longrightarrow> (\<not> b \<Longrightarrow> keeps P n) \<Longrightarrow> keeps P (if b then m else n)"
  by simp

lemma keeps_option [keeps_intros]:
  "(x = None \<Longrightarrow> keeps P m) \<Longrightarrow> (\<And>y. x = Some y \<Longrightarrow> keeps P (f y)) \<Longrightarrow> keeps P (case x of None \<Rightarrow> m | Some y \<Rightarrow> f y)"
  by (simp split: option.splits)

lemma keeps_prod [keeps_intros]: "(\<And>a b. x = (a, b) \<Longrightarrow> keeps P (f a b)) \<Longrightarrow> keeps P (case x of (a, b) \<Rightarrow> f a b)"
  by (simp split: prod.splits)

lemma keeps_let [keeps_intros]: "keeps P (f x) \<Longrightarrow> keeps P (let y = x in f y)"
  by simp

lemma keeps_attempt [keeps_intros]: "keeps P m \<Longrightarrow> keeps P (attemptK pt op m n e)"
proof (rule keepsI)
  fix w assume m: "keeps P m" and "P w"
  then show "P (snd (attemptK pt op m n e w))"
  proof (induction n arbitrary: e w)
    case (Suc n)
    have "P (snd (m w))" using Suc.prems by (rule keepsD)
    with Suc.IH [OF m] show ?case by (auto split: prod.splits sum.splits)
  qed simp
qed

lemma keeps_activity [keeps_intros]: "keeps P m \<Longrightarrow> keeps P (activityK pt op m)"
  unfolding activityK_def by (rule keeps_attempt)

text \<open>Reading a successful run of an operation.\<close>

lemma bindK_Inr [simp]: "bindK m f w = (Inr y, w') \<longleftrightarrow> (\<exists>x w1. m w = (Inr x, w1) \<and> f x w1 = (Inr y, w'))"
  by (auto simp: bindK_def split: prod.splits sum.splits)

lemma catchK_Inr: "catchK m h w = (Inr y, w') \<longleftrightarrow>
    m w = (Inr y, w') \<or> (\<exists>e w1. m w = (Inl e, w1) \<and> h e w1 = (Inr y, w'))"
  by (auto simp: catchK_def split: prod.splits sum.splits)

lemma simple_Inr [simp]:
  "retK x w = (Inr y, w') \<longleftrightarrow> y = x \<and> w' = w"
  "throwK e w \<noteq> (Inr y, w')" "failK s w \<noteq> (Inr y, w')"
  "liftK r w = (Inr y, w') \<longleftrightarrow> r = Inr y \<and> w' = w"
  "readK f w = (Inr y, w') \<longleftrightarrow> y = f w \<and> w' = w"
  "checkK b s w = (Inr u, w') \<longleftrightarrow> b \<and> w' = w"
  "portK g w = (Inr y, w') \<longleftrightarrow> g (wd_tick w) = Inr y \<and> w' = w\<lparr> wd_tick := Suc (wd_tick w) \<rparr>"
  by (auto simp: retK_def throwK_def failK_def liftK_def readK_def checkK_def portK_def)

end
