(* ===== verification/Baseline_Adoption.thy ===== *)
theory Baseline_Adoption
  imports Kernel_Base
begin

text \<open>
  \<open>src/src/authority/evolution/baseline-adoption.ts\<close>: the preflight that decides, without
  writing anything, whether a request may adopt the active version as its baseline.  The
  receipt says what was checked and why the request is blocked.  The constant part of the
  receipt (surface, authority boundary) is not carried.
\<close>

section \<open>Receipts\<close>

definition BASELINE_ADOPTION_FAILURE_CODES :: "string list" where
  "BASELINE_ADOPTION_FAILURE_CODES =
    [''foundry_baseline_adoption_contract_missing'', ''foundry_baseline_adoption_contract_invalid'',
     ''foundry_baseline_adoption_run_id_missing'', ''foundry_baseline_adoption_mode_must_be_improve'',
     ''foundry_baseline_adoption_target_version_missing'', ''foundry_baseline_adoption_target_version_invalid'',
     ''foundry_baseline_adoption_source_refs_missing'', ''foundry_baseline_adoption_source_refs_invalid'',
     ''foundry_baseline_adoption_evidence_refs_missing'', ''foundry_baseline_adoption_evidence_refs_invalid'',
     ''foundry_baseline_adoption_permission_refs_missing'',
     ''foundry_baseline_adoption_qualification_obligations_missing'',
     ''foundry_baseline_adoption_qualification_obligations_invalid'',
     ''foundry_baseline_adoption_owner_authorization_missing'',
     ''foundry_baseline_adoption_owner_authorization_invalid'',
     ''foundry_baseline_adoption_content_resolver_unconfigured'',
     ''foundry_baseline_adoption_content_unavailable'',
     ''foundry_baseline_adoption_target_version_registry_unavailable'',
     ''foundry_baseline_adoption_target_version_unregistered'',
     ''foundry_baseline_adoption_registered_version_mismatch'',
     ''foundry_baseline_adoption_currentness_unavailable'', ''foundry_baseline_adoption_active_version_missing'',
     ''foundry_baseline_adoption_target_version_not_current'',
     ''foundry_baseline_adoption_owner_authorization_unverified'']"

record adoption_failure =
  fl_code :: string
  fl_message :: string
  fl_refs :: "string list"

record receipt_context =
  rc_run_id :: "string option"
  rc_request_digest :: "string option"
  rc_target_agent_id :: "string option"
  rc_target_domain_id :: "string option"
  rc_target_version_ref :: "string option"
  rc_registered_version :: "agent_version option"
  rc_activation :: "activation_pointer option"
  rc_owner_authorization_ref :: "string option"
  rc_owner_verification_ref :: "string option"
  rc_source_refs :: "string list"
  rc_evidence_refs :: "string list"
  rc_permission_refs :: "string list"
  rc_qualification_obligation_refs :: "string list"
  rc_content_refs_verified :: bool
  rc_active_version_matches_target :: "bool option"

record adoption_receipt =
  ra_admitted :: bool
  ra_context :: receipt_context
  ra_failures :: "adoption_failure list"
  ra_activation_revision :: "int option"
  ra_checked_at :: string

definition stringValue :: "json \<Rightarrow> string option" where
  "stringValue v = (if isStr v \<and> trimmed v \<noteq> [] then Some (trimmed v) else None)"

definition stringList :: "json \<Rightarrow> string list" where
  "stringList v = List.map_filter stringValue (arrOf v)"

fun uniqueFailures :: "string list \<Rightarrow> adoption_failure list \<Rightarrow> adoption_failure list" where
  "uniqueFailures seen [] = []"
| "uniqueFailures seen (f # fs) = (if fl_code f \<in> set seen then uniqueFailures seen fs
     else f # uniqueFailures (fl_code f # seen) fs)"

definition failure :: "string \<Rightarrow> string \<Rightarrow> string list \<Rightarrow> adoption_failure" where
  "failure code message refs = \<lparr> fl_code = ''foundry_baseline_adoption_'' @ code, fl_message = message, fl_refs = refs \<rparr>"

definition safeRequestDigest :: "json \<Rightarrow> string option" where
  "safeRequestDigest v = (if isRecord v then (case foundryContentDigest v of Inr d \<Rightarrow> Some d | Inl e \<Rightarrow> None) else None)"

text \<open>\<open>isRecord(v) ? v : {}\<close> needs no case: the accessors read nothing from other values.\<close>

definition recordPart :: "json \<Rightarrow> json" where
  "recordPart v = (if isRecord v then v else JObj [])"

definition baseContext :: "json \<Rightarrow> json \<Rightarrow> receipt_context" where
  "baseContext v run = (let request = recordPart v; baseline = recordPart (fld ''baseline_adoption'' request);
       constraints = recordPart (fld ''constraints'' request) in
     \<lparr> rc_run_id = stringValue run, rc_request_digest = safeRequestDigest v,
       rc_target_agent_id = stringValue (fld ''target_agent_id'' request),
       rc_target_domain_id = stringValue (fld ''target_domain_id'' request),
       rc_target_version_ref = stringValue (fld ''target_version_ref'' request),
       rc_registered_version = None, rc_activation = None,
       rc_owner_authorization_ref = stringValue (fld ''owner_authorization_ref'' baseline),
       rc_owner_verification_ref = None,
       rc_source_refs = stringList (fld ''source_refs'' request),
       rc_evidence_refs = stringList (fld ''evidence_refs'' baseline),
       rc_permission_refs = stringList (fld ''permission_refs'' constraints),
       rc_qualification_obligation_refs = stringList (fld ''qualification_obligation_refs'' baseline),
       rc_content_refs_verified = False, rc_active_version_matches_target = None \<rparr>)"

definition adoptionReceipt :: "receipt_context \<Rightarrow> adoption_failure list \<Rightarrow> string \<Rightarrow> adoption_receipt" where
  "adoptionReceipt c fs checkedAt = (let exact = uniqueFailures [] fs in
     \<lparr> ra_admitted = (exact = []), ra_context = c, ra_failures = exact,
       ra_activation_revision = map_option ap_revision (rc_activation c), ra_checked_at = checkedAt \<rparr>)"

section \<open>Static checks\<close>

text \<open>A list of refs that must not be empty, and whose entries must all be content refs.\<close>

definition refFailures :: "string list \<Rightarrow> string \<Rightarrow> string \<Rightarrow> string \<Rightarrow> string \<Rightarrow> adoption_failure list" where
  "refFailures refs missing missingMessage invalid invalidMessage =
     (if refs = [] then [failure missing missingMessage []]
      else if list_ex (\<lambda>r. \<not> isContentRef r) refs
        then [failure invalid invalidMessage (filter (\<lambda>r. \<not> isContentRef r) refs)] else [])"

definition staticFailures :: "json \<Rightarrow> receipt_context \<Rightarrow> adoption_failure list" where
  "staticFailures v c = (let request = recordPart v in
     (if isRecord v then [] else [failure ''contract_invalid'' ''DesignRequest must be an object.'' []]) @
     (if rc_run_id c = None then [failure ''run_id_missing'' ''Baseline adoption must bind one FoundryRun id.'' []] else []) @
     (if \<not> hasOwn request ''baseline_adoption''
      then [failure ''contract_missing'' ''DesignRequest does not declare the baseline_adoption machine contract.'' []]
      else if \<not> isRecord (fld ''baseline_adoption'' request)
      then [failure ''contract_invalid'' ''baseline_adoption must be an object.'' []] else []) @
     (if fld ''mode'' request \<noteq> JStr ''improve'' then [failure ''mode_must_be_improve''
       ''Baseline adoption cannot use create or takeover; DesignRequest.mode must be improve.'' []] else []) @
     (case rc_target_version_ref c of
        None \<Rightarrow> [failure ''target_version_missing''
          ''Baseline adoption requires an exact registered target AgentVersion digest.'' []]
      | Some d \<Rightarrow> if isDigest d then [] else [failure ''target_version_invalid''
          ''target_version_ref must be an AgentVersion SHA-256 digest, not a package or installation ref.'' [d]]) @
     refFailures (rc_source_refs c) ''source_refs_missing'' ''At least one source content ref is required.''
       ''source_refs_invalid'' ''All source refs must be exact opl-content SHA-256 refs.'' @
     (if rc_permission_refs c = [] then [failure ''permission_refs_missing''
       ''The target permission_refs closure must be preserved exactly and cannot be inferred.'' []] else []) @
     (case rc_owner_authorization_ref c of
        None \<Rightarrow> [failure ''owner_authorization_missing''
          ''An exact target-owner authorization receipt is required before FoundryRun creation.'' []]
      | Some r \<Rightarrow> if isOwnerAuthorizationRef r then [] else [failure ''owner_authorization_invalid''
          ''owner_authorization_ref must bind an exact content-addressed OwnerGate receipt.'' [r]]) @
     refFailures (rc_evidence_refs c) ''evidence_refs_missing'' ''At least one evidence content ref is required.''
       ''evidence_refs_invalid'' ''All evidence refs must be exact opl-content SHA-256 refs.'' @
     refFailures (rc_qualification_obligation_refs c) ''qualification_obligations_missing''
       ''At least one content-addressed qualification obligation set is required.''
       ''qualification_obligations_invalid'' ''Qualification obligation refs must be exact opl-content SHA-256 refs.'')"

definition exactRegisteredVersion :: "json \<Rightarrow> agent_version \<Rightarrow> bool" where
  "exactRegisteredVersion request v \<longleftrightarrow>
     JStr (av_version_digest v) = fld ''target_version_ref'' request
     \<and> JStr (av_target_agent_id v) = fld ''target_agent_id'' request
     \<and> JStr (av_target_domain_id v) = fld ''target_domain_id'' request
     \<and> isDigest (av_blueprint_digest v) \<and> isDigest (av_candidate_digest v) \<and> isDigest (av_qualification_digest v)"

definition isBaselineAdoptionDesignRequest :: "json \<Rightarrow> bool" where
  "isBaselineAdoptionDesignRequest v \<longleftrightarrow> isRecord v \<and> hasOwn v ''baseline_adoption''"

section \<open>Preflight\<close>

text \<open>The refs the resolver does not have, asked in order.\<close>

fun unavailableRefs :: "(nat \<Rightarrow> string \<Rightarrow> bool res) \<Rightarrow> string list \<Rightarrow> string list kern" where
  "unavailableRefs has [] = retK []"
| "unavailableRefs has (r # rs) = bindK (portK (\<lambda>n. has n r)) (\<lambda>b.
     bindK (unavailableRefs has rs) (\<lambda>us. retK (if b then us else r # us)))"

definition adoptionRefs :: "json \<Rightarrow> string list" where
  "adoptionRefs request = (let b = fld ''baseline_adoption'' request in
     strsOf (fld ''source_refs'' request) @ strsOf (fld ''evidence_refs'' b) @
     strsOf (fld ''qualification_obligation_refs'' b))"

text \<open>The last step: the owner's receipt must cover this adoption at this revision.\<close>

definition ownerAuthorization :: "ports \<Rightarrow> json \<Rightarrow> receipt_context \<Rightarrow> int \<Rightarrow> string \<Rightarrow> adoption_receipt kern" where
  "ownerAuthorization pt request c revision checkedAt =
     (let ref = fld ''owner_authorization_ref'' (fld ''baseline_adoption'' request) in
      bindK (liftK (validateOwnerGateVerificationContext (JObj
        [(''surface_kind'', JStr ''opl_foundry_owner_gate_verification_context''),
         (''version'', JStr ''opl-foundry-owner-gate-verification-context.v1''),
         (''authority_receipt_ref'', ref), (''action'', JStr ''authorize_improve''), (''decision'', JStr ''approve''),
         (''target_agent_id'', fld ''target_agent_id'' request), (''target_domain_id'', fld ''target_domain_id'' request),
         (''run_id'', ofOptStr (rc_run_id c)), (''version_digest'', fld ''target_version_ref'' request),
         (''expected_revision'', jInt revision)]))) (\<lambda>oc.
      catchK
        (bindK (portK (\<lambda>n. pt_verify pt n oc)) (\<lambda>answer.
         bindK (liftK (validateOwnerGateVerification (pt_date_ok pt) (contextJson oc) answer)) (\<lambda>g.
         retK (adoptionReceipt (c\<lparr> rc_owner_verification_ref := Some (gv_verification_ref g) \<rparr>) [] checkedAt))))
        (\<lambda>e. retK (adoptionReceipt c [failure ''owner_authorization_unverified'' (errorMessage e) [strOf ref]] checkedAt))))"

text \<open>The registry part: the target version is registered, exact, and the active one.\<close>

definition currentnessPreflight :: "ports \<Rightarrow> json \<Rightarrow> receipt_context \<Rightarrow> string \<Rightarrow> adoption_receipt kern" where
  "currentnessPreflight pt request c checkedAt =
     (let agent = strOf (fld ''target_agent_id'' request); domain = strOf (fld ''target_domain_id'' request);
          target = strOf (fld ''target_version_ref'' request) in
      bindK (readK (\<lambda>w. resolveVersion (wd_registry w) (Some target) agent domain)) (\<lambda>registered.
      case registered of
        None \<Rightarrow> retK (adoptionReceipt c [failure ''target_version_unregistered''
          ''target_version_ref does not resolve to a registered AgentVersion; package evidence is not a substitute.''
          [target]] checkedAt)
      | Some v \<Rightarrow> (let c = c\<lparr> rc_registered_version := Some v \<rparr> in
          if \<not> exactRegisteredVersion request v then retK (adoptionReceipt c [failure ''registered_version_mismatch''
            ''The registry result does not bind the exact target identity, version, candidate, and qualification records.''
            [av_version_digest v]] checkedAt)
          else bindK (readK (\<lambda>w. activationOf (wd_registry w) agent domain)) (\<lambda>a.
            let c = c\<lparr> rc_activation := Some a \<rparr> in
            case ap_active_version_digest a of
              None \<Rightarrow> retK (adoptionReceipt (c\<lparr> rc_active_version_matches_target := Some False \<rparr>)
                [failure ''active_version_missing'' ''The target has no active AgentVersion.'' []] checkedAt)
            | Some active \<Rightarrow> (let c = c\<lparr> rc_active_version_matches_target := Some (active = target) \<rparr> in
                if active \<noteq> target then retK (adoptionReceipt c [failure ''target_version_not_current''
                  ''Only the exact active AgentVersion may be adopted as the improve baseline; historical evidence remains retained.''
                  [target, active]] checkedAt)
                else ownerAuthorization pt request c (ap_revision a) checkedAt)))))"

text \<open>Content availability: the failure, if any ref is missing or the resolver fails.\<close>

definition contentPreflight :: "(nat \<Rightarrow> string \<Rightarrow> bool res) \<Rightarrow> json \<Rightarrow> adoption_failure option kern" where
  "contentPreflight has request =
     catchK (bindK (unavailableRefs has (adoptionRefs request)) (\<lambda>us. retK (if us = [] then None
         else Some (failure ''content_unavailable''
           ''One or more required source, evidence, or qualification content refs are unavailable.'' us))))
       (\<lambda>e. retK (Some (failure ''content_unavailable'' (errorMessage e) (adoptionRefs request))))"

definition preflightFoundryBaselineAdoption :: "ports \<Rightarrow> json \<Rightarrow> json \<Rightarrow> adoption_receipt kern" where
  "preflightFoundryBaselineAdoption pt value run =
     bindK (nowK pt) (\<lambda>checkedAt.
     let c = baseContext value run; fs = staticFailures value c in
     if fs \<noteq> [] then retK (adoptionReceipt c fs checkedAt)
     else case validateDesignRequest value of
       Inl e \<Rightarrow> retK (adoptionReceipt c [failure ''contract_invalid'' (errorMessage e) []] checkedAt)
     | Inr request \<Rightarrow> (case pt_content pt of
         None \<Rightarrow> retK (adoptionReceipt c [failure ''content_resolver_unconfigured''
           ''Baseline adoption cannot verify source, evidence, and qualification content availability.'' []] checkedAt)
       | Some has \<Rightarrow>
           bindK (contentPreflight has request) (\<lambda>missing.
           case missing of
             Some f \<Rightarrow> retK (adoptionReceipt c [f] checkedAt)
           | None \<Rightarrow> currentnessPreflight pt request (c\<lparr> rc_content_refs_verified := True \<rparr>) checkedAt)))"

definition assertBaselineAdoptionAdmitted :: "adoption_receipt \<Rightarrow> adoption_receipt res" where
  "assertBaselineAdoptionAdmitted r = (if ra_admitted r \<and> ra_failures r = [] then Inr r
     else fail (''Foundry baseline adoption preflight blocked: '' @
       (case ra_failures r of [] \<Rightarrow> ''unknown_failure'' | f # fs \<Rightarrow> fl_code f) @ ''.''))"

section \<open>What admission means\<close>

text \<open>
  The preflight changes nothing but the call counter.
\<close>

definition sameStores :: "world \<Rightarrow> world \<Rightarrow> bool" where
  "sameStores w w' \<longleftrightarrow> wd_events w' = wd_events w \<and> wd_registry w' = wd_registry w \<and> wd_objects w' = wd_objects w
     \<and> wd_journal w' = wd_journal w"

lemma keeps_port_same [keeps_intros]: "keeps (sameStores w) (portK f)"
  by (auto simp: keeps_def portK_def sameStores_def)

lemma keeps_now_same [keeps_intros]: "keeps (sameStores w) (nowK pt)"
  unfolding nowK_def by (rule keeps_port_same)

lemma keeps_unavailable: "keeps (sameStores w) (unavailableRefs has rs)"
  by (induction rs) (auto intro!: keeps_intros)

lemma keeps_sum [keeps_intros]:
  "(\<And>e. x = Inl e \<Longrightarrow> keeps P (f e)) \<Longrightarrow> (\<And>y. x = Inr y \<Longrightarrow> keeps P (g y)) \<Longrightarrow>
     keeps P (case x of Inl e \<Rightarrow> f e | Inr y \<Rightarrow> g y)"
  by (simp split: sum.splits)

lemma keeps_content [keeps_intros]: "keeps (sameStores w) (contentPreflight has request)"
  unfolding contentPreflight_def by (intro keeps_intros keeps_unavailable)

lemma preflight_readonly: "sameStores w (snd (preflightFoundryBaselineAdoption pt v run w))"
proof -
  have "keeps (sameStores w) (preflightFoundryBaselineAdoption pt v run)"
    unfolding preflightFoundryBaselineAdoption_def currentnessPreflight_def ownerAuthorization_def Let_def
    by (intro keeps_intros)
  then show ?thesis by (rule keepsD) (simp add: sameStores_def)
qed

lemma uniqueFailures_Nil [simp]: "uniqueFailures seen fs = [] \<longleftrightarrow> fl_code ` set fs \<subseteq> set seen"
  by (induction fs arbitrary: seen) auto

lemma adoptionReceipt_simps [simp]:
  "ra_admitted (adoptionReceipt c fs t) \<longleftrightarrow> fs = []" "ra_context (adoptionReceipt c fs t) = c"
  "ra_activation_revision (adoptionReceipt c fs t) = map_option ap_revision (rc_activation c)"
  "ra_failures (adoptionReceipt c fs t) = [] \<longleftrightarrow> fs = []"
  by (simp_all add: adoptionReceipt_def Let_def)

text \<open>The owner's receipt covers exactly this adoption.\<close>

definition adoptionAuthorized :: "ports \<Rightarrow> json \<Rightarrow> string option \<Rightarrow> int \<Rightarrow> bool" where
  "adoptionAuthorized pt request run revision \<longleftrightarrow> (\<exists>n oc answer g. pt_verify pt n oc = Inr answer
     \<and> validateOwnerGateVerification (pt_date_ok pt) (contextJson oc) answer = Inr g
     \<and> coversContext oc (gv_receipt g) (gv_covered_authority_ref g)
     \<and> cx_action oc = Authorize_Improve \<and> cx_decision oc = Approve \<and> cx_expected_revision oc = revision
     \<and> cx_run_id oc = map_option trim run
     \<and> cx_version_digest oc = nullableTrimmed (fld ''target_version_ref'' request)
     \<and> cx_target_agent_id oc = trimmed (fld ''target_agent_id'' request)
     \<and> cx_target_domain_id oc = trimmed (fld ''target_domain_id'' request))"

lemma action_names: "actionOf (trim ''authorize_improve'') = Some Authorize_Improve" "decisionOf (trim ''approve'') = Some Approve"
  using actionName_trim(1) [of Authorize_Improve] actionName_trim(2) [of Approve]
    actionOf_actionName [of Authorize_Improve] decisionOf_decisionName [of Approve] by simp_all

lemma ownerAuthorization_admitted:
  assumes "ownerAuthorization pt request c n t w = (Inr r, w')" "ra_admitted r"
  shows "adoptionAuthorized pt request (rc_run_id c) n" "ra_activation_revision r = map_option ap_revision (rc_activation c)"
proof -
  from assms obtain oc answer g k where
    oc: "validateOwnerGateVerificationContext (JObj
        [(''surface_kind'', JStr ''opl_foundry_owner_gate_verification_context''),
         (''version'', JStr ''opl-foundry-owner-gate-verification-context.v1''),
         (''authority_receipt_ref'', fld ''owner_authorization_ref'' (fld ''baseline_adoption'' request)),
         (''action'', JStr ''authorize_improve''), (''decision'', JStr ''approve''),
         (''target_agent_id'', fld ''target_agent_id'' request), (''target_domain_id'', fld ''target_domain_id'' request),
         (''run_id'', ofOptStr (rc_run_id c)), (''version_digest'', fld ''target_version_ref'' request),
         (''expected_revision'', jInt n)]) = Inr oc"
    and a: "pt_verify pt k oc = Inr answer"
    and g: "validateOwnerGateVerification (pt_date_ok pt) (contextJson oc) answer = Inr g"
    and r: "r = adoptionReceipt (c\<lparr> rc_owner_verification_ref := Some (gv_verification_ref g) \<rparr>) [] t"
    by (auto simp: ownerAuthorization_def Let_def catchK_Inr)
  have cov: "coversContext oc (gv_receipt g) (gv_covered_authority_ref g)"
    using verification_facts(1) [OF g] validateContext_contextJson [OF validateContext_wf [OF oc]] by simp
  have f: "cx_action oc = Authorize_Improve" "cx_decision oc = Approve" "cx_expected_revision oc = n"
    "cx_run_id oc = map_option trim (rc_run_id c)" "cx_version_digest oc = nullableTrimmed (fld ''target_version_ref'' request)"
    "cx_target_agent_id oc = trimmed (fld ''target_agent_id'' request)"
    "cx_target_domain_id oc = trimmed (fld ''target_domain_id'' request)"
    using oc by (auto simp: validateOwnerGateVerificationContext_def action_names)
  show "adoptionAuthorized pt request (rc_run_id c) n"
    unfolding adoptionAuthorized_def using a g cov f by blast
  show "ra_activation_revision r = map_option ap_revision (rc_activation c)" by (simp add: r)
qed

lemma currentness_admitted:
  assumes "currentnessPreflight pt request c t w = (Inr r, w')" "ra_admitted r"
  shows "\<exists>v. resolveVersion (wd_registry w) (Some (strOf (fld ''target_version_ref'' request)))
        (strOf (fld ''target_agent_id'' request)) (strOf (fld ''target_domain_id'' request)) = Some v
    \<and> exactRegisteredVersion request v
    \<and> ap_active_version_digest (activationOf (wd_registry w) (strOf (fld ''target_agent_id'' request))
        (strOf (fld ''target_domain_id'' request))) = Some (strOf (fld ''target_version_ref'' request))
    \<and> ra_activation_revision r = Some (ap_revision (activationOf (wd_registry w) (strOf (fld ''target_agent_id'' request))
        (strOf (fld ''target_domain_id'' request))))
    \<and> adoptionAuthorized pt request (rc_run_id c) (ap_revision (activationOf (wd_registry w) (strOf (fld ''target_agent_id'' request))
        (strOf (fld ''target_domain_id'' request))))"
proof -
  let ?a = "strOf (fld ''target_agent_id'' request)" and ?d = "strOf (fld ''target_domain_id'' request)"
  let ?t = "strOf (fld ''target_version_ref'' request)"
  obtain v where v: "resolveVersion (wd_registry w) (Some ?t) ?a ?d = Some v"
    using assms by (cases "resolveVersion (wd_registry w) (Some ?t) ?a ?d") (auto simp: currentnessPreflight_def Let_def)
  have e: "exactRegisteredVersion request v"
    using assms v by (auto simp: currentnessPreflight_def Let_def split: if_splits)
  define p where "p = activationOf (wd_registry w) ?a ?d"
  obtain d where d: "ap_active_version_digest p = Some d"
    using assms v e by (cases "ap_active_version_digest p") (auto simp: currentnessPreflight_def Let_def p_def)
  have dt: "d = ?t"
    using assms v e d by (auto simp: currentnessPreflight_def Let_def p_def split: if_splits)
  let ?c = "c\<lparr> rc_registered_version := Some v, rc_activation := Some p, rc_active_version_matches_target := Some True \<rparr>"
  have "ownerAuthorization pt request ?c (ap_revision p) t w = (Inr r, w')"
    using assms(1) v e d dt by (simp add: currentnessPreflight_def Let_def p_def)
  from ownerAuthorization_admitted [OF this assms(2)] v e d dt show ?thesis
    unfolding p_def [symmetric] by (intro exI [of _ v]) simp
qed

lemma preflight_admitted:
  assumes "preflightFoundryBaselineAdoption pt value run w = (Inr r, w')" "ra_admitted r"
  shows "\<exists>request v a d. validateDesignRequest value = Inr request
    \<and> a = strOf (fld ''target_agent_id'' request) \<and> d = strOf (fld ''target_domain_id'' request)
    \<and> resolveVersion (wd_registry w) (Some (strOf (fld ''target_version_ref'' request))) a d = Some v
    \<and> exactRegisteredVersion request v
    \<and> ap_active_version_digest (activationOf (wd_registry w) a d) = Some (strOf (fld ''target_version_ref'' request))
    \<and> ra_activation_revision r = Some (ap_revision (activationOf (wd_registry w) a d))
    \<and> adoptionAuthorized pt request (stringValue run) (ap_revision (activationOf (wd_registry w) a d))"
proof -
  let ?c = "baseContext value run"
  from assms have s: "staticFailures value ?c = []"
    by (auto simp: preflightFoundryBaselineAdoption_def Let_def split: if_splits)
  from assms s obtain request where q: "validateDesignRequest value = Inr request"
    by (cases "validateDesignRequest value") (auto simp: preflightFoundryBaselineAdoption_def Let_def)
  from assms s q obtain has where h: "pt_content pt = Some has"
    by (cases "pt_content pt") (auto simp: preflightFoundryBaselineAdoption_def Let_def)
  from assms(1) s q h obtain m w0 w1 t where m: "(case m of None \<Rightarrow> currentnessPreflight pt request (?c\<lparr> rc_content_refs_verified := True \<rparr>) t
      | Some f \<Rightarrow> retK (adoptionReceipt ?c [f] t)) w1 = (Inr r, w')"
    and m0: "contentPreflight has request w0 = (Inr m, w1)" "w0 = w\<lparr> wd_tick := Suc (wd_tick w) \<rparr>"
    by (auto simp: preflightFoundryBaselineAdoption_def Let_def nowK_def)
  have "sameStores w (snd (contentPreflight has request w0))"
    by (rule keepsD [OF keeps_content]) (simp add: m0(2) sameStores_def)
  then have g: "wd_registry w1 = wd_registry w" by (simp add: m0(1) sameStores_def)
  have "m = None" using m assms(2) by (cases m) auto
  with m have "currentnessPreflight pt request (?c\<lparr> rc_content_refs_verified := True \<rparr>) t w1 = (Inr r, w')" by simp
  from currentness_admitted [OF this assms(2), unfolded g] obtain v where
    "resolveVersion (wd_registry w) (Some (strOf (fld ''target_version_ref'' request)))
        (strOf (fld ''target_agent_id'' request)) (strOf (fld ''target_domain_id'' request)) = Some v"
    "exactRegisteredVersion request v"
    "ap_active_version_digest (activationOf (wd_registry w) (strOf (fld ''target_agent_id'' request))
        (strOf (fld ''target_domain_id'' request))) = Some (strOf (fld ''target_version_ref'' request))"
    "ra_activation_revision r = Some (ap_revision (activationOf (wd_registry w) (strOf (fld ''target_agent_id'' request))
        (strOf (fld ''target_domain_id'' request))))"
    "adoptionAuthorized pt request (rc_run_id ?c) (ap_revision (activationOf (wd_registry w) (strOf (fld ''target_agent_id'' request))
        (strOf (fld ''target_domain_id'' request))))" by auto
  moreover have "rc_run_id ?c = stringValue run" by (simp add: baseContext_def Let_def)
  ultimately show ?thesis using q by (intro exI conjI) (assumption | simp)+
qed

end
