(* ===== verification/Kernel.thy ===== *)
theory Kernel
  imports Baseline_Adoption
begin

text \<open>
  \<open>src/src/authority/evolution/kernel.ts\<close>: the FoundryKernel.  A run is started from a
  request, advanced one step at a time from its event chain, paused for owner decisions,
  and ends in a terminal state; versions are activated and rolled back through the
  registry.  Every operation of the class is a definition here, over the world and the
  ports of \<open>Kernel_Base\<close>.
\<close>

section \<open>Reading a run\<close>

record inspection =
  ip_run :: run_snapshot
  ip_request :: json
  ip_activation :: activation_pointer
  ip_readback :: terminal_readback

text \<open>\<open>#object\<close>: a missing object and a stored \<open>null\<close> are the same failure.\<close>

definition objectK :: "string option \<Rightarrow> string \<Rightarrow> json kern" where
  "objectK digest label = bindK (readK (\<lambda>w. case digest of None \<Rightarrow> None | Some d \<Rightarrow> getObject (wd_objects w) d)) (\<lambda>v.
     if v = None \<or> v = Some JNull then failK (label @ '' is missing from the Foundry object store.'')
     else retK (the v))"

definition requestAgent :: "json \<Rightarrow> string" where
  "requestAgent request = strOf (fld ''target_agent_id'' request)"

definition requestDomain :: "json \<Rightarrow> string" where
  "requestDomain request = strOf (fld ''target_domain_id'' request)"

definition inspectRun :: "string \<Rightarrow> inspection kern" where
  "inspectRun runId =
     bindK (readK (\<lambda>w. readRun (wd_events w) runId)) (\<lambda>events.
     bindK (checkK (events \<noteq> []) ''FoundryRun does not exist.'') (\<lambda>u.
     bindK (liftK (snapshotFromEvents events)) (\<lambda>run.
     bindK (objectK (Some (sn_request_digest run)) ''DesignRequest'') (\<lambda>request.
     bindK (readK (\<lambda>w. activationOf (wd_registry w) (requestAgent request) (requestDomain request))) (\<lambda>activation.
     bindK (\<lambda>w. liftK (buildFoundryRunTerminalReadback (wd_registry w) run events activation) w) (\<lambda>readback.
     retK \<lparr> ip_run = run, ip_request = request, ip_activation = activation, ip_readback = readback \<rparr>))))))"

definition isPaused :: "run_state \<Rightarrow> bool" where
  "isPaused s \<longleftrightarrow> isTerminal s \<or> s = Awaiting_Owner_Canary \<or> s = Awaiting_Owner_Active"

text \<open>The private lookups.\<close>

definition resolveBaseline :: "json \<Rightarrow> agent_version option kern" where
  "resolveBaseline request = (if fld ''target_version_ref'' request = JNull then retK None
     else readK (\<lambda>w. resolveVersion (wd_registry w) (optStr (fld ''target_version_ref'' request))
       (requestAgent request) (requestDomain request)))"

definition baselineBlueprint :: "json \<Rightarrow> json option kern" where
  "baselineBlueprint request = bindK (resolveBaseline request) (\<lambda>v. case v of None \<Rightarrow> retK None
     | Some x \<Rightarrow> bindK (objectK (Some (av_blueprint_digest x)) ''baseline AgentBlueprint'') (\<lambda>b. retK (Some b)))"

definition blueprintK :: "inspection \<Rightarrow> json kern" where
  "blueprintK ins = bindK (checkK (truthy (sn_blueprint_digest (ip_run ins))) ''FoundryRun has no admitted AgentBlueprint.'') (\<lambda>u.
     objectK (sn_blueprint_digest (ip_run ins)) ''AgentBlueprint'')"

definition candidateK :: "inspection \<Rightarrow> materialized_candidate kern" where
  "candidateK ins = (let run = ip_run ins in
     bindK (checkK (truthy (sn_candidate_digest run) \<and> truthy (sn_candidate_record_digest run))
       ''FoundryRun has no admitted materialized candidate.'') (\<lambda>u.
     bindK (objectK (sn_candidate_record_digest run) ''materialized candidate record'') (\<lambda>c.
     bindK (liftK (foundryContentDigest c)) (\<lambda>d.
     bindK (checkK (Some d = sn_candidate_record_digest run)
       ''Materialized candidate record bytes do not match the admitted content digest.'') (\<lambda>u.
     retK (candidateOf c))))))"

definition versionK :: "inspection \<Rightarrow> agent_version kern" where
  "versionK ins = bindK (checkK (truthy (sn_version_digest (ip_run ins))) ''FoundryRun has no qualified AgentVersion.'') (\<lambda>u.
     bindK (readK (\<lambda>w. resolveVersion (wd_registry w) (sn_version_digest (ip_run ins))
       (requestAgent (ip_request ins)) (requestDomain (ip_request ins)))) (\<lambda>v.
     case v of None \<Rightarrow> failK ''FoundryRun AgentVersion is missing.'' | Some x \<Rightarrow> retK x))"

section \<open>Writing an event\<close>

definition idempotencyKey :: "run_snapshot \<Rightarrow> string \<Rightarrow> string \<Rightarrow> string" where
  "idempotencyKey run phase inputDigest = sn_run_id run @ ''/'' @ jsToString (JNum (sn_generation run)) @ ''/'' @ phase
     @ ''/'' @ inputDigest"

definition appendRunEvent :: "ports \<Rightarrow> inspection \<Rightarrow> string \<Rightarrow> run_state \<Rightarrow> string \<Rightarrow> string \<Rightarrow> json \<Rightarrow> json kern" where
  "appendRunEvent pt ins eventType toState phase inputDigest payload = (let run = ip_run ins in
     bindK (nowK pt) (\<lambda>now.
     bindK (liftK (buildFoundryEvent (sn_run_id run) (sn_revision run + 1) eventType (Some (sn_run_state run)) toState now
       (idempotencyKey run phase inputDigest) (Some (sn_last_event_hash run)) payload)) (\<lambda>e.
     appendK (targetKey (requestAgent (ip_request ins)) (requestDomain (ip_request ins))) (sn_revision run) e)))"

definition appendJournaledResult :: "ports \<Rightarrow> inspection \<Rightarrow> string \<Rightarrow> string \<Rightarrow> run_state \<Rightarrow> string \<Rightarrow> string \<Rightarrow> json \<Rightarrow> json kern" where
  "appendJournaledResult pt ins opKey eventType toState phase inputDigest payload =
     catchK (appendRunEvent pt ins eventType toState phase inputDigest payload) (\<lambda>e.
       if isContractFailure e \<or> isTransient e then throwK e
       else throwK (TransientActivityError (''Foundry event append completion is unknown after durable operation ''
         @ opKey @ ''.'')))"

section \<open>Starting a run\<close>

definition admitAdoption :: "ports \<Rightarrow> json \<Rightarrow> string \<Rightarrow> adoption_receipt kern" where
  "admitAdoption pt request runId = bindK (preflightFoundryBaselineAdoption pt request (JStr runId)) (\<lambda>r.
     liftK (assertBaselineAdoptionAdmitted r))"

text \<open>What the mode of the request demands of the registry.\<close>

definition modeChecks :: "json \<Rightarrow> agent_version option \<Rightarrow> activation_pointer \<Rightarrow> check list" where
  "modeChecks request baseline a = (let create = (fld ''mode'' request = JStr ''create'') in
     [(\<not> (create \<and> baseline \<noteq> None), ''Create mode must not bind a baseline version.''),
      (\<not> (create \<and> ap_active_version_digest a \<noteq> None), ''Create mode requires a target with no active AgentVersion.''),
      (create \<or> baseline \<noteq> None, ''Takeover and improve modes require an existing exact target version.''),
      (create \<or> ap_active_version_digest a = map_option av_version_digest baseline,
       ''Takeover and improve modes must bind the exact active AgentVersion.'')])"

definition acceptRun :: "ports \<Rightarrow> string \<Rightarrow> json \<Rightarrow> string \<Rightarrow> int \<Rightarrow> run_snapshot kern" where
  "acceptRun pt runId request digest revision =
     bindK (putK request) (\<lambda>(d, ref).
     bindK (checkK (d = digest) ''Foundry object store changed DesignRequest bytes.'') (\<lambda>u.
     bindK (nowK pt) (\<lambda>now.
     bindK (liftK (buildFoundryEvent runId 1 ''foundry_run_accepted'' None Accepted now
       (runId @ ''/0/accepted/'' @ digest) None
       (JObj [(''target_agent_id'', fld ''target_agent_id'' request), (''target_domain_id'', fld ''target_domain_id'' request),
         (''request_digest'', JStr digest), (''activation_revision_at_start'', jInt revision), (''generation'', jInt 0)]))) (\<lambda>e.
     bindK (createK (targetKey (requestAgent request) (requestDomain request)) e) (\<lambda>u.
     liftK (snapshotFromEvents [e]))))))"

definition admitRun :: "ports \<Rightarrow> string \<Rightarrow> json \<Rightarrow> string \<Rightarrow> bool \<Rightarrow> run_snapshot kern" where
  "admitRun pt runId request digest adopt =
     bindK (if adopt then bindK (admitAdoption pt request runId) (\<lambda>r. retK (Some r)) else retK None) (\<lambda>receipt.
     bindK (resolveBaseline request) (\<lambda>baseline.
     bindK (readK (\<lambda>w. activationOf (wd_registry w) (requestAgent request) (requestDomain request))) (\<lambda>activation.
     bindK (liftK (runChecks (modeChecks request baseline activation))) (\<lambda>u.
     bindK (case receipt of None \<Rightarrow> retK ()
       | Some r \<Rightarrow> if ra_activation_revision r = Some (ap_revision activation) then retK ()
           else bindK (admitAdoption pt request runId) (\<lambda>r'.
             checkK (ra_activation_revision r' = Some (ap_revision activation))
               ''Baseline adoption currentness changed during FoundryRun admission.'')) (\<lambda>u.
     acceptRun pt runId request digest (ap_revision activation))))))"

definition existingRun :: "json list \<Rightarrow> string \<Rightarrow> run_snapshot res" where
  "existingRun events digest = bindE (snapshotFromEvents events) (\<lambda>run.
     bindE (runChecks [(sn_request_digest run = digest, ''FoundryRun id is already bound to a different DesignRequest.'')])
       (\<lambda>u. Inr run))"

definition startRunWith :: "ports \<Rightarrow> json \<Rightarrow> string option \<Rightarrow> bool \<Rightarrow> run_snapshot kern" where
  "startRunWith pt value runIdInput requireAdoption =
     bindK (case runIdInput of Some r \<Rightarrow> if trim r \<noteq> [] then retK (trim r) else portK (\<lambda>n. Inr (pt_run_id pt n))
       | None \<Rightarrow> portK (\<lambda>n. Inr (pt_run_id pt n))) (\<lambda>runId.
     bindK (checkK (runId \<noteq> []) ''FoundryRun id must not be empty.'') (\<lambda>u.
     let adopt = (\<lambda>v. requireAdoption \<or> isBaselineAdoptionDesignRequest v) in
     bindK (case validateDesignRequest value of Inr request \<Rightarrow> retK request
       | Inl e \<Rightarrow> bindK (if adopt value then bindK (admitAdoption pt value runId) (\<lambda>r. retK ()) else retK ())
           (\<lambda>u. throwK e)) (\<lambda>request.
     bindK (liftK (foundryContentDigest request)) (\<lambda>digest.
     bindK (readK (\<lambda>w. readRun (wd_events w) runId)) (\<lambda>events.
     if events \<noteq> [] then liftK (existingRun events digest)
     else admitRun pt runId request digest (adopt request))))))"

definition startRun :: "ports \<Rightarrow> json \<Rightarrow> string option \<Rightarrow> run_snapshot kern" where
  "startRun pt value runId = startRunWith pt value runId False"

definition startBaselineAdoptionRun :: "ports \<Rightarrow> json \<Rightarrow> string option \<Rightarrow> run_snapshot kern" where
  "startBaselineAdoptionRun pt value runId = startRunWith pt value runId True"

section \<open>Advancing a run\<close>

definition raisedTier :: "run_snapshot \<Rightarrow> json \<Rightarrow> json" where
  "raisedTier run tier = (if jsTruthy (sn_risk_tier run) then maximumRiskTier [sn_risk_tier run, tier] else tier)"

definition designRun :: "ports \<Rightarrow> inspection \<Rightarrow> json kern" where
  "designRun pt ins = (let run = ip_run ins; request = ip_request ins in
     bindK (activityK pt ''design'' (portK (\<lambda>n. pt_design pt n request (JObj [(''run_id'', JStr (sn_run_id run)),
       (''iteration'', jInt 0), (''phase'', JStr ''design''), (''input_digest'', JStr (sn_request_digest run))])))) (\<lambda>output.
     bindK (liftK (validateAgentBlueprint output)) (\<lambda>b.
     bindK (liftK (runChecks (assertSameTarget request b ''AgentBlueprint'' @
       [(fld ''design_request_digest'' b = JStr (sn_request_digest run) \<and> jsSame (fld ''generation'' b) (jInt 0),
         ''Initial AgentBlueprint is stale or has the wrong generation.'')] @
       assertBlueprintSatisfiesDesignRequest request b))) (\<lambda>u.
     bindK (putK b) (\<lambda>(digest, ref).
     bindK (baselineBlueprint request) (\<lambda>previous.
     bindK (liftK (recomputeBlueprintRisk previous b)) (\<lambda>(tier, reasons).
     bindK (liftK (case previous of None \<Rightarrow> Inr JNull | Some p \<Rightarrow> mapE JStr (foundryContentDigest p))) (\<lambda>previousDigest.
     appendRunEvent pt ins ''blueprint_admitted'' Materializing ''blueprint'' (sn_request_digest run)
       (JObj [(''blueprint_digest'', JStr digest), (''previous_blueprint_digest'', previousDigest),
         (''risk_tier'', raisedTier run tier), (''risk_reasons'', jStrs reasons), (''generation'', jInt 0)])))))))))"

definition materializeRun :: "ports \<Rightarrow> inspection \<Rightarrow> json kern" where
  "materializeRun pt ins = (let run = ip_run ins; digest = the (sn_blueprint_digest run) in
     bindK (blueprintK ins) (\<lambda>b.
     bindK (activityK pt ''materialize'' (portK (\<lambda>n. pt_materialize pt n (sn_run_id run) b digest))) (\<lambda>c.
     bindK (liftK (runChecks (assertMaterializedCandidate (ip_request ins) run c))) (\<lambda>u.
     bindK (putK (candidateJson c)) (\<lambda>(stored, ref).
     bindK (liftK (foundryContentDigest (candidateJson c))) (\<lambda>d.
     bindK (checkK (stored = d) ''Foundry object store changed the materialized candidate record.'') (\<lambda>u.
     appendRunEvent pt ins ''candidate_materialized'' Evaluating ''materialize'' digest
       (JObj [(''candidate_digest'', JStr (mc_candidate_digest c)), (''candidate_record_digest'', JStr stored)]))))))))"

record advance_options =
  op_operation_key :: "string option"
  op_replay_only :: bool

definition evaluationInput :: "inspection \<Rightarrow> op_identity \<Rightarrow> json \<Rightarrow> materialized_candidate \<Rightarrow> agent_version option \<Rightarrow>
    agent_version option \<Rightarrow> json" where
  "evaluationInput ins operation b c version baseline = JObj ([(''operation_identity'', identityJson operation),
     (''run_id'', JStr (sn_run_id (ip_run ins))), (''request'', ip_request ins), (''blueprint'', b),
     (''blueprint_digest'', ofOptStr (sn_blueprint_digest (ip_run ins))), (''candidate'', candidateJson c)] @
     (case version of None \<Rightarrow> [] | Some v \<Rightarrow> [(''version'', versionJson v)]) @
     [(''baseline_version'', case baseline of None \<Rightarrow> JNull | Some v \<Rightarrow> versionJson v)])"

definition evidenceOk :: "ports \<Rightarrow> inspection \<Rightarrow> json \<Rightarrow> json \<Rightarrow> materialized_candidate \<Rightarrow> agent_version option \<Rightarrow> eval_facts res" where
  "evidenceOk pt ins b e c baseline = assertEvaluationEvidence (pt_collation pt) (ip_request ins) (ip_run ins) b e c baseline
     (pt_producer_id pt) (pt_evaluator_id pt)"

text \<open>The evidence of this evaluation: replayed from the journal, or produced and committed to it.\<close>

definition evidenceK :: "ports \<Rightarrow> inspection \<Rightarrow> bool \<Rightarrow> advance_options \<Rightarrow> op_identity \<Rightarrow> json \<Rightarrow> materialized_candidate \<Rightarrow>
    agent_version option \<Rightarrow> agent_version option \<Rightarrow> (op_result \<times> json) kern" where
  "evidenceK pt ins canary opts operation b c version baseline =
     bindK (readResultK (identityJson operation)) (\<lambda>journaled. case journaled of
       Some r \<Rightarrow>
         bindK (objectK (Some (ox_evidence_digest r)) ''journaled EvidenceBundle'') (\<lambda>v.
         bindK (liftK (validateEvidenceBundle (pt_date_ok pt) v)) (\<lambda>e.
         bindK (liftK (foundryContentDigest e)) (\<lambda>d.
         bindK (checkK (d = ox_evidence_digest r)
           ''Journaled EvidenceBundle bytes do not match the operation result digest.'') (\<lambda>u.
         bindK (liftK (evidenceOk pt ins b e c baseline)) (\<lambda>f.
         retK (r, e))))))
     | None \<Rightarrow>
         if op_replay_only opts then throwK (OperationResultUnavailable (oi_operation_key operation))
         else
         bindK (if canary
           then activityK pt ''canary'' (portK (\<lambda>n. pt_canary pt n (evaluationInput ins operation b c version baseline)))
           else activityK pt ''evaluate'' (portK (\<lambda>n. pt_evaluate pt n (evaluationInput ins operation b c None baseline)))) (\<lambda>v.
         bindK (liftK (validateEvidenceBundle (pt_date_ok pt) v)) (\<lambda>e.
         bindK (liftK (evidenceOk pt ins b e c baseline)) (\<lambda>f.
         bindK (putK e) (\<lambda>(stored, ref).
         bindK (liftK (foundryContentDigest e)) (\<lambda>d.
         bindK (checkK (stored = d) ''Foundry object store changed the validated EvidenceBundle bytes.'') (\<lambda>u.
         bindK (commitResultK (identityJson operation) (JStr stored) (JStr ref) (fld ''evaluated_at'' (fld ''provenance'' e))) (\<lambda>r.
         retK (r, e)))))))))"

text \<open>The payload every evaluation event shares.\<close>

definition scorePayload :: "string \<Rightarrow> json \<Rightarrow> (string \<times> json) list" where
  "scorePayload digest e = [(''evidence_digest'', JStr digest), (''frozen_test_plan_digest'', fld ''frozen_test_plan_digest'' e),
     (''gate_score'', fld ''gate_score'' e)]"

definition registerQualified :: "ports \<Rightarrow> inspection \<Rightarrow> materialized_candidate \<Rightarrow> op_result \<Rightarrow> (agent_version \<times> qualification) kern" where
  "registerQualified pt ins c r = activityK pt ''register_version'' (catchK
     (registerK \<lparr> ri_target_agent_id = requestAgent (ip_request ins), ri_target_domain_id = requestDomain (ip_request ins),
       ri_blueprint_digest = the (sn_blueprint_digest (ip_run ins)), ri_candidate_digest = mc_candidate_digest c,
       ri_candidate_ref = mc_candidate_ref c, ri_evidence_digest = ox_evidence_digest r,
       ri_risk_tier = sn_risk_tier (ip_run ins), ri_qualified_at = ox_completed_at r \<rparr>)
     (\<lambda>e. if isContractFailure e \<or> isTransient e then throwK e
       else throwK (TransientActivityError
         ''Version registration completion is unknown after the durable evaluation result commit.'')))"

definition noImprovementAfter :: "run_snapshot \<Rightarrow> json \<Rightarrow> jsnum" where
  "noImprovementAfter run e = (case sn_gate_score run of None \<Rightarrow> jint 0
     | Some s \<Rightarrow> if jlt s (numOf (fld ''gate_score'' e)) then jint 0
         else jadd (sn_no_improvement_generations run) (jint 1))"

definition budgetExhausted :: "inspection \<Rightarrow> jsnum \<Rightarrow> bool" where
  "budgetExhausted ins noImprovement \<longleftrightarrow>
     jle (numOf (fld ''max_generations'' (fld ''delivery_policy'' (ip_request ins)))) (sn_generation (ip_run ins))
     \<or> jle (jint 2) noImprovement"

text \<open>What the evidence leads to.\<close>

definition concludeEvaluation :: "ports \<Rightarrow> inspection \<Rightarrow> bool \<Rightarrow> materialized_candidate \<Rightarrow> op_result \<Rightarrow> json \<Rightarrow> json kern" where
  "concludeEvaluation pt ins canary c r e = (let run = ip_run ins; key = oi_operation_key r; digest = ox_evidence_digest r in
     if canary \<and> boolOf (fld ''qualified'' e) then
       appendJournaledResult pt ins key ''canary_passed''
         (if active_owner_required (ownerGatePolicy (sn_risk_tier run)) then Awaiting_Owner_Active else Activating)
         ''canary'' digest (JObj (scorePayload digest e))
     else if \<not> canary \<and> boolOf (fld ''qualified'' e) then
       bindK (registerQualified pt ins c r) (\<lambda>(v, q).
       bindK (liftK (assertRegisteredCandidate (ip_request ins) run c v q)) (\<lambda>u.
       appendJournaledResult pt ins key ''candidate_qualified'' Qualified ''evaluate'' digest
         (JObj (scorePayload digest e @ [(''version_digest'', JStr (av_version_digest v))]))))
     else (let n = noImprovementAfter run e; exhausted = budgetExhausted ins n in
       appendJournaledResult pt ins key
         (if exhausted then ''evolution_budget_exhausted''
          else if canary then ''canary_regression_rolled_back'' else ''evaluation_failed'')
         (if exhausted then Completed_Unqualified else Evidence_Ready)
         (if canary then ''canary'' else ''evaluate'') digest
         (JObj (scorePayload digest e @ [(''no_improvement_generations'', JNum n)] @
           (if canary then [(''rollback_to_version_digest'', ofOptStr (ap_active_version_digest (ip_activation ins))),
             (''activation_revision_preserved'', jInt (ap_revision (ip_activation ins)))] else [])))))"

definition evaluateRun :: "ports \<Rightarrow> inspection \<Rightarrow> bool \<Rightarrow> advance_options \<Rightarrow> json kern" where
  "evaluateRun pt ins canary opts = (let run = ip_run ins in
     bindK (blueprintK ins) (\<lambda>b.
     bindK (candidateK ins) (\<lambda>c.
     bindK (liftK (runChecks (assertMaterializedCandidate (ip_request ins) run c))) (\<lambda>u.
     bindK (resolveBaseline (ip_request ins)) (\<lambda>baseline.
     bindK (if canary then bindK (versionK ins) (\<lambda>v. retK (Some v)) else retK None) (\<lambda>version.
     bindK (checkK (case version of None \<Rightarrow> True | Some v \<Rightarrow>
         av_target_agent_id v = mc_target_agent_id c \<and> av_target_domain_id v = mc_target_domain_id c
         \<and> av_blueprint_digest v = mc_blueprint_digest c \<and> av_candidate_digest v = mc_candidate_digest c
         \<and> av_candidate_ref v = mc_candidate_ref c)
       ''Canary AgentVersion does not bind the qualified materialized candidate.'') (\<lambda>u.
     bindK (liftK (foundryEvaluationOperationIdentity (JObj [(''run_id'', JStr (sn_run_id run)),
       (''generation'', JNum (sn_generation run)), (''phase'', JStr (if canary then ''canary'' else ''evaluate'')),
       (''input_digest'', JStr (sn_last_event_hash run))]))) (\<lambda>operation.
     bindK (checkK (truthy (op_operation_key opts) \<longrightarrow> op_operation_key opts = Some (oi_operation_key operation))
       ''Foundry advance operation key does not match the current evaluation input.'') (\<lambda>u.
     bindK (evidenceK pt ins canary opts operation b c version baseline) (\<lambda>(r, e).
     concludeEvaluation pt ins canary c r e))))))))))"

text \<open>
  The new public cases of a proposal must be exactly the tests it declares: \<open>declared\<close> is
  the map the code builds, where a later entry with the same id wins.
\<close>

definition newTestsDescribed :: "json \<Rightarrow> json \<Rightarrow> bool" where
  "newTestsDescribed b proposal = (let nxt = fld ''next_blueprint'' proposal;
       old = map (fld ''case_id'') (publicCases b);
       added = filter (\<lambda>c. fld ''case_id'' c \<notin> set old) (publicCases nxt);
       tests = arrOf (fld ''new_tests'' proposal);
       declared = map_of (rev (map (\<lambda>t. (fld ''case_id'' t, fld ''test_ref'' t)) tests)) in
     length (remdups (map (fld ''case_id'') tests)) = length added
     \<and> list_all (\<lambda>c. case declared (fld ''case_id'' c) of None \<Rightarrow> fld ''test_ref'' c = JUndef
          | Some ref \<Rightarrow> jsSame ref (fld ''test_ref'' c)) added)"

definition proposalChecks :: "inspection \<Rightarrow> json \<Rightarrow> check list" where
  "proposalChecks ins proposal = (let run = ip_run ins; request = ip_request ins; nxt = fld ''next_blueprint'' proposal in
     assertSameTarget request proposal ''EvolutionProposal'' @
     assertSameTarget request nxt ''EvolutionProposal.next_blueprint'' @
     [(fld ''blueprint_digest'' proposal = ofOptStr (sn_blueprint_digest run)
       \<and> fld ''evidence_digest'' proposal = ofOptStr (sn_evidence_digest run)
       \<and> fld ''design_request_digest'' nxt = JStr (sn_request_digest run), ''EvolutionProposal is stale.'')] @
     assertBlueprintSatisfiesDesignRequest request nxt)"

text \<open>A proposal that keeps the blueprint ends the run.\<close>

definition noChangeProposal :: "ports \<Rightarrow> inspection \<Rightarrow> json \<Rightarrow> string \<Rightarrow> json kern" where
  "noChangeProposal pt ins proposal proposalDigest = (let run = ip_run ins in
     bindK (checkK (jsSame (fld ''generation'' (fld ''next_blueprint'' proposal)) (JNum (sn_generation run))
       \<and> arrOf (fld ''semantic_diff'' proposal) = [] \<and> arrOf (fld ''new_tests'' proposal) = [])
       ''A no-change EvolutionProposal must preserve the exact blueprint and declare no semantic or test changes.'') (\<lambda>u.
     appendRunEvent pt ins ''evolution_no_change'' Completed_Unqualified ''evolve_no_change'' proposalDigest
       (JObj [(''proposal_digest'', JStr proposalDigest),
         (''no_improvement_generations'', JNum (jadd (sn_no_improvement_generations run) (jint 1)))])))"

text \<open>
  \<open>admittedRisk === risk.risk_tier\<close>: a tier may be any value whose text names one, an array
  too.  The reduction keeps the value itself unless a hint ranks strictly higher, and values
  of different rank differ, so equality of values is identity here.
\<close>

definition admitProposal :: "ports \<Rightarrow> inspection \<Rightarrow> json \<Rightarrow> json \<Rightarrow> string \<Rightarrow> json kern" where
  "admitProposal pt ins b proposal proposalDigest = (let run = ip_run ins; nxt = fld ''next_blueprint'' proposal;
       generation = jadd (sn_generation run) (jint 1) in
     bindK (checkK (jsSame (fld ''generation'' nxt) (JNum generation))
       ''A changed EvolutionProposal must increment generation exactly once.'') (\<lambda>u.
     bindK (checkK (arrOf (fld ''semantic_diff'' proposal) \<noteq> [])
       ''A changed EvolutionProposal must declare a non-empty semantic diff.'') (\<lambda>u.
     bindK (putK nxt) (\<lambda>(nextDigest, ref).
     bindK (liftK (recomputeBlueprintRisk (Some b) nxt)) (\<lambda>(tier, reasons).
     let admitted = maximumRiskTier [tier, maximumRiskTier (arrOf (fld ''risk_hints'' proposal))] in
     appendRunEvent pt ins ''evolution_proposal_admitted'' Materializing ''evolve'' proposalDigest
       (JObj [(''previous_blueprint_digest'', ofOptStr (sn_blueprint_digest run)), (''blueprint_digest'', JStr nextDigest),
         (''proposal_digest'', JStr proposalDigest), (''candidate_digest'', JNull), (''candidate_record_digest'', JNull),
         (''evidence_digest'', JNull), (''frozen_test_plan_digest'', JNull), (''version_digest'', JNull),
         (''generation'', JNum generation), (''risk_tier'', raisedTier run admitted),
         (''risk_reasons'', jStrs (if admitted = tier then reasons
           else reasons @ [''evolution_proposal_risk_hint_elevated'']))]))))))"

definition diagnoseRun :: "ports \<Rightarrow> inspection \<Rightarrow> json kern" where
  "diagnoseRun pt ins = (let run = ip_run ins; request = ip_request ins in
     bindK (blueprintK ins) (\<lambda>b.
     bindK (objectK (sn_evidence_digest run) ''EvidenceBundle'') (\<lambda>e.
     bindK (activityK pt ''diagnose'' (bindK (liftK (foundryContentDigest (JObj
         [(''blueprint_digest'', ofOptStr (sn_blueprint_digest run)), (''evidence_digest'', ofOptStr (sn_evidence_digest run))]))) (\<lambda>d.
       portK (\<lambda>n. pt_diagnose pt n (JObj [(''request'', request), (''blueprint'', b), (''evidence'', e),
         (''activity'', JObj [(''run_id'', JStr (sn_run_id run)), (''iteration'', JNum (sn_generation run)),
           (''phase'', JStr ''diagnose''), (''input_digest'', JStr d)])]))))) (\<lambda>output.
     bindK (liftK (validateEvolutionProposal output)) (\<lambda>proposal.
     bindK (liftK (runChecks (proposalChecks ins proposal))) (\<lambda>u.
     bindK (liftK (assertEvaluationPolicyNonWeakening b (fld ''next_blueprint'' proposal))) (\<lambda>u.
     bindK (checkK (newTestsDescribed b proposal)
       ''EvolutionProposal.new_tests must exactly describe newly admitted public evaluation cases.'') (\<lambda>u.
     bindK (putK proposal) (\<lambda>(proposalDigest, ref).
     bindK (liftK (foundryContentDigest (fld ''next_blueprint'' proposal))) (\<lambda>nextDigest.
     if Some nextDigest = sn_blueprint_digest run then noChangeProposal pt ins proposal proposalDigest
     else admitProposal pt ins b proposal proposalDigest))))))))))"

text \<open>A digest or \<open>null\<close> inside a template literal.\<close>

fun templateText :: "string option \<Rightarrow> string" where
  "templateText (Some d) = d"
| "templateText None = ''null''"

definition afterQualification :: "ports \<Rightarrow> inspection \<Rightarrow> json kern" where
  "afterQualification pt ins = (let digest = templateText (sn_version_digest (ip_run ins)) in
     if fld ''activation_mode'' (fld ''delivery_policy'' (ip_request ins)) = JStr ''qualify_only'' then
       appendRunEvent pt ins ''qualification_completed'' Completed_Qualified ''qualify'' digest (JObj [])
     else if canary_owner_required (ownerGatePolicy (sn_risk_tier (ip_run ins))) then
       appendRunEvent pt ins ''owner_canary_required'' Awaiting_Owner_Canary ''qualification_route'' digest (JObj [])
     else appendRunEvent pt ins ''canary_started'' Canary ''qualification_route'' digest (JObj []))"

definition activationPayload :: "activation_transaction \<Rightarrow> activation_preflight \<Rightarrow> (string \<times> string) option \<Rightarrow> json" where
  "activationPayload t p authority = JObj ([(''activation_transaction_id'', JStr (tx_id t)),
     (''activation_runtime_preflight_ref'', JStr (pf_preflight_ref p)),
     (''activation_runtime_binding_ref'', fld ''runtime_binding_ref'' (tx_binding t)),
     (''activation_runtime_binding_verification'', tx_binding t)] @
     (case authority of None \<Rightarrow> [] | Some (ref, digest) \<Rightarrow>
       [(''owner_authority_receipt_ref'', JStr ref), (''owner_authority_receipt_digest'', JStr digest)]))"

definition activateRun :: "ports \<Rightarrow> inspection \<Rightarrow> json kern" where
  "activateRun pt ins = (let run = ip_run ins in
     bindK (\<lambda>w. liftK (latestOwnerAuthority (readRun (wd_events w) (sn_run_id run))) w) (\<lambda>authority.
     bindK (checkK (\<not> (active_owner_required (ownerGatePolicy (sn_risk_tier run)) \<and> authority = None))
       ''Owner-gated activation has no verified active approval receipt.'') (\<lambda>u.
     bindK (readK (\<lambda>w. resolveVersion (wd_registry w) (sn_version_digest run) (requestAgent (ip_request ins))
       (requestDomain (ip_request ins)))) (\<lambda>v. case v of
       None \<Rightarrow> failK ''Activation target AgentVersion does not exist.''
     | Some version \<Rightarrow>
         bindK (commitFoundryActivation pt Activate_Tx version (sn_activation_revision_at_start run) (map_option fst authority)) (\<lambda>(t, p).
         appendRunEvent pt ins ''activation_completed'' Completed_Active ''activate'' (templateText (sn_version_digest run))
           (activationPayload t p authority))))))"

definition advanceOne :: "ports \<Rightarrow> inspection \<Rightarrow> advance_options \<Rightarrow> json kern" where
  "advanceOne pt ins opts = (case sn_run_state (ip_run ins) of
       Accepted \<Rightarrow> appendRunEvent pt ins ''design_started'' Designing ''design'' (sn_request_digest (ip_run ins)) (JObj [])
     | Designing \<Rightarrow> designRun pt ins
     | Materializing \<Rightarrow> materializeRun pt ins
     | Evaluating \<Rightarrow> evaluateRun pt ins False opts
     | Evidence_Ready \<Rightarrow> appendRunEvent pt ins ''diagnosis_started'' Diagnosing ''diagnose''
         (case sn_evidence_digest (ip_run ins) of Some d \<Rightarrow> d | None \<Rightarrow> sn_last_event_hash (ip_run ins)) (JObj [])
     | Diagnosing \<Rightarrow> diagnoseRun pt ins
     | Qualified \<Rightarrow> afterQualification pt ins
     | Canary \<Rightarrow> evaluateRun pt ins True opts
     | Activating \<Rightarrow> activateRun pt ins
     | _ \<Rightarrow> failK ''FoundryRun state cannot be advanced automatically.'')"

definition failureIdentity :: "inspection \<Rightarrow> string \<Rightarrow> json" where
  "failureIdentity ins kind = JObj [(''surface_kind'', JStr ''opl_foundry_failure_identity''),
     (''target_agent_id'', fld ''target_agent_id'' (ip_request ins)),
     (''target_domain_id'', fld ''target_domain_id'' (ip_request ins)),
     (''target_version_ref'', fld ''target_version_ref'' (ip_request ins)),
     (''error_kind'', JStr kind), (''state'', JStr (stateName (sn_run_state (ip_run ins))))]"

definition failurePayload :: "string \<Rightarrow> string \<Rightarrow> json" where
  "failurePayload code message = JObj [(''failure_code'', JStr code), (''failure_message'', JStr message)]"

definition terminateAfterFailure :: "ports \<Rightarrow> string \<Rightarrow> ferror \<Rightarrow> unit kern" where
  "terminateAfterFailure pt runId e =
     bindK (inspectRun runId) (\<lambda>latest.
     if isTerminal (sn_run_state (ip_run latest)) then retK ()
     else let quarantined = isContractFailure e in
       bindK (liftK (foundryContentDigest (failureIdentity latest (if quarantined then ''contract'' else ''runtime'')))) (\<lambda>d.
       bindK (appendRunEvent pt latest
         (if quarantined then ''foundry_output_quarantined'' else ''foundry_run_failed'')
         (if quarantined then Quarantined else Failed) (if quarantined then ''quarantine'' else ''failure'') d
         (failurePayload (if quarantined then ''contract_shape_invalid'' else ''foundry_runtime_failed'') (errorMessage e)))
         (\<lambda>x. retK ())))"

fun isResultUnavailable :: "ferror \<Rightarrow> bool" where
  "isResultUnavailable (OperationResultUnavailable k) = True"
| "isResultUnavailable e = False"

definition advanceRunStep :: "ports \<Rightarrow> string \<Rightarrow> advance_options \<Rightarrow> inspection kern" where
  "advanceRunStep pt runId opts =
     bindK (inspectRun runId) (\<lambda>ins.
     if isPaused (sn_run_state (ip_run ins)) then retK ins
     else bindK (catchK (bindK (advanceOne pt ins opts) (\<lambda>x. retK ())) (\<lambda>e.
         if isResultUnavailable e then throwK e
         else if pt_propagate pt \<and> isTransient e then throwK e
         else terminateAfterFailure pt (sn_run_id (ip_run ins)) e)) (\<lambda>u.
       inspectRun runId))"

definition noOptions :: advance_options where
  "noOptions = \<lparr> op_operation_key = None, op_replay_only = False \<rparr>"

text \<open>\<open>advanceUntilPause\<close> with the transitions that are left.\<close>

fun advanceLoop :: "ports \<Rightarrow> string \<Rightarrow> nat \<Rightarrow> inspection kern" where
  "advanceLoop pt runId 0 = failK ''FoundryRun exceeded the bounded transition loop.''"
| "advanceLoop pt runId (Suc n) = bindK (inspectRun runId) (\<lambda>ins.
     if isPaused (sn_run_state (ip_run ins)) then retK ins
     else bindK (advanceRunStep pt runId noOptions) (\<lambda>x. advanceLoop pt runId n))"

definition advanceUntilPause :: "ports \<Rightarrow> string \<Rightarrow> inspection kern" where
  "advanceUntilPause pt runId = advanceLoop pt runId 64"

section \<open>Owner decisions\<close>

definition verifyOwnerAuthority :: "ports \<Rightarrow> json \<Rightarrow> string \<Rightarrow> string \<Rightarrow> json \<Rightarrow> json \<Rightarrow> string option \<Rightarrow>
    string option \<Rightarrow> int \<Rightarrow> gate_verification kern" where
  "verifyOwnerAuthority pt ref action decision agent domain run version revision =
     bindK (liftK (validateOwnerGateVerificationContext (JObj
       [(''surface_kind'', JStr ''opl_foundry_owner_gate_verification_context''),
        (''version'', JStr ''opl-foundry-owner-gate-verification-context.v1''),
        (''authority_receipt_ref'', ref), (''action'', JStr action), (''decision'', JStr decision),
        (''target_agent_id'', agent), (''target_domain_id'', domain),
        (''run_id'', ofOptStr run), (''version_digest'', ofOptStr version), (''expected_revision'', jInt revision)]))) (\<lambda>c.
     bindK (portK (\<lambda>n. pt_verify pt n c)) (\<lambda>answer.
     liftK (validateOwnerGateVerification (pt_date_ok pt) (contextJson c) answer)))"

definition ownerVerificationPayload :: "gate_verification \<Rightarrow> json" where
  "ownerVerificationPayload g = JObj [(''owner_authority_receipt_ref'', JStr (or_receipt_ref (gv_receipt g))),
     (''owner_authority_receipt_digest'', JStr (or_receipt_digest (gv_receipt g))),
     (''owner_authority_ref'', JStr (gv_covered_authority_ref g)),
     (''owner_authority_verifier_id'', JStr (gv_verifier_id g)),
     (''owner_authority_verification_ref'', JStr (gv_verification_ref g)),
     (''owner_authority_policy_ref'', JStr (gv_authority_policy_ref g)),
     (''owner_gate_action'', JStr (actionName (rs_action (gv_receipt g)))),
     (''owner_gate_decision'', JStr (decisionName (rs_decision (gv_receipt g))))]"

text \<open>An earlier event that already recorded this decision under this receipt.\<close>

definition decisionReplayed :: "json list \<Rightarrow> int \<Rightarrow> string \<Rightarrow> string \<Rightarrow> bool" where
  "decisionReplayed es expected eventType ref \<longleftrightarrow> list_ex (\<lambda>e.
     jeq (numOf (fld ''revision'' e)) (jint (expected + 1)) \<and> evType e = eventType
     \<and> fld ''owner_authority_receipt_ref'' (fld ''payload'' e) = JStr ref
     \<and> isStr (fld ''owner_authority_receipt_digest'' (fld ''payload'' e))) es"

definition ownerDecisionAction :: "run_state \<Rightarrow> string \<Rightarrow> string" where
  "ownerDecisionAction s decision = decision @ ''_'' @ (if s = Awaiting_Owner_Canary then ''canary'' else ''active'')"

definition submitOwnerDecision :: "ports \<Rightarrow> string \<Rightarrow> json \<Rightarrow> json \<Rightarrow> json \<Rightarrow> bool \<Rightarrow> inspection kern" where
  "submitOwnerDecision pt runId revision decision receipt advance =
     bindK (checkK (decision = JStr ''approve'' \<or> decision = JStr ''reject'')
       ''Foundry Owner decision must be approve or reject.'') (\<lambda>u.
     let rejected = (decision = JStr ''reject''); eventType = (if rejected then ''owner_rejected'' else ''owner_approved'');
         finish = (if \<not> rejected \<and> advance then advanceUntilPause pt runId else inspectRun runId) in
     bindK (liftK (expectedRevisionOf revision)) (\<lambda>expected.
     bindK (liftK (requiredRef receipt ''authority_receipt_ref'')) (\<lambda>ref.
     bindK (inspectRun runId) (\<lambda>ins.
     if sn_revision (ip_run ins) \<noteq> expected then
       bindK (readK (\<lambda>w. readRun (wd_events w) runId)) (\<lambda>es.
       if decisionReplayed es expected eventType ref then finish
       else failK ''FoundryRun owner decision revision compare-and-swap failed.'')
     else
     bindK (checkK (sn_run_state (ip_run ins) = Awaiting_Owner_Canary \<or> sn_run_state (ip_run ins) = Awaiting_Owner_Active)
       ''FoundryRun is not waiting for an Owner decision.'') (\<lambda>u.
     bindK (blueprintK ins) (\<lambda>b.
     bindK (versionK ins) (\<lambda>v.
     bindK (checkK (Some (av_blueprint_digest v) = sn_blueprint_digest (ip_run ins))
       ''Owner decision AgentVersion does not bind the current AgentBlueprint.'') (\<lambda>u.
     bindK (verifyOwnerAuthority pt (JStr ref) (ownerDecisionAction (sn_run_state (ip_run ins)) (strOf decision))
       (strOf decision) (fld ''target_agent_id'' (ip_request ins)) (fld ''target_domain_id'' (ip_request ins))
       (Some (sn_run_id (ip_run ins))) (Some (av_version_digest v)) expected) (\<lambda>g.
     bindK (appendRunEvent pt ins eventType
       (if rejected then Rejected else if sn_run_state (ip_run ins) = Awaiting_Owner_Canary then Canary else Activating)
       (''owner_'' @ strOf decision) (or_receipt_digest (gv_receipt g)) (ownerVerificationPayload g)) (\<lambda>x.
     finish))))))))))"

text \<open>What \<open>cancelRun\<close> and \<open>authorizeCancelRun\<close> check alike; \<open>None\<close> is a replayed cancellation.\<close>

definition authorizeCancel :: "ports \<Rightarrow> string \<Rightarrow> json \<Rightarrow> json \<Rightarrow> (inspection \<times> gate_verification option) kern" where
  "authorizeCancel pt runId revision receipt =
     bindK (liftK (expectedRevisionOf revision)) (\<lambda>expected.
     bindK (liftK (requiredRef receipt ''authority_receipt_ref'')) (\<lambda>ref.
     bindK (inspectRun runId) (\<lambda>ins.
     if sn_revision (ip_run ins) \<noteq> expected then
       bindK (readK (\<lambda>w. readRun (wd_events w) runId)) (\<lambda>es.
       if decisionReplayed es expected ''foundry_run_cancelled'' ref then retK (ins, None)
       else failK ''FoundryRun cancellation revision compare-and-swap failed.'')
     else
     bindK (checkK (\<not> isTerminal (sn_run_state (ip_run ins))) ''A terminal FoundryRun cannot be cancelled.'') (\<lambda>u.
     bindK (verifyOwnerAuthority pt (JStr ref) ''cancel'' ''cancel'' (fld ''target_agent_id'' (ip_request ins))
       (fld ''target_domain_id'' (ip_request ins)) (Some (sn_run_id (ip_run ins))) (sn_version_digest (ip_run ins)) expected) (\<lambda>g.
     retK (ins, Some g))))))"

definition cancelRun :: "ports \<Rightarrow> string \<Rightarrow> json \<Rightarrow> json \<Rightarrow> inspection kern" where
  "cancelRun pt runId revision receipt =
     bindK (authorizeCancel pt runId revision receipt) (\<lambda>(ins, answer). case answer of
       None \<Rightarrow> inspectRun runId
     | Some g \<Rightarrow> bindK (appendRunEvent pt ins ''foundry_run_cancelled'' Cancelled ''cancel''
         (or_receipt_digest (gv_receipt g)) (ownerVerificationPayload g)) (\<lambda>x. inspectRun runId))"

definition authorizeCancelRun :: "ports \<Rightarrow> string \<Rightarrow> json \<Rightarrow> json \<Rightarrow> inspection kern" where
  "authorizeCancelRun pt runId revision receipt = bindK (authorizeCancel pt runId revision receipt) (\<lambda>(ins, answer). retK ins)"

definition failRun :: "ports \<Rightarrow> string \<Rightarrow> json \<Rightarrow> json \<Rightarrow> inspection kern" where
  "failRun pt runId code message =
     bindK (inspectRun runId) (\<lambda>ins.
     if isTerminal (sn_run_state (ip_run ins)) then retK ins
     else bindK (liftK (foundryContentDigest (failureIdentity ins ''runtime''))) (\<lambda>d.
       bindK (liftK (requiredRef code ''failure_code'')) (\<lambda>c.
       bindK (liftK (requiredRef message ''failure_message'')) (\<lambda>m.
       bindK (appendRunEvent pt ins ''foundry_run_failed'' Failed ''failure'' d (failurePayload c m)) (\<lambda>x.
       inspectRun runId)))))"

section \<open>Versions\<close>

definition listVersionsK :: "string \<Rightarrow> string \<Rightarrow> agent_version list kern" where
  "listVersionsK agent domain = readK (\<lambda>w. listVersions (wd_registry w) agent domain)"

text \<open>The blueprint of a version with the request it was made for, both exact and still satisfied.\<close>

definition rollbackBlueprint :: "string \<Rightarrow> string \<Rightarrow> agent_version \<Rightarrow> string \<Rightarrow> string \<Rightarrow> string \<Rightarrow> string \<Rightarrow> unit kern" where
  "rollbackBlueprint agent domain v blueprintLabel requestLabel targetLabel message =
     bindK (objectK (Some (av_blueprint_digest v)) blueprintLabel) (\<lambda>raw.
     bindK (liftK (validateAgentBlueprint raw)) (\<lambda>b.
     bindK (liftK (foundryContentDigest b)) (\<lambda>d.
     bindK (checkK (d = av_blueprint_digest v \<and> fld ''target_agent_id'' b = JStr agent \<and> fld ''target_domain_id'' b = JStr domain) message) (\<lambda>u.
     bindK (objectK (optStr (fld ''design_request_digest'' b)) requestLabel) (\<lambda>rawRequest.
     bindK (liftK (validateDesignRequest rawRequest)) (\<lambda>request.
     liftK (runChecks (assertSameTarget request b targetLabel @ assertBlueprintSatisfiesDesignRequest request b))))))))"

definition rollbackActivation :: "ports \<Rightarrow> json \<Rightarrow> json \<Rightarrow> json \<Rightarrow> json \<Rightarrow> json \<Rightarrow>
    (activation_transaction \<times> activation_preflight) kern" where
  "rollbackActivation pt agentInput domainInput versionInput revision receipt =
     bindK (liftK (requiredRef agentInput ''target_agent_id'')) (\<lambda>agent.
     bindK (liftK (requiredRef domainInput ''target_domain_id'')) (\<lambda>domain.
     bindK (liftK (requiredDigest versionInput ''version_digest'')) (\<lambda>digest.
     bindK (liftK (expectedRevisionOf revision)) (\<lambda>expected.
     bindK (liftK (requiredRef receipt ''authority_receipt_ref'')) (\<lambda>ref.
     bindK (readK (\<lambda>w. resolveVersion (wd_registry w) (Some digest) agent domain)) (\<lambda>found. case found of
       None \<Rightarrow> failK ''Rollback target AgentVersion does not exist.''
     | Some v \<Rightarrow>
     bindK (checkK (av_version_digest v = digest \<and> av_target_agent_id v = agent \<and> av_target_domain_id v = domain)
       ''Rollback target AgentVersion identity is invalid.'') (\<lambda>u.
     bindK (rollbackBlueprint agent domain v ''rollback AgentBlueprint'' ''rollback DesignRequest'' ''Rollback AgentBlueprint''
       ''Rollback AgentBlueprint does not bind the exact target AgentVersion.'') (\<lambda>u.
     bindK (readK (\<lambda>w. activationOf (wd_registry w) agent domain)) (\<lambda>activation.
     bindK (checkK (truthy (ap_active_version_digest activation)) ''Rollback requires an active target AgentVersion.'') (\<lambda>u.
     bindK (readK (\<lambda>w. activationHistory (wd_registry w) agent domain)) (\<lambda>history.
     bindK (checkK (list_ex (\<lambda>t. tx_to t = digest) history) ''Rollback target AgentVersion has never been active.'') (\<lambda>u.
     bindK (readK (\<lambda>w. resolveVersion (wd_registry w) (ap_active_version_digest activation) agent domain)) (\<lambda>active. case active of
       None \<Rightarrow> failK ''Active AgentVersion does not exist.''
     | Some a \<Rightarrow>
     bindK (rollbackBlueprint agent domain a ''active rollback AgentBlueprint'' ''active rollback DesignRequest''
       ''Active rollback AgentBlueprint'' ''Active rollback AgentBlueprint does not bind the exact active AgentVersion.'') (\<lambda>u.
     bindK (verifyOwnerAuthority pt (JStr ref) ''rollback'' ''rollback'' (JStr agent) (JStr domain) None (Some digest) expected) (\<lambda>g.
     commitFoundryActivation pt Rollback_Tx v expected (Some (or_receipt_ref (gv_receipt g))))))))))))))))))"

end
