(* ===== verification/Kernel_Values.thy ===== *)
theory Kernel_Values
  imports Activation
begin

text \<open>
  Values as the language has them: an object has each key once, and a finite number is
  printed so that it reads back (\<open>numOk\<close>).  What the ports return and the callers pass in
  is assumed to be such a value; the validators of \<open>Protocol\<close> hand it on.
\<close>

fun jsValue :: "json \<Rightarrow> bool" where
  "jsValue (JNum (Fin q)) = numOk q"
| "jsValue (JArr vs) = (\<forall>v \<in> set vs. jsValue v)"
| "jsValue (JObj kvs) = (distinct (map fst kvs) \<and> (\<forall>kv \<in> set kvs. jsValue (snd kv)))"
| "jsValue v = True"

lemma seqE_Inr_all: "seqE rs = Inr xs \<Longrightarrow> r \<in> set rs \<Longrightarrow> \<exists>x. r = Inr x"
  by (auto simp: seqE_Inr_iff)

lemma plain_of_text: "jsValue v \<Longrightarrow> canonicalJsonText v = Inr t \<Longrightarrow> plain v"
proof (induction v arbitrary: t rule: plain.induct)
  case (2 x)
  then show ?case by (cases x) simp_all
next
  case (3 vs)
  from 3(3) obtain ts where "seqE (map canonicalJsonText vs) = Inr ts" by auto
  from seqE_Inr_all [OF this] have "\<forall>v \<in> set vs. \<exists>x. canonicalJsonText v = Inr x" by auto
  with 3 show ?case by fastforce
next
  case (4 kvs)
  from 4(3) obtain ts where s: "seqE (map snd (sort_key fst (map (\<lambda>(k, v). (k,
          if v = JUndef then fail ''Canonical JSON contains an unsupported value.''
          else mapE (\<lambda>t. quoteStr k @ '':'' @ t) (canonicalJsonText v))) kvs))) = Inr ts" by auto
  have "\<exists>x. canonicalJsonText (snd kv) = Inr x" if "kv \<in> set kvs" for kv
  proof -
    obtain k v where kv: "kv = (k, v)" by force
    have "\<exists>x. (if v = JUndef then fail ''Canonical JSON contains an unsupported value.''
          else mapE (\<lambda>t. quoteStr k @ '':'' @ t) (canonicalJsonText v)) = Inr x"
      by (rule seqE_Inr_all [OF s]) (use that kv in force)
    then show ?thesis using kv by (auto split: if_splits)
  qed
  with 4 show ?case by fastforce
qed simp_all

lemma jsValue_fld [intro]: "jsValue v \<Longrightarrow> jsValue (fld k v)"
proof (cases v)
  case (JObj kvs)
  assume "jsValue v"
  then show ?thesis unfolding JObj by (induction kvs) auto
qed (simp_all add: fld_def entriesOf_def)

lemma jsValue_objKeys: "jsValue v \<Longrightarrow> distinct (objKeys v)"
  by (cases v) (simp_all add: objKeys_def entriesOf_def)

lemma jsValue_entries: "jsValue v \<Longrightarrow> kv \<in> set (entriesOf v) \<Longrightarrow> jsValue (snd kv)"
  by (cases v) (auto simp: entriesOf_def)

lemma jsValue_setFld: "jsValue v \<Longrightarrow> jsValue w \<Longrightarrow> jsValue (setFld k w v)"
proof -
  assume v: "jsValue v" and w: "jsValue w"
  have "jsValue (snd kv)" if "kv \<in> set (AList.update k w kvs)" "\<forall>kv \<in> set kvs. jsValue (snd kv)" for kv kvs
    using that w by (induction kvs) (auto split: if_splits)
  then show ?thesis using jsValue_entries [OF v] jsValue_objKeys [OF v]
    by (simp add: setFld_def objKeys_def distinct_update)
qed

lemma jsValue_jStrs [simp]: "jsValue (jStrs ss)"
  by (simp add: jStrs_def)

lemma baselineAdoption_value: "validateBaselineAdoptionRequest v = Inr b \<Longrightarrow> jsValue b"
  by (auto simp: validateBaselineAdoptionRequest_def)

lemma designRequest_value: "validateDesignRequest v = Inr r \<Longrightarrow> jsValue v \<Longrightarrow> jsValue r"
  by (auto simp: validateDesignRequest_def jsValue_setFld dest: baselineAdoption_value split: if_splits)

lemma validated_same: "validateAgentBlueprint v = Inr b \<Longrightarrow> b = v" "validateEvidenceBundle dp v = Inr e \<Longrightarrow> e = v"
  by (auto simp: validateAgentBlueprint_def validateEvidenceBundle_def)

lemma proposal_value: "validateEvolutionProposal v = Inr p \<Longrightarrow> jsValue v \<Longrightarrow> jsValue p"
  by (auto simp: validateEvolutionProposal_def jsValue_setFld jsValue_fld dest: validated_same)

lemma candidate_value [simp]: "jsValue (candidateJson c)"
  by (simp add: candidateJson_def)

end
