(* ===== verification/Kernel_Inv.thy ===== *)
theory Kernel_Inv
  imports Kernel Kernel_Values
begin

text \<open>
  The invariant of the kernel's world and how it may change: every operation of
  \<open>Kernel\<close> keeps it and only adds to the histories, whatever the ports answer.
\<close>

section \<open>Invariant and growth\<close>

text \<open>
  The request of a run is stored under the digest its first event names, for the target of
  the run, and asks for five generations at most.
\<close>

definition chainRequest :: "json list \<Rightarrow> string" where
  "chainRequest es = jsToString (orElse (fld ''request_digest'' (fld ''payload'' (hd es))) (JStr []))"

definition budgetWithin :: "json \<Rightarrow> bool" where
  "budgetWithin request \<longleftrightarrow> jle (numOf (fld ''max_generations'' (fld ''delivery_policy'' request))) (jint 5)"

definition storedFor :: "object_store \<Rightarrow> string \<Rightarrow> string \<Rightarrow> bool" where
  "storedFor s d k \<longleftrightarrow> (\<exists>v. getObject s d = Some v \<and> targetKey (requestAgent v) (requestDomain v) = k
     \<and> budgetWithin v)"

definition requestStored :: "object_store \<Rightarrow> json list \<Rightarrow> bool" where
  "requestStored s es \<longleftrightarrow> storedFor s (chainRequest es) (chainTarget es)"

definition worldInv :: "world \<Rightarrow> bool" where
  "worldInv w \<longleftrightarrow> storeInv (wd_events w) \<and> registryInv (wd_registry w) \<and> objectsInv (wd_objects w)
     \<and> journalInv (wd_journal w) \<and> (\<forall>d v. getObject (wd_objects w) d = Some v \<longrightarrow> jsValue v)
     \<and> (\<forall>r es. map_of (es_runs (wd_events w)) r = Some es \<longrightarrow> requestStored (wd_objects w) es)"

definition newWorld :: world where
  "newWorld = \<lparr> wd_events = newEventStore, wd_registry = [], wd_objects = [], wd_journal = [], wd_tick = 0 \<rparr>"

lemma worldInv_new: "worldInv newWorld"
proof -
  have "registryInv []" by (simp add: registryInv_def regStateInv_def regState_def emptyState_def)
  then show ?thesis
    by (simp add: worldInv_def newWorld_def storeInv_new objectsInv_empty journalInv_empty getObject_def)
      (simp add: newEventStore_def)
qed

text \<open>What one world may become: histories are extended, stored texts and results stay.\<close>

definition grown :: "world \<Rightarrow> world \<Rightarrow> bool" where
  "grown w w' \<longleftrightarrow> (\<forall>r. prefix (readRun (wd_events w) r) (readRun (wd_events w') r))
     \<and> (\<forall>a d. prefix (activationHistory (wd_registry w) a d) (activationHistory (wd_registry w') a d))
     \<and> (\<forall>a d. prefix (listVersions (wd_registry w) a d) (listVersions (wd_registry w') a d))
     \<and> (\<forall>d v. getObject (wd_objects w) d = Some v \<longrightarrow>
          (\<exists>v'. getObject (wd_objects w') d = Some v' \<and> canonicalJsonText v' = canonicalJsonText v))
     \<and> (\<forall>k r. map_of (wd_journal w) k = Some r \<longrightarrow> map_of (wd_journal w') k = Some r)"

lemma grown_refl [simp]: "grown w w"
  by (simp add: grown_def)

lemma grown_tick [simp]: "grown w (w\<lparr> wd_tick := n \<rparr>)" "worldInv (w\<lparr> wd_tick := n \<rparr>) \<longleftrightarrow> worldInv w"
  by (simp_all add: grown_def worldInv_def)

lemma grown_trans: "grown w1 w2 \<Longrightarrow> grown w2 w3 \<Longrightarrow> grown w1 w3"
  unfolding grown_def by (metis prefix_order.trans)

section \<open>The writes\<close>

lemma same_target:
  assumes "jsValue v" "jsValue w" "canonicalJsonText v = Inr t" "canonicalJsonText w = Inr t"
  shows "strOf (fld k v) = strOf (fld k w)"
proof -
  have p: "plain v" "plain w" using assms plain_of_text by blast+
  have "norm v = norm w" using canonicalJsonText_inj [OF p] assms(3, 4) by simp
  then have n: "norm (fld k v) = norm (fld k w)"
    using assms(1, 2) by (intro norm_fld_eq jsValue_objKeys)
  have "strOf (norm x) = strOf x" for x by (cases x) (simp_all add: strOf_def)
  with n show ?thesis by metis
qed

lemma same_budget:
  assumes "jsValue v" "jsValue w" "canonicalJsonText v = Inr t" "canonicalJsonText w = Inr t"
  shows "budgetWithin v \<longleftrightarrow> budgetWithin w"
proof -
  have p: "plain v" "plain w" using assms plain_of_text by blast+
  have n: "norm v = norm w" using canonicalJsonText_inj [OF p] assms(3, 4) by simp
  have "norm (fld ''max_generations'' (fld ''delivery_policy'' v)) = norm (fld ''max_generations'' (fld ''delivery_policy'' w))"
    using assms(1, 2) by (intro norm_fld_eq n jsValue_objKeys jsValue_fld)
  moreover have "numOf (norm x) = numOf x" for x by (cases x) (simp_all add: numOf_def)
  ultimately show ?thesis by (metis budgetWithin_def)
qed

lemma storedFor_grown:
  assumes i: "worldInv w" and s: "\<forall>d v. getObject s' d = Some v \<longrightarrow> jsValue v"
    and g: "\<forall>d v. getObject (wd_objects w) d = Some v \<longrightarrow>
      (\<exists>v'. getObject s' d = Some v' \<and> canonicalJsonText v' = canonicalJsonText v)"
    and r: "storedFor (wd_objects w) d k"
  shows "storedFor s' d k"
proof -
  from r obtain v where v: "getObject (wd_objects w) d = Some v"
    "targetKey (requestAgent v) (requestDomain v) = k" "budgetWithin v" by (auto simp: storedFor_def)
  from g v(1) obtain v' where v': "getObject s' d = Some v'"
    "canonicalJsonText v' = canonicalJsonText v" by blast
  from i v(1) have "foundryContentDigest v = Inr d" by (simp add: worldInv_def objectsInv_def)
  then obtain t where t: "canonicalJsonText v = Inr t" by (auto simp: foundryContentDigest_def)
  have j: "jsValue v" "jsValue v'" using i v(1) s v'(1) by (auto simp: worldInv_def)
  have "strOf (fld k v') = strOf (fld k v)" for k using same_target [OF j(2, 1)] t v'(2) by simp
  moreover have "budgetWithin v'" using same_budget [OF j(2, 1)] t v'(2) v(3) by simp
  ultimately show ?thesis using v v'(1) by (simp add: storedFor_def requestAgent_def requestDomain_def)
qed

lemma put_moves:
  assumes w: "worldInv w" and p: "putObject (wd_objects w) v = Inr (s', d, ref)" and v: "jsValue v"
  shows "worldInv (w\<lparr> wd_objects := s' \<rparr>)" "grown w (w\<lparr> wd_objects := s' \<rparr>)"
proof -
  note f = putObject_Inr [OF p]
  have i: "objectsInv (wd_objects w)" using w by (simp add: worldInv_def)
  have g: "\<forall>d v. getObject (wd_objects w) d = Some v \<longrightarrow>
      (\<exists>v'. getObject s' d = Some v' \<and> canonicalJsonText v' = canonicalJsonText v)"
    using f(3, 4) by (auto split: if_splits)
  have j: "\<forall>d v. getObject s' d = Some v \<longrightarrow> jsValue v"
    using w v by (auto simp: f(3) worldInv_def)
  show "grown w (w\<lparr> wd_objects := s' \<rparr>)" using g by (simp add: grown_def)
  show "worldInv (w\<lparr> wd_objects := s' \<rparr>)"
    using w j storedFor_grown [OF w j g] objectsInv_put [OF i p] by (simp add: worldInv_def requestStored_def)
qed

lemma regState_key:
  assumes "registryKey a d = registryKey a' d'"
  shows "rg_versions (regState g a d) = rg_versions (regState g a' d')"
    "rg_transactions (regState g a d) = rg_transactions (regState g a' d')"
  using assms by (auto simp: regState_def emptyState_def split: option.splits)

lemma register_moves:
  assumes w: "worldInv w" and r: "registerVersion (wd_registry w) i = Inr (g', v, q)"
  shows "worldInv (w\<lparr> wd_registry := g' \<rparr>)" "grown w (w\<lparr> wd_registry := g' \<rparr>)"
proof -
  have inv: "registryInv (wd_registry w)" using w by (simp add: worldInv_def)
  show "worldInv (w\<lparr> wd_registry := g' \<rparr>)" using w registerVersion_inv [OF inv r] by (simp add: worldInv_def)
  show "grown w (w\<lparr> wd_registry := g' \<rparr>)"
    using r
  proof (cases rule: registerVersion_Inr)
    case 2
    have "prefix (activationHistory (wd_registry w) a d) (activationHistory g' a d) \<and>
        prefix (listVersions (wd_registry w) a d) (listVersions g' a d)" for a d
      using regState_key [of a d "ri_target_agent_id i" "ri_target_domain_id i" "wd_registry w"]
      by (simp add: 2(4) Let_def listVersions_def activationHistory_def regState_putState)
    then show ?thesis by (simp add: grown_def)
  qed simp
qed

lemma activate_moves:
  assumes w: "worldInv w" and a: "activateVersion (wd_registry w) i = Inr (g', t)"
  shows "worldInv (w\<lparr> wd_registry := g' \<rparr>)" "grown w (w\<lparr> wd_registry := g' \<rparr>)"
proof -
  have inv: "registryInv (wd_registry w)" using w by (simp add: worldInv_def)
  show "worldInv (w\<lparr> wd_registry := g' \<rparr>)" using w activateVersion_inv [OF inv a] by (simp add: worldInv_def)
  from a obtain st where st: "activateState (regState (wd_registry w) (ai_target_agent_id i) (ai_target_domain_id i)) i = Inr (st, t)"
    "g' = putState (ai_target_agent_id i) (ai_target_domain_id i) st (wd_registry w)" by (rule activateVersion_Inr)
  have vs: "rg_versions st = rg_versions (regState (wd_registry w) (ai_target_agent_id i) (ai_target_domain_id i))"
    using st(1) by (cases rule: activateState_Inr) simp_all
  have "prefix (listVersions (wd_registry w) a d) (listVersions g' a d)" for a d
    unfolding st(2) listVersions_def regState_putState
    using vs regState_key(1) [of a d "ai_target_agent_id i" "ai_target_domain_id i" "wd_registry w"] by simp
  then show "grown w (w\<lparr> wd_registry := g' \<rparr>)"
    using registry.activate_history [OF inv a] by (simp add: grown_def)
qed

lemma commit_moves:
  assumes w: "worldInv w" and c: "commitResult (wd_journal w) i d ref t = Inr (j', r)"
  shows "worldInv (w\<lparr> wd_journal := j' \<rparr>)" "grown w (w\<lparr> wd_journal := j' \<rparr>)"
proof -
  have inv: "journalInv (wd_journal w)" using w by (simp add: worldInv_def)
  show "worldInv (w\<lparr> wd_journal := j' \<rparr>)" using w journalInv_commit [OF inv c] by (simp add: worldInv_def)
  show "grown w (w\<lparr> wd_journal := j' \<rparr>)"
    using c by (cases rule: commitResult_Inr) (auto simp: grown_def update_conv)
qed

lemma append_moves:
  assumes w: "worldInv w" and a: "appendEvent (wd_events w) k n e = Inr (s', x)"
    and k: "k = chainTarget (readRun (wd_events w) (runIdOf e))"
  shows "worldInv (w\<lparr> wd_events := s' \<rparr>)" "grown w (w\<lparr> wd_events := s' \<rparr>)"
proof -
  have inv: "storeInv (wd_events w)" using w by (simp add: worldInv_def)
  have s: "storeInv s'" by (rule store.append_inv [OF inv a [unfolded k]])
  have rd: "(s' = wd_events w) \<or> (readRun (wd_events w) (runIdOf e) \<noteq> [] \<and>
      readRun s' = (readRun (wd_events w))(runIdOf e := readRun (wd_events w) (runIdOf e) @ [e]))"
    using store.append_read [OF inv a] by blast
  then have p: "prefix (readRun (wd_events w) r) (readRun s' r)" for r by auto
  then show "grown w (w\<lparr> wd_events := s' \<rparr>)" by (simp add: grown_def)
  have "requestStored (wd_objects w) es" if es: "map_of (es_runs s') r = Some es" for r es
  proof -
    have "readRun s' r = es" by (rule readRun_eq [OF es])
    moreover have "es \<noteq> []" using storeInv_chain [OF s es] verify_nonempty by blast
    ultimately have ne: "readRun (wd_events w) r \<noteq> []" "hd (readRun (wd_events w) r) = hd es"
      using rd by (auto split: if_splits)
    then obtain fs where "map_of (es_runs (wd_events w)) r = Some fs" "fs = readRun (wd_events w) r"
      using readRun_Some [OF inv] readRun_eq by metis
    then have "requestStored (wd_objects w) (readRun (wd_events w) r)" using w by (simp add: worldInv_def)
    then show ?thesis using ne(2) by (simp add: requestStored_def chainRequest_def chainTarget_def)
  qed
  with w s show "worldInv (w\<lparr> wd_events := s' \<rparr>)" by (simp add: worldInv_def)
qed

lemma create_moves:
  assumes w: "worldInv w" and c: "createRun (wd_events w) k e = Inr s'"
    and k: "k = chainTarget [e]" and r: "requestStored (wd_objects w) [e]"
  shows "worldInv (w\<lparr> wd_events := s' \<rparr>)" "grown w (w\<lparr> wd_events := s' \<rparr>)"
proof -
  have inv: "storeInv (wd_events w)" using w by (simp add: worldInv_def)
  have s: "storeInv s'" by (rule store.create_inv [OF inv c [unfolded k]])
  have rd: "readRun (wd_events w) (runIdOf e) = []" "readRun s' = (readRun (wd_events w))(runIdOf e := [e])"
    using store.create_read [OF inv c] by blast+
  then show "grown w (w\<lparr> wd_events := s' \<rparr>)" by (auto simp: grown_def)
  have "requestStored (wd_objects w) es" if es: "map_of (es_runs s') r = Some es" for r es
  proof (cases "r = runIdOf e")
    case True
    then have "es = [e]" using rd(2) readRun_eq [OF es] by simp
    with r show ?thesis by simp
  next
    case False
    then have "map_of (es_runs (wd_events w)) r = Some es"
      using es by (simp add: createRun_Inr(4) [OF c] update_conv)
    with w show ?thesis by (simp add: worldInv_def)
  qed
  with w s show "worldInv (w\<lparr> wd_events := s' \<rparr>)" by (simp add: worldInv_def)
qed

section \<open>Operations that keep it\<close>

text \<open>A fact that lasts as the world grows.\<close>

definition lasting :: "(world \<Rightarrow> bool) \<Rightarrow> bool" where
  "lasting Q \<longleftrightarrow> (\<forall>w w'. worldInv w \<longrightarrow> worldInv w' \<longrightarrow> grown w w' \<longrightarrow> Q w \<longrightarrow> Q w')"

definition kept :: "(world \<Rightarrow> bool) \<Rightarrow> world \<Rightarrow> bool" where
  "kept Q w \<longleftrightarrow> worldInv w \<and> Q w"

lemma lastingD: "lasting Q \<Longrightarrow> worldInv w \<Longrightarrow> worldInv w' \<Longrightarrow> grown w w' \<Longrightarrow> Q w \<Longrightarrow> Q w'"
  by (simp add: lasting_def)

lemma lasting_grown [intro]: "lasting (grown w0)"
  by (auto simp: lasting_def intro: grown_trans)

lemma lasting_conj [intro]: "lasting Q \<Longrightarrow> lasting R \<Longrightarrow> lasting (\<lambda>w. Q w \<and> R w)"
  by (simp add: lasting_def)

lemma lasting_storedFor [intro]: "lasting (\<lambda>w. storedFor (wd_objects w) d k)"
  unfolding lasting_def
proof (intro allI impI)
  fix w w' assume w: "worldInv w" and w': "worldInv w'" and g: "grown w w'" and s: "storedFor (wd_objects w) d k"
  show "storedFor (wd_objects w') d k"
    by (rule storedFor_grown [OF w _ _ s]) (use w' g in \<open>simp_all add: worldInv_def grown_def\<close>)
qed

lemma kept_moves: "lasting Q \<Longrightarrow> kept Q w \<Longrightarrow> worldInv w' \<Longrightarrow> grown w w' \<Longrightarrow> kept Q w'"
  by (auto simp: kept_def dest: lastingD)

text \<open>Continuations that use the value, and what held when it was read.\<close>

lemma keeps_bind_val:
  "keeps P m \<Longrightarrow> (\<And>x w w'. P w \<Longrightarrow> m w = (Inr x, w') \<Longrightarrow> keeps P (f x)) \<Longrightarrow> keeps P (bindK m f)"
  unfolding keeps_def bindK_def by (auto split: prod.splits sum.splits)

lemma keeps_bind_into:
  assumes m: "keeps P m" and q: "\<And>x w w'. P w \<Longrightarrow> m w = (Inr x, w') \<Longrightarrow> P w' \<Longrightarrow> Q x w'"
    and f: "\<And>x. keeps (Q x) (f x)" and p: "\<And>x w. Q x w \<Longrightarrow> P w"
  shows "keeps P (bindK m f)"
proof (rule keepsI)
  fix w assume w: "P w"
  obtain r w' where r: "m w = (r, w')" by force
  have w': "P w'" using keepsD [OF m w] r by simp
  show "P (snd (bindK m f w))"
  proof (cases r)
    case (Inl e)
    with r w' show ?thesis by (simp add: bindK_def)
  next
    case (Inr x)
    have "Q x w'" using q [OF w _ w'] r Inr by simp
    then have "Q x (snd (f x w'))" by (rule keepsD [OF f])
    then show ?thesis using r Inr p by (simp add: bindK_def)
  qed
qed

definition moves :: "'a kern \<Rightarrow> bool" where
  "moves m \<longleftrightarrow> (\<forall>w. worldInv w \<longrightarrow> worldInv (snd (m w)) \<and> grown w (snd (m w)))"

lemma keeps_moves: "lasting Q \<Longrightarrow> moves m \<Longrightarrow> keeps (kept Q) m"
  unfolding keeps_def kept_def moves_def lasting_def by metis

lemma moves_port: "moves (portK g)" and moves_now: "moves (nowK pt)" and moves_port_world: "moves (\<lambda>w. portK (h w) w)"
  by (simp_all add: moves_def portK_def nowK_def)

lemma moves_put: "jsValue v \<Longrightarrow> moves (putK v)"
  using put_moves by (fastforce simp: moves_def putK_def split: sum.splits)

lemma moves_register: "moves (registerK i)"
  using register_moves by (fastforce simp: moves_def registerK_def split: sum.splits)

lemma moves_activate: "moves (activateK i)"
proof -
  have "worldInv (snd (activateK i w)) \<and> grown w (snd (activateK i w))" if w: "worldInv w" for w
  proof -
    define j where "j = (if ai_kind i = Activate_Tx then i\<lparr> ai_kind := Activate_Tx \<rparr> else i\<lparr> ai_kind := Rollback_Tx \<rparr>)"
    have j: "(if ai_kind i = Activate_Tx then compareAndSwapActivation (wd_registry w) i
        else rollbackVersion (wd_registry w) i) = activateVersion (wd_registry w) j"
      by (simp add: compareAndSwapActivation_def rollbackVersion_def j_def)
    show ?thesis unfolding activateK_def j using activate_moves [OF w] w by (auto split: sum.splits)
  qed
  then show ?thesis by (simp add: moves_def)
qed

lemma moves_commit: "moves (commitResultK i d ref t)"
  using commit_moves by (fastforce simp: moves_def commitResultK_def split: sum.splits)

lemmas keeps_writes = moves_port [THEN keeps_moves [rotated]] moves_port_world [THEN keeps_moves [rotated]] moves_now [THEN keeps_moves [rotated]]
  moves_put [THEN keeps_moves [rotated]] moves_register [THEN keeps_moves [rotated]]
  moves_activate [THEN keeps_moves [rotated]] moves_commit [THEN keeps_moves [rotated]]

end
