(* ===== verification/Kernel_Ops.thy ===== *)
theory Kernel_Ops
  imports Kernel_Inv
begin

text \<open>
  Every operation of the kernel keeps the invariant of \<open>Kernel_Inv\<close> and every lasting fact;
  operations on an inspected run rely on what the inspection read.
\<close>

section \<open>What an inspection read\<close>

text \<open>
  The snapshot is that of a chain the run still extends, and the request is the one of the
  run's target.
\<close>

definition insOk :: "inspection \<Rightarrow> world \<Rightarrow> bool" where
  "insOk ins w \<longleftrightarrow> (\<exists>es. prefix es (readRun (wd_events w) (sn_run_id (ip_run ins)))
     \<and> snapshotFromEvents es = Inr (ip_run ins)
     \<and> chainTarget es = targetKey (requestAgent (ip_request ins)) (requestDomain (ip_request ins)))"

lemma lasting_insOk [intro]: "lasting (insOk ins)"
  unfolding lasting_def insOk_def grown_def by (meson prefix_order.trans)

lemma keeps_object [keeps_intros]: "keeps P (objectK d label)"
  unfolding objectK_def by (intro keeps_intros)

lemma keeps_inspect [keeps_intros]: "keeps P (inspectRun r)"
  unfolding inspectRun_def by (intro keeps_intros) (simp add: keeps_def liftK_def)

lemma inspectRun_same: "snd (inspectRun r w) = w"
  using keepsD [OF keeps_inspect, of "\<lambda>v. v = w" w r] by simp

lemma snapshot_fields:
  assumes "snapshotFromEvents es = Inr run"
  shows "sn_request_digest run = chainRequest es" "JStr (sn_run_id run) = fld ''run_id'' (last es)"
    "sn_revision run = int (length es)" "sn_last_event_hash run = evHash (last es)"
    "evState (last es) = stateName (sn_run_state run)" "verifyFoundryEventChain es = Inr ()"
proof -
  have v: "verifyFoundryEventChain es = Inr ()" by (rule snapshot_Inr_verified [OF assms])
  then show "verifyFoundryEventChain es = Inr ()" .
  from snapshot_verified [OF v] assms
  show "JStr (sn_run_id run) = fld ''run_id'' (last es)" "sn_revision run = int (length es)"
    "sn_last_event_hash run = evHash (last es)" "evState (last es) = stateName (sn_run_state run)" by auto
  show "sn_request_digest run = chainRequest es"
    using assms by (auto simp: snapshotFromEvents_def chainRequest_def Let_def split: if_splits option.splits)
qed

lemma chain_one_run: "verifyFoundryEventChain es = Inr () \<Longrightarrow> fld ''run_id'' (last es) = fld ''run_id'' (hd es)"
  using verify_chainSpec [of es] verify_nonempty [of es] unfolding chainSpec_def by (metis last_in_set)

lemma inspectRun_Inr:
  assumes i: "inspectRun r w = (Inr ins, w')" and w: "worldInv w"
  shows "w' = w" "sn_run_id (ip_run ins) = r" "insOk ins w" "snapshotFromEvents (readRun (wd_events w) r) = Inr (ip_run ins)"
    "getObject (wd_objects w) (sn_request_digest (ip_run ins)) = Some (ip_request ins)"
    "ip_activation ins = activationOf (wd_registry w) (requestAgent (ip_request ins)) (requestDomain (ip_request ins))"
    "buildFoundryRunTerminalReadback (wd_registry w) (ip_run ins) (readRun (wd_events w) r) (ip_activation ins) = Inr (ip_readback ins)"
    "budgetWithin (ip_request ins)"
proof -
  let ?es = "readRun (wd_events w) r"
  note * = i [unfolded inspectRun_def objectK_def bindK_Inr simple_Inr]
  from * have e: "?es \<noteq> []" and s: "snapshotFromEvents ?es = Inr (ip_run ins)"
    and o: "getObject (wd_objects w) (sn_request_digest (ip_run ins)) = Some (ip_request ins)"
    and a: "ip_activation ins = activationOf (wd_registry w) (requestAgent (ip_request ins)) (requestDomain (ip_request ins))"
    and b: "buildFoundryRunTerminalReadback (wd_registry w) (ip_run ins) ?es (ip_activation ins) = Inr (ip_readback ins)"
    and w': "w' = w"
    by (auto split: if_splits)
  show "snapshotFromEvents ?es = Inr (ip_run ins)" "w' = w"
    "getObject (wd_objects w) (sn_request_digest (ip_run ins)) = Some (ip_request ins)"
    "ip_activation ins = activationOf (wd_registry w) (requestAgent (ip_request ins)) (requestDomain (ip_request ins))"
    "buildFoundryRunTerminalReadback (wd_registry w) (ip_run ins) ?es (ip_activation ins) = Inr (ip_readback ins)"
    by fact+
  have inv: "storeInv (wd_events w)" using w by (simp add: worldInv_def)
  note f = snapshot_fields [OF s]
  from readRun_Some [OF inv] e obtain fs where fs: "map_of (es_runs (wd_events w)) r = Some fs" "fs = ?es" using readRun_eq by metis
  have "fld ''run_id'' (hd ?es) = JStr r" using storeInv_chain [OF inv fs(1)] fs(2) by simp
  then show r: "sn_run_id (ip_run ins) = r" using f(2) chain_one_run [OF f(6)] by simp
  have "requestStored (wd_objects w) ?es" using w fs by (simp add: worldInv_def)
  then have "chainTarget ?es = targetKey (requestAgent (ip_request ins)) (requestDomain (ip_request ins))"
    and b: "budgetWithin (ip_request ins)" using o by (simp_all add: requestStored_def storedFor_def f(1))
  then show "insOk ins w" using s r unfolding insOk_def by auto
  show "budgetWithin (ip_request ins)" by (rule b)
qed

lemma keeps_inspected:
  assumes q: "lasting Q" and f: "\<And>ins. keeps (kept (\<lambda>w. Q w \<and> insOk ins w)) (f ins)"
  shows "keeps (kept Q) (bindK (inspectRun r) f)"
proof (rule keeps_bind_into [where Q = "\<lambda>ins. kept (\<lambda>w. Q w \<and> insOk ins w)"])
  show "kept Q w \<Longrightarrow> inspectRun r w = (Inr x, w') \<Longrightarrow> kept Q w' \<Longrightarrow> kept (\<lambda>w. Q w \<and> insOk x w) w'" for x w w'
    using inspectRun_Inr(1, 3) [of r w x w'] by (auto simp: kept_def)
qed (use f in \<open>auto simp: kept_def intro: keeps_intros\<close>)

lemma keeps_append:
  assumes q: "lasting Q" "\<And>w. Q w \<Longrightarrow> insOk ins w"
  shows "keeps (kept Q) (appendRunEvent pt ins ty to phase d payload)"
  unfolding appendRunEvent_def Let_def
proof (intro keeps_bind_val keeps_writes keeps_lift q(1))
  fix now e w w1
  assume "liftK (buildFoundryEvent (sn_run_id (ip_run ins)) (sn_revision (ip_run ins) + 1) ty (Some (sn_run_state (ip_run ins)))
       to now (idempotencyKey (ip_run ins) phase d) (Some (sn_last_event_hash (ip_run ins))) payload) w = (Inr e, w1)"
  then have r: "runIdOf e = sn_run_id (ip_run ins)"
    by (auto dest!: buildFoundryEvent_Inr simp: runIdOf_def built_simps)
  show "keeps (kept Q) (appendK (targetKey (requestAgent (ip_request ins)) (requestDomain (ip_request ins)))
      (sn_revision (ip_run ins)) e)"
  proof (rule keepsI)
    fix w assume k: "kept Q w"
    then have w: "worldInv w" and i: "insOk ins w" using q(2) by (auto simp: kept_def)
    from i obtain es where es: "prefix es (readRun (wd_events w) (sn_run_id (ip_run ins)))"
      "snapshotFromEvents es = Inr (ip_run ins)"
      "chainTarget es = targetKey (requestAgent (ip_request ins)) (requestDomain (ip_request ins))" by (auto simp: insOk_def)
    have "es \<noteq> []" using es(2) by (auto simp: snapshotFromEvents_def)
    then have "chainTarget (readRun (wd_events w) (runIdOf e)) = chainTarget es"
      using es(1) r by (auto simp: prefix_def chainTarget_def)
    then have "targetKey (requestAgent (ip_request ins)) (requestDomain (ip_request ins)) =
        chainTarget (readRun (wd_events w) (runIdOf e))" using es(3) by simp
    from append_moves [OF w _ this] kept_moves [OF q(1) k]
    show "kept Q (snd (appendK (targetKey (requestAgent (ip_request ins)) (requestDomain (ip_request ins)))
        (sn_revision (ip_run ins)) e w))" using k by (fastforce simp: appendK_def split: sum.splits prod.splits)
  qed
qed

section \<open>Lookups\<close>

lemma keeps_lookups [keeps_intros]:
  "keeps P (resolveBaseline request)" "keeps P (baselineBlueprint request)" "keeps P (blueprintK ins)"
  "keeps P (candidateK ins)" "keeps P (versionK ins)"
  unfolding resolveBaseline_def baselineBlueprint_def blueprintK_def candidateK_def versionK_def Let_def
  by (intro keeps_intros)+

lemmas keeps_rules = keeps_ret keeps_throw keeps_fail keeps_lift keeps_read keeps_check keeps_readResult
  keeps_bind_val keeps_catch keeps_if keeps_option keeps_prod keeps_activity keeps_object keeps_lookups
  keeps_inspect keeps_sum

text \<open>The values the ports return.\<close>

definition portValues :: "ports \<Rightarrow> bool" where
  "portValues pt \<longleftrightarrow> (\<forall>n a b v. pt_design pt n a b = Inr v \<longrightarrow> jsValue v) \<and> (\<forall>n a v. pt_diagnose pt n a = Inr v \<longrightarrow> jsValue v)
     \<and> (\<forall>n a v. pt_evaluate pt n a = Inr v \<longrightarrow> jsValue v) \<and> (\<forall>n a v. pt_canary pt n a = Inr v \<longrightarrow> jsValue v)"

lemma portValuesD:
  "portValues pt \<Longrightarrow> pt_design pt n a b = Inr v \<Longrightarrow> jsValue v" "portValues pt \<Longrightarrow> pt_diagnose pt n a = Inr v \<Longrightarrow> jsValue v"
  "portValues pt \<Longrightarrow> pt_evaluate pt n a = Inr v \<Longrightarrow> jsValue v" "portValues pt \<Longrightarrow> pt_canary pt n a = Inr v \<Longrightarrow> jsValue v"
  unfolding portValues_def by blast+

lemma attemptK_Inr: "attemptK pt op m n e w = (Inr x, w') \<Longrightarrow> \<exists>w1. m w1 = (Inr x, w')"
  by (induction n arbitrary: e w) (auto split: prod.splits sum.splits if_splits)

lemma activityK_Inr: "activityK pt op m w = (Inr x, w') \<Longrightarrow> \<exists>w1. m w1 = (Inr x, w')"
  unfolding activityK_def by (rule attemptK_Inr)

lemma activity_port: "activityK pt op (portK g) w = (Inr x, w') \<Longrightarrow> \<exists>n. g n = Inr x"
  using activityK_Inr by fastforce

lemma keeps_liftw: "keeps P (\<lambda>w. liftK (f w) w)"
  by (simp add: keeps_def liftK_def)

lemma keeps_commitActivation: "lasting Q \<Longrightarrow> keeps (kept Q) (commitFoundryActivation pt k v n receipt)"
  unfolding commitFoundryActivation_def Let_def by (intro keeps_rules keeps_writes)

lemma keeps_registerQualified: "lasting Q \<Longrightarrow> keeps (kept Q) (registerQualified pt ins c r)"
  unfolding registerQualified_def Let_def by (intro keeps_rules keeps_writes)

lemma keeps_verifyOwner: "lasting Q \<Longrightarrow> keeps (kept Q) (verifyOwnerAuthority pt ref action decision agent domain run version revision)"
  unfolding verifyOwnerAuthority_def by (intro keeps_rules keeps_writes)

section \<open>The steps of a run\<close>

text \<open>Lasting facts that hold on to an inspected run.\<close>

definition onRun :: "inspection \<Rightarrow> (world \<Rightarrow> bool) \<Rightarrow> bool" where
  "onRun ins Q \<longleftrightarrow> lasting Q \<and> (\<forall>w. Q w \<longrightarrow> insOk ins w)"

lemma onRun_inspected: "lasting Q \<Longrightarrow> onRun ins (\<lambda>w. Q w \<and> insOk ins w)"
  by (auto simp: onRun_def)

lemma keeps_append_on: "onRun ins Q \<Longrightarrow> keeps (kept Q) (appendRunEvent pt ins ty to phase d payload)"
  by (rule keeps_append) (simp_all add: onRun_def)

lemma keeps_journaled: "onRun ins Q \<Longrightarrow> keeps (kept Q) (appendJournaledResult pt ins key ty to phase d payload)"
  unfolding appendJournaledResult_def by (intro keeps_rules keeps_append_on)

lemma onRun_lasting: "onRun ins Q \<Longrightarrow> lasting Q"
  by (simp add: onRun_def)

lemma keeps_designRun:
  assumes "onRun ins Q" "portValues pt"
  shows "keeps (kept Q) (designRun pt ins)"
  unfolding designRun_def Let_def
  by (intro keeps_rules keeps_writes keeps_append_on assms(1) onRun_lasting [OF assms(1)])
    (auto dest!: activity_port validated_same dest: portValuesD [OF assms(2)])

lemma keeps_materializeRun: "onRun ins Q \<Longrightarrow> keeps (kept Q) (materializeRun pt ins)"
  unfolding materializeRun_def Let_def
  by (intro keeps_rules keeps_writes keeps_append_on) (simp_all add: onRun_def)

lemma keeps_evidenceK:
  assumes "onRun ins Q" "portValues pt"
  shows "keeps (kept Q) (evidenceK pt ins canary opts operation b c version baseline)"
  unfolding evidenceK_def Let_def
  by (intro keeps_rules keeps_writes onRun_lasting [OF assms(1)])
    (auto dest!: activity_port validated_same dest: portValuesD [OF assms(2)] split: if_splits)

lemma keeps_conclude: "onRun ins Q \<Longrightarrow> keeps (kept Q) (concludeEvaluation pt ins canary c r e)"
  unfolding concludeEvaluation_def Let_def
  by (intro keeps_rules keeps_journaled keeps_registerQualified) (simp_all add: onRun_def)

lemma keeps_evaluateRun:
  assumes "onRun ins Q" "portValues pt"
  shows "keeps (kept Q) (evaluateRun pt ins canary opts)"
  unfolding evaluateRun_def Let_def by (intro keeps_rules keeps_evidenceK keeps_conclude assms)

lemma keeps_diagnoseRun:
  assumes "onRun ins Q" "portValues pt"
  shows "keeps (kept Q) (diagnoseRun pt ins)"
  unfolding diagnoseRun_def noChangeProposal_def admitProposal_def Let_def
  by (intro keeps_rules keeps_writes keeps_append_on onRun_lasting [OF assms(1)] assms(1))
    (auto dest!: activityK_Inr portValuesD(2) [OF assms(2)] intro!: jsValue_fld dest: proposal_value)

lemma keeps_activateRun: "onRun ins Q \<Longrightarrow> keeps (kept Q) (activateRun pt ins)"
  unfolding activateRun_def Let_def
  by (intro keeps_rules keeps_liftw keeps_commitActivation keeps_append_on) (simp_all add: onRun_def)

lemma keeps_advanceOne:
  assumes "onRun ins Q" "portValues pt"
  shows "keeps (kept Q) (advanceOne pt ins opts)"
proof -
  have "keeps (kept Q) (afterQualification pt ins)"
    unfolding afterQualification_def Let_def by (intro keeps_rules keeps_append_on assms)
  then show ?thesis
    using keeps_designRun [OF assms] keeps_materializeRun [OF assms(1)] keeps_evaluateRun [OF assms]
      keeps_diagnoseRun [OF assms] keeps_activateRun [OF assms(1)]
    by (cases "sn_run_state (ip_run ins)") (simp_all add: advanceOne_def keeps_append_on [OF assms(1)] keeps_fail)
qed

section \<open>The operations of the class\<close>

lemma keeps_terminate: "lasting Q \<Longrightarrow> keeps (kept Q) (terminateAfterFailure pt runId e)"
  unfolding terminateAfterFailure_def Let_def
  by (intro keeps_inspected keeps_rules keeps_append_on onRun_inspected)

lemma keeps_advanceRunStep:
  assumes "lasting Q" "portValues pt"
  shows "keeps (kept Q) (advanceRunStep pt runId opts)"
  unfolding advanceRunStep_def
  by (intro keeps_inspected keeps_rules keeps_advanceOne keeps_terminate onRun_inspected lasting_conj lasting_insOk assms)

lemma keeps_advance:
  assumes "lasting Q" "portValues pt"
  shows "keeps (kept Q) (advanceUntilPause pt runId)"
proof -
  have "keeps (kept Q) (advanceLoop pt runId n)" for n
    by (induction n) (auto intro!: keeps_rules keeps_advanceRunStep assms)
  then show ?thesis by (simp add: advanceUntilPause_def)
qed

lemma keeps_submit:
  assumes "lasting Q" "portValues pt"
  shows "keeps (kept Q) (submitOwnerDecision pt runId revision decision receipt advance)"
  unfolding submitOwnerDecision_def Let_def
  by (intro keeps_inspected keeps_rules keeps_append_on keeps_verifyOwner keeps_advance onRun_inspected lasting_conj
      lasting_insOk assms)

lemma keeps_authorize: "lasting Q \<Longrightarrow> keeps (kept Q) (authorizeCancel pt runId revision receipt)"
  unfolding authorizeCancel_def by (intro keeps_rules keeps_verifyOwner)

lemma authorizeCancel_inspected:
  assumes "authorizeCancel pt runId revision receipt w = (Inr (ins, answer), w')"
  shows "inspectRun runId w = (Inr ins, w)"
proof -
  note * = assms [unfolded authorizeCancel_def bindK_Inr simple_Inr]
  then obtain w1 where i: "inspectRun runId w = (Inr ins, w1)"
    by (auto simp: verifyOwnerAuthority_def split: if_splits)
  with inspectRun_same [of runId w] show ?thesis by simp
qed

lemma keeps_cancelRun:
  assumes q: "lasting Q"
  shows "keeps (kept Q) (cancelRun pt runId revision receipt)"
  unfolding cancelRun_def
proof (rule keeps_bind_into [where Q = "\<lambda>r. kept (\<lambda>w. Q w \<and> insOk (fst r) w)"])
  show "keeps (kept Q) (authorizeCancel pt runId revision receipt)" by (rule keeps_authorize [OF q])
  show "kept (\<lambda>w. Q w \<and> insOk (fst x) w) w'"
    if k: "kept Q w" "kept Q w'" and a: "authorizeCancel pt runId revision receipt w = (Inr x, w')" for x w w'
  proof -
    obtain ins g where x: "x = (ins, g)" by force
    have "insOk ins w" using inspectRun_Inr(3) authorizeCancel_inspected [OF a [unfolded x]] k(1) by (simp add: kept_def)
    then have "kept (\<lambda>w. Q w \<and> insOk ins w) w" using k(1) by (simp add: kept_def)
    with keepsD [OF keeps_authorize [OF lasting_conj [OF q lasting_insOk [of ins]]] this, of pt runId revision receipt] a x
    show ?thesis by simp
  qed
qed (auto simp: kept_def split: prod.splits intro!: keeps_rules keeps_append_on onRun_inspected q)

lemma keeps_authorizeCancelRun: "lasting Q \<Longrightarrow> keeps (kept Q) (authorizeCancelRun pt runId revision receipt)"
  unfolding authorizeCancelRun_def by (intro keeps_rules keeps_authorize)

lemma keeps_failRun: "lasting Q \<Longrightarrow> keeps (kept Q) (failRun pt runId code message)"
  unfolding failRun_def by (intro keeps_inspected keeps_rules keeps_append_on onRun_inspected)

lemma keeps_rollback: "lasting Q \<Longrightarrow> keeps (kept Q) (rollbackActivation pt a d v revision receipt)"
proof -
  have "keeps P (rollbackBlueprint a d v l1 l2 l3 m)" for P a d v l1 l2 l3 m
    unfolding rollbackBlueprint_def by (intro keeps_rules)
  then show "lasting Q \<Longrightarrow> ?thesis"
    unfolding rollbackActivation_def by (intro keeps_rules keeps_verifyOwner keeps_commitActivation)
qed

section \<open>Starting a run\<close>

lemma keeps_admitAdoption: "lasting Q \<Longrightarrow> keeps (kept Q) (admitAdoption pt request runId)"
proof -
  assume q: "lasting Q"
  have "moves (preflightFoundryBaselineAdoption pt request run)" for run
    unfolding moves_def using preflight_readonly [of _ pt request run]
    by (simp add: sameStores_def worldInv_def grown_def)
  with q show ?thesis unfolding admitAdoption_def by (intro keeps_rules keeps_moves)
qed

lemma accepted_chain:
  assumes "buildFoundryEvent runId 1 ''foundry_run_accepted'' None Accepted now key None
     (JObj [(''target_agent_id'', fld ''target_agent_id'' request), (''target_domain_id'', fld ''target_domain_id'' request),
       (''request_digest'', JStr digest), (''activation_revision_at_start'', jInt n), (''generation'', jInt 0)]) = Inr e"
  shows "chainTarget [e] = targetKey (requestAgent request) (requestDomain request)" "chainRequest [e] = digest"
    "runIdOf e = runId"
  using buildFoundryEvent_Inr [OF assms]
  by (auto simp: built_simps chainTarget_def chainRequest_def requestAgent_def requestDomain_def runIdOf_def orElse_def)

lemma designRequest_budget:
  assumes "validateDesignRequest v = Inr r"
  shows "budgetWithin r"
proof -
  have "list_all fst (deliveryPolicyChecks (fld ''delivery_policy'' v))"
    using assms by (auto simp: validateDesignRequest_def designRequestChecks_def)
  then have "isInteger (numOf (fld ''max_generations'' (fld ''delivery_policy'' v)))"
    "\<not> jlt (jint 5) (numOf (fld ''max_generations'' (fld ''delivery_policy'' v)))"
    by (simp_all add: deliveryPolicyChecks_def)
  then have "budgetWithin v"
    by (cases "numOf (fld ''max_generations'' (fld ''delivery_policy'' v))") (simp_all add: budgetWithin_def isInteger_def jint_def)
  moreover have "fld ''delivery_policy'' r = fld ''delivery_policy'' v"
    using assms by (auto simp: validateDesignRequest_def split: if_splits)
  ultimately show ?thesis by (simp add: budgetWithin_def)
qed

lemma keeps_acceptRun:
  assumes q: "lasting Q" and v: "jsValue request" and b: "budgetWithin request"
  shows "keeps (kept Q) (acceptRun pt runId request digest n)"
  unfolding acceptRun_def
proof (rule keeps_bind_into [where Q = "\<lambda>r. kept (\<lambda>w. Q w \<and> storedFor (wd_objects w) (fst r) (targetKey (requestAgent request) (requestDomain request)))"])
  let ?k = "targetKey (requestAgent request) (requestDomain request)"
  show "keeps (kept Q) (putK request)" by (intro keeps_writes q v)
  show "kept (\<lambda>w. Q w \<and> storedFor (wd_objects w) (fst x) ?k) w'"
    if "kept Q w'" "putK request w = (Inr x, w')" for x w w'
    using that b by (auto simp: kept_def storedFor_def putK_def putObject_Inr(3) split: sum.splits dest!: putObject_Inr(3))
  fix x :: "string \<times> string"
  obtain d ref where x: "x = (d, ref)" by force
  define R where "R = (\<lambda>w. Q w \<and> storedFor (wd_objects w) d ?k)"
  have r: "lasting R" unfolding R_def by (intro lasting_conj lasting_storedFor q)
  have "keeps (kept R) (createK ?k e)" if "chainTarget [e] = ?k" "chainRequest [e] = d" for e
  proof (rule keepsI)
    fix w assume k: "kept R w"
    then have "worldInv w" "requestStored (wd_objects w) [e]" using that by (simp_all add: kept_def R_def requestStored_def)
    from create_moves [OF this(1) _ that(1) [symmetric] this(2)] kept_moves [OF r k] k
    show "kept R (snd (createK ?k e w))" by (auto simp: createK_def split: sum.splits)
  qed
  then show "keeps (kept (\<lambda>w. Q w \<and> storedFor (wd_objects w) (fst x) ?k)) (case x of (d, ref) \<Rightarrow>
     bindK (checkK (d = digest) ''Foundry object store changed DesignRequest bytes.'') (\<lambda>u.
     bindK (nowK pt) (\<lambda>now.
     bindK (liftK (buildFoundryEvent runId 1 ''foundry_run_accepted'' None Accepted now
       (runId @ ''/0/accepted/'' @ digest) None
       (JObj [(''target_agent_id'', fld ''target_agent_id'' request), (''target_domain_id'', fld ''target_domain_id'' request),
         (''request_digest'', JStr digest), (''activation_revision_at_start'', jInt n), (''generation'', jInt 0)]))) (\<lambda>e.
     bindK (createK ?k e) (\<lambda>u.
     liftK (snapshotFromEvents [e]))))))"
    unfolding x prod.case fst_conv R_def [symmetric]
    by (intro keeps_rules keeps_writes r) (auto dest: accepted_chain)
qed (auto simp: kept_def)

lemma keeps_startRunWith:
  assumes q: "lasting Q" and v: "jsValue value"
  shows "keeps (kept Q) (startRunWith pt value runId adopt)"
proof -
  have "keeps (kept Q) (admitRun pt r request digest b)" if "validateDesignRequest value = Inr request" for r request digest b
    unfolding admitRun_def
    by (intro keeps_rules keeps_acceptRun keeps_admitAdoption q designRequest_value [OF that v] designRequest_budget [OF that])
  then show ?thesis
    unfolding startRunWith_def Let_def
    by (intro keeps_rules keeps_admitAdoption keeps_writes q) (auto split: sum.splits)
qed

section \<open>Reachable worlds\<close>

datatype kernel_op = Start json "string option" bool | Step string advance_options | Advance string
  | Decide string json json json bool | Cancel string json json | Authorize_Cancel string json json
  | Fail_Run string json json | Roll_Back_To json json json json json

text \<open>The operations of the class by their arguments, with the result dropped.\<close>

definition runOp :: "ports \<Rightarrow> kernel_op \<Rightarrow> world \<Rightarrow> world" where
  "runOp pt c w = (case c of
     Start value runId adopt \<Rightarrow> snd (startRunWith pt value runId adopt w)
   | Step runId opts \<Rightarrow> snd (advanceRunStep pt runId opts w)
   | Advance runId \<Rightarrow> snd (advanceUntilPause pt runId w)
   | Decide runId revision decision receipt advance \<Rightarrow> snd (submitOwnerDecision pt runId revision decision receipt advance w)
   | Cancel runId revision receipt \<Rightarrow> snd (cancelRun pt runId revision receipt w)
   | Authorize_Cancel runId revision receipt \<Rightarrow> snd (authorizeCancelRun pt runId revision receipt w)
   | Fail_Run runId code message \<Rightarrow> snd (failRun pt runId code message w)
   | Roll_Back_To a d v revision receipt \<Rightarrow> snd (rollbackActivation pt a d v revision receipt w))"

fun opValue :: "kernel_op \<Rightarrow> bool" where
  "opValue (Start value runId adopt) = jsValue value"
| "opValue c = True"

lemma runOp_moves:
  assumes pt: "portValues pt" and c: "opValue c" and w: "worldInv w"
  shows "worldInv (runOp pt c w) \<and> grown w (runOp pt c w)"
proof -
  have k: "kept (grown w) w" using w by (simp add: kept_def)
  show ?thesis
  proof (cases c)
    case (Start v runId adopt)
    with c show ?thesis using keepsD [OF keeps_startRunWith [OF lasting_grown] k, of v pt runId adopt] by (simp add: runOp_def kept_def)
  next
    case (Step runId opts)
    then show ?thesis using keepsD [OF keeps_advanceRunStep [OF lasting_grown pt] k] by (simp add: runOp_def kept_def)
  next
    case (Advance runId)
    then show ?thesis using keepsD [OF keeps_advance [OF lasting_grown pt] k] by (simp add: runOp_def kept_def)
  next
    case (Decide runId revision decision receipt advance)
    then show ?thesis using keepsD [OF keeps_submit [OF lasting_grown pt] k] by (simp add: runOp_def kept_def)
  next
    case (Cancel runId revision receipt)
    then show ?thesis using keepsD [OF keeps_cancelRun [OF lasting_grown] k] by (simp add: runOp_def kept_def)
  next
    case (Authorize_Cancel runId revision receipt)
    then show ?thesis using keepsD [OF keeps_authorizeCancelRun [OF lasting_grown] k] by (simp add: runOp_def kept_def)
  next
    case (Fail_Run runId code message)
    then show ?thesis using keepsD [OF keeps_failRun [OF lasting_grown] k] by (simp add: runOp_def kept_def)
  next
    case (Roll_Back_To a d v revision receipt)
    then show ?thesis using keepsD [OF keeps_rollback [OF lasting_grown] k] by (simp add: runOp_def kept_def)
  qed
qed

inductive reachable :: "ports \<Rightarrow> world \<Rightarrow> bool" for pt :: ports where
  initial: "reachable pt newWorld"
| operate: "reachable pt w \<Longrightarrow> opValue c \<Longrightarrow> reachable pt (runOp pt c w)"

lemma reachable_inv: "reachable pt w \<Longrightarrow> portValues pt \<Longrightarrow> worldInv w"
  by (induction rule: reachable.induct) (auto simp: worldInv_new dest: runOp_moves)

end
