(* ===== verification/Kernel_Facts.thy ===== *)
theory Kernel_Facts
  imports Kernel_Ops
begin

text \<open>
  What a successful operation of the kernel establishes: activations and rollbacks carry the
  receipts they need, decisions are the verified ones, evaluations happen once, and a
  retried activity is called a bounded number of times.
\<close>

section \<open>Activations\<close>

lemma activateVersion_result:
  assumes "registryInv g" "activateVersion g i = Inr (g', t)"
  shows "t \<in> set (activationHistory g' (ai_target_agent_id i) (ai_target_domain_id i))"
  using registry.activate_history [OF assms] by blast

lemma activateK_Inr:
  assumes "activateK i w = (Inr t, w')" "worldInv w"
  shows "t \<in> set (activationHistory (wd_registry w') (ai_target_agent_id i) (ai_target_domain_id i))"
proof -
  define j where "j = (if ai_kind i = Activate_Tx then i\<lparr> ai_kind := Activate_Tx \<rparr> else i\<lparr> ai_kind := Rollback_Tx \<rparr>)"
  have "(if ai_kind i = Activate_Tx then compareAndSwapActivation (wd_registry w) i
      else rollbackVersion (wd_registry w) i) = activateVersion (wd_registry w) j"
    by (simp add: compareAndSwapActivation_def rollbackVersion_def j_def)
  then obtain g' where a: "activateVersion (wd_registry w) j = Inr (g', t)" "w' = w\<lparr> wd_registry := g' \<rparr>"
    using assms(1) by (auto simp: activateK_def split: sum.splits)
  have "ai_target_agent_id j = ai_target_agent_id i" "ai_target_domain_id j = ai_target_domain_id i" by (simp_all add: j_def)
  with activateVersion_result [OF _ a(1)] a(2) assms(2) show ?thesis by (simp add: worldInv_def)
qed

lemma moves_keeps: "(\<And>w. keeps (kept (grown w)) m) \<Longrightarrow> moves m"
proof -
  assume k: "\<And>w. keeps (kept (grown w)) m"
  have "kept (grown w) (snd (m w))" if "worldInv w" for w
    using that by (intro keepsD [OF k]) (simp add: kept_def)
  then show "moves m" by (simp add: moves_def kept_def)
qed

lemma moves_activity: "moves m \<Longrightarrow> moves (activityK pt op m)"
  by (rule moves_keeps) (intro keeps_activity keeps_moves lasting_grown)

lemma movesD: "moves m \<Longrightarrow> m w = (r, w') \<Longrightarrow> worldInv w \<Longrightarrow> worldInv w' \<and> grown w w'"
  unfolding moves_def by (metis snd_conv)

text \<open>The world of the successful attempt is one the invariant holds of.\<close>

lemma attemptK_at:
  assumes "moves m"
  shows "attemptK pt op m n e w = (Inr x, w') \<Longrightarrow> worldInv w \<Longrightarrow> \<exists>w1. worldInv w1 \<and> grown w w1 \<and> m w1 = (Inr x, w')"
proof (induction n arbitrary: e w)
  case (Suc n)
  obtain r w2 where r: "m w = (r, w2)" by force
  from movesD [OF assms r Suc.prems(2)] have w2: "worldInv w2" "grown w w2" by blast+
  show ?case
  proof (cases r)
    case (Inl e')
    with Suc.prems(1) r have "attemptK pt op m n e' w2 = (Inr x, w')" by (auto split: if_splits)
    from Suc.IH [OF this w2(1)] w2(2) show ?thesis by (blast intro: grown_trans)
  next
    case (Inr y)
    with Suc.prems r show ?thesis by (intro exI [of _ w]) simp
  qed
qed (simp split: if_splits)

lemma activity_at:
  "moves m \<Longrightarrow> activityK pt op m w = (Inr x, w') \<Longrightarrow> worldInv w \<Longrightarrow> \<exists>w1. worldInv w1 \<and> grown w w1 \<and> m w1 = (Inr x, w')"
  unfolding activityK_def by (rule attemptK_at)

lemma moves_commitActivation: "moves (commitFoundryActivation pt k v n receipt)"
  by (rule moves_keeps) (intro keeps_commitActivation lasting_grown)

lemma commit_Inr:
  assumes c: "commitFoundryActivation pt k v n receipt w = (Inr (t, p), w')" and w: "worldInv w"
  shows "tx_kind t = k" "tx_to t = av_version_digest v" "tx_previous_revision t = n" "tx_receipt t = receipt"
    "t \<in> set (activationHistory (wd_registry w') (av_target_agent_id v) (av_target_domain_id v))"
    "k = Rollback_Tx \<Longrightarrow> truthy receipt"
    "list_all fst (assertActivationPreflight p k v n)"
    "foundryContentDigest (tx_binding t) = foundryContentDigest (buildRuntimeBindingVerification p)"
    "worldInv w' \<and> grown w w'"
proof -
  note * = c [unfolded commitFoundryActivation_def Let_def bindK_Inr simple_Inr]
  from * obtain w1 w2 now where pre: "\<not> (k = Rollback_Tx \<and> \<not> truthy receipt)"
    and p: "activityK pt (kindName k @ ''_runtime_preflight'') (\<lambda>w. portK (\<lambda>c. pt_preflight pt c (wd_registry w) k v n) w) w = (Inr p, w1)"
      "list_all fst (assertActivationPreflight p k v n)"
    and now: "nowK pt w1 = (Inr now, w2)"
    and a: "activityK pt (kindName k) (activateK \<lparr> ai_kind = k, ai_target_agent_id = av_target_agent_id v,
       ai_target_domain_id = av_target_domain_id v, ai_expected_revision = n, ai_version_digest = av_version_digest v,
       ai_occurred_at = now, ai_receipt = receipt, ai_binding = buildRuntimeBindingVerification p \<rparr>) w2 = (Inr t, w')"
    and t: "assertActivationTransaction (pt_date_ok pt) t k v n receipt (buildRuntimeBindingVerification p) = Inr ()"
    by (auto simp: runChecks_ok)
  from t show "tx_kind t = k" "tx_to t = av_version_digest v" "tx_previous_revision t = n" "tx_receipt t = receipt"
    "foundryContentDigest (tx_binding t) = foundryContentDigest (buildRuntimeBindingVerification p)"
    by (auto simp: assertActivationTransaction_def Let_def)
  show "k = Rollback_Tx \<Longrightarrow> truthy receipt" "list_all fst (assertActivationPreflight p k v n)" using pre p by auto
  have w2: "worldInv w2"
    using movesD [OF moves_activity [OF moves_port_world] p(1) w] movesD [OF moves_now now] by blast
  from activity_at [OF moves_activate a w2] obtain w3 where w3: "worldInv w3"
    "activateK \<lparr> ai_kind = k, ai_target_agent_id = av_target_agent_id v,
       ai_target_domain_id = av_target_domain_id v, ai_expected_revision = n, ai_version_digest = av_version_digest v,
       ai_occurred_at = now, ai_receipt = receipt, ai_binding = buildRuntimeBindingVerification p \<rparr> w3 = (Inr t, w')" by blast
  from activateK_Inr [OF w3(2, 1)]
  show "t \<in> set (activationHistory (wd_registry w') (av_target_agent_id v) (av_target_domain_id v))" by simp
  show "worldInv w' \<and> grown w w'"
    using movesD [OF moves_commitActivation c w] .
qed

lemma latestOwnerAuthority_Some:
  assumes "latestOwnerAuthority es = Inr (Some (ref, d))"
  shows "\<exists>e \<in> set es. evType e = ''owner_approved'' \<and> isDigest d \<and> ownerAuthorityReceiptRef d = Inr ref
    \<and> isStr (fld ''owner_authority_receipt_ref'' (fld ''payload'' e)) \<and> trimmed (fld ''owner_authority_receipt_ref'' (fld ''payload'' e)) = ref"
proof -
  from assms obtain e where e: "find carriesAuthority (rev es) = Some e"
    by (auto simp: latestOwnerAuthority_def split: option.splits)
  then have i: "e \<in> set es" "carriesAuthority e" by (auto simp: find_Some_iff set_rev [symmetric, of es] simp del: set_rev)
  with assms e show ?thesis
    by (intro bexI [OF _ i(1)]) (auto simp: latestOwnerAuthority_def carriesAuthority_def requiredDigest_def requiredRef_def
        split: if_splits)
qed

section \<open>Appending to the run that was inspected\<close>

text \<open>The inspection is current: the run has not grown since.\<close>

definition insCurrent :: "inspection \<Rightarrow> world \<Rightarrow> bool" where
  "insCurrent ins w \<longleftrightarrow> snapshotFromEvents (readRun (wd_events w) (sn_run_id (ip_run ins))) = Inr (ip_run ins)"

lemma chain_revision:
  assumes v: "verifyFoundryEventChain es = Inr ()" and x: "x \<in> set es"
  shows "\<exists>j. numOf (fld ''revision'' x) = jint j \<and> 1 \<le> j \<and> j \<le> int (length es)"
proof -
  from x obtain i where i: "i < length es" "x = es ! i" by (auto simp: in_set_conv_nth)
  have "numOf (fld ''revision'' (es ! i)) = jint (int i + 1)"
  proof -
    have "map (\<lambda>e. numOf (fld ''revision'' e)) es ! i = map (\<lambda>i. jint (int i + 1)) [0..<length es] ! i"
      using verify_chainSpec [OF v] unfolding chainSpec_def by metis
    then show ?thesis using i(1) by simp
  qed
  with i show ?thesis by (intro exI [of _ "int i + 1"]) simp
qed

lemma appendRunEvent_Inr:
  assumes a: "appendRunEvent pt ins ty to phase d payload w = (Inr e, w')" and c: "insCurrent ins w"
  shows "readRun (wd_events w') = (readRun (wd_events w))(sn_run_id (ip_run ins) :=
      readRun (wd_events w) (sn_run_id (ip_run ins)) @ [e])"
    "evType e = ty" "fld ''payload'' e = payload" "evState e = stateName to" "fld ''to_state'' e = JStr (stateName to)"
    "wd_registry w' = wd_registry w" "wd_objects w' = wd_objects w" "wd_journal w' = wd_journal w"
proof -
  let ?run = "ip_run ins"
  note * = a [unfolded appendRunEvent_def Let_def bindK_Inr simple_Inr nowK_def]
  then obtain now b where b: "buildFoundryEvent (sn_run_id ?run) (sn_revision ?run + 1) ty (Some (sn_run_state ?run)) to now
      (idempotencyKey ?run phase d) (Some (sn_last_event_hash ?run)) payload = Inr b"
    and k: "appendK (targetKey (requestAgent (ip_request ins)) (requestDomain (ip_request ins))) (sn_revision ?run) b
      (w\<lparr> wd_tick := Suc (wd_tick w) \<rparr>) = (Inr e, w')" by auto
  from buildFoundryEvent_Inr [OF b] obtain h where h: "b = withHash (eventBody (sn_run_id ?run) (sn_revision ?run + 1) ty
      (Some (sn_run_state ?run)) to now (idempotencyKey ?run phase d) (Some (sn_last_event_hash ?run)) payload) h" by blast
  have rid: "runIdOf b = sn_run_id ?run" by (simp add: h built_simps runIdOf_def)
  from k obtain s' where s': "appendEvent (wd_events w) (targetKey (requestAgent (ip_request ins)) (requestDomain (ip_request ins)))
      (sn_revision ?run) b = Inr (s', e)" "w' = w\<lparr> wd_tick := Suc (wd_tick w), wd_events := s' \<rparr>"
    by (auto simp: appendK_def split: sum.splits prod.splits)
  note f = snapshot_fields [OF c [unfolded insCurrent_def]]
  have e: "e = b \<and> readRun s' = (readRun (wd_events w))(runIdOf b := readRun (wd_events w) (runIdOf b) @ [b])"
    using s'(1)
  proof (cases rule: appendEvent_Inr)
    case (1 es)
    have es: "readRun (wd_events w) (sn_run_id ?run) = es" using readRun_eq [OF 1(1)] rid by simp
    from 1(5) have "numOf (fld ''revision'' e) = jint (sn_revision ?run + 1)"
      by (auto simp: assertFoundryEventReplay_def jeq_def)
    with chain_revision [OF f(6)] 1(3) es f(3) show ?thesis by fastforce
  next
    case (2 es)
    then show ?thesis using readRun_eq [OF 2(1)] by (auto simp: readRun_def update_conv)
  qed
  then show "readRun (wd_events w') = (readRun (wd_events w))(sn_run_id ?run := readRun (wd_events w) (sn_run_id ?run) @ [e])"
    using s'(2) rid by simp
  show "evType e = ty" "fld ''payload'' e = payload" "evState e = stateName to" "fld ''to_state'' e = JStr (stateName to)"
    using e by (simp_all add: h built_simps evType_def evState_def)
  show "wd_registry w' = wd_registry w" "wd_objects w' = wd_objects w" "wd_journal w' = wd_journal w" by (simp_all add: s'(2))
qed

section \<open>What the other writes leave alone\<close>

definition sameEvents :: "event_store \<Rightarrow> world \<Rightarrow> bool" where
  "sameEvents s w \<longleftrightarrow> wd_events w = s"

lemma keeps_events:
  "keeps (sameEvents s) (portK g)" "keeps (sameEvents s) (\<lambda>w. portK (h w) w)" "keeps (sameEvents s) (nowK pt)"
  "keeps (sameEvents s) (putK v)" "keeps (sameEvents s) (registerK i)" "keeps (sameEvents s) (activateK j)"
  "keeps (sameEvents s) (commitResultK a b c d)"
  by (auto simp: keeps_def sameEvents_def portK_def nowK_def putK_def registerK_def activateK_def commitResultK_def
      split: sum.splits prod.splits)

lemma keeps_events_calls:
  "keeps (sameEvents s) (commitFoundryActivation pt k v n receipt)" "keeps (sameEvents s) (registerQualified pt ins cand r)"
  "keeps (sameEvents s) (verifyOwnerAuthority pt ref action decision agent domain run version revision)"
  "keeps (sameEvents s) (evidenceK pt ins canary opts operation b cand qv baseline)"
  unfolding commitFoundryActivation_def registerQualified_def verifyOwnerAuthority_def evidenceK_def Let_def
  by (intro keeps_rules keeps_events)+

definition sameRegistry :: "registry \<Rightarrow> world \<Rightarrow> bool" where
  "sameRegistry g w \<longleftrightarrow> wd_registry w = g"

lemma keeps_registry: "keeps (sameRegistry g) (appendRunEvent pt ins ty to phase d payload)"
proof -
  have "keeps (sameRegistry g) (appendK k n e)" "keeps (sameRegistry g) (nowK pt)" for k n e
    by (auto simp: keeps_def sameRegistry_def appendK_def nowK_def portK_def split: sum.splits prod.splits)
  then show ?thesis unfolding appendRunEvent_def Let_def by (intro keeps_rules)
qed

lemma same_after: "keeps (sameEvents s) m \<Longrightarrow> m w = (r, w') \<Longrightarrow> wd_events w = s \<Longrightarrow> wd_events w' = s"
  "keeps (sameRegistry g) m \<Longrightarrow> m w = (r, w') \<Longrightarrow> wd_registry w = g \<Longrightarrow> wd_registry w' = g"
  by (auto simp: keeps_def sameEvents_def sameRegistry_def)

section \<open>Authority\<close>

text \<open>The owner gate answered with a verification that covers the context it was asked about.\<close>

definition gateVerified :: "ports \<Rightarrow> gate_context \<Rightarrow> gate_verification \<Rightarrow> bool" where
  "gateVerified pt c g \<longleftrightarrow> (\<exists>n answer. pt_verify pt n c = Inr answer
     \<and> validateOwnerGateVerification (pt_date_ok pt) (contextJson c) answer = Inr g
     \<and> coversContext c (gv_receipt g) (gv_covered_authority_ref g))"

lemma verifyOwner_Inr:
  assumes "verifyOwnerAuthority pt ref action decision agent domain run version revision w = (Inr g, w')"
  shows "\<exists>c. gateVerified pt c g \<and> cx_authority_receipt_ref c = trimmed ref \<and> Some (cx_action c) = actionOf (trim action)
    \<and> Some (cx_decision c) = decisionOf (trim decision) \<and> cx_target_agent_id c = trimmed agent
    \<and> cx_target_domain_id c = trimmed domain \<and> cx_run_id c = map_option trim run
    \<and> cx_version_digest c = map_option trim version \<and> cx_expected_revision c = revision"
proof -
  let ?v = "JObj [(''surface_kind'', JStr ''opl_foundry_owner_gate_verification_context''),
        (''version'', JStr ''opl-foundry-owner-gate-verification-context.v1''),
        (''authority_receipt_ref'', ref), (''action'', JStr action), (''decision'', JStr decision),
        (''target_agent_id'', agent), (''target_domain_id'', domain),
        (''run_id'', ofOptStr run), (''version_digest'', ofOptStr version), (''expected_revision'', jInt revision)]"
  from assms obtain c n answer where c: "validateOwnerGateVerificationContext ?v = Inr c"
    and a: "pt_verify pt n c = Inr answer"
    and g: "validateOwnerGateVerification (pt_date_ok pt) (contextJson c) answer = Inr g"
    by (auto simp: verifyOwnerAuthority_def)
  have "coversContext c (gv_receipt g) (gv_covered_authority_ref g)"
    using verification_facts(1) [OF g] validateContext_contextJson [OF validateContext_wf [OF c]] by simp
  then have "gateVerified pt c g" using a g by (auto simp: gateVerified_def)
  moreover have k: "list_all fst (contextChecks ?v)" using c by (auto simp: validateOwnerGateVerificationContext_def)
  then have "list_all fst (mutationChecks ''Owner gate verification context'' ''Owner gate context'' ''Owner gate context'' ?v)"
    by (simp add: contextChecks_def)
  from mutationChecks_facts [OF this] have "actionOf (trim action) \<noteq> None" "decisionOf (trim decision) \<noteq> None" by auto
  ultimately show ?thesis
    using c by (intro exI [of _ c]) (auto simp: validateOwnerGateVerificationContext_def)
qed

lemma activateRun_Inr:
  assumes a: "activateRun pt ins w = (Inr e, w')" and w: "worldInv w"
  shows "\<exists>v t. resolveVersion (wd_registry w) (sn_version_digest (ip_run ins)) (requestAgent (ip_request ins))
        (requestDomain (ip_request ins)) = Some v
    \<and> t \<in> set (activationHistory (wd_registry w') (av_target_agent_id v) (av_target_domain_id v))
    \<and> tx_kind t = Activate_Tx \<and> tx_to t = av_version_digest v
    \<and> tx_previous_revision t = sn_activation_revision_at_start (ip_run ins)
    \<and> (sn_risk_tier (ip_run ins) \<noteq> JStr ''low'' \<longrightarrow>
        (\<exists>x \<in> set (readRun (wd_events w) (sn_run_id (ip_run ins))). evType x = ''owner_approved''
          \<and> tx_receipt t = Some (trimmed (fld ''owner_authority_receipt_ref'' (fld ''payload'' x)))))"
proof -
  let ?run = "ip_run ins"
  note * = a [unfolded activateRun_def Let_def bindK_Inr simple_Inr]
  from * obtain authority v t p w1 where
    au: "latestOwnerAuthority (readRun (wd_events w) (sn_run_id ?run)) = Inr authority"
    and gate: "\<not> (active_owner_required (ownerGatePolicy (sn_risk_tier ?run)) \<and> authority = None)"
    and v: "resolveVersion (wd_registry w) (sn_version_digest ?run) (requestAgent (ip_request ins)) (requestDomain (ip_request ins)) = Some v"
    and c: "commitFoundryActivation pt Activate_Tx v (sn_activation_revision_at_start ?run) (map_option fst authority) w = (Inr (t, p), w1)"
    and ap: "appendRunEvent pt ins ''activation_completed'' Completed_Active ''activate'' (templateText (sn_version_digest ?run))
       (activationPayload t p authority) w1 = (Inr e, w')"
    by (auto split: option.splits prod.splits simp: runChecks_ok)
  note f = commit_Inr [OF c w]
  have r: "wd_registry w' = wd_registry w1" by (rule same_after(2) [OF keeps_registry ap refl])
  have "\<exists>x \<in> set (readRun (wd_events w) (sn_run_id ?run)). evType x = ''owner_approved''
      \<and> tx_receipt t = Some (trimmed (fld ''owner_authority_receipt_ref'' (fld ''payload'' x)))"
    if "sn_risk_tier ?run \<noteq> JStr ''low''"
  proof -
    from that gate obtain ref d where "authority = Some (ref, d)" by (auto simp: ownerGatePolicy_def)
    with latestOwnerAuthority_Some [of _ ref d] au f(4) show ?thesis by fastforce
  qed
  with v f(1-3, 5) r show ?thesis by (intro exI [of _ v] exI [of _ t]) auto
qed

lemma option_failK_Inr: "(case x of None \<Rightarrow> failK m | Some v \<Rightarrow> f v) w = (Inr y, w') \<longleftrightarrow> (\<exists>v. x = Some v \<and> f v w = (Inr y, w'))"
  by (cases x) simp_all

lemma rollbackBlueprint_same: "rollbackBlueprint a d v l1 l2 l3 m w = (r, w') \<Longrightarrow> w' = w"
proof -
  have "keeps (\<lambda>x. x = w) (rollbackBlueprint a d v l1 l2 l3 m)" unfolding rollbackBlueprint_def by (intro keeps_rules)
  from keepsD [OF this, of w] show "rollbackBlueprint a d v l1 l2 l3 m w = (r, w') \<Longrightarrow> w' = w" by simp
qed

lemma verifyOwner_same: "verifyOwnerAuthority pt ref action decision agent domain run version revision w = (r, w') \<Longrightarrow> sameStores w w'"
proof -
  have "keeps (sameStores w) (verifyOwnerAuthority pt ref action decision agent domain run version revision)"
    unfolding verifyOwnerAuthority_def by (intro keeps_rules keeps_port_same)
  from keepsD [OF this, of w]
  show "verifyOwnerAuthority pt ref action decision agent domain run version revision w = (r, w') \<Longrightarrow> sameStores w w'"
    by (simp add: sameStores_def)
qed

lemma guards_Inr [simp]:
  "requiredRef v f = Inr r \<longleftrightarrow> isStr v \<and> trimmed v \<noteq> [] \<and> r = trimmed v"
  "requiredDigest v f = Inr r \<longleftrightarrow> isStr v \<and> isDigest (trimmed v) \<and> trimmed v \<noteq> [] \<and> r = trimmed v"
  "expectedRevisionOf v = Inr n \<longleftrightarrow> isSafeInteger (numOf v) \<and> \<not> jlt (numOf v) (jint 0) \<and> n = intOf v"
  by (auto simp: requiredRef_def requiredDigest_def expectedRevisionOf_def runChecks_ok)

lemma action_trim: "actionOf (trim (actionName a)) = Some a" "decisionOf (trim (decisionName d)) = Some d"
  by simp_all

lemmas rollback_names = action_trim(1) [of Rollback, unfolded actionName.simps] action_trim(2) [of Roll_Back, unfolded decisionName.simps]

lemma rollback_Inr:
  assumes r: "rollbackActivation pt agent domain version revision receipt w = (Inr (t, p), w')" and w: "worldInv w"
  shows "tx_kind t = Rollback_Tx"
    "t \<in> set (activationHistory (wd_registry w') (trimmed agent) (trimmed domain))"
    "tx_to t = trimmed version" "tx_previous_revision t = intOf revision"
    "\<exists>x \<in> set (activationHistory (wd_registry w) (trimmed agent) (trimmed domain)). tx_to x = trimmed version"
    "\<exists>c g. gateVerified pt c g \<and> cx_action c = Rollback \<and> cx_decision c = Roll_Back \<and> cx_run_id c = None
      \<and> cx_version_digest c = Some (trimmed version) \<and> cx_expected_revision c = intOf revision
      \<and> cx_target_agent_id c = trimmed agent \<and> cx_target_domain_id c = trimmed domain
      \<and> tx_receipt t = Some (or_receipt_ref (gv_receipt g))"
proof -
  let ?a = "trimmed agent" and ?d = "trimmed domain" and ?v = "trimmed version" and ?n = "intOf revision"
  have "\<exists>v g w1. av_version_digest v = ?v \<and> av_target_agent_id v = ?a \<and> av_target_domain_id v = ?d
      \<and> list_ex (\<lambda>t. tx_to t = ?v) (activationHistory (wd_registry w) ?a ?d)
      \<and> verifyOwnerAuthority pt (JStr (trimmed receipt)) ''rollback'' ''rollback'' (JStr ?a) (JStr ?d) None (Some ?v) ?n w = (Inr g, w1)
      \<and> commitFoundryActivation pt Rollback_Tx v ?n (Some (or_receipt_ref (gv_receipt g))) w1 = (Inr (t, p), w')"
    using r unfolding rollbackActivation_def
    by (simp only: bindK_Inr simple_Inr guards_Inr option_failK_Inr)
      (elim exE conjE, hypsubst, (drule rollbackBlueprint_same)+, hypsubst, intro exI conjI, assumption+)
  then obtain v g w1 where v: "av_version_digest v = ?v" "av_target_agent_id v = ?a" "av_target_domain_id v = ?d"
    and h: "list_ex (\<lambda>t. tx_to t = ?v) (activationHistory (wd_registry w) ?a ?d)"
    and g: "verifyOwnerAuthority pt (JStr (trimmed receipt)) ''rollback'' ''rollback'' (JStr ?a) (JStr ?d) None (Some ?v) ?n w = (Inr g, w1)"
    and c: "commitFoundryActivation pt Rollback_Tx v ?n (Some (or_receipt_ref (gv_receipt g))) w1 = (Inr (t, p), w')"
    by blast
  have w1: "worldInv w1" using verifyOwner_same [OF g] w by (simp add: sameStores_def worldInv_def)
  note f = commit_Inr [OF c w1]
  show "tx_kind t = Rollback_Tx" "tx_to t = ?v" "tx_previous_revision t = ?n"
    "t \<in> set (activationHistory (wd_registry w') ?a ?d)" using f(1-3, 5) v by simp_all
  show "\<exists>x \<in> set (activationHistory (wd_registry w) ?a ?d). tx_to x = ?v" using h by (auto simp: list_ex_iff)
  from verifyOwner_Inr [OF g] obtain c where "gateVerified pt c g" "Some (cx_action c) = actionOf (trim ''rollback'')"
    "Some (cx_decision c) = decisionOf (trim ''rollback'')" "cx_target_agent_id c = trimmed (JStr ?a)"
    "cx_target_domain_id c = trimmed (JStr ?d)" "cx_run_id c = map_option trim None"
    "cx_version_digest c = map_option trim (Some ?v)" "cx_expected_revision c = ?n" by blast
  then show "\<exists>c g. gateVerified pt c g \<and> cx_action c = Rollback \<and> cx_decision c = Roll_Back \<and> cx_run_id c = None
      \<and> cx_version_digest c = Some ?v \<and> cx_expected_revision c = ?n
      \<and> cx_target_agent_id c = ?a \<and> cx_target_domain_id c = ?d
      \<and> tx_receipt t = Some (or_receipt_ref (gv_receipt g))"
    using f(4) by (intro exI [of _ c] exI [of _ g]) (simp only: rollback_names option.inject trimmed_JStr trimmed_def [of agent]
        trimmed_def [of domain] trimmed_def [of version] trim_trim option.map simp_thms)
qed

text \<open>Lookups do not change the world.\<close>

lemma lookups_same:
  "blueprintK ins w = (r1, w') \<Longrightarrow> w' = w" "versionK ins w = (r2, w') \<Longrightarrow> w' = w" "candidateK ins w = (r3, w') \<Longrightarrow> w' = w"
  "inspectRun r w = (r4, w') \<Longrightarrow> w' = w" "objectK d l w = (r5, w') \<Longrightarrow> w' = w"
proof -
  have k: "keeps (\<lambda>x. x = w) m \<Longrightarrow> m w = (r, w') \<Longrightarrow> w' = w" for m :: "'x kern" and r
    using keepsD [where P = "\<lambda>x. x = w" and m = m and w = w] by auto
  show "blueprintK ins w = (r1, w') \<Longrightarrow> w' = w" "versionK ins w = (r2, w') \<Longrightarrow> w' = w" "candidateK ins w = (r3, w') \<Longrightarrow> w' = w"
    "inspectRun r w = (r4, w') \<Longrightarrow> w' = w" "objectK d l w = (r5, w') \<Longrightarrow> w' = w"
    using keeps_lookups keeps_inspect keeps_object keepsD [where P = "\<lambda>x. x = w" and w = w] by (metis snd_conv)+
qed

definition decidedAction :: "run_state \<Rightarrow> bool \<Rightarrow> gate_action" where
  "decidedAction s rejected = (if s = Awaiting_Owner_Canary then (if rejected then Reject_Canary else Approve_Canary)
     else (if rejected then Reject_Active else Approve_Active))"

lemma decidedAction_name:
  assumes "decision = JStr ''approve'' \<or> decision = JStr ''reject''"
  shows "actionOf (trim (ownerDecisionAction s (strOf decision))) = Some (decidedAction s (decision = JStr ''reject''))"
proof -
  have "ownerDecisionAction s (strOf decision) = actionName (decidedAction s (decision = JStr ''reject''))"
    using assms by (auto simp: ownerDecisionAction_def decidedAction_def)
  then show ?thesis by simp
qed

lemma versionK_digest: "versionK ins w = (Inr v, w') \<Longrightarrow> Some (av_version_digest v) = sn_version_digest (ip_run ins)"
  by (auto simp: versionK_def option_failK_Inr resolveVersion_def Let_def truthy_def find_Some_iff split: if_splits option.splits)

lemma append_inv:
  assumes e: "appendRunEvent pt ins ty to phase d payload w = (r, w')" and ok: "insOk ins w" and w: "worldInv w"
  shows "worldInv w'"
proof -
  have "keeps (kept (insOk ins)) (appendRunEvent pt ins ty to phase d payload)"
    by (rule keeps_append_on) (simp add: onRun_def lasting_insOk)
  from keepsD [OF this, of w] e ok w show ?thesis by (simp add: kept_def)
qed

lemma submit_Inr:
  assumes s: "submitOwnerDecision pt r revision decision receipt advance w = (Inr x, w')"
    and w: "worldInv w" and pt: "portValues pt"
    and i: "inspectRun r w = (Inr ins, w)" "sn_revision (ip_run ins) = intOf revision"
  shows "\<exists>c g e. gateVerified pt c g \<and> cx_action c = decidedAction (sn_run_state (ip_run ins)) (decision = JStr ''reject'')
    \<and> cx_authority_receipt_ref c = trimmed receipt \<and> cx_run_id c = Some (trim r)
    \<and> cx_version_digest c = map_option trim (sn_version_digest (ip_run ins)) \<and> cx_expected_revision c = intOf revision
    \<and> prefix (readRun (wd_events w) r @ [e]) (readRun (wd_events w') r)
    \<and> evType e = (if decision = JStr ''reject'' then ''owner_rejected'' else ''owner_approved'')
    \<and> fld ''payload'' e = ownerVerificationPayload g"
proof -
  let ?run = "ip_run ins"
  note f = inspectRun_Inr [OF i(1) w]
  define finish where "finish = (if \<not> decision = JStr ''reject'' \<and> advance then advanceUntilPause pt r else inspectRun r)"
  have "\<exists>v g w1 e w2 to. (decision = JStr ''approve'' \<or> decision = JStr ''reject'') \<and> versionK ins w = (Inr v, w)
      \<and> verifyOwnerAuthority pt (JStr (trimmed receipt)) (ownerDecisionAction (sn_run_state ?run) (strOf decision))
       (strOf decision) (fld ''target_agent_id'' (ip_request ins)) (fld ''target_domain_id'' (ip_request ins))
       (Some (sn_run_id ?run)) (Some (av_version_digest v)) (intOf revision) w = (Inr g, w1)
      \<and> appendRunEvent pt ins (if decision = JStr ''reject'' then ''owner_rejected'' else ''owner_approved'') to
         (''owner_'' @ strOf decision) (or_receipt_digest (gv_receipt g)) (ownerVerificationPayload g) w1 = (Inr e, w2)
      \<and> finish w2 = (Inr x, w')"
    using s unfolding submitOwnerDecision_def Let_def finish_def [symmetric]
    apply (simp only: bindK_Inr simple_Inr guards_Inr)
    apply (elim exE conjE, hypsubst, frule lookups_same(4), hypsubst)
    apply (simp only: i(1) prod.inject sum.inject simp_thms)
    apply hypsubst
    apply (simp only: i(2) simp_thms if_False bindK_Inr simple_Inr)
    apply (elim exE conjE, hypsubst)
    apply (drule lookups_same(1), hypsubst, frule lookups_same(2), hypsubst)
    apply (intro exI conjI, assumption+)
    done
  then obtain v g w1 e w2 to where d: "decision = JStr ''approve'' \<or> decision = JStr ''reject''" and v: "versionK ins w = (Inr v, w)"
    and g: "verifyOwnerAuthority pt (JStr (trimmed receipt)) (ownerDecisionAction (sn_run_state ?run) (strOf decision))
       (strOf decision) (fld ''target_agent_id'' (ip_request ins)) (fld ''target_domain_id'' (ip_request ins))
       (Some (sn_run_id ?run)) (Some (av_version_digest v)) (intOf revision) w = (Inr g, w1)"
    and e: "appendRunEvent pt ins (if decision = JStr ''reject'' then ''owner_rejected'' else ''owner_approved'') to
         (''owner_'' @ strOf decision) (or_receipt_digest (gv_receipt g)) (ownerVerificationPayload g) w1 = (Inr e, w2)"
    and fin: "finish w2 = (Inr x, w')" by blast
  have st: "sameStores w w1" by (rule verifyOwner_same [OF g])
  then have w1: "worldInv w1" and cur: "insCurrent ins w1" and ok: "insOk ins w1"
    using w f(2-4) by (simp_all add: sameStores_def worldInv_def insCurrent_def insOk_def)
  note ap = appendRunEvent_Inr [OF e cur]
  have rd: "readRun (wd_events w2) r = readRun (wd_events w) r @ [e]" using ap(1) st f(2) by (simp add: sameStores_def)
  have w2: "worldInv w2" by (rule append_inv [OF e ok w1])
  have "moves finish" unfolding finish_def
    by (rule moves_keeps) (intro keeps_if keeps_advance keeps_inspect lasting_grown pt)
  from movesD [OF this fin w2] have "prefix (readRun (wd_events w2) r) (readRun (wd_events w') r)" by (simp add: grown_def)
  moreover from verifyOwner_Inr [OF g] obtain c where "gateVerified pt c g" "cx_authority_receipt_ref c = trimmed (JStr (trimmed receipt))"
    "Some (cx_action c) = actionOf (trim (ownerDecisionAction (sn_run_state ?run) (strOf decision)))"
    "cx_run_id c = map_option trim (Some (sn_run_id ?run))" "cx_version_digest c = map_option trim (Some (av_version_digest v))"
    "cx_expected_revision c = intOf revision" by blast
  moreover have "Some (av_version_digest v) = sn_version_digest ?run" by (rule versionK_digest [OF v])
  ultimately show ?thesis
    using ap(2, 3) rd f(2) decidedAction_name [OF d]
    by (intro exI [of _ c] exI [of _ g] exI [of _ e]) (auto simp: trimmed_def)
qed

section \<open>Evaluations happen once\<close>

text \<open>
  When an evaluation succeeds its result is in the journal, and the evidence is the stored
  object of that digest.
\<close>

lemma putK_Inr:
  assumes "putK v w = (Inr (d, ref), w')"
  shows "foundryContentDigest v = Inr d" "getObject (wd_objects w') d = Some v"
    "wd_journal w' = wd_journal w" "wd_events w' = wd_events w" "wd_registry w' = wd_registry w"
proof -
  from assms obtain s' where p: "putObject (wd_objects w) v = Inr (s', d, ref)" "w' = w\<lparr> wd_objects := s' \<rparr>"
    by (auto simp: putK_def split: sum.splits)
  from putObject_Inr [OF p(1)] p(2) show "foundryContentDigest v = Inr d" "getObject (wd_objects w') d = Some v"
    "wd_journal w' = wd_journal w" "wd_events w' = wd_events w" "wd_registry w' = wd_registry w" by simp_all
qed

text \<open>The result a commit returns names the committed bytes, also when it was there before.\<close>

lemma plain_resultJson: "wfIdentity r \<Longrightarrow> plain (resultJson r)"
  using plain_identityJson [of r] by (simp add: resultJson_def resultBaseJson_def identityJson_def)

lemma commitResult_digest:
  assumes inv: "journalInv j" and c: "commitResult j idv (JStr d) ref t = Inr (j', r)"
  shows "ox_evidence_digest r = d"
  using c
proof (cases rule: commitResult_Inr)
  case 1
  from materializeResult_Inr(3) [OF 1(1)] show ?thesis by simp
next
  case (2 m)
  from journalInvD [OF inv 2(2)] obtain i' d' ref' t' where
    r: "materializeFoundryOperationResult i' d' ref' t' = Inr r" by blast
  have n: "norm (resultJson r) = norm (resultJson m)"
    using canonicalJsonText_inj [OF plain_resultJson plain_resultJson] 2(4)
      materializeResult_Inr(1) [OF r] materializeResult_Inr(1) [OF 2(1)] by simp
  have "distinct (objKeys (resultJson x))" for x
    by (simp add: resultJson_def resultBaseJson_def identityJson_def)
  then have "norm (fld ''evidence_digest'' (resultJson r)) = norm (fld ''evidence_digest'' (resultJson m))"
    by (intro norm_fld_eq [OF n])
  with materializeResult_Inr(3) [OF 2(1)] show ?thesis by (simp add: resultJson_fld)
qed

lemma commitResultK_Inr:
  assumes "commitResultK i (JStr d) ref t w = (Inr r, w')" "worldInv w"
  shows "readResult (wd_journal w') i = Inr (Some r)" "ox_evidence_digest r = d" "wd_objects w' = wd_objects w"
proof -
  from assms(1) obtain j' where c: "commitResult (wd_journal w) i (JStr d) ref t = Inr (j', r)"
    "w' = w\<lparr> wd_journal := j' \<rparr>" by (auto simp: commitResultK_def split: sum.splits)
  have j: "journalInv (wd_journal w)" using assms(2) by (simp add: worldInv_def)
  show "readResult (wd_journal w') i = Inr (Some r)" "ox_evidence_digest r = d" "wd_objects w' = wd_objects w"
    using read_after_commit [OF j c(1)] commitResult_digest [OF j c(1)] c(2) by simp_all
qed

lemma objectK_Inr: "objectK (Some d) l w = (Inr v, w') \<longleftrightarrow> getObject (wd_objects w) d = Some v \<and> v \<noteq> JNull \<and> w' = w"
  by (auto simp: objectK_def)

lemma readResultK_Inr: "readResultK i w = (Inr x, w') \<longleftrightarrow> readResult (wd_journal w) i = Inr x \<and> w' = w"
  by (auto simp: readResultK_def)

definition evidenceRecorded :: "ports \<Rightarrow> op_identity \<Rightarrow> op_result \<Rightarrow> json \<Rightarrow> world \<Rightarrow> bool" where
  "evidenceRecorded pt operation r e w \<longleftrightarrow> readResult (wd_journal w) (identityJson operation) = Inr (Some r)
     \<and> foundryContentDigest e = Inr (ox_evidence_digest r)
     \<and> (\<exists>v. getObject (wd_objects w) (ox_evidence_digest r) = Some v \<and> validateEvidenceBundle (pt_date_ok pt) v = Inr e)"

lemma evidenceK_recorded:
  assumes e: "evidenceK pt ins canary opts operation b c version baseline w = (Inr (r, e), w')"
    and w: "worldInv w" and pt: "portValues pt"
  shows "evidenceRecorded pt operation r e w'" "\<exists>f. evidenceOk pt ins b e c baseline = Inr f"
proof -
  have "evidenceRecorded pt operation r e w' \<and> (\<exists>f. evidenceOk pt ins b e c baseline = Inr f)"
  proof (cases "readResult (wd_journal w) (identityJson operation)")
    case (Inl x)
    with e show ?thesis by (simp add: evidenceK_def readResultK_Inr)
  next
    case (Inr journaled)
    show ?thesis
    proof (cases journaled)
      case (Some r')
      with e Inr show ?thesis
        by (simp add: evidenceK_def readResultK_Inr objectK_Inr evidenceRecorded_def) blast
    next
      case None
      let ?call = "if canary
          then activityK pt ''canary'' (portK (\<lambda>n. pt_canary pt n (evaluationInput ins operation b c version baseline)))
          else activityK pt ''evaluate'' (portK (\<lambda>n. pt_evaluate pt n (evaluationInput ins operation b c None baseline)))"
      from e Inr None obtain w1 v f stored ref w2 where call: "?call w = (Inr v, w1)"
        and v: "validateEvidenceBundle (pt_date_ok pt) v = Inr e" and f: "evidenceOk pt ins b e c baseline = Inr f"
        and p: "putK e w1 = (Inr (stored, ref), w2)"
        and k: "commitResultK (identityJson operation) (JStr stored) (JStr ref) (fld ''evaluated_at'' (fld ''provenance'' e)) w2
          = (Inr r, w')"
        by (auto simp: evidenceK_def readResultK_Inr split: if_splits)
      have w1: "worldInv w1"
        using call by (auto split: if_splits dest!: movesD [OF moves_activity [OF moves_port] _ w])
      have ev: "e = v" using validated_same(2) [OF v] .
      have "jsValue v" using call by (auto split: if_splits dest!: activity_port dest: portValuesD [OF pt])
      then have w2: "worldInv w2" using movesD [OF moves_put p w1] ev by simp
      note q = putK_Inr [OF p] and c = commitResultK_Inr [OF k w2]
      show ?thesis using q(1, 2) c f v ev by (simp add: evidenceRecorded_def)
    qed
  qed
  then show "evidenceRecorded pt operation r e w'" "\<exists>f. evidenceOk pt ins b e c baseline = Inr f" by blast+
qed

text \<open>With the result in the journal no evaluator is called and nothing is written.\<close>

lemma evidenceK_replayed:
  assumes "readResult (wd_journal w) (identityJson operation) = Inr (Some r)"
  shows "snd (evidenceK pt ins canary opts operation b c version baseline w) = w"
proof -
  have k: "keeps (\<lambda>x. x = w) (bindK (objectK (Some (ox_evidence_digest r)) ''journaled EvidenceBundle'') (\<lambda>v.
         bindK (liftK (validateEvidenceBundle (pt_date_ok pt) v)) (\<lambda>e.
         bindK (liftK (foundryContentDigest e)) (\<lambda>d.
         bindK (checkK (d = ox_evidence_digest r)
           ''Journaled EvidenceBundle bytes do not match the operation result digest.'') (\<lambda>u.
         bindK (liftK (evidenceOk pt ins b e c baseline)) (\<lambda>f.
         retK (r, e)))))))" (is "keeps _ ?m")
    by (intro keeps_rules)
  have "evidenceK pt ins canary opts operation b c version baseline w = ?m w"
    by (subst evidenceK_def, subst bindK_def) (simp add: readResultK_def assms)
  with keepsD [OF k, of w] show ?thesis by simp
qed

text \<open>Asked to replay only, nothing is called: the missing result is reported with its key.\<close>

lemma evidenceK_replay_only:
  assumes "readResult (wd_journal w) (identityJson operation) = Inr None" "op_replay_only opts"
  shows "evidenceK pt ins canary opts operation b c version baseline w =
    (Inl (OperationResultUnavailable (oi_operation_key operation)), w)"
  by (subst evidenceK_def, subst bindK_def) (simp add: readResultK_def assms throwK_def)

section \<open>Retries\<close>

text \<open>An activity over a port calls it at most \<open>pt_max_attempts\<close> times.\<close>

lemma attemptK_ticks: "attemptK pt op (portK g) n e w = (r, w') \<Longrightarrow> wd_tick w' \<le> wd_tick w + n"
proof (induction n arbitrary: e w)
  case (Suc n)
  show ?case
  proof (cases "g (wd_tick w)")
    case (Inl x)
    then show ?thesis
      using Suc.prems Suc.IH [of x "w\<lparr> wd_tick := Suc (wd_tick w) \<rparr>"] by (auto simp: portK_def split: if_splits)
  qed (use Suc.prems in \<open>auto simp: portK_def\<close>)
qed (simp split: if_splits)

text \<open>It fails with the error of an attempt, or with the error of the exhausted budget.\<close>

lemma attemptK_failure:
  "attemptK pt op (portK g) n e w = (Inl x, w') \<Longrightarrow> isTransient x \<Longrightarrow> pt_propagate pt"
proof (induction n arbitrary: e w)
  case (Suc n)
  show ?case
  proof (cases "g (wd_tick w)")
    case (Inl y)
    with Suc.prems Suc.IH [of y "w\<lparr> wd_tick := Suc (wd_tick w) \<rparr>"] show ?thesis
      by (cases x; cases y) (auto simp: portK_def split: if_splits)
  qed (use Suc.prems in \<open>auto simp: portK_def\<close>)
qed (cases x; auto split: if_splits)

text \<open>A call that answers after some transient failures is a success.\<close>

lemma attemptK_success:
  assumes "\<And>j. j < n \<Longrightarrow> \<exists>m. g (t + j) = Inl (TransientActivityError m)" "g (t + n) = Inr x" "wd_tick w = t"
  shows "attemptK pt op (portK g) (Suc (n + k)) e w = (Inr x, w\<lparr> wd_tick := t + n + 1 \<rparr>)"
  using assms
proof (induction n arbitrary: e w t)
  case 0
  then show ?case by (simp add: portK_def)
next
  case (Suc n)
  from Suc.prems(1) [of 0] obtain m where m: "g t = Inl (TransientActivityError m)" by auto
  have "attemptK pt op (portK g) (Suc (n + k)) (TransientActivityError m) (w\<lparr> wd_tick := Suc t \<rparr>) =
      (Inr x, w\<lparr> wd_tick := Suc t \<rparr>\<lparr> wd_tick := Suc t + n + 1 \<rparr>)"
    by (rule Suc.IH) (use Suc.prems(1) [of "Suc _"] Suc.prems(2) in auto)
  moreover have "portK g w = (Inl (TransientActivityError m), w\<lparr> wd_tick := Suc t \<rparr>)"
    using m Suc.prems(3) by (simp add: portK_def)
  ultimately show ?case by (subst add_Suc, subst attemptK.simps(2)) (simp del: attemptK.simps)
qed

section \<open>Paused, existing and failed runs\<close>

lemma advance_paused:
  assumes "inspectRun r w = (Inr ins, w)" "isPaused (sn_run_state (ip_run ins))"
  shows "advanceRunStep pt r opts w = (Inr ins, w)" "advanceUntilPause pt r w = (Inr ins, w)"
proof -
  show "advanceRunStep pt r opts w = (Inr ins, w)" using assms by (simp add: advanceRunStep_def bindK_def retK_def)
  have "advanceLoop pt r (Suc n) w = (Inr ins, w)" for n using assms by (simp add: bindK_def retK_def)
  from this [of 63] show "advanceUntilPause pt r w = (Inr ins, w)" by (simp add: advanceUntilPause_def numeral_eq_Suc)
qed

lemma startRun_existing:
  assumes r: "trim r \<noteq> []" "readRun (wd_events w) (trim r) \<noteq> []"
    and v: "validateDesignRequest v = Inr request" "foundryContentDigest request = Inr d"
  shows "startRun pt v (Some r) w = (existingRun (readRun (wd_events w) (trim r)) d, w)"
  using assms by (simp add: startRun_def startRunWith_def Let_def bindK_def retK_def checkK_def liftK_def readK_def runChecks_ok)

end
