(* ===== verification/Kernel_Loop.thy ===== *)
theory Kernel_Loop
  imports Kernel_Facts
begin

text \<open>
  One automatic step of a run against its specification, and the bound of the loop over
  the steps: \<open>advances\<close> is the step relation of \<open>advanceOne\<close> with its guards, and a
  measure over it shows that the 64 transitions of \<open>advanceUntilPause\<close> are never used up.
\<close>

section \<open>The automatic steps\<close>

text \<open>The generation may be raised again: it is a number below the one the request allows.\<close>

definition withinBudget :: "inspection \<Rightarrow> bool" where
  "withinBudget ins \<longleftrightarrow> (\<exists>i. sn_generation (ip_run ins) = jint i \<and> 0 \<le> i)
     \<and> \<not> jle (numOf (fld ''max_generations'' (fld ''delivery_policy'' (ip_request ins)))) (sn_generation (ip_run ins))"

definition keepsGeneration :: "json \<Rightarrow> bool" where
  "keepsGeneration p \<longleftrightarrow> ''generation'' \<notin> set (objKeys p)"

inductive advances :: "inspection \<Rightarrow> run_state \<Rightarrow> string \<Rightarrow> run_state \<Rightarrow> json \<Rightarrow> bool" for ins :: inspection where
  design_started: "advances ins Accepted ''design_started'' Designing (JObj [])"
| blueprint_admitted: "fld ''generation'' p = jInt 0 \<Longrightarrow> distinct (objKeys p) \<Longrightarrow>
    advances ins Designing ''blueprint_admitted'' Materializing p"
| candidate_materialized: "keepsGeneration p \<Longrightarrow> advances ins Materializing ''candidate_materialized'' Evaluating p"
| candidate_qualified: "keepsGeneration p \<Longrightarrow> advances ins Evaluating ''candidate_qualified'' Qualified p"
| evaluation_failed: "keepsGeneration p \<Longrightarrow> withinBudget ins \<Longrightarrow>
    advances ins Evaluating ''evaluation_failed'' Evidence_Ready p"
| budget_exhausted: "s = Evaluating \<or> s = Canary \<Longrightarrow> advances ins s ''evolution_budget_exhausted'' Completed_Unqualified p"
| diagnosis_started: "advances ins Evidence_Ready ''diagnosis_started'' Diagnosing (JObj [])"
| no_change: "advances ins Diagnosing ''evolution_no_change'' Completed_Unqualified p"
| proposal_admitted: "fld ''generation'' p = JNum (jadd (sn_generation (ip_run ins)) (jint 1)) \<Longrightarrow> distinct (objKeys p) \<Longrightarrow>
    advances ins Diagnosing ''evolution_proposal_admitted'' Materializing p"
| qualify_only: "fld ''activation_mode'' (fld ''delivery_policy'' (ip_request ins)) = JStr ''qualify_only'' \<Longrightarrow>
    advances ins Qualified ''qualification_completed'' Completed_Qualified (JObj [])"
| canary_gated: "sn_risk_tier (ip_run ins) = JStr ''high'' \<Longrightarrow>
    advances ins Qualified ''owner_canary_required'' Awaiting_Owner_Canary (JObj [])"
| canary_started: "sn_risk_tier (ip_run ins) \<noteq> JStr ''high'' \<Longrightarrow>
    advances ins Qualified ''canary_started'' Canary (JObj [])"
| active_gated: "sn_risk_tier (ip_run ins) \<noteq> JStr ''low'' \<Longrightarrow>
    advances ins Canary ''canary_passed'' Awaiting_Owner_Active p"
| canary_passed: "sn_risk_tier (ip_run ins) = JStr ''low'' \<Longrightarrow> keepsGeneration p \<Longrightarrow>
    advances ins Canary ''canary_passed'' Activating p"
| canary_failed: "keepsGeneration p \<Longrightarrow> withinBudget ins \<Longrightarrow>
    advances ins Canary ''canary_regression_rolled_back'' Evidence_Ready p"
| activated: "advances ins Activating ''activation_completed'' Completed_Active p"

inductive_cases advancesE: "advances ins s ty t p"

section \<open>Operations that end in an append\<close>

definition yields :: "event_store \<Rightarrow> ('a \<Rightarrow> world \<Rightarrow> bool) \<Rightarrow> 'a kern \<Rightarrow> bool" where
  "yields s P m \<longleftrightarrow> (\<forall>w x w'. wd_events w = s \<longrightarrow> m w = (Inr x, w') \<longrightarrow> P x w')"

lemma yieldsD: "yields (wd_events w) P m \<Longrightarrow> m w = (Inr x, w') \<Longrightarrow> P x w'"
  by (simp add: yields_def)

lemma yields_bind:
  "keeps (sameEvents s) m \<Longrightarrow> (\<And>x w w'. m w = (Inr x, w') \<Longrightarrow> yields s P (f x)) \<Longrightarrow> yields s P (bindK m f)"
  unfolding yields_def by (auto dest: same_after(1))

lemma yields_simple: "yields s P (failK m)" "yields s P (throwK e)"
  by (simp_all add: yields_def)

lemma yields_if: "(b \<Longrightarrow> yields s P m) \<Longrightarrow> (\<not> b \<Longrightarrow> yields s P n) \<Longrightarrow> yields s P (if b then m else n)"
  by simp

lemma yields_option: "(x = None \<Longrightarrow> yields s P m) \<Longrightarrow> (\<And>y. x = Some y \<Longrightarrow> yields s P (f y)) \<Longrightarrow>
    yields s P (case x of None \<Rightarrow> m | Some y \<Rightarrow> f y)"
  by (simp split: option.splits)

lemma yields_prod: "(\<And>a b. x = (a, b) \<Longrightarrow> yields s P (f a b)) \<Longrightarrow> yields s P (case x of (a, b) \<Rightarrow> f a b)"
  by (simp split: prod.splits)

text \<open>The event is the only one appended, and it is a step of the relation.\<close>

definition stepped :: "inspection \<Rightarrow> event_store \<Rightarrow> json \<Rightarrow> world \<Rightarrow> bool" where
  "stepped ins s e w' \<longleftrightarrow> readRun (wd_events w') = (readRun s)(sn_run_id (ip_run ins) := readRun s (sn_run_id (ip_run ins)) @ [e])
     \<and> (\<exists>t. fld ''to_state'' e = JStr (stateName t)
         \<and> advances ins (sn_run_state (ip_run ins)) (evType e) t (fld ''payload'' e))"

definition currentIn :: "inspection \<Rightarrow> event_store \<Rightarrow> bool" where
  "currentIn ins s \<longleftrightarrow> snapshotFromEvents (readRun s (sn_run_id (ip_run ins))) = Inr (ip_run ins)"

lemma yields_append:
  assumes "currentIn ins s" "advances ins (sn_run_state (ip_run ins)) ty t payload"
  shows "yields s (stepped ins s) (appendRunEvent pt ins ty t phase d payload)"
  unfolding yields_def
proof (intro allI impI)
  fix w e w' assume s: "wd_events w = s" and a: "appendRunEvent pt ins ty t phase d payload w = (Inr e, w')"
  from assms(1) s have "insCurrent ins w" by (simp add: currentIn_def insCurrent_def)
  from appendRunEvent_Inr [OF a this] assms(2) s show "stepped ins s e w'" by (auto simp: stepped_def)
qed

lemma yields_journaled:
  assumes "currentIn ins s" "advances ins (sn_run_state (ip_run ins)) ty t payload"
  shows "yields s (stepped ins s) (appendJournaledResult pt ins key ty t phase d payload)"
  using yields_append [OF assms, of pt phase d]
  by (auto simp: yields_def appendJournaledResult_def catchK_Inr split: if_splits)

lemmas yields_rules = yields_bind yields_simple yields_if yields_option yields_prod

lemmas keeps_all_events = keeps_events keeps_events_calls

lemma yields_designRun:
  "currentIn ins s \<Longrightarrow> sn_run_state (ip_run ins) = Designing \<Longrightarrow> yields s (stepped ins s) (designRun pt ins)"
  unfolding designRun_def Let_def
  by (intro yields_rules keeps_rules keeps_all_events yields_append) (auto intro!: advances.blueprint_admitted)

lemma yields_materializeRun:
  "currentIn ins s \<Longrightarrow> sn_run_state (ip_run ins) = Materializing \<Longrightarrow> yields s (stepped ins s) (materializeRun pt ins)"
  unfolding materializeRun_def Let_def
  by (intro yields_rules keeps_rules keeps_all_events yields_append)
    (auto intro!: advances.candidate_materialized simp: keepsGeneration_def)

lemma yields_afterQualification:
  "currentIn ins s \<Longrightarrow> sn_run_state (ip_run ins) = Qualified \<Longrightarrow> yields s (stepped ins s) (afterQualification pt ins)"
  unfolding afterQualification_def Let_def
  by (intro yields_rules yields_append)
    (auto intro: advances.qualify_only advances.canary_gated advances.canary_started simp: ownerGatePolicy_def)

lemma yields_activateRun:
  "currentIn ins s \<Longrightarrow> sn_run_state (ip_run ins) = Activating \<Longrightarrow> yields s (stepped ins s) (activateRun pt ins)"
  unfolding activateRun_def Let_def
  by (intro yields_rules keeps_rules keeps_liftw keeps_all_events yields_append) (auto intro: advances.activated)

lemma identity_generation:
  assumes "foundryEvaluationOperationIdentity (JObj [(''run_id'', a), (''generation'', JNum g), (''phase'', b), (''input_digest'', c)]) = Inr op"
  shows "\<exists>i. g = jint i \<and> 0 \<le> i"
  using assms by (auto simp: foundryEvaluationOperationIdentity_def identityChecks_def dest: safe_nonneg_int)

lemma yields_conclude:
  assumes c: "currentIn ins s" and st: "sn_run_state (ip_run ins) = (if canary then Canary else Evaluating)"
    and g: "\<exists>i. sn_generation (ip_run ins) = jint i \<and> 0 \<le> i"
  shows "yields s (stepped ins s) (concludeEvaluation pt ins canary cand r e)"
proof -
  have k: "keepsGeneration (JObj (scorePayload d e @ kvs))" if "''generation'' \<notin> fst ` set kvs" for d kvs
    using that by (simp add: keepsGeneration_def scorePayload_def)
  have b: "\<not> budgetExhausted ins n \<Longrightarrow> withinBudget ins" for n
    using g by (simp add: budgetExhausted_def withinBudget_def)
  show ?thesis
    unfolding concludeEvaluation_def Let_def
    apply (intro yields_rules keeps_rules keeps_all_events yields_journaled c)
    using st k [of "[]"] k b
    apply (auto intro: advances.intros simp: ownerGatePolicy_def)
    done
qed

lemma yields_evaluateRun:
  assumes c: "currentIn ins s" and st: "sn_run_state (ip_run ins) = (if canary then Canary else Evaluating)"
  shows "yields s (stepped ins s) (evaluateRun pt ins canary opts)"
  unfolding evaluateRun_def Let_def
  by (intro yields_rules keeps_rules keeps_all_events yields_conclude c st) (auto dest: identity_generation)

lemma yields_diagnoseRun:
  "currentIn ins s \<Longrightarrow> sn_run_state (ip_run ins) = Diagnosing \<Longrightarrow> yields s (stepped ins s) (diagnoseRun pt ins)"
  unfolding diagnoseRun_def noChangeProposal_def admitProposal_def Let_def
  by (intro yields_rules keeps_rules keeps_all_events yields_append)
    (auto intro: advances.no_change advances.proposal_admitted)

lemma yields_advanceOne: "currentIn ins s \<Longrightarrow> yields s (stepped ins s) (advanceOne pt ins opts)"
  unfolding advanceOne_def
  by (cases "sn_run_state (ip_run ins)")
    (simp_all add: yields_simple yields_designRun yields_materializeRun yields_evaluateRun yields_diagnoseRun
      yields_afterQualification yields_activateRun yields_append advances.design_started advances.diagnosis_started)

text \<open>A step that returns appended exactly one event, and that event is allowed by the relation.\<close>

lemma advanceOne_Inr:
  assumes "advanceOne pt ins opts w = (Inr e, w')" "insCurrent ins w"
  shows "stepped ins (wd_events w) e w'"
  using yields_advanceOne [of ins "wd_events w" pt opts] assms
  by (auto simp: yields_def currentIn_def insCurrent_def)

section \<open>The snapshot after a step\<close>

lemma map_of_rev: "distinct (map fst kvs) \<Longrightarrow> map_of (rev kvs) k = map_of kvs k"
proof -
  assume d: "distinct (map fst kvs)"
  then have "map_of (rev kvs) k = Some v \<longleftrightarrow> map_of kvs k = Some v" for v
    by (simp add: map_of_eq_Some_iff rev_map [symmetric])
  then show ?thesis by (cases "map_of kvs k"; cases "map_of (rev kvs) k") auto
qed

lemma updates_entries:
  assumes "distinct (map fst kvs) \<or> k \<notin> fst ` set kvs"
  shows "map_of (AList.updates (map fst kvs) (map snd kvs) acc) k =
    (if k \<in> fst ` set kvs then map_of kvs k else map_of acc k)"
proof (cases "k \<in> fst ` set kvs")
  case True
  with assms have "map_of (rev kvs) k = map_of kvs k" by (intro map_of_rev) simp
  moreover have "map_of kvs k \<noteq> None" using True by (simp add: map_of_eq_None_iff)
  ultimately show ?thesis using True by (auto simp: updates_conv' map_upds_def zip_map_fst_snd map_add_def)
next
  case False
  then show ?thesis by (simp add: updates_conv' map_upds_apply_nontin)
qed

lemma accumulated_snoc:
  assumes "distinct (objKeys (fld ''payload'' e)) \<or> k \<notin> set (objKeys (fld ''payload'' e))"
  shows "fld k (accumulated (es @ [e])) =
    (if k \<in> set (objKeys (fld ''payload'' e)) then fld k (fld ''payload'' e) else fld k (accumulated es))"
  using updates_entries [of "entriesOf (fld ''payload'' e)" k] assms
  by (simp add: accumulated_def fld_def [of k] objKeys_def entriesOf_def [of "JObj _"])

text \<open>The snapshot after an event: the state it leads to, and the generation it sets or keeps.\<close>

lemma snapshot_snoc:
  assumes s: "snapshotFromEvents es = Inr run" and v: "snapshotFromEvents (es @ [e]) = Inr run'"
    and t: "fld ''to_state'' e = JStr (stateName t)"
  shows "sn_run_state run' = t" "sn_request_digest run' = sn_request_digest run"
    "keepsGeneration (fld ''payload'' e) \<Longrightarrow> sn_generation run' = sn_generation run"
    "distinct (objKeys (fld ''payload'' e)) \<Longrightarrow> fld ''generation'' (fld ''payload'' e) = JNum x \<Longrightarrow> sn_generation run' = x"
proof -
  from s have ne: "es \<noteq> []" by (auto simp: snapshotFromEvents_def)
  have st: "sn_run_state run' = t"
    using v by (auto simp: snapshotFromEvents_def Let_def t)
  then show "sn_run_state run' = t" .
  show "sn_request_digest run' = sn_request_digest run"
    using ne snapshot_fields(1) [OF s] snapshot_fields(1) [OF v] by (simp add: chainRequest_def)
  have g: "sn_generation r = jsNumber (orElse (fld ''generation'' (accumulated fs)) (jInt 0))"
    if "snapshotFromEvents fs = Inr r" for fs r
    using that by (auto simp: snapshotFromEvents_def Let_def split: if_splits option.splits)
  show "sn_generation run' = sn_generation run" if "keepsGeneration (fld ''payload'' e)"
    using that g [OF s] g [OF v] by (simp add: accumulated_snoc keepsGeneration_def)
  show "sn_generation run' = x" if d: "distinct (objKeys (fld ''payload'' e))" "fld ''generation'' (fld ''payload'' e) = JNum x"
  proof -
    have "''generation'' \<in> set (objKeys (fld ''payload'' e))"
      using d(2) by (auto simp: fld_def objKeys_def split: option.splits dest!: map_of_SomeD intro: rev_image_eqI)
    then show ?thesis using d g [OF v] by (simp add: accumulated_snoc orElse_def jsNumber_def)
  qed
qed

section \<open>The loop\<close>

text \<open>
  Transitions left in a state: seven per generation that may still be started, fewer the
  further the run is in its own.  A generation outside the range occurs in a stored chain
  only; it is left after one more pass.
\<close>

definition generationsLeft :: "jsnum \<Rightarrow> nat" where
  "generationsLeft g = (if g = jint 0 then 5 else if g = jint 1 then 4 else if g = jint 2 then 3
     else if g = jint 3 then 2 else if g = jint 4 then 1 else 0)"

definition stepsLeft :: "run_state \<Rightarrow> jsnum \<Rightarrow> nat" where
  "stepsLeft s g = (let n = generationsLeft g in case s of
       Accepted \<Rightarrow> 44 | Designing \<Rightarrow> 43
     | Materializing \<Rightarrow> 7 * n + 6 | Evaluating \<Rightarrow> 7 * n + 5 | Qualified \<Rightarrow> 7 * n + 4 | Canary \<Rightarrow> 7 * n + 3
     | Evidence_Ready \<Rightarrow> (if n = 0 then 44 else 7 * n + 2) | Diagnosing \<Rightarrow> (if n = 0 then 43 else 7 * n + 1)
     | Activating \<Rightarrow> 1 | _ \<Rightarrow> 0)"

lemma generationsLeft_le: "generationsLeft g \<le> 5"
  by (simp add: generationsLeft_def)

lemma stepsLeft_le: "stepsLeft s g \<le> 44"
  using generationsLeft_le [of g] by (cases s) (simp_all add: stepsLeft_def Let_def)

lemma withinBudget_left: "withinBudget ins \<Longrightarrow> budgetWithin (ip_request ins) \<Longrightarrow> 0 < generationsLeft (sn_generation (ip_run ins))"
proof -
  assume w: "withinBudget ins" "budgetWithin (ip_request ins)"
  then obtain i where i: "sn_generation (ip_run ins) = jint i" "0 \<le> i" by (auto simp: withinBudget_def)
  have "i < 5"
  proof (rule ccontr)
    assume "\<not> i < 5"
    with w i show False
      by (cases "numOf (fld ''max_generations'' (fld ''delivery_policy'' (ip_request ins)))")
        (auto simp: withinBudget_def budgetWithin_def jint_def)
  qed
  then have "i \<in> {0, 1, 2, 3, 4}" using i(2) by auto
  then show ?thesis using i(1) by (auto simp: generationsLeft_def)
qed

lemma generationsLeft_next: "0 < generationsLeft g \<Longrightarrow> generationsLeft (jadd g (jint 1)) = generationsLeft g - 1"
  by (auto simp: generationsLeft_def jadd_jint split: if_splits)

text \<open>Every step the relation allows leaves fewer transitions, or pauses the run.\<close>

lemma advances_less:
  assumes a: "advances ins (sn_run_state (ip_run ins)) ty t p" and b: "budgetWithin (ip_request ins)"
    and g: "keepsGeneration p \<Longrightarrow> g' = sn_generation (ip_run ins)"
      "\<And>x. distinct (objKeys p) \<Longrightarrow> fld ''generation'' p = JNum x \<Longrightarrow> g' = x"
  shows "isPaused t \<or> stepsLeft t g' < stepsLeft (sn_run_state (ip_run ins)) (sn_generation (ip_run ins))"
  using a
proof (cases rule: advances.cases)
  case design_started
  then show ?thesis by (simp add: stepsLeft_def)
next
  case blueprint_admitted
  then have "g' = jint 0" using g(2) by (simp add: jInt_def)
  with blueprint_admitted show ?thesis by (simp add: stepsLeft_def generationsLeft_def)
next
  case candidate_materialized
  with g(1) show ?thesis by (simp add: stepsLeft_def Let_def)
next
  case candidate_qualified
  with g(1) show ?thesis by (simp add: stepsLeft_def Let_def)
next
  case evaluation_failed
  with g(1) withinBudget_left [OF _ b] show ?thesis by (simp add: stepsLeft_def Let_def)
next
  case diagnosis_started
  then have "g' = sn_generation (ip_run ins)" using g(1) by (simp add: keepsGeneration_def)
  with diagnosis_started show ?thesis by (simp add: stepsLeft_def Let_def)
next
  case proposal_admitted
  then have g': "g' = jadd (sn_generation (ip_run ins)) (jint 1)" using g(2) by blast
  show ?thesis
  proof (cases "generationsLeft (sn_generation (ip_run ins)) = 0")
    case True
    with proposal_admitted g' generationsLeft_le [of g'] show ?thesis by (simp add: stepsLeft_def Let_def)
  next
    case False
    then obtain n where "generationsLeft (sn_generation (ip_run ins)) = Suc n" "generationsLeft g' = n"
      using generationsLeft_next [of "sn_generation (ip_run ins)"] g' by (cases "generationsLeft (sn_generation (ip_run ins))") auto
    with proposal_admitted show ?thesis by (simp add: stepsLeft_def Let_def)
  qed
next
  case canary_started
  then have "g' = sn_generation (ip_run ins)" using g(1) by (simp add: keepsGeneration_def)
  with canary_started show ?thesis by (simp add: stepsLeft_def Let_def)
next
  case canary_passed
  then show ?thesis by (simp add: stepsLeft_def Let_def)
next
  case canary_failed
  with g(1) withinBudget_left [OF _ b] show ?thesis by (simp add: stepsLeft_def Let_def)
qed (simp_all add: isPaused_def isTerminal_iff)

lemma advanceOne_grown:
  assumes "portValues pt" "insOk ins w" "worldInv w" "advanceOne pt ins opts w = (x, w')"
  shows "worldInv w' \<and> grown w w'"
proof -
  have "onRun ins (\<lambda>v. grown w v \<and> insOk ins v)" by (auto simp: onRun_def)
  from keepsD [OF keeps_advanceOne [OF this assms(1)], of w opts] assms(2-4) show ?thesis by (simp add: kept_def)
qed

text \<open>After a failure was recorded the run is terminal.\<close>

lemma terminate_paused:
  assumes t: "terminateAfterFailure pt r e w = (Inr u, w1)" and i: "inspectRun r w1 = (Inr ins, w1)"
    and w: "worldInv w" "worldInv w1"
  shows "isPaused (sn_run_state (ip_run ins))"
proof -
  note f = inspectRun_Inr [OF i w(2)]
  from t obtain latest w2 where l: "inspectRun r w = (Inr latest, w2)"
    and k: "(isTerminal (sn_run_state (ip_run latest)) \<and> w1 = w2) \<or>
      (\<exists>ty to phase d p x. isTerminal to \<and> appendRunEvent pt latest ty to phase d p w2 = (Inr x, w1))"
    unfolding terminateAfterFailure_def Let_def
    by (auto split: if_splits simp: isTerminal_iff) (metis ALLOWED_TRANSITIONS.simps)+
  from lookups_same(4) [OF l] have w2: "w2 = w" by simp
  note g = inspectRun_Inr [OF l [unfolded w2] w(1)]
  from k show ?thesis
  proof
    assume "isTerminal (sn_run_state (ip_run latest)) \<and> w1 = w2"
    with f(4) g(4) w2 show ?thesis by (simp add: isPaused_def)
  next
    assume "\<exists>ty to phase d p x. isTerminal to \<and> appendRunEvent pt latest ty to phase d p w2 = (Inr x, w1)"
    then obtain ty to phase d p x where t: "isTerminal to" and a: "appendRunEvent pt latest ty to phase d p w = (Inr x, w1)"
      using w2 by blast
    have "insCurrent latest w" using g(2, 4) by (simp add: insCurrent_def)
    note ap = appendRunEvent_Inr [OF a this]
    have "snapshotFromEvents (readRun (wd_events w) r @ [x]) = Inr (ip_run ins)" using f(4) ap(1) g(2) by simp
    from snapshot_snoc(1) [OF g(4) this ap(5)] t show ?thesis by (simp add: isPaused_def)
  qed
qed

lemma advanceRunStep_less:
  assumes s: "advanceRunStep pt r opts w = (Inr ins', w')" and i: "inspectRun r w = (Inr ins, w)"
    and w: "worldInv w" and pt: "portValues pt"
    and p: "\<not> isPaused (sn_run_state (ip_run ins))"
  shows "inspectRun r w' = (Inr ins', w')" "worldInv w'"
    "isPaused (sn_run_state (ip_run ins')) \<or>
      stepsLeft (sn_run_state (ip_run ins')) (sn_generation (ip_run ins')) <
      stepsLeft (sn_run_state (ip_run ins)) (sn_generation (ip_run ins))"
proof -
  note f = inspectRun_Inr [OF i w]
  obtain x w1 where a: "advanceOne pt ins opts w = (x, w1)" by force
  have w1: "worldInv w1" "grown w w1" using advanceOne_grown [OF pt f(3) w a] by blast+
  from keepsD [OF keeps_advanceRunStep [OF lasting_grown [of w] pt, of r opts], of w] s w
  show w': "worldInv w'" by (simp add: kept_def)
  from s i p obtain u w2 where u: "catchK (bindK (advanceOne pt ins opts) (\<lambda>x. retK ())) (\<lambda>e.
         if isResultUnavailable e then throwK e
         else if pt_propagate pt \<and> isTransient e then throwK e
         else terminateAfterFailure pt (sn_run_id (ip_run ins)) e) w = (Inr u, w2)"
    and j: "inspectRun r w2 = (Inr ins', w')"
    by (simp only: advanceRunStep_def bindK_Inr i prod.inject sum.inject)
      (elim exE conjE, hypsubst, simp only: if_False bindK_Inr, blast)
  from lookups_same(4) [OF j] have w2: "w2 = w'" by simp
  show j': "inspectRun r w' = (Inr ins', w')" using j w2 by simp
  note f' = inspectRun_Inr [OF j' w']
  show "isPaused (sn_run_state (ip_run ins')) \<or>
      stepsLeft (sn_run_state (ip_run ins')) (sn_generation (ip_run ins')) <
      stepsLeft (sn_run_state (ip_run ins)) (sn_generation (ip_run ins))"
  proof (cases x)
    case (Inl e)
    with u a have "terminateAfterFailure pt (sn_run_id (ip_run ins)) e w1 = (Inr u, w2)"
      by (auto simp: catchK_def bindK_def throwK_def split: if_splits)
    from terminate_paused [OF this [unfolded f(2) w2] j' w1(1) w'] show ?thesis ..
  next
    case (Inr e)
    with u a have "w2 = w1" by (simp add: catchK_def bindK_def retK_def)
    then have w1': "w1 = w'" using w2 by simp
    have "insCurrent ins w" using f(2, 4) by (simp add: insCurrent_def)
    from advanceOne_Inr [OF a [unfolded Inr] this] obtain t where
      rd: "readRun (wd_events w') r = readRun (wd_events w) r @ [e]" and t: "fld ''to_state'' e = JStr (stateName t)"
      and ad: "advances ins (sn_run_state (ip_run ins)) (evType e) t (fld ''payload'' e)"
      using f(2) w1' by (auto simp: stepped_def)
    note sn = snapshot_snoc [OF f(4) f'(4) [unfolded rd] t]
    have "isPaused t \<or> stepsLeft t (sn_generation (ip_run ins')) <
        stepsLeft (sn_run_state (ip_run ins)) (sn_generation (ip_run ins))"
    proof (rule advances_less [OF ad f(8)])
      show "keepsGeneration (fld ''payload'' e) \<Longrightarrow> sn_generation (ip_run ins') = sn_generation (ip_run ins)" by (rule sn(3))
      show "distinct (objKeys (fld ''payload'' e)) \<Longrightarrow> fld ''generation'' (fld ''payload'' e) = JNum x \<Longrightarrow>
        sn_generation (ip_run ins') = x" for x by (rule sn(4))
    qed
    then show ?thesis unfolding sn(1) .
  qed
qed

text \<open>With more transitions than are left the loop does not depend on how many it was given.\<close>

lemma advanceLoop_enough:
  assumes "worldInv w" "portValues pt"
    and "\<And>ins. inspectRun r w = (Inr ins, w) \<Longrightarrow> isPaused (sn_run_state (ip_run ins)) \<or>
      stepsLeft (sn_run_state (ip_run ins)) (sn_generation (ip_run ins)) < n"
  shows "advanceLoop pt r (Suc n + k) w = advanceLoop pt r (Suc n) w"
  using assms
proof (induction n arbitrary: w)
  case 0
  then show ?case
    by (auto simp: bindK_def split: prod.splits sum.splits dest: lookups_same(4))
next
  case (Suc n)
  obtain x w0 where x: "inspectRun r w = (x, w0)" by force
  then have w0: "w0 = w" by (rule lookups_same(4))
  show ?case
  proof (cases x)
    case (Inl e)
    with x show ?thesis by (simp add: bindK_def)
  next
    case (Inr ins)
    note i = x [unfolded Inr w0]
    show ?thesis
    proof (cases "isPaused (sn_run_state (ip_run ins))")
      case True
      with i show ?thesis by (simp add: bindK_def)
    next
      case False
      obtain y w1 where y: "advanceRunStep pt r noOptions w = (y, w1)" by force
      show ?thesis
      proof (cases y)
        case (Inl e)
        with i y False show ?thesis by (simp add: bindK_def)
      next
        case (Inr ins')
        note st = advanceRunStep_less [OF y [unfolded Inr] i Suc.prems(1, 2) False]
        have "advanceLoop pt r (Suc n + k) w1 = advanceLoop pt r (Suc n) w1"
        proof (rule Suc.IH [OF st(2) Suc.prems(2)])
          fix ins'' assume "inspectRun r w1 = (Inr ins'', w1)"
          then have "ins'' = ins'" using st(1) by simp
          then show "isPaused (sn_run_state (ip_run ins'')) \<or>
              stepsLeft (sn_run_state (ip_run ins'')) (sn_generation (ip_run ins'')) < n"
            using st(3) Suc.prems(3) [OF i] False by auto
        qed
        with i y Inr False show ?thesis by (simp add: bindK_def)
      qed
    qed
  qed
qed

lemma advance_bounded:
  assumes "worldInv w" "portValues pt"
  shows "advanceLoop pt r (64 + k) w = advanceUntilPause pt r w"
proof -
  have "stepsLeft s g < 63" for s g using stepsLeft_le [of s g] by simp
  then have "advanceLoop pt r (Suc 63 + k) w = advanceLoop pt r (Suc 63) w"
    by (intro advanceLoop_enough assms) simp
  then show ?thesis by (simp only: advanceUntilPause_def) simp
qed

text \<open>What the loop returns is a run that waits for an owner or has ended.\<close>

lemma advance_paused_result: "advanceUntilPause pt r w = (Inr ins, w') \<Longrightarrow>
    isPaused (sn_run_state (ip_run ins)) \<and> inspectRun r w' = (Inr ins, w')"
proof -
  have "advanceLoop pt r n w = (Inr ins, w') \<Longrightarrow> isPaused (sn_run_state (ip_run ins)) \<and> inspectRun r w' = (Inr ins, w')" for n
  proof (induction n arbitrary: w)
    case (Suc n)
    from Suc.prems obtain ins0 w0 where i: "inspectRun r w = (Inr ins0, w0)"
      and l: "(if isPaused (sn_run_state (ip_run ins0)) then retK ins0
        else bindK (advanceRunStep pt r noOptions) (\<lambda>x. advanceLoop pt r n)) w0 = (Inr ins, w')"
      by (simp only: advanceLoop.simps bindK_Inr) blast
    note w0 = lookups_same(4) [OF i]
    show ?case
    proof (cases "isPaused (sn_run_state (ip_run ins0))")
      case True
      with i l w0 show ?thesis by simp
    next
      case False
      with l obtain x w1 where "advanceLoop pt r n w1 = (Inr ins, w')"
        by (simp only: if_False bindK_Inr) blast
      then show ?thesis by (rule Suc.IH)
    qed
  qed simp
  then show "advanceUntilPause pt r w = (Inr ins, w') \<Longrightarrow>
    isPaused (sn_run_state (ip_run ins)) \<and> inspectRun r w' = (Inr ins, w')" by (simp add: advanceUntilPause_def)
qed

end
