(* ===== verification/Kernel_Live.thy ===== *)
theory Kernel_Live
  imports Kernel_Loop
begin

text \<open>
  Operations that return: a run takes any event its state allows, a registered version is
  activated when its revision is current, and a first request for a target is accepted.
  The hypotheses are what the code asks of its inputs, of the clock and of the ports.
\<close>

section \<open>Appending\<close>

lemma trim_nonblank: "c \<in> set s \<Longrightarrow> \<not> isWs c \<Longrightarrow> trim s \<noteq> []"
proof -
  assume c: "c \<in> set s" "\<not> isWs c"
  then have "dropWhile isWs s \<noteq> []" by (auto simp: dropWhile_eq_Nil_conv)
  then have "hd (dropWhile isWs s) \<in> set (dropWhile isWs s)" "\<not> isWs (hd (dropWhile isWs s))"
    by (simp_all add: hd_dropWhile)
  then show ?thesis by (auto simp: trim_def dropWhile_eq_Nil_conv)
qed

lemma idempotencyKey_nonblank: "trim (idempotencyKey run phase d) \<noteq> []"
  by (rule trim_nonblank [of "CHR ''/''"]) (simp_all add: idempotencyKey_def isWs_def)

lemma verified_key_str:
  assumes "verifyFoundryEventChain es = Inr ()" "x \<in> set es"
  shows "fld ''idempotency_key'' x = JStr (evKey x)"
  using assms
proof (induction es rule: verify_induct)
  case (first e)
  then show ?case by (auto simp: evKey_def isStr_JStr dest: verifyEvent_identity)
next
  case (step es e)
  then show ?case by (auto simp: evKey_def isStr_JStr dest: verifyEvent_identity)
qed

lemma append_live:
  assumes c: "insCurrent ins w" and w: "worldInv w" and st: "run_step (sn_run_state (ip_run ins)) ty to"
    and p: "isRecord payload" "plain payload" and now: "isoCanonical (pt_now pt (wd_tick w))"
    and key: "idempotencyKey (ip_run ins) phase d \<notin> evKey ` set (readRun (wd_events w) (sn_run_id (ip_run ins)))"
    and n: "sn_revision (ip_run ins) < 2 ^ 53 - 1"
  shows "\<exists>e w'. appendRunEvent pt ins ty to phase d payload w = (Inr e, w')"
proof -
  let ?run = "ip_run ins" and ?es = "readRun (wd_events w) (sn_run_id (ip_run ins))"
  let ?key = "idempotencyKey (ip_run ins) phase d"
  note f = snapshot_fields [OF c [unfolded insCurrent_def]]
  have inv: "storeInv (wd_events w)" using w by (simp add: worldInv_def)
  have ne: "?es \<noteq> []" using verify_nonempty [OF f(6)] .
  obtain fs where fs: "map_of (es_runs (wd_events w)) (sn_run_id ?run) = Some fs" using readRun_Some [OF inv] ne by auto
  then have es: "fs = ?es" using readRun_eq by metis
  have "\<exists>h. buildFoundryEvent (sn_run_id ?run) (sn_revision ?run + 1) ty (Some (sn_run_state ?run)) to
      (pt_now pt (wd_tick w)) ?key (Some (sn_last_event_hash ?run)) payload =
    Inr (withHash (eventBody (sn_run_id ?run) (sn_revision ?run + 1) ty (Some (sn_run_state ?run)) to
      (pt_now pt (wd_tick w)) ?key (Some (sn_last_event_hash ?run)) payload) h)"
    by (rule buildFoundryEvent_total) (use p(2) n f(3) st in \<open>auto simp: run_step_iff\<close>)
  then obtain h where b: "buildFoundryEvent (sn_run_id ?run) (sn_revision ?run + 1) ty (Some (sn_run_state ?run)) to
      (pt_now pt (wd_tick w)) ?key (Some (sn_last_event_hash ?run)) payload =
    Inr (withHash (eventBody (sn_run_id ?run) (sn_revision ?run + 1) ty (Some (sn_run_state ?run)) to
      (pt_now pt (wd_tick w)) ?key (Some (sn_last_event_hash ?run)) payload) h)" (is "_ = Inr ?e") ..
  have hd: "fld ''run_id'' (hd ?es) = JStr (sn_run_id ?run)" using storeInv_chain [OF inv fs] es by simp
  have v: "verifyFoundryEventChain (?es @ [?e]) = Inr ()"
  proof (rule verify_append_built [OF f(6)])
    show "buildFoundryEvent (sn_run_id ?run) (int (length ?es) + 1) ty (Some (sn_run_state ?run)) to
      (pt_now pt (wd_tick w)) ?key (Some (evHash (last ?es))) payload = Inr ?e" using b f(3, 4) by simp
    show "?key \<notin> set (map evKey ?es)" using key by simp
    show "int (length ?es) + 1 < 2 ^ 53" using n f(3) by simp
  qed (use hd f(5) st now p(1) idempotencyKey_nonblank in auto)
  have nf: "find (\<lambda>x. jsSame (fld ''idempotency_key'' x) (fld ''idempotency_key'' ?e)) ?es = None"
  proof -
    have "evKey x \<noteq> ?key" if "x \<in> set ?es" for x using key that by (metis imageI)
    then show ?thesis using verified_key_str [OF f(6)] by (simp add: find_None_iff built_simps jsSame_def)
  qed
  have rev: "jeq (numOf (fld ''revision'' (last ?es))) (jint (sn_revision ?run))"
    using verified_revision [OF f(6)] f(3) by (simp add: jeq_def jint_def)
  have "runIdOf ?e = sn_run_id ?run" by (simp add: runIdOf_def built_simps)
  with fs es nf rev v have "\<exists>s x. appendEvent (wd_events w) k (sn_revision ?run) ?e = Inr (s, x)" for k
    by (simp add: appendEvent_def runChecks_ok)
  then obtain s x where "appendEvent (wd_events w) (targetKey (requestAgent (ip_request ins)) (requestDomain (ip_request ins)))
      (sn_revision ?run) ?e = Inr (s, x)" by blast
  then show ?thesis using b by (simp add: appendRunEvent_def Let_def nowK_def portK_def liftK_def bindK_def appendK_def)
qed

section \<open>Activations\<close>

lemma activity_first:
  assumes "m w = (Inr x, w')" "1 \<le> pt_max_attempts pt"
  shows "activityK pt op m w = (Inr x, w')"
  using assms by (cases "pt_max_attempts pt") (simp_all add: activityK_def)

lemma activateState_live:
  assumes inv: "regStateInv st" and v: "find (\<lambda>v. av_version_digest v = ai_version_digest i) (rg_versions st) = Some v"
    and b: "list_all fst (assertActivationRuntimeBindingVerification (ai_binding i) (ai_kind i) (ai_expected_revision i) v)"
    and n: "ap_revision (rg_activation st) = ai_expected_revision i" and r: "list_all fst (rollbackChecks st i)"
  shows "\<exists>st' t. activateState st i = Inr (st', t) \<and> t = newTransaction st i"
proof -
  have "find (\<lambda>t. tx_previous_revision t = ai_expected_revision i) (rg_transactions st) = None"
    using inv n historyOk_previous [of "rg_versions st" "rg_transactions st"]
    by (auto simp: find_None_iff regStateInv_def in_set_conv_nth)
  with v b n r show ?thesis by (simp add: activateState_def runChecks_ok Let_def)
qed

lemma commit_live:
  assumes w: "worldInv w" and v: "resolveVersion (wd_registry w) (Some (av_version_digest v)) (av_target_agent_id v)
      (av_target_domain_id v) = Some v" "av_version_digest v \<noteq> []"
    and n: "ap_revision (activationOf (wd_registry w) (av_target_agent_id v) (av_target_domain_id v)) = n" "n < 2 ^ 53"
    and k: "k = Rollback_Tx \<Longrightarrow> truthy receipt
      \<and> ap_active_version_digest (activationOf (wd_registry w) (av_target_agent_id v) (av_target_domain_id v)) \<noteq> Some (av_version_digest v)
      \<and> (\<exists>t \<in> set (activationHistory (wd_registry w) (av_target_agent_id v) (av_target_domain_id v)). tx_to t = av_version_digest v)"
    and pf: "\<And>c. pt_preflight pt c = memoryPreflight" and m: "1 \<le> pt_max_attempts pt" and d: "\<And>c. pt_date_ok pt (pt_now pt c)"
    and pure: "\<And>p. memoryPreflight (wd_registry w) k v n = Inr p \<Longrightarrow>
      scanForbidden (buildRuntimeBindingVerification p) ''$'' = []"
  shows "\<exists>t p w'. commitFoundryActivation pt k v n receipt w = (Inr (t, p), w')
    \<and> ap_active_version_digest (activationOf (wd_registry w') (av_target_agent_id v) (av_target_domain_id v)) = Some (av_version_digest v)
    \<and> ap_revision (activationOf (wd_registry w') (av_target_agent_id v) (av_target_domain_id v)) = n + 1
    \<and> tx_receipt t = receipt \<and> tx_binding t = buildRuntimeBindingVerification p \<and> memoryPreflight (wd_registry w) k v n = Inr p
    \<and> wd_events w' = wd_events w"
proof -
  let ?a = "av_target_agent_id v" and ?d = "av_target_domain_id v" and ?g = "wd_registry w"
  have inv: "regStateInv (regState ?g ?a ?d)" using w by (simp add: worldInv_def registryInv_def)
  have n0: "0 \<le> n" using n(1) inv by (auto simp: activationOf_def regStateInv_def)
  then have na: "\<bar>n\<bar> < 2 ^ 53" using n(2) by simp
  obtain p where p: "memoryPreflight ?g k v n = Inr p" using memoryPreflight_total [OF v(1) na] by blast
  note pk = memoryPreflight_ok [OF p]
  let ?b = "buildRuntimeBindingVerification p"
  define w1 where "w1 = w\<lparr> wd_tick := Suc (Suc (wd_tick w)) \<rparr>"
  define i where "i = \<lparr> ai_kind = k, ai_target_agent_id = ?a, ai_target_domain_id = ?d, ai_expected_revision = n,
    ai_version_digest = av_version_digest v, ai_occurred_at = pt_now pt (Suc (wd_tick w)), ai_receipt = receipt, ai_binding = ?b \<rparr>"
  have f: "find (\<lambda>x. av_version_digest x = av_version_digest v) (rg_versions (regState ?g ?a ?d)) = Some v"
    using v by (simp add: resolveVersion_def Let_def)
  have rc: "list_all fst (rollbackChecks (regState ?g ?a ?d) i)"
    using k by (auto simp: rollbackChecks_def i_def activationOf_def activationHistory_def list_ex_iff)
  have b: "list_all fst (assertActivationRuntimeBindingVerification (ai_binding i) (ai_kind i) (ai_expected_revision i) v)"
    unfolding i_def by simp (rule built_binding_ok [OF pk(1) na])
  have r: "ap_revision (rg_activation (regState ?g ?a ?d)) = ai_expected_revision i"
    using n(1) by (simp add: i_def activationOf_def)
  from activateState_live [OF inv _ b r rc, of] f obtain st t where
    st: "activateState (regState ?g ?a ?d) i = Inr (st, t)" and t: "t = newTransaction (regState ?g ?a ?d) i"
    by (auto simp: i_def)
  have a: "activateVersion ?g i = Inr (putState ?a ?d st ?g, t)" using st by (simp add: activateVersion_def i_def)
  have kk: "(if k = Activate_Tx then compareAndSwapActivation ?g i else rollbackVersion ?g i) = activateVersion ?g i"
    by (cases k) (simp_all add: compareAndSwapActivation_def rollbackVersion_def i_def)
  have ak: "activityK pt (kindName k) (activateK i) w1 = (Inr t, w1\<lparr> wd_registry := putState ?a ?d st ?g \<rparr>)"
  proof (rule activity_first [OF _ m])
    have g: "wd_registry w1 = ?g" "ai_kind i = k" by (simp_all add: w1_def i_def)
    show "activateK i w1 = (Inr t, w1\<lparr> wd_registry := putState ?a ?d st ?g \<rparr>)"
      unfolding activateK_def g kk a by simp
  qed
  have pl: "plain ?b" using pk(1) na
    by (auto simp: buildRuntimeBindingVerification_def assertActivationPreflight_def numOk_int)
  have dg: "foundryContentDigest ?b = Inr (''sha256:'' @ sha256Hex (jtext (norm ?b)))"
    using canonicalJsonText_plain [OF pl] pure [OF p]
    by (simp add: foundryContentDigest_def assertFoundryProtocolPurity_def runChecks_ok)
  have tk: "trim (tx_id t) \<noteq> []" by (rule trim_nonblank [of "CHR '':''"]) (simp_all add: t newTransaction_def isWs_def)
  have at: "assertActivationTransaction (pt_date_ok pt) t k v n receipt ?b = Inr ()"
    using r dg tk d by (simp add: assertActivationTransaction_def t newTransaction_def i_def runChecks_ok)
  have pc: "list_all fst [(\<not> (k = Rollback_Tx \<and> \<not> truthy receipt), x)]" for x :: string using k by auto
  have pa: "activityK pt (kindName k @ ''_runtime_preflight'') (\<lambda>w. portK (\<lambda>c. pt_preflight pt c (wd_registry w) k v n) w) w
      = (Inr p, w\<lparr> wd_tick := Suc (wd_tick w) \<rparr>)"
    by (rule activity_first [OF _ m]) (simp add: portK_def pf p)
  have c: "commitFoundryActivation pt k v n receipt w = (Inr (t, p), w1\<lparr> wd_registry := putState ?a ?d st ?g \<rparr>)"
    unfolding commitFoundryActivation_def Let_def bindK_def
    using pa ak at pk(1) pc
    by (simp add: checkK_def liftK_def runChecks_ok nowK_def portK_def w1_def i_def retK_def)
  have s: "rg_activation st = (rg_activation (regState ?g ?a ?d))\<lparr> ap_active_version_digest := Some (av_version_digest v),
      ap_revision := n + 1, ap_updated_at := Some (ai_occurred_at i) \<rparr>"
    using st
  proof (cases rule: activateState_Inr)
    case 1
    then show ?thesis using historyOk_previous [of "rg_versions (regState ?g ?a ?d)" "rg_transactions (regState ?g ?a ?d)"] inv r
      by (auto simp: regStateInv_def find_Some_iff)
  next
    case 2
    then show ?thesis by (simp add: newTransaction_def i_def)
  qed
  show ?thesis
    using c s p by (simp add: activationOf_def regState_putState w1_def t newTransaction_def i_def)
qed

text \<open>
  An authorised activation returns, and the version is active: the run is in \<open>activating\<close>,
  its version is registered and was not overtaken since the run started.
\<close>

lemma plain_binding: "list_all fst (assertActivationPreflight p k v n) \<Longrightarrow> \<bar>n\<bar> < 2 ^ 53 \<Longrightarrow> plain (buildRuntimeBindingVerification p)"
  by (auto simp: buildRuntimeBindingVerification_def assertActivationPreflight_def numOk_int)

lemma plain_activationPayload: "plain (tx_binding t) \<Longrightarrow> plain (fld ''runtime_binding_ref'' (tx_binding t)) \<Longrightarrow>
    plain (activationPayload t p a) \<and> isRecord (activationPayload t p a)"
  by (cases a) (auto simp: activationPayload_def)

lemma activate_live:
  assumes w: "worldInv w" and c: "insCurrent ins w" and s: "sn_run_state (ip_run ins) = Activating"
    and v: "sn_version_digest (ip_run ins) = Some (av_version_digest v)" "av_version_digest v \<noteq> []"
      "av_target_agent_id v = requestAgent (ip_request ins)" "av_target_domain_id v = requestDomain (ip_request ins)"
      "resolveVersion (wd_registry w) (Some (av_version_digest v)) (av_target_agent_id v) (av_target_domain_id v) = Some v"
    and n: "ap_revision (activationOf (wd_registry w) (av_target_agent_id v) (av_target_domain_id v)) =
      sn_activation_revision_at_start (ip_run ins)" "sn_activation_revision_at_start (ip_run ins) < 2 ^ 53"
      "sn_revision (ip_run ins) < 2 ^ 53 - 1"
    and au: "latestOwnerAuthority (readRun (wd_events w) (sn_run_id (ip_run ins))) = Inr authority"
      "sn_risk_tier (ip_run ins) = JStr ''low'' \<or> authority \<noteq> None"
    and pf: "\<And>c. pt_preflight pt c = memoryPreflight" and m: "1 \<le> pt_max_attempts pt"
    and d: "\<And>c. pt_date_ok pt (pt_now pt c)" "\<And>c. isoCanonical (pt_now pt c)"
    and pure: "\<And>p. memoryPreflight (wd_registry w) Activate_Tx v (sn_activation_revision_at_start (ip_run ins)) = Inr p \<Longrightarrow>
      scanForbidden (buildRuntimeBindingVerification p) ''$'' = []"
    and key: "idempotencyKey (ip_run ins) ''activate'' (av_version_digest v) \<notin>
      evKey ` set (readRun (wd_events w) (sn_run_id (ip_run ins)))"
  shows "\<exists>e w'. activateRun pt ins w = (Inr e, w') \<and> fld ''to_state'' e = JStr (stateName Completed_Active)
    \<and> ap_active_version_digest (activationOf (wd_registry w') (av_target_agent_id v) (av_target_domain_id v)) = Some (av_version_digest v)
    \<and> ap_revision (activationOf (wd_registry w') (av_target_agent_id v) (av_target_domain_id v)) =
        sn_activation_revision_at_start (ip_run ins) + 1"
proof -
  let ?run = "ip_run ins" and ?n = "sn_activation_revision_at_start (ip_run ins)"
  have "\<exists>t p w1. commitFoundryActivation pt Activate_Tx v ?n (map_option fst authority) w = (Inr (t, p), w1)
    \<and> ap_active_version_digest (activationOf (wd_registry w1) (av_target_agent_id v) (av_target_domain_id v)) = Some (av_version_digest v)
    \<and> ap_revision (activationOf (wd_registry w1) (av_target_agent_id v) (av_target_domain_id v)) = ?n + 1
    \<and> tx_receipt t = map_option fst authority \<and> tx_binding t = buildRuntimeBindingVerification p
    \<and> memoryPreflight (wd_registry w) Activate_Tx v ?n = Inr p \<and> wd_events w1 = wd_events w"
    using v(5, 2) n(1, 2) pf m d(1) pure by (intro commit_live w) simp_all
  then obtain t p w1 where c1: "commitFoundryActivation pt Activate_Tx v ?n (map_option fst authority) w = (Inr (t, p), w1)"
    and a1: "ap_active_version_digest (activationOf (wd_registry w1) (av_target_agent_id v) (av_target_domain_id v)) = Some (av_version_digest v)"
      "ap_revision (activationOf (wd_registry w1) (av_target_agent_id v) (av_target_domain_id v)) = ?n + 1"
    and e1: "wd_events w1 = wd_events w" and tp: "tx_binding t = buildRuntimeBindingVerification p"
      "memoryPreflight (wd_registry w) Activate_Tx v ?n = Inr p" by blast
  have w1: "worldInv w1" using movesD [OF moves_commitActivation c1 w] by blast
  have cur: "insCurrent ins w1" using c e1 by (simp add: insCurrent_def)
  have n0: "\<bar>?n\<bar> < 2 ^ 53"
    using n(1, 2) w by (auto simp: worldInv_def registryInv_def regStateInv_def activationOf_def)
  have pb: "plain (tx_binding t)" unfolding tp(1) by (rule plain_binding [OF memoryPreflight_ok(1) [OF tp(2)] n0])
  have "plain (fld ''runtime_binding_ref'' (tx_binding t))" by (simp add: tp(1) buildRuntimeBindingVerification_def)
  from plain_activationPayload [OF pb this]
  have pl: "plain (activationPayload t p authority)" "isRecord (activationPayload t p authority)" by blast+
  have st: "run_step (sn_run_state ?run) ''activation_completed'' Completed_Active"
    by (simp add: s run_step_iff eventTypeAllowed_def genericTerminalType_def EVENT_TYPES_BY_TRANSITION_def)
  obtain e w' where e: "appendRunEvent pt ins ''activation_completed'' Completed_Active ''activate'' (av_version_digest v)
      (activationPayload t p authority) w1 = (Inr e, w')"
    using append_live [OF cur w1 st pl(2, 1) d(2)] key e1 n(3) by fastforce
  note ae = appendRunEvent_Inr [OF e cur]
  have "activateRun pt ins w = (Inr e, w')"
  proof -
    have g: "checkK (\<not> (active_owner_required (ownerGatePolicy (sn_risk_tier ?run)) \<and> authority = None)) m = retK ()" for m
      using au(2) by (auto simp: checkK_def liftK_def retK_def fun_eq_iff runChecks_ok ownerGatePolicy_def)
    have "resolveVersion (wd_registry w) (sn_version_digest ?run) (requestAgent (ip_request ins)) (requestDomain (ip_request ins))
        = Some v" using v by simp
    then show ?thesis
      by (simp only: activateRun_def Let_def bindK_def liftK_def readK_def retK_def au(1) g c1 e v(1) templateText.simps prod.case sum.case option.case)
  qed
  then show ?thesis using ae(5, 6) a1 by (intro exI [of _ e] exI [of _ w']) simp
qed

section \<open>A first request\<close>

text \<open>
  A request to create an agent is accepted for a target that has no run in progress and no
  active version; the run starts in \<open>accepted\<close>, and its request is in the object store.
\<close>

lemma createRequest_facts:
  assumes v: "validateDesignRequest value = Inr request" and m: "fld ''mode'' value = JStr ''create''"
  shows "request = value" "scanForbidden request ''$'' = []" "fld ''target_version_ref'' request = JNull"
    "fld ''target_agent_id'' request = JStr (requestAgent request)" "requestAgent request \<noteq> []"
    "fld ''target_domain_id'' request = JStr (requestDomain request)" "requestDomain request \<noteq> []"
    "\<not> isBaselineAdoptionDesignRequest request"
proof -
  have c: "list_all fst (designRequestChecks value)" using v by (auto simp: validateDesignRequest_def)
  then have h: "\<not> hasOwn value ''baseline_adoption''" using m by (auto simp: designRequestChecks_def)
  then show r: "request = value" using v by (simp add: validateDesignRequest_def)
  have ne: "trim s \<noteq> [] \<Longrightarrow> s \<noteq> []" for s by (auto simp: trim_def)
  have i: "list_all fst (assertIdentity value ''DesignRequest'')"
    and p: "list_all fst (assertFoundryProtocolPurity value ''DesignRequest'')"
    using c by (simp_all add: designRequestChecks_def assertBase_def)
  from p show "scanForbidden request ''$'' = []" by (simp add: assertFoundryProtocolPurity_def r)
  from i show "fld ''target_agent_id'' request = JStr (requestAgent request)" "requestAgent request \<noteq> []"
    "fld ''target_domain_id'' request = JStr (requestDomain request)" "requestDomain request \<noteq> []"
    using ne by (auto simp: assertIdentity_def requiredString_def nonBlank_def trimmed_def isStr_JStr r requestAgent_def requestDomain_def)
  from c m show "fld ''target_version_ref'' request = JNull" by (simp add: designRequestChecks_def r)
  show "\<not> isBaselineAdoptionDesignRequest request" using h r by (simp add: isBaselineAdoptionDesignRequest_def)
qed

lemma create_live:
  assumes v: "validateDesignRequest value = Inr request" "fld ''mode'' value = JStr ''create''" "plain value"
    and r: "trim r = r" "r \<noteq> []" "readRun (wd_events w) r = []"
    and w: "worldInv w"
    and lock: "map_of (es_locks (wd_events w)) (targetKey (requestAgent request) (requestDomain request)) = None"
    and a: "ap_active_version_digest (activationOf (wd_registry w) (requestAgent request) (requestDomain request)) = None"
    and new: "\<And>d v. foundryContentDigest request = Inr d \<Longrightarrow> getObject (wd_objects w) d = Some v \<Longrightarrow>
      canonicalJsonText v = canonicalJsonText request"
    and now: "\<And>c. isoCanonical (pt_now pt c)"
  shows "\<exists>run w' e. startRun pt value (Some r) w = (Inr run, w') \<and> sn_run_id run = r \<and> sn_run_state run = Accepted
    \<and> readRun (wd_events w') r = [e] \<and> getObject (wd_objects w') (sn_request_digest run) = Some request
    \<and> foundryContentDigest request = Inr (sn_request_digest run)"
proof -
  note f = createRequest_facts [OF v(1, 2)]
  let ?a = "requestAgent request" and ?d = "requestDomain request"
  let ?n = "ap_revision (activationOf (wd_registry w) ?a ?d)"
  define dg where "dg = ''sha256:'' @ sha256Hex (jtext (norm request))"
  have isd: "isDigest dg" unfolding dg_def isDigest_append by simp
  have cd: "foundryContentDigest request = Inr dg"
    using canonicalJsonText_plain [of request] v(3) f(1, 2)
    by (simp add: foundryContentDigest_def assertFoundryProtocolPurity_def runChecks_ok dg_def)
  have "regStateInv (regState (wd_registry w) ?a ?d)" using w by (simp add: worldInv_def registryInv_def)
  then have n: "?n = 0" using a by (auto simp: activationOf_def regStateInv_def split: if_splits)
  have key: "trim (r @ ''/0/accepted/'' @ dg) \<noteq> []" by (rule trim_nonblank [of "CHR ''/''"]) (simp_all add: isWs_def)
  let ?body = "eventBody r 1 ''foundry_run_accepted'' None Accepted (pt_now pt (wd_tick w)) (r @ ''/0/accepted/'' @ dg) None
    (acceptancePayload ?a ?d dg 0)"
  have "plain (acceptancePayload ?a ?d dg 0)" using numOk_int [of 0] by (simp add: acceptancePayload_def)
  then have "\<exists>h. buildFoundryEvent r 1 ''foundry_run_accepted'' None Accepted (pt_now pt (wd_tick w)) (r @ ''/0/accepted/'' @ dg)
      None (acceptancePayload ?a ?d dg 0) = Inr (withHash ?body h)"
    by (rule buildFoundryEvent_total) simp_all
  then obtain h where b: "buildFoundryEvent r 1 ''foundry_run_accepted'' None Accepted (pt_now pt (wd_tick w))
      (r @ ''/0/accepted/'' @ dg) None (acceptancePayload ?a ?d dg 0) = Inr (withHash ?body h)" (is "_ = Inr ?e") ..
  have ve: "verifyFoundryEventChain [?e] = Inr ()"
    by (rule verify_first_built [OF b refl]) (use r key now f(5, 7) isd in simp_all)
  have pay: "JObj [(''target_agent_id'', fld ''target_agent_id'' request), (''target_domain_id'', fld ''target_domain_id'' request),
      (''request_digest'', JStr dg), (''activation_revision_at_start'', jInt ?n), (''generation'', jInt 0)]
    = acceptancePayload ?a ?d dg 0" using f(4, 6) n by (simp add: acceptancePayload_def)
  have inv: "storeInv (wd_events w)" using w by (simp add: worldInv_def)
  have none: "map_of (es_runs (wd_events w)) r = None"
    using readRun_Some [OF inv, of r] r(3) by (cases "map_of (es_runs (wd_events w)) r") auto
  have id: "runIdOf ?e = r" by (simp add: runIdOf_def built_simps)
  obtain s' where cr: "createRun (wd_events w) (targetKey ?a ?d) ?e = Inr s'" "readRun s' r = [?e]"
    using none lock ve id by (auto simp: createRun_def runChecks_ok readRun_def update_conv)
  from snapshot_verified [OF ve] obtain run where run: "snapshotFromEvents [?e] = Inr run" by blast
  note g = snapshot_fields [OF run]
  have rq: "sn_request_digest run = dg" using g(1) by (simp add: chainRequest_def built_simps acceptancePayload_def orElse_def)
  have "evState ?e = stateName Accepted" by (simp only: evState_def built_simps strOf_JStr)
  with g(5) have "stateName (sn_run_state run) = stateName Accepted" by simp
  then have st: "sn_run_state run = Accepted" by (metis stateOf_stateName option.inject)
  have id': "sn_run_id run = r" using g(2) by (simp add: built_simps)
  have tx: "canonicalJsonText request = Inr (jtext (norm request))" using canonicalJsonText_plain v(3) f(1) by simp
  have po: "putObject (wd_objects w) request = Inr (AList.update dg request (wd_objects w), dg, ''foundry-object:'' @ dg)"
  proof (cases "map_of (wd_objects w) dg")
    case None
    then show ?thesis by (simp add: putObject_def cd)
  next
    case (Some o')
    then have "canonicalJsonText o' = canonicalJsonText request" using new [OF cd] by (simp add: getObject_def)
    with Some tx show ?thesis by (simp add: putObject_def cd runChecks_ok)
  qed
  define w1 where "w1 = w\<lparr> wd_objects := AList.update dg request (wd_objects w) \<rparr>"
  define w2 where "w2 = w1\<lparr> wd_tick := Suc (wd_tick w) \<rparr>"
  have "acceptRun pt r request dg ?n w = (Inr run, w2\<lparr> wd_events := s' \<rparr>)"
    unfolding acceptRun_def pay
    using po b cr(1) run by (simp add: bindK_def putK_def checkK_def liftK_def runChecks_ok nowK_def portK_def createK_def
        w1_def w2_def del: append.simps)
  then have "admitRun pt r request dg False w = (Inr run, w2\<lparr> wd_events := s' \<rparr>)"
    using a f(3) v(2) f(1)
    by (simp add: admitRun_def bindK_def retK_def resolveBaseline_def readK_def liftK_def modeChecks_def Let_def runChecks_ok)
  then have "startRun pt value (Some r) w = (Inr run, w2\<lparr> wd_events := s' \<rparr>)"
    using r v(1) cd f(8)
    by (simp add: startRun_def startRunWith_def Let_def bindK_def retK_def checkK_def liftK_def readK_def runChecks_ok)
  then show ?thesis
    using id' st cr(2) rq cd by (intro exI [of _ run] exI [of _ "w2\<lparr> wd_events := s' \<rparr>"] exI [of _ ?e])
      (simp add: w2_def w1_def getObject_def update_conv)
qed

section \<open>Ended and waiting runs\<close>

lemma verified_prefix: "verifyFoundryEventChain (es @ fs) = Inr () \<Longrightarrow> es \<noteq> [] \<Longrightarrow> verifyFoundryEventChain es = Inr ()"
  by (cases es) (auto simp: verifyFoundryEventChain_def verifyFrom_append)

lemma terminal_prefix:
  assumes p: "prefix es fs" and t: "chainTerminal es" and es: "es \<noteq> []" and v: "verifyFoundryEventChain fs = Inr ()"
  shows "fs = es"
proof (rule ccontr)
  assume "fs \<noteq> es"
  with p obtain y ys where fs: "fs = (es @ [y]) @ ys" by (auto simp: prefix_def) (metis append_Cons append_Nil neq_Nil_conv)
  from verified_prefix [OF v [unfolded fs]] have "verifyFoundryEventChain (es @ [y]) = Inr ()" by simp
  moreover from verified_prefix [OF this es] have "verifyFoundryEventChain es = Inr ()" .
  ultimately show False using terminal_chain_closed [OF _ t] by blast
qed

text \<open>No operation touches a run that has ended.\<close>

lemma runOp_terminal:
  assumes w: "worldInv w" and pt: "portValues pt" "opValue c" and r: "readRun (wd_events w) r \<noteq> []" "chainTerminal (readRun (wd_events w) r)"
  shows "readRun (wd_events (runOp pt c w)) r = readRun (wd_events w) r"
proof -
  from runOp_moves [OF pt w] have i: "storeInv (wd_events (runOp pt c w))"
    and p: "prefix (readRun (wd_events w) r) (readRun (wd_events (runOp pt c w)) r)"
    by (simp_all add: worldInv_def grown_def)
  then have "readRun (wd_events (runOp pt c w)) r \<noteq> []" using r(1) by (auto simp: prefix_def)
  with i have "verifyFoundryEventChain (readRun (wd_events (runOp pt c w)) r) = Inr ()" using store.chain by blast
  from terminal_prefix [OF p r(2, 1) this] show ?thesis .
qed

text \<open>
  A run that waits for its owner cannot be failed from outside: the transition tables have
  no step from the waiting states to \<open>failed\<close>, and the request changes nothing.
\<close>

lemma failRun_waiting:
  assumes i: "inspectRun r w = (Inr ins, w)" and w: "worldInv w"
    and s: "sn_run_state (ip_run ins) = Awaiting_Owner_Canary \<or> sn_run_state (ip_run ins) = Awaiting_Owner_Active"
  shows "\<exists>e w'. failRun pt r code message w = (Inl e, w') \<and> sameStores w w'"
proof -
  have nt: "\<not> isTerminal (sn_run_state (ip_run ins))" using s by (auto simp: isTerminal_iff)
  have no: "\<exists>x w'. appendRunEvent pt ins ''foundry_run_failed'' Failed ''failure'' d p w = (Inl x, w') \<and> sameStores w w'" for d p
  proof -
    have "buildFoundryEvent run n ty (Some (sn_run_state (ip_run ins))) Failed ts key prev p \<noteq> Inr y" for run n ty ts key prev y
      using s by (auto simp: buildFoundryEvent_def assertFoundryTransition_def)
    then show ?thesis
      by (auto simp: appendRunEvent_def Let_def bindK_def nowK_def portK_def liftK_def sameStores_def split: sum.splits)
  qed
  obtain x where d: "foundryContentDigest (failureIdentity ins ''runtime'') = x" by blast
  obtain c where c: "requiredRef code ''failure_code'' = c" by blast
  obtain m where m: "requiredRef message ''failure_message'' = m" by blast
  have w0: "sameStores w w" by (simp add: sameStores_def)
  show ?thesis
  proof (cases "\<exists>y y1 y2. x = Inr y \<and> c = Inr y1 \<and> m = Inr y2")
    case True
    then obtain y y1 y2 where y: "x = Inr y" "c = Inr y1" "m = Inr y2" by blast
    from no [of y "failurePayload y1 y2"] show ?thesis
      using i nt d c m y by (auto simp: failRun_def bindK_def liftK_def simp del: guards_Inr)
  next
    case False
    then show ?thesis
      using i nt d c m w0 by (cases x; cases c; cases m) (auto simp: failRun_def bindK_def liftK_def simp del: guards_Inr)
  qed
qed

end
