(* ===== verification/Kernel_Readback.thy ===== *)
theory Kernel_Readback
  imports Kernel_Live
begin

text \<open>
  What the kernel writes for an owner decision is what its terminal readback reads: the
  round trip between \<open>ownerVerificationPayload\<close> of \<open>kernel.ts\<close> and
  \<open>ownerDecisionReadback\<close> of \<open>kernel-parts/terminal-readback.ts\<close>.
\<close>

lemma required_trimmed: "trim s = s \<Longrightarrow> s \<noteq> [] \<Longrightarrow> requiredRef (JStr s) f = Inr s"
  by (simp add: requiredRef_def runChecks_ok isStr_JStr)

lemma digest_last: "isDigest d \<Longrightarrow> d \<noteq> [] \<and> \<not> isWs (last d) \<and> trim d = d"
proof -
  assume "isDigest d"
  then obtain h where h: "d = ''sha256:'' @ h" "isHex64 h" unfolding isDigest_def by (rule matchesPrefixHex64_E)
  then have ne: "h \<noteq> []" by (auto simp: isHex64_def)
  moreover have "\<not> isWs (last h)" using h(2) not_ws last_in_set [OF ne] by (auto simp: isHex64_def list_all_iff)
  moreover have "\<not> isWs CHR ''s''" by code_simp
  ultimately show ?thesis using h(1) by (simp add: trim_id)
qed

lemma receiptRef_trim:
  assumes "isDigest d"
  shows "trim (''opl://foundry/owner-authority-receipts/'' @ d) = ''opl://foundry/owner-authority-receipts/'' @ d"
  using digest_last [OF assms] by (intro trim_id) (simp_all add: isWs_def)

lemma verification_trimmed:
  assumes "validateOwnerGateVerification dp cv v = Inr g"
  shows "trim (gv_verifier_id g) = gv_verifier_id g" "gv_verifier_id g \<noteq> []"
    "trim (gv_verification_ref g) = gv_verification_ref g" "gv_verification_ref g \<noteq> []"
    "trim (gv_authority_policy_ref g) = gv_authority_policy_ref g" "gv_authority_policy_ref g \<noteq> []"
    "trim (gv_covered_authority_ref g) = gv_covered_authority_ref g" "gv_covered_authority_ref g \<noteq> []"
  using assms by (auto simp: validateOwnerGateVerification_def timestamp_def dest!: requiredString_facts)

lemma decision_readback:
  assumes v: "validateOwnerGateVerification dp cv v = Inr g" and e: "fld ''payload'' e = ownerVerificationPayload g"
    and ty: "decisionMatches (evType e) (actionName (rs_action (gv_receipt g))) (decisionName (rs_decision (gv_receipt g)))"
  shows "\<exists>d. ownerDecisionReadback e = Inr d \<and> od_receipt_ref d = or_receipt_ref (gv_receipt g)
    \<and> od_receipt_digest d = or_receipt_digest (gv_receipt g) \<and> od_action d = actionName (rs_action (gv_receipt g))
    \<and> od_decision d = decisionName (rs_decision (gv_receipt g)) \<and> od_authority_ref d = gv_covered_authority_ref g
    \<and> od_verifier_id d = gv_verifier_id g \<and> od_verification_ref d = gv_verification_ref g
    \<and> od_authority_policy_ref d = gv_authority_policy_ref g \<and> od_expected_revision d = evRevision e - 1"
proof -
  note f = verification_facts [OF v] and t = verification_trimmed [OF v]
  have d: "isDigest (or_receipt_digest (gv_receipt g))"
    unfolding f(3) isDigest_append by (rule isHex64_sha256Hex)
  have r: "requiredRef (JStr (or_receipt_ref (gv_receipt g))) k = Inr (or_receipt_ref (gv_receipt g))" for k
    by (rule required_trimmed) (simp_all only: f(4) receiptRef_trim [OF d], simp)
  have dg: "requiredDigest (JStr (or_receipt_digest (gv_receipt g))) k = Inr (or_receipt_digest (gv_receipt g))" for k
    using d digest_last [OF d] by (simp add: requiredDigest_def required_trimmed runChecks_ok)
  have an: "requiredRef (JStr (actionName a)) k = Inr (actionName a)" for a k
    by (rule required_trimmed) simp_all
  have dn: "requiredRef (JStr (decisionName b)) k = Inr (decisionName b)" for b k
    by (rule required_trimmed) simp_all
  have pay: "fld ''owner_authority_receipt_ref'' (fld ''payload'' e) = JStr (or_receipt_ref (gv_receipt g))"
    "fld ''owner_authority_receipt_digest'' (fld ''payload'' e) = JStr (or_receipt_digest (gv_receipt g))"
    "fld ''owner_authority_ref'' (fld ''payload'' e) = JStr (gv_covered_authority_ref g)"
    "fld ''owner_authority_verifier_id'' (fld ''payload'' e) = JStr (gv_verifier_id g)"
    "fld ''owner_authority_verification_ref'' (fld ''payload'' e) = JStr (gv_verification_ref g)"
    "fld ''owner_authority_policy_ref'' (fld ''payload'' e) = JStr (gv_authority_policy_ref g)"
    "fld ''owner_gate_action'' (fld ''payload'' e) = JStr (actionName (rs_action (gv_receipt g)))"
    "fld ''owner_gate_decision'' (fld ''payload'' e) = JStr (decisionName (rs_decision (gv_receipt g)))"
    by (simp_all add: e ownerVerificationPayload_def)
  have o: "ownerAuthorityReceiptRef (or_receipt_digest (gv_receipt g)) = Inr (or_receipt_ref (gv_receipt g))"
    using d by (simp add: ownerAuthorityReceiptRef_def runChecks_ok f(4))
  show ?thesis
    unfolding ownerDecisionReadback_def Let_def pay
    by (simp add: an dn ty dg r o t required_trimmed runChecks_ok)
qed

text \<open>What an event leaves alone in the snapshot.\<close>

lemma snapshot_same:
  assumes s: "snapshotFromEvents es = Inr run" and v: "snapshotFromEvents (es @ [e]) = Inr run'"
  shows "sn_target_agent_id run' = sn_target_agent_id run" "sn_target_domain_id run' = sn_target_domain_id run"
    "''version_digest'' \<notin> set (objKeys (fld ''payload'' e)) \<Longrightarrow> sn_version_digest run' = sn_version_digest run"
proof -
  have ne: "es \<noteq> []" using s by (auto simp: snapshotFromEvents_def)
  have a: "sn_target_agent_id r = jsToString (orElse (fld ''target_agent_id'' (fld ''payload'' (hd fs))) (JStr []))
      \<and> sn_target_domain_id r = jsToString (orElse (fld ''target_domain_id'' (fld ''payload'' (hd fs))) (JStr []))
      \<and> sn_version_digest r = optStr (fld ''version_digest'' (accumulated fs))"
    if "snapshotFromEvents fs = Inr r" for fs r
    using that by (auto simp: snapshotFromEvents_def Let_def split: if_splits option.splits)
  show "sn_target_agent_id run' = sn_target_agent_id run" "sn_target_domain_id run' = sn_target_domain_id run"
    using a [OF s] a [OF v] ne by simp_all
  show "''version_digest'' \<notin> set (objKeys (fld ''payload'' e)) \<Longrightarrow> sn_version_digest run' = sn_version_digest run"
    using a [OF s] a [OF v] by (simp add: accumulated_snoc)
qed

text \<open>An inspection succeeds when its parts do.\<close>

lemma inspect_live:
  assumes "readRun (wd_events w) r \<noteq> []" "snapshotFromEvents (readRun (wd_events w) r) = Inr run"
    and "getObject (wd_objects w) (sn_request_digest run) = Some request" "request \<noteq> JNull"
    and "buildFoundryRunTerminalReadback (wd_registry w) run (readRun (wd_events w) r)
      (activationOf (wd_registry w) (requestAgent request) (requestDomain request)) = Inr b"
  shows "inspectRun r w = (Inr \<lparr> ip_run = run, ip_request = request,
    ip_activation = activationOf (wd_registry w) (requestAgent request) (requestDomain request), ip_readback = b \<rparr>, w)"
  using assms by (simp add: inspectRun_def objectK_def bindK_def readK_def liftK_def retK_def checkK_def runChecks_ok)

text \<open>
  A run that may activate: it is in \<open>activating\<close> with a resolvable version, the target's
  pointer is where it was when the run started, an owner approved it where the risk asks
  for one, the runtime is the in-memory one, and the activation key is new to the chain.
\<close>

definition activationReady :: "ports \<Rightarrow> inspection \<Rightarrow> world \<Rightarrow> agent_version \<Rightarrow> bool" where
  "activationReady pt ins w v \<longleftrightarrow> worldInv w \<and> insCurrent ins w \<and> sn_run_state (ip_run ins) = Activating
     \<and> sn_version_digest (ip_run ins) = Some (av_version_digest v) \<and> av_version_digest v \<noteq> []
     \<and> av_target_agent_id v = requestAgent (ip_request ins) \<and> av_target_domain_id v = requestDomain (ip_request ins)
     \<and> resolveVersion (wd_registry w) (Some (av_version_digest v)) (av_target_agent_id v) (av_target_domain_id v) = Some v
     \<and> ap_revision (activationOf (wd_registry w) (av_target_agent_id v) (av_target_domain_id v)) = sn_activation_revision_at_start (ip_run ins)
     \<and> sn_activation_revision_at_start (ip_run ins) < 2 ^ 53 \<and> sn_revision (ip_run ins) < 2 ^ 53 - 1
     \<and> (\<exists>authority. latestOwnerAuthority (readRun (wd_events w) (sn_run_id (ip_run ins))) = Inr authority
         \<and> (sn_risk_tier (ip_run ins) = JStr ''low'' \<or> authority \<noteq> None))
     \<and> (\<forall>c. pt_preflight pt c = memoryPreflight) \<and> 1 \<le> pt_max_attempts pt
     \<and> (\<forall>c. pt_date_ok pt (pt_now pt c) \<and> isoCanonical (pt_now pt c))
     \<and> (\<forall>p. memoryPreflight (wd_registry w) Activate_Tx v (sn_activation_revision_at_start (ip_run ins)) = Inr p \<longrightarrow>
         scanForbidden (buildRuntimeBindingVerification p) ''$'' = [])
     \<and> idempotencyKey (ip_run ins) ''activate'' (av_version_digest v) \<notin> evKey ` set (readRun (wd_events w) (sn_run_id (ip_run ins)))"

lemma activate_ready:
  assumes "activationReady pt ins w v"
  shows "\<exists>e w'. activateRun pt ins w = (Inr e, w') \<and> fld ''to_state'' e = JStr (stateName Completed_Active)
    \<and> ap_active_version_digest (activationOf (wd_registry w') (av_target_agent_id v) (av_target_domain_id v)) = Some (av_version_digest v)
    \<and> ap_revision (activationOf (wd_registry w') (av_target_agent_id v) (av_target_domain_id v)) =
        sn_activation_revision_at_start (ip_run ins) + 1"
proof -
  from assms obtain authority where a: "latestOwnerAuthority (readRun (wd_events w) (sn_run_id (ip_run ins))) = Inr authority"
    "sn_risk_tier (ip_run ins) = JStr ''low'' \<or> authority \<noteq> None" unfolding activationReady_def by blast
  show ?thesis
    by (rule activate_live [where authority = authority])
      (insert assms a, unfold activationReady_def, (elim conjE, simp)+)
qed

end
