(* ===== verification/Pure_Values.thy ===== *)
theory Pure_Values
  imports Kernel_Readback
begin

text \<open>
  A sufficient condition for the purity scan to find nothing, which is quick to evaluate:
  keys of lower case letters, digits and underscores that are not forbidden, and texts that
  start with two such letters and not with those of \<open>attempt:\<close> or \<open>file:\<close>.
\<close>

definition keyChars :: string where
  "keyChars = ''abcdefghijklmnopqrstuvwxyz0123456789_''"

definition pureKey :: "string \<Rightarrow> bool" where
  "pureKey k \<longleftrightarrow> list_all (\<lambda>c. c \<in> set keyChars) k \<and> k \<notin> set FORBIDDEN_FIELD_NAMES \<and> ''attempt'' \<notin> set (splitOn CHR ''_'' k)"

fun pureText :: "string \<Rightarrow> bool" where
  "pureText [] = True"
| "pureText [c] = (c \<in> set keyChars)"
| "pureText (c # d # s) = (c \<in> set keyChars \<and> d \<in> set keyChars
     \<and> \<not> (c = CHR ''a'' \<and> d = CHR ''t'') \<and> \<not> (c = CHR ''f'' \<and> d = CHR ''i''))"

fun pureValue :: "json \<Rightarrow> bool" where
  "pureValue (JStr s) = pureText s"
| "pureValue (JArr vs) = list_all pureValue vs"
| "pureValue (JObj kvs) = list_all (\<lambda>(k, v). pureKey k \<and> pureValue v) kvs"
| "pureValue v = True"

lemma keyChars_facts:
  "c \<in> set keyChars \<Longrightarrow> \<not> isUpperAscii c \<and> lowerChar c = c \<and> \<not> isWs c \<and> c \<noteq> CHR ''-'' \<and> c \<noteq> CHR ''/'' \<and> c \<noteq> CHR ''.'' \<and> c \<noteq> CHR '':''"
proof -
  have "list_all (\<lambda>c. \<not> isUpperAscii c \<and> lowerChar c = c \<and> \<not> isWs c \<and> c \<noteq> CHR ''-'' \<and> c \<noteq> CHR ''/'' \<and> c \<noteq> CHR ''.'' \<and> c \<noteq> CHR '':'') keyChars"
    by code_simp
  then show "c \<in> set keyChars \<Longrightarrow> ?thesis" by (simp only: list_all_iff) blast
qed

lemma splitCamel_plain: "list_all (\<lambda>c. \<not> isUpperAscii c) k \<Longrightarrow> splitCamel k = k"
  by (induction k rule: splitCamel.induct) auto

lemma pureKey_ok: "pureKey k \<Longrightarrow> \<not> forbiddenKey k"
proof -
  assume p: "pureKey k"
  then have c: "\<forall>c \<in> set k. c \<in> set keyChars" by (simp add: pureKey_def list_all_iff)
  have "splitCamel k = k" using c keyChars_facts by (intro splitCamel_plain) (auto simp: list_all_iff)
  moreover have "map (\<lambda>c. if c = CHR ''-'' then CHR ''_'' else c) k = k"
    using c keyChars_facts by (intro map_idI) auto
  moreover have "toLowerCase k = k" unfolding toLowerCase_def using c keyChars_facts by (intro map_idI) auto
  ultimately have "normalizedKey k = k" by (simp add: normalizedKey_def)
  with p show ?thesis by (simp add: forbiddenKey_def pureKey_def)
qed

lemma trim_starts:
  assumes "\<not> isWs c" "\<not> isWs d"
  shows "\<exists>r. trim (c # d # s) = c # d # r" "trim [c] = [c]"
proof -
  have "dropWhile isWs (rev s @ [d, c]) = (if list_all isWs (rev s) then [d, c] else dropWhile isWs (rev s) @ [d, c])"
    using assms by (auto simp: dropWhile_append list_all_iff)
  then show "\<exists>r. trim (c # d # s) = c # d # r" using assms
    by (auto simp: trim_def intro: exI [of _ "rev (dropWhile isWs (rev s))"])
  show "trim [c] = [c]" using assms by (simp add: trim_def)
qed

lemma pureText_ok: "pureText s \<Longrightarrow> scanString loc s = []"
proof (cases s rule: pureText.cases)
  case 1
  then show ?thesis by (simp add: scanString_def trim_def looksLikePhysicalPath_def startsWith_def toLowerCase_def)
next
  case (2 c)
  assume "pureText s"
  with 2 keyChars_facts [of c] show ?thesis
    by (auto simp: scanString_def trim_starts looksLikePhysicalPath_def startsWith_def toLowerCase_def)
next
  case (3 c d r)
  assume "pureText s"
  with 3 have p: "c \<in> set keyChars" "d \<in> set keyChars" "\<not> (c = CHR ''a'' \<and> d = CHR ''t'')" "\<not> (c = CHR ''f'' \<and> d = CHR ''i'')" by auto
  note f = keyChars_facts [OF p(1)] keyChars_facts [OF p(2)]
  obtain t where "trim s = c # d # t" using trim_starts(1) [of c d r] f 3 by blast
  with f p show ?thesis
    by (auto simp: scanString_def looksLikePhysicalPath_def startsWith_def toLowerCase_def split: list.splits)
qed

lemma pureValue_ok: "pureValue v \<Longrightarrow> scanForbidden v loc = []"
proof (induction v loc rule: scanForbidden.induct)
  case (1 s loc)
  then show ?case by (simp add: pureText_ok)
next
  case (2 vs loc)
  have "pureValue v" if "(i, v) \<in> set (zip [0..<length vs] vs)" for i v
    using 2(2) set_zip_rightD [OF that] by (simp add: list_all_iff)
  with 2(1) show ?case by auto
next
  case (3 kvs loc)
  then show ?case by (fastforce simp: list_all_iff pureKey_ok)
qed simp_all

lemma pureText_digest: "isDigest d \<Longrightarrow> pureText d"
proof -
  assume "isDigest d"
  then obtain h where "d = ''sha256:'' @ h" unfolding isDigest_def by (rule matchesPrefixHex64_E)
  then show ?thesis by (simp add: keyChars_def)
qed

end
