(* ===== verification/Example_Documents.thy ===== *)
theory Example_Documents
  imports Pure_Values
begin

text \<open>
  Concrete protocol documents the witnesses use: a request in create mode and a blueprint
  made for it, with the lemmas that the validators of \<open>Protocol\<close> accept them.
\<close>

section \<open>A request and a blueprint\<close>

definition exRequest :: json where
  "exRequest = JObj [(''surface_kind'', JStr ''opl_foundry_design_request''), (''version'', JStr ''opl-foundry-protocol.v1''),
     (''request_id'', JStr ''request-1''), (''mode'', JStr ''create''), (''target_agent_id'', JStr ''agent''),
     (''target_domain_id'', JStr ''domain''), (''target_version_ref'', JNull), (''objective'', JStr ''summarise papers''),
     (''acceptance_criteria'', jStrs []), (''non_goals'', jStrs []), (''source_refs'', jStrs []),
     (''constraints'', JObj [(''capability_refs'', jStrs []), (''permission_refs'', jStrs []), (''privacy_requirements'', jStrs []),
        (''cost_limits'', JObj [(''usd'', jInt 2)]), (''latency_limits'', JObj [])]),
     (''delivery_policy'', JObj [(''activation_mode'', JStr ''activate''), (''max_generations'', jInt 2)])]"

lemma exRequest_pure: "pureValue exRequest"
  by code_simp

lemma pure_checks: "pureValue v \<Longrightarrow> list_all fst (assertFoundryProtocolPurity v l)"
  by (simp add: assertFoundryProtocolPurity_def pureValue_ok)

lemma exRequest_ok: "validateDesignRequest exRequest = Inr exRequest"
proof -
  have a: "list_all fst (assertExactKeys exRequest ''DesignRequest'' (designRequestKeys exRequest))"
    and b: "list_all fst (constraintChecks (fld ''constraints'' exRequest))"
    and c: "list_all fst (deliveryPolicyChecks (fld ''delivery_policy'' exRequest))"
    and d: "list_all fst (assertIdentity exRequest ''DesignRequest'')"
    and e: "list_all fst (requiredString (fld ''request_id'' exRequest) ''DesignRequest.request_id'')"
      "list_all fst (requiredString (fld ''objective'' exRequest) ''DesignRequest.objective'')"
      "list_all fst (requiredUniqueStringList (fld ''acceptance_criteria'' exRequest) ''DesignRequest.acceptance_criteria'' 0)"
      "list_all fst (requiredUniqueStringList (fld ''non_goals'' exRequest) ''DesignRequest.non_goals'' 0)"
      "list_all fst (requiredUniqueStringList (fld ''source_refs'' exRequest) ''DesignRequest.source_refs'' 0)"
    and f: "\<not> hasOwn exRequest ''baseline_adoption''" by code_simp+
  have g: "oneOf [''create'', ''takeover'', ''improve''] (fld ''mode'' exRequest)" "isRecord exRequest"
    "fld ''surface_kind'' exRequest = JStr ''opl_foundry_design_request''" "fld ''version'' exRequest = JStr FOUNDRY_PROTOCOL_VERSION"
    "fld ''mode'' exRequest = JStr ''create''" "fld ''target_version_ref'' exRequest = JNull" by code_simp+
  have "list_all fst (designRequestChecks exRequest)"
    unfolding designRequestChecks_def assertBase_def using a b c d e f g pure_checks [OF exRequest_pure] by simp
  then show ?thesis using f by (simp add: validateDesignRequest_def runChecks_ok)
qed

definition exBlueprintRest :: "(string \<times> json) list" where
  "exBlueprintRest = [(''surface_kind'', JStr ''opl_foundry_agent_blueprint''), (''version'', JStr ''opl-foundry-protocol.v1''),
     (''blueprint_id'', JStr ''blueprint-1''), (''target_agent_id'', JStr ''agent''), (''target_domain_id'', JStr ''domain''),
     (''target_version_ref'', JNull), (''generation'', jInt 0),
     (''stage_graph'', JObj [(''entry_stage_id'', JStr ''read''), (''stages'', JArr [JObj [(''stage_id'', JStr ''read''),
        (''stage_kind'', JStr ''task''), (''goal'', JStr ''read the paper''), (''input_artifact_types'', jStrs []),
        (''output_artifact_types'', jStrs []), (''prompt_ref'', JStr ''prompt:read''), (''skill_refs'', jStrs []),
        (''knowledge_refs'', jStrs []), (''capability_refs'', jStrs []), (''next_stage_ids'', jStrs [])]])]),
     (''actions'', JArr [JObj [(''action_id'', JStr ''summarise''), (''summary'', JStr ''one page''), (''entry_stage_id'', JStr ''read''),
        (''input_schema_ref'', JStr (''opl-content://sha256/'' @ replicate 64 CHR ''0'')),
        (''output_schema_ref'', JStr (''opl-content://sha256/'' @ replicate 64 CHR ''0''))]]),
     (''artifact_contracts'', JArr []),
     (''content_refs'', JObj [(''prompt_refs'', jStrs [''prompt:read'']), (''skill_refs'', jStrs []), (''knowledge_refs'', jStrs []),
        (''helper_refs'', jStrs []), (''model_refs'', jStrs []), (''tool_refs'', jStrs []),
        (''schema_refs'', jStrs [''opl-content://sha256/'' @ replicate 64 CHR ''0''])]),
     (''capability_requirements'', jStrs []),
     (''authority_policy'', JObj [(''truth_owner_ref'', JStr ''owner''), (''artifact_owner_ref'', JStr ''owner''),
        (''quality_owner_ref'', JStr ''owner''), (''permission_refs'', jStrs []),
        (''generated_agent_can_modify_versions'', JBool False), (''generated_agent_can_modify_evaluation'', JBool False),
        (''generated_agent_can_modify_permissions'', JBool False), (''generated_agent_can_modify_activation'', JBool False)]),
     (''memory_policy'', JObj [(''memory_classes'', jStrs []), (''retention_refs'', jStrs []), (''write_authority_refs'', jStrs [])]),
     (''assumptions'', jStrs []), (''design_evidence_refs'', jStrs []),
     (''eval_spec'', JObj [(''eval_spec_id'', JStr ''spec-1''),
        (''public_cases'', JArr [JObj [(''case_id'', JStr ''c1''), (''test_ref'', JStr ''test:c1''), (''weight'', jInt 1), (''required'', JBool True)]]),
        (''protected_requirements'', JArr [JObj [(''category'', JStr ''privacy''), (''minimum_case_count'', jInt 2)]]),
        (''gates'', JArr [JObj [(''gate_id'', JStr ''g1''), (''metric'', JStr ''score''), (''operator'', JStr ''gte''),
           (''threshold'', jInt 1), (''required'', JBool True)]]),
        (''baseline_comparison'', JObj [(''required'', JBool False), (''regression_tolerance'', jInt 0)]),
        (''independent_evaluator_required'', JBool True)]),
     (''risk_hint'', JStr ''low'')]"

definition exBlueprint :: "string \<Rightarrow> json" where
  "exBlueprint d = JObj ((''design_request_digest'', JStr d) # exBlueprintRest)"


lemma exBlueprint_pure: "isDigest d \<Longrightarrow> pureValue (exBlueprint d)"
proof -
  assume d: "isDigest d"
  have "pureValue (JObj exBlueprintRest)" "pureKey ''design_request_digest''" by code_simp+
  with pureText_digest [OF d] show ?thesis by (simp add: exBlueprint_def)
qed

lemma trim_digest: "isDigest d \<Longrightarrow> trim d = d \<and> d \<noteq> []"
  using digest_last by blast

definition exSpec :: json where
  "exSpec = fld ''eval_spec'' (JObj exBlueprintRest)"

lemma exSpec_fld:
  "fld ''public_cases'' exSpec = JArr [JObj [(''case_id'', JStr ''c1''), (''test_ref'', JStr ''test:c1''), (''weight'', jInt 1), (''required'', JBool True)]]"
  "fld ''protected_requirements'' exSpec = JArr [JObj [(''category'', JStr ''privacy''), (''minimum_case_count'', jInt 2)]]"
  "fld ''gates'' exSpec = JArr [JObj [(''gate_id'', JStr ''g1''), (''metric'', JStr ''score''), (''operator'', JStr ''gte''),
     (''threshold'', jInt 1), (''required'', JBool True)]]"
  "fld ''baseline_comparison'' exSpec = JObj [(''required'', JBool False), (''regression_tolerance'', jInt 0)]"
  "fld ''independent_evaluator_required'' exSpec = JBool True" "fld ''eval_spec_id'' exSpec = JStr ''spec-1''"
  "isRecord exSpec" "objKeys exSpec = [''eval_spec_id'', ''public_cases'', ''protected_requirements'', ''gates'',
     ''baseline_comparison'', ''independent_evaluator_required'']"
  "fld ''eval_spec'' (exBlueprint d) = exSpec"
  unfolding exSpec_def exBlueprint_def exBlueprintRest_def by simp_all

lemma exWeight: "totalWeight (fld ''public_cases'' exSpec) = jint 1"
  using jadd_jint [of 0 1] by (simp add: totalWeight_def exSpec_fld)

lemma exTrims: "trim ''c1'' = ''c1''" "trim ''test:c1'' = ''test:c1''" "trim ''privacy'' = ''privacy''" "trim ''g1'' = ''g1''"
  "trim ''score'' = ''score''" "trim ''spec-1'' = ''spec-1''" by code_simp+

lemma exSpec_ok: "list_all fst (validateEvalSpec (fld ''eval_spec'' (exBlueprint d)) l)"
proof -
  have n: "isFinite (jint i) = True" "isSafeInteger (jint 2)" for i by (simp_all add: isFinite_def jint_def isSafeInteger_def isInteger_def)
  show ?thesis unfolding exSpec_fld(9) validateEvalSpec_def Let_def exWeight
    using n exTrims
    by (simp add: exSpec_fld checksEach_def idsOf_def assertExactKeys_def publicCaseChecks_def protectedRequirementChecks_def gateChecks_def
        oneOf_def isBool_def isArr_def isFinite_def jint_def Let_def)
qed

lemma exBlueprint_ok:
  assumes d: "isDigest d"
  shows "validateAgentBlueprint (exBlueprint d) = Inr (exBlueprint d)"
proof -
  have a: "list_all fst (stageGraphChecks (exBlueprint d))" "list_all fst (surfaceChecks (exBlueprint d))"
    "list_all fst (contentRefChecks (exBlueprint d))" "list_all fst (stageRefChecks (exBlueprint d))"
    "list_all fst (policyChecks (exBlueprint d))" by code_simp+
  have b: "list_all fst (assertExactKeys (exBlueprint d) ''AgentBlueprint'' blueprintKeys)"
    "list_all fst (requiredString (fld ''blueprint_id'' (exBlueprint d)) ''AgentBlueprint.blueprint_id'')"
    "list_all fst (requiredUniqueStringList (fld ''assumptions'' (exBlueprint d)) ''AgentBlueprint.assumptions'' 0)"
    "list_all fst (requiredUniqueStringList (fld ''design_evidence_refs'' (exBlueprint d)) ''AgentBlueprint.design_evidence_refs'' 0)"
    "list_all fst (assertIdentity (exBlueprint d) ''AgentBlueprint'')"
    "oneOf [''low'', ''medium'', ''high''] (fld ''risk_hint'' (exBlueprint d))"
    "isInteger (numOf (fld ''generation'' (exBlueprint d))) \<and> \<not> jlt (numOf (fld ''generation'' (exBlueprint d))) (jint 0)"
    by code_simp+
  have c: "isRecord (exBlueprint d)" "fld ''surface_kind'' (exBlueprint d) = JStr ''opl_foundry_agent_blueprint''"
    "fld ''version'' (exBlueprint d) = JStr FOUNDRY_PROTOCOL_VERSION" by code_simp+
  have "fld ''design_request_digest'' (exBlueprint d) = JStr d" by (simp add: exBlueprint_def)
  then have e: "list_all fst (assertDigest (fld ''design_request_digest'' (exBlueprint d)) x)" for x
    using d trim_digest [OF d] by (simp add: assertDigest_def requiredString_def nonBlank_def isStr_JStr)
  have "list_all fst (agentBlueprintChecks (exBlueprint d))"
    unfolding agentBlueprintChecks_def assertBase_def
    using a b c e exSpec_ok pure_checks [OF exBlueprint_pure [OF d]] by simp
  then show ?thesis by (simp add: validateAgentBlueprint_def runChecks_ok)
qed

end
