(* ===== verification/Example_Chains.thy ===== *)
theory Example_Chains
  imports Kernel_Readback
begin

text \<open>
  Event chains for the witnesses, built by the rules of \<open>State_Machine\<close>: a chain for a list
  of planned steps, the lemma that it verifies, and what its snapshot contains.
\<close>

section \<open>Concrete texts\<close>

definition zeroDigest :: string where
  "zeroDigest = ''sha256:'' @ replicate 64 CHR ''0''"

lemma zeroDigest_ok [simp]: "isDigest zeroDigest"
  unfolding zeroDigest_def isDigest_append by code_simp

definition exTime :: string where
  "exTime = ''2024-01-01T00:00:00.000Z''"

lemma exTime_ok [simp]: "isoCanonical exTime" "trim exTime = exTime" "exTime \<noteq> []"
  by code_simp+

section \<open>Chains\<close>

text \<open>A planned step: its event type, idempotency key, target state and payload.\<close>

type_synonym plan = "string \<times> string \<times> run_state \<times> json"

definition hashBody :: "json \<Rightarrow> json" where
  "hashBody b = withHash b (''sha256:'' @ sha256Hex (jtext (norm b)))"

definition stepEvent :: "string \<Rightarrow> run_state \<Rightarrow> json list \<Rightarrow> plan \<Rightarrow> json" where
  "stepEvent r a es p = (case p of (ty, key, s, payload) \<Rightarrow>
     hashBody (eventBody r (int (length es) + 1) ty (Some a) s exTime key (Some (evHash (last es))) payload))"

fun extendChain :: "string \<Rightarrow> run_state \<Rightarrow> json list \<Rightarrow> plan list \<Rightarrow> json list" where
  "extendChain r a es [] = es"
| "extendChain r a es (p # ps) = extendChain r (fst (snd (snd p))) (es @ [stepEvent r a es p]) ps"

fun planned :: "run_state \<Rightarrow> string list \<Rightarrow> plan list \<Rightarrow> bool" where
  "planned a keys [] = True"
| "planned a keys ((ty, key, s, payload) # ps) = (run_step a ty s \<and> trim key \<noteq> [] \<and> key \<notin> set keys
     \<and> isRecord payload \<and> plain payload \<and> planned s (key # keys) ps)"

definition firstEvent :: "string \<Rightarrow> string \<Rightarrow> string \<Rightarrow> string \<Rightarrow> json" where
  "firstEvent r agent domain digest = hashBody (eventBody r 1 ''foundry_run_accepted'' None Accepted exTime ''start'' None
     (acceptancePayload agent domain digest 0))"

lemma hashBody_built:
  assumes "plain (eventBody run n ty from to ts key prev payload)"
    and "case from of Some a \<Rightarrow> to \<in> set (ALLOWED_TRANSITIONS a) | None \<Rightarrow> to = Accepted \<and> n = 1"
  shows "buildFoundryEvent run n ty from to ts key prev payload = Inr (hashBody (eventBody run n ty from to ts key prev payload))"
  using assms by (cases "from") (simp_all add: buildFoundryEvent_def hashBody_def withHash_def eventHash_def canonicalJsonText_plain
      Let_def runChecks_ok assertFoundryTransition_def)

lemma firstEvent_built:
  "buildFoundryEvent r 1 ''foundry_run_accepted'' None Accepted exTime ''start'' None (acceptancePayload agent domain digest 0) =
     Inr (firstEvent r agent domain digest)"
  unfolding firstEvent_def using numOk_int [of 0] by (intro hashBody_built plain_eventBody) (simp_all add: acceptancePayload_def)

lemma firstEvent_ok:
  assumes "trim r \<noteq> []" "agent \<noteq> []" "domain \<noteq> []" "isDigest digest"
  shows "verifyFoundryEventChain [firstEvent r agent domain digest] = Inr ()"
proof (rule verify_first_built [OF firstEvent_built refl])
  show "trim ''start'' \<noteq> []" by code_simp
qed (use assms in simp_all)

lemma stepEvent_fields:
  "evType (stepEvent r a es (ty, key, s, payload)) = ty" "evKey (stepEvent r a es (ty, key, s, payload)) = key"
  "evState (stepEvent r a es (ty, key, s, payload)) = stateName s" "fld ''payload'' (stepEvent r a es (ty, key, s, payload)) = payload"
  "fld ''run_id'' (stepEvent r a es (ty, key, s, payload)) = JStr r"
  "fld ''to_state'' (stepEvent r a es (ty, key, s, payload)) = JStr (stateName s)"
  "fld ''revision'' (stepEvent r a es (ty, key, s, payload)) = jInt (int (length es) + 1)"
  by (simp_all add: stepEvent_def hashBody_def built_simps evType_def evKey_def evState_def)

lemma firstEvent_fields:
  "evKey (firstEvent r agent domain digest) = ''start''" "evState (firstEvent r agent domain digest) = stateName Accepted"
  "evType (firstEvent r agent domain digest) = ''foundry_run_accepted''"
  "fld ''payload'' (firstEvent r agent domain digest) = acceptancePayload agent domain digest 0"
  "fld ''run_id'' (firstEvent r agent domain digest) = JStr r"
  "fld ''revision'' (firstEvent r agent domain digest) = jInt 1"
  "fld ''to_state'' (firstEvent r agent domain digest) = JStr (stateName Accepted)"
  by (simp_all add: firstEvent_def hashBody_def built_simps evType_def evKey_def evState_def)

lemma extend_ok:
  assumes "verifyFoundryEventChain es = Inr ()" "fld ''run_id'' (hd es) = JStr r" "evState (last es) = stateName a"
    and "planned a (rev (map evKey es)) ps" "length es + length ps < 1000"
  shows "verifyFoundryEventChain (extendChain r a es ps) = Inr ()"
  using assms
proof (induction ps arbitrary: a es)
  case (Cons p ps)
  obtain ty key s payload where p: "p = (ty, key, s, payload)" by (cases p)
  let ?e = "stepEvent r a es p"
  have st: "run_step a ty s" and k: "trim key \<noteq> []" "key \<notin> set (map evKey es)" and pl: "isRecord payload" "plain payload"
    and rest: "planned s (key # rev (map evKey es)) ps" using Cons.prems(4) by (simp_all add: p)
  have n: "int (length es) + 1 < 2 ^ 53" using Cons.prems(5) by simp
  have b: "buildFoundryEvent r (int (length es) + 1) ty (Some a) s exTime key (Some (evHash (last es))) payload = Inr ?e"
    unfolding p stepEvent_def prod.case by (intro hashBody_built plain_eventBody) (use pl n st in \<open>auto simp: run_step_iff\<close>)
  have v: "verifyFoundryEventChain (es @ [?e]) = Inr ()"
    by (rule verify_append_built [OF Cons.prems(1) b Cons.prems(2, 3) st _ k pl(1) n]) simp
  have "es \<noteq> []" using verify_nonempty [OF Cons.prems(1)] .
  then show ?case using Cons.IH [OF v, of s] Cons.prems(2, 5) rest by (simp add: p stepEvent_fields)
qed simp

text \<open>What the chain of the plan records: the payload entries in the order of the events.\<close>

fun planFld :: "string \<Rightarrow> json \<Rightarrow> json list \<Rightarrow> json" where
  "planFld k v [] = v"
| "planFld k v (p # ps) = planFld k (if k \<in> set (objKeys p) then fld k p else v) ps"

lemma extend_append: "extendChain r a es ps = es @ drop (length es) (extendChain r a es ps)"
proof (induction ps arbitrary: a es)
  case (Cons p ps)
  have "extendChain r a es (p # ps) = (es @ [stepEvent r a es p]) @ drop (Suc (length es)) (extendChain r a es (p # ps))"
    using Cons.IH [of "fst (snd (snd p))" "es @ [stepEvent r a es p]"] by simp
  then show ?case by (metis append.assoc append_eq_conv_conj)
qed simp

lemma extend_nonempty: "es \<noteq> [] \<Longrightarrow> extendChain r a es ps \<noteq> [] \<and> hd (extendChain r a es ps) = hd es"
  using extend_append [of r a es ps] by (metis append_is_Nil_conv hd_append2)

lemma extend_length: "length (extendChain r a es ps) = length es + length ps"
  by (induction ps arbitrary: a es) simp_all

lemma extend_types: "map evType (extendChain r a es ps) = map evType es @ map fst ps"
  by (induction ps arbitrary: a es) (auto simp: stepEvent_fields)

lemma extend_keys: "map evKey (extendChain r a es ps) = map evKey es @ map (fst \<circ> snd) ps"
  by (induction ps arbitrary: a es) (auto simp: stepEvent_fields)

lemma extend_payloads: "map (fld ''payload'') (extendChain r a es ps) = map (fld ''payload'') es @ map (snd \<circ> snd \<circ> snd) ps"
  by (induction ps arbitrary: a es) (auto simp: stepEvent_fields)

lemma extend_last: "ps \<noteq> [] \<Longrightarrow> evState (last (extendChain r a es ps)) = stateName (fst (snd (snd (last ps))))
    \<and> fld ''to_state'' (last (extendChain r a es ps)) = JStr (stateName (fst (snd (snd (last ps)))))"
  by (induction ps arbitrary: a es) (auto simp: stepEvent_fields)

lemma extend_accumulated:
  assumes "\<forall>p \<in> set ps. distinct (objKeys (snd (snd (snd p))))"
  shows "fld k (accumulated (extendChain r a es ps)) = planFld k (fld k (accumulated es)) (map (snd \<circ> snd \<circ> snd) ps)"
  using assms
proof (induction ps arbitrary: a es)
  case (Cons p ps)
  obtain ty key s payload where p: "p = (ty, key, s, payload)" by (cases p)
  have "distinct (objKeys payload)" using Cons.prems by (simp add: p)
  then have "fld k (accumulated (es @ [stepEvent r a es p])) =
      (if k \<in> set (objKeys payload) then fld k payload else fld k (accumulated es))"
    using accumulated_snoc [of "stepEvent r a es p" k es] by (simp add: p stepEvent_fields)
  with Cons.IH [of s "es @ [stepEvent r a es p]"] Cons.prems show ?case by (simp add: p)
qed simp

end
