(* ===== verification/Example_Runs.thy ===== *)
theory Example_Runs
  imports Example_Documents Example_Chains
begin

text \<open>
  Concrete ports, registries and worlds for the witnesses: an owner gate that holds one
  registered receipt, a registry with registered versions, and a world whose only run has
  a planned event chain.
\<close>

section \<open>Digests of the documents\<close>

definition exRequestDigest :: string where
  "exRequestDigest = ''sha256:'' @ sha256Hex (jtext (norm exRequest))"

definition exBlueprintDoc :: json where
  "exBlueprintDoc = exBlueprint exRequestDigest"

definition exBlueprintDigest :: string where
  "exBlueprintDigest = ''sha256:'' @ sha256Hex (jtext (norm exBlueprintDoc))"

lemma sha_digest [simp]: "isDigest (''sha256:'' @ sha256Hex s)"
  unfolding isDigest_append by (rule isHex64_sha256Hex)

lemma exDigests [simp]: "isDigest exRequestDigest" "isDigest exBlueprintDigest"
  unfolding exRequestDigest_def exBlueprintDigest_def by (rule sha_digest)+

lemma pure_digest: "pureValue v \<Longrightarrow> plain v \<Longrightarrow> foundryContentDigest v = Inr (''sha256:'' @ sha256Hex (jtext (norm v)))"
  by (simp add: foundryContentDigest_def pure_checks runChecks_ok canonicalJsonText_plain)

lemma numOk_small [simp]: "numOk 0" "numOk 1" "numOk 2"
  using numOk_int [of 0] numOk_int [of 1] numOk_int [of 2] by simp_all

lemma exRequest_value: "jsValue exRequest" "plain exRequest"
  by (simp_all add: exRequest_def jInt_def jint_def jStrs_def)

lemma exBlueprint_value: "jsValue (exBlueprint d)" "plain (exBlueprint d)"
  by (simp_all add: exBlueprint_def exBlueprintRest_def jInt_def jint_def jStrs_def)

lemma exRequest_digest: "foundryContentDigest exRequest = Inr exRequestDigest"
  unfolding exRequestDigest_def by (rule pure_digest [OF exRequest_pure exRequest_value(2)])

lemma exBlueprint_digest: "foundryContentDigest exBlueprintDoc = Inr exBlueprintDigest"
  unfolding exBlueprintDigest_def exBlueprintDoc_def by (rule pure_digest [OF exBlueprint_pure exBlueprint_value(2)]) simp

section \<open>Ports\<close>

definition exReceipt :: "receipt_statement \<Rightarrow> owner_receipt" where
  "exReceipt s = projr (materializeOwnerAuthorityReceipt isoCanonical (statementJson s))"

definition exGate :: "receipt_statement \<Rightarrow> owner_gate_state" where
  "exGate s = \<lparr> og_receipts = [(or_receipt_ref (exReceipt s), exReceipt s)],
     og_policies = [(policyKey ''agent'' ''domain'', \<lparr> po_policy_ref = ''policy'', po_authority_refs = [''owner''] \<rparr>)] \<rparr>"

definition exPorts :: "receipt_statement \<Rightarrow> ports" where
  "exPorts s = \<lparr> pt_producer_id = ''designer'', pt_evaluator_id = ''evaluator'',
     pt_design = (\<lambda>n request activity. Inr exBlueprintDoc),
     pt_diagnose = (\<lambda>n v. Inl (RuntimeError ''no diagnosis'')),
     pt_materialize = (\<lambda>n run b digest. memoryCompile b digest),
     pt_evaluate = (\<lambda>n v. Inl (TransientActivityError ''busy'')), pt_canary = (\<lambda>n v. Inl (TransientActivityError ''busy'')),
     pt_verify = (\<lambda>n c. mapE verificationJson (verifyOwnerGate isoCanonical exTime (exGate s) (contextJson c))),
     pt_preflight = (\<lambda>n. memoryPreflight), pt_content = None,
     pt_now = (\<lambda>n. exTime), pt_run_id = (\<lambda>n. ''run-1''), pt_max_attempts = 2, pt_propagate = False,
     pt_date_ok = isoCanonical, pt_collation = (\<lambda>s. s) \<rparr>"

lemma exPorts_simps [simp]:
  "pt_now (exPorts s) n = exTime" "pt_max_attempts (exPorts s) = 2" "pt_preflight (exPorts s) n = memoryPreflight"
  "pt_date_ok (exPorts s) = isoCanonical" "pt_propagate (exPorts s) = False" "pt_evaluate (exPorts s) n v = Inl (TransientActivityError ''busy'')"
  "pt_verify (exPorts s) n c = mapE verificationJson (verifyOwnerGate isoCanonical exTime (exGate s) (contextJson c))"
  by (simp_all add: exPorts_def)

lemma exPorts_values: "portValues (exPorts s)"
  by (simp add: portValues_def exPorts_def exBlueprintDoc_def exBlueprint_value)

definition exContext :: "receipt_statement \<Rightarrow> gate_context" where
  "exContext s = \<lparr> cx_authority_receipt_ref = or_receipt_ref (exReceipt s), cx_action = rs_action s, cx_decision = rs_decision s,
     cx_target_agent_id = rs_target_agent_id s, cx_target_domain_id = rs_target_domain_id s, cx_run_id = rs_run_id s,
     cx_version_digest = rs_version_digest s, cx_expected_revision = rs_expected_revision s \<rparr>"

definition gateStatement :: "receipt_statement \<Rightarrow> bool" where
  "gateStatement s \<longleftrightarrow> wfStatement isoCanonical s \<and> rs_authority_ref s = ''owner'' \<and> rs_target_agent_id s = ''agent''
     \<and> rs_target_domain_id s = ''domain''"

lemma exReceipt_ok:
  assumes "gateStatement s"
  shows "materializeOwnerAuthorityReceipt isoCanonical (statementJson s) = Inr (exReceipt s)"
    "receipt_statement.truncate (exReceipt s) = s"
proof -
  obtain r where r: "materializeOwnerAuthorityReceipt isoCanonical (statementJson s) = Inr r"
    "receipt_statement.truncate r = receipt_statement.truncate s"
    using materialize_total [of isoCanonical s] assms by (auto simp: gateStatement_def)
  then have "exReceipt s = r" by (simp add: exReceipt_def)
  with r show "materializeOwnerAuthorityReceipt isoCanonical (statementJson s) = Inr (exReceipt s)"
    "receipt_statement.truncate (exReceipt s) = s" by (simp_all add: receipt_statement.defs)
qed

lemma exReceipt_fields:
  assumes "gateStatement s"
  shows "rs_action (exReceipt s) = rs_action s" "rs_decision (exReceipt s) = rs_decision s" "rs_authority_ref (exReceipt s) = ''owner''"
    "rs_target_agent_id (exReceipt s) = ''agent''" "rs_target_domain_id (exReceipt s) = ''domain''"
    "rs_run_id (exReceipt s) = rs_run_id s" "rs_version_digest (exReceipt s) = rs_version_digest s"
    "rs_expected_revision (exReceipt s) = rs_expected_revision s"
    "trim (or_receipt_ref (exReceipt s)) = or_receipt_ref (exReceipt s)" "or_receipt_ref (exReceipt s) \<noteq> []"
    "isDigest (or_receipt_digest (exReceipt s))"
    "or_receipt_ref (exReceipt s) = ''opl://foundry/owner-authority-receipts/'' @ or_receipt_digest (exReceipt s)"
proof -
  have t: "receipt_statement.truncate (exReceipt s) = s" by (rule exReceipt_ok(2) [OF assms])
  note m = materialize_Inr [OF exReceipt_ok(1) [OF assms]]
  have "rs_action (receipt_statement.truncate (exReceipt s)) = rs_action (exReceipt s)"
    "rs_decision (receipt_statement.truncate (exReceipt s)) = rs_decision (exReceipt s)"
    "rs_authority_ref (receipt_statement.truncate (exReceipt s)) = rs_authority_ref (exReceipt s)"
    "rs_target_agent_id (receipt_statement.truncate (exReceipt s)) = rs_target_agent_id (exReceipt s)"
    "rs_target_domain_id (receipt_statement.truncate (exReceipt s)) = rs_target_domain_id (exReceipt s)"
    "rs_run_id (receipt_statement.truncate (exReceipt s)) = rs_run_id (exReceipt s)"
    "rs_version_digest (receipt_statement.truncate (exReceipt s)) = rs_version_digest (exReceipt s)"
    "rs_expected_revision (receipt_statement.truncate (exReceipt s)) = rs_expected_revision (exReceipt s)"
    by (simp_all add: receipt_statement.defs)
  then show "rs_action (exReceipt s) = rs_action s" "rs_decision (exReceipt s) = rs_decision s" "rs_authority_ref (exReceipt s) = ''owner''"
    "rs_target_agent_id (exReceipt s) = ''agent''" "rs_target_domain_id (exReceipt s) = ''domain''"
    "rs_run_id (exReceipt s) = rs_run_id s" "rs_version_digest (exReceipt s) = rs_version_digest s"
    "rs_expected_revision (exReceipt s) = rs_expected_revision s"
    using assms unfolding t by (simp_all add: gateStatement_def)
  show d: "isDigest (or_receipt_digest (exReceipt s))" unfolding m(2) by (rule sha_digest)
  show r: "or_receipt_ref (exReceipt s) = ''opl://foundry/owner-authority-receipts/'' @ or_receipt_digest (exReceipt s)" by (rule m(3))
  then show "or_receipt_ref (exReceipt s) \<noteq> []" by simp
  show "trim (or_receipt_ref (exReceipt s)) = or_receipt_ref (exReceipt s)"
    unfolding r using digest_last [OF d] by (intro trim_id) (simp_all add: isWs_def)
qed

lemma exGate_inv:
  assumes "gateStatement s"
  shows "gateInv isoCanonical (exGate s)"
proof -
  have "trim ''policy'' = ''policy''" by code_simp
  then show ?thesis using exReceipt_ok(1) [OF assms] by (auto simp: gateInv_def exGate_def)
qed

lemma exContext_wf:
  assumes "gateStatement s"
  shows "wfContext (exContext s)"
proof -
  have "isoCanonical t" if "t = exTime" for t using that by simp
  show ?thesis
    using assms exReceipt_fields(9, 10) [OF assms]
    by (auto simp: wfContext_def wfStatement_def contextStatement_def exContext_def gateStatement_def)
qed

text \<open>The gate answers the context of its receipt.\<close>

lemma exPorts_verify:
  assumes s: "gateStatement s"
  shows "\<exists>g. pt_verify (exPorts s) n (exContext s) = Inr (verificationJson g) \<and> gv_receipt g = exReceipt s
    \<and> validateOwnerGateVerification isoCanonical (contextJson (exContext s)) (verificationJson g) = Inr g"
proof -
  have c: "validateOwnerGateVerificationContext (contextJson (exContext s)) = Inr (exContext s)"
    by (rule validateContext_contextJson [OF exContext_wf [OF s]])
  have ag: "rs_target_agent_id s = ''agent''" "rs_target_domain_id s = ''domain''" using s by (simp_all add: gateStatement_def)
  have "\<exists>g. verifyOwnerGate isoCanonical exTime (exGate s) (contextJson (exContext s)) = Inr g \<and> gv_receipt g = exReceipt s"
    by (rule verify_gate_total [OF exGate_inv [OF s] c, where r = "exReceipt s" and
          p = "\<lparr> po_policy_ref = ''policy'', po_authority_refs = [''owner''] \<rparr>"])
      (use exReceipt_fields(1-8) [OF s] ag in \<open>simp_all add: exGate_def exContext_def coversContext_def\<close>)
  then obtain g where g: "verifyOwnerGate isoCanonical exTime (exGate s) (contextJson (exContext s)) = Inr g" "gv_receipt g = exReceipt s" by blast
  have "\<exists>v. validateOwnerGateVerification isoCanonical (contextJson (exContext s)) v = Inr g"
    using g(1) c by (auto simp: verifyOwnerGate_def split: option.splits)
  then show ?thesis using verification_roundtrip g by auto
qed

lemma exVerify:
  assumes s: "gateStatement s"
  shows "\<exists>g. verifyOwnerAuthority (exPorts s) (JStr (or_receipt_ref (exReceipt s))) (actionName (rs_action s))
      (decisionName (rs_decision s)) (JStr ''agent'') (JStr ''domain'') (rs_run_id s) (rs_version_digest s)
      (rs_expected_revision s) w = (Inr g, w\<lparr> wd_tick := Suc (wd_tick w) \<rparr>) \<and> gv_receipt g = exReceipt s"
proof -
  obtain g where g: "pt_verify (exPorts s) (wd_tick w) (exContext s) = Inr (verificationJson g)" "gv_receipt g = exReceipt s"
    "validateOwnerGateVerification isoCanonical (contextJson (exContext s)) (verificationJson g) = Inr g"
    using exPorts_verify [OF s] by blast
  have c: "validateOwnerGateVerificationContext (contextJson (exContext s)) = Inr (exContext s)"
    by (rule validateContext_contextJson [OF exContext_wf [OF s]])
  have j: "contextJson (exContext s) = JObj
      [(''surface_kind'', JStr ''opl_foundry_owner_gate_verification_context''),
       (''version'', JStr ''opl-foundry-owner-gate-verification-context.v1''),
       (''authority_receipt_ref'', JStr (or_receipt_ref (exReceipt s))), (''action'', JStr (actionName (rs_action s))),
       (''decision'', JStr (decisionName (rs_decision s))), (''target_agent_id'', JStr ''agent''),
       (''target_domain_id'', JStr ''domain''), (''run_id'', ofOptStr (rs_run_id s)),
       (''version_digest'', ofOptStr (rs_version_digest s)), (''expected_revision'', jInt (rs_expected_revision s))]"
    using s by (simp add: contextJson_def exContext_def gateStatement_def)
  show ?thesis
    unfolding verifyOwnerAuthority_def j [symmetric]
    using g c by (simp add: bindK_def liftK_def portK_def del: exPorts_simps) (simp add: exPorts_simps(4))
qed

end
