(* ===== verification/Example_Worlds.thy ===== *)
theory Example_Worlds
  imports Example_Runs
begin

text \<open>
  The world of the witnesses: the run \<open>run-1\<close> of a planned chain, the stored documents of
  its request, and a registry.  It satisfies the kernel's invariant, and an inspection of
  the run returns what was planned.
\<close>

section \<open>The run\<close>

definition exChain :: "plan list \<Rightarrow> json list" where
  "exChain ps = extendChain ''run-1'' Accepted [firstEvent ''run-1'' ''agent'' ''domain'' exRequestDigest] ps"

definition planState :: "plan list \<Rightarrow> run_state" where
  "planState ps = (if ps = [] then Accepted else fst (snd (snd (last ps))))"

definition goodPlan :: "plan list \<Rightarrow> bool" where
  "goodPlan ps \<longleftrightarrow> planned Accepted [''start''] ps \<and> length ps < 900
     \<and> list_all (\<lambda>p. distinct (objKeys (snd (snd (snd p))))) ps"

definition planValue :: "string \<Rightarrow> plan list \<Rightarrow> json" where
  "planValue k ps = planFld k (fld k (acceptancePayload ''agent'' ''domain'' exRequestDigest 0)) (map (snd \<circ> snd \<circ> snd) ps)"

lemma exFirst_ok: "verifyFoundryEventChain [firstEvent ''run-1'' ''agent'' ''domain'' exRequestDigest] = Inr ()"
proof -
  have "trim ''run-1'' \<noteq> []" by code_simp
  then show ?thesis by (intro firstEvent_ok) simp_all
qed

lemma exChain_ok: "goodPlan ps \<Longrightarrow> verifyFoundryEventChain (exChain ps) = Inr ()"
  unfolding exChain_def by (rule extend_ok [OF exFirst_ok]) (simp_all add: firstEvent_fields goodPlan_def)

lemma exChain_hd: "exChain ps \<noteq> []" "hd (exChain ps) = firstEvent ''run-1'' ''agent'' ''domain'' exRequestDigest"
  unfolding exChain_def using extend_nonempty by force+

lemma exChain_length: "length (exChain ps) = Suc (length ps)"
  by (simp add: exChain_def extend_length)

lemma exChain_last: "fld ''to_state'' (last (exChain ps)) = JStr (stateName (planState ps))"
  "evState (last (exChain ps)) = stateName (planState ps)"
  using extend_last [of ps "''run-1''" Accepted "[firstEvent ''run-1'' ''agent'' ''domain'' exRequestDigest]"]
  by (simp_all add: exChain_def planState_def firstEvent_fields)

lemma exChain_terminal: "chainTerminal (exChain ps) \<longleftrightarrow> isTerminal (planState ps)"
  by (auto simp: terminal_iff_stateOf exChain_last)

lemma exChain_target: "chainTarget (exChain ps) = targetKey ''agent'' ''domain''"
  by (simp add: chainTarget_def exChain_hd firstEvent_fields acceptancePayload_def Let_def strOf_def)

lemma exChain_request: "chainRequest (exChain ps) = exRequestDigest"
  by (simp add: chainRequest_def exChain_hd firstEvent_fields acceptancePayload_def orElse_def)

lemma exChain_keys: "evKey ` set (exChain ps) = insert ''start'' ((fst \<circ> snd) ` set ps)"
proof -
  have "set (map evKey (exChain ps)) = insert ''start'' ((fst \<circ> snd) ` set ps)"
    unfolding exChain_def extend_keys by (simp add: firstEvent_fields)
  then show ?thesis by simp
qed

definition exRun :: "plan list \<Rightarrow> run_snapshot" where
  "exRun ps = projr (snapshotFromEvents (exChain ps))"

lemma exChain_value:
  assumes "goodPlan ps"
  shows "fld k (accumulated (exChain ps)) = planValue k ps"
proof -
  have "fld k (accumulated [firstEvent ''run-1'' ''agent'' ''domain'' exRequestDigest]) =
      fld k (acceptancePayload ''agent'' ''domain'' exRequestDigest 0)"
    using accumulated_snoc [of "firstEvent ''run-1'' ''agent'' ''domain'' exRequestDigest" k "[]"]
    by (simp add: firstEvent_fields acceptancePayload_def) (simp add: accumulated_def fld_def entriesOf_def objKeys_def)
  then show ?thesis
    unfolding exChain_def planValue_def using assms by (subst extend_accumulated) (simp_all add: goodPlan_def list_all_iff)
qed

lemma exRun_ok:
  assumes g: "goodPlan ps"
  shows "snapshotFromEvents (exChain ps) = Inr (exRun ps)"
    "sn_run_id (exRun ps) = ''run-1''" "sn_target_agent_id (exRun ps) = ''agent''" "sn_target_domain_id (exRun ps) = ''domain''"
    "sn_request_digest (exRun ps) = exRequestDigest" "sn_activation_revision_at_start (exRun ps) = 0"
    "sn_run_state (exRun ps) = planState ps" "sn_revision (exRun ps) = int (length ps) + 1"
    "sn_generation (exRun ps) = jsNumber (orElse (planValue ''generation'' ps) (jInt 0))"
    "sn_blueprint_digest (exRun ps) = optStr (planValue ''blueprint_digest'' ps)"
    "sn_candidate_digest (exRun ps) = optStr (planValue ''candidate_digest'' ps)"
    "sn_version_digest (exRun ps) = optStr (planValue ''version_digest'' ps)"
    "sn_risk_tier (exRun ps) = (if oneOf [''low'', ''medium'', ''high''] (planValue ''risk_tier'' ps)
      then planValue ''risk_tier'' ps else JNull)"
    "sn_frozen_test_plan_digest (exRun ps) = optStr (planValue ''frozen_test_plan_digest'' ps)"
proof -
  note v = exChain_ok [OF g]
  obtain s where s: "snapshotFromEvents (exChain ps) = Inr s" using snapshot_verified [OF v] by blast
  then have e: "exRun ps = s" by (simp add: exRun_def)
  with s show sn: "snapshotFromEvents (exChain ps) = Inr (exRun ps)" by simp
  note f = snapshot_fields [OF sn] and a = exChain_value [OF g]
  show "sn_revision (exRun ps) = int (length ps) + 1" using f(3) by (simp add: exChain_length)
  show "sn_request_digest (exRun ps) = exRequestDigest" using f(1) by (simp add: exChain_request)
  have "stateName (sn_run_state (exRun ps)) = stateName (planState ps)" using f(5) exChain_last(2) by simp
  then show "sn_run_state (exRun ps) = planState ps" by simp
  show "sn_run_id (exRun ps) = ''run-1''"
    using f(2) chain_one_run [OF v] by (simp add: exChain_hd firstEvent_fields)
  show "sn_target_agent_id (exRun ps) = ''agent''" "sn_target_domain_id (exRun ps) = ''domain''"
    "sn_activation_revision_at_start (exRun ps) = 0"
    "sn_generation (exRun ps) = jsNumber (orElse (planValue ''generation'' ps) (jInt 0))"
    "sn_blueprint_digest (exRun ps) = optStr (planValue ''blueprint_digest'' ps)"
    "sn_candidate_digest (exRun ps) = optStr (planValue ''candidate_digest'' ps)"
    "sn_version_digest (exRun ps) = optStr (planValue ''version_digest'' ps)"
    "sn_risk_tier (exRun ps) = (if oneOf [''low'', ''medium'', ''high''] (planValue ''risk_tier'' ps)
      then planValue ''risk_tier'' ps else JNull)"
    "sn_frozen_test_plan_digest (exRun ps) = optStr (planValue ''frozen_test_plan_digest'' ps)"
    using s v unfolding e
    by (auto simp: snapshotFromEvents_def Let_def exChain_hd firstEvent_fields acceptancePayload_def orElse_def a intOf_jInt
        split: option.splits)
qed

section \<open>The world\<close>

definition exWorld :: "registry \<Rightarrow> plan list \<Rightarrow> world" where
  "exWorld g ps = \<lparr> wd_events = \<lparr> es_runs = [(''run-1'', exChain ps)],
       es_locks = (if isTerminal (planState ps) then [] else [(targetKey ''agent'' ''domain'', ''run-1'')]) \<rparr>,
     wd_registry = g, wd_objects = [(exRequestDigest, exRequest), (exBlueprintDigest, exBlueprintDoc)],
     wd_journal = [], wd_tick = 0 \<rparr>"

lemma exWorld_simps [simp]:
  "readRun (wd_events (exWorld g ps)) ''run-1'' = exChain ps" "wd_registry (exWorld g ps) = g" "wd_tick (exWorld g ps) = 0"
  "wd_journal (exWorld g ps) = []" "es_runs (wd_events (exWorld g ps)) = [(''run-1'', exChain ps)]"
  by (simp_all add: exWorld_def readRun_def)

lemma exRequest_fields: "requestAgent exRequest = ''agent''" "requestDomain exRequest = ''domain''"
  "fld ''target_agent_id'' exRequest = JStr ''agent''" "fld ''target_domain_id'' exRequest = JStr ''domain''"
  "fld ''mode'' exRequest = JStr ''create''" "fld ''target_version_ref'' exRequest = JNull" "budgetWithin exRequest" "exRequest \<noteq> JNull"
  by (simp_all add: requestAgent_def requestDomain_def exRequest_def strOf_def budgetWithin_def numOf_def jInt_def jint_def)

lemma exWorld_inv:
  assumes g: "goodPlan ps" and r: "registryInv g"
  shows "worldInv (exWorld g ps)"
proof -
  have st: "storeInv (wd_events (exWorld g ps))"
    by (rule storeInvI)
      (auto simp: exWorld_def exChain_ok [OF g] exChain_hd firstEvent_fields exChain_terminal exChain_target split: if_splits)
  have o: "objectsInv (wd_objects (exWorld g ps))"
    by (simp add: objectsInv_def getObject_def exWorld_def exRequest_digest exBlueprint_digest)
  have "storedFor (wd_objects (exWorld g ps)) exRequestDigest (targetKey ''agent'' ''domain'')"
    using exRequest_fields by (simp add: storedFor_def getObject_def exWorld_def)
  then show ?thesis
    using st o r exRequest_value exBlueprint_value
    by (auto simp: worldInv_def requestStored_def exChain_request exChain_target journalInv_empty getObject_def exBlueprintDoc_def exWorld_def
        split: if_splits)
qed

text \<open>An inspection of a run with no owner decision and no activation yet.\<close>

definition quietPlan :: "plan list \<Rightarrow> bool" where
  "quietPlan ps \<longleftrightarrow> list_all (\<lambda>p. fst p \<notin> {''owner_approved'', ''owner_rejected'', ''foundry_run_cancelled'',
     ''activation_completed''}) ps"

lemma quiet_filters:
  assumes "quietPlan ps"
  shows "filter isDecisionEvent (exChain ps) = []" "filter (\<lambda>e. evType e = ''activation_completed'') (exChain ps) = []"
proof -
  have "set (map evType (exChain ps)) = insert ''foundry_run_accepted'' (fst ` set ps)"
    unfolding exChain_def extend_types by (simp add: firstEvent_fields)
  then have t: "evType e \<in> insert ''foundry_run_accepted'' (fst ` set ps)" if "e \<in> set (exChain ps)" for e
    using that by auto
  have n: "evType e \<notin> {''owner_approved'', ''owner_rejected'', ''foundry_run_cancelled'', ''activation_completed''}"
    if "e \<in> set (exChain ps)" for e
  proof (cases "evType e = ''foundry_run_accepted''")
    case False
    with t [OF that] obtain p where "p \<in> set ps" "evType e = fst p" by auto
    with assms show ?thesis by (auto simp: quietPlan_def list_all_iff)
  qed simp
  from n show "filter isDecisionEvent (exChain ps) = []" by (auto simp: filter_empty_conv isDecisionEvent_def)
  from n show "filter (\<lambda>e. evType e = ''activation_completed'') (exChain ps) = []" by (auto simp: filter_empty_conv)
qed

lemma exInspect:
  assumes g: "goodPlan ps" and q: "quietPlan ps" "planState ps \<noteq> Completed_Active"
    and v: "case sn_version_digest (exRun ps) of None \<Rightarrow> True
      | Some d \<Rightarrow> d \<noteq> [] \<and> (\<exists>v. resolveVersion r (Some d) ''agent'' ''domain'' = Some v \<and> av_version_digest v = d
          \<and> av_target_agent_id v = ''agent'' \<and> av_target_domain_id v = ''domain'')"
  shows "\<exists>ins. inspectRun ''run-1'' (exWorld r ps) = (Inr ins, exWorld r ps) \<and> ip_run ins = exRun ps
    \<and> ip_request ins = exRequest \<and> ip_activation ins = activationOf r ''agent'' ''domain''"
proof -
  note x = exRun_ok [OF g]
  have "\<exists>v. qualifiedVersion r (exRun ps) = Inr v"
    using v x by (auto simp: qualifiedVersion_def truthy_def runChecks_ok split: option.splits)
  then obtain b where b: "buildFoundryRunTerminalReadback r (exRun ps) (exChain ps) (activationOf r ''agent'' ''domain'') = Inr b"
    using q(2) x(7) by (auto simp: buildFoundryRunTerminalReadback_def ownerDecisionReadbacks_def quiet_filters [OF q(1)] Let_def runChecks_ok)
  have o: "getObject (wd_objects (exWorld r ps)) exRequestDigest = Some exRequest"
    by (simp add: getObject_def exWorld_def)
  show ?thesis
    using x(1, 5) b o exRequest_fields
    by (simp add: inspectRun_def objectK_def bindK_def readK_def liftK_def retK_def checkK_def runChecks_ok exChain_hd)
qed

section \<open>Versions\<close>

lemma register_new:
  assumes "plain (ri_risk_tier i)" "\<forall>v \<in> set (listVersions g (ri_target_agent_id i) (ri_target_domain_id i)). av_candidate_digest v \<noteq> ri_candidate_digest i"
  shows "\<exists>g' v q. registerVersion g i = Inr (g', v, q) \<and> registeredQualification i = Inr q \<and> registeredVersion i (ql_qualification_digest q) = Inr v
    \<and> listVersions g' (ri_target_agent_id i) (ri_target_domain_id i) = listVersions g (ri_target_agent_id i) (ri_target_domain_id i) @ [v]
    \<and> activationOf g' (ri_target_agent_id i) (ri_target_domain_id i) = activationOf g (ri_target_agent_id i) (ri_target_domain_id i)
    \<and> activationHistory g' (ri_target_agent_id i) (ri_target_domain_id i) = activationHistory g (ri_target_agent_id i) (ri_target_domain_id i)"
proof -
  have n: "find (\<lambda>x. av_candidate_digest x = ri_candidate_digest i) (rg_versions (regState g (ri_target_agent_id i) (ri_target_domain_id i))) = None"
    using assms(2) by (simp add: find_None_iff listVersions_def)
  show ?thesis using assms(1) n
    by (auto simp: registerVersion_def registeredQualification_def registeredVersion_def internalDigest_def canonicalJsonText_plain
        qualificationBase_def versionBase_def Let_def listVersions_def activationOf_def activationHistory_def regState_def putState_def update_conv)
qed

definition oneDigest :: string where
  "oneDigest = ''sha256:'' @ replicate 64 CHR ''1''"

definition exRegistration :: "string \<Rightarrow> registration" where
  "exRegistration d = \<lparr> ri_target_agent_id = ''agent'', ri_target_domain_id = ''domain'', ri_blueprint_digest = exBlueprintDigest,
     ri_candidate_digest = d, ri_candidate_ref = ''candidate:1'', ri_evidence_digest = zeroDigest,
     ri_risk_tier = JStr ''high'', ri_qualified_at = exTime \<rparr>"

definition exRegistered :: "registry \<times> agent_version \<times> qualification" where
  "exRegistered = projr (registerVersion [] (exRegistration zeroDigest))"

definition exRegistry :: registry where
  "exRegistry = fst exRegistered"

definition exVersion :: agent_version where
  "exVersion = fst (snd exRegistered)"

definition exRegistered2 :: "registry \<times> agent_version \<times> qualification" where
  "exRegistered2 = projr (registerVersion exRegistry (exRegistration oneDigest))"

definition exRegistry2 :: registry where
  "exRegistry2 = fst exRegistered2"

definition exVersion2 :: agent_version where
  "exVersion2 = fst (snd exRegistered2)"

lemma version_digest_shape: "registeredVersion i d = Inr v \<Longrightarrow> isDigest (av_version_digest v)"
  using sha_digest by (auto simp: registeredVersion_def internalDigest_def Let_def)

end
