(* ===== verification/Example_Scenes.thy ===== *)
theory Example_Scenes
  imports Example_Worlds
begin

text \<open>
  The scenes the witnesses play in: registered versions, a run that waits for its owner, a
  run that is about to activate its version, a failed run.
\<close>

section \<open>The registered versions\<close>

lemma exRegister:
  "\<exists>q. registerVersion [] (exRegistration zeroDigest) = Inr (exRegistry, exVersion, q)
    \<and> registeredQualification (exRegistration zeroDigest) = Inr q \<and> registeredVersion (exRegistration zeroDigest) (ql_qualification_digest q) = Inr exVersion
    \<and> listVersions exRegistry ''agent'' ''domain'' = [exVersion]
    \<and> activationOf exRegistry ''agent'' ''domain'' = activationOf [] ''agent'' ''domain'' \<and> activationHistory exRegistry ''agent'' ''domain'' = []"
  using register_new [of "exRegistration zeroDigest" "[]"]
  by (auto simp: exRegistry_def exVersion_def exRegistered_def exRegistration_def listVersions_def activationHistory_def regState_def emptyState_def)

lemma exVersion_facts:
  "isDigest (av_version_digest exVersion)" "av_target_agent_id exVersion = ''agent''" "av_target_domain_id exVersion = ''domain''"
  "av_blueprint_digest exVersion = exBlueprintDigest" "av_candidate_digest exVersion = zeroDigest" "av_version_digest exVersion \<noteq> []"
  "trim (av_version_digest exVersion) = av_version_digest exVersion"
proof -
  obtain q where q: "registeredQualification (exRegistration zeroDigest) = Inr q"
    "registeredVersion (exRegistration zeroDigest) (ql_qualification_digest q) = Inr exVersion" using exRegister by blast
  show d: "isDigest (av_version_digest exVersion)" by (rule version_digest_shape [OF q(2)])
  show "av_version_digest exVersion \<noteq> []" "trim (av_version_digest exVersion) = av_version_digest exVersion" using trim_digest [OF d] by simp_all
  show "av_target_agent_id exVersion = ''agent''" "av_target_domain_id exVersion = ''domain''"
    "av_blueprint_digest exVersion = exBlueprintDigest" "av_candidate_digest exVersion = zeroDigest"
    using registered_facts [OF q] by (simp_all add: exRegistration_def)
qed

lemma exRegistry_inv: "registryInv exRegistry"
  using exRegister registerVersion_inv [OF registryInv_empty] by blast

lemma exRegistry_facts:
  "resolveVersion exRegistry (Some (av_version_digest exVersion)) ''agent'' ''domain'' = Some exVersion"
  "ap_revision (activationOf exRegistry ''agent'' ''domain'') = 0" "ap_active_version_digest (activationOf exRegistry ''agent'' ''domain'') = None"
  "activationHistory exRegistry ''agent'' ''domain'' = []"
  using exRegister exVersion_facts(6)
  by (auto simp: resolveVersion_def Let_def listVersions_def activationOf_def regState_def [of "[]"] emptyState_def)

section \<open>Plans\<close>

definition exPlan :: "plan list" where
  "exPlan = [(''design_started'', ''key-1'', Designing, JObj []),
     (''blueprint_admitted'', ''key-2'', Materializing, JObj [(''blueprint_digest'', JStr exBlueprintDigest),
        (''risk_tier'', JStr ''high''), (''risk_reasons'', jStrs []), (''generation'', jInt 0)]),
     (''candidate_materialized'', ''key-3'', Evaluating, JObj [(''candidate_digest'', JStr zeroDigest),
        (''candidate_record_digest'', JStr zeroDigest)]),
     (''candidate_qualified'', ''key-4'', Qualified, JObj [(''evidence_digest'', JStr zeroDigest),
        (''version_digest'', JStr (av_version_digest exVersion))]),
     (''owner_canary_required'', ''key-5'', Awaiting_Owner_Canary, JObj [])]"

definition exApproval :: "string \<Rightarrow> json" where
  "exApproval d = JObj [(''owner_authority_receipt_ref'', JStr (''opl://foundry/owner-authority-receipts/'' @ d)),
     (''owner_authority_receipt_digest'', JStr d)]"

definition exActivating :: "plan list" where
  "exActivating = exPlan @ [(''owner_approved'', ''key-6'', Canary, exApproval zeroDigest),
     (''canary_passed'', ''key-7'', Awaiting_Owner_Active, JObj []),
     (''owner_approved'', ''key-8'', Activating, exApproval zeroDigest)]"

definition exFailed :: "plan list" where
  "exFailed = [(''foundry_run_failed'', ''key-1'', Failed, JObj [])]"

lemma planned_append:
  "planned a keys (ps @ qs) \<longleftrightarrow> planned a keys ps \<and> planned (if ps = [] then a else fst (snd (snd (last ps)))) (rev (map (fst \<circ> snd) ps) @ keys) qs"
  by (induction a keys ps rule: planned.induct) auto

lemma key_trims: "trim ''key-1'' \<noteq> []" "trim ''key-2'' \<noteq> []" "trim ''key-3'' \<noteq> []" "trim ''key-4'' \<noteq> []" "trim ''key-5'' \<noteq> []"
  "trim ''key-6'' \<noteq> []" "trim ''key-7'' \<noteq> []" "trim ''key-8'' \<noteq> []"
  by code_simp+

lemma plan_steps:
  "run_step Accepted ''design_started'' Designing" "run_step Designing ''blueprint_admitted'' Materializing"
  "run_step Materializing ''candidate_materialized'' Evaluating" "run_step Evaluating ''candidate_qualified'' Qualified"
  "run_step Qualified ''owner_canary_required'' Awaiting_Owner_Canary" "run_step Awaiting_Owner_Canary ''owner_approved'' Canary"
  "run_step Canary ''canary_passed'' Awaiting_Owner_Active" "run_step Awaiting_Owner_Active ''owner_approved'' Activating"
  "run_step Accepted ''foundry_run_failed'' Failed" "run_step Activating ''activation_completed'' Completed_Active"
  "run_step Awaiting_Owner_Canary ''owner_rejected'' Rejected"
  by (simp_all add: run_step_iff eventTypeAllowed_def genericTerminalType_def EVENT_TYPES_BY_TRANSITION_def)

lemma exPlan_good: "goodPlan exPlan" "quietPlan exPlan" "planState exPlan = Awaiting_Owner_Canary"
  by (simp_all add: goodPlan_def exPlan_def key_trims plan_steps quietPlan_def planState_def objKeys_def entriesOf_def jStrs_def)

lemma exActivating_good: "goodPlan exActivating" "planState exActivating = Activating"
  by (simp_all add: goodPlan_def exActivating_def exPlan_def exApproval_def key_trims plan_steps planState_def objKeys_def entriesOf_def jStrs_def)

lemma exFailed_good: "goodPlan exFailed" "quietPlan exFailed" "planState exFailed = Failed" "isTerminal Failed"
  by (simp_all add: goodPlan_def exFailed_def key_trims plan_steps quietPlan_def planState_def objKeys_def entriesOf_def isTerminal_def FOUNDRY_TERMINAL_STATES_def)

lemma exNone_good: "goodPlan []" "quietPlan []" "planState [] = Accepted"
  by (simp_all add: goodPlan_def quietPlan_def planState_def)

lemma exRun_version:
  "sn_version_digest (exRun exPlan) = Some (av_version_digest exVersion)" "sn_blueprint_digest (exRun exPlan) = Some exBlueprintDigest"
  "sn_risk_tier (exRun exPlan) = JStr ''high''" "sn_revision (exRun exPlan) = 6"
  "sn_version_digest (exRun exActivating) = Some (av_version_digest exVersion)" "sn_risk_tier (exRun exActivating) = JStr ''high''"
  "sn_version_digest (exRun []) = None" "sn_version_digest (exRun exFailed) = None"
  using exRun_ok(12, 13, 10, 8) [OF exPlan_good(1)] exRun_ok(12, 13) [OF exActivating_good(1)] exRun_ok(12) [OF exNone_good(1)] exRun_ok(12) [OF exFailed_good(1)]
  by (simp_all add: planValue_def exPlan_def exActivating_def exApproval_def exFailed_def acceptancePayload_def objKeys_def entriesOf_def optStr_def oneOf_def)

end
