(* ===== verification/Example_Acts.thy ===== *)
theory Example_Acts
  imports Example_Scenes
begin

text \<open>
  Operations that succeed in the scenes of \<open>Example_Scenes\<close>: a step from \<open>accepted\<close>, an
  activation, a commit, an owner decision, a failed run.
\<close>

section \<open>Keys and purity\<close>

lemma exKey_fresh: "idempotencyKey (exRun ps) phase d \<notin> {''start'', ''key-1'', ''key-2'', ''key-3'', ''key-4'', ''key-5'', ''key-6'', ''key-7'', ''key-8''}"
  if "sn_run_id (exRun ps) = ''run-1''"
  using that by (auto simp: idempotencyKey_def)

lemma pure_binding:
  assumes "memoryPreflight g k v n = Inr p" "pureText (av_target_agent_id v)" "pureText (av_target_domain_id v)" "pureText (av_version_id v)"
    "pureText (av_version_digest v)" "pureText (av_candidate_digest v)" "pureText (av_candidate_ref v)"
  shows "scanForbidden (buildRuntimeBindingVerification p) l = []"
proof (rule pureValue_ok)
  have k: "list_all pureKey bindingFields" by code_simp
  have t: "pureText ''opl_foundry_activation_runtime_binding_verification''" "pureText ''opl-foundry-activation-runtime-binding-verification.v1''"
    "pureText ''pre_commit''" "pureText ''activate''" "pureText ''rollback''" by code_simp+
  have r: "pureText (''opl://foundry/in-memory-activation-preflights/'' @ d)" for d by (simp add: keyChars_def)
  show "pureValue (buildRuntimeBindingVerification p)"
    using assms k t r [of "drop 47 (pf_preflight_ref p)"]
    by (cases k) (auto simp: memoryPreflight_def buildRuntimeBindingVerification_def bindingFields_def r jInt_def)
qed

lemma registered_id: "registeredVersion i d = Inr v \<Longrightarrow> av_version_id v = ''version:'' @ ri_target_agent_id i @ '':'' @ ri_candidate_digest i
    \<and> av_candidate_ref v = ri_candidate_ref i"
  by (auto simp: registeredVersion_def Let_def)

lemma exVersion_pure: "pureText (av_target_agent_id exVersion)" "pureText (av_target_domain_id exVersion)" "pureText (av_version_id exVersion)"
    "pureText (av_version_digest exVersion)" "pureText (av_candidate_digest exVersion)" "pureText (av_candidate_ref exVersion)"
proof -
  obtain q :: qualification where q: "registeredVersion (exRegistration zeroDigest) (ql_qualification_digest q) = Inr exVersion" using exRegister by auto
  have "av_version_id exVersion = ''version:agent:'' @ zeroDigest" "av_candidate_ref exVersion = ''candidate:1''"
    using registered_id [OF q] by (simp_all add: exRegistration_def)
  then show "pureText (av_target_agent_id exVersion)" "pureText (av_target_domain_id exVersion)" "pureText (av_version_id exVersion)"
    "pureText (av_version_digest exVersion)" "pureText (av_candidate_digest exVersion)" "pureText (av_candidate_ref exVersion)"
    using pureText_digest [OF exVersion_facts(1)] pureText_digest [OF zeroDigest_ok] exVersion_facts by (simp_all add: keyChars_def)
qed

section \<open>Inspections\<close>

definition exIns :: "registry \<Rightarrow> plan list \<Rightarrow> inspection" where
  "exIns g ps = projr (fst (inspectRun ''run-1'' (exWorld g ps)))"

lemma exIns_ok:
  assumes "inspectRun ''run-1'' (exWorld r ps) = (Inr ins, exWorld r ps) \<and> ip_run ins = exRun ps
    \<and> ip_request ins = exRequest \<and> ip_activation ins = activationOf r ''agent'' ''domain''"
  shows "inspectRun ''run-1'' (exWorld r ps) = (Inr (exIns r ps), exWorld r ps)" "ip_run (exIns r ps) = exRun ps"
    "ip_request (exIns r ps) = exRequest" "ip_activation (exIns r ps) = activationOf r ''agent'' ''domain''"
  using assms by (simp_all add: exIns_def)

lemma exWaiting:
  "inspectRun ''run-1'' (exWorld exRegistry exPlan) = (Inr (exIns exRegistry exPlan), exWorld exRegistry exPlan)"
  "ip_run (exIns exRegistry exPlan) = exRun exPlan" "ip_request (exIns exRegistry exPlan) = exRequest"
  "worldInv (exWorld exRegistry exPlan)"
proof -
  have "\<exists>ins. inspectRun ''run-1'' (exWorld exRegistry exPlan) = (Inr ins, exWorld exRegistry exPlan) \<and> ip_run ins = exRun exPlan
    \<and> ip_request ins = exRequest \<and> ip_activation ins = activationOf exRegistry ''agent'' ''domain''"
    using exPlan_good exRun_version(1) exRegistry_facts(1) exVersion_facts by (intro exInspect) simp_all
  then obtain ins where "inspectRun ''run-1'' (exWorld exRegistry exPlan) = (Inr ins, exWorld exRegistry exPlan) \<and> ip_run ins = exRun exPlan
    \<and> ip_request ins = exRequest \<and> ip_activation ins = activationOf exRegistry ''agent'' ''domain''" ..
  from exIns_ok [OF this] show
    "inspectRun ''run-1'' (exWorld exRegistry exPlan) = (Inr (exIns exRegistry exPlan), exWorld exRegistry exPlan)"
    "ip_run (exIns exRegistry exPlan) = exRun exPlan" "ip_request (exIns exRegistry exPlan) = exRequest" by blast+
  show "worldInv (exWorld exRegistry exPlan)" by (rule exWorld_inv [OF exPlan_good(1) exRegistry_inv])
qed

lemma exStarted:
  "inspectRun ''run-1'' (exWorld [] []) = (Inr (exIns [] []), exWorld [] [])" "ip_run (exIns [] []) = exRun []"
  "ip_request (exIns [] []) = exRequest" "worldInv (exWorld [] [])" "insCurrent (exIns [] []) (exWorld [] [])"
proof -
  have "\<exists>ins. inspectRun ''run-1'' (exWorld [] []) = (Inr ins, exWorld [] []) \<and> ip_run ins = exRun []
    \<and> ip_request ins = exRequest \<and> ip_activation ins = activationOf [] ''agent'' ''domain''"
    using exNone_good exRun_version(7) by (intro exInspect) simp_all
  then obtain ins where "inspectRun ''run-1'' (exWorld [] []) = (Inr ins, exWorld [] []) \<and> ip_run ins = exRun []
    \<and> ip_request ins = exRequest \<and> ip_activation ins = activationOf [] ''agent'' ''domain''" ..
  note i = exIns_ok [OF this]
  then show "inspectRun ''run-1'' (exWorld [] []) = (Inr (exIns [] []), exWorld [] [])" "ip_run (exIns [] []) = exRun []"
    "ip_request (exIns [] []) = exRequest" by blast+
  show "worldInv (exWorld [] [])" by (rule exWorld_inv [OF exNone_good(1) registryInv_empty])
  show "insCurrent (exIns [] []) (exWorld [] [])" using i(2) exRun_ok(1, 2) [OF exNone_good(1)] by (simp add: insCurrent_def)
qed

section \<open>A first step and an activation\<close>

lemma exFirstStep: "\<exists>e w'. advanceOne (exPorts s) (exIns [] []) noOptions (exWorld [] []) = (Inr e, w')"
proof -
  note x = exRun_ok [OF exNone_good(1)]
  have "idempotencyKey (exRun []) ''design'' exRequestDigest \<notin> evKey ` set (exChain [])"
    using exKey_fresh [OF x(2)] by (auto simp: exChain_keys)
  then have "\<exists>e w'. appendRunEvent (exPorts s) (exIns [] []) ''design_started'' Designing ''design'' exRequestDigest (JObj []) (exWorld [] [])
      = (Inr e, w')"
    using exStarted x plan_steps(1) exNone_good(3) by (intro append_live) simp_all
  then show ?thesis using exStarted(2) x exNone_good(3) by (simp add: advanceOne_def)
qed

definition exActivatingIns :: inspection where
  "exActivatingIns = (exIns [] [])\<lparr> ip_run := exRun exActivating \<rparr>"

lemma exAuthority: "latestOwnerAuthority (exChain exActivating) =
    Inr (Some (''opl://foundry/owner-authority-receipts/'' @ zeroDigest, zeroDigest))"
proof -
  let ?es = "extendChain ''run-1'' Accepted [firstEvent ''run-1'' ''agent'' ''domain'' exRequestDigest] (butlast exActivating)"
  have l: "exActivating = butlast exActivating @ [(''owner_approved'', ''key-8'', Activating, exApproval zeroDigest)]"
    by (simp add: exActivating_def butlast_append)
  have "extendChain r a es (ps @ [p]) = extendChain r a es ps @
      [stepEvent r (if ps = [] then a else fst (snd (snd (last ps)))) (extendChain r a es ps) p]" for r a es ps p
    by (induction ps arbitrary: a es) auto
  from this [of "''run-1''" Accepted "[firstEvent ''run-1'' ''agent'' ''domain'' exRequestDigest]" "butlast exActivating"] l
  obtain e where e: "exChain exActivating = ?es @ [e]" "evType e = ''owner_approved''" "fld ''payload'' e = exApproval zeroDigest"
    unfolding exChain_def by (metis stepEvent_fields(1, 4))
  have tr: "trim (''opl://foundry/owner-authority-receipts/'' @ zeroDigest) = ''opl://foundry/owner-authority-receipts/'' @ zeroDigest"
    using digest_last [OF zeroDigest_ok] by (intro trim_id) (simp_all add: isWs_def)
  have c: "carriesAuthority e" using e by (simp add: carriesAuthority_def exApproval_def)
  have f: "find carriesAuthority (rev (?es @ [e])) = Some e" using c by simp
  have zt: "trim zeroDigest = zeroDigest \<and> zeroDigest \<noteq> []" by (rule trim_digest) simp
  show ?thesis
    unfolding latestOwnerAuthority_def e(1) f option.case using zt tr e(3)
    by (simp add: requiredDigest_def requiredRef_def runChecks_ok ownerAuthorityReceiptRef_def exApproval_def del: append.simps)
qed

lemma exActivating_ready: "activationReady (exPorts s) exActivatingIns (exWorld exRegistry exActivating) exVersion"
proof -
  let ?w = "exWorld exRegistry exActivating" and ?i = exActivatingIns
  note x = exRun_ok [OF exActivating_good(1)] and v = exVersion_facts and g = exRegistry_facts
  have i: "ip_run ?i = exRun exActivating" "ip_request ?i = exRequest" using exStarted(3) by (simp_all add: exActivatingIns_def)
  have w: "worldInv ?w" by (rule exWorld_inv [OF exActivating_good(1) exRegistry_inv])
  have c: "insCurrent ?i ?w" using x(1, 2) by (simp add: insCurrent_def i)
  have k: "(fst \<circ> snd) ` set exActivating = {''key-1'', ''key-2'', ''key-3'', ''key-4'', ''key-5'', ''key-6'', ''key-7'', ''key-8''}"
    and l: "length exActivating = 8" by (simp_all add: exActivating_def exPlan_def)
  have key: "idempotencyKey (ip_run ?i) ''activate'' (av_version_digest exVersion) \<notin> evKey ` set (readRun (wd_events ?w) (sn_run_id (ip_run ?i)))"
    using exKey_fresh [OF x(2)] k by (auto simp: i x(2) exChain_keys)
  have au: "\<exists>authority. latestOwnerAuthority (exChain exActivating) = Inr authority \<and> (sn_risk_tier (exRun exActivating) = JStr ''low'' \<or> authority \<noteq> None)"
    using exAuthority by blast
  show ?thesis
    unfolding activationReady_def
    using w c x i v g au key l exActivating_good(2) exRun_version exRequest_fields pure_binding [OF _ exVersion_pure]
    by (simp del: append.simps)
qed

lemma exActivate: "\<exists>e w'. activateRun (exPorts s) exActivatingIns (exWorld exRegistry exActivating) = (Inr e, w')
    \<and> fld ''to_state'' e = JStr (stateName Completed_Active)"
  using activate_ready [OF exActivating_ready] by blast

section \<open>An owner decision\<close>

definition exDecision :: receipt_statement where
  "exDecision = \<lparr> rs_receipt_id = ''receipt'', rs_authority_ref = ''owner'', rs_action = Approve_Canary, rs_decision = Approve,
     rs_target_agent_id = ''agent'', rs_target_domain_id = ''domain'', rs_run_id = Some ''run-1'',
     rs_version_digest = Some (av_version_digest exVersion), rs_expected_revision = 6, rs_issued_at = exTime \<rparr>"

lemma exTrimmed: "trim ''receipt'' = ''receipt''" "trim ''owner'' = ''owner''" "trim ''agent'' = ''agent''" "trim ''domain'' = ''domain''"
  "trim ''run-1'' = ''run-1''" "trim ''policy'' = ''policy''"
  by code_simp+

lemma exDecision_ok: "gateStatement exDecision"
  using exVersion_facts(1, 6, 7) exTrimmed
  by (simp add: gateStatement_def wfStatement_def exDecision_def)

lemma exDecide: "\<exists>x w'. submitOwnerDecision (exPorts exDecision) ''run-1'' (jInt 6) (JStr ''approve'')
    (JStr (or_receipt_ref (exReceipt exDecision))) False (exWorld exRegistry exPlan) = (Inr x, w')"
proof -
  let ?pt = "exPorts exDecision" and ?w = "exWorld exRegistry exPlan" and ?ins = "exIns exRegistry exPlan" and ?r = "exReceipt exDecision"
  note i = exWaiting and v = exRun_version and xf = exRun_ok [OF exPlan_good(1)] and rf = exReceipt_fields [OF exDecision_ok]
  obtain g where g: "verifyOwnerAuthority ?pt (JStr (or_receipt_ref ?r)) (actionName Approve_Canary)
      (decisionName Approve) (JStr ''agent'') (JStr ''domain'') (Some ''run-1'') (Some (av_version_digest exVersion)) 6 ?w
      = (Inr g, ?w\<lparr> wd_tick := Suc (wd_tick ?w) \<rparr>)" "gv_receipt g = ?r"
    using exVerify [OF exDecision_ok, of ?w] by (auto simp: exDecision_def)
  let ?w1 = "?w\<lparr> wd_tick := Suc (wd_tick ?w) \<rparr>"
  obtain cv a where gv: "validateOwnerGateVerification isoCanonical cv a = Inr g"
    using verifyOwner_Inr [OF g(1)] by (auto simp: gateVerified_def)
  have w1: "worldInv ?w1" using i(4) by simp
  have cur: "insCurrent ?ins ?w1" using i(2) xf(1, 2) by (simp add: insCurrent_def)
  have st: "run_step (sn_run_state (ip_run ?ins)) ''owner_approved'' Canary" using plan_steps(6) i(2) xf(7) exPlan_good(3) by simp
  have "idempotencyKey (exRun exPlan) ''owner_approve'' (or_receipt_digest ?r) \<notin> evKey ` set (exChain exPlan)"
    using exKey_fresh [OF xf(2)] by (auto simp: exChain_keys exPlan_def)
  then obtain e w2 where ap: "appendRunEvent ?pt ?ins ''owner_approved'' Canary ''owner_approve'' (or_receipt_digest ?r)
      (ownerVerificationPayload g) ?w1 = (Inr e, w2)"
    using append_live [OF cur w1 st, of "ownerVerificationPayload g" ?pt "''owner_approve''" "or_receipt_digest ?r"] i(2) xf(2) v(4)
    by (auto simp: ownerVerificationPayload_def)
  note ae = appendRunEvent_Inr [OF ap cur]
  have ok: "insOk ?ins ?w1" using inspectRun_Inr(3) [OF i(1, 4)] by (simp add: insOk_def)
  have wi: "storeInv (wd_events w2)" using append_inv [OF ap ok w1] by (simp add: worldInv_def)
  have es: "readRun (wd_events w2) ''run-1'' = exChain exPlan @ [e]" using ae(1) i(2) xf(2) by simp
  then have "map_of (es_runs (wd_events w2)) ''run-1'' = Some (exChain exPlan @ [e])"
    by (auto simp: readRun_def split: option.splits)
  with storeInv_chain [OF wi] have vs: "verifyFoundryEventChain (exChain exPlan @ [e]) = Inr ()" by blast
  obtain run where run: "snapshotFromEvents (exChain exPlan @ [e]) = Inr run" using snapshot_verified [OF vs] by blast
  have nk: "''version_digest'' \<notin> set (objKeys (fld ''payload'' e))" by (simp add: ae(3) ownerVerificationPayload_def objKeys_def entriesOf_def)
  note sn = snapshot_snoc(1, 2) [OF xf(1) run, of Canary] and sm = snapshot_same [OF xf(1) run]
  have f: "sn_run_state run = Canary" "sn_request_digest run = exRequestDigest" "sn_target_agent_id run = ''agent''"
    "sn_target_domain_id run = ''domain''" "sn_version_digest run = Some (av_version_digest exVersion)"
    using sn sm(1, 2) sm(3) [OF nk] ae(5) xf v by simp_all
  have "decisionMatches (evType e) (actionName (rs_action (gv_receipt g))) (decisionName (rs_decision (gv_receipt g)))"
    using ae(2) g(2) rf(1, 2) by (simp add: decisionMatches_def exDecision_def)
  from decision_readback [OF gv ae(3) this] obtain d where "ownerDecisionReadback e = Inr d" by blast
  then have dr: "ownerDecisionReadbacks (exChain exPlan @ [e]) = Inr [d]"
    using quiet_filters(1) [OF exPlan_good(2)] ae(2) by (simp add: ownerDecisionReadbacks_def isDecisionEvent_def)
  have na: "filter (\<lambda>e. evType e = ''activation_completed'') (exChain exPlan @ [e]) = []"
    using quiet_filters(2) [OF exPlan_good(2)] ae(2) by simp
  have q: "qualifiedVersion (wd_registry w2) run = Inr (Some exVersion)"
    using f exRegistry_facts(1) exVersion_facts ae(6) by (simp add: qualifiedVersion_def truthy_def runChecks_ok)
  have "\<exists>b. buildFoundryRunTerminalReadback (wd_registry w2) run (exChain exPlan @ [e])
      (activationOf (wd_registry w2) (requestAgent exRequest) (requestDomain exRequest)) = Inr b"
    unfolding buildFoundryRunTerminalReadback_def q dr Let_def na using f(1) by (simp add: runChecks_ok)
  then obtain b where b: "buildFoundryRunTerminalReadback (wd_registry w2) run (exChain exPlan @ [e])
      (activationOf (wd_registry w2) (requestAgent exRequest) (requestDomain exRequest)) = Inr b" ..
  have "getObject (wd_objects w2) (sn_request_digest run) = Some exRequest" using ae(7) f(2) by (simp add: getObject_def exWorld_def)
  then obtain x where fin: "inspectRun ''run-1'' w2 = (Inr x, w2)"
    using inspect_live [of w2 "''run-1''" run exRequest b] es run b exRequest_fields(8) by auto
  have c: "checkK True m = retK ()" for m by (simp add: checkK_def liftK_def retK_def fun_eq_iff runChecks_ok)
  have rv: "expectedRevisionOf (jInt 6) = Inr 6" by (simp add: expectedRevisionOf_def runChecks_ok jint_def isSafeInteger_def isInteger_def intOf_jInt)
  have rr: "requiredRef (JStr (or_receipt_ref ?r)) k = Inr (or_receipt_ref ?r)" for k by (rule required_trimmed) (use rf(9, 10) in simp_all)
  have bp: "\<exists>b. blueprintK ?ins ?w = (Inr b, ?w)"
    using v(2) i(2) trim_digest [OF exDigests(2)] exRequest_fields(8)
    by (auto simp: blueprintK_def objectK_def bindK_def readK_def liftK_def retK_def checkK_def runChecks_ok truthy_def getObject_def exWorld_def
        exBlueprintDoc_def exBlueprint_def)
  then obtain b' where bp: "blueprintK ?ins ?w = (Inr b', ?w)" ..
  have vk: "versionK ?ins ?w = (Inr exVersion, ?w)"
    using v(1) i(2, 3) exRegistry_facts(1) exVersion_facts(6) exRequest_fields
    by (simp add: versionK_def bindK_def readK_def liftK_def retK_def checkK_def runChecks_ok truthy_def)
  have st': "(sn_run_state (ip_run ?ins) = Awaiting_Owner_Canary \<or> sn_run_state (ip_run ?ins) = Awaiting_Owner_Active) = True"
    "(Some (av_blueprint_digest exVersion) = sn_blueprint_digest (ip_run ?ins)) = True" "(sn_revision (ip_run ?ins) \<noteq> 6) = False"
    "(JStr ''approve'' = JStr ''approve'' \<or> JStr ''approve'' = JStr ''reject'') = True"
    "(JStr ''approve'' = JStr ''reject'') = False" "sn_run_state (ip_run ?ins) = Awaiting_Owner_Canary"
    "(Awaiting_Owner_Canary = Awaiting_Owner_Canary) = True"
    using xf(7) i(2) exPlan_good(3) v exVersion_facts(4) by simp_all
  have an: "ownerDecisionAction Awaiting_Owner_Canary (decisionName Approve) = actionName Approve_Canary"
    "strOf (JStr ''approve'') = decisionName Approve" "''owner_'' @ decisionName Approve = ''owner_approve''"
    by (simp_all add: ownerDecisionAction_def)
  have fl: "fld ''target_agent_id'' (ip_request ?ins) = JStr ''agent''" "fld ''target_domain_id'' (ip_request ?ins) = JStr ''domain''"
    "sn_run_id (ip_run ?ins) = ''run-1''" using i(2, 3) exRequest_fields xf(2) by simp_all
  have "submitOwnerDecision ?pt ''run-1'' (jInt 6) (JStr ''approve'') (JStr (or_receipt_ref ?r)) False ?w = (Inr x, w2)"
    by (simp only: submitOwnerDecision_def Let_def st'(4, 5) c bindK_def retK_def liftK_def rv rr i(1) prod.case sum.case st'(3) if_False
        st'(1) bp vk st'(2) st'(6) st'(7) if_True an fl g ap fin simp_thms)
  then show ?thesis by blast
qed

end
