(* ===== verification/Example_Rollback.thy ===== *)
theory Example_Rollback
  imports Example_Acts
begin

text \<open>
  A target with two versions, both activated once, and the rollback from the second to the
  first.  The digests of the two documents and of the two versions are not evaluated: where
  two of them were equal, SHA-256 would collide on two texts that are named.
\<close>

section \<open>What a commit leaves alone\<close>

definition sameStored :: "object_store \<Rightarrow> agent_version list \<Rightarrow> world \<Rightarrow> bool" where
  "sameStored os vs w \<longleftrightarrow> wd_objects w = os \<and> listVersions (wd_registry w) ''agent'' ''domain'' = vs"

lemma activateVersion_versions:
  assumes "activateVersion g i = Inr (g', t)"
  shows "listVersions g' a d = listVersions g a d"
proof -
  obtain st where st: "activateState (regState g (ai_target_agent_id i) (ai_target_domain_id i)) i = Inr (st, t)"
    "g' = putState (ai_target_agent_id i) (ai_target_domain_id i) st g" by (rule activateVersion_Inr [OF assms])
  have "rg_versions st = rg_versions (regState g (ai_target_agent_id i) (ai_target_domain_id i))"
    using st(1) by (auto elim!: activateState_Inr)
  then show ?thesis using regState_key(1) [of a d "ai_target_agent_id i" "ai_target_domain_id i" g]
    by (auto simp: listVersions_def st(2) regState_putState)
qed

lemma commit_same: "keeps (sameStored os vs) (commitFoundryActivation pt k v n receipt)"
proof -
  have "keeps (sameStored os vs) (activateK i)" for i
    by (auto simp: keeps_def sameStored_def activateK_def compareAndSwapActivation_def rollbackVersion_def
        split: sum.splits prod.splits dest!: activateVersion_versions)
  moreover have "keeps (sameStored os vs) (nowK pt)" "keeps (sameStored os vs) (\<lambda>w. portK (h w) w)" for h :: "world \<Rightarrow> nat \<Rightarrow> activation_preflight res"
    by (auto simp: keeps_def sameStored_def nowK_def portK_def)
  ultimately show ?thesis unfolding commitFoundryActivation_def Let_def by (intro keeps_rules)
qed

section \<open>Two versions\<close>

lemma exRegister2:
  "\<exists>q. registerVersion exRegistry (exRegistration oneDigest) = Inr (exRegistry2, exVersion2, q)
    \<and> registeredQualification (exRegistration oneDigest) = Inr q \<and> registeredVersion (exRegistration oneDigest) (ql_qualification_digest q) = Inr exVersion2
    \<and> listVersions exRegistry2 ''agent'' ''domain'' = [exVersion, exVersion2]
    \<and> activationOf exRegistry2 ''agent'' ''domain'' = activationOf [] ''agent'' ''domain'' \<and> activationHistory exRegistry2 ''agent'' ''domain'' = []"
proof -
  have d: "zeroDigest \<noteq> oneDigest" by (simp add: zeroDigest_def oneDigest_def)
  have l: "listVersions exRegistry ''agent'' ''domain'' = [exVersion]" "activationOf exRegistry ''agent'' ''domain'' = activationOf [] ''agent'' ''domain''"
    "activationHistory exRegistry ''agent'' ''domain'' = []"
    using exRegister by auto
  obtain g' v q where r: "registerVersion exRegistry (exRegistration oneDigest) = Inr (g', v, q)"
    "registeredQualification (exRegistration oneDigest) = Inr q" "registeredVersion (exRegistration oneDigest) (ql_qualification_digest q) = Inr v"
    "listVersions g' ''agent'' ''domain'' = [exVersion, v]" "activationOf g' ''agent'' ''domain'' = activationOf [] ''agent'' ''domain''"
    "activationHistory g' ''agent'' ''domain'' = []"
    using register_new [of "exRegistration oneDigest" exRegistry] d exVersion_facts(5) l by (auto simp: exRegistration_def)
  moreover from r(1) have "g' = exRegistry2" "v = exVersion2" by (simp_all add: exRegistry2_def exVersion2_def exRegistered2_def)
  ultimately show ?thesis by blast
qed

lemma oneDigest_ok [simp]: "isDigest oneDigest"
  unfolding oneDigest_def isDigest_append by code_simp

lemma exVersion2_facts:
  "isDigest (av_version_digest exVersion2)" "av_target_agent_id exVersion2 = ''agent''" "av_target_domain_id exVersion2 = ''domain''"
  "av_blueprint_digest exVersion2 = exBlueprintDigest" "av_version_digest exVersion2 \<noteq> []"
  "pureText (av_version_id exVersion2)" "pureText (av_version_digest exVersion2)" "pureText (av_candidate_digest exVersion2)" "pureText (av_candidate_ref exVersion2)"
proof -
  obtain q :: qualification where q: "registeredQualification (exRegistration oneDigest) = Inr q"
    "registeredVersion (exRegistration oneDigest) (ql_qualification_digest q) = Inr exVersion2" using exRegister2 by auto
  show d: "isDigest (av_version_digest exVersion2)" by (rule version_digest_shape [OF q(2)])
  show "av_version_digest exVersion2 \<noteq> []" using trim_digest [OF d] by simp
  show "pureText (av_version_digest exVersion2)" by (rule pureText_digest [OF d])
  show "av_target_agent_id exVersion2 = ''agent''" "av_target_domain_id exVersion2 = ''domain''"
    "av_blueprint_digest exVersion2 = exBlueprintDigest"
    using registered_facts [OF q] by (simp_all add: exRegistration_def)
  show "pureText (av_version_id exVersion2)" "pureText (av_candidate_digest exVersion2)" "pureText (av_candidate_ref exVersion2)"
    using registered_id [OF q(2)] registered_facts(3) [OF q] pureText_digest [OF oneDigest_ok] by (simp_all add: exRegistration_def keyChars_def)
qed

text \<open>The texts that would collide.\<close>

definition exCollision :: bool where
  "exCollision \<longleftrightarrow> collision (jtext (norm exRequest)) (jtext (norm exBlueprintDoc))
     \<or> collision (jtext (norm (versionBase exVersion))) (jtext (norm (versionBase exVersion2)))"

lemma documents_differ: "exRequestDigest \<noteq> exBlueprintDigest \<or> exCollision"
proof (cases "exRequestDigest = exBlueprintDigest")
  case True
  then have "sha256Hex (jtext (norm exRequest)) = sha256Hex (jtext (norm exBlueprintDoc))" by (simp add: exRequestDigest_def exBlueprintDigest_def)
  moreover have "jtext (norm exRequest) \<noteq> jtext (norm exBlueprintDoc)"
  proof
    assume "jtext (norm exRequest) = jtext (norm exBlueprintDoc)"
    then have "norm exRequest = norm exBlueprintDoc"
      using canonicalJsonText_inj [of exRequest exBlueprintDoc] exRequest_value exBlueprint_value
      by (simp add: canonicalJsonText_plain exBlueprintDoc_def)
    then have "norm (fld ''mode'' exRequest) = norm (fld ''mode'' exBlueprintDoc)"
      by (intro norm_fld_eq jsValue_objKeys) (simp_all add: exRequest_value exBlueprint_value exBlueprintDoc_def)
    then show False by (simp add: exRequest_fields(5) exBlueprintDoc_def exBlueprint_def exBlueprintRest_def)
  qed
  ultimately show ?thesis by (auto simp: exCollision_def dest!: sha256Hex_eqD)
qed simp

lemma versions_differ: "av_version_digest exVersion \<noteq> av_version_digest exVersion2 \<or> exCollision"
proof (cases "av_version_digest exVersion = av_version_digest exVersion2")
  case True
  obtain q :: qualification where q: "registeredQualification (exRegistration zeroDigest) = Inr q"
    "registeredVersion (exRegistration zeroDigest) (ql_qualification_digest q) = Inr exVersion" using exRegister by auto
  obtain q2 :: qualification where q2: "registeredQualification (exRegistration oneDigest) = Inr q2"
    "registeredVersion (exRegistration oneDigest) (ql_qualification_digest q2) = Inr exVersion2" using exRegister2 by auto
  have pl: "plain (versionBase v)" for v :: agent_version by (simp add: versionBase_def)
  have "internalDigest (versionBase v) = Inr (''sha256:'' @ sha256Hex (jtext (norm (versionBase v))))" for v :: agent_version
    by (simp add: internalDigest_def canonicalJsonText_plain pl)
  with registered_facts(2) [OF q] registered_facts(2) [OF q2] True
  have "''sha256:'' @ sha256Hex (jtext (norm (versionBase exVersion))) = ''sha256:'' @ sha256Hex (jtext (norm (versionBase exVersion2)))"
    by (simp only: sum.inject)
  then have "sha256Hex (jtext (norm (versionBase exVersion))) = sha256Hex (jtext (norm (versionBase exVersion2)))" by simp
  moreover have "jtext (norm (versionBase exVersion)) \<noteq> jtext (norm (versionBase exVersion2))"
  proof
    assume "jtext (norm (versionBase exVersion)) = jtext (norm (versionBase exVersion2))"
    then have "norm (versionBase exVersion) = norm (versionBase exVersion2)"
      using canonicalJsonText_inj [OF pl pl, of exVersion exVersion2] by (simp add: canonicalJsonText_plain pl)
    then have "norm (fld ''candidate_digest'' (versionBase exVersion)) = norm (fld ''candidate_digest'' (versionBase exVersion2))"
      by (intro norm_fld_eq) (simp_all add: versionBase_def objKeys_def entriesOf_def)
    then have "zeroDigest = oneDigest" using registered_facts(3) [OF q] registered_facts(3) [OF q2]
      by (simp add: versionBase_def exRegistration_def)
    then show False by (simp add: zeroDigest_def oneDigest_def)
  qed
  ultimately show ?thesis by (auto simp: exCollision_def dest!: sha256Hex_eqD)
qed simp

section \<open>Rolling back\<close>

lemma exBlueprint_accepted: "list_all fst (assertSameTarget exRequest (exBlueprint d) l)"
  "list_all fst (assertBlueprintSatisfiesDesignRequest exRequest (exBlueprint d))"
  by code_simp+

lemma exRollbackBlueprint:
  assumes v: "av_blueprint_digest v = exBlueprintDigest" and w: "wd_objects w = wd_objects (exWorld g ps)"
    and d: "exRequestDigest \<noteq> exBlueprintDigest"
  shows "rollbackBlueprint ''agent'' ''domain'' v l1 l2 l3 m w = (Inr (), w)"
proof -
  have o: "getObject (wd_objects w) exBlueprintDigest = Some exBlueprintDoc" "getObject (wd_objects w) exRequestDigest = Some exRequest"
    using d by (simp_all add: w exWorld_def getObject_def)
  have b: "validateAgentBlueprint exBlueprintDoc = Inr exBlueprintDoc" "exBlueprintDoc \<noteq> JNull"
    "fld ''target_agent_id'' exBlueprintDoc = JStr ''agent''" "fld ''target_domain_id'' exBlueprintDoc = JStr ''domain''"
    "optStr (fld ''design_request_digest'' exBlueprintDoc) = Some exRequestDigest"
    using exBlueprint_ok [OF exDigests(1)] by (simp_all add: exBlueprintDoc_def exBlueprint_def exBlueprintRest_def optStr_def)
  have c: "list_all fst (assertSameTarget exRequest exBlueprintDoc l3 @ assertBlueprintSatisfiesDesignRequest exRequest exBlueprintDoc)"
    by (simp only: list_all_append exBlueprintDoc_def exBlueprint_accepted simp_thms)
  show ?thesis
    using o b c exBlueprint_digest exRequest_ok exRequest_fields(8) v
    by (simp add: rollbackBlueprint_def objectK_def bindK_def readK_def liftK_def retK_def checkK_def runChecks_ok)
qed

text \<open>The world in which the second version is active.\<close>

lemma exBoth_active:
  assumes d: "av_version_digest exVersion \<noteq> av_version_digest exVersion2"
  shows "\<exists>w. worldInv w \<and> wd_objects w = wd_objects (exWorld exRegistry2 []) \<and> listVersions (wd_registry w) ''agent'' ''domain'' = [exVersion, exVersion2]
    \<and> ap_active_version_digest (activationOf (wd_registry w) ''agent'' ''domain'') = Some (av_version_digest exVersion2)
    \<and> ap_revision (activationOf (wd_registry w) ''agent'' ''domain'') = 2
    \<and> (\<exists>t \<in> set (activationHistory (wd_registry w) ''agent'' ''domain''). tx_to t = av_version_digest exVersion)"
proof -
  let ?pt = "exPorts exDecision" and ?os = "wd_objects (exWorld exRegistry2 [])" and ?vs = "[exVersion, exVersion2]"
  note v = exVersion_facts and v2 = exVersion2_facts
  have rv: "resolveVersion g (Some (av_version_digest exVersion)) ''agent'' ''domain'' = Some exVersion"
    "resolveVersion g (Some (av_version_digest exVersion2)) ''agent'' ''domain'' = Some exVersion2"
    if "listVersions g ''agent'' ''domain'' = ?vs" for g
    using that d v(6) v2(5) by (auto simp: resolveVersion_def Let_def listVersions_def)
  have i: "registryInv exRegistry2" using exRegister2 registerVersion_inv [OF exRegistry_inv] by blast
  let ?w0 = "exWorld exRegistry2 []"
  have w0: "worldInv ?w0" by (rule exWorld_inv [OF exNone_good(1) i])
  have l0: "listVersions exRegistry2 ''agent'' ''domain'' = ?vs" "ap_revision (activationOf exRegistry2 ''agent'' ''domain'') = 0"
    using exRegister2 by (auto simp: activationOf_def [of "[]"] regState_def [of "[]"] emptyState_def)
  have p1: "scanForbidden (buildRuntimeBindingVerification p) ''$'' = []" if "memoryPreflight g k exVersion n = Inr p" for g k n p
    by (rule pure_binding [OF that exVersion_pure])
  have pt: "pureText ''agent''" "pureText ''domain''"
    using exVersion_pure(1, 2) v(2, 3) by simp_all
  have p2: "scanForbidden (buildRuntimeBindingVerification p) ''$'' = []" if "memoryPreflight g k exVersion2 n = Inr p" for g k n p
    by (rule pure_binding [OF that]) (simp_all add: v2 pt del: pureText.simps)
  obtain t1 q1 w1 where c1: "commitFoundryActivation ?pt Activate_Tx exVersion 0 None ?w0 = (Inr (t1, q1), w1)"
    "ap_revision (activationOf (wd_registry w1) ''agent'' ''domain'') = 1"
    using commit_live [OF w0, of exVersion 0 Activate_Tx None ?pt] rv(1) [OF l0(1)] l0(2) v p1 by auto
  note f1 = commit_Inr [OF c1(1) w0]
  have w1: "worldInv w1" using f1(9) by blast
  have s1: "sameStored ?os ?vs w1" using keepsD [OF commit_same, of ?os ?vs ?w0] c1(1) l0(1) by (simp add: sameStored_def) (metis snd_conv)
  then have l1: "listVersions (wd_registry w1) ''agent'' ''domain'' = ?vs" by (simp add: sameStored_def)
  obtain t2 q2 w2 where c2: "commitFoundryActivation ?pt Activate_Tx exVersion2 1 None w1 = (Inr (t2, q2), w2)"
    "ap_revision (activationOf (wd_registry w2) ''agent'' ''domain'') = 2"
    "ap_active_version_digest (activationOf (wd_registry w2) ''agent'' ''domain'') = Some (av_version_digest exVersion2)"
    using commit_live [OF w1, of exVersion2 1 Activate_Tx None ?pt] rv(2) [OF l1] c1(2) v2 p2 by auto
  note f2 = commit_Inr [OF c2(1) w1]
  have s2: "sameStored ?os ?vs w2" using keepsD [OF commit_same s1] c2(1) by (metis snd_conv)
  have "t1 \<in> set (activationHistory (wd_registry w2) ''agent'' ''domain'')"
    using f1(5) f2(9) v(2, 3) set_mono_prefix by (fastforce simp: grown_def)
  with f1(2) f2(9) c2 s2 show ?thesis by (intro exI [of _ w2]) (auto simp: sameStored_def)
qed

definition exRollback :: receipt_statement where
  "exRollback = \<lparr> rs_receipt_id = ''receipt'', rs_authority_ref = ''owner'', rs_action = Rollback, rs_decision = Roll_Back,
     rs_target_agent_id = ''agent'', rs_target_domain_id = ''domain'', rs_run_id = None,
     rs_version_digest = Some (av_version_digest exVersion), rs_expected_revision = 2, rs_issued_at = exTime \<rparr>"

lemma exRollback_ok: "gateStatement exRollback"
  using exVersion_facts(1, 6, 7) exTrimmed
  by (simp add: gateStatement_def wfStatement_def exRollback_def)

lemma exRolledBack:
  assumes d: "exRequestDigest \<noteq> exBlueprintDigest" "av_version_digest exVersion \<noteq> av_version_digest exVersion2"
  shows "\<exists>w t p w'. worldInv w \<and> rollbackActivation (exPorts exRollback) (JStr ''agent'') (JStr ''domain'')
    (JStr (av_version_digest exVersion)) (jInt 2) (JStr (or_receipt_ref (exReceipt exRollback))) w = (Inr (t, p), w')"
proof -
  let ?pt = "exPorts exRollback" and ?r = "or_receipt_ref (exReceipt exRollback)" and ?d = "av_version_digest exVersion"
  note v = exVersion_facts and v2 = exVersion2_facts and rf = exReceipt_fields [OF exRollback_ok]
  obtain w where w: "worldInv w" "wd_objects w = wd_objects (exWorld exRegistry2 [])" "listVersions (wd_registry w) ''agent'' ''domain'' = [exVersion, exVersion2]"
    "ap_active_version_digest (activationOf (wd_registry w) ''agent'' ''domain'') = Some (av_version_digest exVersion2)"
    "ap_revision (activationOf (wd_registry w) ''agent'' ''domain'') = 2"
    "\<exists>t \<in> set (activationHistory (wd_registry w) ''agent'' ''domain''). tx_to t = ?d"
    using exBoth_active [OF d(2)] by blast
  have res: "resolveVersion (wd_registry w) (Some ?d) ''agent'' ''domain'' = Some exVersion"
    "resolveVersion (wd_registry w) (Some (av_version_digest exVersion2)) ''agent'' ''domain'' = Some exVersion2"
    using w(3) d(2) v(6) v2(5) by (auto simp: resolveVersion_def Let_def listVersions_def)
  obtain g where g: "verifyOwnerAuthority ?pt (JStr ?r) (actionName Rollback)
      (decisionName Roll_Back) (JStr ''agent'') (JStr ''domain'') None (Some ?d) 2 w
      = (Inr g, w\<lparr> wd_tick := Suc (wd_tick w) \<rparr>)" "gv_receipt g = exReceipt exRollback"
    using exVerify [OF exRollback_ok, of w] by (auto simp: exRollback_def)
  let ?w1 = "w\<lparr> wd_tick := Suc (wd_tick w) \<rparr>"
  have w1: "worldInv ?w1" using w(1) by simp
  have pure: "scanForbidden (buildRuntimeBindingVerification p) ''$'' = []" if "memoryPreflight g k exVersion n = Inr p" for g k n p
    by (rule pure_binding [OF that exVersion_pure])
  obtain t p w' where c: "commitFoundryActivation ?pt Rollback_Tx exVersion 2 (Some ?r) ?w1 = (Inr (t, p), w')"
    using commit_live [OF w1, of exVersion 2 Rollback_Tx "Some ?r" ?pt] res(1) w(4-6) v d(2) pure rf(10) by (auto simp: truthy_def)
  have rr: "requiredRef (JStr ?r) k = Inr ?r" "requiredRef (JStr ''agent'') k = Inr ''agent''" "requiredRef (JStr ''domain'') k = Inr ''domain''"
    "requiredDigest (JStr ?d) k = Inr ?d" for k
    using rf(9, 10) exTrimmed v by (simp_all add: required_trimmed requiredDigest_def runChecks_ok)
  have rv: "expectedRevisionOf (jInt 2) = Inr 2" by (simp add: expectedRevisionOf_def runChecks_ok jint_def isSafeInteger_def isInteger_def intOf_jInt)
  have ck: "checkK True m = retK ()" for m by (simp add: checkK_def liftK_def retK_def fun_eq_iff runChecks_ok)
  have ids: "(?d = ?d \<and> av_target_agent_id exVersion = ''agent'' \<and> av_target_domain_id exVersion = ''domain'') = True"
    "truthy (Some (av_version_digest exVersion2)) = True"
    "list_ex (\<lambda>t. tx_to t = ?d) (activationHistory (wd_registry w) ''agent'' ''domain'') = True"
    using v w(4, 6) v2(5) by (simp_all add: truthy_def list_ex_iff)
  note rb = exRollbackBlueprint [OF v(4) w(2) d(1)] exRollbackBlueprint [OF v2(4) w(2) d(1)]
  have "rollbackActivation ?pt (JStr ''agent'') (JStr ''domain'') (JStr ?d) (jInt 2) (JStr ?r) w = (Inr (t, p), w')"
    using g(1) c by (simp only: rollbackActivation_def bindK_def liftK_def readK_def retK_def rr rv ck res ids rb w(4) g(2)
        prod.case sum.case option.case actionName.simps decisionName.simps)
  then show ?thesis using w(1) by blast
qed

end
