(* ===== verification/Key_Order.thy ===== *)
theory Key_Order
  imports State_Machine
begin

text \<open>
  Verification of an event chain does not see the order in which the keys of its events
  are written: a chain read back from a store that keeps objects in another order still
  verifies, with the same hashes.
\<close>

definition reorders :: "json \<Rightarrow> json \<Rightarrow> bool" where
  "reorders e g \<longleftrightarrow> isRecord e \<and> isRecord g \<and> mset (entriesOf g) = mset (entriesOf e)"

lemma reorders_keys: "reorders e g \<Longrightarrow> mset (objKeys g) = mset (objKeys e)"
  by (simp add: reorders_def objKeys_def)

lemma reorders_fld:
  assumes "reorders e g" "distinct (objKeys e)"
  shows "fld k g = fld k e"
proof -
  have "distinct (objKeys g)" using assms reorders_keys mset_eq_imp_distinct_iff by blast
  moreover have "set (entriesOf g) = set (entriesOf e)" using assms(1) by (auto simp: reorders_def dest: mset_eq_setD)
  ultimately have "map_of (entriesOf g) = map_of (entriesOf e)"
    using assms(2) by (simp add: objKeys_def map_of_inject_set)
  then show ?thesis by (simp add: fld_def)
qed

lemma reorders_norm:
  assumes "reorders e g" "distinct (objKeys e)"
  shows "norm (withoutKey k e) = norm (withoutKey k g)"
  unfolding withoutKey_def using assms by (intro norm_JObj_eq) (simp_all add: reorders_def objKeys_def distinct_map_filter)

lemma reorders_plain:
  assumes "reorders e g" "plain e"
  shows "plain g"
proof -
  have "set (entriesOf g) = set (entriesOf e)" using assms(1) by (auto simp: reorders_def dest: mset_eq_setD)
  with assms show ?thesis by (auto simp: reorders_def isRecord_def entriesOf_def split: json.splits)
qed

lemma reorders_canonical:
  assumes "reorders e g" "distinct (objKeys e)" "plain e"
  shows "canonicalJsonText (withoutKey k g) = canonicalJsonText (withoutKey k e)"
  using reorders_norm [OF assms(1, 2), of k] plain_withoutKey [OF assms(3), of k] plain_withoutKey [OF reorders_plain [OF assms(1, 3)], of k]
  by (simp add: canonicalJsonText_plain)

lemma reorders_hashedText:
  assumes "reorders e g" "distinct (objKeys e)" "plain e"
  shows "hashedText g = hashedText e"
  unfolding hashedText_def reorders_canonical [OF assms] by (rule refl)

lemma verifyEvent_reorders:
  assumes v: "verifyEvent f p seen e = Inr ()" and r: "reorders e g" and pl: "plain e"
    and f: "\<And>k. fld k f' = fld k f" and p: "rel_option (\<lambda>q q'. \<forall>k. fld k q' = fld k q) p p'"
  shows "verifyEvent f' p' seen g = Inr ()"
proof -
  note i = verifyEvent_identity [OF v]
  have d: "distinct (objKeys e)" using sameKeys_distinct [OF i(2) EVENT_FIELDS_distinct] .
  have k: "fld k g = fld k e" for k by (rule reorders_fld [OF r d])
  have s: "sameKeys g EVENT_FIELDS = sameKeys e EVENT_FIELDS" "isRecord g = isRecord e"
    using reorders_keys [OF r] r by (simp_all add: sameKeys_iff reorders_def)
  have h: "eventHash (withoutKey ''event_hash'' g) = eventHash (withoutKey ''event_hash'' e)"
    by (simp add: eventHash_def reorders_canonical [OF r d pl])
  have id: "eventIdentityChecks f' p' g = eventIdentityChecks f p e"
    using p by (cases p; cases p') (simp_all add: eventIdentityChecks_def k s f)
  have t: "assertFoundryEventTransition g = assertFoundryEventTransition e" "assertAcceptancePayload g = assertAcceptancePayload e"
    unfolding assertFoundryEventTransition_def assertAcceptancePayload_def k by (rule refl)+
  have hist: "eventHistoryChecks p' seen g = eventHistoryChecks p seen e"
    using p by (cases p; cases p') (simp_all add: fun_eq_iff eventHistoryChecks_def k t)
  show ?thesis using v by (simp add: verifyEvent_def id h hist)
qed

lemma verifyFrom_reorders:
  assumes "list_all2 reorders es gs" "verifyFrom f p seen es = Inr ()" "\<forall>e \<in> set es. plain e"
    and "\<And>k. fld k f' = fld k f" "rel_option (\<lambda>q q'. \<forall>k. fld k q' = fld k q) p p'"
  shows "verifyFrom f' p' seen gs = Inr ()"
  using assms
proof (induction es gs arbitrary: p p' seen rule: list_all2_induct)
  case (Cons e es g gs)
  have v: "verifyEvent f p seen e = Inr ()" and rest: "verifyFrom f (Some e) (strOf (fld ''idempotency_key'' e) # seen) es = Inr ()"
    using Cons.prems(1) by simp_all
  have k: "fld k g = fld k e" for k
    using reorders_fld [OF Cons.hyps(1) sameKeys_distinct [OF verifyEvent_identity(2) [OF v] EVENT_FIELDS_distinct]] .
  have "verifyEvent f' p' seen g = Inr ()"
    using verifyEvent_reorders [OF v Cons.hyps(1) _ Cons.prems(3, 4)] Cons.prems(2) by simp
  moreover have "verifyFrom f' (Some g) (strOf (fld ''idempotency_key'' e) # seen) gs = Inr ()"
    using Cons.IH [OF rest _ Cons.prems(3)] Cons.prems(2) k by simp
  ultimately show ?case by (simp add: k)
qed simp

lemma verify_reorders:
  assumes "list_all2 reorders es gs" "verifyFoundryEventChain es = Inr ()" "\<forall>e \<in> set es. plain e"
  shows "verifyFoundryEventChain gs = Inr ()"
proof -
  obtain e es' where es: "es = e # es'" using assms(2) by (cases es) (simp_all add: verifyFoundryEventChain_def)
  with assms(1) obtain g gs' where gs: "gs = g # gs'" "reorders e g" by (auto simp: list_all2_Cons1)
  have v: "verifyFrom e None [] es = Inr ()" using assms(2) es by (simp add: verifyFoundryEventChain_def)
  then have "verifyEvent e None [] e = Inr ()" using es by simp
  from sameKeys_distinct [OF verifyEvent_identity(2) [OF this] EVENT_FIELDS_distinct]
  have "fld k g = fld k e" for k by (rule reorders_fld [OF gs(2)])
  from verifyFrom_reorders [OF assms(1) v assms(3) this] show ?thesis using gs by (simp add: verifyFoundryEventChain_def)
qed

lemma verify_keys: "verifyFoundryEventChain es = Inr () \<Longrightarrow> e \<in> set es \<Longrightarrow> isRecord e \<and> distinct (objKeys e)"
proof (induction es arbitrary: e rule: verify_induct)
  case (first x)
  with verifyEvent_identity(1, 2) [OF first.hyps] show ?case using sameKeys_distinct [OF _ EVENT_FIELDS_distinct] by simp
next
  case (step es x)
  from verifyEvent_identity(1, 2) [OF step.hyps(3)] show ?case
    using step.IH step.prems sameKeys_distinct [OF _ EVENT_FIELDS_distinct] by auto
qed

text \<open>The same object with its entries written last first.\<close>

definition flipKeys :: "json \<Rightarrow> json" where
  "flipKeys e = JObj (rev (entriesOf e))"

lemma flipKeys_reorders: "isRecord e \<Longrightarrow> reorders e (flipKeys e)"
  by (simp add: reorders_def flipKeys_def isRecord_def entriesOf_def)

end
