(* ===== verification/Example_Order.thy ===== *)
theory Example_Order
  imports Example_Scenes Key_Order
begin

text \<open>
  The nine events of a run up to its activation, and the same chain as a store that writes
  object keys last first returns it: two different lists of documents that verify with the
  same hashes.
\<close>

lemma stepEvent_plain:
  assumes "plain (snd (snd (snd p)))" "length es < 1000"
  shows "plain (stepEvent r a es p)"
proof -
  obtain ty key s payload where p: "p = (ty, key, s, payload)" by (cases p)
  show ?thesis unfolding p stepEvent_def prod.case hashBody_def by (rule plain_built) (use assms p in simp_all)
qed

lemma planned_plain: "planned a keys ps \<Longrightarrow> p \<in> set ps \<Longrightarrow> plain (snd (snd (snd p)))"
proof (induction a keys ps rule: planned.induct)
  case (2 a keys ty key s payload ps)
  then show ?case by (cases "p = (ty, key, s, payload)") simp_all
qed simp

lemma extend_plain:
  "\<forall>e \<in> set es. plain e \<Longrightarrow> \<forall>p \<in> set ps. plain (snd (snd (snd p))) \<Longrightarrow> length es + length ps < 1000 \<Longrightarrow>
     \<forall>e \<in> set (extendChain r a es ps). plain e"
proof (induction ps arbitrary: a es)
  case (Cons p ps)
  have "plain (stepEvent r a es p)" by (rule stepEvent_plain) (use Cons.prems in simp_all)
  with Cons.prems(1) have "\<forall>e \<in> set (es @ [stepEvent r a es p]). plain e" by simp
  moreover have "\<forall>p \<in> set ps. plain (snd (snd (snd p)))" "length (es @ [stepEvent r a es p]) + length ps < 1000"
    using Cons.prems(2, 3) by simp_all
  ultimately show ?case unfolding extendChain.simps by (rule Cons.IH)
qed simp

lemma exChain_plain:
  assumes "goodPlan ps"
  shows "\<forall>e \<in> set (exChain ps). plain e"
proof -
  have "plain (firstEvent ''run-1'' ''agent'' ''domain'' exRequestDigest)"
    unfolding firstEvent_def hashBody_def by (rule plain_built) (simp_all add: acceptancePayload_def)
  then show ?thesis unfolding exChain_def
    using assms planned_plain [of Accepted "[''start'']" ps] by (intro extend_plain) (auto simp: goodPlan_def)
qed

definition exReordered :: "json list" where
  "exReordered = map flipKeys (exChain exActivating)"

lemma exReordered_reorders: "list_all2 reorders (exChain exActivating) exReordered"
proof -
  have "\<forall>e \<in> set (exChain exActivating). isRecord e"
    using verify_keys [OF exChain_ok [OF exActivating_good(1)]] by blast
  then show ?thesis by (simp add: exReordered_def list.rel_map list.rel_refl_strong flipKeys_reorders)
qed

lemma exReordered_ok:
  "verifyFoundryEventChain exReordered = Inr ()" "\<forall>e \<in> set (exChain exActivating) \<union> set exReordered. plain e"
  "evHash (last (exChain exActivating)) = evHash (last exReordered)" "length exReordered = 9" "exReordered \<noteq> exChain exActivating"
  "\<not> (\<exists>(e, f) \<in> set (zip (rev (exChain exActivating)) (rev exReordered)). eventsCollide e f)"
proof -
  let ?es = "exChain exActivating"
  note v = exChain_ok [OF exActivating_good(1)] and pl = exChain_plain [OF exActivating_good(1)]
  show "verifyFoundryEventChain exReordered = Inr ()" by (rule verify_reorders [OF exReordered_reorders v pl])
  have each: "reorders e (flipKeys e) \<and> distinct (objKeys e) \<and> plain e" if "e \<in> set ?es" for e
    using that verify_keys [OF v] pl flipKeys_reorders by blast
  show "\<forall>e \<in> set ?es \<union> set exReordered. plain e" using pl each reorders_plain by (auto simp: exReordered_def)
  have "last exReordered = flipKeys (last ?es)" using exChain_hd(1) by (simp add: exReordered_def last_map)
  then show "evHash (last ?es) = evHash (last exReordered)"
    using each [OF last_in_set [OF exChain_hd(1)]] reorders_fld [of "last ?es" "flipKeys (last ?es)"] by (simp add: evHash_def)
  show "length exReordered = 9" by (simp add: exReordered_def exChain_length exActivating_def exPlan_def)
  have "hd exReordered = flipKeys (hd ?es)" using exChain_hd(1) by (simp add: exReordered_def hd_map)
  moreover have "flipKeys (hd ?es) \<noteq> hd ?es"
    by (simp add: exChain_hd(2) flipKeys_def firstEvent_def hashBody_def withHash_def eventBody_def entriesOf_def)
  ultimately show "exReordered \<noteq> ?es" by metis
  have "\<not> eventsCollide e f" if "(e, f) \<in> set (zip (rev ?es) (rev exReordered))" for e f
  proof -
    from that have "e \<in> set ?es \<and> f = flipKeys e" by (auto simp: exReordered_def rev_map zip_map2 zip_same_conv_map)
    then have "hashedText f = hashedText e" using each reorders_hashedText by blast
    then show ?thesis by (simp add: eventsCollide_def collision_def)
  qed
  then show "\<not> (\<exists>(e, f) \<in> set (zip (rev ?es) (rev exReordered)). eventsCollide e f)" by blast
qed

end
