(* ===== verification/Example_Evaluation.thy ===== *)
theory Example_Evaluation
  imports Example_Acts
begin

text \<open>
  An evaluation for the witnesses: an executor whose one public case and one protected
  requirement pass, a reviewer that agrees, and the evidence bundle the runtime of
  \<open>Evaluation\<close> makes of it, which the kernel accepts, stores and journals.
\<close>

section \<open>Executor and reviewer\<close>

definition exResult :: json where
  "exResult = JObj [(''case_id'', JStr ''c1''), (''status'', JStr ''pass''), (''score'', jInt 1), (''evidence_refs'', jStrs [''evidence:c1''])]"

definition exAggregate :: json where
  "exAggregate = JObj [(''category'', JStr ''privacy''), (''total'', jInt 2), (''passed'', jInt 2), (''failed'', jInt 0), (''score'', jInt 1)]"

definition exAggregateDigest :: string where
  "exAggregateDigest = ''sha256:'' @ sha256Hex (jtext (norm exAggregate))"

definition exObservations :: json where
  "exObservations = JObj [(''candidate_cost_observations'', JObj [(''usd'', jInt 1)]), (''candidate_latency_observations'', JObj []),
     (''safety_observations'', JArr []), (''safety_delta'', JObj []), (''cost_delta'', JObj []), (''latency_delta'', JObj [])]"

definition exReview :: json where
  "exReview = JObj [(''execution_ref'', JStr ''execution:review''), (''verdict'', JStr ''pass''), (''findings'', jStrs []),
     (''evidence_refs'', jStrs [''review:1''])]"

definition exExecutor :: case_executor where
  "exExecutor = \<lparr> ce_executor_id = ''executor'', ce_executionRef = (\<lambda>run g phase. ''execution:evaluate''),
     ce_runPublicCase = (\<lambda>run g phase s c. Inr exResult),
     ce_runProtectedRequirement = (\<lambda>run g phase s q. Inr (JObj [(''receipt_ref'', JStr ''receipt:privacy''),
       (''aggregate_digest'', JStr exAggregateDigest), (''aggregate'', exAggregate)])),
     ce_observeResourceObservations = (\<lambda>run g phase c v. Inr exObservations) \<rparr>"

definition exRuntime :: eval_runtime where
  "exRuntime = \<lparr> rt_evaluator_id = ''evaluator'', rt_executor = exExecutor, rt_reviewer_id = ''reviewer'',
     rt_review = (\<lambda>i phase rs as grs obs crs. Inr exReview), rt_now = exTime \<rparr>"

definition exCandidate :: "string \<Rightarrow> materialized_candidate" where
  "exCandidate d = \<lparr> mc_surface_kind = ''opl_foundry_materialized_candidate'', mc_target_agent_id = ''agent'',
     mc_target_domain_id = ''domain'', mc_blueprint_digest = d, mc_candidate_digest = zeroDigest,
     mc_candidate_ref = ''candidate:1'', mc_manifest_digest = zeroDigest \<rparr>"

definition exInput :: eval_input where
  "exInput = \<lparr> ei_run_id = ''run-1'', ei_request = exRequest, ei_blueprint = exBlueprintDoc, ei_blueprint_digest = exBlueprintDigest,
     ei_candidate = candidateJson (exCandidate exBlueprintDigest), ei_baseline_version = JNull \<rparr>"

definition exFrozen :: json where
  "exFrozen = JObj [(''surface_kind'', JStr ''opl_foundry_frozen_evaluation_plan''),
      (''version'', JStr ''opl-foundry-frozen-evaluation-plan.v1''),
      (''public_cases'', fld ''public_cases'' exSpec), (''protected_requirements'', fld ''protected_requirements'' exSpec),
      (''gates'', fld ''gates'' exSpec), (''baseline_comparison'', fld ''baseline_comparison'' exSpec)]"

definition exFrozenDigest :: string where
  "exFrozenDigest = ''sha256:'' @ sha256Hex (jtext (norm exFrozen))"

lemma exFrozen_digest: "foundryFrozenEvaluationPlanDigest exSpec = Inr exFrozenDigest"
proof -
  have "plain exFrozen" by (simp add: exFrozen_def exSpec_fld numOk_small isFinite_def)
  then show ?thesis
    by (simp add: foundryFrozenEvaluationPlanDigest_def exFrozen_def [symmetric] evalDigest_def canonicalJsonText_plain exFrozenDigest_def)
qed

lemma exAggregate_digest: "evalDigest exAggregate = Inr exAggregateDigest"
proof -
  have "plain exAggregate" by (simp add: exAggregate_def numOk_small isFinite_def)
  then show ?thesis by (simp add: evalDigest_def canonicalJsonText_plain exAggregateDigest_def)
qed

lemma one_arith: "jmul (jint 1) (jint 1) = jint 1" "jdiv (jint 1) (jint 1) = jint 1" "jdiv (jint 2) (jint 2) = jint 1"
  "jadd (jint 0) (jint 1) = jint 1" "jadd (jint 2) (jint 0) = jint 2" "jadd (jint 0) (jint 2) = jint 2"
  using rnd_of_int [of 1] jadd_jint [of 0 1] jadd_jint [of 2 0] jadd_jint [of 0 2] by (simp_all add: jint_def)


section \<open>The facts\<close>

definition exFacts :: eval_facts where
  "exFacts = \<lparr> ef_gateScore = jint 1, ef_baselineScore = None,
     ef_gateResults = [\<lparr> gr_gate_id = JStr ''g1'', gr_passed = True, gr_observed = jint 1 \<rparr>],
     ef_baselinePublicPassed = True, ef_baselineProtectedPassed = True, ef_baselinePassed = True,
     ef_resourceConstraintResults = [\<lparr> cr_kind = ''cost'', cr_metric = ''usd'', cr_limit = jint 2, cr_observed = jint 1, cr_passed = True \<rparr>],
     ef_resourceConstraintsPassed = True, ef_safetyFailureClassifications = [], ef_safetyPassed = True, ef_qualified = True \<rparr>"

definition exCase :: json where
  "exCase = JObj [(''case_id'', JStr ''c1''), (''test_ref'', JStr ''test:c1''), (''weight'', jInt 1), (''required'', JBool True)]"

definition exRequirement :: json where
  "exRequirement = JObj [(''category'', JStr ''privacy''), (''minimum_case_count'', jInt 2)]"

definition exGateSpec :: json where
  "exGateSpec = JObj [(''gate_id'', JStr ''g1''), (''metric'', JStr ''score''), (''operator'', JStr ''gte''),
     (''threshold'', jInt 1), (''required'', JBool True)]"

lemma exSpec_lists: "specCases exSpec = [exCase]" "specReqs exSpec = [exRequirement]" "specGates exSpec = [exGateSpec]"
  by (simp_all add: specCases_def specReqs_def specGates_def exSpec_fld exCase_def exRequirement_def exGateSpec_def arrOf_def)

lemma exSets_ok: "list_all fst (assertPublicResultSet exSpec [exResult] l)" "list_all fst (assertProtectedAggregateSet exSpec [exAggregate] l)"
proof -
  have t: "nonBlank (JStr ''evidence:c1'')" by code_simp
  have i: "isSafeInteger (jint 2)" "isSafeInteger (jint 0)" by (simp_all add: isSafeInteger_def isInteger_def jint_def)
  have n: "\<not> jlt (jint 2) (jint 2)" "\<not> jlt (jint 2) (jint 0)" "\<not> jlt (jint 0) (jint 0)" "jint 2 \<noteq> NaN" "jint 1 \<noteq> NaN"
    by (simp_all add: jint_def)
  have u: "unitScore (jInt 1)" by (simp add: unitScore_def jint_def isFinite_def)
  show "list_all fst (assertPublicResultSet exSpec [exResult] l)" using t u
    by (simp add: assertPublicResultSet_def exSpec_lists checksEach_def publicResultStep_def findBy_def exResult_def exCase_def validStatus_def
        nonBlankList_def jStrs_def isArr_def arrOf_def)
  show "list_all fst (assertProtectedAggregateSet exSpec [exAggregate] l)" using i u n one_arith
    by (simp add: assertProtectedAggregateSet_def exSpec_lists checksEach_def aggregateStep_def findBy_def exAggregate_def exRequirement_def Let_def
        jeq_def)
qed

lemma exScore: "weightedScore exSpec [exResult] = Inr (jint 1)"
proof -
  have n: "isFinite (jint 1)" "\<not> jle (jint 1) (jint 0)" by (simp_all add: isFinite_def jint_def)
  have s: "scoreOf [exResult] exCase = jint 1" by (simp add: scoreOf_def findBy_def exResult_def exCase_def)
  have w: "numOf (fld ''weight'' exCase) = jint 1" by (simp add: exCase_def)
  show ?thesis using n one_arith by (simp add: weightedScore_def exWeight weightedSum_def exSpec_lists s w runChecks_ok)
qed

lemma exGates: "gateResultsOf exSpec (jint 1) as = Inr (ef_gateResults exFacts)"
  by (simp add: gateResultsOf_def exSpec_lists gateObserved_def exGateSpec_def gatePassed_def exFacts_def jint_def)

lemma exConstraints: "evaluateDesignRequestResourceConstraints exRequest (fld ''candidate_cost_observations'' exObservations)
    (fld ''candidate_latency_observations'' exObservations) = Inr (ef_resourceConstraintResults exFacts, True)"
proof -
  have n: "isFinite (jint 2)" "isFinite (jint 1)" "\<not> jlt (jint 1) (jint 0)" "jle (jint 1) (jint 2)" by (simp_all add: isFinite_def jint_def)
  have c: "fld ''cost_limits'' (fld ''constraints'' exRequest) = JObj [(''usd'', jInt 2)]" "fld ''latency_limits'' (fld ''constraints'' exRequest) = JObj []"
    by (simp_all add: exRequest_def)
  have o: "fld ''candidate_cost_observations'' exObservations = JObj [(''usd'', jInt 1)]" "fld ''candidate_latency_observations'' exObservations = JObj []"
    by (simp_all add: exObservations_def)
  show ?thesis using n
    by (simp add: evaluateDesignRequestResourceConstraints_def c o resourceConstraintResults_def objKeys_def entriesOf_def hasOwn_def exFacts_def
        runChecks_ok)
qed

definition exResults :: eval_results where
  "exResults = \<lparr> er_public = JArr [exResult], er_baseline_public = JNull, er_protected = JArr [exAggregate],
     er_baseline_protected = JNull, er_verdict = JStr ''pass'', er_baseline_present = False,
     er_cost = fld ''candidate_cost_observations'' exObservations, er_latency = fld ''candidate_latency_observations'' exObservations,
     er_safety = fld ''safety_observations'' exObservations \<rparr>"

lemma exRecompute: "recomputeEvaluationQualification exRequest exSpec exResults = Inr exFacts"
proof -
  have b: "boolOf (fld ''required'' (fld ''baseline_comparison'' exSpec)) = False" by (simp add: exSpec_fld boolOf_def)
  have c: "list_all fst (resultSetChecks exSpec exResults)"
    using exSets_ok b by (simp add: resultSetChecks_def exResults_def Let_def arrOf_def)
  have r: "requiredPublicPassed exSpec [exResult]"
    by (simp add: requiredPublicPassed_def exSpec_lists exCase_def exResult_def findBy_def)
  have p: "protectedPassed exSpec [exAggregate]"
    by (simp add: protectedPassed_def exSpec_lists exRequirement_def exAggregate_def findBy_def jint_def jeq_def)
  have g: "requiredGatesPassed exSpec (ef_gateResults exFacts)"
    by (simp add: requiredGatesPassed_def exSpec_lists exGateSpec_def exFacts_def)
  have s: "safetyFailureClassifications (arrOf (fld ''safety_observations'' exObservations)) = []"
    by (simp add: exObservations_def arrOf_def safetyFailureClassifications_def)
  show ?thesis
    unfolding recomputeEvaluationQualification_def Let_def using c b r p g s exScore exGates [of "[exAggregate]"] exConstraints
    by (simp add: runChecks_ok exResults_def arrOf_def) (simp add: exFacts_def)
qed

section \<open>The bundle\<close>

definition exBundleRest :: "(string \<times> json) list" where
  "exBundleRest = [(''surface_kind'', JStr ''opl_foundry_evidence_bundle''), (''version'', JStr ''opl-foundry-protocol.v1''),
     (''evidence_id'', JStr ''evidence:run-1:0:evaluate''), (''target_agent_id'', JStr ''agent''), (''target_domain_id'', JStr ''domain''),
     (''target_version_ref'', JNull), (''candidate_digest'', JStr zeroDigest), (''baseline_version_digest'', JNull),
     (''public_results'', JArr [exResult]), (''baseline_public_results'', JNull), (''baseline_protected_aggregates'', JNull),
     (''protected_aggregates'', JArr [exAggregate]),
     (''independent_review'', JObj [(''evaluator_ref'', JStr ''reviewer''), (''evaluation_execution_ref'', JStr ''execution:evaluate''),
        (''review_execution_ref'', JStr ''execution:review''), (''verdict'', JStr ''pass''), (''findings'', jStrs []),
        (''evidence_refs'', jStrs [''review:1''])]),
     (''candidate_cost_observations'', JObj [(''usd'', jInt 1)]), (''candidate_latency_observations'', JObj []),
     (''safety_observations'', JArr []), (''safety_delta'', JObj []), (''cost_delta'', JObj []), (''latency_delta'', JObj []),
     (''failure_classification'', JArr []), (''qualified'', JBool True), (''gate_score'', jInt 1)]"

definition exProvenance :: "string \<Rightarrow> json" where
  "exProvenance d = JObj [(''foundry_run_id'', JStr ''run-1''), (''generation'', jInt 0), (''producer_id'', JStr ''evaluator''),
     (''evaluated_at'', JStr exTime), (''source_refs'', jStrs [''opl://foundry/frozen-plan/'' @ d, ''execution:evaluate'', ''receipt:privacy''])]"

definition exBundle :: "string \<Rightarrow> string \<Rightarrow> json" where
  "exBundle b d = JObj ((''blueprint_digest'', JStr b) # (''frozen_test_plan_digest'', JStr d) # (''provenance'', exProvenance d) # exBundleRest)"

lemma exBundle_fld: "k \<notin> {''blueprint_digest'', ''frozen_test_plan_digest'', ''provenance''} \<Longrightarrow> fld k (exBundle b d) = fld k (JObj exBundleRest)"
  "fld ''blueprint_digest'' (exBundle b d) = JStr b" "fld ''frozen_test_plan_digest'' (exBundle b d) = JStr d"
  "fld ''provenance'' (exBundle b d) = exProvenance d"
  by (simp_all add: exBundle_def fld_def entriesOf_def)

lemma exBundle_value: "plain (exBundle b d)" "jsValue (exBundle b d)"
  by (simp_all add: exBundle_def exBundleRest_def exProvenance_def exResult_def exAggregate_def jInt_def jint_def jStrs_def)

lemma exBundle_pure:
  assumes "isDigest b" "isDigest d"
  shows "pureValue (exBundle b d)"
proof -
  have "pureValue (JObj exBundleRest)" "pureKey ''blueprint_digest''" "pureKey ''frozen_test_plan_digest''" "pureKey ''provenance''" by code_simp+
  moreover have "pureValue (exProvenance d)"
  proof -
    have "list_all pureKey [''foundry_run_id'', ''generation'', ''producer_id'', ''evaluated_at'', ''source_refs'']"
      "pureText exTime" "pureText ''run-1''" "pureText ''evaluator''" "pureText ''execution:evaluate''" "pureText ''receipt:privacy''" by code_simp+
    then show ?thesis by (simp add: exProvenance_def jStrs_def jInt_def keyChars_def)
  qed
  ultimately show ?thesis using pureText_digest [OF assms(1)] pureText_digest [OF assms(2)] by (simp add: exBundle_def)
qed

lemma exBundle_ok:
  assumes b: "isDigest b" and d: "isDigest d"
  shows "validateEvidenceBundle isoCanonical (exBundle b d) = Inr (exBundle b d)"
proof -
  have c: "list_all fst (assertExactKeys (exBundle b d) ''EvidenceBundle'' evidenceKeys)"
    "list_all fst (independentReviewChecks (fld ''independent_review'' (exBundle b d)))" "list_all fst (observationChecks (exBundle b d))"
    "list_all fst (assertIdentity (exBundle b d) ''EvidenceBundle'')"
    "list_all fst (requiredString (fld ''evidence_id'' (exBundle b d)) ''EvidenceBundle.evidence_id'')"
    "list_all fst (validatePublicResults (fld ''public_results'' (exBundle b d)) ''EvidenceBundle.public_results'')"
    "arrOf (fld ''public_results'' (exBundle b d)) \<noteq> []" by code_simp+
  have f: "isRecord (exBundle b d)" "fld ''surface_kind'' (exBundle b d) = JStr ''opl_foundry_evidence_bundle''"
    "fld ''version'' (exBundle b d) = JStr FOUNDRY_PROTOCOL_VERSION" "fld ''baseline_version_digest'' (exBundle b d) = JNull"
    "fld ''baseline_public_results'' (exBundle b d) = JNull" "fld ''baseline_protected_aggregates'' (exBundle b d) = JNull"
    "fld ''candidate_digest'' (exBundle b d) = JStr zeroDigest" "fld ''protected_aggregates'' (exBundle b d) = JArr [exAggregate]"
    by (simp_all add: exBundle_def exBundleRest_def FOUNDRY_PROTOCOL_VERSION_def)
  have dg: "list_all fst (assertDigest (JStr x) l)" if "isDigest x" for x l
    using that digest_last [OF that] by (simp add: assertDigest_def requiredString_def)
  have a: "list_all fst (validateProtectedAggregates (JArr [exAggregate]) l)" for l
  proof -
    have n: "nonBlank (JStr ''privacy'')" by code_simp
    have k: "objKeys exAggregate = [''category'', ''total'', ''passed'', ''failed'', ''score'']" by (simp add: exAggregate_def objKeys_def entriesOf_def)
    have g: "isRecord exAggregate" "fld ''category'' exAggregate = JStr ''privacy''" "fld ''total'' exAggregate = jInt 2" "fld ''passed'' exAggregate = jInt 2"
      "fld ''failed'' exAggregate = jInt 0" "fld ''score'' exAggregate = jInt 1" by (simp_all add: exAggregate_def)
    have z: "isSafeInteger (jint 0)" "isSafeInteger (jint 2)" "\<not> jlt (jint 0) (jint 0)" "\<not> jlt (jint 2) (jint 0)" "unitScore (jInt 1)" "jeq (jint 2) (jint 2)"
      by (simp_all add: jint_def isSafeInteger_def isInteger_def unitScore_def isFinite_def jeq_def)
    show ?thesis using one_arith n z
      by (simp add: validateProtectedAggregates_def protectedAggregateChecks_def checksEach_def k g assertExactKeys_def requiredString_def Let_def
          isArr_def arrOf_def)
  qed
  have "list_all fst (evidenceResultChecks (exBundle b d))"
    unfolding evidenceResultChecks_def f exBundle_fld(2, 3) using c(5-7) dg [OF b] dg [OF d] dg [OF zeroDigest_ok] a by simp
  moreover have "list_all fst (provenanceChecks isoCanonical (fld ''provenance'' (exBundle b d)))"
  proof -
    have n: "nonBlank (JStr ''run-1'')" "nonBlank (JStr ''evaluator'')" "trim ''execution:evaluate'' = ''execution:evaluate''"
      "trim ''receipt:privacy'' = ''receipt:privacy''" by code_simp+
    have r: "trim (''opl://foundry/frozen-plan/'' @ d) = ''opl://foundry/frozen-plan/'' @ d"
      using digest_last [OF d] by (intro trim_id) (simp_all add: isWs_def)
    have u: "list_all fst (requiredUniqueStringList (jStrs [''opl://foundry/frozen-plan/'' @ d, ''execution:evaluate'', ''receipt:privacy'']) l 0)" for l
      using n(3, 4) r by (simp add: requiredUniqueStringList_def requiredStringList_def checksEach_def requiredString_def jStrs_def isArr_def arrOf_def
          trimmedList_def del: append.simps)
    have f: "fld ''foundry_run_id'' (exProvenance d) = JStr ''run-1''" "fld ''generation'' (exProvenance d) = jInt 0"
      "fld ''producer_id'' (exProvenance d) = JStr ''evaluator''" "fld ''evaluated_at'' (exProvenance d) = JStr exTime"
      "fld ''source_refs'' (exProvenance d) = jStrs [''opl://foundry/frozen-plan/'' @ d, ''execution:evaluate'', ''receipt:privacy'']"
      "isRecord (exProvenance d)" "objKeys (exProvenance d) = [''foundry_run_id'', ''generation'', ''producer_id'', ''evaluated_at'', ''source_refs'']"
      by (simp_all add: exProvenance_def objKeys_def entriesOf_def)
    have z: "isSafeInteger (jint 0)" "\<not> jlt (jint 0) (jint 0)" by (simp_all add: jint_def isSafeInteger_def isInteger_def)
    show ?thesis
      unfolding exBundle_fld(4) provenanceChecks_def f using n(1, 2) u z
      by (simp add: f assertExactKeys_def assertDateTime_def requiredString_def)
  qed
  ultimately have "list_all fst (evidenceBundleChecks isoCanonical (exBundle b d))"
    unfolding evidenceBundleChecks_def assertBase_def using c f pure_checks [OF exBundle_pure [OF b d]] by simp
  then show ?thesis by (simp add: validateEvidenceBundle_def runChecks_ok)
qed

text \<open>The runtime returns this bundle.\<close>

lemma exInput_fields: "fld ''eval_spec'' (ei_blueprint exInput) = exSpec" "fld ''generation'' (ei_blueprint exInput) = jInt 0"
  "ei_request exInput = exRequest" "ei_baseline_version exInput = JNull" "ei_run_id exInput = ''run-1''"
  "ei_blueprint_digest exInput = exBlueprintDigest" "fld ''candidate_digest'' (ei_candidate exInput) = JStr zeroDigest"
  by (simp_all add: exInput_def exBlueprintDoc_def exSpec_fld(9) candidateJson_def exCandidate_def)
    (simp_all add: exBlueprint_def exBlueprintRest_def)

lemma exEvidence_text: "evidenceBundle exRuntime exInput ''evaluate'' [exResult] [(exAggregate, ''receipt:privacy'')] (JNull, JNull, []) exObservations exReview
    ''execution:evaluate'' (ef_gateResults exFacts) exFacts d = JObj
     [(''surface_kind'', JStr ''opl_foundry_evidence_bundle''), (''version'', JStr ''opl-foundry-protocol.v1''),
      (''evidence_id'', JStr ''evidence:run-1:0:evaluate''), (''target_agent_id'', JStr ''agent''), (''target_domain_id'', JStr ''domain''),
      (''target_version_ref'', JNull), (''blueprint_digest'', JStr exBlueprintDigest), (''candidate_digest'', JStr zeroDigest),
      (''baseline_version_digest'', JNull), (''frozen_test_plan_digest'', JStr d),
      (''public_results'', JArr [exResult]), (''baseline_public_results'', JNull), (''baseline_protected_aggregates'', JNull),
      (''protected_aggregates'', JArr [exAggregate]), (''independent_review'', fld ''independent_review'' (JObj exBundleRest)),
      (''candidate_cost_observations'', JObj [(''usd'', jInt 1)]), (''candidate_latency_observations'', JObj []),
      (''safety_observations'', JArr []), (''safety_delta'', JObj []), (''cost_delta'', JObj []), (''latency_delta'', JObj []),
      (''failure_classification'', JArr []), (''qualified'', JBool True), (''gate_score'', jInt 1), (''provenance'', exProvenance d)]"
proof -
  have t: "trim ''execution:review'' = ''execution:review''" by code_simp
  have i: "jsToString (jInt 0) = ''0''" by (simp add: jsToString_jInt) code_simp
  have r: "fld ''target_agent_id'' exRequest = JStr ''agent''" "fld ''target_domain_id'' exRequest = JStr ''domain''"
    "fld ''target_version_ref'' exRequest = JNull" by (rule exRequest_fields)+
  have o: "failureClassification (ef_gateResults exFacts) exFacts [exResult] = []" by (simp add: failureClassification_def exFacts_def)
  have j: "JNum (jint 1) = jInt 1" by (simp add: jInt_def)
  have e: "ef_qualified exFacts" "ef_gateScore exFacts = jint 1" by (simp_all add: exFacts_def)
  show ?thesis
    unfolding evidenceBundle_def Let_def exInput_fields r o
    using t by (simp add: i e exObservations_def exReview_def exRuntime_def exBundleRest_def exProvenance_def j)
qed

lemma exRun_plan: "runFrozenPlan exRuntime exInput ''evaluate'' = Inr (evidenceBundle exRuntime exInput ''evaluate'' [exResult]
    [(exAggregate, ''receipt:privacy'')] (JNull, JNull, []) exObservations exReview ''execution:evaluate'' (ef_gateResults exFacts) exFacts exFrozenDigest)"
proof -
  have t: "trim ''execution:review'' = ''execution:review''" "trim ''execution:evaluate'' = ''execution:evaluate''"
    "trim ''receipt:privacy'' = ''receipt:privacy''" "nonBlank (JStr ''review:1'')" by code_simp+
  have rs: "runSubject exExecutor exInput p s = Inr [exResult]" for p s
    by (simp add: runSubject_def exInput_fields exSpec_lists exExecutor_def)
  have v: "verifiedProtectedRequirementExecution l (JObj [(''receipt_ref'', JStr ''receipt:privacy''),
       (''aggregate_digest'', JStr exAggregateDigest), (''aggregate'', exAggregate)]) = Inr (exAggregate, ''receipt:privacy'')" for l
    using t(3) by (simp add: verifiedProtectedRequirementExecution_def trimmable_def exAggregate_digest runChecks_ok)
  have ps: "runProtected exExecutor exInput p s l = Inr [(exAggregate, ''receipt:privacy'')]" for p s l
    by (simp add: runProtected_def exInput_fields exSpec_lists exExecutor_def v)
  have rv: "list_all fst (reviewChecks exReview)"
    using t by (simp add: reviewChecks_def exReview_def validStatus_def nonBlankList_def jStrs_def isArr_def arrOf_def)
  have ex: "rt_executor exRuntime = exExecutor" "rt_review exRuntime i p a b g ob c = Inr exReview"
    "ce_observeResourceObservations exExecutor r g' p cand x = Inr exObservations" "ce_executionRef exExecutor r g' p = ''execution:evaluate''"
    for i p a b g ob c r g' cand x by (simp_all add: exRuntime_def exExecutor_def)
  have rc: "recomputeEvaluationQualification exRequest exSpec \<lparr> er_public = JArr [exResult], er_baseline_public = JNull, er_protected = JArr [exAggregate],
     er_baseline_protected = JNull, er_verdict = fld ''verdict'' exReview, er_baseline_present = False,
     er_cost = fld ''candidate_cost_observations'' exObservations, er_latency = fld ''candidate_latency_observations'' exObservations,
     er_safety = fld ''safety_observations'' exObservations \<rparr> = Inr exFacts"
    using exRecompute by (simp add: exResults_def exReview_def)
  have tr: "trimmable (fld ''execution_ref'' exReview) = Inr ()" by (simp add: exReview_def trimmable_def)
  have x: "trimmed (fld ''execution_ref'' exReview) = ''execution:review''" using t by (simp add: exReview_def)
  show ?thesis
    unfolding runFrozenPlan_def Let_def exInput_fields ex
    using exSets_ok rv rc t(2) x by (simp add: tr rs ps exInput_fields exScore exGates runBaseline_def exConstraints runChecks_ok exFrozen_digest)
qed

section \<open>The kernel accepts and journals it\<close>

definition exEvidence :: json where
  "exEvidence = exBundle exBlueprintDigest exFrozenDigest"

definition exOperation :: op_identity where
  "exOperation = \<lparr> oi_run_id = ''run-1'', oi_generation = 0, oi_phase = Evaluate_Phase, oi_input_digest = zeroDigest,
     oi_operation_key = operationKey ''run-1'' 0 Evaluate_Phase zeroDigest \<rparr>"

definition exEvaluator :: ports where
  "exEvaluator = (exPorts exDecision)\<lparr> pt_evaluate := (\<lambda>n v. Inr exEvidence) \<rparr>"

lemma exFrozenDigest_ok [simp]: "isDigest exFrozenDigest"
  unfolding exFrozenDigest_def by (rule sha_digest)

lemma exEvidence_ok: "validateEvidenceBundle isoCanonical exEvidence = Inr exEvidence"
  "foundryContentDigest exEvidence = Inr (''sha256:'' @ sha256Hex (jtext (norm exEvidence)))" "jsValue exEvidence"
  unfolding exEvidence_def using exBundle_ok [OF exDigests(2) exFrozenDigest_ok]
    pure_digest [OF exBundle_pure [OF exDigests(2) exFrozenDigest_ok] exBundle_value(1)] exBundle_value(2) by blast+

lemma exEvaluator_values: "portValues exEvaluator"
  using exPorts_values [of exDecision] by (simp add: portValues_def exEvaluator_def exEvidence_ok)

lemma exOperation_wf: "wfIdentity exOperation" "validateFoundryEvaluationOperationIdentity (identityJson exOperation) = Inr exOperation"
proof -
  show w: "wfIdentity exOperation" by (simp add: wfIdentity_def exOperation_def)
  show "validateFoundryEvaluationOperationIdentity (identityJson exOperation) = Inr exOperation"
    using validateIdentity_identityJson [OF w] by (simp add: op_identity.defs)
qed

lemma exFacts_accepted: "assertEvaluationEvidenceFacts ck exRequest exSpec exEvidence False = Inr exFacts"
proof -
  have r: "resultsOfEvidence exEvidence False = exResults"
    by (simp add: resultsOfEvidence_def exResults_def exEvidence_def exBundle_fld exBundleRest_def exObservations_def)
  have f: "fld ''gate_score'' exEvidence = jInt 1" "fld ''qualified'' exEvidence = JBool True" "fld ''safety_observations'' exEvidence = JArr []"
    "fld ''failure_classification'' exEvidence = JArr []"
    by (simp_all add: exEvidence_def exBundle_fld exBundleRest_def)
  have s: "assertSafetyFailureClassifications ck [] [] = Inr ()"
    by (simp add: assertSafetyFailureClassifications_def sortedFailureClassifications_def safetyFailureClassifications_def runChecks_ok canonicalJsonText_plain)
  show ?thesis using exRecompute s
    by (simp add: assertEvaluationEvidenceFacts_def r f arrOf_def runChecks_ok) (simp add: exFacts_def jInt_def jint_def jsSame_def jeq_def)
qed

lemma exEvidence_accepted: "evidenceOk exEvaluator (exIns exRegistry exPlan) exBlueprintDoc exEvidence (exCandidate exBlueprintDigest) None = Inr exFacts"
proof -
  note i = exWaiting and x = exRun_ok [OF exPlan_good(1)] and v = exRun_version
  have g: "sn_generation (exRun exPlan) = jint 0" "sn_frozen_test_plan_digest (exRun exPlan) = None"
  proof -
    show "sn_generation (exRun exPlan) = jint 0"
      unfolding x(9) by (simp add: planValue_def exPlan_def acceptancePayload_def objKeys_def entriesOf_def orElse_def jsNumber_def jInt_def)
    show "sn_frozen_test_plan_digest (exRun exPlan) = None"
      unfolding x(14) by (simp add: planValue_def exPlan_def acceptancePayload_def objKeys_def entriesOf_def optStr_def)
  qed
  have t: "trim ''reviewer'' = ''reviewer''" "trim ''designer'' = ''designer''" "trim ''evaluator'' = ''evaluator''"
    "trim ''execution:evaluate'' = ''execution:evaluate''" "trim ''execution:review'' = ''execution:review''" by code_simp+
  have e: "fld ''blueprint_digest'' exEvidence = JStr exBlueprintDigest" "fld ''candidate_digest'' exEvidence = JStr zeroDigest"
    "fld ''baseline_version_digest'' exEvidence = JNull" "fld ''frozen_test_plan_digest'' exEvidence = JStr exFrozenDigest"
    "fld ''foundry_run_id'' (fld ''provenance'' exEvidence) = JStr ''run-1''" "fld ''generation'' (fld ''provenance'' exEvidence) = jInt 0"
    "fld ''producer_id'' (fld ''provenance'' exEvidence) = JStr ''evaluator''" "fld ''evaluator_ref'' (fld ''independent_review'' exEvidence) = JStr ''reviewer''"
    "fld ''evaluation_execution_ref'' (fld ''independent_review'' exEvidence) = JStr ''execution:evaluate''"
    "fld ''review_execution_ref'' (fld ''independent_review'' exEvidence) = JStr ''execution:review''"
    "fld ''target_agent_id'' exEvidence = JStr ''agent''" "fld ''target_domain_id'' exEvidence = JStr ''domain''" "fld ''target_version_ref'' exEvidence = JNull"
    by (simp_all add: exEvidence_def exBundle_fld exBundleRest_def exProvenance_def)
  have p: "pt_producer_id exEvaluator = ''designer''" "pt_evaluator_id exEvaluator = ''evaluator''" by (simp_all add: exEvaluator_def exPorts_def)
  have s: "fld ''eval_spec'' exBlueprintDoc = exSpec" by (simp add: exBlueprintDoc_def exSpec_fld(9))
  have j: "jsSame (jInt 0) (JNum (jint 0))" by (simp add: jInt_def jint_def jsSame_def jeq_def)
  have b: "evidenceBindingOk (exRun exPlan) exEvidence (exCandidate exBlueprintDigest) None exFrozenDigest ''designer'' ''evaluator''"
    unfolding evidenceBindingOk_def Let_def e using t v g x(2) j by (simp add: exCandidate_def)
  have c: "list_all fst (assertSameTarget exRequest exEvidence l)" for l
    using exRequest_fields by (simp add: assertSameTarget_def e)
  show ?thesis
    unfolding evidenceOk_def assertEvaluationEvidence_def i(2, 3) s exFrozen_digest p using b c g(2) exFacts_accepted
    by (simp add: runChecks_ok)
qed

lemma exResult_made: "\<exists>r. materializeFoundryOperationResult (identityJson exOperation) (JStr d) (JStr (''foundry-object:'' @ d)) (JStr exTime) = Inr r"
  if d: "isDigest d"
proof -
  have k: "list_all pureKey [''surface_kind'', ''version'', ''run_id'', ''generation'', ''phase'', ''input_digest'', ''operation_key'', ''evidence_digest'',
      ''evidence_ref'', ''completed_at'']" by code_simp
  have t: "pureText ''opl_foundry_operation_result''" "pureText ''opl-foundry-operation-result.v1''" "pureText ''run-1''" "pureText ''evaluate''"
    "pureText exTime" by code_simp+
  have o: "pureText (operationKey ''run-1'' 0 Evaluate_Phase zeroDigest)"
    by (simp add: operationKey_def keyChars_def)
  have p: "pureValue (resultBaseJson exOperation d (''foundry-object:'' @ d) exTime)"
    using k t o pureText_digest [OF d] pureText_digest [OF zeroDigest_ok]
    by (simp add: resultBaseJson_def identityJson_def exOperation_def jInt_def keyChars_def)
  have l: "plain (resultBaseJson exOperation d (''foundry-object:'' @ d) exTime)"
    by (simp add: resultBaseJson_def identityJson_def exOperation_def)
  have c: "list_all fst (opRequiredDigest (JStr d) l1)" "list_all fst (opRequiredString (JStr (''foundry-object:'' @ d)) l2)"
    "list_all fst (opRequiredString (JStr exTime) l3)" for l1 l2 l3
    using d digest_last [OF d] by (simp_all add: opRequiredDigest_def opRequiredString_def trim_Cons isWs_def)
  show ?thesis
    unfolding materializeFoundryOperationResult_def exOperation_wf(2) strOf_JStr using c
    by (simp add: runChecks_ok pure_digest [OF p l] del: append.simps)
qed

lemma exEvidence_stored: "\<exists>r w'. evidenceK exEvaluator (exIns exRegistry exPlan) False noOptions exOperation exBlueprintDoc
    (exCandidate exBlueprintDigest) None None newWorld = (Inr (r, exEvidence), w')"
proof -
  let ?d = "''sha256:'' @ sha256Hex (jtext (norm exEvidence))"
  obtain r where r: "materializeFoundryOperationResult (identityJson exOperation) (JStr ?d) (JStr (''foundry-object:'' @ ?d)) (JStr exTime) = Inr r"
    using exResult_made [OF sha_digest] by blast
  have a: "activityK exEvaluator ''evaluate'' (portK (\<lambda>n. pt_evaluate exEvaluator n x)) newWorld =
      (Inr exEvidence, newWorld\<lparr> wd_tick := Suc (wd_tick newWorld) \<rparr>)" for x
    by (rule activity_first) (simp_all add: portK_def exEvaluator_def)
  have rd: "readResultK (identityJson exOperation) newWorld = (Inr None, newWorld)"
    by (simp add: readResultK_def readResult_def exOperation_wf(2) newWorld_def)
  have pu: "putK exEvidence w = (Inr (?d, ''foundry-object:'' @ ?d), w\<lparr> wd_objects := AList.update ?d exEvidence [] \<rparr>)" if "wd_objects w = []" for w
    using that by (simp add: putK_def putObject_def exEvidence_ok(2) del: append.simps)
  have t: "fld ''evaluated_at'' (fld ''provenance'' exEvidence) = JStr exTime"
    by (simp add: exEvidence_def exBundle_fld exProvenance_def)
  have cm: "\<exists>w'. commitResultK (identityJson exOperation) (JStr ?d) (JStr (''foundry-object:'' @ ?d)) (JStr exTime) w = (Inr r, w')" if "wd_journal w = []" for w
    using that r by (simp add: commitResultK_def commitResult_def del: append.simps)
  let ?w = "newWorld\<lparr> wd_tick := Suc (wd_tick newWorld) \<rparr>"
  obtain w' where w': "commitResultK (identityJson exOperation) (JStr ?d) (JStr (''foundry-object:'' @ ?d)) (JStr exTime)
      (?w\<lparr> wd_objects := AList.update ?d exEvidence [] \<rparr>) = (Inr r, w')"
    using cm [of "?w\<lparr> wd_objects := AList.update ?d exEvidence [] \<rparr>"] by (auto simp: newWorld_def)
  have o: "wd_objects ?w = []" by (simp add: newWorld_def)
  have ck: "checkK True m = retK ()" for m by (simp add: checkK_def liftK_def retK_def fun_eq_iff runChecks_ok)
  have opts: "op_replay_only noOptions = False" by (simp add: noOptions_def)
  have dt: "pt_date_ok exEvaluator = isoCanonical" by (simp add: exEvaluator_def)
  have "evidenceK exEvaluator (exIns exRegistry exPlan) False noOptions exOperation exBlueprintDoc
    (exCandidate exBlueprintDigest) None None newWorld = (Inr (r, exEvidence), w')"
    by (simp only: evidenceK_def bindK_def rd prod.case sum.case option.case opts if_False a liftK_def dt exEvidence_ok(1, 2) exEvidence_accepted
        pu [OF o] ck simp_thms retK_def t w')
  then show ?thesis by blast
qed

lemma exSpec_weights: "goodWeights exSpec"
  using rnd_of_int [of 1] by (simp add: goodWeights_def isDouble_def exSpec_lists exCase_def jInt_def jint_def)

end
