(* ===== verification/Example_Risk.thy ===== *)
theory Example_Risk
  imports Example_Evaluation
begin

text \<open>
  Two blueprints for the witnesses of \<open>Risk_Policy\<close>: the example blueprint compared with
  itself is low risk and weakens nothing, compared with one that asks for another
  capability it is high risk, and the reason is named.
\<close>

section \<open>The compared parts are texts\<close>

lemma changed_same: "plain v \<Longrightarrow> changed v v = Inr False"
  by (simp add: changed_plain)

lemmas exDocument = exBlueprintDoc_def exBlueprint_def exBlueprintRest_def

lemmas projections = stageStructure_def actionIo_def actionRouting_def pickEach_def pick_def stageBindings_def arrOf_def

lemma exDoc_parts:
  "plain (stageStructure exBlueprintDoc)" "plain (actionIo exBlueprintDoc)" "plain (actionRouting exBlueprintDoc)"
  by (simp_all add: projections exDocument jStrs_def)

lemma exDoc_bindings: "plain (stageBindings kind exBlueprintDoc)"
  by (cases kind) (simp_all add: projections exDocument jStrs_def)

lemma exDoc_fields:
  "plain (fld ''artifact_contracts'' exBlueprintDoc)" "plain (fld ''authority_policy'' exBlueprintDoc)" "plain (fld ''memory_policy'' exBlueprintDoc)"
  "plain (fld ''capability_requirements'' exBlueprintDoc)" "plain (fld ''gates'' (fld ''eval_spec'' exBlueprintDoc))"
  "k \<in> set contentRefKeys \<Longrightarrow> plain (fld k (fld ''content_refs'' exBlueprintDoc))"
  by (auto simp: exDocument jStrs_def contentRefKeys_def jInt_def jint_def)

lemma exDoc_projection: "plain (unclassifiedRiskProjection exBlueprintDoc)"
  by (simp add: unclassifiedRiskProjection_def exDocument setFlds_def setFld_def projectStage_def projectAction_def emptyRefs_def contentRefKeys_def
      arrOf_def jStrs_def jInt_def jint_def Let_def)

lemma exDoc_evaluation:
  "publicCases exBlueprintDoc = [JObj [(''case_id'', JStr ''c1''), (''test_ref'', JStr ''test:c1''), (''weight'', jInt 1), (''required'', JBool True)]]"
  "protectedReqs exBlueprintDoc = [JObj [(''category'', JStr ''privacy''), (''minimum_case_count'', jInt 2)]]"
  "gatesOf exBlueprintDoc = [JObj [(''gate_id'', JStr ''g1''), (''metric'', JStr ''score''), (''operator'', JStr ''gte''),
     (''threshold'', jInt 1), (''required'', JBool True)]]"
  "baselineOf exBlueprintDoc = JObj [(''required'', JBool False), (''regression_tolerance'', jInt 0)]"
  by (simp_all add: publicCases_def protectedReqs_def gatesOf_def baselineOf_def exBlueprintDoc_def exSpec_fld arrOf_def)

section \<open>A blueprint that asks for more\<close>

definition exWide :: json where
  "exWide = setFld ''capability_requirements'' (jStrs [''network'']) exBlueprintDoc"

lemma exWide_parts:
  "stageStructure exWide = stageStructure exBlueprintDoc" "actionIo exWide = actionIo exBlueprintDoc" "actionRouting exWide = actionRouting exBlueprintDoc"
  "stageBindings kind exWide = stageBindings kind exBlueprintDoc" "publicCases exWide = publicCases exBlueprintDoc"
  "protectedReqs exWide = protectedReqs exBlueprintDoc" "baselineOf exWide = baselineOf exBlueprintDoc"
  by (simp_all add: exWide_def stageStructure_def actionIo_def actionRouting_def stageBindings_def publicCases_def protectedReqs_def baselineOf_def)

text \<open>A property that is assigned anyway may be assigned before.\<close>

lemma update_swap_present:
  "k \<noteq> k' \<Longrightarrow> k \<in> fst ` set al \<Longrightarrow> k' \<in> fst ` set al \<Longrightarrow>
     AList.update k x (AList.update k' y al) = AList.update k' y (AList.update k x al)"
  by (induction al) (auto simp: image_iff)

lemma objKeys_setFld: "k \<in> set (objKeys v) \<Longrightarrow> set (objKeys (setFld k x v)) = set (objKeys v)"
  using dom_update [of k x "entriesOf v"] by (auto simp: setFld_def objKeys_def dom_map_of_conv_image_fst)

lemma setFlds_assigned:
  "k \<in> fst ` set kvs \<Longrightarrow> k \<in> set (objKeys v) \<Longrightarrow> fst ` set kvs \<subseteq> set (objKeys v) \<Longrightarrow> setFlds kvs (setFld k x v) = setFlds kvs v"
proof (induction kvs arbitrary: v)
  case (Cons kv kvs)
  obtain l y where kv: "kv = (l, y)" by (cases kv)
  show ?case
  proof (cases "l = k")
    case True
    then show ?thesis by (simp add: kv setFlds_def setFld_def update_last)
  next
    case False
    have "setFld l y (setFld k x v) = setFld k x (setFld l y v)"
      using Cons.prems False update_swap_present [of l k "entriesOf v" y x] by (simp add: kv setFld_def objKeys_def)
    moreover have "set (objKeys (setFld l y v)) = set (objKeys v)" using Cons.prems by (intro objKeys_setFld) (simp add: kv)
    ultimately show ?thesis using Cons.IH [of "setFld l y v"] Cons.prems False by (auto simp: kv setFlds_def)
  qed
qed simp

lemma exWide_projection: "unclassifiedRiskProjection exWide = unclassifiedRiskProjection exBlueprintDoc"
proof -
  have k: "objKeys exBlueprintDoc = ''design_request_digest'' # map fst exBlueprintRest" by (simp add: exBlueprintDoc_def exBlueprint_def)
  show ?thesis
    unfolding unclassifiedRiskProjection_def Let_def exWide_def
    by (simp add: setFlds_assigned k exBlueprintRest_def)
qed

lemma evaluation_rules_same:
  assumes "n = exBlueprintDoc \<or> n = exWide"
  shows "evalRules (evaluationRules exBlueprintDoc n) c r = Inr (c, r)"
proof -
  have c: "plain (hd (publicCases exBlueprintDoc))" by (simp add: exDoc_evaluation jInt_def jint_def)
  have n: "\<not> jlt (jint 2) (jint 2)" "\<not> jlt (jint 0) (jint 0)" by (simp_all add: jint_def)
  have g: "fld ''gates'' (fld ''eval_spec'' n) = fld ''gates'' (fld ''eval_spec'' exBlueprintDoc)"
    "publicCases n = publicCases exBlueprintDoc" "protectedReqs n = protectedReqs exBlueprintDoc" "baselineOf n = baselineOf exBlueprintDoc"
    "unclassifiedRiskProjection n = unclassifiedRiskProjection exBlueprintDoc"
    using assms exWide_parts exWide_projection by (auto simp: exWide_def)
  show ?thesis
    unfolding evaluationRules_def g changed_same [OF exDoc_projection] changed_same [OF exDoc_fields(5)] baselineDisabled_def toleranceWeakened_def
    using changed_same [OF c] n by (simp add: exDoc_evaluation findBy_def boolOf_def)
qed

lemma evalRules_append: "evalRules (rs @ ts) c r = bindE (evalRules rs c r) (\<lambda>(c, r). evalRules ts c r)"
proof (induction rs arbitrary: c r)
  case (Cons x rs)
  obtain cond t reason where x: "x = (cond, t, reason)" by (cases x)
  show ?case by (cases cond) (auto simp: x Cons.IH split: option.splits)
qed simp

lemma exSame_risk: "recomputeBlueprintRisk (Some exBlueprintDoc) exBlueprintDoc = Inr (JStr ''low'', [])"
proof -
  note f = exDoc_parts [THEN changed_same] exDoc_bindings [THEN changed_same] exDoc_fields(1-4) [THEN changed_same] exDoc_fields(6) [THEN changed_same]
  have "evalRules (riskRules exBlueprintDoc exBlueprintDoc) (JStr ''low'') [] = Inr (JStr ''low'', [])"
    unfolding riskRules_def Let_def evalRules_append using f evaluation_rules_same [of exBlueprintDoc] by (simp add: contentRefKeys_def)
  moreover have "fld ''risk_hint'' exBlueprintDoc = JStr ''low''" by (simp add: exDocument)
  ultimately show ?thesis
    by (simp add: recomputeBlueprintRisk_def RISK_ORDER_def maximumRiskTier_def uniqueFirst_def jint_def)
qed

lemma exWide_changed: "changed (fld ''capability_requirements'' exBlueprintDoc) (fld ''capability_requirements'' exWide) = Inr True"
  by (subst changed_plain) (simp_all add: exWide_def exDocument jStrs_def)

lemma exWide_risk: "recomputeBlueprintRisk (Some exBlueprintDoc) exWide = Inr (JStr ''high'', [''capability_or_permission_changed''])"
proof -
  note f = exDoc_parts [THEN changed_same] exDoc_bindings [THEN changed_same] exDoc_fields(1-4) [THEN changed_same] exDoc_fields(6) [THEN changed_same]
  have g: "fld k exWide = fld k exBlueprintDoc" if "k \<noteq> ''capability_requirements''" for k using that by (simp add: exWide_def)
  have m: "maximumRiskTier [JStr ''low'', JStr ''high''] = JStr ''high''" by (simp add: RISK_ORDER_def maximumRiskTier_def jint_def)
  have "evalRules (riskRules exBlueprintDoc exWide) (JStr ''low'') [] = Inr (JStr ''high'', [''capability_or_permission_changed''])"
    unfolding riskRules_def Let_def evalRules_append using f evaluation_rules_same [of exWide] exWide_changed
    by (simp add: contentRefKeys_def g exWide_parts m)
  moreover have "fld ''risk_hint'' exWide = JStr ''low''" by (simp add: g) (simp add: exDocument)
  ultimately show ?thesis
    by (simp add: recomputeBlueprintRisk_def RISK_ORDER_def maximumRiskTier_def uniqueFirst_def jint_def)
qed

lemma exSame_policy: "assertEvaluationPolicyNonWeakening exBlueprintDoc exBlueprintDoc = Inr ()"
proof -
  have c: "plain (hd (publicCases exBlueprintDoc))" by (simp add: exDoc_evaluation jInt_def jint_def)
  have n: "\<not> jlt (jint 2) (jint 2)" "\<not> jlt (jint 1) (jint 1)" "\<not> jlt (jint 0) (jint 0)" by (simp_all add: jint_def)
  have "policyViolations exBlueprintDoc exBlueprintDoc = Inr []"
    using changed_same [OF c] n
    by (simp add: policyViolations_def exDoc_evaluation caseViolations_def requirementViolations_def gateViolations_def thresholdWeakened_def
        findBy_def baselineDisabled_def toleranceWeakened_def boolOf_def jsSame_def Let_def)
  then show ?thesis by (simp add: assertEvaluationPolicyNonWeakening_def runChecks_ok)
qed

section \<open>What the policy does not see\<close>

text \<open>
  A hint written as a list with one tier passes the validator's test on its text and ranks
  as that tier, but it is not the string the owner gate policy compares with.
\<close>

theorem listed_hint_skips_canary:
  "oneOf [''low'', ''medium'', ''high''] (JArr [JStr ''high'']) \<and> maximumRiskTier [JStr ''low'', JArr [JStr ''high'']] = JArr [JStr ''high'']
   \<and> canary_owner_required (ownerGatePolicy (JStr ''high'')) \<and> \<not> canary_owner_required (ownerGatePolicy (JArr [JStr ''high'']))"
  by (simp add: oneOf_def maximumRiskTier_def RISK_ORDER_def ownerGatePolicy_def jint_def joinWith.simps)

text \<open>A proposal's hint is validated trimmed and used as written: with a blank around it, it ranks as no tier.\<close>

theorem padded_hint_ignored:
  "trim '' high'' = ''high'' \<and> maximumRiskTier [JStr '' high''] = JStr ''low''"
proof
  show "trim '' high'' = ''high''" by code_simp
  show "maximumRiskTier [JStr '' high''] = JStr ''low''" by (simp add: maximumRiskTier_def RISK_ORDER_def jint_def)
qed

text \<open>
  The schemas a blueprint declares are compared by no rule, and the projection for
  unclassified changes blanks them: two blueprints that differ there alone are low risk.
\<close>

definition exSchemas :: json where
  "exSchemas = setFld ''content_refs'' (setFld ''schema_refs'' (jStrs [''opl-content://sha256/'' @ replicate 64 CHR ''0'', ''opl-content://sha256/'' @ replicate 64 CHR ''1'']) (fld ''content_refs'' exBlueprintDoc)) exBlueprintDoc"

theorem schema_refs_unclassified:
  "recomputeBlueprintRisk (Some exBlueprintDoc) exSchemas = Inr (JStr ''low'', [])
   \<and> canonicalJsonText (fld ''schema_refs'' (fld ''content_refs'' exBlueprintDoc)) \<noteq> canonicalJsonText (fld ''schema_refs'' (fld ''content_refs'' exSchemas))"
proof
  have k: "objKeys exBlueprintDoc = ''design_request_digest'' # map fst exBlueprintRest" by (simp add: exBlueprintDoc_def exBlueprint_def)
  have pr: "unclassifiedRiskProjection exSchemas = unclassifiedRiskProjection exBlueprintDoc"
    unfolding unclassifiedRiskProjection_def Let_def exSchemas_def by (simp add: setFlds_assigned k exBlueprintRest_def)
  have g: "fld k exSchemas = fld k exBlueprintDoc" if "k \<noteq> ''content_refs''" for k using that by (simp add: exSchemas_def)
  have c: "fld k (fld ''content_refs'' exSchemas) = fld k (fld ''content_refs'' exBlueprintDoc)" if "k \<noteq> ''schema_refs''" for k
    using that by (simp add: exSchemas_def)
  have parts: "stageStructure exSchemas = stageStructure exBlueprintDoc" "actionIo exSchemas = actionIo exBlueprintDoc"
    "actionRouting exSchemas = actionRouting exBlueprintDoc" "stageBindings b exSchemas = stageBindings b exBlueprintDoc" for b
    by (simp_all add: g stageStructure_def actionIo_def actionRouting_def stageBindings_def)
  have "riskRules exBlueprintDoc exSchemas = riskRules exBlueprintDoc exBlueprintDoc"
    unfolding riskRules_def evaluationRules_def Let_def publicCases_def protectedReqs_def baselineDisabled_def toleranceWeakened_def baselineOf_def
    by (simp add: g c parts pr)
  moreover have "fld ''risk_hint'' exSchemas = fld ''risk_hint'' exBlueprintDoc" by (rule g) simp
  ultimately show "recomputeBlueprintRisk (Some exBlueprintDoc) exSchemas = Inr (JStr ''low'', [])"
    using exSame_risk by (simp add: recomputeBlueprintRisk_def)
  have "fld ''schema_refs'' (fld ''content_refs'' exBlueprintDoc) = jStrs [''opl-content://sha256/'' @ replicate 64 CHR ''0'']" by (simp add: exDocument)
  then show "canonicalJsonText (fld ''schema_refs'' (fld ''content_refs'' exBlueprintDoc)) \<noteq> canonicalJsonText (fld ''schema_refs'' (fld ''content_refs'' exSchemas))"
    by (subst canonicalJsonText_inj) (simp_all add: exSchemas_def jStrs_def del: append.simps)
qed

end
