(* ===== verification/Quality_Budget.thy ===== *)
theory Quality_Budget
  imports Owner_Gate Risk_Policy
begin

text \<open>
  \<open>src/src/authority/stages/stage-quality-scope-budget.ts\<close>: the budget of a Stage quality
  cycle (attempts, elapsed time, tokens), its normal form, the usage counters and the
  evaluation that says whether the cycle may go on.
\<close>

section \<open>The budget\<close>

datatype budget_stop = Max_Attempts_Exhausted | Max_Elapsed_Exhausted | Max_Tokens_Exhausted

fun stopName :: "budget_stop \<Rightarrow> string" where
  "stopName Max_Attempts_Exhausted = ''max_attempts_exhausted''"
| "stopName Max_Elapsed_Exhausted = ''max_elapsed_exhausted''"
| "stopName Max_Tokens_Exhausted = ''max_tokens_exhausted''"

text \<open>The fields that vary; the identity and the two flags of the record are constants.\<close>

record scope_budget =
  sb_max_attempts :: int
  sb_max_elapsed_ms :: "int option"
  sb_max_tokens :: "int option"

definition MAX_SAFE_INTEGER :: int where
  "MAX_SAFE_INTEGER = 9007199254740991"

definition boundedInteger :: "json \<Rightarrow> string \<Rightarrow> int \<Rightarrow> int \<Rightarrow> int res" where
  "boundedInteger v f minimum maximum = bindE (runChecks
     [(isInteger (numOf v) \<and> \<not> jlt (numOf v) (jint minimum) \<and> \<not> jlt (jint maximum) (numOf v),
       f @ '' must be an integer between '' @ showInt minimum @ '' and '' @ showInt maximum @ ''.'')])
     (\<lambda>u. Inr (intOf v))"

text \<open>A limit that is absent or \<open>null\<close> is no limit.\<close>

definition optionalLimit :: "json \<Rightarrow> string \<Rightarrow> int \<Rightarrow> int option res" where
  "optionalLimit v f maximum = (if v = JUndef \<or> v = JNull then Inr None else mapE Some (boundedInteger v f 1 maximum))"

definition budgetShapeChecks :: "json \<Rightarrow> check list" where
  "budgetShapeChecks v =
     [(v = JUndef \<or> v = JNull \<or> isRecord v, ''scope_budget must be an object when declared.''),
      (fld ''surface_kind'' v = JUndef \<or> fld ''surface_kind'' v = JStr ''opl_stage_quality_scope_budget'',
       ''scope_budget.surface_kind is unsupported.''),
      (fld ''version'' v = JUndef \<or> fld ''version'' v = JStr ''opl-stage-quality-scope-budget.v1'',
       ''scope_budget.version is unsupported.'')]"

definition budgetFlagChecks :: "json \<Rightarrow> check list" where
  "budgetFlagChecks v =
     [(fld ''token_budget_requires_observed_usage'' v \<in> {JUndef, JBool True},
       ''Token budget enforcement requires observed usage and cannot infer missing telemetry.''),
      (fld ''foreground_execution_must_use_managed_attempt'' v \<in> {JUndef, JBool True},
       ''Foreground quality execution cannot bypass the managed StageAttempt budget.'')]"

text \<open>\<open>legacy\<close> is \<open>options.legacyMaxRepairRounds\<close>; without it the default of 3 attempts holds.\<close>

definition normalizeStageQualityScopeBudget :: "json \<Rightarrow> jsnum option \<Rightarrow> scope_budget res" where
  "normalizeStageQualityScopeBudget v legacy =
     bindE (runChecks (budgetShapeChecks v)) (\<lambda>u.
     bindE (boundedInteger (orElse (fld ''max_attempts'' v) (JNum (case legacy of Some n \<Rightarrow> n | None \<Rightarrow> jint 3)))
       ''scope_budget.max_attempts'' 0 3) (\<lambda>attempts.
     bindE (runChecks [(case legacy of Some n \<Rightarrow> jeq (jint attempts) n | None \<Rightarrow> True,
       ''scope_budget.max_attempts must equal formal_review.max_repair_rounds during v1 migration.'')]) (\<lambda>u.
     bindE (optionalLimit (fld ''max_elapsed_ms'' v) ''scope_budget.max_elapsed_ms'' (7 * 24 * 60 * 60 * 1000)) (\<lambda>elapsed.
     bindE (optionalLimit (fld ''max_tokens'' v) ''scope_budget.max_tokens'' MAX_SAFE_INTEGER) (\<lambda>tokens.
     bindE (runChecks (budgetFlagChecks v)) (\<lambda>u.
     Inr \<lparr> sb_max_attempts = attempts, sb_max_elapsed_ms = elapsed, sb_max_tokens = tokens \<rparr>))))))"

definition optInt :: "int option \<Rightarrow> json" where
  "optInt n = (case n of Some i \<Rightarrow> jInt i | None \<Rightarrow> JNull)"

definition budgetJson :: "scope_budget \<Rightarrow> json" where
  "budgetJson b = JObj [(''surface_kind'', JStr ''opl_stage_quality_scope_budget''), (''version'', JStr ''opl-stage-quality-scope-budget.v1''),
     (''max_attempts'', jInt (sb_max_attempts b)), (''max_elapsed_ms'', optInt (sb_max_elapsed_ms b)),
     (''max_tokens'', optInt (sb_max_tokens b)), (''token_budget_requires_observed_usage'', JBool True),
     (''foreground_execution_must_use_managed_attempt'', JBool True)]"

section \<open>Usage\<close>

text \<open>
  Token observations, where \<open>None\<close> is a missing one: one missing observation makes the sum
  unknown, it is not counted as zero.
\<close>

definition aggregateStageQualityScopeTokenUsage :: "jsnum option list \<Rightarrow> jsnum option res" where
  "aggregateStageQualityScopeTokenUsage os = bindE (runChecks (map (\<lambda>x.
       (case x of Some n \<Rightarrow> isSafeInteger n \<and> \<not> jlt n (jint 0) | None \<Rightarrow> True,
        ''Stage quality token observations must be non-negative safe integers when present.'')) os)) (\<lambda>u.
     Inr (if os = [] \<or> None \<in> set os then None else Some (foldl jadd (jint 0) (map the os))))"

record budget_usage =
  us_attempts :: int
  us_elapsed :: int
  us_tokens :: "int option"

record budget_evaluation =
  be_disposition :: string
  be_reasons :: "budget_stop list"
  be_attempts_remaining :: int
  be_elapsed_remaining :: "int option"
  be_tokens_remaining :: "int option"
  be_usage :: budget_usage
  be_budget :: scope_budget

definition exhaustedReasons :: "scope_budget \<Rightarrow> budget_usage \<Rightarrow> budget_stop list" where
  "exhaustedReasons b u =
     (if sb_max_attempts b \<le> us_attempts u then [Max_Attempts_Exhausted] else []) @
     (case sb_max_elapsed_ms b of Some m \<Rightarrow> if m \<le> us_elapsed u then [Max_Elapsed_Exhausted] else [] | None \<Rightarrow> []) @
     (case (sb_max_tokens b, us_tokens u) of (Some m, Some n) \<Rightarrow> if m \<le> n then [Max_Tokens_Exhausted] else [] | _ \<Rightarrow> [])"

definition evaluateStageQualityScopeBudget :: "json \<Rightarrow> json \<Rightarrow> bool \<Rightarrow> budget_evaluation res" where
  "evaluateStageQualityScopeBudget budget usage consumable =
     bindE (normalizeStageQualityScopeBudget budget None) (\<lambda>b.
     bindE (boundedInteger (fld ''attempts_used'' usage) ''usage.attempts_used'' 0 1000000) (\<lambda>attempts.
     bindE (boundedInteger (fld ''elapsed_ms'' usage) ''usage.elapsed_ms'' 0 MAX_SAFE_INTEGER) (\<lambda>elapsed.
     bindE (if fld ''tokens_used'' usage = JNull then Inr None
       else mapE Some (boundedInteger (fld ''tokens_used'' usage) ''usage.tokens_used'' 0 MAX_SAFE_INTEGER)) (\<lambda>tokens.
     let u = \<lparr> us_attempts = attempts, us_elapsed = elapsed, us_tokens = tokens \<rparr>; rs = exhaustedReasons b u in
     Inr \<lparr> be_disposition = (if rs = [] then ''continue'' else if \<not> consumable then ''hard_stop_no_consumable_artifact''
             else ''complete_with_quality_debt''),
       be_reasons = rs, be_attempts_remaining = max 0 (sb_max_attempts b - attempts),
       be_elapsed_remaining = map_option (\<lambda>m. max 0 (m - elapsed)) (sb_max_elapsed_ms b),
       be_tokens_remaining = (case (sb_max_tokens b, tokens) of (Some m, Some n) \<Rightarrow> Some (max 0 (m - n)) | _ \<Rightarrow> None),
       be_usage = u, be_budget = b \<rparr>))))"

section \<open>What a budget is\<close>

definition wfBudget :: "scope_budget \<Rightarrow> bool" where
  "wfBudget b \<longleftrightarrow> 0 \<le> sb_max_attempts b \<and> sb_max_attempts b \<le> 3
     \<and> (case sb_max_elapsed_ms b of Some m \<Rightarrow> 1 \<le> m \<and> m \<le> 604800000 | None \<Rightarrow> True)
     \<and> (case sb_max_tokens b of Some m \<Rightarrow> 1 \<le> m \<and> m \<le> MAX_SAFE_INTEGER | None \<Rightarrow> True)"

lemma boundedInteger_Inr:
  assumes "boundedInteger v f a b = Inr i"
  shows "a \<le> i \<and> i \<le> b \<and> numOf v = jint i"
proof -
  from assms have c: "isInteger (numOf v)" "\<not> jlt (numOf v) (jint a)" "\<not> jlt (jint b) (numOf v)" and i: "i = intOf v"
    by (auto simp: boundedInteger_def runChecks_ok split: if_splits)
  from c(1) obtain q where q: "numOf v = Fin q" "of_int \<lfloor>q\<rfloor> = q" by (auto simp: isInteger_def split: jsnum.splits)
  then have "i = \<lfloor>q\<rfloor>" by (cases v) (simp_all add: i intOf_def numOf_def)
  moreover from q obtain n where "q = of_int n" by metis
  ultimately show ?thesis using q c(2, 3) by (simp add: jint_def)
qed

lemma boundedInteger_jInt: "a \<le> i \<Longrightarrow> i \<le> b \<Longrightarrow> boundedInteger (jInt i) f a b = Inr i"
  by (simp add: boundedInteger_def runChecks_ok isInteger_def jint_def intOf_jInt)

lemma optionalLimit_Inr: "optionalLimit v f m = Inr (Some i) \<Longrightarrow> 1 \<le> i \<and> i \<le> m"
  by (auto simp: optionalLimit_def split: if_splits dest: boundedInteger_Inr)

lemma optionalLimit_optInt: "case n of Some i \<Rightarrow> 1 \<le> i \<and> i \<le> m | None \<Rightarrow> True \<Longrightarrow> optionalLimit (optInt n) f m = Inr n"
  by (cases n) (simp_all add: optionalLimit_def optInt_def boundedInteger_jInt, simp add: jInt_def)

lemma normalizeBudget_Inr:
  assumes "normalizeStageQualityScopeBudget v legacy = Inr b"
  shows "wfBudget b" "\<And>n. legacy = Some n \<Longrightarrow> jeq (jint (sb_max_attempts b)) n"
proof -
  from assms obtain u1 a u2 e t u3 where s: "boundedInteger (orElse (fld ''max_attempts'' v) (JNum (case legacy of Some n \<Rightarrow> n | None \<Rightarrow> jint 3)))
       ''scope_budget.max_attempts'' 0 3 = Inr a"
    "runChecks [(case legacy of Some n \<Rightarrow> jeq (jint a) n | None \<Rightarrow> True,
       ''scope_budget.max_attempts must equal formal_review.max_repair_rounds during v1 migration.'')] = Inr (u2 :: unit)"
    "optionalLimit (fld ''max_elapsed_ms'' v) ''scope_budget.max_elapsed_ms'' (7 * 24 * 60 * 60 * 1000) = Inr e"
    "optionalLimit (fld ''max_tokens'' v) ''scope_budget.max_tokens'' MAX_SAFE_INTEGER = Inr t"
    "b = \<lparr> sb_max_attempts = a, sb_max_elapsed_ms = e, sb_max_tokens = t \<rparr>"
    unfolding normalizeStageQualityScopeBudget_def bindE_Inr_iff by (auto simp del: runChecks.simps)
  show "wfBudget b" unfolding wfBudget_def s(5)
    using boundedInteger_Inr [OF s(1)] optionalLimit_Inr [of _ _ _ "the e"] optionalLimit_Inr [of _ _ _ "the t"] s(3, 4)
    by (auto split: option.splits)
  show "\<And>n. legacy = Some n \<Longrightarrow> jeq (jint (sb_max_attempts b)) n" using s(2) by (simp add: s(5) runChecks_ok)
qed

text \<open>Writing a budget and normalising it again gives it back, with or without the legacy limit it was made for.\<close>

lemma budget_roundtrip:
  assumes "wfBudget b"
  shows "normalizeStageQualityScopeBudget (budgetJson b) None = Inr b"
    "normalizeStageQualityScopeBudget (budgetJson b) (Some (jint (sb_max_attempts b))) = Inr b"
proof -
  have l: "optionalLimit (optInt (sb_max_elapsed_ms b)) f 604800000 = Inr (sb_max_elapsed_ms b)"
    "optionalLimit (optInt (sb_max_tokens b)) f MAX_SAFE_INTEGER = Inr (sb_max_tokens b)" for f
    using assms by (auto simp: wfBudget_def intro!: optionalLimit_optInt)
  have "boundedInteger (jInt (sb_max_attempts b)) f 0 3 = Inr (sb_max_attempts b)" for f
    using assms by (intro boundedInteger_jInt) (simp_all add: wfBudget_def)
  then show "normalizeStageQualityScopeBudget (budgetJson b) None = Inr b"
    "normalizeStageQualityScopeBudget (budgetJson b) (Some (jint (sb_max_attempts b))) = Inr b"
    using l by (simp_all add: normalizeStageQualityScopeBudget_def budgetJson_def budgetShapeChecks_def budgetFlagChecks_def runChecks_ok orElse_def jeq_def)
      (simp_all add: jInt_def jint_def)
qed

text \<open>What an evaluation says.\<close>

lemma evaluateBudget_Inr:
  assumes "evaluateStageQualityScopeBudget budget usage consumable = Inr e"
  shows "normalizeStageQualityScopeBudget budget None = Inr (be_budget e)" "be_reasons e = exhaustedReasons (be_budget e) (be_usage e)"
    "be_disposition e = (if be_reasons e = [] then ''continue'' else if \<not> consumable then ''hard_stop_no_consumable_artifact''
       else ''complete_with_quality_debt'')"
    "be_attempts_remaining e = max 0 (sb_max_attempts (be_budget e) - us_attempts (be_usage e))"
    "0 \<le> us_attempts (be_usage e)"
  using assms boundedInteger_Inr
  by (auto simp: evaluateStageQualityScopeBudget_def Let_def)

text \<open>The cycle continues exactly while every declared limit has something left.\<close>

lemma budget_continues:
  assumes "evaluateStageQualityScopeBudget budget usage consumable = Inr e"
  shows "be_disposition e = ''continue'' \<longleftrightarrow> 0 < be_attempts_remaining e
    \<and> be_elapsed_remaining e \<noteq> Some 0 \<and> be_tokens_remaining e \<noteq> Some 0"
proof -
  obtain b a l t where n: "normalizeStageQualityScopeBudget budget None = Inr b" and
    e: "e = \<lparr> be_disposition = (if exhaustedReasons b \<lparr> us_attempts = a, us_elapsed = l, us_tokens = t \<rparr> = [] then ''continue'' else if \<not> consumable then ''hard_stop_no_consumable_artifact''
             else ''complete_with_quality_debt''),
       be_reasons = exhaustedReasons b \<lparr> us_attempts = a, us_elapsed = l, us_tokens = t \<rparr>, be_attempts_remaining = max 0 (sb_max_attempts b - a),
       be_elapsed_remaining = map_option (\<lambda>m. max 0 (m - l)) (sb_max_elapsed_ms b),
       be_tokens_remaining = (case (sb_max_tokens b, t) of (Some m, Some n) \<Rightarrow> Some (max 0 (m - n)) | _ \<Rightarrow> None),
       be_usage = \<lparr> us_attempts = a, us_elapsed = l, us_tokens = t \<rparr>, be_budget = b \<rparr>"
    using assms by (auto simp: evaluateStageQualityScopeBudget_def Let_def)
  show ?thesis unfolding e by (auto simp: exhaustedReasons_def max_def split: option.splits if_splits)
qed

text \<open>Tokens that were not observed never stop a cycle.\<close>

lemma unobserved_tokens: "us_tokens u = None \<Longrightarrow> Max_Tokens_Exhausted \<notin> set (exhaustedReasons b u)"
  by (auto simp: exhaustedReasons_def split: option.splits)

end
