(* ===== verification/Quality_Cycle.thy ===== *)
theory Quality_Cycle
  imports Quality_Budget
begin

text \<open>
  \<open>src/src/authority/stages/stage-quality-cycle.ts\<close>: the quality cycle of a Stage (producer,
  reviewer, repairer, re-reviewer), its policy, the review context and receipt, findings
  with their repair map and closure, and the state machine of the cycle.  Documents are
  JSON values, as the code gets them; \<open>Quality_Facts\<close> states what the machine promises.
\<close>

section \<open>Names\<close>

datatype quality_role = Role_Producer | Role_Reviewer | Role_Repairer | Role_Re_Reviewer

fun roleName :: "quality_role \<Rightarrow> string" where
  "roleName Role_Producer = ''producer''"
| "roleName Role_Reviewer = ''reviewer''"
| "roleName Role_Repairer = ''repairer''"
| "roleName Role_Re_Reviewer = ''re_reviewer''"

definition STAGE_QUALITY_ATTEMPT_ROLES :: "quality_role list" where
  "STAGE_QUALITY_ATTEMPT_ROLES = [Role_Producer, Role_Reviewer, Role_Repairer, Role_Re_Reviewer]"

datatype quality_outcome = Outcome_Pass | Outcome_Repair_Required | Outcome_Quality_Debt | Outcome_Blocked | Outcome_Human_Gate

fun outcomeName :: "quality_outcome \<Rightarrow> string" where
  "outcomeName Outcome_Pass = ''pass''"
| "outcomeName Outcome_Repair_Required = ''repair_required''"
| "outcomeName Outcome_Quality_Debt = ''quality_debt''"
| "outcomeName Outcome_Blocked = ''blocked''"
| "outcomeName Outcome_Human_Gate = ''human_gate''"

definition STAGE_QUALITY_OUTCOMES :: "quality_outcome list" where
  "STAGE_QUALITY_OUTCOMES = [Outcome_Pass, Outcome_Repair_Required, Outcome_Quality_Debt, Outcome_Blocked, Outcome_Human_Gate]"

definition STAGE_QUALITY_HARD_STOP_CLASSES :: "string list" where
  "STAGE_QUALITY_HARD_STOP_CLASSES = [''zero_consumable_artifact'', ''safety_or_compliance'', ''permission_or_credential_boundary'',
     ''human_decision_required'', ''authority_boundary_violation'', ''stale_or_mismatched_stage_identity'']"

datatype review_verdict = Verdict_Pass | Verdict_Repair_Required | Verdict_Quality_Debt | Verdict_Hard_Stop

fun stageReviewVerdictForOutcome :: "quality_outcome \<Rightarrow> review_verdict" where
  "stageReviewVerdictForOutcome Outcome_Pass = Verdict_Pass"
| "stageReviewVerdictForOutcome Outcome_Repair_Required = Verdict_Repair_Required"
| "stageReviewVerdictForOutcome Outcome_Quality_Debt = Verdict_Quality_Debt"
| "stageReviewVerdictForOutcome Outcome_Blocked = Verdict_Hard_Stop"
| "stageReviewVerdictForOutcome Outcome_Human_Gate = Verdict_Hard_Stop"

section \<open>Texts and reference lists\<close>

text \<open>Reading a property of \<open>null\<close> or \<open>undefined\<close> throws.\<close>

definition readableObject :: "json \<Rightarrow> unit res" where
  "readableObject v = (if v = JNull \<or> v = JUndef then Inl (RuntimeError ''Cannot read properties'') else Inr ())"

definition nonEmptyStrings :: "json \<Rightarrow> string \<Rightarrow> string list res" where
  "nonEmptyStrings v f = bindE (runChecks [(isArr v \<and> list_all nonBlank (arrOf v), f @ '' must contain non-empty string refs.'')])
     (\<lambda>u. Inr (uniqueFirst (trimmedList v)))"

text \<open>An authored citation: the locator itself or the object that carries it as \<open>ref\<close>.\<close>

definition citedRef :: "json \<Rightarrow> string option" where
  "citedRef e = (if nonBlank e then Some (trimmed e)
     else if isRecord e \<and> nonBlank (fld ''ref'' e) then Some (trimmed (fld ''ref'' e)) else None)"

definition evidenceRefStrings :: "json \<Rightarrow> string \<Rightarrow> bool \<Rightarrow> string list res" where
  "evidenceRefStrings v f allowEmpty = bindE (runChecks
     [(isArr v \<and> (allowEmpty \<or> arrOf v \<noteq> []) \<and> list_all (\<lambda>e. citedRef e \<noteq> None) (arrOf v), f @ '' must contain non-empty string refs.'')])
     (\<lambda>u. Inr (uniqueFirst (map (the \<circ> citedRef) (arrOf v))))"

definition nonEmptyStringSequence :: "json \<Rightarrow> string \<Rightarrow> string list res" where
  "nonEmptyStringSequence v f = bindE (runChecks [(isArr v \<and> list_all nonBlank (arrOf v), f @ '' must contain non-empty strings.'')])
     (\<lambda>u. Inr (trimmedList v))"

text \<open>The first value that occurred before; an empty one is not reported.\<close>

fun firstDuplicate :: "string list \<Rightarrow> string list \<Rightarrow> string option" where
  "firstDuplicate seen [] = None"
| "firstDuplicate seen (s # ss) = (if s \<in> set seen then Some s else firstDuplicate (s # seen) ss)"

definition uniqueIds :: "string list \<Rightarrow> string \<Rightarrow> unit res" where
  "uniqueIds ss f = runChecks [(case firstDuplicate [] ss of None \<Rightarrow> True | Some s \<Rightarrow> s = [], f @ '' contains a duplicate id.'')]"

definition requiredText :: "json \<Rightarrow> string \<Rightarrow> string res" where
  "requiredText v f = bindE (runChecks [(nonBlank v, f @ '' must be a non-empty string.'')]) (\<lambda>u. Inr (trimmed v))"

definition requiredRefs :: "json \<Rightarrow> string \<Rightarrow> string list res" where
  "requiredRefs v f = bindE (nonEmptyStrings v f) (\<lambda>ss.
     bindE (runChecks [(ss \<noteq> [], f @ '' requires at least one ref.'')]) (\<lambda>u. Inr ss))"

definition normalizeStageQualityArtifactIdentity :: "json \<Rightarrow> json \<Rightarrow> bool \<Rightarrow> (string list \<times> string list) res" where
  "normalizeStageQualityArtifactIdentity refs hashes allowEmpty =
     bindE (nonEmptyStringSequence refs ''artifact_refs'') (\<lambda>rs.
     bindE (nonEmptyStringSequence hashes ''artifact_hashes'') (\<lambda>hs.
     bindE (runChecks [(length rs = length hs, ''Artifact refs and hashes must have equal cardinality.''),
       (allowEmpty \<or> rs \<noteq> [], ''Artifact identity requires at least one exact ref and hash pair.'')]) (\<lambda>u.
     bindE (uniqueIds rs ''artifact_refs'') (\<lambda>u. Inr (rs, hs)))))"

section \<open>What an attempt may return\<close>

definition normalizeStageQualityAttemptRole :: "json \<Rightarrow> quality_role res" where
  "normalizeStageQualityAttemptRole v = (case find (\<lambda>r. v = JStr (roleName r)) STAGE_QUALITY_ATTEMPT_ROLES of
       Some r \<Rightarrow> Inr r | None \<Rightarrow> fail ''Unknown Stage quality attempt role.'')"

definition normalizeStageQualityOutcome :: "json \<Rightarrow> quality_outcome res" where
  "normalizeStageQualityOutcome v = (case find (\<lambda>r. v = JStr (outcomeName r)) STAGE_QUALITY_OUTCOMES of
       Some r \<Rightarrow> Inr r | None \<Rightarrow> fail ''Unknown Stage quality outcome.'')"

definition stageQualityOutcomeFromEnvelope :: "json \<Rightarrow> quality_outcome res" where
  "stageQualityOutcomeFromEnvelope envelope = bindE (runChecks [(\<not> hasOwn envelope ''verdict'',
     ''Stage quality Attempt must return outcome; verdict is reserved for controller-generated review receipts.'')])
     (\<lambda>u. normalizeStageQualityOutcome (fld ''outcome'' envelope))"

definition stageQualityAttemptOutcomeFromEnvelope :: "quality_role \<Rightarrow> json \<Rightarrow> quality_outcome option res" where
  "stageQualityAttemptOutcomeFromEnvelope role envelope =
     (if role = Role_Reviewer \<or> role = Role_Re_Reviewer then mapE Some (stageQualityOutcomeFromEnvelope envelope)
      else bindE (runChecks [(filter (hasOwn envelope) [''outcome'', ''verdict''] = [],
        ''Producer and repairer Stage quality Attempts must not return outcome or verdict.'')]) (\<lambda>u. Inr None))"

definition optionalAgentRefList :: "json \<Rightarrow> string \<Rightarrow> string list res" where
  "optionalAgentRefList v f = (if v = JUndef \<or> v = JNull then Inr []
     else let es = (if isArr v then arrOf v else [v]) in
       if es = [] then Inr [] else evidenceRefStrings (JArr es) f False)"

definition optionalEnvelopeRefs :: "json \<Rightarrow> string \<Rightarrow> string \<Rightarrow> string list res" where
  "optionalEnvelopeRefs envelope one many =
     bindE (optionalAgentRefList (fld one envelope) one) (\<lambda>s.
     bindE (optionalAgentRefList (fld many envelope) many) (\<lambda>p. Inr (uniqueFirst (s @ p))))"

record hard_stop =
  hs_outcome :: quality_outcome
  hs_class :: string
  hs_reason :: string
  hs_blocker_refs :: "string list"
  hs_gate_refs :: "string list"

text \<open>The outcome is \<open>blocked\<close> or \<open>human_gate\<close>.\<close>

definition validateStageQualityReviewHardStopOutcome :: "quality_outcome \<Rightarrow> json \<Rightarrow> hard_stop res" where
  "validateStageQualityReviewHardStopOutcome outcome envelope = (let c = fld ''hard_stop_class'' envelope in
     bindE (runChecks [(isStr c \<and> strOf c \<in> set STAGE_QUALITY_HARD_STOP_CLASSES,
       ''Stage Review hard-stop outcome requires a declared canonical hard_stop_class.'')]) (\<lambda>u.
     bindE (requiredText (fld ''blocked_reason'' envelope) ''blocked_reason'') (\<lambda>reason.
     bindE (optionalEnvelopeRefs envelope ''typed_blocker_ref'' ''typed_blocker_refs'') (\<lambda>blockers.
     bindE (optionalEnvelopeRefs envelope ''human_gate_ref'' ''human_gate_refs'') (\<lambda>gates.
     bindE (runChecks
       [(\<not> (outcome = Outcome_Blocked \<and> blockers = []), ''Stage Review blocked outcome requires a domain-owned typed blocker ref.''),
        (\<not> (outcome = Outcome_Human_Gate \<and> (strOf c \<noteq> ''human_decision_required'' \<or> gates = [])),
         ''Stage Review human_gate outcome requires hard_stop_class=human_decision_required and a human-gate ref.'')]) (\<lambda>u.
     Inr \<lparr> hs_outcome = outcome, hs_class = strOf c, hs_reason = reason, hs_blocker_refs = blockers, hs_gate_refs = gates \<rparr>))))))"

section \<open>Policy\<close>

record cycle_policy =
  qp_refinement_allowed :: bool
  qp_review_required :: bool
  qp_risk_tier :: json
  qp_review_depth :: json
  qp_parallel_facets :: bool
  qp_max_repair_rounds :: jsnum
  qp_scope_budget :: scope_budget

definition normalizeStageQualityCyclePolicy :: "json \<Rightarrow> cycle_policy res" where
  "normalizeStageQualityCyclePolicy v =
     (let refinement = fld ''in_thread_refinement'' v; review = fld ''formal_review'' v;
          tier = orElse (fld ''risk_tier'' review) (JStr ''medium'');
          depth = orElse (fld ''review_depth'' review)
            (JStr (if tier = JStr ''low'' then ''focused'' else if tier = JStr ''high'' then ''multi_axis'' else ''full''));
          rounds = orElse (fld ''max_repair_rounds'' review) (jInt 3) in
     bindE (runChecks [(oneOf [''low'', ''medium'', ''high''] tier, ''formal_review.risk_tier is invalid.''),
       (oneOf [''focused'', ''full'', ''multi_axis''] depth, ''formal_review.review_depth is invalid.''),
       (isInteger (numOf rounds) \<and> \<not> jlt (numOf rounds) (jint 0), ''formal_review.max_repair_rounds must be a non-negative integer.'')]) (\<lambda>u.
     bindE (normalizeStageQualityScopeBudget (fld ''scope_budget'' review) (Some (numOf rounds))) (\<lambda>b.
     Inr \<lparr> qp_refinement_allowed = (fld ''allowed'' refinement \<noteq> JBool False), qp_review_required = (fld ''required'' review = JBool True),
       qp_risk_tier = tier, qp_review_depth = depth, qp_parallel_facets = (tier = JStr ''high''),
       qp_max_repair_rounds = numOf rounds, qp_scope_budget = b \<rparr>)))"

section \<open>The context of an isolated review\<close>

record review_context =
  cm_stage_run_id :: string
  cm_quality_cycle_id :: string
  cm_role :: quality_role
  cm_artifacts :: "string list \<times> string list"
  cm_rubric_refs :: "string list"
  cm_other_refs :: "(string \<times> string list) list"
  cm_forbidden_context_kinds :: "string list"

text \<open>The optional lists of the manifest, in the order of its fields: the input's name and the manifest's.\<close>

definition contextLists :: "(string \<times> string) list" where
  "contextLists = [(''knowledgeRefs'', ''knowledge_refs''), (''skillRefs'', ''skill_refs''), (''policyRefs'', ''policy_refs''),
     (''lineageRefs'', ''lineage_refs''), (''priorFindingRefs'', ''prior_finding_refs''), (''repairMapRefs'', ''repair_map_refs'')]"

definition optionalList :: "json \<Rightarrow> string \<times> string \<Rightarrow> (string \<times> string list) res" where
  "optionalList input k = mapE (Pair (snd k)) (nonEmptyStrings (orElse (fld (fst k) input) (JArr [])) (snd k))"

definition buildStageReviewContextManifest :: "quality_role \<Rightarrow> json \<Rightarrow> review_context res" where
  "buildStageReviewContextManifest role input =
     bindE (normalizeStageQualityArtifactIdentity (fld ''artifactRefs'' input) (fld ''artifactHashes'' input) False) (\<lambda>artifacts.
     bindE (requiredText (fld ''stageRunId'' input) ''stage_run_id'') (\<lambda>run.
     bindE (requiredText (fld ''qualityCycleId'' input) ''quality_cycle_id'') (\<lambda>cycle.
     bindE (optionalList input (''stageGoalRefs'', ''stage_goal_refs'')) (\<lambda>goals.
     bindE (optionalList input (''sourceRefs'', ''source_refs'')) (\<lambda>sources.
     bindE (requiredRefs (fld ''qualityRubricRefs'' input) ''quality_rubric_refs'') (\<lambda>rubrics.
     bindE (seqE (map (optionalList input) contextLists)) (\<lambda>others.
     Inr \<lparr> cm_stage_run_id = run, cm_quality_cycle_id = cycle, cm_role = role, cm_artifacts = artifacts, cm_rubric_refs = rubrics,
       cm_other_refs = goals # sources # others,
       cm_forbidden_context_kinds = [''producer_conversation_history'', ''producer_thread_resume'', ''reviewer_thread_resume'',
         ''chain_of_thought'', ''undeclared_ephemeral_context''] \<rparr>)))))))"

section \<open>The review receipt\<close>

definition snapshotMaterialized :: "json \<Rightarrow> bool" where
  "snapshotMaterialized r \<longleftrightarrow> fld ''review_input_snapshot_status'' r \<in> {JStr ''materialized'', JStr ''already_materialized''}"

definition snapshotBound :: "json \<Rightarrow> bool" where
  "snapshotBound r \<longleftrightarrow>
     (isRecord (fld ''review_input_snapshot_binding'' r)
       \<and> fld ''surface_kind'' (fld ''review_input_snapshot_binding'' r) = JStr ''opl_reviewer_input_snapshot_binding'')
     \<and> isRecord (fld ''opl_reviewer_input_snapshot_manifest_ref'' r)
     \<and> (isRecord (fld ''opl_reviewer_input_snapshot_manifest'' r)
       \<and> fld ''surface_kind'' (fld ''opl_reviewer_input_snapshot_manifest'' r) = JStr ''opl_reviewer_input_snapshot_manifest'')
     \<and> fld ''review_input_snapshot_quality_debt_receipt_ref'' r = JNull
     \<and> fld ''review_input_snapshot_quality_debt_receipt'' r = JNull"

definition snapshotInDebt :: "json \<Rightarrow> bool" where
  "snapshotInDebt r \<longleftrightarrow> fld ''review_input_snapshot_status'' r = JStr ''quality_debt''
     \<and> fld ''review_input_snapshot_binding'' r = JNull \<and> fld ''opl_reviewer_input_snapshot_manifest_ref'' r = JNull
     \<and> fld ''opl_reviewer_input_snapshot_manifest'' r = JNull
     \<and> isStr (fld ''review_input_snapshot_quality_debt_receipt_ref'' r) \<and> strOf (fld ''review_input_snapshot_quality_debt_receipt_ref'' r) \<noteq> []
     \<and> isRecord (fld ''review_input_snapshot_quality_debt_receipt'' r)
     \<and> fld ''surface_kind'' (fld ''review_input_snapshot_quality_debt_receipt'' r) = JStr ''opl_review_input_snapshot_quality_debt_receipt''"

definition receiptHeadChecks :: "json \<Rightarrow> check list" where
  "receiptHeadChecks r = (let ref = fld ''opl_review_evidence_artifact_receipt_ref'' r; body = fld ''opl_review_evidence_artifact_receipt'' r in
     [(fld ''surface_kind'' r = JStr ''opl_stage_review_receipt'' \<and> fld ''version'' r = JStr ''stage-review-receipt.v1'',
       ''Stage Review receipt surface kind and version are invalid.''),
      (if snapshotMaterialized r then snapshotBound r else snapshotInDebt r,
       ''Stage Review receipt must bind either the exact immutable reviewer snapshot or its non-blocking quality debt receipt.''),
      ((ref = JNull) = (body = JNull), ''Stage Review receipt evidence artifact ref and body must be present or absent together.''),
      (\<not> jsTruthy body \<or> fld ''surface_kind'' body = JStr ''opl_review_evidence_artifact_receipt'' \<and> jsSame (fld ''schema_version'' body) (jInt 1),
       ''Stage Review receipt evidence artifact binding is invalid.'')])"

text \<open>The pattern test turns its argument into a text.\<close>

definition digestText :: "json \<Rightarrow> bool" where
  "digestText v \<longleftrightarrow> isDigest (jsToString v)"

definition lineageChecks :: "json \<Rightarrow> json \<Rightarrow> check list" where
  "lineageChecks l verdict = (let m = fld ''repair_map_sha256'' l; x = fld ''re_review_result_sha256'' l in
     [(digestText (fld ''findings_sha256'' l), ''Review receipt findings_sha256 must be a canonical SHA-256 digest.''),
      (m = JNull \<or> digestText m, ''Review receipt repair_map_sha256 must be a canonical SHA-256 digest.''),
      (x = JNull \<or> digestText x, ''Review receipt re_review_result_sha256 must be a canonical SHA-256 digest.'')] @
     (if fld ''review_kind'' l = JStr ''initial_review'' then
        [(m = JNull \<and> x = JNull, ''Initial Review receipt cannot bind repair-map or Re-review result digests.'')]
      else
        [(jsTruthy m, ''Finding-closure Review receipt requires an exact repair-map digest.''),
         (\<not> (verdict = JStr ''hard_stop'' \<and> x \<noteq> JNull), ''Hard-stop Re-review receipt cannot bind a finding-closure result digest.''),
         (\<not> (verdict \<noteq> JStr ''hard_stop'' \<and> \<not> jsTruthy x),
          ''Non-hard-stop finding-closure Review receipt requires an exact Re-review result digest.'')]))"

definition validateIndependentStageReviewReceipt :: "json \<Rightarrow> unit res" where
  "validateIndependentStageReviewReceipt r = (let l = fld ''finding_lineage'' r in
     bindE (runChecks (receiptHeadChecks r)) (\<lambda>u.
     bindE (requiredText (fld ''stage_run_id'' r) ''stage_run_id'') (\<lambda>u.
     bindE (requiredText (fld ''quality_cycle_id'' r) ''quality_cycle_id'') (\<lambda>u.
     bindE (requiredText (fld ''producer_attempt_ref'' r) ''producer_attempt_ref'') (\<lambda>producer.
     bindE (requiredText (fld ''reviewer_attempt_ref'' r) ''reviewer_attempt_ref'') (\<lambda>reviewer.
     bindE (runChecks [(producer \<noteq> reviewer, ''Formal Stage Review receipt must bind distinct producer and reviewer Attempts.'')]) (\<lambda>u.
     bindE (requiredText (fld ''producer_session_ref'' r) ''producer_session_ref'') (\<lambda>session.
     bindE (requiredText (fld ''reviewer_session_ref'' r) ''reviewer_session_ref'') (\<lambda>review.
     bindE (runChecks [(fld ''no_context_inheritance'' r = JBool True, ''Formal Stage Review must declare no_context_inheritance=true.''),
       (session \<noteq> review, ''Formal Stage Review must use a new provider session.'')]) (\<lambda>u.
     bindE (normalizeStageQualityArtifactIdentity (fld ''reviewed_artifact_refs'' r) (fld ''reviewed_artifact_hashes'' r) False) (\<lambda>u.
     bindE (requiredRefs (fld ''rubric_refs'' r) ''rubric_refs'') (\<lambda>u.
     bindE (runChecks [(fld ''verdict'' r \<in> JStr ` {''pass'', ''repair_required'', ''quality_debt'', ''hard_stop''},
         ''Stage Review receipt verdict is invalid.''),
       (isRecord l \<or> isArr l, ''Review receipt finding_lineage must be an object.''),
       (fld ''review_kind'' l \<in> JStr ` {''initial_review'', ''finding_closure_review''}, ''Review receipt finding_lineage review_kind is invalid.'')]) (\<lambda>u.
     bindE (nonEmptyStringSequence (fld ''finding_ids'' l) ''finding_lineage.finding_ids'') (\<lambda>ids.
     bindE (uniqueIds ids ''finding_lineage.finding_ids'') (\<lambda>u.
     runChecks (lineageChecks l (fld ''verdict'' r)))))))))))))))))"

section \<open>Findings, repair maps and closures\<close>

text \<open>\<open>{ ...entry, fields }\<close>\<close>

definition findingOf :: "json \<Rightarrow> json res" where
  "findingOf e = bindE (readableObject e) (\<lambda>u.
     bindE (requiredText (fld ''finding_id'' e) ''finding_id'') (\<lambda>i.
     bindE (runChecks [(fld ''severity'' e \<in> JStr ` {''critical'', ''major'', ''minor''}, ''Stage Review finding severity is invalid.''),
       (isBool (fld ''required'' e), ''Stage Review finding required must be boolean.'')]) (\<lambda>u.
     bindE (evidenceRefStrings (fld ''evidence_refs'' e) (''findings.'' @ i @ ''.evidence_refs'') False) (\<lambda>refs.
     bindE (requiredText (fld ''repair_expectation'' e) (''findings.'' @ i @ ''.repair_expectation'')) (\<lambda>x.
     Inr (setFlds [(''finding_id'', JStr i), (''evidence_refs'', jStrs refs), (''repair_expectation'', JStr x)] e))))))"

definition idOf :: "json \<Rightarrow> string" where
  "idOf e = strOf (fld ''finding_id'' e)"

definition validateStageQualityFindings :: "json \<Rightarrow> json list res" where
  "validateStageQualityFindings v = bindE (runChecks [(isArr v, ''Stage Review findings must be an array.'')]) (\<lambda>u.
     bindE (seqE (map findingOf (arrOf v))) (\<lambda>fs.
     bindE (uniqueIds (map idOf fs) ''findings'') (\<lambda>u. Inr fs)))"

definition requiredIds :: "json list \<Rightarrow> string list" where
  "requiredIds fs = map idOf (filter (\<lambda>f. boolOf (fld ''required'' f)) fs)"

definition validateInitialStageQualityReviewOutcome :: "quality_outcome \<Rightarrow> json \<Rightarrow> json list res" where
  "validateInitialStageQualityReviewOutcome outcome v = bindE (validateStageQualityFindings v) (\<lambda>fs.
     bindE (runChecks
       [(\<not> (outcome = Outcome_Repair_Required \<and> requiredIds fs = []),
         ''Initial Review outcome repair_required requires at least one required finding.''),
        (\<not> (outcome \<in> {Outcome_Pass, Outcome_Quality_Debt} \<and> requiredIds fs \<noteq> []),
         ''Initial Review outcome '' @ outcomeName outcome @ '' cannot carry an open required finding.'')]) (\<lambda>u. Inr fs))"

definition repairOf :: "string list \<Rightarrow> json \<Rightarrow> json res" where
  "repairOf ids e = bindE (readableObject e) (\<lambda>u.
     bindE (requiredText (fld ''finding_id'' e) ''repair_map.finding_id'') (\<lambda>i.
     bindE (runChecks [(i \<in> set ids, ''repair_map references a non-required finding.''),
       (fld ''repair_status'' e \<in> JStr ` {''repaired'', ''not_repaired'', ''blocked''}, ''repair_map repair_status is invalid.'')]) (\<lambda>u.
     bindE (evidenceRefStrings (fld ''changed_artifact_refs'' e) (''repair_map.'' @ i @ ''.changed_artifact_refs'') True) (\<lambda>cs.
     bindE (evidenceRefStrings (fld ''repair_evidence_refs'' e) (''repair_map.'' @ i @ ''.repair_evidence_refs'') False) (\<lambda>es.
     Inr (setFlds [(''finding_id'', JStr i), (''changed_artifact_refs'', jStrs cs), (''repair_evidence_refs'', jStrs es)] e))))))"

definition coversAll :: "string list \<Rightarrow> json list \<Rightarrow> bool" where
  "coversAll ids es \<longleftrightarrow> list_all (\<lambda>i. list_ex (\<lambda>e. idOf e = i) es) ids"

definition validateStageQualityRepairMap :: "json \<Rightarrow> json \<Rightarrow> json list res" where
  "validateStageQualityRepairMap findings repairs = bindE (validateStageQualityFindings findings) (\<lambda>fs.
     bindE (runChecks [(isArr repairs, ''Stage repair_map must be an array.'')]) (\<lambda>u.
     bindE (seqE (map (repairOf (requiredIds fs)) (arrOf repairs))) (\<lambda>rs.
     bindE (uniqueIds (map idOf rs) ''repair_map'') (\<lambda>u.
     bindE (runChecks [(coversAll (requiredIds fs) rs, ''repair_map must cover every required finding.'')]) (\<lambda>u. Inr rs)))))"

definition closureOf :: "string list \<Rightarrow> json \<Rightarrow> json res" where
  "closureOf ids e = bindE (readableObject e) (\<lambda>u.
     bindE (requiredText (fld ''finding_id'' e) ''finding_closures.finding_id'') (\<lambda>i.
     bindE (runChecks [(i \<in> set ids, ''Re-review closure references an unknown required finding.''),
       (fld ''status'' e \<in> JStr ` {''closed'', ''partially_closed'', ''still_open''}, ''Re-review closure status is invalid.'')]) (\<lambda>u.
     bindE (evidenceRefStrings (fld ''evidence_refs'' e) (''finding_closures.'' @ i @ ''.evidence_refs'') False) (\<lambda>es.
     Inr (setFlds [(''finding_id'', JStr i), (''evidence_refs'', jStrs es)] e)))))"

definition observationOf :: "json \<Rightarrow> string res" where
  "observationOf e = bindE (readableObject e) (\<lambda>u. let l = ''optional_observations.'' @ jsToString (fld ''observation_id'' e) in
     bindE (requiredText (fld ''observation_id'' e) ''optional_observations.observation_id'') (\<lambda>i.
     bindE (evidenceRefStrings (fld ''evidence_refs'' e) (l @ ''.evidence_refs'') False) (\<lambda>es.
     bindE (requiredText (fld ''summary'' e) (l @ ''.summary'')) (\<lambda>s. Inr i))))"

record finding_closure =
  fc_trigger_repair :: bool
  fc_open :: "string list"
  fc_regressions :: "string list"
  fc_critical_new :: "string list"
  fc_observations :: "string list"

definition newFindingChecks :: "json list \<Rightarrow> json list \<Rightarrow> check list" where
  "newFindingChecks rs cs =
     [(list_all (\<lambda>f. boolOf (fld ''required'' f)) rs, ''repair_regressions that trigger another repair round must declare required=true.''),
      (list_all (\<lambda>f. fld ''severity'' f = JStr ''critical'') cs, ''critical_new_findings may contain only critical findings.''),
      (list_all (\<lambda>f. boolOf (fld ''required'' f)) cs, ''critical_new_findings that trigger another repair round must declare required=true.'')]"

definition evaluateStageQualityFindingClosure :: "json \<Rightarrow> json \<Rightarrow> json \<Rightarrow> finding_closure res" where
  "evaluateStageQualityFindingClosure findings repairs review = bindE (validateStageQualityFindings findings) (\<lambda>fs.
     bindE (validateStageQualityRepairMap (JArr fs) repairs) (\<lambda>u.
     bindE (readableObject review) (\<lambda>u.
     bindE (runChecks [(isArr (fld ''finding_closures'' review), ''Re-review finding_closures must be an array.'')]) (\<lambda>u.
     bindE (seqE (map (closureOf (requiredIds fs)) (arrOf (fld ''finding_closures'' review)))) (\<lambda>ks.
     bindE (uniqueIds (map idOf ks) ''finding_closures'') (\<lambda>u.
     bindE (runChecks [(coversAll (requiredIds fs) ks, ''Re-review must close or retain every required finding.'')]) (\<lambda>u.
     bindE (validateStageQualityFindings (fld ''repair_regressions'' review)) (\<lambda>rs.
     bindE (validateStageQualityFindings (fld ''critical_new_findings'' review)) (\<lambda>cs.
     bindE (runChecks (newFindingChecks rs cs)) (\<lambda>u.
     bindE (uniqueIds (map idOf fs @ map idOf rs @ map idOf cs) ''finding_ids_across_prior_regression_and_critical_new_collections'') (\<lambda>u.
     bindE (runChecks [(isArr (fld ''optional_observations'' review), ''Re-review optional_observations must be an array.'')]) (\<lambda>u.
     bindE (seqE (map observationOf (arrOf (fld ''optional_observations'' review)))) (\<lambda>os.
     bindE (uniqueIds os ''optional_observations'') (\<lambda>u.
     let open_ids = map idOf (filter (\<lambda>k. fld ''status'' k \<noteq> JStr ''closed'') ks) in
     Inr \<lparr> fc_trigger_repair = (open_ids \<noteq> [] \<or> rs \<noteq> [] \<or> cs \<noteq> []), fc_open = open_ids,
       fc_regressions = map idOf rs, fc_critical_new = map idOf cs, fc_observations = os \<rparr>))))))))))))))"

definition validateStageQualityReReviewOutcome :: "quality_outcome \<Rightarrow> finding_closure \<Rightarrow> quality_outcome res" where
  "validateStageQualityReReviewOutcome outcome c =
     (if outcome = Outcome_Blocked \<or> outcome = Outcome_Human_Gate then Inr outcome
      else bindE (runChecks
        [(\<not> (fc_trigger_repair c \<and> outcome \<noteq> Outcome_Repair_Required),
          ''Re-review with open required findings or repair regressions must return outcome repair_required.''),
         (\<not> (\<not> fc_trigger_repair c \<and> outcome = Outcome_Repair_Required),
          ''Re-review outcome repair_required requires an open required finding, repair regression, or critical new finding.'')])
        (\<lambda>u. Inr outcome))"

datatype budget_class = Terminal_Normal | Continue_Repair | Terminal_Quality_Debt

text \<open>The round and the bound may arrive as anything \<open>Number\<close> reads.\<close>

definition classifyStageQualityReReviewBudget :: "finding_closure \<Rightarrow> json \<Rightarrow> json \<Rightarrow> budget_class res" where
  "classifyStageQualityReReviewBudget c roundIndex maxRounds = (let r = jsNumber roundIndex; m = jsNumber maxRounds in
     bindE (runChecks [(isInteger r \<and> isInteger m \<and> \<not> jlt r (jint 1) \<and> \<not> jlt m (jint 1) \<and> \<not> jlt m r,
       ''Re-review repair-budget identity requires 1 <= quality_round_index <= max_repair_rounds.'')]) (\<lambda>u.
     Inr (if \<not> fc_trigger_repair c then Terminal_Normal else if jlt r m then Continue_Repair else Terminal_Quality_Debt)))"

section \<open>The state of a cycle\<close>

datatype cycle_status = Awaiting_Producer | Awaiting_Review | Awaiting_Repair | Cycle_Passed | Cycle_Quality_Debt | Hard_Stopped

record cycle_state =
  qc_stage_run_id :: string
  qc_quality_cycle_id :: string
  qc_max_repair_rounds :: int
  qc_repair_rounds_used :: int
  qc_current_role :: "quality_role option"
  qc_status :: cycle_status
  qc_artifacts :: "string list"
  qc_debt :: "string list"
  qc_scope_budget :: scope_budget
  qc_usage :: budget_usage
  qc_stop_reason :: "budget_stop option"

definition initialStageQualityCycleState :: "json \<Rightarrow> json \<Rightarrow> json \<Rightarrow> json \<Rightarrow> cycle_state res" where
  "initialStageQualityCycleState runId cycleId maxRepairRounds budget = (let m = orElse maxRepairRounds (jInt 3) in
     bindE (runChecks [(isInteger (numOf m) \<and> \<not> jlt (numOf m) (jint 0), ''maxRepairRounds must be a non-negative integer.'')]) (\<lambda>u.
     bindE (requiredText runId ''stage_run_id'') (\<lambda>run.
     bindE (requiredText cycleId ''quality_cycle_id'') (\<lambda>cycle.
     bindE (normalizeStageQualityScopeBudget budget (Some (numOf m))) (\<lambda>b.
     Inr \<lparr> qc_stage_run_id = run, qc_quality_cycle_id = cycle, qc_max_repair_rounds = intOf m, qc_repair_rounds_used = 0,
       qc_current_role = Some Role_Producer, qc_status = Awaiting_Producer, qc_artifacts = [], qc_debt = [],
       qc_scope_budget = b, qc_usage = \<lparr> us_attempts = 0, us_elapsed = 0, us_tokens = None \<rparr>, qc_stop_reason = None \<rparr>)))))"

datatype cycle_event = Producer_Completed json | Review_Completed review_verdict json | Repair_Completed json | Hard_Stop

definition terminalStatus :: "cycle_status \<Rightarrow> bool" where
  "terminalStatus s \<longleftrightarrow> s \<in> {Cycle_Passed, Cycle_Quality_Debt, Hard_Stopped}"

definition hardStopped :: "cycle_state \<Rightarrow> cycle_state" where
  "hardStopped st = st\<lparr> qc_status := Hard_Stopped, qc_current_role := None \<rparr>"

fun reduceStageQualityCycleState :: "cycle_state \<Rightarrow> cycle_event \<Rightarrow> cycle_state res" where
  "reduceStageQualityCycleState st (Producer_Completed refs) =
     (if terminalStatus (qc_status st) then fail ''Terminal Stage quality cycle cannot consume another event.''
      else if qc_status st \<noteq> Awaiting_Producer then fail ''producer_completed is out of order.''
      else mapE (\<lambda>rs. st\<lparr> qc_status := Awaiting_Review, qc_current_role := Some Role_Reviewer, qc_artifacts := rs \<rparr>)
        (nonEmptyStrings refs ''artifact_refs''))"
| "reduceStageQualityCycleState st (Repair_Completed refs) =
     (if terminalStatus (qc_status st) then fail ''Terminal Stage quality cycle cannot consume another event.''
      else if qc_status st \<noteq> Awaiting_Repair then fail ''repair_completed is out of order.''
      else mapE (\<lambda>rs. st\<lparr> qc_repair_rounds_used := qc_repair_rounds_used st + 1, qc_status := Awaiting_Review,
          qc_current_role := Some Role_Re_Reviewer, qc_artifacts := rs \<rparr>) (nonEmptyStrings refs ''artifact_refs''))"
| "reduceStageQualityCycleState st Hard_Stop =
     (if terminalStatus (qc_status st) then fail ''Terminal Stage quality cycle cannot consume another event.''
      else Inr (hardStopped st))"
| "reduceStageQualityCycleState st (Review_Completed verdict debt) =
     (if terminalStatus (qc_status st) then fail ''Terminal Stage quality cycle cannot consume another event.''
      else if verdict = Verdict_Hard_Stop then Inr (hardStopped st)
      else if verdict = Verdict_Pass then Inr (st\<lparr> qc_status := Cycle_Passed, qc_current_role := None \<rparr>)
      else bindE (nonEmptyStrings (orElse debt (JArr [])) ''quality_debt_refs'') (\<lambda>ds.
        if verdict = Verdict_Quality_Debt \<or> qc_max_repair_rounds st \<le> qc_repair_rounds_used st then
          if qc_artifacts st = [] then Inr (hardStopped st)
          else Inr (st\<lparr> qc_status := Cycle_Quality_Debt, qc_current_role := None, qc_debt := ds \<rparr>)
        else Inr (st\<lparr> qc_status := Awaiting_Repair, qc_current_role := Some Role_Repairer, qc_debt := ds \<rparr>)))"

record continuation =
  cn_resumed :: bool
  cn_counts_as_review :: bool
  cn_consumes_revision_budget :: bool

text \<open>A thread id that is absent, \<open>null\<close> or empty starts a new attempt.\<close>

definition classifyCodexSessionContinuation :: "quality_role \<Rightarrow> string option \<Rightarrow> continuation" where
  "classifyCodexSessionContinuation role thread = (if truthy thread
     then \<lparr> cn_resumed = True, cn_counts_as_review = False, cn_consumes_revision_budget = False \<rparr>
     else \<lparr> cn_resumed = False, cn_counts_as_review = (role \<in> {Role_Reviewer, Role_Re_Reviewer}), cn_consumes_revision_budget = (role = Role_Repairer) \<rparr>)"

end
