(* ===== verification/Quality_Route.thy ===== *)
theory Quality_Route
  imports Quality_Cycle
begin

text \<open>
  \<open>src/src/authority/stages/stage-quality-route-selection.ts\<close>: what a quality attempt may
  say about the route between Stages.  An attempt may decide a route (when its role is a
  decisive one and its outcome ends the Stage run) or recommend one; everything else it
  returns is rejected with reasons and removed from its output.
\<close>

section \<open>Decisions\<close>

datatype route_kind = Route_Advance | Route_Skip | Route_Repeat | Route_Reverse | Route_Back | Route_Complete

fun routeKindName :: "route_kind \<Rightarrow> string" where
  "routeKindName Route_Advance = ''advance''"
| "routeKindName Route_Skip = ''skip''"
| "routeKindName Route_Repeat = ''repeat''"
| "routeKindName Route_Reverse = ''reverse''"
| "routeKindName Route_Back = ''route_back''"
| "routeKindName Route_Complete = ''complete''"

definition STAGE_ROUTE_DECISION_KINDS :: "route_kind list" where
  "STAGE_ROUTE_DECISION_KINDS = [Route_Advance, Route_Skip, Route_Repeat, Route_Reverse, Route_Back, Route_Complete]"

definition LEGACY_TERMINAL_ROUTE_FIELDS :: "string list" where
  "LEGACY_TERMINAL_ROUTE_FIELDS = [''route_back_stage_ref'', ''selected_next_stage_ref'', ''next_stage_ref'', ''workflow_complete'']"

text \<open>A decision, or a recommendation when it carries a reason.\<close>

record route_selection =
  rt_kind :: route_kind
  rt_target :: "string option"
  rt_evidence :: "string list"
  rt_reason :: "string option"

section \<open>Reading the attempt\<close>

definition asRecord :: "json \<Rightarrow> json" where
  "asRecord v = (if isRecord v then v else JObj [])"

definition routeText :: "json \<Rightarrow> string option" where
  "routeText v = (if nonBlank v then Some (trimmed v) else None)"

definition distinctStrings :: "json \<Rightarrow> string list" where
  "distinctStrings v = uniqueFirst (map trimmed (filter nonBlank (arrOf v)))"

text \<open>Entries that cite nothing are dropped.\<close>

definition evidenceRefList :: "json \<Rightarrow> string list" where
  "evidenceRefList v = uniqueFirst (List.map_filter citedRef (arrOf v))"

definition contextManifest :: "json \<Rightarrow> json" where
  "contextManifest attempt = (let direct = asRecord (fld ''context_manifest'' attempt) in
     if objKeys direct \<noteq> [] then direct
     else asRecord (fld ''context_manifest'' (asRecord (fld ''quality_context'' attempt))))"

definition routeContext :: "json \<Rightarrow> json" where
  "routeContext attempt = asRecord (fld ''cross_stage_route_selection'' (contextManifest attempt))"

definition selectedLegacyFields :: "json \<Rightarrow> string list" where
  "selectedLegacyFields impact = filter (hasOwn impact) LEGACY_TERMINAL_ROUTE_FIELDS"

definition hasRouteOutput :: "json \<Rightarrow> bool" where
  "hasRouteOutput impact \<longleftrightarrow> hasOwn impact ''stage_route_decision'' \<or> hasOwn impact ''stage_route_recommendation''
     \<or> selectedLegacyFields impact \<noteq> []"

text \<open>The JSON texts of two sorted lists of strings are equal exactly when the lists are.\<close>

definition sameStringSet :: "string list \<Rightarrow> string list \<Rightarrow> bool" where
  "sameStringSet left right \<longleftrightarrow> sort left = sort right"

text \<open>A list of reasons is the labels of the tests that succeed, in order.\<close>

definition reasonsOf :: "(bool \<times> string) list \<Rightarrow> string list" where
  "reasonsOf rs = map snd (filter fst rs)"

definition routeContextRejectionReasons :: "json \<Rightarrow> json \<Rightarrow> string list" where
  "routeContextRejectionReasons attempt context =
     (let role = routeText (fld ''attempt_role'' attempt); stage = routeText (fld ''stage_id'' attempt);
          decisive = distinctStrings (fld ''configured_decisive_attempt_roles'' context);
          declared = distinctStrings (fld ''declared_stage_ids'' context) in
     reasonsOf
       [(case role of None \<Rightarrow> True | Some r \<Rightarrow> r \<notin> set (map roleName STAGE_QUALITY_ATTEMPT_ROLES), ''attempt_role_is_not_framework_quality_role''),
        (fld ''surface_kind'' context \<noteq> JStr ''opl_stage_run_route_selection_context''
          \<or> fld ''version'' context \<noteq> JStr ''stage-run-route-selection-context.v1'', ''missing_stage_run_route_selection_context''),
        (case role of None \<Rightarrow> True | Some r \<Rightarrow> fld ''current_attempt_role'' context \<noteq> JStr r, ''stage_run_route_context_attempt_role_mismatch''),
        (\<not> sameStringSet decisive [''producer''] \<and> \<not> sameStringSet decisive [''reviewer'', ''re_reviewer''],
          ''configured_decisive_attempt_roles_invalid''),
        (case stage of None \<Rightarrow> True | Some s \<Rightarrow> declared = [] \<or> s \<notin> set declared, ''stage_run_route_context_declared_stage_set_invalid'')])"

section \<open>Normalising a selection\<close>

definition routeKindOf :: "string option \<Rightarrow> route_kind option" where
  "routeKindOf k = find (\<lambda>x. k = Some (routeKindName x)) STAGE_ROUTE_DECISION_KINDS"

definition targetReasons :: "string option \<Rightarrow> string option \<Rightarrow> string list \<Rightarrow> string list" where
  "targetReasons kind target declared =
     (if kind = Some ''complete'' then reasonsOf [(target \<noteq> None, ''complete_route_must_not_declare_target_stage'')]
      else case target of None \<Rightarrow> [''non_complete_route_requires_target_stage'']
        | Some t \<Rightarrow> reasonsOf [(t \<notin> set declared, ''route_target_is_not_a_declared_stage'')])"

definition allowedSelectionFields :: "bool \<Rightarrow> string list" where
  "allowedSelectionFields recommendation = (if recommendation then [''decision_kind'', ''target_stage_id'', ''reason'', ''evidence_refs'']
     else [''decision_kind'', ''target_stage_id'', ''evidence_refs''])"

definition selectionReasons :: "json \<Rightarrow> string list \<Rightarrow> bool \<Rightarrow> string list" where
  "selectionReasons v declared recommendation = (let kind = routeText (fld ''decision_kind'' v) in
     reasonsOf [(objKeys v = [], ''route_selection_must_be_an_object''),
       (list_ex (\<lambda>f. f \<notin> set (allowedSelectionFields recommendation)) (objKeys v), ''route_selection_contains_unsupported_fields''),
       (routeKindOf kind = None, ''route_decision_kind_invalid'')] @
     targetReasons kind (routeText (fld ''target_stage_id'' v)) declared @
     reasonsOf [(evidenceRefList (fld ''evidence_refs'' v) = [], ''route_selection_requires_evidence_refs''),
       (recommendation \<and> routeText (fld ''reason'' v) = None, ''route_recommendation_requires_reason'')])"

definition normalizeSelection :: "json \<Rightarrow> string list \<Rightarrow> bool \<Rightarrow> route_selection option \<times> string list" where
  "normalizeSelection value declared recommendation =
     (if value = JUndef \<or> value = JNull then (None, [])
      else (let v = asRecord value; reasons = selectionReasons v declared recommendation in
        case routeKindOf (routeText (fld ''decision_kind'' v)) of None \<Rightarrow> (None, uniqueFirst reasons)
        | Some k \<Rightarrow> if reasons \<noteq> [] then (None, uniqueFirst reasons)
          else (Some \<lparr> rt_kind = k, rt_target = routeText (fld ''target_stage_id'' v), rt_evidence = evidenceRefList (fld ''evidence_refs'' v),
            rt_reason = (if recommendation then routeText (fld ''reason'' v) else None) \<rparr>, [])))"

definition normalizeDeclaredStageRouteDecision :: "json \<Rightarrow> string list \<Rightarrow> route_selection option \<times> string list" where
  "normalizeDeclaredStageRouteDecision value declared = normalizeSelection value declared False"

definition isRepairRequiredCrossStageRouteBackDecision :: "json \<Rightarrow> json \<Rightarrow> json \<Rightarrow> route_selection option \<Rightarrow> bool" where
  "isRepairRequiredCrossStageRouteBackDecision role outcome stage decision \<longleftrightarrow>
     routeText role \<in> {Some ''reviewer'', Some ''re_reviewer''} \<and> routeText outcome = Some ''repair_required''
     \<and> (case decision of None \<Rightarrow> False | Some d \<Rightarrow> let target = routeText (ofOptStr (rt_target d)) in
       rt_kind d = Route_Back \<and> routeText stage \<noteq> None \<and> target \<noteq> None \<and> target \<noteq> routeText stage)"

section \<open>Whether a decision is authoritative\<close>

text \<open>The closure of a re-review, or \<open>None\<close> when its contract is broken.\<close>

definition reReviewClosureState :: "json \<Rightarrow> json \<Rightarrow> finding_closure option" where
  "reReviewClosureState attempt impact =
     (let context = asRecord (fld ''quality_context'' attempt); envelope = asRecord (fld ''stage_quality_cycle'' impact);
          part = (\<lambda>k. (k, JArr (arrOf (fld k envelope)))) in
     if \<not> isArr (fld ''findings'' context) \<or> \<not> isArr (fld ''repair_map'' context) then None
     else case evaluateStageQualityFindingClosure (fld ''findings'' context) (fld ''repair_map'' context)
         (JObj (map part [''finding_closures'', ''repair_regressions'', ''critical_new_findings'', ''optional_observations''])) of
       Inl e \<Rightarrow> None | Inr c \<Rightarrow> Some c)"

definition reviewerReasons :: "string option \<Rightarrow> jsnum \<Rightarrow> bool \<Rightarrow> string list" where
  "reviewerReasons outcome maxRounds routeBack =
     (let exhausted = jeq maxRounds (jint 0); repair = (outcome = Some ''repair_required'') in
     reasonsOf [(repair \<and> \<not> exhausted \<and> \<not> routeBack, ''review_requires_internal_repair_continuation''),
       (outcome \<notin> {Some ''pass'', Some ''quality_debt''} \<and> \<not> (repair \<and> (exhausted \<or> routeBack)),
         ''review_outcome_does_not_terminalize_stage_run'')])"

definition outcomeOf :: "string option \<Rightarrow> quality_outcome option" where
  "outcomeOf s = find (\<lambda>x. s = Some (outcomeName x)) STAGE_QUALITY_OUTCOMES"

definition reReviewReasons :: "string option \<Rightarrow> finding_closure option \<Rightarrow> json \<Rightarrow> json \<Rightarrow> bool \<Rightarrow> string list" where
  "reReviewReasons outcome closure roundIndex maxRounds routeBack =
     (let judged = (case (closure, outcomeOf outcome) of
            (Some c, Some x) \<Rightarrow> Some (isOk (validateStageQualityReReviewOutcome x c), classifyStageQualityReReviewBudget c roundIndex maxRounds)
          | _ \<Rightarrow> None);
          budget = (case judged of Some (_, Inr b) \<Rightarrow> Some b | _ \<Rightarrow> None) in
     reasonsOf [(closure = None, ''re_review_closure_contract_invalid''),
       (case judged of Some (ok, _) \<Rightarrow> \<not> ok | None \<Rightarrow> False, ''re_review_outcome_closure_mismatch''),
       (judged \<noteq> None \<and> budget = None, ''re_review_budget_identity_invalid''),
       (budget = Some Continue_Repair \<and> \<not> routeBack, ''re_review_requires_another_repair_round''),
       (outcome \<notin> {Some ''pass'', Some ''quality_debt''}
         \<and> \<not> (outcome = Some ''repair_required'' \<and> (budget = Some Terminal_Quality_Debt \<or> routeBack)),
         ''re_review_outcome_does_not_terminalize_stage_run'')])"

definition terminalDecisionRejectionReasons :: "json \<Rightarrow> json \<Rightarrow> route_selection \<Rightarrow> string list" where
  "terminalDecisionRejectionReasons attempt impact decision = (case routeText (fld ''attempt_role'' attempt) of None \<Rightarrow> []
     | Some role \<Rightarrow>
       (let context = routeContext attempt; decisive = distinctStrings (fld ''configured_decisive_attempt_roles'' context);
            envelope = asRecord (fld ''stage_quality_cycle'' impact); outcome = routeText (fld ''outcome'' envelope);
            review = (role = ''reviewer'' \<or> role = ''re_reviewer''); stop = (outcome = Some ''blocked'' \<or> outcome = Some ''human_gate'');
            routeBack = isRepairRequiredCrossStageRouteBackDecision (JStr role) (ofOptStr outcome) (fld ''stage_id'' attempt) (Some decision) in
       reasonsOf [(role \<notin> set decisive, ''attempt_role_is_not_configured_decisive_role''),
         (hasOwn envelope ''verdict'', ''attempt_verdict_field_is_reserved_for_controller_receipt''),
         (\<not> review \<and> hasOwn envelope ''outcome'', ''stage_quality_outcome_is_forbidden_for_attempt_role''),
         (review \<and> outcomeOf outcome = None, ''stage_quality_outcome_invalid_or_missing''),
         (stop \<or> routeText (fld ''hard_stop_class'' envelope) \<noteq> None, ''hard_stop_attempt_cannot_select_terminal_route'')] @
       (if role = ''reviewer'' \<and> \<not> stop then reviewerReasons outcome (jsNumber (fld ''max_repair_rounds'' context)) routeBack else []) @
       (if role = ''re_reviewer'' \<and> \<not> stop then reReviewReasons outcome (reReviewClosureState attempt impact)
          (fld ''quality_round_index'' attempt) (fld ''max_repair_rounds'' context) routeBack else [])))"

section \<open>The route of an attempt\<close>

record route_evaluation =
  ev_applicable :: bool
  ev_decision :: "route_selection option"
  ev_recommendation :: "route_selection option"
  ev_decision_reasons :: "string list"
  ev_recommendation_reasons :: "string list"
  ev_legacy :: "string list"

definition legacyReasons :: "json \<Rightarrow> string list" where
  "legacyReasons impact = (if selectedLegacyFields impact \<noteq> [] then [''legacy_terminal_route_fields_are_not_authoritative''] else [])"

definition bothReasons :: "json \<Rightarrow> string list" where
  "bothReasons impact = (if hasOwn impact ''stage_route_decision'' \<and> hasOwn impact ''stage_route_recommendation''
     then [''decision_and_recommendation_are_mutually_exclusive''] else [])"

definition decisionReasons :: "json \<Rightarrow> json \<Rightarrow> route_selection option \<times> string list \<Rightarrow> string list \<Rightarrow> string list" where
  "decisionReasons attempt impact decision contextReasons =
     snd decision @ (if hasOwn impact ''stage_route_decision'' then contextReasons else []) @
     (case fst decision of Some d \<Rightarrow> terminalDecisionRejectionReasons attempt impact d | None \<Rightarrow> []) @
     legacyReasons impact @ bothReasons impact"

definition recommendationReasons :: "json \<Rightarrow> route_selection option \<times> string list \<Rightarrow> string list \<Rightarrow> string list" where
  "recommendationReasons impact recommendation contextReasons =
     snd recommendation @ (if hasOwn impact ''stage_route_recommendation'' then contextReasons else []) @
     legacyReasons impact @ bothReasons impact"

definition evaluateStageQualityAttemptRoute :: "json \<Rightarrow> json \<Rightarrow> route_evaluation" where
  "evaluateStageQualityAttemptRoute attempt routeImpact = (let impact = asRecord routeImpact in
     if routeText (fld ''attempt_role'' attempt) = None \<and> \<not> hasRouteOutput impact
     then \<lparr> ev_applicable = False, ev_decision = None, ev_recommendation = None, ev_decision_reasons = [],
       ev_recommendation_reasons = [], ev_legacy = [] \<rparr>
     else (let context = routeContext attempt; declared = distinctStrings (fld ''declared_stage_ids'' context);
       contextReasons = (if hasRouteOutput impact then routeContextRejectionReasons attempt context else []);
       decision = normalizeSelection (fld ''stage_route_decision'' impact) declared False;
       recommendation = normalizeSelection (fld ''stage_route_recommendation'' impact) declared True;
       dr = decisionReasons attempt impact decision contextReasons; rr = recommendationReasons impact recommendation contextReasons in
     \<lparr> ev_applicable = True, ev_decision = (if dr = [] then fst decision else None),
       ev_recommendation = (if rr = [] then fst recommendation else None),
       ev_decision_reasons = uniqueFirst dr, ev_recommendation_reasons = uniqueFirst rr, ev_legacy = selectedLegacyFields impact \<rparr>))"

definition evaluationReasons :: "route_evaluation \<Rightarrow> string list" where
  "evaluationReasons e = ev_decision_reasons e @ ev_recommendation_reasons e"

text \<open>The object the code builds for a selection: \<open>target_stage_id\<close> and \<open>reason\<close> only when there is one.\<close>

definition selectionJson :: "route_selection \<Rightarrow> json" where
  "selectionJson s = JObj ([(''decision_kind'', JStr (routeKindName (rt_kind s)))] @
     (case rt_target s of Some t \<Rightarrow> [(''target_stage_id'', JStr t)] | None \<Rightarrow> []) @
     [(''evidence_refs'', jStrs (rt_evidence s))] @
     (case rt_reason s of Some r \<Rightarrow> [(''reason'', JStr r)] | None \<Rightarrow> []))"

definition delFld :: "string \<Rightarrow> json \<Rightarrow> json" where
  "delFld k v = JObj (AList.delete k (entriesOf v))"

definition putSelection :: "string \<Rightarrow> route_selection option \<Rightarrow> json \<Rightarrow> json" where
  "putSelection k s v = (case s of Some x \<Rightarrow> setFld k (selectionJson x) v | None \<Rightarrow> delFld k v)"

definition sanitizeStageQualityAttemptRouteImpact :: "json \<Rightarrow> json \<Rightarrow> json" where
  "sanitizeStageQualityAttemptRouteImpact attempt routeImpact =
     (let impact = delFld ''stage_route_contract'' (asRecord routeImpact); e = evaluateStageQualityAttemptRoute attempt routeImpact in
     if \<not> ev_applicable e then impact
     else (let out = putSelection ''stage_route_recommendation'' (ev_recommendation e)
            (putSelection ''stage_route_decision'' (ev_decision e) (foldl (\<lambda>v f. delFld f v) impact LEGACY_TERMINAL_ROUTE_FIELDS));
          reasons = evaluationReasons e in
       if reasons = [] then out
       else setFld ''stage_route_contract'' (JObj [(''authority_status'', JStr ''route_output_rejected''),
         (''rejection_reasons'', jStrs (uniqueFirst reasons))]) out))"

definition assertQualityAttemptTerminalRouteSelection :: "json \<Rightarrow> json \<Rightarrow> route_evaluation res" where
  "assertQualityAttemptTerminalRouteSelection attempt routeImpact = (let e = evaluateStageQualityAttemptRoute attempt routeImpact in
     bindE (runChecks [(evaluationReasons e = [],
       ''Stage quality Attempt returned an invalid or non-authoritative cross-Stage route output.'')]) (\<lambda>u. Inr e))"

end
