(* ===== verification/Quality_Facts.thy ===== *)
theory Quality_Facts
  imports Quality_Route
begin

text \<open>
  What the quality cycle promises: a cycle stays within its repair rounds and ends, and a
  re-review passes exactly when every required finding is closed.
\<close>

section \<open>The cycle stays within its budget\<close>

definition wfCycle :: "cycle_state \<Rightarrow> bool" where
  "wfCycle st \<longleftrightarrow> 0 \<le> qc_repair_rounds_used st \<and> qc_repair_rounds_used st \<le> qc_max_repair_rounds st
     \<and> qc_max_repair_rounds st \<le> 3 \<and> sb_max_attempts (qc_scope_budget st) = qc_max_repair_rounds st
     \<and> (case qc_status st of
          Awaiting_Producer \<Rightarrow> qc_current_role st = Some Role_Producer \<and> qc_repair_rounds_used st = 0 \<and> qc_artifacts st = []
        | Awaiting_Review \<Rightarrow> qc_current_role st = Some (if qc_repair_rounds_used st = 0 then Role_Reviewer else Role_Re_Reviewer)
        | Awaiting_Repair \<Rightarrow> qc_current_role st = Some Role_Repairer \<and> qc_repair_rounds_used st < qc_max_repair_rounds st
        | Cycle_Quality_Debt \<Rightarrow> qc_current_role st = None \<and> qc_artifacts st \<noteq> []
        | _ \<Rightarrow> qc_current_role st = None)"

fun runCycle :: "cycle_state \<Rightarrow> cycle_event list \<Rightarrow> cycle_state res" where
  "runCycle st [] = Inr st"
| "runCycle st (e # es) = bindE (reduceStageQualityCycleState st e) (\<lambda>s. runCycle s es)"

fun isRepair :: "cycle_event \<Rightarrow> bool" where
  "isRepair (Repair_Completed refs) = True"
| "isRepair e = False"

fun isReview :: "cycle_event \<Rightarrow> bool" where
  "isReview (Review_Completed v d) = True"
| "isReview e = False"

lemma initialCycle_wf:
  assumes "initialStageQualityCycleState run cycle m b = Inr st"
  shows "wfCycle st" "qc_status st = Awaiting_Producer" "qc_repair_rounds_used st = 0"
proof -
  let ?m = "orElse m (jInt 3)"
  from assms obtain r c b' where i: "isInteger (numOf ?m)" "\<not> jlt (numOf ?m) (jint 0)"
    and n: "normalizeStageQualityScopeBudget b (Some (numOf ?m)) = Inr b'"
    and st: "st = \<lparr> qc_stage_run_id = r, qc_quality_cycle_id = c, qc_max_repair_rounds = intOf ?m, qc_repair_rounds_used = 0,
       qc_current_role = Some Role_Producer, qc_status = Awaiting_Producer, qc_artifacts = [], qc_debt = [],
       qc_scope_budget = b', qc_usage = \<lparr> us_attempts = 0, us_elapsed = 0, us_tokens = None \<rparr>, qc_stop_reason = None \<rparr>"
    by (auto simp: initialStageQualityCycleState_def Let_def)
  have "jeq (jint (sb_max_attempts b')) (numOf ?m)" "wfBudget b'" using normalizeBudget_Inr [OF n] by simp_all
  then have "intOf ?m = sb_max_attempts b'" by (auto simp: intOf_def jeq_def jint_def split: jsnum.splits dest: sym)
  with \<open>wfBudget b'\<close> show "wfCycle st" "qc_status st = Awaiting_Producer" "qc_repair_rounds_used st = 0"
    by (simp_all add: st wfCycle_def wfBudget_def)
qed

lemma reduce_Inr:
  assumes "reduceStageQualityCycleState st e = Inr st'"
  obtains (producer) refs rs where "e = Producer_Completed refs" "qc_status st = Awaiting_Producer"
      "st' = st\<lparr> qc_status := Awaiting_Review, qc_current_role := Some Role_Reviewer, qc_artifacts := rs \<rparr>"
    | (repair) refs rs where "e = Repair_Completed refs" "qc_status st = Awaiting_Repair"
      "st' = st\<lparr> qc_repair_rounds_used := qc_repair_rounds_used st + 1, qc_status := Awaiting_Review,
         qc_current_role := Some Role_Re_Reviewer, qc_artifacts := rs \<rparr>"
    | (stop) "\<not> isRepair e" "\<not> terminalStatus (qc_status st)" "st' = hardStopped st"
    | (pass) d where "e = Review_Completed Verdict_Pass d" "\<not> terminalStatus (qc_status st)"
      "st' = st\<lparr> qc_status := Cycle_Passed, qc_current_role := None \<rparr>"
    | (debt) v d ds where "e = Review_Completed v d" "\<not> terminalStatus (qc_status st)" "qc_artifacts st \<noteq> []"
      "v = Verdict_Quality_Debt \<or> qc_max_repair_rounds st \<le> qc_repair_rounds_used st"
      "st' = st\<lparr> qc_status := Cycle_Quality_Debt, qc_current_role := None, qc_debt := ds \<rparr>"
    | (again) d ds where "e = Review_Completed Verdict_Repair_Required d" "\<not> terminalStatus (qc_status st)"
      "qc_repair_rounds_used st < qc_max_repair_rounds st"
      "st' = st\<lparr> qc_status := Awaiting_Repair, qc_current_role := Some Role_Repairer, qc_debt := ds \<rparr>"
proof (cases e)
  case (Producer_Completed refs)
  with assms have "qc_status st = Awaiting_Producer" "\<exists>rs. st' = st\<lparr> qc_status := Awaiting_Review, qc_current_role := Some Role_Reviewer, qc_artifacts := rs \<rparr>"
    by (auto split: if_splits)
  with Producer_Completed producer show ?thesis by blast
next
  case (Repair_Completed refs)
  with assms have "qc_status st = Awaiting_Repair" "\<exists>rs. st' = st\<lparr> qc_repair_rounds_used := qc_repair_rounds_used st + 1,
      qc_status := Awaiting_Review, qc_current_role := Some Role_Re_Reviewer, qc_artifacts := rs \<rparr>"
    by (auto split: if_splits)
  with Repair_Completed repair show ?thesis by blast
next
  case Hard_Stop
  with assms have "\<not> terminalStatus (qc_status st)" "st' = hardStopped st" by (auto split: if_splits)
  with Hard_Stop stop show ?thesis by simp
next
  case (Review_Completed v d)
  with assms have t: "\<not> terminalStatus (qc_status st)" by (auto split: if_splits)
  show ?thesis
  proof (cases v)
    case Verdict_Pass
    with assms Review_Completed have "st' = st\<lparr> qc_status := Cycle_Passed, qc_current_role := None \<rparr>" by (auto split: if_splits)
    with Verdict_Pass Review_Completed t pass show ?thesis by simp
  next
    case Verdict_Hard_Stop
    with assms Review_Completed have "st' = hardStopped st" by (auto split: if_splits)
    with Review_Completed t stop show ?thesis by simp
  next
    case Verdict_Quality_Debt
    with assms Review_Completed have "st' = hardStopped st \<or> qc_artifacts st \<noteq> []
        \<and> (\<exists>ds. st' = st\<lparr> qc_status := Cycle_Quality_Debt, qc_current_role := None, qc_debt := ds \<rparr>)"
      by (auto split: if_splits)
    with Verdict_Quality_Debt Review_Completed t stop debt [of v d] show ?thesis by auto
  next
    case Verdict_Repair_Required
    note e = Review_Completed [unfolded Verdict_Repair_Required]
    show ?thesis
    proof (cases "qc_repair_rounds_used st < qc_max_repair_rounds st")
      case True
      with assms e have "\<exists>ds. st' = st\<lparr> qc_status := Awaiting_Repair, qc_current_role := Some Role_Repairer, qc_debt := ds \<rparr>"
        by (auto split: if_splits)
      with e t True again [of d] show ?thesis by blast
    next
      case False
      with assms e have "st' = hardStopped st \<or> qc_artifacts st \<noteq> []
          \<and> (\<exists>ds. st' = st\<lparr> qc_status := Cycle_Quality_Debt, qc_current_role := None, qc_debt := ds \<rparr>)"
        by (simp split: if_splits) blast+
      with e t False stop debt [of Verdict_Repair_Required d] show ?thesis by auto
    qed
  qed
qed

lemma reduce_wf:
  assumes "wfCycle st" "reduceStageQualityCycleState st e = Inr st'"
  shows "wfCycle st'" "qc_repair_rounds_used st' = qc_repair_rounds_used st + (if isRepair e then 1 else 0)"
    "qc_max_repair_rounds st' = qc_max_repair_rounds st" "\<not> terminalStatus (qc_status st)"
  using reduce_Inr [OF assms(2)]
  by (cases; use assms(1) in \<open>simp add: wfCycle_def hardStopped_def terminalStatus_def\<close>)+

lemma runCycle_wf:
  assumes "wfCycle st" "runCycle st es = Inr st'"
  shows "wfCycle st' \<and> qc_repair_rounds_used st' = qc_repair_rounds_used st + int (length (filter isRepair es))
    \<and> qc_max_repair_rounds st' = qc_max_repair_rounds st"
  using assms
proof (induction es arbitrary: st)
  case (Cons e es)
  then obtain s where s: "reduceStageQualityCycleState st e = Inr s" "runCycle s es = Inr st'" by auto
  from Cons.IH [OF reduce_wf(1) [OF Cons.prems(1) s(1)] s(2)] reduce_wf(2, 3) [OF Cons.prems(1) s(1)] show ?case by auto
qed simp

text \<open>A finished cycle accepts nothing more.\<close>

lemma terminal_rejects: "terminalStatus (qc_status st) \<Longrightarrow> reduceStageQualityCycleState st e = fail ''Terminal Stage quality cycle cannot consume another event.''"
  by (cases e) simp_all

text \<open>
  Reviews are not checked for their place, so a bound on the length of a run needs them to
  come when one is awaited.
\<close>

fun inOrder :: "cycle_state \<Rightarrow> cycle_event list \<Rightarrow> bool" where
  "inOrder st [] \<longleftrightarrow> True"
| "inOrder st (e # es) \<longleftrightarrow> (isReview e \<longrightarrow> qc_status st = Awaiting_Review)
     \<and> (case reduceStageQualityCycleState st e of Inl x \<Rightarrow> False | Inr s \<Rightarrow> inOrder s es)"

fun cycleLeft :: "cycle_state \<Rightarrow> int" where
  "cycleLeft st = (let r = 2 * (qc_max_repair_rounds st - qc_repair_rounds_used st) in
     case qc_status st of Awaiting_Producer \<Rightarrow> r + 2 | Awaiting_Review \<Rightarrow> r + 1 | Awaiting_Repair \<Rightarrow> r | _ \<Rightarrow> 0)"

lemma reduce_decreases:
  assumes "wfCycle st" "reduceStageQualityCycleState st e = Inr st'" "isReview e \<longrightarrow> qc_status st = Awaiting_Review"
  shows "cycleLeft st' < cycleLeft st"
  using reduce_Inr [OF assms(2)]
  by (cases; use assms(1, 3) in \<open>auto simp: wfCycle_def hardStopped_def terminalStatus_def Let_def split: cycle_status.splits\<close>)

lemma cycleLeft_nonneg: "wfCycle st \<Longrightarrow> 0 \<le> cycleLeft st"
  by (auto simp: wfCycle_def Let_def split: cycle_status.splits)

lemma inOrder_bounded:
  assumes "wfCycle st" "inOrder st es"
  shows "int (length es) \<le> cycleLeft st"
  using assms
proof (induction es arbitrary: st)
  case Nil
  then show ?case using cycleLeft_nonneg by (simp del: cycleLeft.simps)
next
  case (Cons e es)
  then obtain s where s: "reduceStageQualityCycleState st e = Inr s" "inOrder s es" "isReview e \<longrightarrow> qc_status st = Awaiting_Review"
    by (auto split: sum.splits)
  have "int (length es) \<le> cycleLeft s" by (rule Cons.IH [OF reduce_wf(1) [OF Cons.prems(1) s(1)] s(2)])
  with reduce_decreases [OF Cons.prems(1) s(1, 3)] show ?case by (simp del: cycleLeft.simps)
qed

lemma inOrder_runs: "inOrder st es \<Longrightarrow> \<exists>s. runCycle st es = Inr s"
  by (induction es arbitrary: st) (auto split: sum.splits)

text \<open>A cycle that is not finished can always be stopped.\<close>

lemma cycle_stops: "\<not> terminalStatus (qc_status st) \<Longrightarrow>
    \<exists>e s. inOrder st [e] \<and> reduceStageQualityCycleState st e = Inr s \<and> terminalStatus (qc_status s)"
  by (intro exI [of _ Hard_Stop]) (simp add: hardStopped_def terminalStatus_def)

section \<open>Findings and their closure\<close>

lemma firstDuplicate_None: "firstDuplicate seen ss = None \<longleftrightarrow> distinct ss \<and> set ss \<inter> set seen = {}"
  by (induction seen ss rule: firstDuplicate.induct) auto

lemma firstDuplicate_in: "firstDuplicate seen ss = Some s \<Longrightarrow> s \<in> set ss"
  by (induction seen ss rule: firstDuplicate.induct) (auto split: if_splits)

lemma uniqueIds_distinct:
  assumes "uniqueIds ss f = Inr u" "[] \<notin> set ss"
  shows "distinct ss"
proof (cases "firstDuplicate [] ss")
  case (Some s)
  with firstDuplicate_in [OF Some] assms show ?thesis by (auto simp: uniqueIds_def)
qed (simp add: firstDuplicate_None)

lemma seqE_map_both:
  assumes "seqE (map f xs) = Inr ys"
  shows "\<And>x. x \<in> set xs \<Longrightarrow> \<exists>y \<in> set ys. f x = Inr y" "\<And>y. y \<in> set ys \<Longrightarrow> \<exists>x \<in> set xs. f x = Inr y"
proof -
  from assms have l: "map f xs = map Inr ys" by (simp add: seqE_Inr_iff)
  fix x assume "x \<in> set xs"
  then have "f x \<in> set (map Inr ys)" unfolding l [symmetric] by simp
  then show "\<exists>y \<in> set ys. f x = Inr y" by auto
next
  from assms have l: "map f xs = map Inr ys" by (simp add: seqE_Inr_iff)
  fix y assume "y \<in> set ys"
  then have "Inr y \<in> set (map f xs)" unfolding l by simp
  then show "\<exists>x \<in> set xs. f x = Inr y" by auto
qed

lemma requiredText_Inr: "requiredText v f = Inr s \<longleftrightarrow> nonBlank v \<and> s = trimmed v"
  by (auto simp: requiredText_def runChecks_ok)

lemma evidenceRefs_Inr: "evidenceRefStrings v f False = Inr refs \<Longrightarrow> arrOf v \<noteq> [] \<and> (\<forall>e \<in> set (arrOf v). citedRef e \<noteq> None)"
  by (auto simp: evidenceRefStrings_def list_all_iff)

definition rawId :: "json \<Rightarrow> string" where
  "rawId e = trimmed (fld ''finding_id'' e)"

lemma setFlds_Cons: "setFlds ((k, x) # kvs) v = setFlds kvs (setFld k x v)"
  by (simp add: setFlds_def)

lemma setFlds_Nil: "setFlds [] v = v"
  by (simp add: setFlds_def)

lemma fld_id_JStr [simp]: "strOf (JStr s) = s"
  by (simp add: strOf_def)

lemma findingOf_Inr:
  assumes "findingOf e = Inr g"
  shows "idOf g = rawId e" "rawId e \<noteq> []" "fld ''required'' g = fld ''required'' e" "fld ''severity'' g = fld ''severity'' e"
    "isBool (fld ''required'' e)" "arrOf (fld ''evidence_refs'' e) \<noteq> []"
  using assms evidenceRefs_Inr
  by (fastforce simp: findingOf_def requiredText_Inr setFlds_Cons setFlds_Nil idOf_def rawId_def nonBlank_def)+

lemma closureOf_Inr:
  assumes "closureOf ids e = Inr g"
  shows "idOf g = rawId e" "rawId e \<noteq> []" "rawId e \<in> set ids" "fld ''status'' g = fld ''status'' e" "arrOf (fld ''evidence_refs'' e) \<noteq> []"
  using assms evidenceRefs_Inr
  by (fastforce simp: closureOf_def requiredText_Inr setFlds_Cons setFlds_Nil idOf_def rawId_def nonBlank_def)+

lemma repairOf_Inr:
  assumes "repairOf ids e = Inr g"
  shows "idOf g = rawId e" "rawId e \<in> set ids" "arrOf (fld ''repair_evidence_refs'' e) \<noteq> []"
  using assms evidenceRefs_Inr
  by (fastforce simp: repairOf_def requiredText_Inr setFlds_Cons setFlds_Nil idOf_def rawId_def nonBlank_def)+

lemma seqE_map_map:
  assumes "seqE (map f xs) = Inr ys" "\<And>x y. f x = Inr y \<Longrightarrow> p y = q x"
  shows "map p ys = map q xs"
proof -
  from assms(1) have "map f xs = map Inr ys" by (simp add: seqE_Inr_iff)
  then have "list_all2 (\<lambda>x y. f x = Inr y) xs ys" by (simp add: list_all2_conv_all_nth list_eq_iff_nth_eq)
  then show ?thesis by (induction rule: list_all2_induct) (use assms(2) in auto)
qed

text \<open>The ids of the required findings of a document, trimmed as the code compares them.\<close>

definition rawRequired :: "json \<Rightarrow> string set" where
  "rawRequired v = rawId ` {f \<in> set (arrOf v). fld ''required'' f = JBool True}"

lemma findings_Inr:
  assumes "validateStageQualityFindings v = Inr fs"
  shows "map idOf fs = map rawId (arrOf v)" "set (requiredIds fs) = rawRequired v" "[] \<notin> set (map idOf fs)" "distinct (map idOf fs)"
    "map (\<lambda>f. boolOf (fld ''required'' f)) fs = map (\<lambda>f. boolOf (fld ''required'' f)) (arrOf v)"
proof -
  from assms have s: "seqE (map findingOf (arrOf v)) = Inr fs" and d: "uniqueIds (map idOf fs) ''findings'' = Inr ()"
    by (auto simp: validateStageQualityFindings_def)
  show "map idOf fs = map rawId (arrOf v)" by (rule seqE_map_map [OF s findingOf_Inr(1)])
  have "map (\<lambda>f. boolOf (fld ''required'' f)) fs = map (\<lambda>f. boolOf (fld ''required'' f)) (arrOf v)"
    by (rule seqE_map_map [OF s]) (simp add: findingOf_Inr(3))
  then show "map (\<lambda>f. boolOf (fld ''required'' f)) fs = map (\<lambda>f. boolOf (fld ''required'' f)) (arrOf v)" .
  have b: "boolOf x \<longleftrightarrow> x = JBool True" if "isBool x" for x using that by (auto simp: boolOf_def isBool_def split: json.splits)
  have "set (requiredIds fs) = idOf ` {g \<in> set fs. boolOf (fld ''required'' g)}" by (auto simp: requiredIds_def)
  also have "\<dots> = rawRequired v"
  proof (rule set_eqI, rule iffI)
    fix i assume "i \<in> idOf ` {g \<in> set fs. boolOf (fld ''required'' g)}"
    then obtain g where g: "g \<in> set fs" "boolOf (fld ''required'' g)" "i = idOf g" by blast
    from seqE_map_both(2) [OF s g(1)] obtain f where f: "f \<in> set (arrOf v)" "findingOf f = Inr g" by blast
    with g b findingOf_Inr [OF f(2)] show "i \<in> rawRequired v" by (auto simp: rawRequired_def)
  next
    fix i assume "i \<in> rawRequired v"
    then obtain f where f: "f \<in> set (arrOf v)" "fld ''required'' f = JBool True" "i = rawId f" by (auto simp: rawRequired_def)
    from seqE_map_both(1) [OF s f(1)] obtain g where g: "g \<in> set fs" "findingOf f = Inr g" by blast
    with f findingOf_Inr [OF g(2)] show "i \<in> idOf ` {g \<in> set fs. boolOf (fld ''required'' g)}"
      by (intro rev_image_eqI [of g]) (simp_all add: boolOf_def)
  qed
  finally show "set (requiredIds fs) = rawRequired v" .
  show n: "[] \<notin> set (map idOf fs)" using seqE_map_both(2) [OF s] findingOf_Inr(1, 2) by fastforce
  show "distinct (map idOf fs)" by (rule uniqueIds_distinct [OF d n])
qed

lemma rawId_again: "findingOf e = Inr g \<Longrightarrow> rawId g = rawId e"
  using findingOf_Inr(1) [of e g] by (fastforce simp: findingOf_def requiredText_Inr setFlds_Cons setFlds_Nil rawId_def trimmed_def)

lemma rawRequired_again:
  assumes "validateStageQualityFindings v = Inr fs"
  shows "rawRequired (JArr fs) = rawRequired v"
proof -
  from assms have s: "seqE (map findingOf (arrOf v)) = Inr fs" by (auto simp: validateStageQualityFindings_def)
  have "map (\<lambda>f. (rawId f, fld ''required'' f)) fs = map (\<lambda>f. (rawId f, fld ''required'' f)) (arrOf v)"
    by (rule seqE_map_map [OF s]) (simp add: findingOf_Inr(3) rawId_again)
  then have "set (map (\<lambda>f. (rawId f, fld ''required'' f)) fs) = set (map (\<lambda>f. (rawId f, fld ''required'' f)) (arrOf v))" by simp
  then have "(\<lambda>f. (rawId f, fld ''required'' f)) ` set fs = (\<lambda>f. (rawId f, fld ''required'' f)) ` set (arrOf v)" by simp
  moreover have "rawRequired w = fst ` {p \<in> (\<lambda>f. (rawId f, fld ''required'' f)) ` set (arrOf w). snd p = JBool True}" for w
    by (force simp: rawRequired_def)
  ultimately show ?thesis by (simp add: arrOf_def)
qed

lemma repairMap_covers:
  assumes "validateStageQualityRepairMap findings repairs = Inr rs"
  shows "rawId ` set (arrOf repairs) = rawRequired findings"
proof -
  from assms obtain fs where f: "validateStageQualityFindings findings = Inr fs"
    and s: "seqE (map (repairOf (requiredIds fs)) (arrOf repairs)) = Inr rs" and c: "coversAll (requiredIds fs) rs"
    by (auto simp: validateStageQualityRepairMap_def)
  have m: "map idOf rs = map rawId (arrOf repairs)" by (rule seqE_map_map [OF s repairOf_Inr(1)])
  have "rawId ` set (arrOf repairs) = set (map idOf rs)" unfolding m by simp
  also have "\<dots> = set (requiredIds fs)"
    using c seqE_map_both(2) [OF s] repairOf_Inr(1, 2) by (fastforce simp: coversAll_def list_all_iff list_ex_iff)
  finally show ?thesis using findings_Inr(2) [OF f] by simp
qed

definition closuresOf :: "json \<Rightarrow> json list" where
  "closuresOf review = arrOf (fld ''finding_closures'' review)"

text \<open>One closure for each required finding, one repair for each, and what is left open.\<close>

lemma closure_Inr:
  assumes "evaluateStageQualityFindingClosure findings repairs review = Inr c"
  shows "rawId ` set (arrOf repairs) = rawRequired findings" "rawId ` set (closuresOf review) = rawRequired findings"
    "distinct (map rawId (closuresOf review))" "\<And>k. k \<in> set (closuresOf review) \<Longrightarrow> arrOf (fld ''evidence_refs'' k) \<noteq> []"
    "fc_open c = map rawId (filter (\<lambda>k. fld ''status'' k \<noteq> JStr ''closed'') (closuresOf review))"
    "fc_regressions c = map rawId (arrOf (fld ''repair_regressions'' review))"
    "fc_critical_new c = map rawId (arrOf (fld ''critical_new_findings'' review))"
    "fc_trigger_repair c \<longleftrightarrow> fc_open c \<noteq> [] \<or> fc_regressions c \<noteq> [] \<or> fc_critical_new c \<noteq> []"
proof -
  from assms obtain fs u ks rs cs os where f: "validateStageQualityFindings findings = Inr fs"
    and r: "validateStageQualityRepairMap (JArr fs) repairs = Inr u"
    and k: "seqE (map (closureOf (requiredIds fs)) (arrOf (fld ''finding_closures'' review))) = Inr ks"
    and d: "uniqueIds (map idOf ks) ''finding_closures'' = Inr ()" and cov: "coversAll (requiredIds fs) ks"
    and n: "validateStageQualityFindings (fld ''repair_regressions'' review) = Inr rs"
      "validateStageQualityFindings (fld ''critical_new_findings'' review) = Inr cs"
    and c: "c = \<lparr> fc_trigger_repair = (map idOf (filter (\<lambda>k. fld ''status'' k \<noteq> JStr ''closed'') ks) \<noteq> [] \<or> rs \<noteq> [] \<or> cs \<noteq> []),
      fc_open = map idOf (filter (\<lambda>k. fld ''status'' k \<noteq> JStr ''closed'') ks),
      fc_regressions = map idOf rs, fc_critical_new = map idOf cs, fc_observations = os \<rparr>"
    unfolding evaluateStageQualityFindingClosure_def Let_def by (auto simp del: filter_empty_conv)
  show "rawId ` set (arrOf repairs) = rawRequired findings"
    using repairMap_covers [OF r] rawRequired_again [OF f] by simp
  have m: "map idOf ks = map rawId (closuresOf review)" unfolding closuresOf_def by (rule seqE_map_map [OF k closureOf_Inr(1)])
  have "rawId ` set (closuresOf review) = set (map idOf ks)" unfolding m by simp
  also have "\<dots> = set (requiredIds fs)"
    using cov seqE_map_both(2) [OF k] closureOf_Inr(1, 3) by (fastforce simp: coversAll_def list_all_iff list_ex_iff)
  finally show "rawId ` set (closuresOf review) = rawRequired findings" using findings_Inr(2) [OF f] by simp
  have "[] \<notin> set (map idOf ks)" using seqE_map_both(2) [OF k] closureOf_Inr(1, 2) by fastforce
  from uniqueIds_distinct [OF d this] show "distinct (map rawId (closuresOf review))" unfolding m .
  show "\<And>x. x \<in> set (closuresOf review) \<Longrightarrow> arrOf (fld ''evidence_refs'' x) \<noteq> []"
    using seqE_map_both(1) [OF k] closureOf_Inr(5) unfolding closuresOf_def by blast
  have "map (\<lambda>x. (idOf x, fld ''status'' x)) ks = map (\<lambda>x. (rawId x, fld ''status'' x)) (closuresOf review)"
    unfolding closuresOf_def by (rule seqE_map_map [OF k]) (simp add: closureOf_Inr(1, 4))
  then have "map fst (filter (\<lambda>p. snd p \<noteq> JStr ''closed'') (map (\<lambda>x. (idOf x, fld ''status'' x)) ks))
      = map fst (filter (\<lambda>p. snd p \<noteq> JStr ''closed'') (map (\<lambda>x. (rawId x, fld ''status'' x)) (closuresOf review)))" by simp
  then show "fc_open c = map rawId (filter (\<lambda>k. fld ''status'' k \<noteq> JStr ''closed'') (closuresOf review))"
    unfolding c by (simp add: filter_map comp_def)
  show "fc_regressions c = map rawId (arrOf (fld ''repair_regressions'' review))"
    "fc_critical_new c = map rawId (arrOf (fld ''critical_new_findings'' review))"
    using findings_Inr(1) [OF n(1)] findings_Inr(1) [OF n(2)] by (simp_all add: c)
  show "fc_trigger_repair c \<longleftrightarrow> fc_open c \<noteq> [] \<or> fc_regressions c \<noteq> [] \<or> fc_critical_new c \<noteq> []"
    by (simp add: c)
qed

lemma reReview_pass: "validateStageQualityReReviewOutcome Outcome_Pass c = Inr x \<longleftrightarrow> x = Outcome_Pass \<and> \<not> fc_trigger_repair c"
  by (auto simp: validateStageQualityReReviewOutcome_def)

text \<open>A re-review may pass exactly when everything required is closed and nothing new is required.\<close>

lemma no_trigger_iff:
  assumes "evaluateStageQualityFindingClosure findings repairs review = Inr c"
  shows "\<not> fc_trigger_repair c \<longleftrightarrow>
    (\<forall>i \<in> rawRequired findings. \<exists>k \<in> set (closuresOf review). rawId k = i \<and> fld ''status'' k = JStr ''closed'')
    \<and> arrOf (fld ''repair_regressions'' review) = [] \<and> arrOf (fld ''critical_new_findings'' review) = []"
proof -
  note c = closure_Inr [OF assms]
  have "fc_open c = [] \<longleftrightarrow> (\<forall>k \<in> set (closuresOf review). fld ''status'' k = JStr ''closed'')" unfolding c(5) by (auto simp: filter_empty_conv)
  also have "\<dots> \<longleftrightarrow> (\<forall>i \<in> rawRequired findings. \<exists>k \<in> set (closuresOf review). rawId k = i \<and> fld ''status'' k = JStr ''closed'')"
  proof (intro iffI ballI)
    fix i assume a: "\<forall>k \<in> set (closuresOf review). fld ''status'' k = JStr ''closed''" "i \<in> rawRequired findings"
    from a(2) obtain k where "k \<in> set (closuresOf review)" "i = rawId k" unfolding c(2) [symmetric] by blast
    with a(1) show "\<exists>k \<in> set (closuresOf review). rawId k = i \<and> fld ''status'' k = JStr ''closed''" by blast
  next
    fix k assume a: "\<forall>i \<in> rawRequired findings. \<exists>k \<in> set (closuresOf review). rawId k = i \<and> fld ''status'' k = JStr ''closed''"
      "k \<in> set (closuresOf review)"
    then have "rawId k \<in> rawRequired findings" unfolding c(2) [symmetric] by blast
    with a(1) obtain k' where k': "k' \<in> set (closuresOf review)" "rawId k' = rawId k" "fld ''status'' k' = JStr ''closed''" by blast
    with a(2) c(3) have "k' = k" by (auto simp: distinct_map dest: inj_onD)
    with k'(3) show "fld ''status'' k = JStr ''closed''" by simp
  qed
  finally show ?thesis unfolding c(8) c(6) c(7) by auto
qed

end
