(* ===== verification/Route_Facts.thy ===== *)
theory Route_Facts
  imports Quality_Facts
begin

text \<open>
  What the route of a quality attempt promises: a decision comes from a decisive role whose
  outcome ends the Stage, and the sanitised output carries an accepted decision or
  recommendation and nothing else.
\<close>

section \<open>Selections\<close>

lemma reasonsOf_Nil [simp]: "reasonsOf rs = [] \<longleftrightarrow> list_all (\<lambda>p. \<not> fst p) rs"
  by (simp add: reasonsOf_def filter_empty_conv list_all_iff)

lemma uniqueFirst_distinct: "distinct (uniqueFirst ss)" "distinct ss \<Longrightarrow> uniqueFirst ss = ss"
  by (simp_all add: uniqueFirst_def distinct_remdups_id)

lemma uniqueFirst_Nil [simp]: "uniqueFirst ss = [] \<longleftrightarrow> ss = []"
  by (simp add: uniqueFirst_def)

lemma routeText_Some: "routeText v = Some s \<Longrightarrow> s \<noteq> [] \<and> trim s = s"
  by (auto simp: routeText_def nonBlank_def trimmed_def split: if_splits)

lemma routeText_JStr [simp]: "s \<noteq> [] \<Longrightarrow> trim s = s \<Longrightarrow> routeText (JStr s) = Some s"
  by (simp add: routeText_def nonBlank_def trimmed_def isStr_def)

lemma routeText_plain [simp]: "routeText JUndef = None" "routeText JNull = None"
  by (simp_all add: routeText_def nonBlank_def isStr_def)

lemma trim_kind [simp]: "trim (routeKindName k) = routeKindName k" "routeKindName k \<noteq> []"
  by (cases k; simp add: trim_def isWs_def)+

lemma routeKindOf_name [simp]: "routeKindOf (Some (routeKindName k)) = Some k"
  by (cases k) (simp_all add: routeKindOf_def STAGE_ROUTE_DECISION_KINDS_def)

lemma routeKindOf_Some: "routeKindOf t = Some k \<Longrightarrow> t = Some (routeKindName k)"
  by (auto simp: routeKindOf_def find_Some_iff)

lemma routeKindName_complete: "routeKindName k = ''complete'' \<longleftrightarrow> k = Route_Complete"
  by (cases k) simp_all

lemma citedRef_Some: "citedRef e = Some s \<Longrightarrow> s \<noteq> [] \<and> trim s = s"
  by (auto simp: citedRef_def nonBlank_def trimmed_def split: if_splits)

lemma evidence_texts: "s \<in> set (evidenceRefList v) \<Longrightarrow> s \<noteq> [] \<and> trim s = s"
  by (auto simp: evidenceRefList_def List.map_filter_def dest: citedRef_Some)

lemma evidence_again:
  assumes "\<forall>s \<in> set ss. s \<noteq> [] \<and> trim s = s" "distinct ss"
  shows "evidenceRefList (jStrs ss) = ss"
proof -
  have "List.map_filter citedRef (map JStr ss) = ss" using assms(1)
    by (induction ss) (simp_all add: List.map_filter_simps citedRef_def nonBlank_def isStr_def trimmed_def)
  with assms(2) show ?thesis by (simp add: evidenceRefList_def jStrs_def arrOf_def uniqueFirst_distinct)
qed

text \<open>What a normalised selection looks like among the declared Stages.\<close>

definition wfSelection :: "string list \<Rightarrow> bool \<Rightarrow> route_selection \<Rightarrow> bool" where
  "wfSelection declared recommendation s \<longleftrightarrow> (rt_target s = None \<longleftrightarrow> rt_kind s = Route_Complete)
     \<and> (\<forall>t \<in> set_option (rt_target s). t \<in> set declared \<and> t \<noteq> [] \<and> trim t = t)
     \<and> rt_evidence s \<noteq> [] \<and> distinct (rt_evidence s) \<and> (\<forall>e \<in> set (rt_evidence s). e \<noteq> [] \<and> trim e = e)
     \<and> (rt_reason s \<noteq> None \<longleftrightarrow> recommendation) \<and> (\<forall>r \<in> set_option (rt_reason s). r \<noteq> [] \<and> trim r = r)"

lemma normalizeSelection_Some:
  assumes "fst (normalizeSelection v declared recommendation) = Some s"
  shows "wfSelection declared recommendation s" "snd (normalizeSelection v declared recommendation) = []"
proof -
  let ?v = "asRecord v"
  from assms obtain k where k: "routeKindOf (routeText (fld ''decision_kind'' ?v)) = Some k"
    and r: "selectionReasons ?v declared recommendation = []"
    and s: "s = \<lparr> rt_kind = k, rt_target = routeText (fld ''target_stage_id'' ?v), rt_evidence = evidenceRefList (fld ''evidence_refs'' ?v),
            rt_reason = (if recommendation then routeText (fld ''reason'' ?v) else None) \<rparr>"
    and n: "normalizeSelection v declared recommendation = (Some s, [])"
    by (auto simp: normalizeSelection_def Let_def split: if_splits option.splits)
  show "snd (normalizeSelection v declared recommendation) = []" using n by simp
  have t: "rt_target s = None \<longleftrightarrow> k = Route_Complete" "\<forall>t \<in> set_option (rt_target s). t \<in> set declared"
    using r routeKindOf_Some [OF k]
    by (auto simp: s selectionReasons_def targetReasons_def Let_def routeKindName_complete split: if_splits option.splits)
  show "wfSelection declared recommendation s"
    using r t routeText_Some evidence_texts unfolding wfSelection_def
    by (auto simp: s selectionReasons_def Let_def evidenceRefList_def uniqueFirst_distinct split: if_splits)
qed

lemma selection_again:
  assumes "wfSelection declared recommendation s"
  shows "normalizeSelection (selectionJson s) declared recommendation = (Some s, [])"
proof -
  note w = assms [unfolded wfSelection_def]
  have f: "fld ''decision_kind'' (selectionJson s) = JStr (routeKindName (rt_kind s))"
    "fld ''target_stage_id'' (selectionJson s) = (case rt_target s of Some t \<Rightarrow> JStr t | None \<Rightarrow> JUndef)"
    "fld ''evidence_refs'' (selectionJson s) = jStrs (rt_evidence s)"
    "fld ''reason'' (selectionJson s) = (case rt_reason s of Some r \<Rightarrow> JStr r | None \<Rightarrow> JUndef)"
    by (simp_all add: selectionJson_def split: option.splits)
  have t: "routeText (fld ''target_stage_id'' (selectionJson s)) = rt_target s"
    unfolding f using w by (cases "rt_target s") simp_all
  have q: "routeText (fld ''reason'' (selectionJson s)) = rt_reason s"
    unfolding f using w by (cases "rt_reason s") simp_all
  have e: "evidenceRefList (fld ''evidence_refs'' (selectionJson s)) = rt_evidence s" unfolding f using w by (intro evidence_again) auto
  have k: "routeText (fld ''decision_kind'' (selectionJson s)) = Some (routeKindName (rt_kind s))" by (simp add: f)
  have keys: "objKeys (selectionJson s) \<noteq> []" "\<forall>x \<in> set (objKeys (selectionJson s)). x \<in> set (allowedSelectionFields recommendation)"
    using conjunct1 [OF conjunct2 [OF conjunct2 [OF conjunct2 [OF conjunct2 [OF conjunct2 [OF w]]]]]]
    by (cases "rt_target s"; cases "rt_reason s"; simp add: selectionJson_def objKeys_def entriesOf_def allowedSelectionFields_def)+
  have "targetReasons (Some (routeKindName (rt_kind s))) (rt_target s) declared = []"
    using w by (cases "rt_target s") (simp_all add: targetReasons_def routeKindName_complete)
  then have r: "selectionReasons (selectionJson s) declared recommendation = []"
    using w keys unfolding selectionReasons_def Let_def k t e q by (simp add: list_ex_iff)
  have a: "asRecord (selectionJson s) = selectionJson s" "selectionJson s \<noteq> JUndef" "selectionJson s \<noteq> JNull"
    by (simp_all add: asRecord_def selectionJson_def isRecord_def)
  have x: "\<not> recommendation \<longrightarrow> \<lparr> rt_kind = rt_kind s, rt_target = rt_target s, rt_evidence = rt_evidence s, rt_reason = None \<rparr> = s"
    using w by (cases s) auto
  show ?thesis unfolding normalizeSelection_def Let_def a(1) r k t e q routeKindOf_name using a x by simp
qed

section \<open>The route of an attempt\<close>

lemma hasOwn_map_of: "hasOwn v k \<longleftrightarrow> map_of (entriesOf v) k \<noteq> None"
  by (simp add: hasOwn_def objKeys_def map_of_eq_None_iff)

lemma hasOwn_setFld [simp]: "hasOwn (setFld k w v) j \<longleftrightarrow> j = k \<or> hasOwn v j"
  by (simp add: hasOwn_map_of setFld_def entriesOf_def update_conv)

lemma hasOwn_delFld [simp]: "hasOwn (delFld k v) j \<longleftrightarrow> j \<noteq> k \<and> hasOwn v j"
  by (simp add: hasOwn_map_of delFld_def entriesOf_def delete_conv)

lemma fld_delFld [simp]: "fld j (delFld k v) = (if j = k then JUndef else fld j v)"
  by (simp add: delFld_def fld_def entriesOf_def delete_conv)

lemma fld_own: "fld k v \<noteq> JUndef \<Longrightarrow> hasOwn v k"
  by (simp add: fld_def hasOwn_map_of split: option.splits)

lemma isRecord_out [simp]: "isRecord (setFld k w v)" "isRecord (delFld k v)"
  by (simp_all add: isRecord_def setFld_def delFld_def)

lemma asRecord_id [simp]: "isRecord v \<Longrightarrow> asRecord v = v"
  by (simp add: asRecord_def)

lemma normalizeSelection_absent [simp]: "normalizeSelection JUndef declared recommendation = (None, [])"
  by (simp add: normalizeSelection_def)

abbreviation declaredStages :: "json \<Rightarrow> string list" where
  "declaredStages attempt \<equiv> distinctStrings (fld ''declared_stage_ids'' (routeContext attempt))"

abbreviation decisiveRoles :: "json \<Rightarrow> string list" where
  "decisiveRoles attempt \<equiv> distinctStrings (fld ''configured_decisive_attempt_roles'' (routeContext attempt))"

text \<open>An accepted decision stands alone, in a valid context, and no test of its role's outcome objects to it.\<close>

lemma decision_Some:
  assumes "ev_decision (evaluateStageQualityAttemptRoute attempt x) = Some d"
  defines "impact \<equiv> asRecord x"
  shows "normalizeSelection (fld ''stage_route_decision'' impact) (declaredStages attempt) False = (Some d, [])"
    "hasOwn impact ''stage_route_decision''" "\<not> hasOwn impact ''stage_route_recommendation''"
    "routeContextRejectionReasons attempt (routeContext attempt) = []"
    "terminalDecisionRejectionReasons attempt impact d = []" "selectedLegacyFields impact = []"
    "evaluationReasons (evaluateStageQualityAttemptRoute attempt x) = []"
    "ev_recommendation (evaluateStageQualityAttemptRoute attempt x) = None"
proof -
  let ?n = "normalizeSelection (fld ''stage_route_decision'' impact) (declaredStages attempt) False"
  let ?c = "if hasRouteOutput impact then routeContextRejectionReasons attempt (routeContext attempt) else []"
  have a: "\<not> (routeText (fld ''attempt_role'' attempt) = None \<and> \<not> hasRouteOutput impact)"
  proof
    assume "routeText (fld ''attempt_role'' attempt) = None \<and> \<not> hasRouteOutput impact"
    with assms(1) show False by (simp add: evaluateStageQualityAttemptRoute_def impact_def)
  qed
  have e: "ev_decision (evaluateStageQualityAttemptRoute attempt x) = (if decisionReasons attempt impact ?n ?c = [] then fst ?n else None)"
    using a by (auto simp: evaluateStageQualityAttemptRoute_def impact_def Let_def)
  with assms(1) have d: "fst ?n = Some d" "decisionReasons attempt impact ?n ?c = []" by (auto split: if_splits)
  show n: "?n = (Some d, [])" using d(1) normalizeSelection_Some(2) [OF d(1)] by (simp add: prod_eq_iff)
  then have "fld ''stage_route_decision'' impact \<noteq> JUndef" by (auto simp: normalizeSelection_def)
  then show h: "hasOwn impact ''stage_route_decision''" by (rule fld_own)
  then show r: "\<not> hasOwn impact ''stage_route_recommendation''" "routeContextRejectionReasons attempt (routeContext attempt) = []"
    "terminalDecisionRejectionReasons attempt impact d = []" "selectedLegacyFields impact = []"
    using d n by (auto simp: decisionReasons_def hasRouteOutput_def bothReasons_def legacyReasons_def split: if_splits)
  have u: "fld ''stage_route_recommendation'' impact = JUndef" using r(1) fld_own by blast
  show "evaluationReasons (evaluateStageQualityAttemptRoute attempt x) = []" "ev_recommendation (evaluateStageQualityAttemptRoute attempt x) = None"
    using a d n r h u by (simp_all add: evaluateStageQualityAttemptRoute_def impact_def [symmetric] Let_def evaluationReasons_def
      recommendationReasons_def legacyReasons_def bothReasons_def)
qed

lemma recommendation_Some:
  assumes "ev_recommendation (evaluateStageQualityAttemptRoute attempt x) = Some d"
  defines "impact \<equiv> asRecord x"
  shows "normalizeSelection (fld ''stage_route_recommendation'' impact) (declaredStages attempt) True = (Some d, [])"
    "hasOwn impact ''stage_route_recommendation''" "\<not> hasOwn impact ''stage_route_decision''"
    "routeContextRejectionReasons attempt (routeContext attempt) = []" "selectedLegacyFields impact = []"
    "evaluationReasons (evaluateStageQualityAttemptRoute attempt x) = []"
    "ev_decision (evaluateStageQualityAttemptRoute attempt x) = None"
proof -
  let ?n = "normalizeSelection (fld ''stage_route_recommendation'' impact) (declaredStages attempt) True"
  let ?c = "if hasRouteOutput impact then routeContextRejectionReasons attempt (routeContext attempt) else []"
  have a: "\<not> (routeText (fld ''attempt_role'' attempt) = None \<and> \<not> hasRouteOutput impact)"
  proof
    assume "routeText (fld ''attempt_role'' attempt) = None \<and> \<not> hasRouteOutput impact"
    with assms(1) show False by (simp add: evaluateStageQualityAttemptRoute_def impact_def)
  qed
  have e: "ev_recommendation (evaluateStageQualityAttemptRoute attempt x) = (if recommendationReasons impact ?n ?c = [] then fst ?n else None)"
    using a by (auto simp: evaluateStageQualityAttemptRoute_def impact_def Let_def)
  with assms(1) have d: "fst ?n = Some d" "recommendationReasons impact ?n ?c = []" by (auto split: if_splits)
  show n: "?n = (Some d, [])" using d(1) normalizeSelection_Some(2) [OF d(1)] by (simp add: prod_eq_iff)
  then have "fld ''stage_route_recommendation'' impact \<noteq> JUndef" by (auto simp: normalizeSelection_def)
  then show h: "hasOwn impact ''stage_route_recommendation''" by (rule fld_own)
  then show r: "\<not> hasOwn impact ''stage_route_decision''" "routeContextRejectionReasons attempt (routeContext attempt) = []"
    "selectedLegacyFields impact = []"
    using d n by (auto simp: recommendationReasons_def hasRouteOutput_def bothReasons_def legacyReasons_def split: if_splits)
  have u: "fld ''stage_route_decision'' impact = JUndef" using r(1) fld_own by blast
  show "evaluationReasons (evaluateStageQualityAttemptRoute attempt x) = []" "ev_decision (evaluateStageQualityAttemptRoute attempt x) = None"
    using a d n r h u by (simp_all add: evaluateStageQualityAttemptRoute_def impact_def [symmetric] Let_def evaluationReasons_def
      decisionReasons_def legacyReasons_def bothReasons_def)
qed

text \<open>When the outcome of an attempt ends the Stage run, by its role.\<close>

definition endsStage :: "string \<Rightarrow> json \<Rightarrow> json \<Rightarrow> route_selection \<Rightarrow> bool" where
  "endsStage role attempt impact d \<longleftrightarrow>
     (let envelope = asRecord (fld ''stage_quality_cycle'' impact); outcome = routeText (fld ''outcome'' envelope);
          rounds = fld ''max_repair_rounds'' (routeContext attempt);
          back = (rt_kind d = Route_Back \<and> rt_target d \<noteq> routeText (fld ''stage_id'' attempt)) in
     routeText (fld ''hard_stop_class'' envelope) = None \<and> \<not> hasOwn envelope ''verdict''
     \<and> (if role = ''producer'' then \<not> hasOwn envelope ''outcome''
        else if role = ''reviewer'' then outcome \<in> {Some ''pass'', Some ''quality_debt''}
          \<or> outcome = Some ''repair_required'' \<and> (jeq (jsNumber rounds) (jint 0) \<or> back)
        else (\<exists>c b. reReviewClosureState attempt impact = Some c
          \<and> classifyStageQualityReReviewBudget c (fld ''quality_round_index'' attempt) rounds = Inr b
          \<and> (outcome \<in> {Some ''pass'', Some ''quality_debt''} \<and> \<not> fc_trigger_repair c
            \<or> outcome = Some ''repair_required'' \<and> fc_trigger_repair c \<and> (b = Terminal_Quality_Debt \<or> back)))))"

lemma outcomeOf_Some: "outcomeOf t = Some k \<Longrightarrow> t = Some (outcomeName k)"
  by (auto simp: outcomeOf_def find_Some_iff)

lemma outcomeOf_name [simp]: "outcomeOf (Some (outcomeName k)) = Some k"
  by (cases k) (simp_all add: outcomeOf_def STAGE_QUALITY_OUTCOMES_def)

lemma trim_roles [simp]: "trim ''producer'' = ''producer''" "trim ''reviewer'' = ''reviewer''" "trim ''re_reviewer'' = ''re_reviewer''"
  "trim ''repair_required'' = ''repair_required''" "trim ''pass'' = ''pass''" "trim ''quality_debt'' = ''quality_debt''"
  by (simp_all add: trim_def isWs_def)

lemma context_valid:
  assumes "routeContextRejectionReasons attempt (routeContext attempt) = []"
  obtains role stage where "routeText (fld ''attempt_role'' attempt) = Some role" "routeText (fld ''stage_id'' attempt) = Some stage"
    "fld ''current_attempt_role'' (routeContext attempt) = JStr role" "stage \<in> set (declaredStages attempt)"
    "set (decisiveRoles attempt) \<in> {{''producer''}, {''reviewer'', ''re_reviewer''}}"
proof -
  have r: "sameStringSet xs ys \<Longrightarrow> set xs = set ys" for xs ys
    by (metis sameStringSet_def set_sort)
  note c = assms [unfolded routeContextRejectionReasons_def Let_def reasonsOf_Nil list.pred_inject fst_conv]
  obtain role where role: "routeText (fld ''attempt_role'' attempt) = Some role"
    using c by (cases "routeText (fld ''attempt_role'' attempt)") simp_all
  obtain stage where stage: "routeText (fld ''stage_id'' attempt) = Some stage"
    using c by (cases "routeText (fld ''stage_id'' attempt)") simp_all
  have m: "fld ''current_attempt_role'' (routeContext attempt) = JStr role" "stage \<in> set (declaredStages attempt)"
    using c unfolding role stage by simp_all
  have "sameStringSet (decisiveRoles attempt) [''producer''] \<or> sameStringSet (decisiveRoles attempt) [''reviewer'', ''re_reviewer'']"
    using c by simp
  then have "set (decisiveRoles attempt) \<in> {{''producer''}, {''reviewer'', ''re_reviewer''}}"
    using r [of "decisiveRoles attempt"] by fastforce
  with that [OF role stage m] show ?thesis .
qed

lemma reReviewReasons_Nil:
  assumes "reReviewReasons outcome closure n m back = []"
  obtains c b where "closure = Some c" "classifyStageQualityReReviewBudget c n m = Inr b"
    "outcome \<in> {Some ''pass'', Some ''quality_debt''} \<and> \<not> fc_trigger_repair c
     \<or> outcome = Some ''repair_required'' \<and> fc_trigger_repair c \<and> (b = Terminal_Quality_Debt \<or> back)"
proof -
  from assms obtain c where c: "closure = Some c" by (auto simp: reReviewReasons_def Let_def)
  have o3: "outcome \<in> {Some ''pass'', Some ''quality_debt'', Some ''repair_required''}"
    using assms by (auto simp: reReviewReasons_def Let_def)
  have "\<exists>x \<in> {Outcome_Pass, Outcome_Quality_Debt, Outcome_Repair_Required}. outcome = Some (outcomeName x)" using o3 by auto
  then obtain x where x: "outcome = Some (outcomeName x)" "x \<in> {Outcome_Pass, Outcome_Quality_Debt, Outcome_Repair_Required}" by blast
  have v: "isOk (validateStageQualityReReviewOutcome x c)" and b: "\<exists>b. classifyStageQualityReReviewBudget c n m = Inr b"
    using assms unfolding x(1) by (auto simp: reReviewReasons_def Let_def c split: sum.splits)
  from b obtain b where b: "classifyStageQualityReReviewBudget c n m = Inr b" by blast
  have "outcome \<in> {Some ''pass'', Some ''quality_debt''} \<and> \<not> fc_trigger_repair c
     \<or> outcome = Some ''repair_required'' \<and> fc_trigger_repair c \<and> (b = Terminal_Quality_Debt \<or> back)"
    using assms v x(2) unfolding x(1)
    by (auto simp: reReviewReasons_def Let_def c b isOk_iff validateStageQualityReReviewOutcome_def runChecks_ok)
  with c b that show ?thesis by blast
qed

lemma decision_ends_stage:
  assumes "terminalDecisionRejectionReasons attempt impact d = []" "routeText (fld ''attempt_role'' attempt) = Some role"
    "wfSelection (declaredStages attempt) False d" "set (decisiveRoles attempt) \<in> {{''producer''}, {''reviewer'', ''re_reviewer''}}"
  shows "role \<in> set (decisiveRoles attempt)" "endsStage role attempt impact d"
proof -
  let ?e = "asRecord (fld ''stage_quality_cycle'' impact)" and ?x = "fld ''stage_id'' attempt"
  let ?o = "routeText (fld ''outcome'' ?e)"
  let ?b = "isRepairRequiredCrossStageRouteBackDecision (JStr role) (ofOptStr ?o) ?x (Some d)"
  note r = assms(1) [unfolded terminalDecisionRejectionReasons_def assms(2) option.case Let_def]
  show d: "role \<in> set (decisiveRoles attempt)" using r by simp
  then have role: "role \<in> {''producer'', ''reviewer'', ''re_reviewer''}" using assms(4) by auto
  have rb: "rt_kind d = Route_Back \<and> rt_target d \<noteq> routeText ?x" if b: "?b"
    using b assms(3) routeText_JStr
    by (fastforce simp: isRepairRequiredCrossStageRouteBackDecision_def wfSelection_def Let_def ofOptStr_def)
  have stop: "routeText (fld ''hard_stop_class'' ?e) = None" "\<not> hasOwn ?e ''verdict''" "\<not> (?o = Some ''blocked'' \<or> ?o = Some ''human_gate'')"
    using r by simp_all
  consider "role = ''producer''" | "role = ''reviewer''" | "role = ''re_reviewer''" using role by blast
  then show "endsStage role attempt impact d"
  proof cases
    case 1
    with r stop show ?thesis by (simp add: endsStage_def)
  next
    case 2
    with r stop(3) have "reviewerReasons ?o (jsNumber (fld ''max_repair_rounds'' (routeContext attempt))) ?b = []" by simp
    then have "?o \<in> {Some ''pass'', Some ''quality_debt''}
      \<or> ?o = Some ''repair_required'' \<and> (jeq (jsNumber (fld ''max_repair_rounds'' (routeContext attempt))) (jint 0) \<or> ?b)"
      by (auto simp: reviewerReasons_def Let_def)
    with 2 stop rb show ?thesis by (auto simp: endsStage_def Let_def)
  next
    case 3
    with r stop(3) have "reReviewReasons ?o (reReviewClosureState attempt impact) (fld ''quality_round_index'' attempt)
        (fld ''max_repair_rounds'' (routeContext attempt)) ?b = []" by simp
    then obtain c b where "reReviewClosureState attempt impact = Some c"
      "classifyStageQualityReReviewBudget c (fld ''quality_round_index'' attempt) (fld ''max_repair_rounds'' (routeContext attempt)) = Inr b"
      "?o \<in> {Some ''pass'', Some ''quality_debt''} \<and> \<not> fc_trigger_repair c
        \<or> ?o = Some ''repair_required'' \<and> fc_trigger_repair c \<and> (b = Terminal_Quality_Debt \<or> ?b)"
      by (rule reReviewReasons_Nil)
    with 3 stop rb show ?thesis by (auto simp: endsStage_def Let_def)
  qed
qed

section \<open>The sanitised output\<close>

lemma terminalReasons_cong:
  assumes "fld ''stage_quality_cycle'' impact = fld ''stage_quality_cycle'' impact'"
  shows "terminalDecisionRejectionReasons attempt impact d = terminalDecisionRejectionReasons attempt impact' d"
  unfolding terminalDecisionRejectionReasons_def reReviewClosureState_def assms ..

lemma evaluate_decision:
  assumes "isRecord y" "hasOwn y ''stage_route_decision''" "\<not> hasOwn y ''stage_route_recommendation''" "selectedLegacyFields y = []"
    "routeContextRejectionReasons attempt (routeContext attempt) = []" "wfSelection (declaredStages attempt) False d"
    "fld ''stage_route_decision'' y = selectionJson d" "terminalDecisionRejectionReasons attempt y d = []"
  shows "ev_decision (evaluateStageQualityAttemptRoute attempt y) = Some d \<and> ev_recommendation (evaluateStageQualityAttemptRoute attempt y) = None
    \<and> evaluationReasons (evaluateStageQualityAttemptRoute attempt y) = []"
proof -
  have o: "hasRouteOutput y" using assms(2) by (simp add: hasRouteOutput_def)
  have u: "fld ''stage_route_recommendation'' y = JUndef" using assms(3) fld_own by blast
  show ?thesis using assms selection_again [OF assms(6)]
    by (simp add: evaluateStageQualityAttemptRoute_def Let_def o u evaluationReasons_def decisionReasons_def
      recommendationReasons_def legacyReasons_def bothReasons_def)
qed

lemma evaluate_recommendation:
  assumes "isRecord y" "hasOwn y ''stage_route_recommendation''" "\<not> hasOwn y ''stage_route_decision''" "selectedLegacyFields y = []"
    "routeContextRejectionReasons attempt (routeContext attempt) = []" "wfSelection (declaredStages attempt) True d"
    "fld ''stage_route_recommendation'' y = selectionJson d"
  shows "ev_decision (evaluateStageQualityAttemptRoute attempt y) = None \<and> ev_recommendation (evaluateStageQualityAttemptRoute attempt y) = Some d
    \<and> evaluationReasons (evaluateStageQualityAttemptRoute attempt y) = []"
proof -
  have o: "hasRouteOutput y" using assms(2) by (simp add: hasRouteOutput_def)
  have u: "fld ''stage_route_decision'' y = JUndef" using assms(3) fld_own by blast
  show ?thesis using assms selection_again [OF assms(6)]
    by (simp add: evaluateStageQualityAttemptRoute_def Let_def o u evaluationReasons_def decisionReasons_def
      recommendationReasons_def legacyReasons_def bothReasons_def)
qed

lemma evaluate_nothing:
  assumes "isRecord y" "\<not> hasRouteOutput y"
  shows "ev_decision (evaluateStageQualityAttemptRoute attempt y) = None \<and> ev_recommendation (evaluateStageQualityAttemptRoute attempt y) = None
    \<and> evaluationReasons (evaluateStageQualityAttemptRoute attempt y) = []"
proof -
  have u: "fld ''stage_route_decision'' y = JUndef" "fld ''stage_route_recommendation'' y = JUndef"
    using assms(2) fld_own by (auto simp: hasRouteOutput_def)
  show ?thesis using assms u
    by (simp add: evaluateStageQualityAttemptRoute_def Let_def evaluationReasons_def decisionReasons_def hasRouteOutput_def
      recommendationReasons_def legacyReasons_def bothReasons_def)
qed

definition ROUTE_FIELDS :: "string list" where
  "ROUTE_FIELDS = [''stage_route_contract'', ''stage_route_decision'', ''stage_route_recommendation''] @ LEGACY_TERMINAL_ROUTE_FIELDS"

text \<open>The fields of the sanitised output, for an attempt the contract applies to.\<close>

lemma sanitize_fields:
  fixes attempt x
  defines "y \<equiv> sanitizeStageQualityAttemptRouteImpact attempt x" and "e \<equiv> evaluateStageQualityAttemptRoute attempt x"
  assumes "ev_applicable e"
  shows "isRecord y" "hasOwn y ''stage_route_decision'' \<longleftrightarrow> ev_decision e \<noteq> None"
    "hasOwn y ''stage_route_recommendation'' \<longleftrightarrow> ev_recommendation e \<noteq> None" "selectedLegacyFields y = []"
    "\<And>d. ev_decision e = Some d \<Longrightarrow> fld ''stage_route_decision'' y = selectionJson d"
    "\<And>d. ev_recommendation e = Some d \<Longrightarrow> fld ''stage_route_recommendation'' y = selectionJson d"
    "\<And>k. k \<notin> set ROUTE_FIELDS \<Longrightarrow> fld k y = fld k (asRecord x)"
    "fld ''stage_route_contract'' y = (if evaluationReasons e = [] then JUndef else JObj [(''authority_status'', JStr ''route_output_rejected''),
         (''rejection_reasons'', jStrs (uniqueFirst (evaluationReasons e)))])"
proof -
  let ?b = "delFld ''workflow_complete'' (delFld ''next_stage_ref'' (delFld ''selected_next_stage_ref'' (delFld ''route_back_stage_ref''
    (delFld ''stage_route_contract'' (asRecord x)))))"
  let ?o = "putSelection ''stage_route_recommendation'' (ev_recommendation e) (putSelection ''stage_route_decision'' (ev_decision e) ?b)"
  have y: "y = (if evaluationReasons e = [] then ?o else setFld ''stage_route_contract'' (JObj [(''authority_status'', JStr ''route_output_rejected''),
         (''rejection_reasons'', jStrs (uniqueFirst (evaluationReasons e)))]) ?o)"
    using assms(3) by (simp add: y_def e_def sanitizeStageQualityAttemptRouteImpact_def Let_def LEGACY_TERMINAL_ROUTE_FIELDS_def)
  have h: "hasOwn (putSelection k s v) j \<longleftrightarrow> (if j = k then s \<noteq> None else hasOwn v j)" for k s v j
    by (simp add: putSelection_def split: option.splits)
  have f: "fld j (putSelection k s v) = (if j = k then (case s of Some d \<Rightarrow> selectionJson d | None \<Rightarrow> JUndef) else fld j v)" for k s v j
    by (simp add: putSelection_def split: option.splits)
  show "isRecord y" by (simp add: y putSelection_def split: option.splits)
  show "hasOwn y ''stage_route_decision'' \<longleftrightarrow> ev_decision e \<noteq> None" by (simp add: y h)
  show "hasOwn y ''stage_route_recommendation'' \<longleftrightarrow> ev_recommendation e \<noteq> None" by (simp add: y h)
  show "selectedLegacyFields y = []" by (simp add: y h selectedLegacyFields_def LEGACY_TERMINAL_ROUTE_FIELDS_def)
  show "\<And>d. ev_decision e = Some d \<Longrightarrow> fld ''stage_route_decision'' y = selectionJson d"
    "\<And>d. ev_recommendation e = Some d \<Longrightarrow> fld ''stage_route_recommendation'' y = selectionJson d"
    by (simp_all add: y f)
  show "\<And>k. k \<notin> set ROUTE_FIELDS \<Longrightarrow> fld k y = fld k (asRecord x)"
    by (simp add: y f ROUTE_FIELDS_def LEGACY_TERMINAL_ROUTE_FIELDS_def)
  show "fld ''stage_route_contract'' y = (if evaluationReasons e = [] then JUndef else JObj [(''authority_status'', JStr ''route_output_rejected''),
         (''rejection_reasons'', jStrs (uniqueFirst (evaluationReasons e)))])"
    by (simp add: y f)
qed

lemma sanitize_inapplicable:
  assumes "\<not> ev_applicable (evaluateStageQualityAttemptRoute attempt x)"
  shows "sanitizeStageQualityAttemptRouteImpact attempt x = delFld ''stage_route_contract'' (asRecord x)"
    "\<not> hasRouteOutput (sanitizeStageQualityAttemptRouteImpact attempt x)"
    "ev_decision (evaluateStageQualityAttemptRoute attempt x) = None" "ev_recommendation (evaluateStageQualityAttemptRoute attempt x) = None"
    "evaluationReasons (evaluateStageQualityAttemptRoute attempt x) = []"
proof -
  show s: "sanitizeStageQualityAttemptRouteImpact attempt x = delFld ''stage_route_contract'' (asRecord x)"
    using assms by (simp add: sanitizeStageQualityAttemptRouteImpact_def)
  have n: "routeText (fld ''attempt_role'' attempt) = None \<and> \<not> hasRouteOutput (asRecord x)"
    using assms by (auto simp: evaluateStageQualityAttemptRoute_def Let_def split: if_splits)
  then show "\<not> hasRouteOutput (sanitizeStageQualityAttemptRouteImpact attempt x)"
    unfolding s by (auto simp: hasRouteOutput_def selectedLegacyFields_def LEGACY_TERMINAL_ROUTE_FIELDS_def split: if_splits)
  show "ev_decision (evaluateStageQualityAttemptRoute attempt x) = None" "ev_recommendation (evaluateStageQualityAttemptRoute attempt x) = None"
    "evaluationReasons (evaluateStageQualityAttemptRoute attempt x) = []"
    using n by (simp_all add: evaluateStageQualityAttemptRoute_def evaluationReasons_def)
qed

text \<open>Evaluating the sanitised output objects to nothing and finds the same route.\<close>

lemma sanitize_evaluate:
  fixes attempt x
  defines "e \<equiv> evaluateStageQualityAttemptRoute attempt x" and "y \<equiv> sanitizeStageQualityAttemptRouteImpact attempt x"
  shows "ev_decision (evaluateStageQualityAttemptRoute attempt y) = ev_decision e
    \<and> ev_recommendation (evaluateStageQualityAttemptRoute attempt y) = ev_recommendation e
    \<and> evaluationReasons (evaluateStageQualityAttemptRoute attempt y) = []"
proof (cases "ev_applicable e")
  case True
  note y = sanitize_fields [OF True [unfolded e_def], folded e_def y_def]
  have q: "fld ''stage_quality_cycle'' y = fld ''stage_quality_cycle'' (asRecord x)"
    by (rule y(7)) (simp add: ROUTE_FIELDS_def LEGACY_TERMINAL_ROUTE_FIELDS_def)
  consider d where "ev_decision e = Some d" | d where "ev_recommendation e = Some d" | "ev_decision e = None" "ev_recommendation e = None" by auto
  then show ?thesis
  proof cases
    case 1
    note d = decision_Some [OF 1 [unfolded e_def]]
    have w: "wfSelection (declaredStages attempt) False d" using normalizeSelection_Some(1) d(1) by (metis fst_conv)
    have r: "ev_recommendation e = None" using d(8) by (simp add: e_def)
    have t: "terminalDecisionRejectionReasons attempt y d = []" using d(5) terminalReasons_cong [OF q] by simp
    show ?thesis using evaluate_decision [OF y(1) _ _ y(4) d(4) w y(5) [OF 1] t] y(2, 3) 1 r by simp
  next
    case 2
    note d = recommendation_Some [OF 2 [unfolded e_def]]
    have w: "wfSelection (declaredStages attempt) True d" using normalizeSelection_Some(1) d(1) by (metis fst_conv)
    have r: "ev_decision e = None" using d(7) by (simp add: e_def)
    show ?thesis using evaluate_recommendation [OF y(1) _ _ y(4) d(4) w y(6) [OF 2]] y(2, 3) 2 r by simp
  next
    case 3
    then have "\<not> hasRouteOutput y" using y(2, 3, 4) by (simp add: hasRouteOutput_def)
    with evaluate_nothing [OF y(1)] 3 show ?thesis by simp
  qed
next
  case False
  note y = sanitize_inapplicable [OF False [unfolded e_def], folded e_def y_def]
  have "isRecord y" by (simp add: y(1))
  from evaluate_nothing [OF this y(2)] y(3, 4) show ?thesis by simp
qed

text \<open>Nothing else is touched, and no field of the old contract is left.\<close>

lemma sanitize_rest:
  assumes "k \<notin> set ROUTE_FIELDS"
  shows "fld k (sanitizeStageQualityAttemptRouteImpact attempt x) = fld k (asRecord x)"
    "selectedLegacyFields (sanitizeStageQualityAttemptRouteImpact attempt x) = []"
proof -
  have "fld k (sanitizeStageQualityAttemptRouteImpact attempt x) = fld k (asRecord x)
    \<and> selectedLegacyFields (sanitizeStageQualityAttemptRouteImpact attempt x) = []"
  proof (cases "ev_applicable (evaluateStageQualityAttemptRoute attempt x)")
    case True
    with sanitize_fields(4, 7) [OF True] assms show ?thesis by simp
  next
    case False
    from sanitize_inapplicable(2) [OF False] have "selectedLegacyFields (sanitizeStageQualityAttemptRouteImpact attempt x) = []"
      by (simp add: hasRouteOutput_def)
    with sanitize_inapplicable(1) [OF False] assms show ?thesis by (simp add: ROUTE_FIELDS_def)
  qed
  then show "fld k (sanitizeStageQualityAttemptRouteImpact attempt x) = fld k (asRecord x)"
    "selectedLegacyFields (sanitizeStageQualityAttemptRouteImpact attempt x) = []" by simp_all
qed

end
