(* ===== verification/Designer_Adapter.thy ===== *)
theory Designer_Adapter
  imports State_Machine
begin

text \<open>
  \<open>src/src/authority/evolution/designer-adapter.ts\<close>: the manifest of a Foundry provider and
  its normal form, and the adapter that calls the provider's operations as the designer
  of the Foundry.  Reading the manifest file is not modelled; what the invoker of the
  operations does is its parameter.
\<close>

section \<open>The manifest\<close>

record provider_operation =
  po_input_schema_refs :: "string list"
  po_output_schema_ref :: string
  po_entry_stage_ref :: string
  po_required_stage_refs :: "string list"
  po_optional_stage_refs :: "string list"
  po_terminal_stage_ref :: string

text \<open>The fields that vary; the authority boundary is kept as it was given.\<close>

record provider_manifest =
  pm_provider_id :: string
  pm_agent_id :: string
  pm_package_id :: string
  pm_domain_id :: string
  pm_carrier_slug :: string
  pm_design :: provider_operation
  pm_diagnose :: provider_operation
  pm_public_action_id :: string
  pm_authority_boundary :: json

definition DESIGN_REQUEST_REF :: string where
  "DESIGN_REQUEST_REF = ''opl://foundry-protocol/DesignRequest''"

definition AGENT_BLUEPRINT_REF :: string where
  "AGENT_BLUEPRINT_REF = ''opl://foundry-protocol/AgentBlueprint''"

definition EVIDENCE_BUNDLE_REF :: string where
  "EVIDENCE_BUNDLE_REF = ''opl://foundry-protocol/EvidenceBundle''"

definition EVOLUTION_PROPOSAL_REF :: string where
  "EVOLUTION_PROPOSAL_REF = ''opl://foundry-protocol/EvolutionProposal''"

text \<open>The strings of an array, as they are.\<close>

definition providerStrings :: "json \<Rightarrow> string \<Rightarrow> string list res" where
  "providerStrings v f = bindE (runChecks [(isArr v \<and> list_all nonBlank (arrOf v), f @ '' must be a non-empty string array.'')])
     (\<lambda>u. Inr (strsOf v))"

text \<open>The sorted keys have the length of the sorted expected ones and agree with them place by place.\<close>

definition exactKeys :: "json \<Rightarrow> string list \<Rightarrow> string \<Rightarrow> unit res" where
  "exactKeys v expected f = (let actual = sort (objKeys v); canonical = sort expected in
     runChecks [(length actual = length canonical \<and> list_all (\<lambda>(a, c). a = c) (zip actual canonical),
       f @ '' fields do not match the closed provider contract.'')])"

definition operationFields :: "string list" where
  "operationFields = [''input_schema_refs'', ''output_schema_ref'', ''entry_stage_ref'', ''required_stage_refs'', ''optional_stage_refs'', ''terminal_stage_ref'']"

text \<open>\<open>new Set(list).size\<close> is the length of the list exactly when nothing repeats.\<close>

definition topologyChecks :: "provider_operation \<Rightarrow> string \<Rightarrow> check list" where
  "topologyChecks p f =
     [(po_output_schema_ref p \<noteq> [] \<and> po_entry_stage_ref p \<noteq> [] \<and> po_terminal_stage_ref p \<noteq> [],
       f @ '' has incomplete schema or Stage bindings.''),
      (po_required_stage_refs p \<noteq> [] \<and> distinct (po_required_stage_refs p) \<and> distinct (po_optional_stage_refs p)
        \<and> hd (po_required_stage_refs p) = po_entry_stage_ref p \<and> last (po_required_stage_refs p) = po_terminal_stage_ref p
        \<and> list_all (\<lambda>s. s \<notin> set (po_required_stage_refs p)) (po_optional_stage_refs p),
       f @ '' has an invalid closed Stage topology.'')]"

definition providerOperation :: "json \<Rightarrow> string \<Rightarrow> provider_operation res" where
  "providerOperation v f = bindE (runChecks [(isRecord v, f @ '' must be an object.'')]) (\<lambda>u.
     bindE (exactKeys v operationFields f) (\<lambda>u.
     bindE (providerStrings (fld ''input_schema_refs'' v) (f @ ''.input_schema_refs'')) (\<lambda>inputs.
     bindE (providerStrings (fld ''required_stage_refs'' v) (f @ ''.required_stage_refs'')) (\<lambda>required.
     bindE (providerStrings (fld ''optional_stage_refs'' v) (f @ ''.optional_stage_refs'')) (\<lambda>optional.
     let p = \<lparr> po_input_schema_refs = inputs, po_output_schema_ref = strOf (fld ''output_schema_ref'' v),
       po_entry_stage_ref = strOf (fld ''entry_stage_ref'' v), po_required_stage_refs = required, po_optional_stage_refs = optional,
       po_terminal_stage_ref = strOf (fld ''terminal_stage_ref'' v) \<rparr> in
     bindE (runChecks (topologyChecks p f)) (\<lambda>u. Inr p))))))"

definition closedFlags :: "string list" where
  "closedFlags = [''internal_operations_are_public_actions'', ''internal_operations_are_cli_commands'', ''internal_operations_are_mcp_tools'']"

text \<open>The one public action.\<close>

definition projectionPolicy :: "json \<Rightarrow> string res" where
  "projectionPolicy v = bindE (runChecks [(isRecord v, ''Foundry provider projection_policy must be an object.'')]) (\<lambda>u.
     bindE (exactKeys v (''public_action_ids'' # closedFlags) ''Foundry provider projection_policy'') (\<lambda>u.
     bindE (providerStrings (fld ''public_action_ids'' v) ''Foundry provider projection_policy.public_action_ids'') (\<lambda>ids.
     bindE (runChecks [(length ids = 1 \<and> list_all (\<lambda>k. fld k v = JBool False) closedFlags,
       ''Foundry provider must expose one public action while keeping design and diagnose internal.'')]) (\<lambda>u. Inr (hd ids)))))"

definition providerOwned :: "string list" where
  "providerOwned = [''provider_owns_design_semantics'', ''provider_owns_evaluation_semantics'', ''provider_owns_evidence_diagnosis'',
     ''provider_owns_evolution_proposals'']"

definition providerDenied :: "string list" where
  "providerDenied = [''provider_owns_foundry_run_state'', ''provider_owns_candidate_materialization'', ''provider_owns_evaluation_execution'',
     ''provider_owns_versions_or_activation'', ''provider_can_return_patch_or_work_order'', ''provider_can_view_protected_test_bodies'',
     ''opl_can_write_target_domain_truth'']"

definition authorityBoundary :: "json \<Rightarrow> json res" where
  "authorityBoundary v = bindE (runChecks [(isRecord v, ''Foundry provider authority_boundary must be an object.'')]) (\<lambda>u.
     bindE (exactKeys v (providerOwned @ providerDenied) ''Foundry provider authority_boundary'') (\<lambda>u.
     bindE (runChecks [(list_all (\<lambda>k. fld k v = JBool True) providerOwned \<and> list_all (\<lambda>k. fld k v = JBool False) providerDenied,
       ''Foundry provider manifest takes OPL runtime authority.'')]) (\<lambda>u. Inr v)))"

definition manifestFields :: "string list" where
  "manifestFields = [''surface_kind'', ''version'', ''provider_id'', ''agent_id'', ''package_id'', ''domain_id'', ''carrier_slug'', ''operations'',
     ''projection_policy'', ''authority_boundary'']"

text \<open>The lists are compared as texts joined by the character 0.\<close>

definition manifestIdentityChecks :: "provider_manifest \<Rightarrow> check list" where
  "manifestIdentityChecks m =
     [(pm_provider_id m \<noteq> [] \<and> pm_provider_id m = pm_agent_id m \<and> pm_provider_id m = pm_package_id m \<and> pm_domain_id m \<noteq> []
        \<and> pm_carrier_slug m \<noteq> [], ''Foundry provider identity axes are inconsistent.''),
      (joinWith [CHR 0x00] (po_input_schema_refs (pm_design m)) = DESIGN_REQUEST_REF \<and> po_output_schema_ref (pm_design m) = AGENT_BLUEPRINT_REF,
       ''Foundry provider design operation does not implement the canonical protocol.''),
      (joinWith [CHR 0x00] (po_input_schema_refs (pm_diagnose m)) = joinWith [CHR 0x00] [DESIGN_REQUEST_REF, AGENT_BLUEPRINT_REF, EVIDENCE_BUNDLE_REF]
        \<and> po_output_schema_ref (pm_diagnose m) = EVOLUTION_PROPOSAL_REF,
       ''Foundry provider diagnose operation does not implement the canonical protocol.'')]"

definition normalizeFoundryProviderManifest :: "json \<Rightarrow> provider_manifest res" where
  "normalizeFoundryProviderManifest v = bindE (runChecks
       [(isRecord v \<and> fld ''surface_kind'' v = JStr ''opl_foundry_provider'' \<and> fld ''version'' v = JStr ''opl-foundry-provider.v1'',
         ''Foundry provider manifest has an unsupported identity or version.'')]) (\<lambda>u.
     bindE (exactKeys v manifestFields ''Foundry provider manifest root'') (\<lambda>u.
     bindE (runChecks [(isRecord (fld ''operations'' v) \<and> isRecord (fld ''projection_policy'' v) \<and> isRecord (fld ''authority_boundary'' v),
       ''Foundry provider manifest is incomplete.'')]) (\<lambda>u.
     bindE (exactKeys (fld ''operations'' v) [''design'', ''diagnose''] ''Foundry provider operations'') (\<lambda>u.
     bindE (providerOperation (fld ''design'' (fld ''operations'' v)) ''Foundry provider design operation'') (\<lambda>design.
     bindE (providerOperation (fld ''diagnose'' (fld ''operations'' v)) ''Foundry provider diagnose operation'') (\<lambda>diagnose.
     bindE (projectionPolicy (fld ''projection_policy'' v)) (\<lambda>action.
     bindE (authorityBoundary (fld ''authority_boundary'' v)) (\<lambda>boundary.
     let m = \<lparr> pm_provider_id = strOf (fld ''provider_id'' v), pm_agent_id = strOf (fld ''agent_id'' v), pm_package_id = strOf (fld ''package_id'' v),
       pm_domain_id = strOf (fld ''domain_id'' v), pm_carrier_slug = strOf (fld ''carrier_slug'' v), pm_design = design, pm_diagnose = diagnose,
       pm_public_action_id = action, pm_authority_boundary = boundary \<rparr> in
     bindE (runChecks (manifestIdentityChecks m)) (\<lambda>u. Inr m)))))))))"

text \<open>The manifest as the object the code returns.\<close>

definition operationJson :: "provider_operation \<Rightarrow> json" where
  "operationJson p = JObj [(''input_schema_refs'', jStrs (po_input_schema_refs p)), (''output_schema_ref'', JStr (po_output_schema_ref p)),
     (''entry_stage_ref'', JStr (po_entry_stage_ref p)), (''required_stage_refs'', jStrs (po_required_stage_refs p)),
     (''optional_stage_refs'', jStrs (po_optional_stage_refs p)), (''terminal_stage_ref'', JStr (po_terminal_stage_ref p))]"

definition manifestJson :: "provider_manifest \<Rightarrow> json" where
  "manifestJson m = JObj [(''surface_kind'', JStr ''opl_foundry_provider''), (''version'', JStr ''opl-foundry-provider.v1''),
     (''provider_id'', JStr (pm_provider_id m)), (''agent_id'', JStr (pm_agent_id m)), (''package_id'', JStr (pm_package_id m)),
     (''domain_id'', JStr (pm_domain_id m)), (''carrier_slug'', JStr (pm_carrier_slug m)),
     (''operations'', JObj [(''design'', operationJson (pm_design m)), (''diagnose'', operationJson (pm_diagnose m))]),
     (''projection_policy'', JObj ((''public_action_ids'', jStrs [pm_public_action_id m]) # map (\<lambda>k. (k, JBool False)) closedFlags)),
     (''authority_boundary'', pm_authority_boundary m)]"

section \<open>The adapter\<close>

record designer_adapter =
  da_checkout_root :: string
  da_provider :: provider_manifest
  da_provider_source_digest :: string
  da_producer_id :: string

text \<open>With the manifest given, not read from the checkout.\<close>

definition newDesignerAdapter :: "string \<Rightarrow> json \<Rightarrow> string \<Rightarrow> designer_adapter res" where
  "newDesignerAdapter checkout manifest digest = mapE (\<lambda>m. \<lparr> da_checkout_root = checkout, da_provider = m, da_provider_source_digest = digest,
     da_producer_id = ''foundry-provider:'' @ pm_provider_id m \<rparr>) (normalizeFoundryProviderManifest manifest)"

text \<open>What the invoker is asked: operation, adapter, payload and activity.\<close>

type_synonym invoker = "string \<Rightarrow> designer_adapter \<Rightarrow> json \<Rightarrow> json \<Rightarrow> json res"

definition adapterDesign :: "invoker \<Rightarrow> designer_adapter \<Rightarrow> json \<Rightarrow> json \<Rightarrow> json res" where
  "adapterDesign invoke da request activity = bindE (invoke ''design'' da (JObj [(''request'', request)]) activity) validateAgentBlueprint"

text \<open>\<open>const { activity, ...payload } = input\<close>\<close>

definition adapterDiagnose :: "invoker \<Rightarrow> designer_adapter \<Rightarrow> json \<Rightarrow> json res" where
  "adapterDiagnose invoke da input = bindE (invoke ''diagnose'' da (JObj (AList.delete ''activity'' (entriesOf input))) (fld ''activity'' input))
     validateEvolutionProposal"

section \<open>What a manifest is\<close>

definition wfOperation :: "provider_operation \<Rightarrow> bool" where
  "wfOperation p \<longleftrightarrow> list_all fst (topologyChecks p [])
     \<and> list_all (\<lambda>s. trim s \<noteq> []) (po_input_schema_refs p @ po_required_stage_refs p @ po_optional_stage_refs p)"

definition wfManifest :: "provider_manifest \<Rightarrow> bool" where
  "wfManifest m \<longleftrightarrow> wfOperation (pm_design m) \<and> wfOperation (pm_diagnose m) \<and> trim (pm_public_action_id m) \<noteq> []
     \<and> isOk (authorityBoundary (pm_authority_boundary m)) \<and> list_all fst (manifestIdentityChecks m)"

lemma exactKeys_iff: "exactKeys v expected f = Inr u \<longleftrightarrow> mset (objKeys v) = mset expected"
proof -
  have z: "length xs = length ys \<and> list_all (\<lambda>(a, c). a = c) (zip xs ys) \<longleftrightarrow> xs = ys" for xs ys :: "string list"
    by (auto simp: list_all_length list_eq_iff_nth_eq)
  show ?thesis by (simp add: exactKeys_def Let_def z) (metis mset_sort properties_for_sort sorted_sort)
qed

lemma providerStrings_Inr:
  assumes "providerStrings v f = Inr ss"
  shows "v = jStrs ss" "list_all (\<lambda>s. trim s \<noteq> []) ss"
proof -
  from assms have a: "isArr v" "list_all nonBlank (arrOf v)" and ss: "ss = map strOf (arrOf v)"
    by (auto simp: providerStrings_def strsOf_def)
  from a(1) obtain vs where v: "v = JArr vs" by (cases v) (simp_all add: isArr_def)
  have s: "JStr (strOf x) = x \<and> trim (strOf x) \<noteq> []" if "x \<in> set vs" for x
  proof -
    have "nonBlank x" using that a(2) by (simp add: v arrOf_def list_all_iff)
    then show ?thesis by (cases x) (simp_all add: nonBlank_def isStr_def trimmed_def strOf_def)
  qed
  show "v = jStrs ss" by (simp add: v ss jStrs_def arrOf_def comp_def map_idI s)
  show "list_all (\<lambda>s. trim s \<noteq> []) ss" using s by (simp add: v ss arrOf_def list_all_iff)
qed

lemma providerStrings_jStrs: "list_all (\<lambda>s. trim s \<noteq> []) ss \<Longrightarrow> providerStrings (jStrs ss) f = Inr ss"
  by (auto simp: providerStrings_def runChecks_ok isArr_def arrOf_def strsOf_def jStrs_def list_all_iff nonBlank_def isStr_def trimmed_def
      strOf_def comp_def)

lemma topology_label: "list_all fst (topologyChecks p f) \<longleftrightarrow> list_all fst (topologyChecks p [])"
  by (simp add: topologyChecks_def)

lemma providerOperation_Inr:
  assumes "providerOperation v f = Inr p"
  shows "wfOperation p"
proof -
  from assms obtain a b c where "providerStrings (fld ''input_schema_refs'' v) (f @ ''.input_schema_refs'') = Inr a"
    "providerStrings (fld ''required_stage_refs'' v) (f @ ''.required_stage_refs'') = Inr b"
    "providerStrings (fld ''optional_stage_refs'' v) (f @ ''.optional_stage_refs'') = Inr c"
    "list_all fst (topologyChecks p f)" "po_input_schema_refs p = a" "po_required_stage_refs p = b" "po_optional_stage_refs p = c"
    by (auto simp: providerOperation_def Let_def)
  then show ?thesis using topology_label [of p f] by (simp add: wfOperation_def providerStrings_Inr(2))
qed

lemma operation_eta: "\<lparr> po_input_schema_refs = po_input_schema_refs p, po_output_schema_ref = po_output_schema_ref p,
    po_entry_stage_ref = po_entry_stage_ref p, po_required_stage_refs = po_required_stage_refs p,
    po_optional_stage_refs = po_optional_stage_refs p, po_terminal_stage_ref = po_terminal_stage_ref p \<rparr> = p"
  by (rule provider_operation.equality) simp_all

lemma manifest_eta: "\<lparr> pm_provider_id = pm_provider_id m, pm_agent_id = pm_agent_id m, pm_package_id = pm_package_id m,
    pm_domain_id = pm_domain_id m, pm_carrier_slug = pm_carrier_slug m, pm_design = pm_design m, pm_diagnose = pm_diagnose m,
    pm_public_action_id = pm_public_action_id m, pm_authority_boundary = pm_authority_boundary m \<rparr> = m"
  by (rule provider_manifest.equality) simp_all

lemma providerOperation_again: "wfOperation p \<Longrightarrow> providerOperation (operationJson p) f = Inr p"
proof -
  assume w: "wfOperation p"
  have "exactKeys (operationJson p) operationFields f = Inr ()"
    unfolding exactKeys_iff by (simp add: operationJson_def objKeys_def entriesOf_def operationFields_def)
  moreover have "isRecord (operationJson p)" by (simp add: isRecord_def operationJson_def)
  ultimately show ?thesis using w topology_label [of p f]
    by (simp add: providerOperation_def runChecks_ok wfOperation_def) (simp add: operationJson_def providerStrings_jStrs strOf_def operation_eta Let_def runChecks_ok)
qed

lemma authorityBoundary_Inr: "authorityBoundary v = Inr b \<Longrightarrow> b = v"
  by (auto simp: authorityBoundary_def)

lemma projectionPolicy_Inr:
  assumes "projectionPolicy v = Inr a"
  shows "trim a \<noteq> []"
proof -
  from assms obtain ids where i: "providerStrings (fld ''public_action_ids'' v) ''Foundry provider projection_policy.public_action_ids'' = Inr ids"
    "length ids = 1" "a = hd ids"
    by (auto simp: projectionPolicy_def)
  then obtain x where "ids = [x]" by (auto simp: length_Suc_conv)
  with i(3) providerStrings_Inr(2) [OF i(1)] show ?thesis by simp
qed

lemma projectionPolicy_again:
  assumes "trim a \<noteq> []"
  shows "projectionPolicy (JObj ((''public_action_ids'', jStrs [a]) # map (\<lambda>k. (k, JBool False)) closedFlags)) = Inr a"
proof -
  let ?v = "JObj ((''public_action_ids'', jStrs [a]) # map (\<lambda>k. (k, JBool False)) closedFlags)"
  have "exactKeys ?v (''public_action_ids'' # closedFlags) f = Inr ()" for f
    unfolding exactKeys_iff by (simp add: objKeys_def entriesOf_def comp_def)
  then show ?thesis using assms
    by (simp add: projectionPolicy_def runChecks_ok isRecord_def providerStrings_jStrs) (simp add: closedFlags_def runChecks_ok)
qed

text \<open>The normal form is well formed, and normalising a well formed manifest gives it back.\<close>

lemma normalizeManifest_Inr:
  assumes "normalizeFoundryProviderManifest v = Inr m"
  shows "wfManifest m"
proof -
  from assms obtain d g a b where p: "providerOperation (fld ''design'' (fld ''operations'' v)) ''Foundry provider design operation'' = Inr d"
    "providerOperation (fld ''diagnose'' (fld ''operations'' v)) ''Foundry provider diagnose operation'' = Inr g"
    "projectionPolicy (fld ''projection_policy'' v) = Inr a" "authorityBoundary (fld ''authority_boundary'' v) = Inr b"
    and m: "list_all fst (manifestIdentityChecks m)" "pm_design m = d" "pm_diagnose m = g" "pm_public_action_id m = a" "pm_authority_boundary m = b"
    unfolding normalizeFoundryProviderManifest_def Let_def bindE_Inr_iff by auto
  show ?thesis using m providerOperation_Inr [OF p(1)] providerOperation_Inr [OF p(2)] projectionPolicy_Inr [OF p(3)] p(4)
      authorityBoundary_Inr [OF p(4)] by (simp add: wfManifest_def)
qed

lemma normalizeManifest_again:
  assumes "wfManifest m"
  shows "normalizeFoundryProviderManifest (manifestJson m) = Inr m"
proof -
  note w = assms [unfolded wfManifest_def]
  have "authorityBoundary (pm_authority_boundary m) = Inr (pm_authority_boundary m)"
    using w authorityBoundary_Inr by (fastforce simp: isOk_iff)
  moreover from this have "isRecord (pm_authority_boundary m)" by (auto simp: authorityBoundary_def)
  moreover have "exactKeys (manifestJson m) manifestFields f = Inr ()" for f
    unfolding exactKeys_iff by (simp add: manifestJson_def objKeys_def entriesOf_def manifestFields_def)
  moreover have "exactKeys (JObj [(''design'', x), (''diagnose'', y)]) [''design'', ''diagnose''] f = Inr ()" for x y f
    unfolding exactKeys_iff by (simp add: objKeys_def entriesOf_def)
  moreover have "isRecord (JObj xs)" for xs by (simp add: isRecord_def)
  moreover have "fld ''surface_kind'' (manifestJson m) = JStr ''opl_foundry_provider''" "fld ''version'' (manifestJson m) = JStr ''opl-foundry-provider.v1''"
    "fld ''operations'' (manifestJson m) = JObj [(''design'', operationJson (pm_design m)), (''diagnose'', operationJson (pm_diagnose m))]"
    "fld ''projection_policy'' (manifestJson m) = JObj ((''public_action_ids'', jStrs [pm_public_action_id m]) # map (\<lambda>k. (k, JBool False)) closedFlags)"
    "fld ''authority_boundary'' (manifestJson m) = pm_authority_boundary m"
    "strOf (fld ''provider_id'' (manifestJson m)) = pm_provider_id m" "strOf (fld ''agent_id'' (manifestJson m)) = pm_agent_id m"
    "strOf (fld ''package_id'' (manifestJson m)) = pm_package_id m" "strOf (fld ''domain_id'' (manifestJson m)) = pm_domain_id m"
    "strOf (fld ''carrier_slug'' (manifestJson m)) = pm_carrier_slug m"
    by (simp_all add: manifestJson_def strOf_def)
  moreover have "isRecord (manifestJson m)" by (simp add: isRecord_def manifestJson_def)
  ultimately show ?thesis using w
    by (simp add: normalizeFoundryProviderManifest_def runChecks_ok providerOperation_again projectionPolicy_again manifest_eta Let_def del: list.map)
qed

end
