(* ===== verification/Control.thy ===== *)
theory Control
  imports Kernel_Loop Kernel_Ops
begin

text \<open>
  \<open>src/src/authority/evolution/control.ts\<close>: the service the callers of the Foundry use.
  It starts a run and moves it on, and forwards the other calls to the kernel.
\<close>

section \<open>The service\<close>

text \<open>\<open>advance\<close> is false only when the caller says \<open>advance: false\<close>.\<close>

definition controlStartRun :: "ports \<Rightarrow> json \<Rightarrow> string option \<Rightarrow> bool \<Rightarrow> inspection kern" where
  "controlStartRun pt request runId advance = bindK (startRun pt request runId) (\<lambda>run.
     if \<not> advance then inspectRun (sn_run_id run) else advanceUntilPause pt (sn_run_id run))"

datatype control_call = Start_Run json "string option" bool | Inspect_Run string | Submit_Owner_Decision string json json json bool
  | Cancel_The_Run string json json | List_Versions string string | Rollback_Activation json json json json json

text \<open>The state a call of the service leaves.\<close>

definition controlCall :: "ports \<Rightarrow> control_call \<Rightarrow> world \<Rightarrow> world" where
  "controlCall pt c w = (case c of
     Start_Run request runId advance \<Rightarrow> snd (controlStartRun pt request runId advance w)
   | Inspect_Run runId \<Rightarrow> snd (inspectRun runId w)
   | Submit_Owner_Decision runId revision decision receipt advance \<Rightarrow> snd (submitOwnerDecision pt runId revision decision receipt advance w)
   | Cancel_The_Run runId revision receipt \<Rightarrow> snd (cancelRun pt runId revision receipt w)
   | List_Versions agent domain \<Rightarrow> snd (listVersionsK agent domain w)
   | Rollback_Activation agent domain version revision receipt \<Rightarrow> snd (rollbackActivation pt agent domain version revision receipt w))"

section \<open>The service against the kernel\<close>

text \<open>The kernel operations a call amounts to: starting may be followed by the run loop.\<close>

lemma controlStart_ops:
  "\<exists>cs. list_all opValue cs \<and> length cs \<le> 2 \<and> snd (controlStartRun pt request runId advance w) = foldl (\<lambda>v c. runOp pt c v) w cs"
  if "jsValue request"
proof (cases "startRun pt request runId w")
  case (Pair r w')
  have s: "runOp pt (Start request runId False) w = w'" using Pair by (simp add: runOp_def startRun_def)
  have one: ?thesis if "snd (controlStartRun pt request runId advance w) = w'"
    using that s \<open>jsValue request\<close> by (intro exI [of _ "[Start request runId False]"]) simp
  show ?thesis
  proof (cases r)
    case (Inl e)
    with Pair have "snd (controlStartRun pt request runId advance w) = w'" by (simp add: controlStartRun_def bindK_def)
    then show ?thesis by (rule one)
  next
    case (Inr run)
    show ?thesis
    proof (cases advance)
      case True
      then have "snd (controlStartRun pt request runId advance w) = runOp pt (Advance (sn_run_id run)) w'"
        using Pair Inr by (simp add: controlStartRun_def bindK_def runOp_def)
      with s \<open>jsValue request\<close> show ?thesis
        by (intro exI [of _ "[Start request runId False, Advance (sn_run_id run)]"]) simp
    next
      case False
      then have "snd (controlStartRun pt request runId advance w) = w'"
        using Pair Inr by (simp add: controlStartRun_def bindK_def inspectRun_same)
      then show ?thesis by (rule one)
    qed
  qed
qed

fun callValue :: "control_call \<Rightarrow> bool" where
  "callValue (Start_Run request runId advance) = jsValue request"
| "callValue c = True"

lemma controlCall_ops:
  assumes "callValue c"
  shows "\<exists>cs. list_all opValue cs \<and> length cs \<le> 2 \<and> controlCall pt c w = foldl (\<lambda>v c. runOp pt c v) w cs"
proof (cases c)
  case (Start_Run request runId advance)
  with assms controlStart_ops [of request pt runId advance w] show ?thesis by (simp add: controlCall_def)
next
  case (Inspect_Run runId)
  then show ?thesis by (intro exI [of _ "[]"]) (simp add: controlCall_def inspectRun_same)
next
  case (Submit_Owner_Decision runId revision decision receipt advance)
  then show ?thesis by (intro exI [of _ "[Decide runId revision decision receipt advance]"]) (simp add: controlCall_def runOp_def)
next
  case (Cancel_The_Run runId revision receipt)
  then show ?thesis by (intro exI [of _ "[Cancel runId revision receipt]"]) (simp add: controlCall_def runOp_def)
next
  case (List_Versions agent domain)
  then show ?thesis by (intro exI [of _ "[]"]) (simp add: controlCall_def listVersionsK_def readK_def)
next
  case (Rollback_Activation agent domain version revision receipt)
  then show ?thesis by (intro exI [of _ "[Roll_Back_To agent domain version revision receipt]"]) (simp add: controlCall_def runOp_def)
qed

lemma reachable_foldl: "reachable pt w \<Longrightarrow> list_all opValue cs \<Longrightarrow> reachable pt (foldl (\<lambda>v c. runOp pt c v) w cs)"
  by (induction cs arbitrary: w) (auto intro: reachable.operate)

text \<open>What the service does to a reachable state is reachable, so the world invariant holds for it.\<close>

lemma controlCall_reachable: "reachable pt w \<Longrightarrow> callValue c \<Longrightarrow> reachable pt (controlCall pt c w)"
  using controlCall_ops [of c pt w] reachable_foldl [of pt w] by auto

text \<open>A start that advances returns the run paused, as a reader of the new state sees it.\<close>

lemma controlStart_paused:
  assumes "controlStartRun pt request runId True w = (Inr ins, w')"
  shows "isPaused (sn_run_state (ip_run ins))"
  using assms advance_paused_result [of pt _ _ ins w'] by (auto simp: controlStartRun_def bindK_def split: prod.splits sum.splits)

end
