(* ===== verification/Example_Quality.thy ===== *)
theory Example_Quality
  imports Route_Facts Designer_Adapter
begin

text \<open>
  A quality cycle with one repair, a re-review that closes its one required finding, the
  route its reviewer decides, and a provider manifest: the concrete inputs of the
  properties about them.
\<close>

section \<open>A cycle with one repair\<close>

definition exCycle :: cycle_state where
  "exCycle = \<lparr> qc_stage_run_id = ''r'', qc_quality_cycle_id = ''q'', qc_max_repair_rounds = 3, qc_repair_rounds_used = 0,
     qc_current_role = Some Role_Producer, qc_status = Awaiting_Producer, qc_artifacts = [], qc_debt = [],
     qc_scope_budget = \<lparr> sb_max_attempts = 3, sb_max_elapsed_ms = None, sb_max_tokens = None \<rparr>,
     qc_usage = \<lparr> us_attempts = 0, us_elapsed = 0, us_tokens = None \<rparr>, qc_stop_reason = None \<rparr>"

definition exCycleEvents :: "cycle_event list" where
  "exCycleEvents = [Producer_Completed (jStrs [''a'']), Review_Completed Verdict_Repair_Required JUndef,
     Repair_Completed (jStrs [''b'']), Review_Completed Verdict_Pass JUndef]"

lemma exText [simp]: "trim ''a'' = ''a''" "trim ''b'' = ''b''" "trim ''r'' = ''r''" "trim ''q'' = ''q''" "trim ''e'' = ''e''" "trim ''f'' = ''f''"
  by (simp_all add: trim_def isWs_def)

lemma exCycle_initial: "initialStageQualityCycleState (JStr ''r'') (JStr ''q'') JUndef JUndef = Inr exCycle"
proof -
  have b: "boundedInteger (JNum (jint 3)) f 0 3 = Inr 3" for f using boundedInteger_jInt [of 0 3 3 f] by (simp add: jInt_def)
  have "normalizeStageQualityScopeBudget JUndef (Some (jint 3)) =
      Inr \<lparr> sb_max_attempts = 3, sb_max_elapsed_ms = None, sb_max_tokens = None \<rparr>"
    by (simp add: normalizeStageQualityScopeBudget_def budgetShapeChecks_def budgetFlagChecks_def runChecks_ok orElse_def b
      optionalLimit_def fld_def entriesOf_def jeq_def) (simp add: jint_def)
  moreover have "numOf (jInt 3) = jint 3" "isInteger (jint 3)" "\<not> jlt (jint 3) (jint 0)"
    by (simp_all add: numOf_def jInt_def isInteger_def jint_def)
  ultimately show ?thesis
    by (simp add: initialStageQualityCycleState_def Let_def runChecks_ok orElse_def requiredText_def exCycle_def intOf_jInt)
qed

lemma exRefs [simp]: "nonEmptyStrings (jStrs [''a'']) f = Inr [''a'']" "nonEmptyStrings (jStrs [''b'']) f = Inr [''b'']" "nonEmptyStrings (JArr []) f = Inr []"
  by (simp_all add: nonEmptyStrings_def runChecks_ok isArr_def arrOf_def jStrs_def trimmedList_def uniqueFirst_def)

lemma exCycle_run: "inOrder exCycle exCycleEvents" "\<exists>st. runCycle exCycle exCycleEvents = Inr st \<and> qc_status st = Cycle_Passed"
  by (simp_all add: exCycle_def exCycleEvents_def terminalStatus_def orElse_def)

text \<open>The cycle of a Stage whose reviews are not asked for can pass before anything was produced.\<close>

lemma early_pass: "reduceStageQualityCycleState exCycle (Review_Completed Verdict_Pass JUndef) =
    Inr (exCycle\<lparr> qc_status := Cycle_Passed, qc_current_role := None \<rparr>)"
  by (simp add: exCycle_def terminalStatus_def)

section \<open>A re-review that closes its finding\<close>

definition exFindings :: json where
  "exFindings = JArr [JObj [(''finding_id'', JStr ''f''), (''severity'', JStr ''major''), (''required'', JBool True),
     (''evidence_refs'', jStrs [''e'']), (''repair_expectation'', JStr ''r'')]]"

definition exRepairs :: json where
  "exRepairs = JArr [JObj [(''finding_id'', JStr ''f''), (''repair_status'', JStr ''repaired''), (''changed_artifact_refs'', jStrs [''b'']),
     (''repair_evidence_refs'', jStrs [''e''])]]"

definition exClosureDoc :: "string \<Rightarrow> (string \<times> json) list" where
  "exClosureDoc status = [(''finding_closures'', JArr [JObj [(''finding_id'', JStr ''f''), (''status'', JStr status), (''evidence_refs'', jStrs [''e''])]]),
     (''repair_regressions'', JArr []), (''critical_new_findings'', JArr []), (''optional_observations'', JArr [])]"

definition exClosure :: finding_closure where
  "exClosure = \<lparr> fc_trigger_repair = False, fc_open = [], fc_regressions = [], fc_critical_new = [], fc_observations = [] \<rparr>"

lemma exEvidence_refs: "evidenceRefStrings (jStrs [''e'']) f x = Inr [''e'']" "evidenceRefStrings (jStrs [''b'']) f x = Inr [''b'']"
  by (simp_all add: evidenceRefStrings_def runChecks_ok isArr_def arrOf_def jStrs_def citedRef_def uniqueFirst_def)

lemma exNo_findings: "validateStageQualityFindings (JArr []) = Inr []"
  by (simp add: validateStageQualityFindings_def runChecks_ok isArr_def arrOf_def uniqueIds_def)

lemma exUnique: "uniqueIds [s] f = Inr ()" "uniqueIds [] f = Inr ()"
  by (simp_all add: uniqueIds_def runChecks_ok)

lemma exFindings_ok:
  "\<exists>g. validateStageQualityFindings exFindings = Inr [g] \<and> validateStageQualityFindings (JArr [g]) = Inr [g] \<and> requiredIds [g] = [''f''] \<and> idOf g = ''f''"
proof -
  let ?g = "JObj [(''finding_id'', JStr ''f''), (''severity'', JStr ''major''), (''required'', JBool True),
     (''evidence_refs'', jStrs [''e'']), (''repair_expectation'', JStr ''r'')]"
  have g: "findingOf ?g = Inr ?g"
    by (simp add: findingOf_def readableObject_def requiredText_def runChecks_ok exEvidence_refs isBool_def)
      (simp add: setFlds_def setFld_def entriesOf_def)
  have i: "idOf ?g = ''f''" by (simp add: idOf_def)
  have v: "validateStageQualityFindings (JArr [?g]) = Inr [?g]"
    unfolding validateStageQualityFindings_def by (simp add: runChecks_ok isArr_def arrOf_def g exUnique del: fld_JObj)
  moreover have "requiredIds [?g] = [''f'']" by (simp add: requiredIds_def boolOf_def idOf_def)
  ultimately show ?thesis using i unfolding exFindings_def by blast
qed

lemma exRepairs_ok: "validateStageQualityFindings v = Inr [g] \<Longrightarrow> requiredIds [g] = [''f''] \<Longrightarrow> \<exists>rs. validateStageQualityRepairMap v exRepairs = Inr rs"
  by (simp add: validateStageQualityRepairMap_def exRepairs_def runChecks_ok isArr_def arrOf_def repairOf_def readableObject_def
      requiredText_def exEvidence_refs exUnique coversAll_def setFlds_Cons setFlds_Nil idOf_def)

lemma exClosure_ok:
  assumes "fld ''finding_closures'' v = JArr [JObj [(''finding_id'', JStr ''f''), (''status'', JStr ''closed''), (''evidence_refs'', jStrs [''e''])]]"
    "fld ''repair_regressions'' v = JArr []" "fld ''critical_new_findings'' v = JArr []" "fld ''optional_observations'' v = JArr []" "isRecord v"
  shows "evaluateStageQualityFindingClosure exFindings exRepairs v = Inr exClosure"
proof -
  obtain g where g: "validateStageQualityFindings exFindings = Inr [g]" "validateStageQualityFindings (JArr [g]) = Inr [g]"
    "requiredIds [g] = [''f'']" "idOf g = ''f''" using exFindings_ok by blast
  obtain rs where r: "validateStageQualityRepairMap (JArr [g]) exRepairs = Inr rs" using exRepairs_ok [OF g(2, 3)] by blast
  have o: "v \<noteq> JNull" "v \<noteq> JUndef" using assms(5) by (auto simp: isRecord_def)
  show ?thesis
    by (simp add: evaluateStageQualityFindingClosure_def g r o assms(1-4) runChecks_ok isArr_def arrOf_def closureOf_def readableObject_def
      requiredText_def exEvidence_refs exUnique coversAll_def setFlds_Cons setFlds_Nil idOf_def exNo_findings newFindingChecks_def Let_def exClosure_def)
qed

section \<open>The route of its reviewer\<close>

definition exRouteContext :: json where
  "exRouteContext = JObj [(''surface_kind'', JStr ''opl_stage_run_route_selection_context''), (''version'', JStr ''stage-run-route-selection-context.v1''),
     (''current_attempt_role'', JStr ''re_reviewer''), (''configured_decisive_attempt_roles'', jStrs [''reviewer'', ''re_reviewer'']),
     (''declared_stage_ids'', jStrs [''a'', ''b'']), (''max_repair_rounds'', jInt 3)]"

definition exAttempt :: json where
  "exAttempt = JObj [(''attempt_role'', JStr ''re_reviewer''), (''stage_id'', JStr ''a''), (''quality_round_index'', jInt 1),
     (''quality_context'', JObj [(''findings'', exFindings), (''repair_map'', exRepairs)]),
     (''context_manifest'', JObj [(''cross_stage_route_selection'', exRouteContext)])]"

definition exRoute :: route_selection where
  "exRoute = \<lparr> rt_kind = Route_Advance, rt_target = Some ''b'', rt_evidence = [''e''], rt_reason = None \<rparr>"

definition exImpact :: "(string \<times> json) list \<Rightarrow> json" where
  "exImpact rest = JObj ([(''stage_quality_cycle'', JObj ((''outcome'', JStr ''pass'') # exClosureDoc ''closed'')),
     (''stage_route_decision'', selectionJson exRoute)] @ rest)"

lemma sameStringSet_mset: "mset xs = mset ys \<Longrightarrow> sameStringSet xs ys"
  unfolding sameStringSet_def by (metis mset_sort properties_for_sort sorted_sort)

lemma exContext: "routeContext exAttempt = exRouteContext" "distinctStrings (fld ''declared_stage_ids'' exRouteContext) = [''a'', ''b'']"
    "distinctStrings (fld ''configured_decisive_attempt_roles'' exRouteContext) = [''reviewer'', ''re_reviewer'']"
    "routeText (fld ''attempt_role'' exAttempt) = Some ''re_reviewer''" "routeText (fld ''stage_id'' exAttempt) = Some ''a''"
proof -
  show "routeContext exAttempt = exRouteContext"
    by (simp add: routeContext_def contextManifest_def exAttempt_def asRecord_def isRecord_def objKeys_def entriesOf_def Let_def exRouteContext_def)
  show "distinctStrings (fld ''declared_stage_ids'' exRouteContext) = [''a'', ''b'']"
    "distinctStrings (fld ''configured_decisive_attempt_roles'' exRouteContext) = [''reviewer'', ''re_reviewer'']"
    by (simp_all add: exRouteContext_def distinctStrings_def jStrs_def arrOf_def uniqueFirst_def)
  show "routeText (fld ''attempt_role'' exAttempt) = Some ''re_reviewer''" "routeText (fld ''stage_id'' exAttempt) = Some ''a''"
    by (simp_all add: exAttempt_def routeText_def)
qed

lemma exContext_ok: "routeContextRejectionReasons exAttempt exRouteContext = []"
  using sameStringSet_mset [of "[''reviewer'', ''re_reviewer'']" "[''reviewer'', ''re_reviewer'']"]
  by (simp add: routeContextRejectionReasons_def exContext Let_def STAGE_QUALITY_ATTEMPT_ROLES_def)
    (simp add: exRouteContext_def)

lemma exRoute_wf: "wfSelection [''a'', ''b''] False exRoute"
  by (simp add: wfSelection_def exRoute_def trim_def isWs_def)

lemma exReview_closed: "reReviewClosureState exAttempt (exImpact rest) = Some exClosure"
proof -
  have e: "asRecord (fld ''stage_quality_cycle'' (exImpact rest)) = JObj ((''outcome'', JStr ''pass'') # exClosureDoc ''closed'')"
    by (simp add: exImpact_def asRecord_def isRecord_def)
  have c: "asRecord (fld ''quality_context'' exAttempt) = JObj [(''findings'', exFindings), (''repair_map'', exRepairs)]"
    by (simp add: exAttempt_def asRecord_def isRecord_def)
  have a: "isArr exFindings" "isArr exRepairs" by (simp_all add: exFindings_def exRepairs_def isArr_def)
  have x: "evaluateStageQualityFindingClosure exFindings exRepairs (JObj [(''finding_closures'', JArr (arrOf (fld ''finding_closures'' (JObj (exClosureDoc ''closed''))))),
      (''repair_regressions'', JArr []), (''critical_new_findings'', JArr []), (''optional_observations'', JArr [])]) = Inr exClosure"
    by (rule exClosure_ok) (simp_all add: exClosureDoc_def arrOf_def isRecord_def)
  show ?thesis using x unfolding reReviewClosureState_def e c Let_def
    by (simp add: a) (simp add: exClosureDoc_def arrOf_def)
qed

lemma exDecision_accepted: "terminalDecisionRejectionReasons exAttempt (exImpact rest) exRoute = []"
proof -
  have e: "asRecord (fld ''stage_quality_cycle'' (exImpact rest)) = JObj ((''outcome'', JStr ''pass'') # exClosureDoc ''closed'')"
    by (simp add: exImpact_def asRecord_def isRecord_def)
  have n: "jsNumber (jInt i) = jint i" for i by (simp add: jsNumber_def jInt_def)
  have f: "fld ''quality_round_index'' exAttempt = jInt 1" "fld ''max_repair_rounds'' exRouteContext = jInt 3"
    by (simp_all add: exAttempt_def exRouteContext_def)
  have b: "classifyStageQualityReReviewBudget exClosure (jInt 1) (jInt 3) = Inr Terminal_Normal"
    by (simp add: classifyStageQualityReReviewBudget_def Let_def n runChecks_ok isInteger_def jint_def exClosure_def)
  have o: "outcomeOf (Some ''pass'') = Some Outcome_Pass" using outcomeOf_name [of Outcome_Pass] by simp
  have v: "validateStageQualityReReviewOutcome Outcome_Pass exClosure = Inr Outcome_Pass"
    by (simp add: validateStageQualityReReviewOutcome_def runChecks_ok exClosure_def)
  have p: "routeText (JStr ''pass'') = Some ''pass''" by simp
  have k: "fld ''outcome'' (JObj ((''outcome'', JStr ''pass'') # exClosureDoc ''closed'')) = JStr ''pass''"
    "\<not> hasOwn (JObj ((''outcome'', JStr ''pass'') # exClosureDoc ''closed'')) ''verdict''"
    "fld ''hard_stop_class'' (JObj ((''outcome'', JStr ''pass'') # exClosureDoc ''closed'')) = JUndef"
    by (simp_all add: hasOwn_def objKeys_def entriesOf_def exClosureDoc_def)
  have r: "reReviewReasons (Some ''pass'') (Some exClosure) (jInt 1) (jInt 3) again = []" for again
    by (simp add: reReviewReasons_def Let_def o b v)
  show ?thesis
    unfolding terminalDecisionRejectionReasons_def exContext(1, 4) option.case Let_def e k(1, 3) p exReview_closed f exContext(3) r o
    by (simp add: k(2))
qed

lemma exRoute_evaluated: "ev_decision (evaluateStageQualityAttemptRoute exAttempt (exImpact [])) = Some exRoute"
proof -
  have h: "hasOwn (exImpact []) k \<longleftrightarrow> k \<in> {''stage_quality_cycle'', ''stage_route_decision''}" for k
    by (auto simp: exImpact_def hasOwn_def objKeys_def entriesOf_def)
  show ?thesis
    by (rule conjunct1 [OF evaluate_decision])
      (simp_all add: exContext exContext_ok exRoute_wf exDecision_accepted h selectedLegacyFields_def LEGACY_TERMINAL_ROUTE_FIELDS_def,
       simp_all add: exImpact_def isRecord_def)
qed

text \<open>The same output with a field of the old contract: the decision is refused.\<close>

lemma exLegacy_refused: "ev_applicable (evaluateStageQualityAttemptRoute exAttempt (exImpact [(''workflow_complete'', JBool True)]))"
    "hasOwn (exImpact [(''workflow_complete'', JBool True)]) ''workflow_complete''"
  by (simp_all add: evaluateStageQualityAttemptRoute_def Let_def exContext)
    (simp add: exImpact_def hasOwn_def objKeys_def entriesOf_def)

section \<open>A provider manifest\<close>

definition exProvider :: "string list \<Rightarrow> provider_manifest" where
  "exProvider inputs = \<lparr> pm_provider_id = ''p'', pm_agent_id = ''p'', pm_package_id = ''p'', pm_domain_id = ''d'', pm_carrier_slug = ''c'',
     pm_design = \<lparr> po_input_schema_refs = [DESIGN_REQUEST_REF], po_output_schema_ref = AGENT_BLUEPRINT_REF, po_entry_stage_ref = ''a'',
       po_required_stage_refs = [''a'', ''b''], po_optional_stage_refs = [''e''], po_terminal_stage_ref = ''b'' \<rparr>,
     pm_diagnose = \<lparr> po_input_schema_refs = inputs, po_output_schema_ref = EVOLUTION_PROPOSAL_REF, po_entry_stage_ref = ''a'',
       po_required_stage_refs = [''a''], po_optional_stage_refs = [], po_terminal_stage_ref = ''a'' \<rparr>,
     pm_public_action_id = ''a'',
     pm_authority_boundary = JObj (map (\<lambda>k. (k, JBool True)) providerOwned @ map (\<lambda>k. (k, JBool False)) providerDenied) \<rparr>"

definition exInputs :: "string list" where
  "exInputs = [DESIGN_REQUEST_REF, AGENT_BLUEPRINT_REF, EVIDENCE_BUNDLE_REF]"

lemma exBoundary: "authorityBoundary (pm_authority_boundary (exProvider inputs)) = Inr (pm_authority_boundary (exProvider inputs))"
proof -
  let ?b = "pm_authority_boundary (exProvider inputs)"
  have "exactKeys ?b (providerOwned @ providerDenied) f = Inr ()" for f
    unfolding exactKeys_iff by (simp add: exProvider_def objKeys_def entriesOf_def comp_def)
  moreover have "isRecord ?b" by (simp add: exProvider_def isRecord_def)
  moreover have "list_all (\<lambda>k. fld k ?b = JBool True) providerOwned" "list_all (\<lambda>k. fld k ?b = JBool False) providerDenied"
    by (simp_all add: exProvider_def providerOwned_def providerDenied_def)
  ultimately show ?thesis by (simp add: authorityBoundary_def runChecks_ok)
qed

lemma exProvider_wf:
  assumes "list_all (\<lambda>s. trim s \<noteq> []) inputs" "joinWith [CHR 0x00] inputs = joinWith [CHR 0x00] exInputs"
  shows "wfManifest (exProvider inputs)"
proof -
  have t: "trim DESIGN_REQUEST_REF \<noteq> []" "trim ''a'' \<noteq> []" "trim ''b'' \<noteq> []" "trim ''e'' \<noteq> []"
    by (simp_all add: DESIGN_REQUEST_REF_def trim_def isWs_def)
  have "wfOperation (pm_design (exProvider inputs))" "wfOperation (pm_diagnose (exProvider inputs))" using t assms(1)
    by (simp_all add: wfOperation_def topologyChecks_def exProvider_def) (simp_all add: AGENT_BLUEPRINT_REF_def EVOLUTION_PROPOSAL_REF_def)
  moreover have "list_all fst (manifestIdentityChecks (exProvider inputs))"
    using assms(2) by (simp add: manifestIdentityChecks_def exProvider_def exInputs_def)
  ultimately show ?thesis using exBoundary by (simp add: wfManifest_def isOk_iff) (simp add: exProvider_def t)
qed

lemma exInputs_ok: "list_all (\<lambda>s. trim s \<noteq> []) exInputs"
  by (simp add: exInputs_def DESIGN_REQUEST_REF_def AGENT_BLUEPRINT_REF_def EVIDENCE_BUNDLE_REF_def trim_def isWs_def)

text \<open>
  The joined comparison does not tell three schema references from one reference that
  holds all three with the separator between them.
\<close>

lemma joined_inputs_accepted:
  "normalizeFoundryProviderManifest (manifestJson (exProvider [joinWith [CHR 0x00] exInputs])) = Inr (exProvider [joinWith [CHR 0x00] exInputs])"
proof -
  have "trim (joinWith [CHR 0x00] exInputs) \<noteq> []"
    by (simp add: exInputs_def DESIGN_REQUEST_REF_def AGENT_BLUEPRINT_REF_def EVIDENCE_BUNDLE_REF_def trim_def isWs_def)
  then show ?thesis by (intro normalizeManifest_again exProvider_wf) simp_all
qed

end
