(* ===== verification/Review_Currentness.thy ===== *)
theory Review_Currentness
  imports Quality_Cycle
begin

text \<open>
  \<open>src/src/authority/stages/review-evidence-currentness.ts\<close>: the evidence graph of a review,
  and whether a review is still current after changes to its nodes.  The graph must be
  acyclic; a review is stale when a semantic change touches a node that the reviewed nodes
  depend on.  The depth first search and the work list of the code are kept, with the sets
  they carry as lists.
\<close>

section \<open>Vocabulary\<close>

definition REVIEW_SCOPE_KINDS :: "string list" where
  "REVIEW_SCOPE_KINDS = [''content'', ''reference'', ''display'', ''package'']"

definition EVIDENCE_NODE_KINDS :: "string list" where
  "EVIDENCE_NODE_KINDS = [''artifact'', ''claim'', ''provenance'']"

definition EVIDENCE_NODE_ROLES :: "string list" where
  "EVIDENCE_NODE_ROLES = [''source_data'', ''context'', ''analysis_code'', ''analysis_parameters'', ''analysis_result'', ''claim'',
     ''reference_source'', ''citation_linkage'', ''limitation'', ''reproduction_instruction'', ''visual_content'', ''layout'', ''render_template'',
     ''package_content'', ''package_wrapper'', ''governance_metadata'', ''review_receipt'']"

definition EVIDENCE_DEPENDENCY_RELATIONS :: "string list" where
  "EVIDENCE_DEPENDENCY_RELATIONS = [''derived_from'', ''interprets'', ''supports'', ''cites'', ''renders'', ''packages'', ''reproduces'']"

definition SEMANTIC_CHANGE_CLASSES :: "string list" where
  "SEMANTIC_CHANGE_CLASSES = [''data'', ''context'', ''analysis_code'', ''analysis_parameters'', ''analysis_result'', ''claim'', ''reference_source'',
     ''citation_linkage'', ''limitation'', ''visual_content'', ''layout'', ''render_template'', ''package_composition'', ''package_wrapper'',
     ''governance_metadata'', ''review_receipt'', ''locator_only'']"

definition NON_EPISTEMIC_ROLES :: "string list" where
  "NON_EPISTEMIC_ROLES = [''governance_metadata'', ''review_receipt'']"

definition SCOPE_FORBIDDEN_ROLES :: "string \<Rightarrow> string list" where
  "SCOPE_FORBIDDEN_ROLES k =
     (if k = ''content'' then [''visual_content'', ''layout'', ''render_template'', ''package_content'', ''package_wrapper'',
        ''governance_metadata'', ''review_receipt'']
      else if k = ''reference'' then [''source_data'', ''analysis_code'', ''analysis_parameters'', ''visual_content'', ''layout'',
        ''render_template'', ''package_content'', ''package_wrapper'', ''governance_metadata'', ''review_receipt'']
      else if k = ''display'' then [''package_content'', ''package_wrapper'', ''governance_metadata'', ''review_receipt'']
      else NON_EPISTEMIC_ROLES)"

text \<open>Every class names the role of its own name, but for three.\<close>

definition CHANGE_CLASS_ROLES :: "string \<Rightarrow> string list" where
  "CHANGE_CLASS_ROLES c = (if c = ''data'' then [''source_data''] else if c = ''package_composition'' then [''package_content'']
     else if c = ''locator_only'' then EVIDENCE_NODE_ROLES else [c])"

section \<open>The evidence graph\<close>

record evidence_node =
  nd_ref :: string
  nd_kind :: string
  nd_role :: string
  nd_locator :: "(string \<times> string option) option"

record evidence_edge =
  ed_source :: string
  ed_dependent :: string
  ed_relation :: string

record review_scope =
  sc_scope_id :: string
  sc_scope_kind :: string
  sc_reviewed :: "string list"
  sc_nodes :: "evidence_node list"
  sc_edges :: "evidence_edge list"

definition enumValue :: "json \<Rightarrow> string list \<Rightarrow> string \<Rightarrow> string res" where
  "enumValue v allowed f = bindE (runChecks [(isStr v \<and> strOf v \<in> set allowed, f @ '' is not supported.'')]) (\<lambda>u. Inr (strOf v))"

definition recordOf :: "json \<Rightarrow> string \<Rightarrow> json res" where
  "recordOf v f = bindE (runChecks [(isRecord v, f @ '' must be an object.'')]) (\<lambda>u. Inr v)"

definition atIndex :: "string \<Rightarrow> nat \<Rightarrow> string" where
  "atIndex f i = f @ ''['' @ dec (int i) @ '']''"

text \<open>\<open>map((entry, index) => ...)\<close> of a function that may throw.\<close>

definition mapIndexed :: "(nat \<Rightarrow> json \<Rightarrow> 'a res) \<Rightarrow> json list \<Rightarrow> 'a list res" where
  "mapIndexed f vs = seqE (map (\<lambda>(i, v). f i v) (enumerate 0 vs))"

definition normalizeNode :: "nat \<Rightarrow> json \<Rightarrow> evidence_node res" where
  "normalizeNode i v = bindE (recordOf v (atIndex ''nodes'' i)) (\<lambda>input. let l = fld ''locator'' input; absent = (l = JUndef \<or> l = JNull) in
     bindE (if absent then Inr JNull else recordOf l (atIndex ''nodes'' i @ ''.locator'')) (\<lambda>u. let h = fld ''sha256'' l in
     bindE (runChecks [(absent \<or> h = JUndef \<or> h = JNull \<or> isStr h \<and> isDigest (strOf h),
       atIndex ''nodes'' i @ ''.locator.sha256 must be a canonical optional SHA-256 locator.'')]) (\<lambda>u.
     bindE (requiredText (fld ''node_ref'' input) (atIndex ''nodes'' i @ ''.node_ref'')) (\<lambda>ref.
     bindE (enumValue (fld ''node_kind'' input) EVIDENCE_NODE_KINDS (atIndex ''nodes'' i @ ''.node_kind'')) (\<lambda>kind.
     bindE (enumValue (fld ''role'' input) EVIDENCE_NODE_ROLES (atIndex ''nodes'' i @ ''.role'')) (\<lambda>role.
     bindE (if absent then Inr None else mapE (\<lambda>r. Some (r, optStr h)) (requiredText (fld ''ref'' l) (atIndex ''nodes'' i @ ''.locator.ref''))) (\<lambda>locator.
     Inr \<lparr> nd_ref = ref, nd_kind = kind, nd_role = role, nd_locator = locator \<rparr>)))))))"

definition normalizeEdge :: "nat \<Rightarrow> json \<Rightarrow> evidence_edge res" where
  "normalizeEdge i v = bindE (recordOf v (atIndex ''dependency_edges'' i)) (\<lambda>input.
     bindE (requiredText (fld ''source_ref'' input) (atIndex ''dependency_edges'' i @ ''.source_ref'')) (\<lambda>s.
     bindE (requiredText (fld ''dependent_ref'' input) (atIndex ''dependency_edges'' i @ ''.dependent_ref'')) (\<lambda>d.
     bindE (enumValue (fld ''relation'' input) EVIDENCE_DEPENDENCY_RELATIONS (atIndex ''dependency_edges'' i @ ''.relation'')) (\<lambda>r.
     Inr \<lparr> ed_source = s, ed_dependent = d, ed_relation = r \<rparr>))))"

definition requiredUniqueRefs :: "json \<Rightarrow> string \<Rightarrow> string list res" where
  "requiredUniqueRefs v f = bindE (runChecks [(isArr v \<and> arrOf v \<noteq> [], f @ '' requires at least one ref.'')]) (\<lambda>u.
     bindE (mapIndexed (\<lambda>i e. requiredText e (atIndex f i)) (arrOf v)) (\<lambda>rs.
     bindE (runChecks [(distinct rs, f @ '' must not contain duplicate refs.'')]) (\<lambda>u. Inr rs)))"

text \<open>The dependents of a node, in the order of the edges.\<close>

definition outgoing :: "evidence_edge list \<Rightarrow> string \<Rightarrow> string list" where
  "outgoing es n = map ed_dependent (filter (\<lambda>e. ed_source e = n) es)"

text \<open>
  \<open>for (const ref of refs) visit(ref)\<close>: the nodes on the current path, the finished nodes,
  the refs still to visit.  It returns the finished nodes, the last one first.
\<close>

function visitAll :: "evidence_edge list \<Rightarrow> string list \<Rightarrow> string list \<Rightarrow> string list \<Rightarrow> string list res" where
  "visitAll es visiting visited [] = Inr visited"
| "visitAll es visiting visited (n # ns) =
     (if n \<in> set visiting then fail ''Epistemic evidence dependency graph must be acyclic.''
      else if n \<in> set visited then visitAll es visiting visited ns
      else case visitAll es (n # visiting) visited (outgoing es n) of
        Inl e \<Rightarrow> Inl e
      | Inr v \<Rightarrow> visitAll es visiting (n # v) ns)"
  by pat_completeness auto
termination
proof (relation "measures [\<lambda>(es, visiting, visited, ns). card (ed_source ` set es - set visiting), \<lambda>(es, visiting, visited, ns). length ns]")
  fix es :: "evidence_edge list" and visiting visited :: "string list" and n and ns :: "string list"
  assume n: "n \<notin> set visiting"
  show "((es, n # visiting, visited, outgoing es n), es, visiting, visited, n # ns) \<in>
    measures [\<lambda>(es, visiting, visited, ns). card (ed_source ` set es - set visiting), \<lambda>(es, visiting, visited, ns). length ns]"
  proof (cases "n \<in> ed_source ` set es")
    case True
    then have "card (ed_source ` set es - set (n # visiting)) < card (ed_source ` set es - set visiting)"
      using n by (intro psubset_card_mono) auto
    then show ?thesis by simp
  next
    case False
    then have "outgoing es n = []" by (auto simp: outgoing_def filter_empty_conv)
    moreover have "ed_source ` set es - set (n # visiting) = ed_source ` set es - set visiting" using False by auto
    ultimately show ?thesis by simp
  qed
qed simp_all

definition requireAcyclicGraph :: "evidence_node list \<Rightarrow> evidence_edge list \<Rightarrow> unit res" where
  "requireAcyclicGraph nodes es = mapE (\<lambda>v. ()) (visitAll es [] [] (map nd_ref nodes))"

definition scopeHeadChecks :: "json \<Rightarrow> check list" where
  "scopeHeadChecks v = [(fld ''surface_kind'' v = JStr ''opl_epistemic_review_scope'' \<and> fld ''version'' v = JStr ''opl-epistemic-review-scope.v2'',
     ''Review currentness requires the generic OPL epistemic review scope v2.'')]"

definition graphChecks :: "string list \<Rightarrow> evidence_edge list \<Rightarrow> check list" where
  "graphChecks refs es =
     [(list_all (\<lambda>e. ed_source e \<in> set refs \<and> ed_dependent e \<in> set refs) es, ''Every evidence dependency edge must connect declared nodes.''),
      (list_all (\<lambda>e. ed_source e \<noteq> ed_dependent e) es, ''Evidence dependency edges cannot be self-referential.'')]"

definition normalizeEpistemicReviewScope :: "json \<Rightarrow> review_scope res" where
  "normalizeEpistemicReviewScope v = bindE (recordOf v ''review_scope'') (\<lambda>input.
     bindE (runChecks (scopeHeadChecks input)) (\<lambda>u.
     bindE (enumValue (fld ''scope_kind'' input) REVIEW_SCOPE_KINDS ''scope_kind'') (\<lambda>kind.
     bindE (runChecks [(fld ''evidence_profile'' input = JStr ''epistemic_provenance'' \<and> fld ''trust_model'' input = JStr ''trusted_local_workspace'',
         ''Content review evidence must use epistemic provenance in a trusted local workspace.''),
       (isArr (fld ''nodes'' input) \<and> arrOf (fld ''nodes'' input) \<noteq> [], ''Review scope requires evidence nodes.'')]) (\<lambda>u.
     bindE (mapIndexed normalizeNode (arrOf (fld ''nodes'' input))) (\<lambda>nodes. let refs = map nd_ref nodes in
     bindE (runChecks [(distinct refs, ''Review scope node refs must be unique.'')]) (\<lambda>u.
     bindE (requiredUniqueRefs (fld ''reviewed_node_refs'' input) ''reviewed_node_refs'') (\<lambda>reviewed.
     bindE (runChecks [(set reviewed \<subseteq> set refs, ''Every reviewed node ref must exist in the evidence graph.'')]) (\<lambda>u.
     bindE (mapIndexed normalizeEdge (arrOf (fld ''dependency_edges'' input))) (\<lambda>es.
     bindE (runChecks (graphChecks refs es)) (\<lambda>u.
     bindE (requireAcyclicGraph nodes es) (\<lambda>u.
     bindE (runChecks [(list_all (\<lambda>n. nd_role n \<notin> set (SCOPE_FORBIDDEN_ROLES kind)) nodes,
       ''Review scope contains artifact roles outside its semantic domain.'')]) (\<lambda>u.
     bindE (recordOf (fld ''authority_boundary'' input) ''authority_boundary'') (\<lambda>a.
     bindE (runChecks [(fld ''hash_is_locator_or_stale_hint_only'' a = JBool True \<and> fld ''hash_is_content_authority'' a = JBool False
         \<and> fld ''release_integrity_is_separate'' a = JBool True \<and> fld ''framework_can_issue_domain_verdict'' a = JBool False,
       ''Epistemic review scope authority boundary cannot promote hashes or Framework transport to domain truth.'')]) (\<lambda>u.
     bindE (requiredText (fld ''scope_id'' input) ''scope_id'') (\<lambda>i.
     Inr \<lparr> sc_scope_id = i, sc_scope_kind = kind, sc_reviewed = reviewed, sc_nodes = nodes, sc_edges = es \<rparr>)))))))))))))))"

section \<open>The dependency closure\<close>

definition sourcesOf :: "evidence_edge list \<Rightarrow> string \<Rightarrow> string list" where
  "sourcesOf es n = map ed_source (filter (\<lambda>e. ed_dependent e = n) es)"

text \<open>The inner loop: a source that is new goes to the closure and onto the stack.\<close>

fun pushSources :: "string list \<Rightarrow> string list \<Rightarrow> string list \<Rightarrow> string list \<times> string list" where
  "pushSources closure pending [] = (closure, pending)"
| "pushSources closure pending (s # ss) = (if s \<in> set closure then pushSources closure pending ss
     else pushSources (closure @ [s]) (pending @ [s]) ss)"

lemma pushSources_new:
  "\<exists>new. pushSources closure pending ss = (closure @ new, pending @ new) \<and> distinct new \<and> set new = set ss - set closure"
proof (induction closure pending ss rule: pushSources.induct)
  case (2 closure pending s ss)
  show ?case
  proof (cases "s \<in> set closure")
    case True
    with 2(1) show ?thesis by auto
  next
    case False
    with 2(2) obtain new where n: "pushSources (closure @ [s]) (pending @ [s]) ss = ((closure @ [s]) @ new, (pending @ [s]) @ new)"
      "distinct new" "set new = set ss - set (closure @ [s])" by blast
    with False show ?thesis by (intro exI [of _ "s # new"]) auto
  qed
qed simp

text \<open>\<open>while (pending.length > 0)\<close>: the last entry of the stack is taken first.\<close>

function closeLoop :: "evidence_edge list \<Rightarrow> string list \<Rightarrow> string list \<Rightarrow> string list" where
  "closeLoop es closure pending = (if pending = [] then closure
     else case pushSources closure (butlast pending) (sourcesOf es (last pending)) of (c, p) \<Rightarrow> closeLoop es c p)"
  by pat_completeness auto
termination
proof (relation "measure (\<lambda>(es, closure, pending). card (ed_source ` set es - set closure) + length pending)")
  fix es :: "evidence_edge list" and closure pending c p :: "string list"
  assume ne: "pending \<noteq> []" and x: "(c, p) = pushSources closure (butlast pending) (sourcesOf es (last pending))"
  obtain new where n: "c = closure @ new" "p = butlast pending @ new" "distinct new" "set new = set (sourcesOf es (last pending)) - set closure"
    using pushSources_new [of closure "butlast pending" "sourcesOf es (last pending)"] x by auto
  let ?S = "ed_source ` set es"
  have s: "set new \<subseteq> ?S - set closure" using n(4) by (auto simp: sourcesOf_def)
  have "card (?S - set closure) = card (?S - set c) + length new"
  proof -
    have "?S - set c = (?S - set closure) - set new" using n(1) by auto
    then have "card (?S - set c) = card (?S - set closure) - card (set new)" using s by (simp add: card_Diff_subset)
    moreover have "card (set new) \<le> card (?S - set closure)" using s by (intro card_mono) auto
    ultimately show ?thesis using distinct_card [OF n(3)] by simp
  qed
  moreover have "0 < length pending" using ne by simp
  ultimately show "((es, c, p), es, closure, pending) \<in> measure (\<lambda>(es, closure, pending). card (ed_source ` set es - set closure) + length pending)"
    using n(2) by simp
qed simp

declare closeLoop.simps [simp del]

definition dependencyClosure :: "review_scope \<Rightarrow> string list" where
  "dependencyClosure s = closeLoop (sc_edges s) (sc_reviewed s) (sc_reviewed s)"

section \<open>Currentness\<close>

record evidence_change =
  ch_ref :: string
  ch_class :: string
  ch_semantic :: bool
  ch_before :: "string option"
  ch_after :: "string option"

definition normalizeChange :: "nat \<Rightarrow> json \<Rightarrow> evidence_change res" where
  "normalizeChange i v = bindE (recordOf v (atIndex ''changes'' i)) (\<lambda>input.
     bindE (runChecks [(isBool (fld ''semantic_changed'' input), atIndex ''changes'' i @ ''.semantic_changed must be boolean.'')]) (\<lambda>u.
     bindE (requiredText (fld ''node_ref'' input) (atIndex ''changes'' i @ ''.node_ref'')) (\<lambda>ref.
     bindE (enumValue (fld ''change_class'' input) SEMANTIC_CHANGE_CLASSES (atIndex ''changes'' i @ ''.change_class'')) (\<lambda>c.
     Inr \<lparr> ch_ref = ref, ch_class = c, ch_semantic = boolOf (fld ''semantic_changed'' input),
       ch_before = optStr (fld ''locator_sha256_before'' input), ch_after = optStr (fld ''locator_sha256_after'' input) \<rparr>))))"

definition nodeByRef :: "review_scope \<Rightarrow> string \<Rightarrow> evidence_node option" where
  "nodeByRef s r = find (\<lambda>n. nd_ref n = r) (sc_nodes s)"

text \<open>The reason a change is ignored, or \<open>None\<close> when it invalidates the review.\<close>

definition judgeChange :: "review_scope \<Rightarrow> string list \<Rightarrow> evidence_change \<Rightarrow> string option res" where
  "judgeChange s closure c = (case nodeByRef s (ch_ref c) of None \<Rightarrow> Inr (Some ''outside_declared_evidence_graph'')
     | Some n \<Rightarrow>
       if nd_role n \<notin> set (CHANGE_CLASS_ROLES (ch_class c))
       then fail ''Semantic change class does not match the declared evidence node role.''
       else if \<not> ch_semantic c \<or> ch_class c = ''locator_only'' then Inr (Some ''locator_or_non_semantic_change_only'')
       else if nd_role n \<in> set NON_EPISTEMIC_ROLES then Inr (Some ''governance_or_review_metadata_is_not_content_evidence'')
       else if ch_ref c \<notin> set closure then Inr (Some ''outside_reviewed_dependency_closure'')
       else Inr None)"

record currentness =
  cu_scope_id :: string
  cu_scope_kind :: string
  cu_stale :: bool
  cu_invalidating :: "evidence_change list"
  cu_ignored :: "(evidence_change \<times> string) list"
  cu_reviewed_dependency_refs :: "string list"

definition evaluateEpistemicReviewCurrentness :: "json \<Rightarrow> json \<Rightarrow> currentness res" where
  "evaluateEpistemicReviewCurrentness scopeValue changesValue = bindE (normalizeEpistemicReviewScope scopeValue) (\<lambda>s.
     bindE (runChecks [(isArr changesValue, ''changes must be an array.'')]) (\<lambda>u.
     bindE (mapIndexed normalizeChange (arrOf changesValue)) (\<lambda>cs. let closure = dependencyClosure s in
     bindE (seqE (map (judgeChange s closure) cs)) (\<lambda>js.
     let judged = zip cs js; invalidating = map fst (filter (\<lambda>(c, j). j = None) judged) in
     Inr \<lparr> cu_scope_id = sc_scope_id s, cu_scope_kind = sc_scope_kind s, cu_stale = (invalidating \<noteq> []), cu_invalidating = invalidating,
       cu_ignored = map (\<lambda>(c, j). (c, the j)) (filter (\<lambda>(c, j). j \<noteq> None) judged), cu_reviewed_dependency_refs = sort closure \<rparr>))))"

end
