(* ===== verification/Review_Facts.thy ===== *)
theory Review_Facts
  imports Review_Currentness
begin

text \<open>
  What the evidence graph of a review promises: the depth first search accepts exactly the
  acyclic graphs, the work list computes exactly the nodes the reviewed ones depend on,
  and a review is stale exactly when a semantic change touches one of them.
\<close>

section \<open>The search accepts exactly the acyclic graphs\<close>

definition dependsOn :: "evidence_edge list \<Rightarrow> (string \<times> string) set" where
  "dependsOn es = (\<lambda>e. (ed_source e, ed_dependent e)) ` set es"

lemma outgoing_iff: "m \<in> set (outgoing es n) \<longleftrightarrow> (n, m) \<in> dependsOn es"
  by (force simp: outgoing_def dependsOn_def)

lemma sourcesOf_iff: "s \<in> set (sourcesOf es n) \<longleftrightarrow> (s, n) \<in> dependsOn es"
  by (force simp: sourcesOf_def dependsOn_def)

text \<open>Finished nodes, last first: each follows all its dependents.\<close>

fun finished :: "evidence_edge list \<Rightarrow> string list \<Rightarrow> bool" where
  "finished es [] \<longleftrightarrow> True"
| "finished es (n # ns) \<longleftrightarrow> set (outgoing es n) \<subseteq> set ns \<and> n \<notin> set ns \<and> finished es ns"

lemma visitAll_finished:
  assumes "visitAll es visiting visited ns = Inr v" "finished es visited" "set visiting \<inter> set visited = {}"
  shows "finished es v \<and> set visited \<subseteq> set v \<and> set ns \<subseteq> set v \<and> set visiting \<inter> set v = {}"
  using assms
proof (induction es visiting visited ns arbitrary: v rule: visitAll.induct)
  case (2 es visiting visited n ns)
  have n: "n \<notin> set visiting" using 2(4) by (auto split: if_splits)
  show ?case
  proof (cases "n \<in> set visited")
    case True
    with 2(4) n have "visitAll es visiting visited ns = Inr v" by simp
    from 2(1) [OF n True this 2(5, 6)] True show ?thesis by auto
  next
    case False
    with 2(4) n obtain w where w: "visitAll es (n # visiting) visited (outgoing es n) = Inr w"
      and v: "visitAll es visiting (n # w) ns = Inr v" by (auto split: sum.splits)
    have "set (n # visiting) \<inter> set visited = {}" using 2(6) False by auto
    from 2(2) [OF n False w 2(5) this] have i: "finished es w" "set visited \<subseteq> set w" "set (outgoing es n) \<subseteq> set w"
      "set (n # visiting) \<inter> set w = {}" by simp_all
    then have f: "finished es (n # w)" "set visiting \<inter> set (n # w) = {}" using n by auto
    from 2(3) [OF n False w v f] i(2) show ?thesis by auto
  qed
qed simp

lemma finished_target:
  assumes "finished es v" "(a, b) \<in> (dependsOn es)\<^sup>+" "a \<in> set v"
  shows "b \<in> set v \<and> a \<noteq> b"
  using assms
proof (induction v arbitrary: a)
  case (Cons n ns)
  have out: "set (outgoing es n) \<subseteq> set ns" "n \<notin> set ns" "finished es ns" using Cons.prems(1) by simp_all
  show ?case
  proof (cases "a = n")
    case False
    with Cons.IH [OF out(3) Cons.prems(2)] Cons.prems(3) show ?thesis by simp
  next
    case True
    from tranclD [OF Cons.prems(2)] obtain c where c: "(a, c) \<in> dependsOn es" "(c, b) \<in> (dependsOn es)\<^sup>*" by blast
    with out(1) True have "c \<in> set ns" by (auto simp: outgoing_iff [symmetric])
    with c(2) Cons.IH [OF out(3), of c] have "b \<in> set ns" by (auto dest: rtranclD)
    with True out(2) show ?thesis by auto
  qed
qed simp

lemma visitAll_accepts:
  assumes "acyclic (dependsOn es)" "\<forall>p \<in> set visiting. \<forall>n \<in> set ns. (p, n) \<in> (dependsOn es)\<^sup>+"
  shows "\<exists>v. visitAll es visiting visited ns = Inr v"
  using assms
proof (induction es visiting visited ns rule: visitAll.induct)
  case (2 es visiting visited n ns)
  have n: "n \<notin> set visiting" using 2(4, 5) by (auto simp: acyclic_def)
  have r: "\<forall>p \<in> set visiting. \<forall>m \<in> set ns. (p, m) \<in> (dependsOn es)\<^sup>+" using 2(5) by simp
  show ?case
  proof (cases "n \<in> set visited")
    case True
    from 2(1) [OF n True 2(4) r] n True show ?thesis by simp
  next
    case False
    have "\<forall>p \<in> set (n # visiting). \<forall>m \<in> set (outgoing es n). (p, m) \<in> (dependsOn es)\<^sup>+"
      using 2(5) by (auto simp: outgoing_iff intro: trancl_into_trancl)
    from 2(2) [OF n False 2(4) this] obtain w where w: "visitAll es (n # visiting) visited (outgoing es n) = Inr w" by blast
    from 2(3) [OF n False w 2(4) r] n False w show ?thesis by simp
  qed
qed simp

lemma acyclic_exact:
  assumes "\<forall>e \<in> set es. ed_source e \<in> nd_ref ` set nodes"
  shows "requireAcyclicGraph nodes es = Inr () \<longleftrightarrow> acyclic (dependsOn es)"
proof
  assume "requireAcyclicGraph nodes es = Inr ()"
  then obtain v where "visitAll es [] [] (map nd_ref nodes) = Inr v" by (auto simp: requireAcyclicGraph_def)
  from visitAll_finished [OF this] have v: "finished es v" "nd_ref ` set nodes \<subseteq> set v" by simp_all
  show "acyclic (dependsOn es)" unfolding acyclic_def
  proof (intro allI notI)
    fix a assume c: "(a, a) \<in> (dependsOn es)\<^sup>+"
    from tranclD [OF this] have "a \<in> nd_ref ` set nodes" using assms by (auto simp: dependsOn_def)
    with v(2) finished_target [OF v(1) c] show False by auto
  qed
next
  assume "acyclic (dependsOn es)"
  from visitAll_accepts [OF this, of "[]" "map nd_ref nodes" "[]"] show "requireAcyclicGraph nodes es = Inr ()"
    by (auto simp: requireAcyclicGraph_def)
qed

section \<open>The work list computes the dependencies\<close>

lemma closeLoop_exact:
  assumes "set pending \<subseteq> set closure" "set closure \<subseteq> {s. \<exists>r \<in> R. (s, r) \<in> (dependsOn es)\<^sup>*}" "R \<subseteq> set closure"
    "\<forall>c \<in> set closure - set pending. set (sourcesOf es c) \<subseteq> set closure"
  shows "set (closeLoop es closure pending) = {s. \<exists>r \<in> R. (s, r) \<in> (dependsOn es)\<^sup>*}"
  using assms
proof (induction es closure pending rule: closeLoop.induct)
  case (1 es closure pending)
  show ?case
  proof (cases "pending = []")
    case True
    have "s \<in> set closure" if "(s, r) \<in> (dependsOn es)\<^sup>*" "r \<in> R" for s r
      using that
    proof (induction rule: converse_rtrancl_induct)
      case base
      then show ?case using "1.prems"(3) by auto
    next
      case (step y z)
      then show ?case using "1.prems"(4) True by (auto simp: sourcesOf_iff subset_iff)
    qed
    then have "set closure = {s. \<exists>r \<in> R. (s, r) \<in> (dependsOn es)\<^sup>*}" using "1.prems"(2) by auto
    then show ?thesis using True by (subst closeLoop.simps) simp
  next
    case False
    let ?n = "last pending"
    obtain new where n: "pushSources closure (butlast pending) (sourcesOf es ?n) = (closure @ new, butlast pending @ new)"
      "set new = set (sourcesOf es ?n) - set closure" using pushSources_new by blast
    have p: "set pending = insert ?n (set (butlast pending))"
      by (subst append_butlast_last_id [OF False, symmetric]) simp
    have "?n \<in> set closure" using p "1.prems"(1) by auto
    then obtain r where r: "r \<in> R" "(?n, r) \<in> (dependsOn es)\<^sup>*" using "1.prems"(2) by auto
    have "set (closeLoop es (closure @ new) (butlast pending @ new)) = {s. \<exists>r \<in> R. (s, r) \<in> (dependsOn es)\<^sup>*}"
    proof (rule "1.IH" [OF False n(1) [symmetric]])
      show "set (butlast pending @ new) \<subseteq> set (closure @ new)" using "1.prems"(1) p by auto
      have "s \<in> {s. \<exists>r \<in> R. (s, r) \<in> (dependsOn es)\<^sup>*}" if "s \<in> set new" for s
        using that n(2) r by (auto simp: sourcesOf_iff intro: converse_rtrancl_into_rtrancl)
      then show "set (closure @ new) \<subseteq> {s. \<exists>r \<in> R. (s, r) \<in> (dependsOn es)\<^sup>*}" using "1.prems"(2) by auto
      show "R \<subseteq> set (closure @ new)" using "1.prems"(3) by auto
      show "\<forall>c \<in> set (closure @ new) - set (butlast pending @ new). set (sourcesOf es c) \<subseteq> set (closure @ new)"
      proof
        fix c assume c: "c \<in> set (closure @ new) - set (butlast pending @ new)"
        show "set (sourcesOf es c) \<subseteq> set (closure @ new)"
        proof (cases "c = ?n")
          case True
          then show ?thesis using n(2) by auto
        next
          case False
          with c p have "c \<in> set closure - set pending" by auto
          with "1.prems"(4) show ?thesis by auto
        qed
      qed
    qed
    then show ?thesis using False n(1) by (subst closeLoop.simps) simp
  qed
qed

lemma dependencyClosure_exact:
  "set (dependencyClosure s) = {d. \<exists>r \<in> set (sc_reviewed s). (d, r) \<in> (dependsOn (sc_edges s))\<^sup>*}"
  unfolding dependencyClosure_def by (rule closeLoop_exact) auto

section \<open>A normalised scope\<close>

definition wfScope :: "review_scope \<Rightarrow> bool" where
  "wfScope s \<longleftrightarrow> distinct (map nd_ref (sc_nodes s)) \<and> sc_reviewed s \<noteq> [] \<and> distinct (sc_reviewed s)
     \<and> set (sc_reviewed s) \<subseteq> nd_ref ` set (sc_nodes s) \<and> Field (dependsOn (sc_edges s)) \<subseteq> nd_ref ` set (sc_nodes s)
     \<and> acyclic (dependsOn (sc_edges s)) \<and> (\<forall>n \<in> set (sc_nodes s). nd_role n \<notin> set (SCOPE_FORBIDDEN_ROLES (sc_scope_kind s)))"

lemma mapIndexed_length: "mapIndexed f vs = Inr ys \<Longrightarrow> length ys = length vs"
  by (auto simp: mapIndexed_def seqE_Inr_iff dest: arg_cong [of _ _ length])

lemma requiredUniqueRefs_Inr: "requiredUniqueRefs v f = Inr rs \<Longrightarrow> rs \<noteq> [] \<and> distinct rs"
  by (auto simp: requiredUniqueRefs_def dest: mapIndexed_length)

lemma normalizeScope_Inr:
  assumes "normalizeEpistemicReviewScope v = Inr s"
  shows "wfScope s"
proof -
  from assms have d: "distinct (map nd_ref (sc_nodes s))" "requiredUniqueRefs (fld ''reviewed_node_refs'' v) ''reviewed_node_refs'' = Inr (sc_reviewed s)"
    "set (sc_reviewed s) \<subseteq> nd_ref ` set (sc_nodes s)" "list_all fst (graphChecks (map nd_ref (sc_nodes s)) (sc_edges s))"
    "requireAcyclicGraph (sc_nodes s) (sc_edges s) = Inr ()"
    "list_all (\<lambda>n. nd_role n \<notin> set (SCOPE_FORBIDDEN_ROLES (sc_scope_kind s))) (sc_nodes s)"
    by (auto simp: normalizeEpistemicReviewScope_def Let_def recordOf_def)
  have e: "\<forall>e \<in> set (sc_edges s). ed_source e \<in> nd_ref ` set (sc_nodes s) \<and> ed_dependent e \<in> nd_ref ` set (sc_nodes s)"
    using d(4) by (auto simp: graphChecks_def list_all_iff)
  then have "Field (dependsOn (sc_edges s)) \<subseteq> nd_ref ` set (sc_nodes s)" by (auto simp: dependsOn_def Field_def)
  moreover have "acyclic (dependsOn (sc_edges s))" using acyclic_exact [of "sc_edges s" "sc_nodes s"] d(5) e by blast
  ultimately show ?thesis using d requiredUniqueRefs_Inr [OF d(2)] by (simp add: wfScope_def list_all_iff)
qed

section \<open>When a review is stale\<close>

text \<open>A change that counts: semantic, to a node of evidence the reviewed nodes depend on.\<close>

definition invalidates :: "review_scope \<Rightarrow> evidence_change \<Rightarrow> bool" where
  "invalidates s c \<longleftrightarrow> ch_semantic c \<and> ch_class c \<noteq> ''locator_only''
     \<and> (\<exists>n \<in> set (sc_nodes s). nd_ref n = ch_ref c \<and> nd_role n \<notin> set NON_EPISTEMIC_ROLES)
     \<and> (\<exists>r \<in> set (sc_reviewed s). (ch_ref c, r) \<in> (dependsOn (sc_edges s))\<^sup>*)"

lemma nodeByRef_Some:
  assumes "distinct (map nd_ref (sc_nodes s))"
  shows "nodeByRef s r = Some n \<longleftrightarrow> n \<in> set (sc_nodes s) \<and> nd_ref n = r"
proof -
  have "nodeByRef s r = Some n \<Longrightarrow> n \<in> set (sc_nodes s) \<and> nd_ref n = r" by (auto simp: nodeByRef_def find_Some_iff)
  moreover have "nodeByRef s r = Some n" if n: "n \<in> set (sc_nodes s)" "nd_ref n = r"
  proof (cases "nodeByRef s r")
    case None
    with n show ?thesis by (auto simp: nodeByRef_def find_None_iff)
  next
    case (Some m)
    then have "m \<in> set (sc_nodes s)" "nd_ref m = r" by (auto simp: nodeByRef_def find_Some_iff)
    with n assms have "m = n" by (auto simp: distinct_map dest: inj_onD)
    with Some show ?thesis by simp
  qed
  ultimately show ?thesis by blast
qed

lemma judgeChange_None:
  assumes "wfScope s" "judgeChange s (dependencyClosure s) c = Inr j"
  shows "j = None \<longleftrightarrow> invalidates s c"
proof (cases "nodeByRef s (ch_ref c)")
  case None
  then have "\<not> (\<exists>n \<in> set (sc_nodes s). nd_ref n = ch_ref c)" by (auto simp: nodeByRef_def find_None_iff)
  with None assms(2) show ?thesis by (auto simp: judgeChange_def invalidates_def)
next
  case (Some n)
  have d: "distinct (map nd_ref (sc_nodes s))" using assms(1) by (simp add: wfScope_def)
  have n: "m \<in> set (sc_nodes s) \<and> nd_ref m = ch_ref c \<longleftrightarrow> m = n" for m
    using Some nodeByRef_Some [OF d, of "ch_ref c" m] nodeByRef_Some [OF d, of "ch_ref c" n] by auto
  have "(\<exists>m \<in> set (sc_nodes s). nd_ref m = ch_ref c \<and> nd_role m \<notin> set NON_EPISTEMIC_ROLES) \<longleftrightarrow> nd_role n \<notin> set NON_EPISTEMIC_ROLES"
    using n by metis
  moreover have "(\<exists>r \<in> set (sc_reviewed s). (ch_ref c, r) \<in> (dependsOn (sc_edges s))\<^sup>*) \<longleftrightarrow> ch_ref c \<in> set (dependencyClosure s)"
    by (simp add: dependencyClosure_exact)
  ultimately have "invalidates s c \<longleftrightarrow> ch_semantic c \<and> ch_class c \<noteq> ''locator_only'' \<and> nd_role n \<notin> set NON_EPISTEMIC_ROLES
      \<and> ch_ref c \<in> set (dependencyClosure s)"
    by (simp only: invalidates_def)
  with assms(2) Some show ?thesis by (auto simp: judgeChange_def split: if_splits)
qed

lemma currentness_Inr:
  assumes "evaluateEpistemicReviewCurrentness scopeValue changesValue = Inr e"
  obtains s cs where "normalizeEpistemicReviewScope scopeValue = Inr s" "mapIndexed normalizeChange (arrOf changesValue) = Inr cs"
    "cu_invalidating e = filter (invalidates s) cs" "map fst (cu_ignored e) = filter (\<lambda>c. \<not> invalidates s c) cs"
    "cu_stale e \<longleftrightarrow> (\<exists>c \<in> set cs. invalidates s c)"
    "set (cu_reviewed_dependency_refs e) = {d. \<exists>r \<in> set (sc_reviewed s). (d, r) \<in> (dependsOn (sc_edges s))\<^sup>*}"
proof -
  from assms obtain s cs js where s: "normalizeEpistemicReviewScope scopeValue = Inr s" and cs: "mapIndexed normalizeChange (arrOf changesValue) = Inr cs"
    and js: "seqE (map (judgeChange s (dependencyClosure s)) cs) = Inr js"
    and e: "e = \<lparr> cu_scope_id = sc_scope_id s, cu_scope_kind = sc_scope_kind s, cu_stale = (map fst (filter (\<lambda>(c, j). j = None) (zip cs js)) \<noteq> []),
      cu_invalidating = map fst (filter (\<lambda>(c, j). j = None) (zip cs js)),
      cu_ignored = map (\<lambda>(c, j). (c, the j)) (filter (\<lambda>(c, j). j \<noteq> None) (zip cs js)), cu_reviewed_dependency_refs = sort (dependencyClosure s) \<rparr>"
    unfolding evaluateEpistemicReviewCurrentness_def Let_def by (auto simp del: filter_empty_conv)
  have w: "wfScope s" by (rule normalizeScope_Inr [OF s])
  from js have "map (judgeChange s (dependencyClosure s)) cs = map Inr js" by (simp add: seqE_Inr_iff)
  then have "list_all2 (\<lambda>c j. judgeChange s (dependencyClosure s) c = Inr j) cs js" by (simp add: list_all2_conv_all_nth list_eq_iff_nth_eq)
  then have f: "map fst (filter (\<lambda>(c, j). j = None) (zip cs js)) = filter (invalidates s) cs
      \<and> map fst (filter (\<lambda>(c, j). j \<noteq> None) (zip cs js)) = filter (\<lambda>c. \<not> invalidates s c) cs"
    by (induction rule: list_all2_induct) (use judgeChange_None [OF w] in auto)
  have "map fst (cu_ignored e) = filter (\<lambda>c. \<not> invalidates s c) cs" using f by (simp add: e case_prod_unfold comp_def)
  moreover have "cu_stale e \<longleftrightarrow> (\<exists>c \<in> set cs. invalidates s c)" using f by (auto simp: e filter_empty_conv)
  ultimately show ?thesis using that [OF s cs] f dependencyClosure_exact by (simp add: e)
qed

end
