(* ===== verification/Example_Review.thy ===== *)
theory Example_Review
  imports Review_Facts Example_Quality
begin

text \<open>
  A review of a claim that is derived from one data source: the concrete inputs of the
  properties about evidence graphs.
\<close>

definition exNode :: "string \<Rightarrow> string \<Rightarrow> string \<Rightarrow> json" where
  "exNode ref kind role = JObj [(''node_ref'', JStr ref), (''node_kind'', JStr kind), (''role'', JStr role)]"

definition exScope :: json where
  "exScope = JObj [(''surface_kind'', JStr ''opl_epistemic_review_scope''), (''version'', JStr ''opl-epistemic-review-scope.v2''),
     (''scope_id'', JStr ''r''), (''scope_kind'', JStr ''content''), (''evidence_profile'', JStr ''epistemic_provenance''),
     (''trust_model'', JStr ''trusted_local_workspace''), (''reviewed_node_refs'', jStrs [''b'']),
     (''nodes'', JArr [exNode ''a'' ''artifact'' ''source_data'', exNode ''b'' ''claim'' ''claim'', exNode ''e'' ''artifact'' ''context'']),
     (''dependency_edges'', JArr [JObj [(''source_ref'', JStr ''a''), (''dependent_ref'', JStr ''b''), (''relation'', JStr ''supports'')]]),
     (''authority_boundary'', JObj [(''hash_is_locator_or_stale_hint_only'', JBool True), (''hash_is_content_authority'', JBool False),
       (''release_integrity_is_separate'', JBool True), (''framework_can_issue_domain_verdict'', JBool False)])]"

definition exNodes :: "evidence_node list" where
  "exNodes = [\<lparr> nd_ref = ''a'', nd_kind = ''artifact'', nd_role = ''source_data'', nd_locator = None \<rparr>,
     \<lparr> nd_ref = ''b'', nd_kind = ''claim'', nd_role = ''claim'', nd_locator = None \<rparr>,
     \<lparr> nd_ref = ''e'', nd_kind = ''artifact'', nd_role = ''context'', nd_locator = None \<rparr>]"

definition exEdges :: "evidence_edge list" where
  "exEdges = [\<lparr> ed_source = ''a'', ed_dependent = ''b'', ed_relation = ''supports'' \<rparr>]"

definition exReviewScope :: review_scope where
  "exReviewScope = \<lparr> sc_scope_id = ''r'', sc_scope_kind = ''content'', sc_reviewed = [''b''], sc_nodes = exNodes, sc_edges = exEdges \<rparr>"

text \<open>The source changes, and the context that nothing reviewed depends on.\<close>

definition exChanges :: json where
  "exChanges = JArr [JObj [(''node_ref'', JStr ''a''), (''change_class'', JStr ''data''), (''semantic_changed'', JBool True)],
     JObj [(''node_ref'', JStr ''e''), (''change_class'', JStr ''context''), (''semantic_changed'', JBool True)]]"

definition exChange :: "string \<Rightarrow> string \<Rightarrow> evidence_change" where
  "exChange ref c = \<lparr> ch_ref = ref, ch_class = c, ch_semantic = True, ch_before = None, ch_after = None \<rparr>"

lemma enumValue_JStr: "s \<in> set allowed \<Longrightarrow> enumValue (JStr s) allowed f = Inr s"
  by (simp add: enumValue_def runChecks_ok)

lemma recordOf_JObj: "recordOf (JObj kvs) f = Inr (JObj kvs)"
  by (simp add: recordOf_def runChecks_ok)

lemma requiredText_JStr: "trim s = s \<Longrightarrow> s \<noteq> '''' \<Longrightarrow> requiredText (JStr s) f = Inr s"
  by (simp add: requiredText_def runChecks_ok)

lemma exNode_reads:
  assumes "trim ref = ref" "ref \<noteq> ''''" "kind \<in> set EVIDENCE_NODE_KINDS" "role \<in> set EVIDENCE_NODE_ROLES"
  shows "normalizeNode i (exNode ref kind role) = Inr \<lparr> nd_ref = ref, nd_kind = kind, nd_role = role, nd_locator = None \<rparr>"
  using assms by (simp add: normalizeNode_def exNode_def recordOf_JObj fld_def entriesOf_def enumValue_JStr requiredText_JStr runChecks_ok)

lemma exNodes_read: "mapIndexed normalizeNode
    [exNode ''a'' ''artifact'' ''source_data'', exNode ''b'' ''claim'' ''claim'', exNode ''e'' ''artifact'' ''context''] = Inr exNodes"
  by (simp add: mapIndexed_def exNode_reads EVIDENCE_NODE_KINDS_def EVIDENCE_NODE_ROLES_def exNodes_def)

lemma exEdges_read: "mapIndexed normalizeEdge
    [JObj [(''source_ref'', JStr ''a''), (''dependent_ref'', JStr ''b''), (''relation'', JStr ''supports'')]] = Inr exEdges"
  by (simp add: mapIndexed_def normalizeEdge_def recordOf_JObj fld_def entriesOf_def enumValue_JStr requiredText_JStr exEdges_def
    EVIDENCE_DEPENDENCY_RELATIONS_def)

lemma exGraph: "requireAcyclicGraph exNodes exEdges = Inr ()"
  by (simp add: requireAcyclicGraph_def exNodes_def exEdges_def outgoing_def)

lemma exReviewed: "requiredUniqueRefs (jStrs [''b'']) ''reviewed_node_refs'' = Inr [''b'']"
  by (simp add: requiredUniqueRefs_def jStrs_def isArr_def arrOf_def runChecks_ok mapIndexed_def requiredText_JStr)

lemma exScope_reads: "normalizeEpistemicReviewScope exScope = Inr exReviewScope"
  by (simp add: normalizeEpistemicReviewScope_def exScope_def recordOf_JObj fld_def entriesOf_def enumValue_JStr REVIEW_SCOPE_KINDS_def
    scopeHeadChecks_def runChecks_ok isArr_def arrOf_def exNodes_read exEdges_read exReviewed exGraph requiredText_JStr Let_def)
    (simp add: exNodes_def exEdges_def graphChecks_def runChecks_ok SCOPE_FORBIDDEN_ROLES_def exReviewScope_def)

lemma exChanges_read: "mapIndexed normalizeChange (arrOf exChanges) = Inr [exChange ''a'' ''data'', exChange ''e'' ''context'']"
  by (simp add: exChanges_def arrOf_def mapIndexed_def normalizeChange_def recordOf_JObj fld_def entriesOf_def enumValue_JStr requiredText_JStr
    SEMANTIC_CHANGE_CLASSES_def isBool_def boolOf_def optStr_def exChange_def runChecks_ok)

lemma exDependencies: "dependencyClosure exReviewScope = [''b'', ''a'']"
proof -
  have "closeLoop exEdges [''b''] [''b''] = closeLoop exEdges [''b'', ''a''] [''a'']"
    by (subst closeLoop.simps) (simp add: sourcesOf_def exEdges_def)
  also have "\<dots> = closeLoop exEdges [''b'', ''a''] []" by (subst closeLoop.simps) (simp add: sourcesOf_def exEdges_def)
  also have "\<dots> = [''b'', ''a'']" by (subst closeLoop.simps) simp
  finally show ?thesis by (simp add: dependencyClosure_def exReviewScope_def)
qed

lemma exReviewScope_stale:
  "\<exists>e. evaluateEpistemicReviewCurrentness exScope exChanges = Inr e \<and> cu_stale e"
proof -
  have a: "nodeByRef exReviewScope ''a'' = Some (exNodes ! 0)" "nodeByRef exReviewScope ''e'' = Some (exNodes ! 2)"
    by (simp_all add: nodeByRef_def exReviewScope_def exNodes_def)
  have "judgeChange exReviewScope [''b'', ''a''] (exChange ''a'' ''data'') = Inr None"
    "judgeChange exReviewScope [''b'', ''a''] (exChange ''e'' ''context'') = Inr (Some ''outside_reviewed_dependency_closure'')"
    by (simp_all add: judgeChange_def exChange_def a) (simp_all add: exNodes_def CHANGE_CLASS_ROLES_def NON_EPISTEMIC_ROLES_def)
  moreover have "isArr exChanges" by (simp add: exChanges_def isArr_def)
  ultimately show ?thesis
    by (simp add: evaluateEpistemicReviewCurrentness_def exScope_reads exChanges_read exDependencies Let_def runChecks_ok)
qed

end
