(* ===== verification/Stage_Run.thy ===== *)
theory Stage_Run
  imports Quality_Route Operation_Result "HOL-Library.Product_Lexorder"
begin

text \<open>
  \<open>src/src/authority/stages/stage-run-kernel.ts\<close>: the events of a stage run, the read model
  rebuilt from them, and the progress report of a launch or a closeout.  An event is a JSON
  object; the read model never stores a status, it replays the events of the highest
  generation in the order of their times.  \<open>ck\<close> is the collation key \<open>localeCompare\<close> orders
  by.  The authority boundary, a constant of the file, is attached to every report and read
  model and is not repeated here.
\<close>

section \<open>Events\<close>

datatype stage_run_status = Run_Declared | Run_Inputs_Ready | Run_Context_Observed | Run_Running | Run_Terminalizing
  | Run_Domain_Accepted | Run_Next_Stage_Ready | Run_Needs_Human_Decision | Run_Needs_External_Resource
  | Run_Retry_Scheduled | Run_Typed_Blocked | Run_Infrastructure_Crashed | Run_Superseded

definition FORBIDDEN_BODY_FIELDS :: "string list" where
  "FORBIDDEN_BODY_FIELDS = [''artifact_body'', ''memory_body'', ''domain_truth_body'', ''owner_receipt_body'', ''typed_blocker_body'',
     ''publication_verdict_body'', ''quality_verdict_body'', ''manuscript_body'', ''grant_package_body'', ''visual_package_body'']"

definition FORBIDDEN_AUTHORITY_FIELDS :: "string list" where
  "FORBIDDEN_AUTHORITY_FIELDS = [''publication_verdict'', ''quality_verdict'', ''domain_ready'', ''production_ready'',
     ''owner_receipt_signed_by_opl'', ''typed_blocker_created_by_opl'']"

definition runString :: "json \<Rightarrow> string \<Rightarrow> json res" where
  "runString v f = bindE (runChecks [(nonBlank v, ''StageRun event requires '' @ f @ ''.'')]) (\<lambda>u. Inr (JStr (trimmed v)))"

definition generationOk :: "json \<Rightarrow> bool" where
  "generationOk v \<longleftrightarrow> isInteger (numOf v) \<and> \<not> jlt (numOf v) (jint 0)"

definition requiredGeneration :: "json \<Rightarrow> json res" where
  "requiredGeneration v = bindE (runChecks [(generationOk v, ''StageRun event requires non-negative integer generation.'')]) (\<lambda>u. Inr v)"

definition refs :: "json \<Rightarrow> string list" where
  "refs v = uniqueFirst (map strOf (filter nonBlank (arrOf v)))"

definition optionalRef :: "json \<Rightarrow> string option" where
  "optionalRef v = (if nonBlank v then Some (trimmed v) else None)"

text \<open>The last entry that is neither \<open>null\<close> nor empty.\<close>

definition lastPresent :: "string option list \<Rightarrow> string option" where
  "lastPresent vs = (case find truthy (rev vs) of Some v \<Rightarrow> v | None \<Rightarrow> None)"

text \<open>\<open>===\<close>: two objects of different documents are never the same.\<close>

fun strictEqual :: "json \<Rightarrow> json \<Rightarrow> bool" where
  "strictEqual (JNum x) (JNum y) = jeq x y"
| "strictEqual (JArr vs) w = False"
| "strictEqual (JObj kvs) w = False"
| "strictEqual v w = (v = w)"

definition currentPointerMatches :: "json \<Rightarrow> bool" where
  "currentPointerMatches input = (let p = fld ''current_pointer'' input in isRecord p
     \<and> strictEqual (fld ''stage_run_id'' p) (fld ''stage_run_id'' input)
     \<and> strictEqual (fld ''generation'' p) (fld ''generation'' input) \<and> fld ''current'' p = JBool True)"

definition currentPointerBindingIsValid :: "json \<Rightarrow> bool" where
  "currentPointerBindingIsValid input \<longleftrightarrow> fld ''current_pointer'' input = JUndef \<or> currentPointerMatches input"

definition rejectForbiddenPayloads :: "json \<Rightarrow> unit res" where
  "rejectForbiddenPayloads event = runChecks
     [(filter (\<lambda>f. f \<in> set FORBIDDEN_BODY_FIELDS) (objKeys event) = [],
        ''forbidden_body_payload: StageRun event cannot include body payloads.''),
      (filter (\<lambda>f. f \<in> set FORBIDDEN_AUTHORITY_FIELDS) (objKeys event) = [],
        ''forbidden_domain_authority: StageRun event cannot include domain authority verdict fields.'')]"

definition stageRunEvent :: "json \<Rightarrow> json res" where
  "stageRunEvent input = bindE (runChecks [(isRecord input, ''StageRun event must be an object.'')]) (\<lambda>u.
     bindE (rejectForbiddenPayloads input) (\<lambda>u.
     bindE (runString (fld ''event_id'' input) ''event_id'') (\<lambda>i.
     bindE (runString (fld ''event_kind'' input) ''event_kind'') (\<lambda>k.
     bindE (runString (fld ''stage_run_id'' input) ''stage_run_id'') (\<lambda>r.
     bindE (requiredGeneration (fld ''generation'' input)) (\<lambda>g.
     bindE (runString (fld ''observed_at'' input) ''observed_at'') (\<lambda>t.
     Inr (setFld ''observed_at'' t (setFld ''generation'' g (setFld ''stage_run_id'' r (setFld ''event_kind'' k
       (setFld ''event_id'' i (setFld ''surface_kind'' (JStr ''opl_stage_run_event'') input)))))))))))))"

section \<open>The status of a run\<close>

definition eventKindOf :: "json \<Rightarrow> string" where
  "eventKindOf event = strOf (fld ''event_kind'' event)"

definition producerRole :: "json \<Rightarrow> string option" where
  "producerRole event = (case optionalRef (fld ''producer_role'' event) of Some r \<Rightarrow> Some r
     | None \<Rightarrow> optionalRef (fld ''producer_kind'' event))"

definition eventIdentityIsProjectable :: "json \<Rightarrow> bool" where
  "eventIdentityIsProjectable event \<longleftrightarrow> currentPointerBindingIsValid event \<and> (let p = producerRole event in
     if eventKindOf event = ''owner_receipt_observed'' \<or> eventKindOf event = ''typed_blocker_observed'' then p = None \<or> p = Some ''domain_owner''
     else if eventKindOf event = ''human_decision_required'' then p = None \<or> p = Some ''domain_owner'' \<or> p = Some ''human_operator''
     else True)"

definition isLifecycleNeutralEvent :: "json \<Rightarrow> bool" where
  "isLifecycleNeutralEvent event \<longleftrightarrow> eventKindOf event = ''artifact_ref_observed'' \<or> eventKindOf event = ''hold_projected''"

text \<open>A kind the \<open>switch\<close> does not name gives \<open>undefined\<close>, here \<open>None\<close>.\<close>

definition statusOfKind :: "(string \<times> stage_run_status) list" where
  "statusOfKind = [(''stage_run_declared'', Run_Declared), (''inputs_ready'', Run_Inputs_Ready), (''stage_context_observed'', Run_Context_Observed),
     (''provider_running'', Run_Running), (''provider_completed'', Run_Terminalizing), (''owner_receipt_observed'', Run_Domain_Accepted),
     (''typed_blocker_observed'', Run_Typed_Blocked), (''human_decision_required'', Run_Needs_Human_Decision),
     (''external_resource_required'', Run_Needs_External_Resource), (''retry_scheduled'', Run_Retry_Scheduled),
     (''infrastructure_crashed'', Run_Infrastructure_Crashed), (''superseded'', Run_Superseded), (''next_stage_ready'', Run_Next_Stage_Ready),
     (''artifact_ref_observed'', Run_Declared), (''hold_projected'', Run_Declared)]"

definition statusAfterEvent :: "json \<Rightarrow> stage_run_status option" where
  "statusAfterEvent event = map_of statusOfKind (eventKindOf event)"

definition statusAfterEvents :: "json list \<Rightarrow> stage_run_status option" where
  "statusAfterEvents events = foldl (\<lambda>status e. if isLifecycleNeutralEvent e then status
     else if \<not> eventIdentityIsProjectable e then status else statusAfterEvent e) (Some Run_Declared) events"

section \<open>The read model\<close>

record stage_projection =
  pj_stage_run_id :: string
  pj_status :: "stage_run_status option"
  pj_observed_generation :: int
  pj_spec_ref :: "string option"
  pj_consumed_refs :: "string list"
  pj_owner_receipt_refs :: "string list"
  pj_typed_blocker_refs :: "string list"
  pj_provider_attempt_refs :: "string list"
  pj_hold_refs :: "string list"
  pj_retry_budget_ref :: "string option"
  pj_input_fingerprint :: "string option"
  pj_last_event_ref :: string

definition generationOf :: "json \<Rightarrow> int" where
  "generationOf event = intOf (fld ''generation'' event)"

definition timeKey :: "(string \<Rightarrow> string) \<Rightarrow> json \<Rightarrow> string \<times> string" where
  "timeKey ck event = (ck (strOf (fld ''observed_at'' event)), ck (strOf (fld ''event_id'' event)))"

definition currentEvents :: "(string \<Rightarrow> string) \<Rightarrow> json list \<Rightarrow> json list" where
  "currentEvents ck events = sort_key (timeKey ck)
     (filter (\<lambda>e. generationOf e = Max (generationOf ` set events)) events)"

text \<open>\<open>map(optionalRef).filter(Boolean)\<close>.\<close>

definition presentRefs :: "string \<Rightarrow> json list \<Rightarrow> string list" where
  "presentRefs f events = map the (filter truthy (map (\<lambda>e. optionalRef (fld f e)) events))"

definition collectProjection :: "(string \<Rightarrow> string) \<Rightarrow> string \<Rightarrow> json list \<Rightarrow> stage_projection res" where
  "collectProjection ck run events = (let es = currentEvents ck events in
     if es = [] then fail ''StageRun projection requires at least one current-generation event.''
     else Inr \<lparr> pj_stage_run_id = run, pj_status = statusAfterEvents es, pj_observed_generation = Max (generationOf ` set events),
       pj_spec_ref = (case find truthy (map (\<lambda>e. optionalRef (fld ''spec_ref'' e)) es) of Some r \<Rightarrow> r | None \<Rightarrow> None),
       pj_consumed_refs = uniqueFirst (concat (map (\<lambda>e. refs (fld ''input_refs'' e)) es) @ presentRefs ''artifact_ref'' es),
       pj_owner_receipt_refs = uniqueFirst (presentRefs ''owner_receipt_ref''
         (filter (\<lambda>e. eventKindOf e = ''owner_receipt_observed'' \<and> eventIdentityIsProjectable e) es)),
       pj_typed_blocker_refs = uniqueFirst (presentRefs ''typed_blocker_ref''
         (filter (\<lambda>e. eventKindOf e = ''typed_blocker_observed'' \<and> eventIdentityIsProjectable e) es)),
       pj_provider_attempt_refs = uniqueFirst (presentRefs ''provider_attempt_ref'' es),
       pj_hold_refs = uniqueFirst (presentRefs ''hold_ref'' es),
       pj_retry_budget_ref = lastPresent (map (\<lambda>e. optionalRef (fld ''retry_budget_ref'' e)) es),
       pj_input_fingerprint = lastPresent (map (\<lambda>e. optionalRef (fld ''input_fingerprint'' e)) es),
       pj_last_event_ref = strOf (fld ''event_id'' (last es)) \<rparr>)"

definition runOf :: "json \<Rightarrow> string" where
  "runOf event = strOf (fld ''stage_run_id'' event)"

text \<open>\<open>byStageRun.set(id, [...(byStageRun.get(id) ?? []), event])\<close>.\<close>

definition addToRun :: "(string \<times> json list) list \<Rightarrow> json \<Rightarrow> (string \<times> json list) list" where
  "addToRun m event = AList.update (runOf event)
     ((case map_of m (runOf event) of Some es \<Rightarrow> es | None \<Rightarrow> []) @ [event]) m"

definition rebuildStageRunReadModel :: "(string \<Rightarrow> string) \<Rightarrow> json list \<Rightarrow> stage_projection list res" where
  "rebuildStageRunReadModel ck events = bindE (seqE (map stageRunEvent events)) (\<lambda>es.
     seqE (map (\<lambda>(run, res). collectProjection ck run res) (sort_key (\<lambda>(run, res). ck run) (foldl addToRun [] es))))"

section \<open>The progress report\<close>

datatype progress_status = Progress_Ready | Progress_Ready_With_Debt | Progress_Hard_Stopped

datatype transition_outcome = Transition_Completed | Transition_Completed_With_Debt | Transition_Hard_Stopped

record progress_report =
  pr_closeout :: bool
  pr_launch_stops :: "string list"
  pr_closeout_stops :: "string list"
  pr_warnings :: "string list"
  pr_route_back :: "string list"
  pr_audit_refs :: "string list"
  pr_forbidden_flags :: "string list"
  pr_artifact_refs :: "string list"
  pr_diagnostic_refs :: "string list"
  pr_debt :: "string list"
  pr_outcome :: transition_outcome
  pr_default_hard_stopped :: bool
  pr_status :: progress_status

definition hasSafeAuthorityBoundary :: "json \<Rightarrow> bool" where
  "hasSafeAuthorityBoundary input = (let b = fld ''authority_boundary'' input in \<not> isRecord b
     \<or> fld ''opl_can_write_domain_truth'' b = JBool False \<and> fld ''opl_can_create_owner_receipt'' b = JBool False
       \<and> fld ''opl_can_create_typed_blocker'' b = JBool False)"

definition stageRunIdentityBlockers :: "json \<Rightarrow> string list" where
  "stageRunIdentityBlockers input = reasonsOf
     [(\<not> nonBlank (fld ''stage_run_id'' input), ''stage_run_id_missing''),
      (\<not> nonBlank (fld ''domain_id'' input), ''domain_id_missing''),
      (\<not> nonBlank (fld ''stage_id'' input), ''stage_id_missing''),
      (fld ''generation'' input \<noteq> JUndef \<and> \<not> generationOk (fld ''generation'' input), ''generation_invalid''),
      (\<not> currentPointerBindingIsValid input, ''current_pointer_invalid'')]"

definition explicitHardStopReasons :: "json \<Rightarrow> string list" where
  "explicitHardStopReasons input = reasonsOf
     [(fld ''permission_or_safety_blocked'' input = JBool True, ''permission_or_safety_boundary''),
      (fld ''irreversible_action_without_authority'' input = JBool True, ''irreversible_action_without_authority''),
      (fld ''human_decision_required'' input = JBool True, ''explicit_human_decision_required''),
      (fld ''executor_unavailable'' input = JBool True, ''selected_executor_unavailable'')]"

definition launchStops :: "json \<Rightarrow> string list" where
  "launchStops input = stageRunIdentityBlockers input @ reasonsOf
     [(fld ''authority_boundary'' input \<noteq> JUndef \<and> \<not> hasSafeAuthorityBoundary input, ''authority_boundary_invalid''),
      (fld ''forbidden_write_required'' input = JBool True, ''forbidden_write_required'')]"

definition launchWarnings :: "json \<Rightarrow> string list" where
  "launchWarnings input = reasonsOf
     [(\<not> nonBlank (fld ''owner'' input), ''owner_missing_domain_context_may_supply_owner''),
      (refs (fld ''scope_refs'' input) = [], ''scope_refs_missing_executor_may_infer_with_quality_debt''),
      (\<not> nonBlank (fld ''selected_executor'' input), ''selected_executor_missing_defaults_to_codex_cli''),
      (fld ''authority_boundary'' input = JUndef, ''authority_boundary_missing_framework_uses_no_authority_defaults''),
      (refs (fld ''required_role_artifacts'' input) = [], ''required_role_artifacts_missing_executor_may_start_from_available_inputs''),
      (\<not> nonBlank (fld ''expected_receipt_or_blocker_shape'' input), ''expected_receipt_shape_missing_framework_will_derive_progress_envelope''),
      (refs (fld ''input_refs'' input) = [], ''input_refs_missing_stage_may_start_from_declared_context''),
      (refs (fld ''replay_audit_refs'' input) = [], ''replay_audit_lineage_missing_framework_will_derive_lineage'')]"

definition missingRoles :: "json \<Rightarrow> string list" where
  "missingRoles input = map (\<lambda>r. ''required_role_artifact_missing:'' @ r)
     (filter (\<lambda>r. r \<notin> set (refs (fld ''produced_role_artifacts'' input))) (refs (fld ''required_role_artifacts'' input)))"

definition ownerAnswerObserved :: "json \<Rightarrow> bool" where
  "ownerAnswerObserved input \<longleftrightarrow> refs (fld ''owner_receipt_refs'' input) \<noteq> [] \<or> refs (fld ''typed_blocker_refs'' input) \<noteq> []
     \<or> refs (fld ''quality_gate_receipt_refs'' input) \<noteq> []"

definition noOutput :: "json \<Rightarrow> bool" where
  "noOutput input \<longleftrightarrow> \<not> ownerAnswerObserved input \<and> refs (fld ''consumable_artifact_refs'' input) = []"

definition unanswered :: "json \<Rightarrow> bool" where
  "unanswered input \<longleftrightarrow> \<not> ownerAnswerObserved input \<and> refs (fld ''consumable_artifact_refs'' input) \<noteq> []"

definition closeoutWarnings :: "json \<Rightarrow> string list" where
  "closeoutWarnings input = reasonsOf
     [(fld ''manifest_valid'' input \<noteq> JBool True, ''manifest_invalid_framework_derives_minimal_manifest'')] @ missingRoles input @ reasonsOf
     [(refs (fld ''required_role_artifacts'' input) = [], ''required_role_artifacts_missing_nonblocking''),
      (noOutput input, ''no_stage_output_forwarded_as_progress_diagnostic''),
      (unanswered input, ''owner_answer_missing_transition_continues_with_quality_debt''),
      (refs (fld ''content_hashes'' input) = [], ''content_hashes_missing_framework_derives_hashes''),
      (refs (fld ''lineage_refs'' input) = [], ''lineage_refs_missing_framework_derives_lineage''),
      (fld ''provider_completed'' input = JBool True, ''provider_completed_alone_cannot_authorize_quality_or_ready''),
      (fld ''read_model_refreshed'' input = JBool True, ''read_model_refreshed_alone_cannot_authorize_quality_or_ready''),
      (fld ''file_presence'' input = JBool True, ''file_presence_alone_cannot_authorize_quality_or_ready''),
      (fld ''conformance_passed'' input = JBool True, ''conformance_passed_alone_cannot_authorize_quality_or_ready'')]"

definition closeoutDebt :: "json \<Rightarrow> string list" where
  "closeoutDebt input = reasonsOf [(fld ''manifest_valid'' input \<noteq> JBool True, ''manifest_invalid_nonblocking'')] @ missingRoles input @ reasonsOf
     [(refs (fld ''required_role_artifacts'' input) = [], ''required_role_artifacts_missing''),
      (noOutput input, ''no_consumable_artifact_or_owner_answer''),
      (unanswered input, ''owner_answer_missing_for_quality_or_ready_claim''),
      (refs (fld ''content_hashes'' input) = [], ''content_hashes_missing''),
      (refs (fld ''lineage_refs'' input) = [], ''lineage_refs_missing'')]"

definition noOutputDiagnostic :: "json \<Rightarrow> string" where
  "noOutputDiagnostic input = ''opl://stage-run/'' @ encodeURIComponent (if nonBlank (fld ''stage_run_id'' input)
     then trimmed (fld ''stage_run_id'' input) else ''unknown-stage-run'') @ ''/no-output-diagnostic''"

definition statusFor :: "string list \<Rightarrow> string list \<Rightarrow> string list \<Rightarrow> string list \<Rightarrow> string list \<Rightarrow> progress_status" where
  "statusFor launch closeout flags warnings routeBack =
     (if launch \<noteq> [] \<or> closeout \<noteq> [] \<or> flags \<noteq> [] then Progress_Hard_Stopped
      else if warnings \<noteq> [] \<or> routeBack \<noteq> [] then Progress_Ready_With_Debt else Progress_Ready)"

definition evaluateStageRunProgress :: "json \<Rightarrow> progress_report" where
  "evaluateStageRunProgress input =
     (let closeout = (fld ''phase'' input = JStr ''closeout''); explicit = explicitHardStopReasons input;
          launchS = uniqueFirst (if closeout then [] else launchStops input @ explicit);
          closeoutS = uniqueFirst (if closeout then stageRunIdentityBlockers input @ explicit else []); flags = [];
          warnings = uniqueFirst (map (\<lambda>r. ''strategy_ref_missing:'' @ r) (refs (fld ''missing_strategy_refs'' input))
            @ (if closeout then closeoutWarnings input else launchWarnings input));
          routeBack = uniqueFirst (map (\<lambda>r. ''route_back_missing:'' @ r) (refs (fld ''route_back_missing_refs'' input)));
          stopped = (launchS \<noteq> [] \<or> closeoutS \<noteq> [] \<or> flags \<noteq> []);
          receipt = (closeout \<and> (refs (fld ''owner_receipt_refs'' input) \<noteq> [] \<or> refs (fld ''quality_gate_receipt_refs'' input) \<noteq> [])) in
      \<lparr> pr_closeout = closeout, pr_launch_stops = launchS, pr_closeout_stops = closeoutS, pr_warnings = warnings,
        pr_route_back = routeBack, pr_audit_refs = refs (fld ''audit_drilldown_refs'' input), pr_forbidden_flags = flags,
        pr_artifact_refs = refs (fld ''consumable_artifact_refs'' input),
        pr_diagnostic_refs = uniqueFirst (refs (fld ''progress_diagnostic_refs'' input)
          @ (if closeout \<and> noOutput input then [noOutputDiagnostic input] else [])),
        pr_debt = uniqueFirst (refs (fld ''quality_debt_refs'' input) @ (if closeout then closeoutDebt input else [])),
        pr_outcome = (if stopped then Transition_Hard_Stopped else if receipt \<or> \<not> closeout then Transition_Completed
          else Transition_Completed_With_Debt),
        pr_default_hard_stopped = stopped, pr_status = statusFor launchS closeoutS flags warnings routeBack \<rparr>)"

end
