(* ===== verification/Stage_Run_Facts.thy ===== *)
theory Stage_Run_Facts
  imports Stage_Run Route_Facts "HOL-Library.Multiset"
begin

text \<open>
  What the read model of stage runs promises.  It does not depend on the order the events
  arrive in, an accepted run was accepted by its owner in its current generation, and
  missing material alone never stops a run.
\<close>

section \<open>Normal events\<close>

lemma setFld_same:
  assumes "isRecord v" "fld k v = w" "w \<noteq> JUndef"
  shows "setFld k w v = v"
proof -
  obtain kvs where v: "v = JObj kvs" using assms(1) by (auto simp: isRecord_def split: json.splits)
  have "map_of kvs k = Some w" using assms(2, 3) by (auto simp: v fld_def entriesOf_def split: option.splits)
  then have "AList.update k w kvs = kvs" by (induction kvs) auto
  then show ?thesis by (simp add: v setFld_def entriesOf_def)
qed

lemma runString_Inr: "runString v f = Inr w \<longleftrightarrow> nonBlank v \<and> w = JStr (trimmed v)"
  by (auto simp: runString_def)

lemma requiredGeneration_Inr: "requiredGeneration v = Inr w \<longleftrightarrow> generationOk v \<and> w = v"
  by (auto simp: requiredGeneration_def)

text \<open>An accepted event: what the code's type \<open>StageRunEvent\<close> says of it.\<close>

definition normalEvent :: "json \<Rightarrow> bool" where
  "normalEvent e \<longleftrightarrow> isRecord e \<and> rejectForbiddenPayloads e = Inr () \<and> fld ''surface_kind'' e = JStr ''opl_stage_run_event''
     \<and> (\<forall>f \<in> {''event_id'', ''event_kind'', ''stage_run_id'', ''observed_at''}. nonBlank (fld f e) \<and> fld f e = JStr (trimmed (fld f e)))
     \<and> generationOk (fld ''generation'' e)"

lemma normalEvent_fixed: "normalEvent e \<Longrightarrow> stageRunEvent e = Inr e"
proof -
  assume n: "normalEvent e"
  then have "fld ''generation'' e \<noteq> JUndef" by (auto simp: normalEvent_def generationOk_def numOf_def isInteger_def)
  moreover have "fld f e \<noteq> JUndef" if "nonBlank (fld f e)" for f using that by (auto simp: nonBlank_def isStr_def)
  ultimately show ?thesis using n by (simp add: normalEvent_def stageRunEvent_def runChecks_ok runString_def requiredGeneration_def setFld_same)
qed

lemma objKeys_set: "set (objKeys (setFld k w v)) = insert k (set (objKeys v))"
  by (simp add: objKeys_def setFld_def entriesOf_def dom_update)

text \<open>Normalising an event gives a normal event, which normalises to itself.\<close>

lemma stageRunEvent_normal:
  assumes "stageRunEvent v = Inr e"
  shows "normalEvent e"
proof -
  from assms have c: "nonBlank (fld ''event_id'' v)" "nonBlank (fld ''event_kind'' v)" "nonBlank (fld ''stage_run_id'' v)"
      "nonBlank (fld ''observed_at'' v)" "generationOk (fld ''generation'' v)" "rejectForbiddenPayloads v = Inr ()"
    and e: "e = setFld ''observed_at'' (JStr (trimmed (fld ''observed_at'' v))) (setFld ''generation'' (fld ''generation'' v)
      (setFld ''stage_run_id'' (JStr (trimmed (fld ''stage_run_id'' v))) (setFld ''event_kind'' (JStr (trimmed (fld ''event_kind'' v)))
      (setFld ''event_id'' (JStr (trimmed (fld ''event_id'' v))) (setFld ''surface_kind'' (JStr ''opl_stage_run_event'') v)))))"
    by (auto simp: stageRunEvent_def runString_Inr requiredGeneration_Inr)
  have t: "trimmed w \<noteq> [] \<and> nonBlank (JStr (trimmed w)) \<and> trimmed (JStr (trimmed w)) = trimmed w" if "nonBlank w" for w
    using that by (simp add: nonBlank_def trimmed_def isStr_def strOf_def)
  have "rejectForbiddenPayloads e = Inr ()"
    using c(6) by (simp add: rejectForbiddenPayloads_def filter_empty_conv e objKeys_set FORBIDDEN_BODY_FIELDS_def FORBIDDEN_AUTHORITY_FIELDS_def)
  moreover have "isRecord e" by (simp add: e isRecord_def setFld_def)
  ultimately show ?thesis using c t by (simp add: normalEvent_def e)
qed

lemma foldl_addToRun:
  "distinct (map fst (foldl addToRun [] es)) \<and> set (map fst (foldl addToRun [] es)) = runOf ` set es
   \<and> (\<forall>(r, vs) \<in> set (foldl addToRun [] es). vs = filter (\<lambda>e. runOf e = r) es)"
proof (induction es rule: rev_induct)
  case (snoc e es)
  let ?m = "foldl addToRun [] es"
  have d: "distinct (map fst ?m)" and k: "set (map fst ?m) = runOf ` set es"
    and f: "\<And>r vs. (r, vs) \<in> set ?m \<Longrightarrow> vs = filter (\<lambda>e. runOf e = r) es" using snoc.IH by auto
  have old: "(case map_of ?m (runOf e) of Some vs \<Rightarrow> vs | None \<Rightarrow> []) = filter (\<lambda>x. runOf x = runOf e) es"
  proof (cases "map_of ?m (runOf e)")
    case None
    then have "runOf e \<notin> runOf ` set es" using k by (auto simp: map_of_eq_None_iff)
    then have "\<forall>x \<in> set es. runOf x \<noteq> runOf e" by (metis image_eqI)
    with None show ?thesis by (simp add: filter_empty_conv)
  next
    case (Some vs)
    with f [OF map_of_SomeD [OF Some]] show ?thesis by simp
  qed
  let ?n = "foldl addToRun [] (es @ [e])"
  have n: "?n = AList.update (runOf e) (filter (\<lambda>x. runOf x = runOf e) es @ [e]) ?m" by (simp add: addToRun_def old)
  have dn: "distinct (map fst ?n)" unfolding n using d by (rule distinct_update)
  have "vs = filter (\<lambda>e. runOf e = r) (es @ [e])" if "(r, vs) \<in> set ?n" for r vs
  proof -
    have "map_of ?n r = Some vs" using that dn by (simp add: distinct_map_fst_map_of)
    then have "map_of (AList.update (runOf e) (filter (\<lambda>x. runOf x = runOf e) es @ [e]) ?m) r = Some vs" unfolding n .
    then show ?thesis using f [OF map_of_SomeD, of r vs] by (auto simp: update_conv split: if_splits)
  qed
  moreover have "set (map fst ?n) = runOf ` set (es @ [e])" unfolding n using k by (simp add: dom_update)
  ultimately show ?case using dn by blast
qed simp

section \<open>The order of the events\<close>

lemma sort_key_mset: "mset xs = mset ys \<Longrightarrow> inj_on f (set xs) \<Longrightarrow> sort_key f xs = sort_key f ys"
  by (rule sort_key_inj_key_eq) simp_all

text \<open>The grouped events, sorted by the key of their run.\<close>

lemma sorted_groups:
  "sort_key (\<lambda>(run, res). ck run) (foldl addToRun [] es) =
   map (\<lambda>r. (r, filter (\<lambda>e. runOf e = r) es)) (sort_key ck (map fst (foldl addToRun [] es)))"
proof -
  let ?m = "foldl addToRun [] es"
  have "?m = map (\<lambda>r. (r, filter (\<lambda>e. runOf e = r) es)) (map fst ?m)"
    unfolding map_map comp_def by (rule map_idI [symmetric]) (use foldl_addToRun [of es] in auto)
  then have "sort_key (\<lambda>(run, res). ck run) ?m = sort_key (\<lambda>(run, res). ck run) (map (\<lambda>r. (r, filter (\<lambda>e. runOf e = r) es)) (map fst ?m))"
    by simp
  also have "\<dots> = map (\<lambda>r. (r, filter (\<lambda>e. runOf e = r) es)) (sort_key ck (map fst ?m))" by (subst sort_key_map) simp
  finally show ?thesis .
qed

text \<open>
  Times and identifiers tell the events of a run apart, and the collation key tells the
  runs apart.
\<close>

definition clearOrder :: "(string \<Rightarrow> string) \<Rightarrow> json list \<Rightarrow> bool" where
  "clearOrder ck es \<longleftrightarrow> inj_on ck (runOf ` set es)
     \<and> (\<forall>x \<in> set es. \<forall>y \<in> set es. runOf x = runOf y \<and> timeKey ck x = timeKey ck y \<longrightarrow> x = y)"

lemma collectProjection_mset:
  assumes "mset xs = mset ys" "inj_on (timeKey ck) (set xs)"
  shows "collectProjection ck r xs = collectProjection ck r ys"
proof -
  have s: "set xs = set ys" using assms(1) by (rule mset_eq_setD)
  have "currentEvents ck xs = currentEvents ck ys" unfolding currentEvents_def s
    using assms s by (intro sort_key_mset) (auto simp: inj_on_def)
  with s show ?thesis unfolding collectProjection_def by (simp only:)
qed

lemma rebuild_normal_perm:
  assumes "mset xs = mset ys" "clearOrder ck xs"
  shows "map (\<lambda>(run, res). collectProjection ck run res) (sort_key (\<lambda>(run, res). ck run) (foldl addToRun [] xs)) =
    map (\<lambda>(run, res). collectProjection ck run res) (sort_key (\<lambda>(run, res). ck run) (foldl addToRun [] ys))"
proof -
  let ?rs = "\<lambda>es. map fst (foldl addToRun [] es)"
  have s: "set xs = set ys" using assms(1) by (rule mset_eq_setD)
  have "mset (?rs xs) = mset (?rs ys)" using foldl_addToRun [of xs] foldl_addToRun [of ys] s by (metis set_eq_iff_mset_eq_distinct)
  moreover have "inj_on ck (set (?rs xs))" using assms(2) foldl_addToRun [of xs] by (simp add: clearOrder_def)
  ultimately have k: "sort_key ck (?rs xs) = sort_key ck (?rs ys)" by (rule sort_key_mset)
  have "collectProjection ck r (filter (\<lambda>e. runOf e = r) xs) = collectProjection ck r (filter (\<lambda>e. runOf e = r) ys)" for r
    using assms by (intro collectProjection_mset) (auto simp: clearOrder_def inj_on_def)
  then show ?thesis by (simp add: sorted_groups k)
qed

lemma rebuild_perm:
  assumes "seqE (map stageRunEvent events) = Inr es" "clearOrder ck es" "mset events' = mset events"
  shows "rebuildStageRunReadModel ck events' = rebuildStageRunReadModel ck events"
proof -
  define out where "out v = (case stageRunEvent v of Inr e \<Rightarrow> e | Inl x \<Rightarrow> v)" for v
  have ev: "map stageRunEvent events = map Inr es" using assms(1) by (simp add: seqE_Inr_iff)
  have o: "stageRunEvent v = Inr (out v)" if "v \<in> set events" for v
    using ev that by (auto simp: out_def list_eq_iff_nth_eq in_set_conv_nth)
  have s: "set events' = set events" using assms(3) by (rule mset_eq_setD)
  have "map stageRunEvent events = map Inr (map out events)" using o by simp
  with ev have es: "es = map out events" by (metis inj_Inr inj_map_eq_map list.inj_map_strong)
  have es': "seqE (map stageRunEvent events') = Inr (map out events')" using o s by (simp add: seqE_Inr_iff)
  have "mset es = mset (map out events')" using assms(3) by (simp add: es)
  from rebuild_normal_perm [OF this assms(2)] show ?thesis by (simp add: rebuildStageRunReadModel_def assms(1) es')
qed

section \<open>The status of a run\<close>

definition bearsStatus :: "json \<Rightarrow> bool" where
  "bearsStatus e \<longleftrightarrow> \<not> isLifecycleNeutralEvent e \<and> eventIdentityIsProjectable e"

lemma statusAfterEvents_last:
  assumes "statusAfterEvents es = st" "st \<noteq> Some Run_Declared"
  obtains us e ws where "es = us @ e # ws" "bearsStatus e" "statusAfterEvent e = st" "\<forall>w \<in> set ws. \<not> bearsStatus w"
  using assms
proof (induction es arbitrary: thesis rule: rev_induct)
  case Nil
  then show ?case by (simp add: statusAfterEvents_def)
next
  case (snoc x es)
  show ?case
  proof (cases "bearsStatus x")
    case True
    with snoc.prems(2) have "statusAfterEvent x = st" by (simp add: statusAfterEvents_def bearsStatus_def)
    with True snoc.prems(1) [of es x "[]"] show ?thesis by simp
  next
    case False
    then have "statusAfterEvents (es @ [x]) = statusAfterEvents es" by (auto simp: statusAfterEvents_def bearsStatus_def)
    with snoc.prems obtain us e ws where "es = us @ e # ws" "bearsStatus e" "statusAfterEvent e = st" "\<forall>w \<in> set ws. \<not> bearsStatus w"
      using snoc.IH by metis
    with False snoc.prems(1) [of us e "ws @ [x]"] show ?thesis by auto
  qed
qed

lemma accepted_kind: "statusAfterEvent e = Some Run_Domain_Accepted \<longleftrightarrow> eventKindOf e = ''owner_receipt_observed''"
  by (simp add: statusAfterEvent_def statusOfKind_def)

lemma collectProjection_Inr:
  assumes "collectProjection ck r es = Inr p"
  shows "pj_stage_run_id p = r" "pj_status p = statusAfterEvents (currentEvents ck es)" "pj_observed_generation p = Max (generationOf ` set es)"
  using assms by (auto simp: collectProjection_def Let_def split: if_splits)

lemma rebuild_projection:
  assumes "rebuildStageRunReadModel ck events = Inr model" "p \<in> set model"
  obtains es where "seqE (map stageRunEvent events) = Inr es"
    "collectProjection ck (pj_stage_run_id p) (filter (\<lambda>e. runOf e = pj_stage_run_id p) es) = Inr p"
proof -
  from assms(1) obtain es where es: "seqE (map stageRunEvent events) = Inr es"
    and m: "map (\<lambda>(run, res). collectProjection ck run res) (sort_key (\<lambda>(run, res). ck run) (foldl addToRun [] es)) = map Inr model"
    by (auto simp: rebuildStageRunReadModel_def seqE_Inr_iff)
  have "Inr p \<in> set (map (\<lambda>(run, res). collectProjection ck run res) (sort_key (\<lambda>(run, res). ck run) (foldl addToRun [] es)))"
    unfolding m using assms(2) by simp
  then obtain r where "collectProjection ck r (filter (\<lambda>e. runOf e = r) es) = Inr p" unfolding sorted_groups by auto
  moreover from collectProjection_Inr [OF this] have "pj_stage_run_id p = r" by simp
  ultimately show ?thesis using that es by blast
qed

lemma accepted_by_owner:
  assumes "rebuildStageRunReadModel ck events = Inr model" "p \<in> set model" "pj_status p = Some Run_Domain_Accepted"
  shows "\<exists>es e. seqE (map stageRunEvent events) = Inr es \<and> e \<in> set es \<and> runOf e = pj_stage_run_id p
    \<and> eventKindOf e = ''owner_receipt_observed'' \<and> (producerRole e = None \<or> producerRole e = Some ''domain_owner'') \<and> currentPointerBindingIsValid e
    \<and> generationOf e = pj_observed_generation p \<and> (\<forall>x \<in> set es. runOf x = runOf e \<longrightarrow> generationOf x \<le> generationOf e)
    \<and> (\<forall>x \<in> set es. runOf x = runOf e \<and> generationOf x = generationOf e \<and> timeKey ck e < timeKey ck x \<longrightarrow> \<not> bearsStatus x)"
proof -
  obtain es where es: "seqE (map stageRunEvent events) = Inr es"
    and c: "collectProjection ck (pj_stage_run_id p) (filter (\<lambda>e. runOf e = pj_stage_run_id p) es) = Inr p"
    using rebuild_projection [OF assms(1, 2)] by blast
  let ?rs = "filter (\<lambda>e. runOf e = pj_stage_run_id p) es"
  have st: "statusAfterEvents (currentEvents ck ?rs) = pj_status p" and g: "pj_observed_generation p = Max (generationOf ` set ?rs)"
    using collectProjection_Inr [OF c] by simp_all
  obtain us e ws where split: "currentEvents ck ?rs = us @ e # ws" and e: "bearsStatus e" "statusAfterEvent e = pj_status p"
    and ws: "\<forall>w \<in> set ws. \<not> bearsStatus w" using statusAfterEvents_last [OF st] assms(3) by auto
  have cur: "set (currentEvents ck ?rs) = {x \<in> set ?rs. generationOf x = pj_observed_generation p}" by (auto simp: currentEvents_def g)
  then have in_rs: "e \<in> set ?rs" "generationOf e = pj_observed_generation p" using split by auto
  have kind: "eventKindOf e = ''owner_receipt_observed''" using e(2) assms(3) by (simp add: accepted_kind)
  have proj: "eventIdentityIsProjectable e" using e(1) by (simp add: bearsStatus_def)
  have "sorted (map (timeKey ck) (us @ e # ws))" unfolding split [symmetric] currentEvents_def by simp
  then have "\<not> bearsStatus x" if "x \<in> set es" "runOf x = runOf e" "generationOf x = generationOf e" "timeKey ck e < timeKey ck x" for x
  proof -
    assume sorted: "sorted (map (timeKey ck) (us @ e # ws))"
    have "x \<in> set (us @ e # ws)" unfolding split [symmetric] cur using that in_rs by simp
    moreover have "timeKey ck u \<le> timeKey ck e" if "u \<in> set us" for u using sorted that by (simp add: sorted_append)
    ultimately have "x \<in> set ws" using that(4) by (auto simp: not_le [symmetric])
    with ws show ?thesis by blast
  qed
  moreover have "generationOf x \<le> generationOf e" if "x \<in> set es" "runOf x = runOf e" for x
    unfolding in_rs(2) g using that in_rs(1) by (intro Max_ge) auto
  ultimately show ?thesis using es in_rs kind proj by (auto simp: eventIdentityIsProjectable_def Let_def)
qed

section \<open>What stops a run\<close>

text \<open>Where a stop can come from: identity, a launch boundary, or an explicit flag.\<close>

definition mustStop :: "json \<Rightarrow> bool" where
  "mustStop input \<longleftrightarrow> stageRunIdentityBlockers input \<noteq> []
     \<or> fld ''phase'' input \<noteq> JStr ''closeout'' \<and> (fld ''forbidden_write_required'' input = JBool True
        \<or> fld ''authority_boundary'' input \<noteq> JUndef \<and> \<not> hasSafeAuthorityBoundary input)
     \<or> (\<exists>f \<in> {''permission_or_safety_blocked'', ''irreversible_action_without_authority'', ''human_decision_required'', ''executor_unavailable''}.
          fld f input = JBool True)"

lemma progress_stops:
  "pr_status (evaluateStageRunProgress input) = Progress_Hard_Stopped \<longleftrightarrow> mustStop input"
  "pr_outcome (evaluateStageRunProgress input) = Transition_Hard_Stopped \<longleftrightarrow> mustStop input"
  by (auto simp: evaluateStageRunProgress_def Let_def statusFor_def mustStop_def launchStops_def explicitHardStopReasons_def reasonsOf_Nil
    split: if_splits)

end
