(* ===== verification/Example_Stage_Run.thy ===== *)
theory Example_Stage_Run
  imports Stage_Run_Facts
begin

text \<open>
  A stage run whose provider completed in its first generation and whose owner accepted it
  in the second, with the events out of order: the concrete input of the properties about
  the read model.
\<close>

definition exEvent :: "string \<Rightarrow> string \<Rightarrow> int \<Rightarrow> string \<Rightarrow> json" where
  "exEvent i k g t = JObj [(''surface_kind'', JStr ''opl_stage_run_event''), (''event_id'', JStr i), (''event_kind'', JStr k),
     (''stage_run_id'', JStr ''r''), (''generation'', jInt g), (''observed_at'', JStr t), (''producer_role'', JStr ''domain_owner''),
     (''owner_receipt_ref'', JStr ''receipt'')]"

definition exStageEvents :: "json list" where
  "exStageEvents = [exEvent ''3'' ''owner_receipt_observed'' 1 ''t3'', exEvent ''1'' ''provider_completed'' 0 ''t1'',
     exEvent ''2'' ''provider_running'' 1 ''t2'']"

lemma exEvent_fields [simp]:
  "fld ''surface_kind'' (exEvent i k g t) = JStr ''opl_stage_run_event''" "fld ''event_id'' (exEvent i k g t) = JStr i"
  "fld ''event_kind'' (exEvent i k g t) = JStr k" "fld ''stage_run_id'' (exEvent i k g t) = JStr ''r''"
  "fld ''generation'' (exEvent i k g t) = jInt g" "fld ''observed_at'' (exEvent i k g t) = JStr t"
  "fld ''producer_role'' (exEvent i k g t) = JStr ''domain_owner''" "fld ''current_pointer'' (exEvent i k g t) = JUndef"
  by (simp_all add: exEvent_def fld_def entriesOf_def)

lemma exEvent_reads [simp]: "runOf (exEvent i k g t) = ''r''" "generationOf (exEvent i k g t) = g" "eventKindOf (exEvent i k g t) = k"
  "timeKey ck (exEvent i k g t) = (ck t, ck i)"
  by (simp_all add: runOf_def generationOf_def eventKindOf_def timeKey_def strOf_def intOf_jInt)

lemma exEvent_normal:
  assumes "trim i = i" "i \<noteq> []" "trim k = k" "k \<noteq> []" "trim t = t" "t \<noteq> []" "0 \<le> g"
  shows "stageRunEvent (exEvent i k g t) = Inr (exEvent i k g t)"
proof (rule normalEvent_fixed)
  have "objKeys (exEvent i k g t) = [''surface_kind'', ''event_id'', ''event_kind'', ''stage_run_id'', ''generation'', ''observed_at'',
      ''producer_role'', ''owner_receipt_ref'']" by (simp add: exEvent_def objKeys_def entriesOf_def)
  then have "rejectForbiddenPayloads (exEvent i k g t) = Inr ()"
    by (simp add: rejectForbiddenPayloads_def runChecks_ok FORBIDDEN_BODY_FIELDS_def FORBIDDEN_AUTHORITY_FIELDS_def)
  moreover have "isRecord (exEvent i k g t)" by (simp add: exEvent_def isRecord_def)
  moreover have "trim ''r'' = ''r''" by (simp add: trim_def isWs_def)
  ultimately show "normalEvent (exEvent i k g t)"
    using assms by (simp add: normalEvent_def generationOk_def nonBlank_def trimmed_def isStr_def strOf_def numOf_def jInt_def jint_def isInteger_def)
qed

lemma exEvents_read: "seqE (map stageRunEvent exStageEvents) = Inr exStageEvents"
  by (simp add: exStageEvents_def exEvent_normal trim_def isWs_def)

lemma exEvents_clear: "clearOrder (\<lambda>s. s) exStageEvents"
  by (simp add: clearOrder_def exStageEvents_def)

lemma exStage_accepted:
  "\<exists>p. rebuildStageRunReadModel (\<lambda>s. s) exStageEvents = Inr [p] \<and> pj_status p = Some Run_Domain_Accepted \<and> pj_observed_generation p = 1"
proof -
  have g: "foldl addToRun [] exStageEvents = [(''r'', exStageEvents)]" by (simp add: exStageEvents_def addToRun_def)
  have c: "currentEvents (\<lambda>s. s) exStageEvents = [exEvent ''2'' ''provider_running'' 1 ''t2'', exEvent ''3'' ''owner_receipt_observed'' 1 ''t3'']"
    by (simp add: currentEvents_def exStageEvents_def)
  have "statusAfterEvents (currentEvents (\<lambda>s. s) exStageEvents) = Some Run_Domain_Accepted"
    by (simp add: c statusAfterEvents_def isLifecycleNeutralEvent_def eventIdentityIsProjectable_def currentPointerBindingIsValid_def
      statusAfterEvent_def statusOfKind_def producerRole_def optionalRef_def nonBlank_def trimmed_def isStr_def strOf_def trim_def isWs_def)
  moreover have "Max (generationOf ` set exStageEvents) = 1" by (simp add: exStageEvents_def)
  ultimately obtain p where "collectProjection (\<lambda>s. s) ''r'' exStageEvents = Inr p" "pj_status p = Some Run_Domain_Accepted"
    "pj_observed_generation p = 1" by (simp add: collectProjection_def Let_def c)
  then show ?thesis by (simp add: rebuildStageRunReadModel_def exEvents_read g)
qed

end
