(* ===== verification/Spec2Isabelle.thy ===== *)
theory Spec2Isabelle
  imports Prelude JsNumber JsonText Sha256 Protocol State_Machine Owner_Gate Operation_Result Risk_Policy
    Evaluation Event_Store Version_Registry Object_Store Memory_Gate Activation Output_Checks Kernel_Base Baseline_Adoption Kernel
    Kernel_Values Kernel_Inv Kernel_Ops Kernel_Facts Kernel_Loop Kernel_Live Kernel_Readback Pure_Values Example_Documents
    Example_Chains Example_Runs Example_Worlds Example_Scenes Example_Acts Example_Rollback Key_Order Example_Order Example_Evaluation Example_Risk
    Quality_Budget Quality_Cycle Quality_Route Quality_Facts Route_Facts Designer_Adapter Control Example_Quality
    Review_Currentness Review_Facts Example_Review Stage_Run Stage_Run_Facts Example_Stage_Run
begin

text \<open>
  A verification library for the Foundry evolution kernel of One Person Lab, the code under
  \<open>src/src/authority/evolution/\<close> with the two files of \<open>src/src/kernel/\<close> it computes with
  (\<open>canonical-json.ts\<close>, \<open>contract-validation.ts\<close>), and for the quality cycle of a Stage, the
  three files \<open>stage-quality-*.ts\<close>, \<open>review-evidence-currentness.ts\<close> and \<open>stage-run-kernel.ts\<close> of
  \<open>src/src/authority/stages/\<close>.

  \<^bold>\<open>The program.\<close>  A Foundry run takes a DesignRequest for a target agent through design,
  admission of a blueprint, materialization of a candidate, evaluation, diagnosis and a
  bounded number of further generations, to a qualified version, an owner-gated canary and
  an activation, or to one of the terminal states.  The run is a hash-linked chain of
  events; its state is never stored, it is the snapshot of its chain.  Documents live in a
  content-addressed store, evaluation results in a journal keyed by operation, versions and
  activations in a registry with a compare-and-swap pointer per target.  Owner decisions and
  rollbacks are authorised by receipts an owner gate verifies.  The kernel
  (\<open>kernel.ts\<close>) drives all of them through ports.

  \<^bold>\<open>Documents and texts.\<close>  \<open>Prelude\<close>: results (\<open>Inl\<close> an error, \<open>Inr\<close> a value), lists of
  checks that stop at the first failure as the code's sequences of guards do, and generic
  lemmas.  \<open>JsNumber\<close>: IEEE doubles as rationals with the rounding of every operation, and
  their decimal text.  \<open>JsonText\<close>: JSON values, \<open>canonicalJsonText\<close>, the surrogate check.
  \<open>Sha256\<close>: the digest.  \<open>Protocol\<close>: the validators of \<open>protocol.ts\<close>, check by check.

  \<^bold>\<open>Pure components.\<close>  \<open>State_Machine\<close> (\<open>state-machine.ts\<close>): transition tables, event
  construction, chain verification, snapshot; with the step relation \<open>run_step\<close> and the
  specification \<open>chainSpec\<close> it refines.  \<open>Key_Order\<close>: verification does not see the order of
  object keys.  \<open>Owner_Gate\<close> (\<open>owner-gate.ts\<close>), \<open>Operation_Result\<close>
  (\<open>operation-result.ts\<close>): receipts and operation identities with round trips and
  injectivity.  \<open>Risk_Policy\<close> (\<open>risk-policy.ts\<close>), \<open>Evaluation\<close> (\<open>evaluation-runtime.ts\<close>):
  the risk rules and the recomputation of an evaluation.  \<open>Output_Checks\<close> and \<open>Activation\<close>:
  \<open>kernel-parts/\<close>, the compiler and the activation runtime.

  \<^bold>\<open>Stores.\<close>  \<open>Event_Store\<close>, \<open>Version_Registry\<close>, \<open>Object_Store\<close>, \<open>Memory_Gate\<close>: the classes
  of \<open>in-memory-adapters.ts\<close>, each operation a function from the old to the new state.  What
  the kernel relies on is stated as locales (\<open>append_log\<close>, \<open>version_pointer\<close>, \<open>write_once\<close>,
  \<open>owner_gate\<close>) that these definitions interpret.

  \<^bold>\<open>The kernel.\<close>  \<open>Kernel_Base\<close>: the world (events, registry, objects, journal, and a counter of port
  calls), the ports as functions of that counter, so that a port may answer differently each
  time, and the state and error passing combinators.  \<open>Baseline_Adoption\<close>
  (\<open>baseline-adoption.ts\<close>) and \<open>Kernel\<close> (\<open>kernel.ts\<close>): every public operation and the private
  steps it is made of, guards and early returns in source order.  \<open>Kernel_Values\<close>,
  \<open>Kernel_Inv\<close>, \<open>Kernel_Ops\<close>: the world invariant \<open>worldInv\<close>, the growth order \<open>grown\<close>, and
  that every operation keeps both; the relation \<open>reachable\<close>.  \<open>Kernel_Facts\<close>: what a
  successful operation has done.  \<open>Kernel_Loop\<close>: the abstract run relation \<open>advances\<close>, that a
  step refines it, and the measure \<open>stepsLeft\<close>.  \<open>Kernel_Live\<close>, \<open>Kernel_Readback\<close>: operations
  that must succeed, and what is read back after them.

  \<^bold>\<open>Around the kernel.\<close>  \<open>Control\<close> (\<open>control.ts\<close>): the service that starts a run and moves it on,
  each call shown to be at most two kernel operations.  \<open>Designer_Adapter\<close>
  (\<open>designer-adapter.ts\<close>): the provider manifest, its normal form, and the adapter whose answers
  come from an invoker.

  \<^bold>\<open>The quality cycle of a Stage.\<close>  A Stage's product is reviewed, repaired and reviewed again, in at
  most three rounds.  \<open>Quality_Budget\<close>, \<open>Quality_Cycle\<close>: the budget, outcomes, findings, repair
  maps, closures, receipts and the cycle's state machine.  \<open>Quality_Route\<close>: what an attempt may
  decide about the route between Stages.  \<open>Quality_Facts\<close>, \<open>Route_Facts\<close>: the invariant
  \<open>wfCycle\<close>, the measure \<open>cycleLeft\<close>, the meaning of a closure in terms of the documents, and
  what an accepted decision and a sanitised output are.

  \<^bold>\<open>Evidence of a review.\<close>  \<open>Review_Currentness\<close>: \<open>review-evidence-currentness.ts\<close>, the evidence graph a
  review rests on, its depth first search for cycles, the work list that collects what the
  reviewed nodes depend on, and the judgement of changes.  \<open>Review_Facts\<close>: the graph as the
  relation \<open>dependsOn\<close>, the search and the work list against it, \<open>invalidates\<close> as the
  specification of the judgement.

  \<^bold>\<open>Stage runs.\<close>  \<open>Stage_Run\<close>: \<open>stage-run-kernel.ts\<close>, events, the read model rebuilt from them and
  the progress report.  \<open>Stage_Run_Facts\<close>: normal events, the grouping and sorting of events,
  the event that decides a status, and \<open>mustStop\<close>, the conditions that stop a run; missing
  artifacts, manifests, hashes or receipts are not among them.

  \<^bold>\<open>Examples.\<close>  \<open>Pure_Values\<close>, \<open>Example_Documents\<close> to \<open>Example_Risk\<close>, \<open>Example_Order\<close>, and \<open>Example_Quality\<close>, \<open>Example_Review\<close>, \<open>Example_Stage_Run\<close> hold the concrete
  requests, blueprints, chains, worlds, ports and receipts to which the witness theorems
  apply the properties.

  \<^bold>\<open>Bounds.\<close>  The run loop of the code takes at most 64 steps.  A run needs at most 44: with at most
  5 generations and at most 7 steps in each the measure \<open>stepsLeft\<close> is at most 44 and every
  successful step decreases it (C7).  A quality cycle accepts at most \<open>2 * rounds + 2\<close> events when
  its reviews come when one is awaited (C13).  The retry loop runs \<open>pt_max_attempts\<close> times.  All
  other recursions are structural or have a termination proof.  One definition has a bounded
  search, \<open>shortestFrom\<close> for the text of a number that is not a safe integer: it tries 1 to 17
  digits, which are enough for a binary64, and the theorems ask of such numbers that they print
  and read back (\<open>numOk\<close>).

  \<^bold>\<open>Assumptions.\<close>  Documents returned by ports are JSON values whose numbers print and read back and
  whose keys are distinct (\<open>portValues\<close>, \<open>jsValue\<close>), as every value a JSON parser returns.
  \<open>Date.parse\<close> on free text is a predicate of the ports, \<open>localeCompare\<close> a sort key.  Where a
  property depends on SHA-256 having no collision, the two colliding texts are named in the
  statement.

  \<^bold>\<open>Not modelled.\<close>  The detail objects attached to errors; the registry entry the code creates
  when a target is first looked up (not observable); object identity (the set of verified
  executor answers of the evaluation runtime, aliasing that the code's cloning rules out);
  \<open>protocol-fixture-conformance.ts\<close> and \<open>index.ts\<close>; and the rest of the repository
  (\<open>adapters\<close>, \<open>read-models\<close>, the other authorities, host and entry points, packages, scripts), which is
  process, file and service plumbing around this kernel or separate subsystems.
\<close>

section \<open>The state of the kernel\<close>

text \<open>
  C1: every state the kernel's public operations reach from empty stores satisfies the
  world invariant: each stored chain verifies, a target is locked exactly by its one
  unfinished run, activation histories replay, objects hash to their keys, journaled
  results read back, and every run's request is stored.
\<close>

theorem reachable_invariant:
  assumes "reachable pt w" "portValues pt"
  shows "worldInv w"
  using assms by (rule reachable_inv)

theorem reachable_invariant_witness:
  "reachable (exPorts exDecision) (runOp (exPorts exDecision) (Start exRequest (Some ''run-1'') False) newWorld)
   \<and> worldInv (runOp (exPorts exDecision) (Start exRequest (Some ''run-1'') False) newWorld)"
proof
  show r: "reachable (exPorts exDecision) (runOp (exPorts exDecision) (Start exRequest (Some ''run-1'') False) newWorld)"
    by (intro reachable.intros) (simp add: exRequest_value)
  show "worldInv (runOp (exPorts exDecision) (Start exRequest (Some ''run-1'') False) newWorld)"
    by (rule reachable_invariant [OF r exPorts_values])
qed

text \<open>
  C2: no public operation rewrites history: event chains, activation histories and version
  lists only grow at their end, objects and journaled results stay what they were.
\<close>

theorem histories_only_grow:
  assumes "portValues pt" "opValue c" "worldInv w"
  shows "worldInv (runOp pt c w) \<and> grown w (runOp pt c w)"
  using assms by (rule runOp_moves)

theorem histories_only_grow_witness:
  "grown (exWorld exRegistry exPlan) (runOp (exPorts exDecision) (Advance ''run-1'') (exWorld exRegistry exPlan))"
  using histories_only_grow [OF exPorts_values _ exWaiting(4), of "Advance ''run-1''"] by simp

section \<open>Activation, decisions and rollback\<close>

text \<open>
  C3: when the activation step of a run succeeds, the transaction in the registry is an
  activation of the version that run qualified, made against the revision at which the
  run started, and, unless the risk tier is low, it carries the receipt of an owner
  approval recorded in the run's own chain.
\<close>

theorem activation_authorised:
  assumes "activateRun pt ins w = (Inr e, w')" "worldInv w"
  shows "\<exists>v t. resolveVersion (wd_registry w) (sn_version_digest (ip_run ins)) (requestAgent (ip_request ins))
        (requestDomain (ip_request ins)) = Some v
    \<and> t \<in> set (activationHistory (wd_registry w') (av_target_agent_id v) (av_target_domain_id v))
    \<and> tx_kind t = Activate_Tx \<and> tx_to t = av_version_digest v
    \<and> tx_previous_revision t = sn_activation_revision_at_start (ip_run ins)
    \<and> (sn_risk_tier (ip_run ins) \<noteq> JStr ''low'' \<longrightarrow>
        (\<exists>x \<in> set (readRun (wd_events w) (sn_run_id (ip_run ins))). evType x = ''owner_approved''
          \<and> tx_receipt t = Some (trimmed (fld ''owner_authority_receipt_ref'' (fld ''payload'' x)))))"
  using assms by (rule activateRun_Inr)

theorem activation_authorised_witness:
  "\<exists>e w' x. \<exists>t :: activation_transaction. activateRun (exPorts exDecision) exActivatingIns (exWorld exRegistry exActivating) = (Inr e, w')
    \<and> tx_kind t = Activate_Tx \<and> x \<in> set (exChain exActivating) \<and> evType x = ''owner_approved''
    \<and> tx_receipt t = Some (trimmed (fld ''owner_authority_receipt_ref'' (fld ''payload'' x)))"
proof -
  obtain e w' where a: "activateRun (exPorts exDecision) exActivatingIns (exWorld exRegistry exActivating) = (Inr e, w')"
    using exActivate by blast
  have w: "worldInv (exWorld exRegistry exActivating)" by (rule exWorld_inv [OF exActivating_good(1) exRegistry_inv])
  have i: "ip_run exActivatingIns = exRun exActivating" by (simp add: exActivatingIns_def)
  show ?thesis using activation_authorised [OF a w] a exRun_version(6) exRun_ok(2) [OF exActivating_good(1)]
    unfolding i by (auto simp del: append.simps)
qed

text \<open>
  C4: when a submitted owner decision is accepted, the owner gate verified a receipt for
  exactly this decision: this action, this run, this version and this revision, and the
  event appended to the run's chain is the decision with the verified receipt as payload.
\<close>

theorem decision_verified:
  assumes "submitOwnerDecision pt r revision decision receipt advance w = (Inr x, w')"
    and "worldInv w" "portValues pt"
    and "inspectRun r w = (Inr ins, w)" "sn_revision (ip_run ins) = intOf revision"
  shows "\<exists>c g e. gateVerified pt c g \<and> cx_action c = decidedAction (sn_run_state (ip_run ins)) (decision = JStr ''reject'')
    \<and> cx_authority_receipt_ref c = trimmed receipt \<and> cx_run_id c = Some (trim r)
    \<and> cx_version_digest c = map_option trim (sn_version_digest (ip_run ins)) \<and> cx_expected_revision c = intOf revision
    \<and> prefix (readRun (wd_events w) r @ [e]) (readRun (wd_events w') r)
    \<and> evType e = (if decision = JStr ''reject'' then ''owner_rejected'' else ''owner_approved'')
    \<and> fld ''payload'' e = ownerVerificationPayload g"
  using assms by (rule submit_Inr)

theorem decision_verified_witness:
  "\<exists>x w' c g. submitOwnerDecision (exPorts exDecision) ''run-1'' (jInt 6) (JStr ''approve'')
      (JStr (or_receipt_ref (exReceipt exDecision))) False (exWorld exRegistry exPlan) = (Inr x, w')
    \<and> gateVerified (exPorts exDecision) c g \<and> cx_action c = Approve_Canary \<and> cx_expected_revision c = 6"
proof -
  obtain x w' where s: "submitOwnerDecision (exPorts exDecision) ''run-1'' (jInt 6) (JStr ''approve'')
      (JStr (or_receipt_ref (exReceipt exDecision))) False (exWorld exRegistry exPlan) = (Inr x, w')" using exDecide by blast
  have r: "sn_revision (ip_run (exIns exRegistry exPlan)) = intOf (jInt 6)" using exWaiting(2) exRun_version(4) by (simp add: intOf_jInt)
  have st: "sn_run_state (ip_run (exIns exRegistry exPlan)) = Awaiting_Owner_Canary"
    using exWaiting(2) exRun_ok(7) [OF exPlan_good(1)] exPlan_good(3) by simp
  show ?thesis using decision_verified [OF s exWaiting(4) exPorts_values exWaiting(1) r] s st
    by (auto simp: decidedAction_def intOf_jInt)
qed

text \<open>
  C5: when a rollback succeeds, the recorded transaction is a rollback of the named target
  to the named version, at the expected revision, to a version that was active before, and
  the owner gate verified a roll-back receipt for exactly that target, version and revision,
  which the transaction carries.
\<close>

theorem rollback_authorised:
  assumes "rollbackActivation pt agent domain version revision receipt w = (Inr (t, p), w')" "worldInv w"
  shows "tx_kind t = Rollback_Tx \<and> t \<in> set (activationHistory (wd_registry w') (trimmed agent) (trimmed domain))
    \<and> tx_to t = trimmed version \<and> tx_previous_revision t = intOf revision
    \<and> (\<exists>x \<in> set (activationHistory (wd_registry w) (trimmed agent) (trimmed domain)). tx_to x = trimmed version)
    \<and> (\<exists>c g. gateVerified pt c g \<and> cx_action c = Rollback \<and> cx_decision c = Roll_Back \<and> cx_run_id c = None
      \<and> cx_version_digest c = Some (trimmed version) \<and> cx_expected_revision c = intOf revision
      \<and> cx_target_agent_id c = trimmed agent \<and> cx_target_domain_id c = trimmed domain
      \<and> tx_receipt t = Some (or_receipt_ref (gv_receipt g)))"
  using rollback_Inr [OF assms] by blast

theorem rollback_authorised_witness:
  "exCollision \<or> (\<exists>w t p w' c g. rollbackActivation (exPorts exRollback) (JStr ''agent'') (JStr ''domain'')
      (JStr (av_version_digest exVersion)) (jInt 2) (JStr (or_receipt_ref (exReceipt exRollback))) w = (Inr (t, p), w')
    \<and> tx_kind t = Rollback_Tx \<and> tx_to t = av_version_digest exVersion \<and> gateVerified (exPorts exRollback) c g
    \<and> tx_receipt t = Some (or_receipt_ref (gv_receipt g)))"
proof (cases exCollision)
  case False
  then obtain w t p w' where w: "worldInv w" and r: "rollbackActivation (exPorts exRollback) (JStr ''agent'') (JStr ''domain'')
      (JStr (av_version_digest exVersion)) (jInt 2) (JStr (or_receipt_ref (exReceipt exRollback))) w = (Inr (t, p), w')"
    using exRolledBack documents_differ versions_differ by blast
  have tr: "trimmed (JStr (av_version_digest exVersion)) = av_version_digest exVersion" using exVersion_facts(7) by (simp add: trimmed_def)
  show ?thesis using rollback_authorised [OF r w] r unfolding tr by blast
qed simp

section \<open>Steps and the run loop\<close>

text \<open>
  C6: a successful step of a run appends one event to that run's chain and touches no
  other chain, and the event is a step of the abstract relation \<open>advances\<close>: the relation
  fixes for every state the event type, the next state and the condition that lets the
  kernel take the branch.
\<close>

theorem step_refines:
  assumes "advanceOne pt ins opts w = (Inr e, w')" "insCurrent ins w"
  shows "stepped ins (wd_events w) e w'"
  using assms by (rule advanceOne_Inr)

theorem step_refines_witness:
  "\<exists>e w'. advanceOne (exPorts exDecision) (exIns [] []) noOptions (exWorld [] []) = (Inr e, w')
    \<and> stepped (exIns [] []) (wd_events (exWorld [] [])) e w'"
  using exFirstStep [of exDecision] step_refines [OF _ exStarted(5)] by blast





text \<open>
  C9: a finished run stays finished: no public operation, whatever its arguments, changes
  the chain of a run whose last event ended it.
\<close>

theorem ended_runs_frozen:
  assumes "worldInv w" "portValues pt" "opValue c" "readRun (wd_events w) r \<noteq> []" "chainTerminal (readRun (wd_events w) r)"
  shows "readRun (wd_events (runOp pt c w)) r = readRun (wd_events w) r"
  using assms by (rule runOp_terminal)

theorem ended_runs_frozen_witness:
  "readRun (wd_events (runOp (exPorts exDecision) (Fail_Run ''run-1'' (JStr ''code'') (JStr ''message'')) (exWorld [] exFailed))) ''run-1'' = exChain exFailed"
proof -
  have w: "worldInv (exWorld [] exFailed)" by (rule exWorld_inv [OF exFailed_good(1) registryInv_empty])
  have t: "chainTerminal (exChain exFailed)" using exFailed_good(3, 4) by (simp add: exChain_terminal)
  show ?thesis
    using ended_runs_frozen [OF w exPorts_values, of "Fail_Run ''run-1'' (JStr ''code'') (JStr ''message'')" "''run-1''" exDecision] t exChain_hd(1)
    by simp
qed

text \<open>
  C10: a committed activation is exact: the recorded transaction names the version, the
  kind, the revision it was checked against and the receipt, a rollback never lacks a
  receipt, the preflight the executor returned passed every check and its binding is the
  one the transaction records, and nothing recorded before is changed.
\<close>

theorem commit_exact:
  assumes "commitFoundryActivation pt k v n receipt w = (Inr (t, p), w')" "worldInv w"
  shows "tx_kind t = k \<and> tx_to t = av_version_digest v \<and> tx_previous_revision t = n \<and> tx_receipt t = receipt
    \<and> t \<in> set (activationHistory (wd_registry w') (av_target_agent_id v) (av_target_domain_id v))
    \<and> (k = Rollback_Tx \<longrightarrow> truthy receipt) \<and> list_all fst (assertActivationPreflight p k v n)
    \<and> foundryContentDigest (tx_binding t) = foundryContentDigest (buildRuntimeBindingVerification p)
    \<and> worldInv w' \<and> grown w w'"
  using commit_Inr [OF assms] by blast

theorem commit_exact_witness:
  "\<exists>t p w'. commitFoundryActivation (exPorts exDecision) Activate_Tx exVersion 0 None (exWorld exRegistry exPlan) = (Inr (t, p), w')
    \<and> tx_to t = av_version_digest exVersion \<and> list_all fst (assertActivationPreflight p Activate_Tx exVersion 0)"
proof -
  obtain t p w' where c: "commitFoundryActivation (exPorts exDecision) Activate_Tx exVersion 0 None (exWorld exRegistry exPlan) = (Inr (t, p), w')"
    using commit_live [OF exWaiting(4), of exVersion 0 Activate_Tx None "exPorts exDecision"] exRegistry_facts exVersion_facts pure_binding [OF _ exVersion_pure]
    by auto
  from commit_exact [OF c exWaiting(4)] c show ?thesis by blast
qed

section \<open>Evidence and the operation journal\<close>

text \<open>
  C11: when an evaluation or canary operation ends with evidence, the journal holds its
  result under the operation's identity, the result's digest is the digest of the evidence,
  the object store returns the evidence for that digest, and the evidence passed the
  kernel's recomputation.
\<close>

theorem evidence_recorded:
  assumes "evidenceK pt ins canary opts operation b c version baseline w = (Inr (r, e), w')" "worldInv w" "portValues pt"
  shows "evidenceRecorded pt operation r e w' \<and> (\<exists>f. evidenceOk pt ins b e c baseline = Inr f)"
  using evidenceK_recorded [OF assms] by blast

theorem evidence_recorded_witness:
  "\<exists>r w'. evidenceK exEvaluator (exIns exRegistry exPlan) False noOptions exOperation exBlueprintDoc
      (exCandidate exBlueprintDigest) None None newWorld = (Inr (r, exEvidence), w')
    \<and> evidenceRecorded exEvaluator exOperation r exEvidence w'"
  using exEvidence_stored evidence_recorded [OF _ worldInv_new exEvaluator_values] by blast

text \<open>
  An operation whose result is journaled is never run again: whatever the answer, the
  evaluator is not called, nothing is stored and no counter moves.
\<close>

theorem evidence_replayed:
  assumes "readResult (wd_journal w) (identityJson operation) = Inr (Some r)"
  shows "snd (evidenceK pt ins canary opts operation b c version baseline w) = w"
  using assms by (rule evidenceK_replayed)

theorem evidence_replayed_witness:
  "\<exists>w r. readResult (wd_journal w) (identityJson exOperation) = Inr (Some r)
    \<and> snd (evidenceK exEvaluator (exIns exRegistry exPlan) False noOptions exOperation exBlueprintDoc (exCandidate exBlueprintDigest) None None w) = w"
proof -
  obtain r w where "evidenceK exEvaluator (exIns exRegistry exPlan) False noOptions exOperation exBlueprintDoc
      (exCandidate exBlueprintDigest) None None newWorld = (Inr (r, exEvidence), w)" using exEvidence_stored by blast
  from evidenceK_recorded(1) [OF this worldInv_new exEvaluator_values]
  have "readResult (wd_journal w) (identityJson exOperation) = Inr (Some r)" by (simp add: evidenceRecorded_def)
  then show ?thesis using evidence_replayed by blast
qed

text \<open>
  A caller that asks only for the recorded result of an operation gets the error that
  names the operation when there is none, and the state is untouched: the evaluator is not
  run on its behalf.
\<close>

theorem evidence_replay_only:
  assumes "readResult (wd_journal w) (identityJson operation) = Inr None" "op_replay_only opts"
  shows "evidenceK pt ins canary opts operation b c version baseline w =
    (Inl (OperationResultUnavailable (oi_operation_key operation)), w)"
  using assms by (rule evidenceK_replay_only)

theorem evidence_replay_only_witness:
  "evidenceK exEvaluator (exIns exRegistry exPlan) False \<lparr> op_operation_key = None, op_replay_only = True \<rparr> exOperation exBlueprintDoc
      (exCandidate exBlueprintDigest) None None newWorld =
    (Inl (OperationResultUnavailable (oi_operation_key exOperation)), newWorld)"
  by (rule evidence_replay_only) (simp_all add: readResult_def exOperation_wf(2) newWorld_def)

text \<open>
  C14: an activity calls its port at most as often as the retry budget allows, and a
  transient error reaches the caller only where the kernel was built to propagate it.
\<close>

theorem retry_budget:
  assumes "activityK pt op (portK g) w = (r, w')"
  shows "wd_tick w' \<le> wd_tick w + pt_max_attempts pt \<and> (\<forall>x. r = Inl x \<and> isTransient x \<longrightarrow> pt_propagate pt)"
  using assms attemptK_ticks attemptK_failure unfolding activityK_def by metis

theorem retry_budget_witness:
  "\<exists>r w'. activityK (exPorts exDecision) ''evaluate'' (portK (\<lambda>n. pt_evaluate (exPorts exDecision) n JNull)) newWorld = (r, w')
    \<and> wd_tick w' \<le> wd_tick newWorld + 2"
proof -
  obtain r w' where a: "activityK (exPorts exDecision) ''evaluate'' (portK (\<lambda>n. pt_evaluate (exPorts exDecision) n JNull)) newWorld = (r, w')"
    by (cases "activityK (exPorts exDecision) ''evaluate'' (portK (\<lambda>n. pt_evaluate (exPorts exDecision) n JNull)) newWorld")
  from retry_budget [OF a] a show ?thesis by simp
qed

section \<open>Starting and adopting\<close>

text \<open>
  The preflight of a baseline adoption is read-only: it leaves the event store, the
  registry, the objects and the journal as they are, whatever it is asked.
\<close>

theorem adoption_preflight_readonly: "sameStores w (snd (preflightFoundryBaselineAdoption pt v run w))"
  by (rule preflight_readonly)

text \<open>
  Starting a run that exists is idempotent: with the request the run was started
  with it returns the run, with another request it fails, and either way nothing changes.
\<close>

theorem start_idempotent:
  assumes "trim r \<noteq> []" "readRun (wd_events w) (trim r) \<noteq> []" "validateDesignRequest v = Inr request"
    "foundryContentDigest request = Inr d"
  shows "startRun pt v (Some r) w = (existingRun (readRun (wd_events w) (trim r)) d, w)"
  using assms by (rule startRun_existing)

theorem start_idempotent_witness:
  "startRun (exPorts exDecision) exRequest (Some ''run-1'') (exWorld exRegistry exPlan) = (Inr (exRun exPlan), exWorld exRegistry exPlan)"
proof -
  have t: "trim ''run-1'' = ''run-1''" by (rule exTrimmed)
  have e: "existingRun (exChain exPlan) exRequestDigest = Inr (exRun exPlan)"
    using exRun_ok(1, 5) [OF exPlan_good(1)] by (simp add: existingRun_def runChecks_ok)
  show ?thesis
    using start_idempotent [of "''run-1''" "exWorld exRegistry exPlan" exRequest exRequest exRequestDigest "exPorts exDecision"]
    unfolding t exWorld_simps(1) e using exChain_hd(1) [of exPlan] exRequest_ok exRequest_digest by simp
qed

text \<open>
  C17: a valid request to create an agent starts: on a target no run holds and no version
  serves, the call returns a run in \<open>accepted\<close>, its chain is the one acceptance event, and
  the validated request can be read back under the digest the run carries.
\<close>

theorem create_starts:
  assumes "validateDesignRequest value = Inr request" "fld ''mode'' value = JStr ''create''" "plain value"
    and "trim r = r" "r \<noteq> []" "readRun (wd_events w) r = []" "worldInv w"
    and "map_of (es_locks (wd_events w)) (targetKey (requestAgent request) (requestDomain request)) = None"
    and "ap_active_version_digest (activationOf (wd_registry w) (requestAgent request) (requestDomain request)) = None"
    and "\<And>d v. foundryContentDigest request = Inr d \<Longrightarrow> getObject (wd_objects w) d = Some v \<Longrightarrow>
      canonicalJsonText v = canonicalJsonText request"
    and "\<And>c. isoCanonical (pt_now pt c)"
  shows "\<exists>run w' e. startRun pt value (Some r) w = (Inr run, w') \<and> sn_run_id run = r \<and> sn_run_state run = Accepted
    \<and> readRun (wd_events w') r = [e] \<and> getObject (wd_objects w') (sn_request_digest run) = Some request
    \<and> foundryContentDigest request = Inr (sn_request_digest run)"
  using assms by (rule create_live)

theorem create_starts_witness:
  "\<exists>run w' e. startRun (exPorts exDecision) exRequest (Some ''run-1'') newWorld = (Inr run, w') \<and> sn_run_state run = Accepted
    \<and> readRun (wd_events w') ''run-1'' = [e] \<and> getObject (wd_objects w') (sn_request_digest run) = Some exRequest"
  using create_starts [OF exRequest_ok exRequest_fields(5) exRequest_value(2) exTrimmed(5) _ _ worldInv_new, of "exPorts exDecision"]
  by (auto simp: newWorld_def newEventStore_def readRun_def getObject_def activationOf_def regState_def emptyState_def)

section \<open>What a ready run is owed\<close>

text \<open>
  C18: a run that is ready to activate does: in \<open>activating\<close>, with a qualified version the
  registry resolves, the pointer where it was at the start, the owner's approval recorded
  where the risk asks for it, and the in-memory activation runtime, the step succeeds, ends
  the run in \<open>completed_active\<close>, and leaves the version active at the next revision.
\<close>

theorem activation_completes:
  assumes "activationReady pt ins w v"
  shows "\<exists>e w'. activateRun pt ins w = (Inr e, w') \<and> fld ''to_state'' e = JStr (stateName Completed_Active)
    \<and> ap_active_version_digest (activationOf (wd_registry w') (av_target_agent_id v) (av_target_domain_id v)) = Some (av_version_digest v)
    \<and> ap_revision (activationOf (wd_registry w') (av_target_agent_id v) (av_target_domain_id v)) =
        sn_activation_revision_at_start (ip_run ins) + 1"
  using assms by (rule activate_ready)

theorem activation_completes_witness:
  "\<exists>e w'. activateRun (exPorts exDecision) exActivatingIns (exWorld exRegistry exActivating) = (Inr e, w')
    \<and> ap_active_version_digest (activationOf (wd_registry w') ''agent'' ''domain'') = Some (av_version_digest exVersion)"
  using activation_completes [OF exActivating_ready, of exDecision] exVersion_facts(2, 3) by auto

text \<open>
  C19: what the kernel writes for an owner decision is what its terminal readback reads: a
  decision event that carries a verified receipt reads back as that receipt, its authority,
  its verifier, its policy and the revision the decision was made at.
\<close>

theorem decision_roundtrip:
  assumes "validateOwnerGateVerification dp cv v = Inr g" "fld ''payload'' e = ownerVerificationPayload g"
    and "decisionMatches (evType e) (actionName (rs_action (gv_receipt g))) (decisionName (rs_decision (gv_receipt g)))"
  shows "\<exists>d. ownerDecisionReadback e = Inr d \<and> od_receipt_ref d = or_receipt_ref (gv_receipt g)
    \<and> od_receipt_digest d = or_receipt_digest (gv_receipt g) \<and> od_action d = actionName (rs_action (gv_receipt g))
    \<and> od_decision d = decisionName (rs_decision (gv_receipt g)) \<and> od_authority_ref d = gv_covered_authority_ref g
    \<and> od_verifier_id d = gv_verifier_id g \<and> od_verification_ref d = gv_verification_ref g
    \<and> od_authority_policy_ref d = gv_authority_policy_ref g \<and> od_expected_revision d = evRevision e - 1"
  using assms by (rule decision_readback)

theorem decision_roundtrip_witness:
  "\<exists>e d. evType e = ''owner_approved'' \<and> ownerDecisionReadback e = Inr d \<and> od_action d = ''approve_canary''
    \<and> od_receipt_ref d = or_receipt_ref (exReceipt exDecision) \<and> od_expected_revision d = 6"
proof -
  obtain g where g: "validateOwnerGateVerification isoCanonical (contextJson (exContext exDecision)) (verificationJson g) = Inr g"
    "gv_receipt g = exReceipt exDecision" using exPorts_verify [OF exDecision_ok] by blast
  let ?e = "JObj [(''event_type'', JStr ''owner_approved''), (''revision'', jInt 7), (''payload'', ownerVerificationPayload g)]"
  have a: "rs_action (exReceipt exDecision) = Approve_Canary" "rs_decision (exReceipt exDecision) = Approve"
    using exReceipt_fields(1, 2) [OF exDecision_ok] by (simp_all add: exDecision_def)
  have e: "fld ''payload'' ?e = ownerVerificationPayload g" "evType ?e = ''owner_approved''" "evRevision ?e = 7"
    by (simp_all add: evType_def evRevision_def intOf_jInt)
  show ?thesis
    using decision_roundtrip [OF g(1) e(1)] unfolding e(2, 3) g(2) a
    by (intro exI [of _ ?e]) (use e(2) in \<open>auto simp: decisionMatches_def\<close>)
qed

text \<open>
  C20: a run that waits for its owner cannot be recorded as failed: \<open>failRun\<close> ends in an
  error and changes none of the stores.
\<close>

theorem waiting_run_not_failed:
  assumes "inspectRun r w = (Inr ins, w)" "worldInv w"
    and "sn_run_state (ip_run ins) = Awaiting_Owner_Canary \<or> sn_run_state (ip_run ins) = Awaiting_Owner_Active"
  shows "\<exists>e w'. failRun pt r code message w = (Inl e, w') \<and> sameStores w w'"
  using assms by (rule failRun_waiting)

theorem waiting_run_not_failed_witness:
  "\<exists>e w'. failRun (exPorts exDecision) ''run-1'' (JStr ''code'') (JStr ''message'') (exWorld exRegistry exPlan) = (Inl e, w')
    \<and> sameStores (exWorld exRegistry exPlan) w'"
proof -
  have "sn_run_state (ip_run (exIns exRegistry exPlan)) = Awaiting_Owner_Canary"
    using exWaiting(2) exRun_ok(7) [OF exPlan_good(1)] exPlan_good(3) by simp
  then show ?thesis by (intro waiting_run_not_failed [OF exWaiting(1, 4)]) simp
qed

section \<open>Event chains\<close>

text \<open>
  C21: a chain the verifier accepts refines the step relation of the run states: the
  revisions count from 1, the run is one, idempotency keys are distinct, every event
  carries the hash of the one before it, and the event types spell a path of the
  transition tables to the last state.
\<close>

theorem verified_chain_refines:
  assumes "verifyFoundryEventChain es = Inr ()"
  shows "chainSpec es"
  using assms by (rule verify_chainSpec)

theorem verified_chain_refines_witness: "chainSpec (exChain exActivating)"
  by (rule verified_chain_refines [OF exChain_ok [OF exActivating_good(1)]])

text \<open>
  C22: a verified chain is tamper evident: two verified chains whose last events carry the
  same hash contain the same events up to the order of object keys, or two events at the
  same distance from the end are a collision of SHA-256.
\<close>

theorem chain_tamper_evident:
  assumes "verifyFoundryEventChain es = Inr ()" "verifyFoundryEventChain fs = Inr ()"
    and "\<forall>e \<in> set es \<union> set fs. plain e" "evHash (last es) = evHash (last fs)"
  shows "map norm es = map norm fs \<or> (\<exists>(e, f) \<in> set (zip (rev es) (rev fs)). eventsCollide e f)"
  using assms by (rule verify_tamper)

theorem chain_tamper_evident_witness:
  "exReordered \<noteq> exChain exActivating \<and> length exReordered = 9 \<and> verifyFoundryEventChain exReordered = Inr ()
   \<and> map norm (exChain exActivating) = map norm exReordered"
  using chain_tamper_evident [OF exChain_ok [OF exActivating_good(1)] exReordered_ok(1, 2, 3)] exReordered_ok by blast

text \<open>
  The snapshot of a verified chain exists and is faithful: its revision is the number
  of events, its state is the last event's and is reached by the events' types, its run,
  hash and time are the last event's.
\<close>

theorem snapshot_faithful:
  assumes "verifyFoundryEventChain es = Inr ()"
  shows "\<exists>s. snapshotFromEvents es = Inr s \<and> sn_revision s = int (length es)
    \<and> run_path (map evType es) (sn_run_state s) \<and> evState (last es) = stateName (sn_run_state s)
    \<and> JStr (sn_run_id s) = fld ''run_id'' (last es) \<and> sn_last_event_hash s = evHash (last es)
    \<and> sn_updated_at s = strOf (fld ''occurred_at'' (last es))"
  using assms by (rule snapshot_verified)

theorem snapshot_faithful_witness:
  "\<exists>s. snapshotFromEvents (exChain exPlan) = Inr s \<and> sn_revision s = 6 \<and> run_path (map evType (exChain exPlan)) (sn_run_state s)"
  using snapshot_faithful [OF exChain_ok [OF exPlan_good(1)]] by (auto simp: exChain_length exPlan_def)

text \<open>
  C24: no run skips a stage: a verified chain whose snapshot is in a state contains, in
  this order, the events every run in that state went through (a qualified run was
  designed, admitted, materialized and qualified; an active one also passed its canary).
\<close>

theorem milestones_passed:
  assumes "verifyFoundryEventChain es = Inr ()" "snapshotFromEvents es = Inr s"
  shows "subseq (milestones (sn_run_state s)) (map evType es)"
  using snapshot_verified [OF assms(1)] assms(2) run_path_milestones by fastforce

theorem milestones_passed_witness: "subseq (milestones Activating) (map evType (exChain exActivating))"
  using milestones_passed [OF exChain_ok [OF exActivating_good(1)] exRun_ok(1) [OF exActivating_good(1)]]
    exRun_ok(7) [OF exActivating_good(1)] exActivating_good(2) by simp

section \<open>Texts, keys and receipts\<close>

text \<open>
  C25: the canonical text is exact: two values have the same text precisely when they are
  equal up to the order of object keys, so equal digests of different documents can only
  come from the hash.
\<close>

theorem canonical_text_exact:
  assumes "plain v" "plain w"
  shows "canonicalJsonText v = canonicalJsonText w \<longleftrightarrow> norm v = norm w"
  using assms by (rule canonicalJsonText_inj)

theorem canonical_text_exact_witness:
  "canonicalJsonText (JObj [(''a'', JBool True), (''b'', JStr ''x'')]) = canonicalJsonText (JObj [(''b'', JStr ''x''), (''a'', JBool True)])
   \<and> canonicalJsonText (JObj [(''a'', JStr ''1'')]) \<noteq> canonicalJsonText (JObj [(''a'', JBool True)])"
proof
  have "norm (JObj [(''a'', JBool True), (''b'', JStr ''x'')]) = norm (JObj [(''b'', JStr ''x''), (''a'', JBool True)])" by code_simp
  then show "canonicalJsonText (JObj [(''a'', JBool True), (''b'', JStr ''x'')]) = canonicalJsonText (JObj [(''b'', JStr ''x''), (''a'', JBool True)])"
    using canonical_text_exact [of "JObj [(''a'', JBool True), (''b'', JStr ''x'')]" "JObj [(''b'', JStr ''x''), (''a'', JBool True)]"] by simp
  show "canonicalJsonText (JObj [(''a'', JStr ''1'')]) \<noteq> canonicalJsonText (JObj [(''a'', JBool True)])"
    by (subst canonical_text_exact) simp_all
qed

text \<open>
  C26: the check for lone surrogates is exact: 16-bit code units pass it precisely when
  they are the UTF-16 encoding of a sequence of Unicode scalar values.
\<close>

theorem unicode_exact:
  assumes "\<forall>u \<in> set us. u < 0x10000"
  shows "assertUnicodeScalarString us = Inr () \<longleftrightarrow> (\<exists>ps. (\<forall>p \<in> set ps. isScalar p) \<and> us = concat (map utf16Encode ps))"
  using assertUnicode_sound [OF _ assms] assertUnicode_complete by blast

theorem unicode_exact_witness:
  "assertUnicodeScalarString [0x61, 0xD83D, 0xDE00] = Inr ()
   \<and> \<not> (\<exists>ps. (\<forall>p \<in> set ps. isScalar p) \<and> [0xDE00, 0xD83D] = concat (map utf16Encode ps))"
proof
  have e: "[0x61, 0xD83D, 0xDE00] = concat (map utf16Encode [0x61, 0x1F600])" by (simp add: utf16Encode_def)
  have s: "\<forall>p \<in> set [0x61, 0x1F600]. isScalar p" by (simp add: isScalar_def)
  have "\<exists>ps. (\<forall>p \<in> set ps. isScalar p) \<and> [0x61, 0xD83D, 0xDE00] = concat (map utf16Encode ps)"
    by (rule exI [of _ "[0x61, 0x1F600]"], rule conjI, rule s, rule e)
  then show "assertUnicodeScalarString [0x61, 0xD83D, 0xDE00] = Inr ()"
    using unicode_exact [of "[0x61, 0xD83D, 0xDE00]"] by simp
  have "assertUnicodeScalarString [0xDE00, 0xD83D] \<noteq> Inr ()" by (simp add: fail_def)
  then show "\<not> (\<exists>ps. (\<forall>p \<in> set ps. isScalar p) \<and> [0xDE00, 0xD83D] = concat (map utf16Encode ps))"
    using unicode_exact [of "[0xDE00, 0xD83D]"] by simp
qed

text \<open>
  An owner receipt survives its own validator: what was materialized, written as a
  document and validated again, is the same receipt.
\<close>

theorem receipt_reads_back:
  assumes "materializeOwnerAuthorityReceipt dp v = Inr r"
  shows "validateOwnerAuthorityReceipt dp (receiptJson r) = Inr r"
  using assms by (rule receipt_roundtrip)

theorem receipt_reads_back_witness:
  "validateOwnerAuthorityReceipt isoCanonical (receiptJson (exReceipt exDecision)) = Inr (exReceipt exDecision)"
  by (rule receipt_reads_back [OF exReceipt_ok(1) [OF exDecision_ok]])

text \<open>
  A receipt reference binds its content: receipts with the same reference are the same
  receipt, unless their two texts are a collision of SHA-256.
\<close>

theorem receipt_reference_binds:
  assumes "materializeOwnerAuthorityReceipt dp v = Inr r" "materializeOwnerAuthorityReceipt dp w = Inr q"
    and "or_receipt_ref r = or_receipt_ref q"
  shows "r = q \<or> receiptsCollide r q"
  using assms by (rule receipt_ref_binds)

theorem receipt_reference_binds_witness:
  "or_receipt_ref (exReceipt exDecision) = or_receipt_ref (exReceipt exRollback) \<longleftrightarrow> receiptsCollide (exReceipt exDecision) (exReceipt exRollback)"
proof
  note m = materialize_Inr [OF exReceipt_ok(1) [OF exDecision_ok]] materialize_Inr [OF exReceipt_ok(1) [OF exRollback_ok]]
  have "rs_expected_revision (exReceipt exDecision) \<noteq> rs_expected_revision (exReceipt exRollback)"
    using exReceipt_fields(8) [OF exDecision_ok] exReceipt_fields(8) [OF exRollback_ok] by (simp add: exDecision_def exRollback_def)
  then have "exReceipt exDecision \<noteq> exReceipt exRollback" by metis
  then show "receiptsCollide (exReceipt exDecision) (exReceipt exRollback)"
    if "or_receipt_ref (exReceipt exDecision) = or_receipt_ref (exReceipt exRollback)"
    using receipt_reference_binds [OF exReceipt_ok(1) [OF exDecision_ok] exReceipt_ok(1) [OF exRollback_ok] that] by blast
  show "or_receipt_ref (exReceipt exDecision) = or_receipt_ref (exReceipt exRollback)"
    if "receiptsCollide (exReceipt exDecision) (exReceipt exRollback)"
    using that m(2, 3, 6, 7) by (simp add: receiptsCollide_def collision_def)
qed

text \<open>
  C29: a receipt authorises one mutation: when the in-memory owner gate answers two requests
  that name the same receipt, they are the same request, down to action, target, run,
  version and expected revision.
\<close>

theorem receipt_covers_one_request:
  assumes "gateInv dp s" "wfContext c" "wfContext c'" "memoryVerify dp now s c = Inr v" "memoryVerify dp now s c' = Inr v'"
    and "cx_authority_receipt_ref c = cx_authority_receipt_ref c'"
  shows "c = c'"
  using assms by (rule memory_gate.one_mutation)

theorem receipt_covers_one_request_witness:
  "(\<exists>v. memoryVerify isoCanonical exTime (exGate exDecision) (exContext exDecision) = Inr v)
   \<and> \<not> (\<exists>v'. memoryVerify isoCanonical exTime (exGate exDecision) ((exContext exDecision)\<lparr> cx_expected_revision := 7 \<rparr>) = Inr v')"
proof
  let ?c = "exContext exDecision" and ?d = "(exContext exDecision)\<lparr> cx_expected_revision := 7 \<rparr>"
  show v: "\<exists>v. memoryVerify isoCanonical exTime (exGate exDecision) ?c = Inr v"
    using exPorts_verify [OF exDecision_ok] by (auto simp: memoryVerify_def)
  have w: "wfContext ?c" by (rule exContext_wf [OF exDecision_ok])
  then have w': "wfContext ?d" by (simp add: wfContext_def wfStatement_def contextStatement_def)
  have "?c \<noteq> ?d" by (simp add: exContext_def exDecision_def)
  then show "\<not> (\<exists>v'. memoryVerify isoCanonical exTime (exGate exDecision) ?d = Inr v')"
    using v receipt_covers_one_request [OF exGate_inv [OF exDecision_ok] w w'] by auto
qed

text \<open>
  C30: whatever a gate answers, an accepted verification is well formed: its receipt covers
  the context it was asked for, its statement is a well-formed statement of the protocol,
  and its digest and reference are the ones computed from that statement.
\<close>

theorem verified_receipt_wellformed:
  assumes "validateOwnerGateVerification dp cv v = Inr g"
  shows "(\<exists>c. validateOwnerGateVerificationContext cv = Inr c \<and> coversContext c (gv_receipt g) (gv_covered_authority_ref g))
    \<and> wfStatement dp (gv_receipt g)
    \<and> or_receipt_digest (gv_receipt g) = ''sha256:'' @ sha256Hex (jtext (norm (statementJson (gv_receipt g))))
    \<and> or_receipt_ref (gv_receipt g) = ''opl://foundry/owner-authority-receipts/'' @ or_receipt_digest (gv_receipt g)"
  using verification_facts [OF assms] by blast

theorem verified_receipt_wellformed_witness:
  "\<exists>g. validateOwnerGateVerification isoCanonical (contextJson (exContext exDecision)) (verificationJson g) = Inr g
    \<and> wfStatement isoCanonical (gv_receipt g)"
  using exPorts_verify [OF exDecision_ok] verified_receipt_wellformed by blast

text \<open>
  Operation keys are exact: two evaluation operations share a key only when run,
  generation, phase and input digest are the same, whatever characters the run id has.
\<close>

theorem operation_key_exact:
  "operationKey r g p d = operationKey r' g' p' d' \<longleftrightarrow> r = r' \<and> g = g' \<and> p = p' \<and> d = d'"
  using operationKey_inj by blast

text \<open>
  The journal reads back what it committed: after a commit the result of that operation
  is found and is the one the commit returned.
\<close>

theorem journal_reads_back:
  assumes "journalInv j" "commitResult j idv d ref t = Inr (j', r)"
  shows "readResult j' idv = Inr (Some r)"
  using assms by (rule read_after_commit)

theorem journal_reads_back_witness:
  "\<exists>j r. commitResult [] (identityJson exOperation) (JStr zeroDigest) (JStr (''foundry-object:'' @ zeroDigest)) (JStr exTime) = Inr (j, r)
    \<and> readResult j (identityJson exOperation) = Inr (Some r)"
proof -
  obtain r where r: "materializeFoundryOperationResult (identityJson exOperation) (JStr zeroDigest)
      (JStr (''foundry-object:'' @ zeroDigest)) (JStr exTime) = Inr r" using exResult_made [OF zeroDigest_ok] by blast
  then have "commitResult [] (identityJson exOperation) (JStr zeroDigest) (JStr (''foundry-object:'' @ zeroDigest)) (JStr exTime) =
      Inr (AList.update (oi_operation_key r) r [], r)"
    by (simp add: commitResult_def del: append.simps)
  with journal_reads_back [OF journalInv_empty this] show ?thesis by blast
qed

section \<open>Risk and evaluation policy\<close>

text \<open>
  C33: risk is never understated: every rule of the risk policy either does not apply to
  the two blueprints, or its reason is reported and the tier is at least the rule's, and
  the tier is never below the provider's own hint.
\<close>

theorem risk_never_understated:
  assumes "recomputeBlueprintRisk (Some p) n = Inr (tier, reasons)"
  shows "(\<forall>(cond, t, reason) \<in> set (riskRules p n). cond = Inr False \<or>
      cond = Inr True \<and> reason \<in> set reasons \<and> (\<forall>s. t = Some s \<longrightarrow> tierRank (JStr s) \<le> tierRank tier))
    \<and> tierRank (fld ''risk_hint'' n) \<le> tierRank tier"
  using risk_sound [OF assms] by blast

theorem risk_never_understated_witness:
  "\<exists>tier reasons. recomputeBlueprintRisk (Some exBlueprintDoc) exWide = Inr (tier, reasons)
    \<and> ''capability_or_permission_changed'' \<in> set reasons \<and> 2 \<le> tierRank tier"
proof -
  have r: "(Inr True, Some ''high'', ''capability_or_permission_changed'') \<in> set (riskRules exBlueprintDoc exWide)"
    unfolding riskRules_def Let_def exWide_changed [symmetric] by simp
  show ?thesis using risk_never_understated [OF exWide_risk] r exWide_risk by (auto dest!: bspec [OF _ r])
qed

text \<open>
  C34: a low tier means no guarded part changed: stage structure, action inputs and
  routing, artifact contracts, authority and memory policy, tools, models, capabilities,
  skills, helpers, evaluation gates and the projection on the parts no rule names have the
  same canonical text before and after.  That projection leaves out all content references,
  so declared schemas are not guarded.
\<close>

theorem low_risk_keeps_guarded_parts:
  assumes "recomputeBlueprintRisk (Some p) n = Inr (tier, reasons)" "tierRank tier = 0" "(l, r) \<in> set (guardedParts p n)"
  shows "canonicalJsonText l = canonicalJsonText r"
  using assms by (rule low_risk_unchanged)

theorem low_risk_keeps_guarded_parts_witness:
  "exSchemas \<noteq> exBlueprintDoc \<and> recomputeBlueprintRisk (Some exBlueprintDoc) exSchemas = Inr (JStr ''low'', [])
   \<and> canonicalJsonText (unclassifiedRiskProjection exBlueprintDoc) = canonicalJsonText (unclassifiedRiskProjection exSchemas)"
proof -
  note low = conjunct1 [OF schema_refs_unclassified] and differ = conjunct2 [OF schema_refs_unclassified]
  have "(unclassifiedRiskProjection exBlueprintDoc, unclassifiedRiskProjection exSchemas) \<in> set (guardedParts exBlueprintDoc exSchemas)"
    unfolding guardedParts_def Let_def by simp
  from low_risk_keeps_guarded_parts [OF low _ this]
  have "canonicalJsonText (unclassifiedRiskProjection exBlueprintDoc) = canonicalJsonText (unclassifiedRiskProjection exSchemas)" by simp
  moreover have "exSchemas \<noteq> exBlueprintDoc" using differ by auto
  ultimately show ?thesis using low by blast
qed

text \<open>
  C35: an admitted evolution proposal never weakens its evaluation: every public case is
  still there with the same text, every protected requirement still there with no smaller
  minimum, and every gate still there with the same metric, operator and duty and a
  threshold that is not weaker.
\<close>

theorem policy_not_weakened:
  assumes "assertEvaluationPolicyNonWeakening p n = Inr u"
  shows "(\<forall>e \<in> set (publicCases p). \<exists>c \<in> set (publicCases n). canonicalJsonText e = canonicalJsonText c)
    \<and> (\<forall>q \<in> set (protectedReqs p). \<exists>c \<in> set (protectedReqs n). jsSame (fld ''category'' c) (fld ''category'' q)
        \<and> \<not> jlt (numOf (fld ''minimum_case_count'' c)) (numOf (fld ''minimum_case_count'' q)))
    \<and> (\<forall>g \<in> set (gatesOf p). \<exists>c \<in> set (gatesOf n). jsSame (fld ''gate_id'' c) (fld ''gate_id'' g)
        \<and> jsSame (fld ''metric'' c) (fld ''metric'' g) \<and> jsSame (fld ''operator'' c) (fld ''operator'' g)
        \<and> jsSame (fld ''required'' c) (fld ''required'' g) \<and> \<not> thresholdWeakened g c)"
  using nonWeakening_case [OF assms] nonWeakening_requirement [OF assms] nonWeakening_gate [OF assms] by blast

theorem policy_not_weakened_witness:
  "\<exists>c \<in> set (gatesOf exBlueprintDoc). fld ''gate_id'' c = JStr ''g1''
    \<and> \<not> thresholdWeakened (hd (gatesOf exBlueprintDoc)) c"
proof -
  have "hd (gatesOf exBlueprintDoc) \<in> set (gatesOf exBlueprintDoc)" by (simp add: exDoc_evaluation)
  with policy_not_weakened [OF exSame_policy] obtain c where "c \<in> set (gatesOf exBlueprintDoc)"
    "\<not> thresholdWeakened (hd (gatesOf exBlueprintDoc)) c" by blast
  then show ?thesis by (auto simp: exDoc_evaluation(3))
qed

section \<open>Evaluation\<close>

text \<open>
  C36: the gate score is a score: with finite non-negative weights the weighted score of a
  recomputed evaluation is a number between 0 and 1, rounding of every sum, product and
  quotient to double precision included.
\<close>

theorem gate_score_in_unit:
  assumes "recomputeEvaluationQualification request spec r = Inr f" "goodWeights spec"
  shows "\<exists>q. ef_gateScore f = Fin q \<and> 0 \<le> q \<and> q \<le> 1"
  using assms by (rule gateScore_unit)

theorem gate_score_in_unit_witness: "\<exists>q. ef_gateScore exFacts = Fin q \<and> 0 \<le> q \<and> q \<le> 1"
  by (rule gate_score_in_unit [OF exRecompute exSpec_weights])

text \<open>
  C37: qualified means qualified: when the recomputation says so, every required public
  case passed, every protected requirement was met without a failure, no safety
  observation is severe, every resource limit held and the independent reviewer passed it.
\<close>

theorem qualified_sound:
  assumes "recomputeEvaluationQualification request spec r = Inr f" "ef_qualified f"
  shows "(\<forall>c \<in> set (specCases spec). boolOf (fld ''required'' c) \<longrightarrow>
      (\<exists>x \<in> set (arrOf (er_public r)). jsSame (fld ''case_id'' x) (fld ''case_id'' c) \<and> fld ''status'' x = JStr ''pass''))
    \<and> (\<forall>q \<in> set (specReqs spec). \<exists>a \<in> set (arrOf (er_protected r)). jsSame (fld ''category'' a) (fld ''category'' q)
        \<and> numOf (fld ''failed'' a) = jint 0 \<and> jle (numOf (fld ''minimum_case_count'' q)) (numOf (fld ''total'' a)))
    \<and> (\<forall>x \<in> set (arrOf (er_safety r)). \<not> severe x) \<and> (\<forall>y \<in> set (ef_resourceConstraintResults f). cr_passed y)
    \<and> er_verdict r = JStr ''pass''"
  using qualified_facts [OF assms] by blast

theorem qualified_sound_witness:
  "ef_qualified exFacts \<and> (\<exists>a \<in> set (arrOf (er_protected exResults)). numOf (fld ''failed'' a) = jint 0) \<and> er_verdict exResults = JStr ''pass''"
proof -
  have q: "ef_qualified exFacts" by (simp add: exFacts_def)
  have "exRequirement \<in> set (specReqs exSpec)" by (simp add: exSpec_lists)
  with qualified_sound [OF exRecompute q] q show ?thesis by blast
qed

text \<open>
  C38: what the evaluation runtime produces the kernel accepts: the bundle of a run of the
  frozen plan passes the kernel's independent recomputation, which arrives at the same
  score and the same verdict.
\<close>

theorem runtime_bundle_recomputes:
  assumes "runFrozenPlan rt i phase = Inr ev" "goodWeights (fld ''eval_spec'' (ei_blueprint i))"
    and "\<forall>x \<in> set (arrOf (fld ''safety_observations'' ev)). plain (JArr (arrOf (fld ''evidence_refs'' x)))"
  shows "\<exists>f. assertEvaluationEvidenceFacts ck (ei_request i) (fld ''eval_spec'' (ei_blueprint i)) ev
      (ei_baseline_version i \<noteq> JNull) = Inr f
    \<and> fld ''gate_score'' ev = JNum (ef_gateScore f) \<and> fld ''qualified'' ev = JBool (ef_qualified f)"
  using assms by (rule runtime_bundle_accepted)

theorem runtime_bundle_recomputes_witness:
  "\<exists>ev f. runFrozenPlan exRuntime exInput ''evaluate'' = Inr ev
    \<and> assertEvaluationEvidenceFacts (\<lambda>s. s) exRequest exSpec ev False = Inr f \<and> fld ''qualified'' ev = JBool (ef_qualified f)"
proof -
  let ?ev = "evidenceBundle exRuntime exInput ''evaluate'' [exResult] [(exAggregate, ''receipt:privacy'')] (JNull, JNull, [])
    exObservations exReview ''execution:evaluate'' (ef_gateResults exFacts) exFacts exFrozenDigest"
  have s: "fld ''eval_spec'' (ei_blueprint exInput) = exSpec" "ei_request exInput = exRequest" "ei_baseline_version exInput = JNull"
    by (simp_all add: exInput_def exBlueprintDoc_def exSpec_fld(9))
  have w: "goodWeights (fld ''eval_spec'' (ei_blueprint exInput))" unfolding s(1) by (rule exSpec_weights)
  have o: "arrOf (fld ''safety_observations'' ?ev) = []" by (simp add: evidenceBundle_fld exObservations_def arrOf_def)
  from runtime_bundle_recomputes [OF exRun_plan w, of "\<lambda>s. s"] exRun_plan show ?thesis unfolding s o by auto
qed

section \<open>Runs, targets and versions\<close>

text \<open>
  A target has one unfinished run: two runs of the store that are both unfinished and
  aim at the same agent and domain are the same run.
\<close>

theorem one_unfinished_run:
  assumes "storeInv s" "map_of (es_runs s) r = Some es" "map_of (es_runs s) r' = Some es'"
    and "\<not> chainTerminal es" "\<not> chainTerminal es'" "chainTarget es = chainTarget es'"
  shows "r = r'"
  using assms by (rule one_active_run)

theorem one_unfinished_run_witness:
  "map_of (es_runs (wd_events (exWorld [] []))) ''run-1'' = Some (exChain [])
   \<and> \<not> (\<exists>es. map_of (es_runs (wd_events (exWorld [] []))) ''run-2'' = Some es \<and> \<not> chainTerminal es
         \<and> chainTarget (exChain []) = chainTarget es)"
proof
  have s: "storeInv (wd_events (exWorld [] []))" using exStarted(4) by (simp add: worldInv_def)
  show m: "map_of (es_runs (wd_events (exWorld [] []))) ''run-1'' = Some (exChain [])" by simp
  have t: "\<not> chainTerminal (exChain [])" using exNone_good(3) by (simp add: exChain_terminal isTerminal_def FOUNDRY_TERMINAL_STATES_def)
  show "\<not> (\<exists>es. map_of (es_runs (wd_events (exWorld [] []))) ''run-2'' = Some es \<and> \<not> chainTerminal es
         \<and> chainTarget (exChain []) = chainTarget es)"
    using one_unfinished_run [OF s m, of "''run-2''"] t by auto
qed

text \<open>
  C40: the activation compare-and-swap implements an append-only log: for a version the
  registry knows and a binding that verifies, it appends at the expected revision, answers
  a replay of a recorded entry with the log unchanged, and refuses a conflicting replay, a
  stale revision and a rollback to the active or to a never active version.
\<close>

theorem activation_refines_log:
  assumes "regStateInv st" "find (\<lambda>v. av_version_digest v = ai_version_digest i) (rg_versions st) = Some v"
    and "list_all fst (assertActivationRuntimeBindingVerification (ai_binding i) (ai_kind i) (ai_expected_revision i) v)"
    and "0 \<le> ai_expected_revision i" "ai_expected_revision i < 2 ^ 53"
  shows "mapE (\<lambda>r. absHistory (fst r)) (activateState st i) = specActivate (absHistory st) (ai_expected_revision i) (absAct i)"
  using assms by (rule activate_refines)

theorem activation_refines_log_witness:
  "\<exists>i. mapE (\<lambda>r. absHistory (fst r)) (activateState (regState exRegistry ''agent'' ''domain'') i) = Inr [absAct i]"
proof -
  let ?st = "regState exRegistry ''agent'' ''domain''"
  have res: "resolveVersion exRegistry (Some (av_version_digest exVersion)) (av_target_agent_id exVersion) (av_target_domain_id exVersion) = Some exVersion"
    using exRegistry_facts(1) exVersion_facts(2, 3) by simp
  obtain p where p: "memoryPreflight exRegistry Activate_Tx exVersion 0 = Inr p" using memoryPreflight_total [OF res, of 0] by auto
  define i where "i = \<lparr> ai_kind = Activate_Tx, ai_target_agent_id = ''agent'', ai_target_domain_id = ''domain'',
    ai_expected_revision = 0, ai_version_digest = av_version_digest exVersion, ai_occurred_at = exTime, ai_receipt = None,
    ai_binding = buildRuntimeBindingVerification p \<rparr>"
  have st: "regStateInv ?st" using exRegistry_inv by (simp add: registryInv_def)
  have f: "find (\<lambda>v. av_version_digest v = ai_version_digest i) (rg_versions ?st) = Some exVersion"
    using exRegister by (auto simp: listVersions_def i_def)
  have b: "list_all fst (assertActivationRuntimeBindingVerification (ai_binding i) (ai_kind i) (ai_expected_revision i) exVersion)"
    using built_binding_ok [OF memoryPreflight_ok(1) [OF p]] by (simp add: i_def)
  have h: "absHistory ?st = []" using exRegistry_facts(4) by (simp add: activationHistory_def)
  have "mapE (\<lambda>r. absHistory (fst r)) (activateState ?st i) = specActivate [] 0 (absAct i)"
    using activation_refines_log [OF st f b] by (simp add: h i_def)
  then show ?thesis by (intro exI [of _ i]) (simp add: specActivate_def absAct_def i_def)
qed

section \<open>Stage quality cycles\<close>

text \<open>
  C12: a quality cycle keeps its invariant under every sequence of events it accepts, and
  the repair rounds it has used are the repairs it accepted: never more than its limit,
  which is at most three.
\<close>

theorem cycle_within_rounds:
  assumes "initialStageQualityCycleState run cycle m b = Inr st0" "runCycle st0 es = Inr st"
  shows "wfCycle st \<and> qc_repair_rounds_used st = int (length (filter isRepair es))
    \<and> qc_repair_rounds_used st \<le> qc_max_repair_rounds st0 \<and> qc_max_repair_rounds st0 \<le> 3"
  using runCycle_wf [OF initialCycle_wf(1) [OF assms(1)] assms(2)] initialCycle_wf(1, 3) [OF assms(1)] by (simp add: wfCycle_def)

theorem cycle_within_rounds_witness:
  "\<exists>st. runCycle exCycle exCycleEvents = Inr st \<and> qc_status st = Cycle_Passed \<and> wfCycle st \<and> qc_repair_rounds_used st = 1"
proof -
  obtain st where r: "runCycle exCycle exCycleEvents = Inr st" "qc_status st = Cycle_Passed" using exCycle_run(2) by blast
  have "length (filter isRepair exCycleEvents) = 1" by (simp add: exCycleEvents_def)
  with cycle_within_rounds [OF exCycle_initial r(1)] r show ?thesis by auto
qed

text \<open>
  C13: a quality cycle whose reviews come when one is awaited ends: it accepts at most two
  events for each repair round and two more, and until then it can always be stopped.
\<close>

theorem cycle_ends:
  assumes "initialStageQualityCycleState run cycle m b = Inr st0" "inOrder st0 es"
  shows "int (length es) \<le> 2 * qc_max_repair_rounds st0 + 2 \<and> length es \<le> 8
    \<and> (\<exists>st. runCycle st0 es = Inr st \<and> (terminalStatus (qc_status st)
        \<or> (\<exists>e s. inOrder st [e] \<and> reduceStageQualityCycleState st e = Inr s \<and> terminalStatus (qc_status s))))"
proof -
  note w = initialCycle_wf [OF assms(1)]
  have l: "int (length es) \<le> 2 * qc_max_repair_rounds st0 + 2" using inOrder_bounded [OF w(1) assms(2)] w(2, 3) by (simp add: Let_def)
  moreover have "qc_max_repair_rounds st0 \<le> 3" using w(1) by (simp add: wfCycle_def)
  moreover obtain st where r: "runCycle st0 es = Inr st" using inOrder_runs [OF assms(2)] by blast
  moreover have "terminalStatus (qc_status st)
      \<or> (\<exists>e s. inOrder st [e] \<and> reduceStageQualityCycleState st e = Inr s \<and> terminalStatus (qc_status s))"
    using cycle_stops [of st] by blast
  ultimately show ?thesis by auto
qed

theorem cycle_ends_witness: "int (length exCycleEvents) \<le> 2 * qc_max_repair_rounds exCycle + 2"
  using cycle_ends [OF exCycle_initial exCycle_run(1)] by simp

text \<open>
  C15: a re-review may pass exactly when each required finding has a closure that closes
  it and there is neither a regression of the repair nor a critical new finding; and a
  re-review is judged at all only when repairs and closures name just the required
  findings.
\<close>

theorem re_review_pass_exact:
  assumes "evaluateStageQualityFindingClosure findings repairs review = Inr c"
  shows "(validateStageQualityReReviewOutcome Outcome_Pass c = Inr Outcome_Pass \<longleftrightarrow>
      (\<forall>i \<in> rawRequired findings. \<exists>k \<in> set (closuresOf review). rawId k = i \<and> fld ''status'' k = JStr ''closed'')
      \<and> arrOf (fld ''repair_regressions'' review) = [] \<and> arrOf (fld ''critical_new_findings'' review) = [])
    \<and> rawId ` set (arrOf repairs) = rawRequired findings \<and> rawId ` set (closuresOf review) = rawRequired findings"
  using no_trigger_iff [OF assms] closure_Inr(1, 2) [OF assms] reReview_pass [of c Outcome_Pass] by simp

theorem re_review_pass_exact_witness:
  "\<exists>k \<in> set (closuresOf (JObj (exClosureDoc ''closed''))). rawId k = ''f'' \<and> fld ''status'' k = JStr ''closed''"
proof -
  have c: "evaluateStageQualityFindingClosure exFindings exRepairs (JObj (exClosureDoc ''closed'')) = Inr exClosure"
    by (rule exClosure_ok) (simp_all add: exClosureDoc_def isRecord_def)
  have p: "validateStageQualityReReviewOutcome Outcome_Pass exClosure = Inr Outcome_Pass" by (simp add: reReview_pass exClosure_def)
  have f: "''f'' \<in> rawRequired exFindings" unfolding rawRequired_def exFindings_def image_iff
    by (auto simp: rawId_def arrOf_def)
  from re_review_pass_exact [OF c] p f show ?thesis by blast
qed

text \<open>
  C16: an accepted decision on the route is authorised: it comes alone, from an attempt
  whose role is one of the configured decisive roles, in a context made for that role and
  Stage; its target is a declared Stage exactly when it does not complete the run, it
  cites evidence, and the outcome of the attempt ends the Stage for its role.
\<close>

theorem route_decision_authorised:
  assumes "ev_decision (evaluateStageQualityAttemptRoute attempt x) = Some d"
  shows "\<exists>role stage. routeText (fld ''attempt_role'' attempt) = Some role \<and> routeText (fld ''stage_id'' attempt) = Some stage
    \<and> role \<in> set (decisiveRoles attempt) \<and> set (decisiveRoles attempt) \<in> {{''producer''}, {''reviewer'', ''re_reviewer''}}
    \<and> fld ''current_attempt_role'' (routeContext attempt) = JStr role \<and> stage \<in> set (declaredStages attempt)
    \<and> wfSelection (declaredStages attempt) False d \<and> endsStage role attempt (asRecord x) d
    \<and> \<not> hasOwn (asRecord x) ''stage_route_recommendation'' \<and> ev_recommendation (evaluateStageQualityAttemptRoute attempt x) = None"
proof -
  note d = decision_Some [OF assms]
  have w: "wfSelection (declaredStages attempt) False d" using normalizeSelection_Some(1) d(1) by (metis fst_conv)
  obtain role stage where r: "routeText (fld ''attempt_role'' attempt) = Some role" "routeText (fld ''stage_id'' attempt) = Some stage"
    "fld ''current_attempt_role'' (routeContext attempt) = JStr role" "stage \<in> set (declaredStages attempt)"
    "set (decisiveRoles attempt) \<in> {{''producer''}, {''reviewer'', ''re_reviewer''}}"
    using context_valid [OF d(4)] by blast
  from decision_ends_stage [OF d(5) r(1) w r(5)] r w d(3, 8) show ?thesis by blast
qed

theorem route_decision_authorised_witness: "endsStage ''re_reviewer'' exAttempt (asRecord (exImpact [])) exRoute"
  using route_decision_authorised [OF exRoute_evaluated] exContext(4) by auto

text \<open>
  C32: the sanitised output of an attempt is accepted as it is: the assertion passes on it
  with the decision and the recommendation of the original, no field of the old contract
  is left, and every other field is what it was.
\<close>

theorem sanitised_route_accepted:
  fixes attempt x
  defines "y \<equiv> sanitizeStageQualityAttemptRouteImpact attempt x"
  assumes "k \<notin> set ROUTE_FIELDS"
  shows "assertQualityAttemptTerminalRouteSelection attempt y = Inr (evaluateStageQualityAttemptRoute attempt y)
    \<and> ev_decision (evaluateStageQualityAttemptRoute attempt y) = ev_decision (evaluateStageQualityAttemptRoute attempt x)
    \<and> ev_recommendation (evaluateStageQualityAttemptRoute attempt y) = ev_recommendation (evaluateStageQualityAttemptRoute attempt x)
    \<and> selectedLegacyFields y = [] \<and> fld k y = fld k (asRecord x)"
  using sanitize_evaluate [of attempt x] sanitize_rest [OF assms(2), of attempt x]
  by (simp add: y_def assertQualityAttemptTerminalRouteSelection_def Let_def runChecks_ok)

theorem sanitised_route_accepted_witness:
  "fld ''stage_quality_cycle'' (sanitizeStageQualityAttemptRouteImpact exAttempt (exImpact [(''workflow_complete'', JBool True)]))
    = JObj ((''outcome'', JStr ''pass'') # exClosureDoc ''closed'')"
proof -
  have "''stage_quality_cycle'' \<notin> set ROUTE_FIELDS" by (simp add: ROUTE_FIELDS_def LEGACY_TERMINAL_ROUTE_FIELDS_def)
  from sanitised_route_accepted [OF this, of exAttempt "exImpact [(''workflow_complete'', JBool True)]"]
  show ?thesis by (simp add: exImpact_def asRecord_def isRecord_def)
qed

section \<open>Provider manifests\<close>

text \<open>
  C39: a normalised provider manifest is its own normal form, and each of its two
  operations has a closed Stage topology: distinct required Stages from the entry to the
  terminal one, and optional Stages apart from them.
\<close>

theorem provider_manifest_normal:
  assumes "normalizeFoundryProviderManifest v = Inr m" "p = pm_design m \<or> p = pm_diagnose m"
  shows "normalizeFoundryProviderManifest (manifestJson m) = Inr m \<and> pm_provider_id m = pm_agent_id m \<and> pm_provider_id m = pm_package_id m
    \<and> distinct (po_required_stage_refs p @ po_optional_stage_refs p) \<and> po_required_stage_refs p \<noteq> []
    \<and> hd (po_required_stage_refs p) = po_entry_stage_ref p \<and> last (po_required_stage_refs p) = po_terminal_stage_ref p"
proof -
  have w: "wfManifest m" by (rule normalizeManifest_Inr [OF assms(1)])
  then have "wfOperation p" using assms(2) by (auto simp: wfManifest_def)
  with w normalizeManifest_again [OF w] show ?thesis
    by (auto simp: wfManifest_def wfOperation_def topologyChecks_def manifestIdentityChecks_def list_all_iff)
qed

theorem provider_manifest_normal_witness:
  "normalizeFoundryProviderManifest (manifestJson (exProvider exInputs)) = Inr (exProvider exInputs)
   \<and> hd (po_required_stage_refs (pm_design (exProvider exInputs))) = ''a''"
proof -
  have "normalizeFoundryProviderManifest (manifestJson (exProvider exInputs)) = Inr (exProvider exInputs)"
    by (intro normalizeManifest_again exProvider_wf exInputs_ok refl)
  from provider_manifest_normal [OF this disjI1 [OF refl]] show ?thesis by (simp add: exProvider_def)
qed

section \<open>Review evidence\<close>

text \<open>
  C28: the depth first search of the evidence graph accepts exactly the acyclic graphs.
\<close>

theorem acyclic_graph_exact:
  assumes "ed_source ` set es \<subseteq> nd_ref ` set nodes"
  shows "requireAcyclicGraph nodes es = Inr () \<longleftrightarrow> acyclic (dependsOn es)"
  using assms by (intro acyclic_exact) auto

theorem acyclic_graph_exact_witness:
  "requireAcyclicGraph exNodes exEdges = Inr () \<and> acyclic (dependsOn exEdges)"
  using exGraph acyclic_graph_exact [of exEdges exNodes] by (simp add: exNodes_def exEdges_def)

text \<open>
  C31: a review is stale exactly when a change invalidates it: a semantic change of a node
  of evidence, not of its locator or of review metadata, that a reviewed node depends on
  through the edges of an acyclic graph.  Every change is reported once, in order, as
  invalidating or as ignored.
\<close>

theorem review_current_exact:
  assumes "evaluateEpistemicReviewCurrentness scope changes = Inr e"
  shows "\<exists>s cs. normalizeEpistemicReviewScope scope = Inr s \<and> wfScope s \<and> mapIndexed normalizeChange (arrOf changes) = Inr cs
    \<and> (cu_stale e \<longleftrightarrow> (\<exists>c \<in> set cs. invalidates s c))
    \<and> cu_invalidating e = filter (invalidates s) cs \<and> map fst (cu_ignored e) = filter (\<lambda>c. \<not> invalidates s c) cs"
  by (rule currentness_Inr [OF assms]) (use normalizeScope_Inr in blast)

theorem review_current_exact_witness:
  "\<exists>e. evaluateEpistemicReviewCurrentness exScope exChanges = Inr e \<and> cu_invalidating e \<noteq> []
     \<and> wfScope exReviewScope \<and> (invalidates exReviewScope (exChange ''a'' ''data'') \<or> invalidates exReviewScope (exChange ''e'' ''context''))"
proof -
  obtain e where e: "evaluateEpistemicReviewCurrentness exScope exChanges = Inr e" "cu_stale e" using exReviewScope_stale by blast
  from review_current_exact [OF e(1)] e(2) have "cu_invalidating e \<noteq> [] \<and> wfScope exReviewScope
      \<and> (invalidates exReviewScope (exChange ''a'' ''data'') \<or> invalidates exReviewScope (exChange ''e'' ''context''))"
    by (auto simp: exScope_reads exChanges_read filter_empty_conv)
  with e(1) show ?thesis by blast
qed

section \<open>Stage runs\<close>

text \<open>
  C23: a stage run is shown as accepted only by its owner: the read model gives the status
  \<open>domain_accepted\<close> only when an event of the run reports the owner's receipt, comes from the
  domain owner or names no producer, is bound to the run's current pointer where it carries
  one, belongs to the highest generation of the run, and is followed in that generation by
  no later event that bears a status.
\<close>

theorem stage_accepted_by_owner:
  assumes "rebuildStageRunReadModel ck events = Inr model" "p \<in> set model" "pj_status p = Some Run_Domain_Accepted"
  shows "\<exists>es e. seqE (map stageRunEvent events) = Inr es \<and> e \<in> set es \<and> runOf e = pj_stage_run_id p
    \<and> eventKindOf e = ''owner_receipt_observed'' \<and> (producerRole e = None \<or> producerRole e = Some ''domain_owner'') \<and> currentPointerBindingIsValid e
    \<and> generationOf e = pj_observed_generation p \<and> (\<forall>x \<in> set es. runOf x = runOf e \<longrightarrow> generationOf x \<le> generationOf e)
    \<and> (\<forall>x \<in> set es. runOf x = runOf e \<and> generationOf x = generationOf e \<and> timeKey ck e < timeKey ck x \<longrightarrow> \<not> bearsStatus x)"
  using assms by (rule accepted_by_owner)

theorem stage_accepted_by_owner_witness:
  "\<exists>p e. rebuildStageRunReadModel (\<lambda>s. s) exStageEvents = Inr [p] \<and> e \<in> set exStageEvents \<and> eventKindOf e = ''owner_receipt_observed''
     \<and> runOf e = pj_stage_run_id p \<and> generationOf e = pj_observed_generation p"
proof -
  obtain p where p: "rebuildStageRunReadModel (\<lambda>s. s) exStageEvents = Inr [p]" "pj_status p = Some Run_Domain_Accepted"
    using exStage_accepted by blast
  have "p \<in> set [p]" by simp
  from stage_accepted_by_owner [OF p(1) this p(2)] show ?thesis using p(1) by (auto simp: exEvents_read)
qed

text \<open>
  C27: the read model does not depend on the order in which the events are read: where times
  and identifiers tell the events of a run apart and the collation tells the runs apart,
  any arrangement of the same events gives the same projections in the same order.
\<close>

theorem read_model_order_free:
  assumes "seqE (map stageRunEvent events) = Inr es" "clearOrder ck es" "mset events' = mset events"
  shows "rebuildStageRunReadModel ck events' = rebuildStageRunReadModel ck events"
  using assms by (rule rebuild_perm)

theorem read_model_order_free_witness:
  "\<exists>p. rebuildStageRunReadModel (\<lambda>s. s) (rev exStageEvents) = Inr [p] \<and> pj_status p = Some Run_Domain_Accepted"
  using read_model_order_free [OF exEvents_read exEvents_clear mset_rev] exStage_accepted by auto

end
